(* ===== verification/Py_Prelude.thy ===== *)
theory Py_Prelude
  imports Main
begin

text \<open>
  The part of Python the scripts of the repository use, as HOL functions shared by every
  component: exceptions as values of a sum type, the string methods (\<open>find\<close>, slicing,
  \<open>strip\<close>, \<open>split\<close>, \<open>splitlines\<close>), the integer constructor \<open>int()\<close>, the format
  specification \<open>0{w}b\<close>, decimal printing, and dictionaries that remember the order in
  which their keys were first inserted.

  Text is a \<open>string\<close> of ASCII characters, as the files the scripts read are; a file is
  its text after Python's newline translation. Python integers are \<open>int\<close>.
\<close>

named_theorems py_simps \<open>unfolding rules for the Python run-time\<close>

section \<open>Exceptions\<close>

datatype py_error =
    AssertionError string
  | FileNotFoundError
  | IndexError
  | KeyError
  | TypeError
  | ValueError
  | ZeroDivisionError

type_synonym 'a py = "py_error + 'a"

definition bind_py :: "'a py \<Rightarrow> ('a \<Rightarrow> 'b py) \<Rightarrow> 'b py" where
  "bind_py m f = (case m of Inl e \<Rightarrow> Inl e | Inr x \<Rightarrow> f x)"

fun map_py :: "('a \<Rightarrow> 'b py) \<Rightarrow> 'a list \<Rightarrow> 'b list py" where
  "map_py f [] = Inr []"
| "map_py f (x # xs) = bind_py (f x) (\<lambda>y. bind_py (map_py f xs) (\<lambda>ys. Inr (y # ys)))"

definition py_index :: "'a list \<Rightarrow> nat \<Rightarrow> 'a py" where
  "py_index xs i = (if i < length xs then Inr (xs ! i) else Inl IndexError)"

lemma bind_py_simps [simp, py_simps]:
  "bind_py (Inl e) f = Inl e"
  "bind_py (Inr x) f = f x"
  by (simp_all add: bind_py_def)

lemma bind_py_eq_Inr [simp]:
  "bind_py m f = Inr y \<longleftrightarrow> (\<exists>x. m = Inr x \<and> f x = Inr y)"
  by (cases m) auto

lemma bind_py_eq_Inl [simp]:
  "bind_py m f = Inl e \<longleftrightarrow> m = Inl e \<or> (\<exists>x. m = Inr x \<and> f x = Inl e)"
  by (cases m) auto

lemma py_index_simps [simp, py_simps]:
  "py_index [] i = Inl IndexError"
  "py_index (x # xs) 0 = Inr x"
  "py_index (x # xs) (Suc i) = py_index xs i"
  by (simp_all add: py_index_def)

lemma py_index_one [simp, py_simps]: "py_index (x # xs) 1 = py_index xs 0"
  by (simp add: py_index_def)

lemma py_index_eq_Inr: "py_index xs i = Inr x \<longleftrightarrow> i < length xs \<and> xs ! i = x"
  by (simp add: py_index_def)

lemma map_py_eq_Inr: "map_py f xs = Inr ys \<longleftrightarrow> list_all2 (\<lambda>x y. f x = Inr y) xs ys"
proof (induction xs arbitrary: ys)
  case Nil
  show ?case by auto
next
  case (Cons x xs)
  show ?case by (cases ys) (auto simp: Cons.IH)
qed

lemma map_py_ok: "(\<And>x. x \<in> set xs \<Longrightarrow> f x = Inr (g x)) \<Longrightarrow> map_py f xs = Inr (map g xs)"
  by (induction xs) auto

lemma map_py_length: "map_py f xs = Inr ys \<Longrightarrow> length ys = length xs"
  by (auto simp: map_py_eq_Inr dest: list_all2_lengthD)

lemma map_py_set: "map_py f xs = Inr ys \<Longrightarrow> y \<in> set ys \<Longrightarrow> \<exists>x \<in> set xs. f x = Inr y"
proof (induction xs arbitrary: ys)
  case Nil
  then show ?case by simp
next
  case (Cons x xs)
  then show ?case by auto
qed

text \<open>The first failing element decides the exception.\<close>

lemma map_py_error:
  assumes "map_py f us = Inr vs" and "f x = Inl e"
  shows "map_py f (us @ x # xs) = Inl e"
  using assms(1)
proof (induction us arbitrary: vs)
  case Nil
  show ?case using assms(2) by simp
next
  case (Cons u us)
  then show ?case by auto
qed

lemma map_py_Inl: "map_py f xs = Inl e \<Longrightarrow> \<exists>x \<in> set xs. f x = Inl e"
  by (induction xs) auto

lemma map_py_error_iff:
  "(\<exists>e. map_py f xs = Inl e) \<longleftrightarrow> (\<exists>x \<in> set xs. \<exists>e. f x = Inl e)"
proof (induction xs)
  case Nil
  show ?case by simp
next
  case (Cons x xs)
  then show ?case by (cases "f x"; cases "map_py f xs") auto
qed

section \<open>Strings\<close>

subsection \<open>Searching and slicing\<close>

fun starts_with :: "string \<Rightarrow> string \<Rightarrow> bool" where
  "starts_with [] s = True"
| "starts_with (p # ps) [] = False"
| "starts_with (p # ps) (c # cs) = (p = c \<and> starts_with ps cs)"

text \<open>\<open>s.find(sub)\<close>: the least index at which \<open>sub\<close> occurs, \<open>-1\<close> when it does not.\<close>

fun find_sub :: "string \<Rightarrow> string \<Rightarrow> nat option" where
  "find_sub sub [] = (if sub = [] then Some 0 else None)"
| "find_sub sub (c # cs) =
     (if starts_with sub (c # cs) then Some 0 else map_option Suc (find_sub sub cs))"

definition py_find :: "string \<Rightarrow> string \<Rightarrow> int" where
  "py_find s sub = (case find_sub sub s of None \<Rightarrow> - 1 | Some i \<Rightarrow> int i)"

lemma starts_with_append [simp]: "starts_with p (p @ s)"
  by (induction p) auto

lemma starts_with_iff: "starts_with p s \<longleftrightarrow> (\<exists>t. s = p @ t)"
  by (induction p s rule: starts_with.induct) auto

lemma find_sub_None: "find_sub sub s = None \<longleftrightarrow> \<not> (\<exists>a b. s = a @ sub @ b)"
proof (induction s)
  case Nil
  show ?case by auto
next
  case (Cons c cs)
  show ?case
  proof (cases "starts_with sub (c # cs)")
    case True
    then obtain t where "c # cs = sub @ t" by (auto simp: starts_with_iff)
    then have "c # cs = [] @ sub @ t" by simp
    with True show ?thesis by (metis find_sub.simps(2) option.distinct(1))
  next
    case False
    have "(\<exists>a b. c # cs = a @ sub @ b) \<longleftrightarrow> (\<exists>a b. cs = a @ sub @ b)"
    proof
      assume "\<exists>a b. c # cs = a @ sub @ b"
      then obtain a b where e: "c # cs = a @ sub @ b" by blast
      with False have "a \<noteq> []" by (auto simp: starts_with_iff)
      with e show "\<exists>a b. cs = a @ sub @ b" by (cases a) auto
    next
      assume "\<exists>a b. cs = a @ sub @ b"
      then show "\<exists>a b. c # cs = a @ sub @ b" by (metis append_Cons)
    qed
    with False Cons.IH show ?thesis by simp
  qed
qed

lemma find_sub_Some: "find_sub sub s = Some i \<Longrightarrow> s = take i s @ sub @ drop (i + length sub) s"
proof (induction s arbitrary: i)
  case Nil
  then show ?case by (auto split: if_splits)
next
  case (Cons c cs)
  show ?case
  proof (cases "starts_with sub (c # cs)")
    case True
    with Cons.prems have "i = 0" by simp
    moreover obtain t where t: "c # cs = sub @ t" using True by (auto simp: starts_with_iff)
    ultimately show ?thesis by simp
  next
    case False
    with Cons.prems obtain j where "find_sub sub cs = Some j" and "i = Suc j" by auto
    with Cons.IH show ?thesis by fastforce
  qed
qed

lemma starts_with_length: "starts_with p s \<Longrightarrow> length p \<le> length s"
  by (auto simp: starts_with_iff)

lemma find_sub_Some_less: "find_sub sub s = Some i \<Longrightarrow> i + length sub \<le> length s"
proof (induction s arbitrary: i)
  case Nil
  then show ?case by (auto split: if_splits)
next
  case (Cons c cs)
  then show ?case
    by (auto split: if_splits dest: starts_with_length)
qed

text \<open>The first occurrence is found even when the text before it is arbitrary.\<close>

lemma find_sub_exists: "\<exists>i. find_sub sub (a @ sub @ b) = Some i \<and> i \<le> length a"
proof (induction a)
  case Nil
  have "starts_with sub (sub @ b)" by simp
  then show ?case by (cases "sub @ b") auto
next
  case (Cons c a)
  then obtain i where "find_sub sub (a @ sub @ b) = Some i" and "i \<le> length a" by blast
  then show ?case by auto
qed

subsection \<open>\<open>strip\<close> and \<open>split\<close>\<close>

definition char_code :: "char \<Rightarrow> nat" where
  "char_code c = of_char c"

text \<open>ASCII white space for \<open>str.strip\<close> (it includes the separators 28 to 31) and for
  \<open>int()\<close>.\<close>

definition is_space :: "char \<Rightarrow> bool" where
  "is_space c = (let n = char_code c in (9 \<le> n \<and> n \<le> 13) \<or> (28 \<le> n \<and> n \<le> 32))"

definition is_int_space :: "char \<Rightarrow> bool" where
  "is_int_space c = (let n = char_code c in (9 \<le> n \<and> n \<le> 13) \<or> n = 32)"

definition py_strip :: "string \<Rightarrow> string" where
  "py_strip s = rev (dropWhile is_space (rev (dropWhile is_space s)))"

text \<open>\<open>s.split(sep)\<close> for a separator \<open>sep = d # ds\<close>: the field read so far is an
  accumulator, kept in reverse.\<close>

fun split_acc :: "char \<Rightarrow> string \<Rightarrow> string \<Rightarrow> string \<Rightarrow> string list" where
  "split_acc d ds acc [] = [rev acc]"
| "split_acc d ds acc (c # cs) =
     (if starts_with (d # ds) (c # cs)
      then rev acc # split_acc d ds [] (drop (length ds) cs)
      else split_acc d ds (c # acc) cs)"

definition py_split :: "string \<Rightarrow> string \<Rightarrow> string list py" where
  "py_split s sep = (case sep of [] \<Rightarrow> Inl ValueError | d # ds \<Rightarrow> Inr (split_acc d ds [] s))"

abbreviation py_split_on :: "string \<Rightarrow> char \<Rightarrow> string \<Rightarrow> string list" where
  "py_split_on s d ds \<equiv> split_acc d ds [] s"

lemma split_acc_nonempty [simp]: "split_acc d ds acc s \<noteq> []"
  by (induction d ds acc s rule: split_acc.induct) auto

text \<open>Joining the fields with the separator gives the text back.\<close>

fun join_sep :: "string \<Rightarrow> string list \<Rightarrow> string" where
  "join_sep sep [] = []"
| "join_sep sep [x] = x"
| "join_sep sep (x # y # xs) = x @ sep @ join_sep sep (y # xs)"

lemma join_sep_Cons: "xs \<noteq> [] \<Longrightarrow> join_sep sep (x # xs) = x @ sep @ join_sep sep xs"
  by (cases xs) auto

lemma join_split_acc: "join_sep (d # ds) (split_acc d ds acc s) = rev acc @ s"
proof (induction d ds acc s rule: split_acc.induct)
  case (1 d ds acc)
  show ?case by simp
next
  case (2 d ds acc c cs)
  show ?case
  proof (cases "starts_with (d # ds) (c # cs)")
    case True
    then obtain t where t: "c # cs = d # ds @ t" by (auto simp: starts_with_iff)
    have "join_sep (d # ds) (split_acc d ds [] (drop (length ds) cs)) = drop (length ds) cs"
      using "2.IH"(1) [OF True] by simp
    with True t show ?thesis by (simp add: join_sep_Cons)
  next
    case False
    with "2.IH"(2) [OF False] show ?thesis by auto
  qed
qed

lemma join_split: "join_sep (d # ds) (py_split_on s d ds) = s"
  by (simp add: join_split_acc)

text \<open>There is one field exactly when the separator does not occur.\<close>

lemma split_acc_one_field: "length (split_acc d ds acc s) = 1 \<longleftrightarrow> find_sub (d # ds) s = None"
proof (induction d ds acc s rule: split_acc.induct)
  case (1 d ds acc)
  show ?case by simp
next
  case (2 d ds acc c cs)
  show ?case
  proof (cases "starts_with (d # ds) (c # cs)")
    case False
    then show ?thesis using "2.IH"(2) [OF False] by auto
  qed simp
qed

text \<open>A text without the first character of the separator is one field; a field that ends
  at a separator is split off.\<close>

lemma split_acc_plain: "d \<notin> set s \<Longrightarrow> split_acc d ds acc s = [rev acc @ s]"
  by (induction s arbitrary: acc) auto

lemma split_acc_field:
  "d \<notin> set u \<Longrightarrow> split_acc d ds acc (u @ d # ds @ s) = (rev acc @ u) # split_acc d ds [] s"
proof (induction u arbitrary: acc)
  case Nil
  show ?case by simp
next
  case (Cons c u)
  then show ?case by simp
qed

lemma split_acc_field1:
  "d \<notin> set u \<Longrightarrow> split_acc d [] acc (u @ d # s) = (rev acc @ u) # split_acc d [] [] s"
  using split_acc_field [of d u "[]" acc s] by simp

lemma split_acc_field2:
  "d \<notin> set u \<Longrightarrow> split_acc d [e] acc (u @ d # e # s) = (rev acc @ u) # split_acc d [e] [] s"
  using split_acc_field [of d u "[e]" acc s] by simp

lemma split_on_field:
  "d \<notin> set u \<Longrightarrow> py_split_on (u @ d # ds @ s) d ds = u # py_split_on s d ds"
  by (simp add: split_acc_field)

text \<open>For a one-character separator the number of fields is one more than the number of
  separators.\<close>

lemma length_split_single: "length (split_acc d [] acc s) = Suc (count_list s d)"
  by (induction s arbitrary: acc) auto

subsection \<open>Lines\<close>

abbreviation newline :: char where
  "newline \<equiv> CHR 0x0A"

text \<open>\<open>file.readlines()\<close> keeps the newline at the end of each line.\<close>

fun readlines_acc :: "string \<Rightarrow> string \<Rightarrow> string list" where
  "readlines_acc acc [] = (if acc = [] then [] else [rev acc])"
| "readlines_acc acc (c # cs) =
     (if c = newline then rev (c # acc) # readlines_acc [] cs else readlines_acc (c # acc) cs)"

definition readlines :: "string \<Rightarrow> string list" where
  "readlines s = readlines_acc [] s"

text \<open>\<open>s.splitlines()\<close> drops the line boundaries, of which ASCII has seven.\<close>

definition is_linebreak :: "char \<Rightarrow> bool" where
  "is_linebreak c = (let n = char_code c in (10 \<le> n \<and> n \<le> 13) \<or> (28 \<le> n \<and> n \<le> 30))"

fun splitlines_acc :: "string \<Rightarrow> string \<Rightarrow> string list" where
  "splitlines_acc acc [] = (if acc = [] then [] else [rev acc])"
| "splitlines_acc acc (c # cs) =
     (if c = CHR 0x0D \<and> starts_with [newline] cs then rev acc # splitlines_acc [] (tl cs)
      else if is_linebreak c then rev acc # splitlines_acc [] cs
      else splitlines_acc (c # acc) cs)"

definition splitlines :: "string \<Rightarrow> string list" where
  "splitlines s = splitlines_acc [] s"

text \<open>The text of a file whose lines are \<open>ls\<close>, each ended by a newline.\<close>

definition unlines :: "string list \<Rightarrow> string" where
  "unlines ls = concat (map (\<lambda>l. l @ [newline]) ls)"

lemma unlines_simps [simp]:
  "unlines [] = []"
  "unlines (l # ls) = l @ newline # unlines ls"
  "unlines (ls @ ms) = unlines ls @ unlines ms"
  by (simp_all add: unlines_def)

lemma concat_readlines_acc: "concat (readlines_acc acc s) = rev acc @ s"
  by (induction acc s rule: readlines_acc.induct) auto

lemma concat_readlines: "concat (readlines s) = s"
  by (simp add: readlines_def concat_readlines_acc)

lemma readlines_acc_line:
  "newline \<notin> set l \<Longrightarrow>
   readlines_acc acc (l @ newline # s) = (rev acc @ l @ [newline]) # readlines_acc [] s"
  by (induction l arbitrary: acc) auto

lemma readlines_unlines:
  "\<forall>l \<in> set ls. newline \<notin> set l \<Longrightarrow> readlines (unlines ls) = map (\<lambda>l. l @ [newline]) ls"
  by (induction ls) (auto simp: readlines_def readlines_acc_line)

lemma newline_linebreak [simp]: "is_linebreak newline"
  by (simp add: is_linebreak_def char_code_def)

lemma not_linebreak_CR: "\<not> is_linebreak c \<Longrightarrow> c \<noteq> CHR 0x0D \<and> c \<noteq> newline"
  by (auto simp: is_linebreak_def char_code_def)

lemma splitlines_acc_line:
  "\<forall>c \<in> set l. \<not> is_linebreak c \<Longrightarrow>
   splitlines_acc acc (l @ newline # s) = (rev acc @ l) # splitlines_acc [] s"
  by (induction l arbitrary: acc) (auto dest: not_linebreak_CR)

lemma splitlines_unlines:
  "\<forall>l \<in> set ls. \<forall>c \<in> set l. \<not> is_linebreak c \<Longrightarrow> splitlines (unlines ls) = ls"
  by (induction ls) (auto simp: splitlines_def splitlines_acc_line)

lemma split_newline_unlines:
  "\<forall>l \<in> set ls. newline \<notin> set l \<Longrightarrow> py_split_on (unlines ls) newline [] = ls @ [[]]"
  by (induction ls) (auto simp: split_acc_field1)

section \<open>Numbers as text\<close>

subsection \<open>Decimal: \<open>int(s)\<close> and \<open>str(n)\<close>\<close>

definition is_digit :: "char \<Rightarrow> bool" where
  "is_digit c = (let n = char_code c in 48 \<le> n \<and> n \<le> 57)"

definition digit_val :: "char \<Rightarrow> nat" where
  "digit_val c = char_code c - 48"

text \<open>Digits after the first one; a single underscore may stand between two digits.\<close>

fun digits_rest :: "nat \<Rightarrow> string \<Rightarrow> nat option" where
  "digits_rest v [] = Some v"
| "digits_rest v (c # cs) =
     (if is_digit c then digits_rest (10 * v + digit_val c) cs
      else if c = CHR ''_'' then
        (case cs of [] \<Rightarrow> None
         | d # ds \<Rightarrow> if is_digit d then digits_rest (10 * v + digit_val d) ds else None)
      else None)"

fun digits_all :: "string \<Rightarrow> nat option" where
  "digits_all [] = None"
| "digits_all (c # cs) = (if is_digit c then digits_rest (digit_val c) cs else None)"

definition strip_int :: "string \<Rightarrow> string" where
  "strip_int s = rev (dropWhile is_int_space (rev (dropWhile is_int_space s)))"

definition py_int :: "string \<Rightarrow> int py" where
  "py_int s =
     (let t = strip_int s;
          (sgn, u) = (case t of [] \<Rightarrow> (1, [])
                      | c # cs \<Rightarrow> if c = CHR ''-'' then (- 1, cs)
                                else if c = CHR ''+'' then (1, cs) else (1, t))
      in case digits_all u of None \<Rightarrow> Inl ValueError | Some n \<Rightarrow> Inr (sgn * int n))"

definition digit_char :: "nat \<Rightarrow> char" where
  "digit_char n = char_of (48 + n)"

fun dec_digits :: "nat \<Rightarrow> string" where
  "dec_digits n =
     (if n < 10 then [digit_char n] else dec_digits (n div 10) @ [digit_char (n mod 10)])"

declare dec_digits.simps [simp del]

definition py_str :: "int \<Rightarrow> string" where
  "py_str n = (if n < 0 then CHR ''-'' # dec_digits (nat (- n)) else dec_digits (nat n))"

lemma char_code_digit [simp]: "n < 10 \<Longrightarrow> char_code (digit_char n) = 48 + n"
  by (simp add: char_code_def digit_char_def of_char_of)

lemma digit_char_facts [simp]:
  assumes "n < 10"
  shows "is_digit (digit_char n)" and "digit_val (digit_char n) = n"
  using assms by (simp_all add: is_digit_def digit_val_def)

lemma is_digit_not_space [simp]: "is_digit c \<Longrightarrow> \<not> is_int_space c"
  by (auto simp: is_digit_def is_int_space_def Let_def)

lemma is_digit_not_break [simp]: "is_digit c \<Longrightarrow> \<not> is_linebreak c"
  by (auto simp: is_digit_def is_linebreak_def Let_def)

lemma digits_rest_append:
  "digits_rest v s = Some w \<Longrightarrow> digits_rest v (s @ t) = digits_rest w t"
proof (induction v s rule: digits_rest.induct)
  case (1 v)
  then show ?case by simp
next
  case (2 v c cs)
  then show ?case by (auto split: if_splits list.splits)
qed

lemma digits_all_append:
  "digits_all s = Some w \<Longrightarrow> digits_all (s @ t) = digits_rest w t"
  by (cases s) (auto simp: digits_rest_append split: if_splits)

lemma digits_all_dec: "digits_all (dec_digits n) = Some n"
proof (induction n rule: dec_digits.induct)
  case (1 n)
  show ?case
  proof (cases "n < 10")
    case True
    then show ?thesis by (simp add: dec_digits.simps [of n])
  next
    case False
    then have "digits_all (dec_digits n) = digits_rest (n div 10) [digit_char (n mod 10)]"
      using "1.IH" by (simp add: dec_digits.simps [of n] digits_all_append)
    then show ?thesis by simp
  qed
qed

lemma dec_digits_digits: "c \<in> set (dec_digits n) \<Longrightarrow> is_digit c"
proof (induction n rule: dec_digits.induct)
  case (1 n)
  then show ?case
    by (cases "n < 10") (auto simp: dec_digits.simps [of n])
qed

lemma dec_digits_nonempty [simp]: "dec_digits n \<noteq> []"
  by (subst dec_digits.simps) simp

lemma strip_int_id:
  assumes "s \<noteq> []" and "\<not> is_int_space (hd s)" and "\<not> is_int_space (last s)"
  shows "strip_int s = s"
proof -
  from assms have "dropWhile is_int_space s = s" by (cases s) auto
  moreover from assms have "dropWhile is_int_space (rev s) = rev s"
    by (cases s rule: rev_cases) auto
  ultimately show ?thesis by (simp add: strip_int_def)
qed

lemma dec_digits_hd: "is_digit (hd (dec_digits n))"
  by (rule dec_digits_digits [of _ n]) simp

lemma dec_digits_last: "is_digit (last (dec_digits n))"
  by (rule dec_digits_digits [of _ n]) simp

lemma not_digit_sign [simp]: "\<not> is_digit CHR ''-''" "\<not> is_digit CHR ''+''"
  by (simp_all add: is_digit_def char_code_def)

text \<open>Printing an integer and reading it back.\<close>

lemma py_int_nat: "py_int (dec_digits n) = Inr (int n)"
proof -
  obtain c cs where d: "dec_digits n = c # cs" by (cases "dec_digits n") auto
  then have c: "is_digit c" using dec_digits_hd [of n] by simp
  then have "c \<noteq> CHR ''-''" and "c \<noteq> CHR ''+''" using not_digit_sign by blast+
  moreover have "strip_int (dec_digits n) = dec_digits n"
    using dec_digits_hd [of n] dec_digits_last [of n] by (intro strip_int_id) auto
  ultimately show ?thesis
    using digits_all_dec [of n] d by (simp add: py_int_def)
qed

lemma py_int_str: "py_int (py_str n) = Inr n"
proof (cases "n < 0")
  case True
  have "\<not> is_int_space (CHR ''-'')" by (simp add: is_int_space_def char_code_def)
  then have "strip_int (py_str n) = py_str n"
    using True dec_digits_last [of "nat (- n)"] by (intro strip_int_id) (auto simp: py_str_def)
  with True show ?thesis by (simp add: py_int_def py_str_def digits_all_dec)
next
  case False
  then show ?thesis by (simp add: py_str_def py_int_nat)
qed

text \<open>What a printed integer does not contain.\<close>

lemma py_str_chars: "c \<in> set (py_str n) \<Longrightarrow> is_digit c \<or> c = CHR ''-''"
  by (auto simp: py_str_def dec_digits_digits split: if_splits)

lemma py_str_nonempty [simp]: "py_str n \<noteq> []"
  by (simp add: py_str_def)

lemma py_str_no_sep [simp]:
  "CHR '','' \<notin> set (py_str n)" "CHR '':'' \<notin> set (py_str n)" "newline \<notin> set (py_str n)"
proof -
  have "\<not> is_digit CHR '',''" "\<not> is_digit CHR '':''" "\<not> is_digit newline"
    by (simp_all add: is_digit_def char_code_def)
  then show "CHR '','' \<notin> set (py_str n)" "CHR '':'' \<notin> set (py_str n)"
    "newline \<notin> set (py_str n)"
    using py_str_chars by fastforce+
qed

lemma strip_pad:
  assumes "\<forall>c \<in> set a. is_space c" and "\<forall>c \<in> set b. is_space c"
    and "s \<noteq> []" and "\<not> is_space (hd s)" and "\<not> is_space (last s)"
  shows "py_strip (a @ s @ b) = s"
proof -
  have "dropWhile is_space (a @ s @ b) = s @ b"
    using assms by (cases s) (simp_all add: dropWhile_append2)
  moreover have "dropWhile is_space (rev b @ rev s) = rev s"
  proof -
    have "dropWhile is_space (rev b @ rev s) = dropWhile is_space (rev s)"
      using assms(2) by (intro dropWhile_append2) simp
    also have "\<dots> = rev s" using assms(3,5) by (cases s rule: rev_cases) auto
    finally show ?thesis .
  qed
  ultimately show ?thesis by (simp add: py_strip_def)
qed

lemma py_strip_nonempty: "\<not> is_space c \<Longrightarrow> py_strip (c # s) \<noteq> []"
  by (auto simp: py_strip_def dropWhile_eq_Nil_conv)

lemma py_str_not_space: "c \<in> set (py_str n) \<Longrightarrow> \<not> is_space c"
  using py_str_chars [of c n]
  by (auto simp: is_digit_def is_space_def char_code_def Let_def)

lemma py_strip_str [simp]: "\<forall>c \<in> set b. is_space c \<Longrightarrow> py_strip (py_str n @ b) = py_str n"
  using strip_pad [of "[]" b "py_str n"] by (simp add: py_str_not_space [of _ n])

lemma py_str_small: "py_str 0 = ''0''" "py_str 1 = ''1''" "py_str 2 = ''2''"
  by code_simp+

lemma py_strip_str' [simp]: "py_strip (py_str n) = py_str n"
  using py_strip_str [of "[]" n] by simp

subsection \<open>Binary: \<open>format(n, f'0{w}b')\<close>\<close>

definition bit_char :: "nat \<Rightarrow> char" where
  "bit_char n = (if n = 0 then CHR ''0'' else CHR ''1'')"

fun bin_digits :: "nat \<Rightarrow> string" where
  "bin_digits n =
     (if n < 2 then [bit_char n] else bin_digits (n div 2) @ [bit_char (n mod 2)])"

declare bin_digits.simps [simp del]

text \<open>The zero flag pads between the sign and the digits up to width \<open>w\<close>; a number that
  needs more digits is printed in full.\<close>

definition format_bin :: "nat \<Rightarrow> int \<Rightarrow> string" where
  "format_bin w n =
     (let sgn = (if n < 0 then [CHR ''-''] else []);
          ds = bin_digits (nat \<bar>n\<bar>)
      in sgn @ replicate (w - length sgn - length ds) CHR ''0'' @ ds)"

text \<open>Reading a string of bits, most significant first.\<close>

fun bits_acc :: "nat \<Rightarrow> string \<Rightarrow> nat" where
  "bits_acc v [] = v"
| "bits_acc v (c # cs) = bits_acc (2 * v + (if c = CHR ''1'' then 1 else 0)) cs"

definition bits_val :: "string \<Rightarrow> nat" where
  "bits_val s = bits_acc 0 s"

definition is_bits :: "string \<Rightarrow> bool" where
  "is_bits s = list_all (\<lambda>c. c = CHR ''0'' \<or> c = CHR ''1'') s"

lemma bits_acc_eq: "bits_acc v s = v * 2 ^ length s + bits_val s"
proof (induction s arbitrary: v)
  case Nil
  show ?case by (simp add: bits_val_def)
next
  case (Cons c cs)
  have "bits_val (c # cs) = (if c = CHR ''1'' then 1 else 0) * 2 ^ length cs + bits_val cs"
    using Cons.IH [of "if c = CHR ''1'' then 1 else 0"] by (simp add: bits_val_def)
  then show ?case
    using Cons.IH [of "2 * v + (if c = CHR ''1'' then 1 else 0)"] by (simp add: algebra_simps)
qed

lemma bits_acc_append: "bits_acc v (s @ t) = bits_acc (bits_acc v s) t"
  by (induction s arbitrary: v) auto

lemma bits_val_append: "bits_val (s @ t) = bits_val s * 2 ^ length t + bits_val t"
proof -
  have "bits_val (s @ t) = bits_acc (bits_val s) t"
    by (simp add: bits_val_def bits_acc_append)
  then show ?thesis by (simp only: bits_acc_eq)
qed

lemma bits_val_bit [simp]: "n < 2 \<Longrightarrow> bits_val [bit_char n] = n"
  by (auto simp: bits_val_def bit_char_def)

lemma bits_val_zeros [simp]: "bits_val (replicate k CHR ''0'') = 0"
  by (induction k) (auto simp: bits_val_def)

lemma bits_val_bound: "bits_val s < 2 ^ length s"
proof (induction s)
  case Nil
  show ?case by (simp add: bits_val_def)
next
  case (Cons c cs)
  have "bits_val (c # cs) \<le> 2 ^ length cs + bits_val cs"
    using bits_val_append [of "[c]" cs] by (auto simp: bits_val_def)
  with Cons.IH show ?case by simp
qed

lemma bits_val_bin_digits [simp]: "bits_val (bin_digits n) = n"
proof (induction n rule: bin_digits.induct)
  case (1 n)
  then show ?case
    by (cases "n < 2") (simp_all add: bin_digits.simps [of n] bits_val_append)
qed

lemma is_bits_simps [simp]:
  "is_bits []"
  "is_bits (s @ t) \<longleftrightarrow> is_bits s \<and> is_bits t"
  "is_bits (replicate k CHR ''0'')"
  "is_bits (c # s) \<longleftrightarrow> (c = CHR ''0'' \<or> c = CHR ''1'') \<and> is_bits s"
  by (auto simp: is_bits_def bit_char_def list_all_iff)

lemma bit_char_cases [simp]: "bit_char n = CHR ''0'' \<or> bit_char n = CHR ''1''"
  by (simp add: bit_char_def)

lemma is_bits_bin_digits [simp]: "is_bits (bin_digits n)"
proof (induction n rule: bin_digits.induct)
  case (1 n)
  then show ?case by (cases "n < 2") (simp_all add: bin_digits.simps [of n])
qed

lemma length_bin_digits_le: "0 < w \<Longrightarrow> n < 2 ^ w \<Longrightarrow> length (bin_digits n) \<le> w"
proof (induction n arbitrary: w rule: bin_digits.induct)
  case (1 n)
  show ?case
  proof (cases "n < 2")
    case True
    with "1.prems" show ?thesis by (simp add: bin_digits.simps [of n])
  next
    case False
    obtain v where v: "w = Suc v" using "1.prems"(1) by (cases w) auto
    have d: "n div 2 < 2 ^ v" using "1.prems"(2) v by auto
    have p: "0 < v" using False d by (cases v) auto
    have "length (bin_digits (n div 2)) \<le> v" using "1.IH" False p d by simp
    with False v show ?thesis by (simp add: bin_digits.simps [of n])
  qed
qed

lemma length_bin_digits_gt: "2 ^ w \<le> n \<Longrightarrow> w < length (bin_digits n)"
proof -
  assume "2 ^ w \<le> n"
  moreover have "n < 2 ^ length (bin_digits n)"
    using bits_val_bound [of "bin_digits n"] by simp
  ultimately have "(2::nat) ^ w < 2 ^ length (bin_digits n)" by (rule le_less_trans)
  then show ?thesis by simp
qed

lemma length_format_bin:
  "0 < w \<Longrightarrow> 0 \<le> n \<Longrightarrow> n < 2 ^ w \<Longrightarrow> length (format_bin w n) = w"
  using length_bin_digits_le [of w "nat n"]
  by (simp add: format_bin_def Let_def nat_less_iff)

lemma length_format_bin_wide:
  "0 \<le> n \<Longrightarrow> 2 ^ w \<le> n \<Longrightarrow> w < length (format_bin w n)"
  using length_bin_digits_gt [of w "nat n"]
  by (simp add: format_bin_def Let_def nat_le_iff le_nat_iff)

lemma bits_val_format_bin [simp]: "0 \<le> n \<Longrightarrow> bits_val (format_bin w n) = nat n"
  by (simp add: format_bin_def Let_def bits_val_append)

lemma is_bits_format_bin [simp]: "0 \<le> n \<Longrightarrow> is_bits (format_bin w n)"
  by (simp add: format_bin_def Let_def)

lemma linebreak_bit: "\<not> is_linebreak CHR ''0''" "\<not> is_linebreak CHR ''1''"
  by (simp_all add: is_linebreak_def char_code_def)

lemma is_bits_no_break: "is_bits s \<Longrightarrow> c \<in> set s \<Longrightarrow> \<not> is_linebreak c"
  using linebreak_bit unfolding is_bits_def list_all_iff by metis

section \<open>Fixed-width fields\<close>

text \<open>
  The interface between the scripts that write memory images and what reads them: a field
  is written in a fixed number of bits and read back from them. The client lemmas say how a
  field is cut out of a longer row.
\<close>

locale bit_field =
  fixes enc :: "int \<Rightarrow> string" and width :: nat
  assumes enc_length: "0 \<le> v \<Longrightarrow> v < 2 ^ width \<Longrightarrow> length (enc v) = width"
    and enc_val: "0 \<le> v \<Longrightarrow> v < 2 ^ width \<Longrightarrow> bits_val (enc v) = nat v"
    and enc_bits: "0 \<le> v \<Longrightarrow> v < 2 ^ width \<Longrightarrow> is_bits (enc v)"
begin

lemma enc_inj:
  assumes "0 \<le> v" "v < 2 ^ width" "0 \<le> w" "w < 2 ^ width" and "enc v = enc w"
  shows "v = w"
proof -
  from assms have "nat v = nat w" using enc_val by metis
  with assms show ?thesis by simp
qed

lemma cut_front:
  assumes "0 \<le> v" "v < 2 ^ width"
  shows "take width (enc v @ rest) = enc v" and "drop width (enc v @ rest) = rest"
  using assms by (simp_all add: enc_length)

lemma read_front:
  assumes "0 \<le> v" "v < 2 ^ width"
  shows "bits_val (take width (enc v @ rest)) = nat v"
  using assms by (simp add: enc_length enc_val)

end

text \<open>\<open>format(v, f'0{w}b')\<close> is such a field for every positive width.\<close>

lemma format_bin_field: "0 < w \<Longrightarrow> bit_field (format_bin w) w"
  by unfold_locales (simp_all add: length_format_bin)

section \<open>Dictionaries\<close>

text \<open>
  A Python dictionary iterates over its keys in the order of their first insertion, and
  assigning to a present key keeps its place. The interface is a locale; the instance the
  models use is an association list.
\<close>

fun dict_set :: "('k \<times> 'v) list \<Rightarrow> 'k \<Rightarrow> 'v \<Rightarrow> ('k \<times> 'v) list" where
  "dict_set [] k v = [(k, v)]"
| "dict_set ((k', v') # d) k v = (if k' = k then (k, v) # d else (k', v') # dict_set d k v)"

definition dict_get :: "('k \<times> 'v) list \<Rightarrow> 'k \<Rightarrow> 'v option" where
  "dict_get d k = map_of d k"

definition dict_keys :: "('k \<times> 'v) list \<Rightarrow> 'k list" where
  "dict_keys d = map fst d"

text \<open>Each element once, at its first place.\<close>

definition firsts :: "'a list \<Rightarrow> 'a list" where
  "firsts xs = rev (remdups (rev xs))"

lemma firsts_Nil [simp]: "firsts [] = []"
  by (simp add: firsts_def)

lemma firsts_snoc: "firsts (xs @ [x]) = (if x \<in> set xs then firsts xs else firsts xs @ [x])"
  by (simp add: firsts_def)

lemma set_firsts [simp]: "set (firsts xs) = set xs"
  by (simp add: firsts_def)

lemma distinct_firsts [simp]: "distinct (firsts xs)"
  by (simp add: firsts_def)

locale ordered_dict =
  fixes empty :: 'd
    and put :: "'d \<Rightarrow> 'k \<Rightarrow> 'v \<Rightarrow> 'd"
    and get :: "'d \<Rightarrow> 'k \<Rightarrow> 'v option"
    and keys :: "'d \<Rightarrow> 'k list"
  assumes get_empty: "get empty k = None"
    and get_put: "get (put d k v) k' = (if k' = k then Some v else get d k')"
    and keys_empty: "keys empty = []"
    and keys_put: "keys (put d k v) = (if k \<in> set (keys d) then keys d else keys d @ [k])"
begin

lemma keys_fold:
  "keys (foldl (\<lambda>d (k, v). put d k v) empty kvs) = firsts (map fst kvs)"
proof (induction kvs rule: rev_induct)
  case Nil
  show ?case by (simp add: keys_empty)
next
  case (snoc kv kvs)
  then show ?case by (simp add: keys_put firsts_snoc split: prod.split)
qed

lemma get_fold:
  "get (foldl (\<lambda>d (k, v). put d k v) empty kvs) k = map_of (rev kvs) k"
proof (induction kvs rule: rev_induct)
  case Nil
  show ?case by (simp add: get_empty)
next
  case (snoc kv kvs)
  then show ?case by (simp add: get_put split: prod.split)
qed

lemma keys_distinct: "distinct (keys (foldl (\<lambda>d (k, v). put d k v) empty kvs))"
  by (simp add: keys_fold)

end

lemma dict_get_set: "dict_get (dict_set d k v) k' = (if k' = k then Some v else dict_get d k')"
  by (induction d k v rule: dict_set.induct) (auto simp: dict_get_def)

lemma dict_keys_set:
  "dict_keys (dict_set d k v) = (if k \<in> set (dict_keys d) then dict_keys d else dict_keys d @ [k])"
  by (induction d k v rule: dict_set.induct) (auto simp: dict_keys_def)

interpretation alist_dict: ordered_dict "[]" dict_set dict_get dict_keys
  by unfold_locales (simp_all add: dict_get_set dict_keys_set, simp_all add: dict_get_def dict_keys_def)

lemma dict_get_keys: "(\<exists>v. dict_get d k = Some v) \<longleftrightarrow> k \<in> set (dict_keys d)"
  unfolding dict_get_def dict_keys_def
  by (metis domI domD dom_map_of_conv_image_fst list.set_map)

lemma distinct_dict_set: "distinct (dict_keys d) \<Longrightarrow> distinct (dict_keys (dict_set d k v))"
  by (simp add: dict_keys_set)

lemma dict_items_get:
  "distinct (dict_keys d) \<Longrightarrow> (k, v) \<in> set d \<longleftrightarrow> dict_get d k = Some v"
  by (simp add: dict_get_def dict_keys_def)

section \<open>Files\<close>

text \<open>
  The file system a script sees: the text of each file. Reading a file that is not there
  raises; a file opened for writing holds what was written before an exception stopped the
  script. A script run gives the new files and the exception it ended with, if any.
\<close>

type_synonym files = "string \<rightharpoonup> string"

type_synonym run = "files \<times> py_error option"

definition read_file :: "files \<Rightarrow> string \<Rightarrow> string py" where
  "read_file fs p = (case fs p of None \<Rightarrow> Inl FileNotFoundError | Some t \<Rightarrow> Inr t)"

lemma read_file_simps [simp]:
  "fs p = Some t \<Longrightarrow> read_file fs p = Inr t"
  "fs p = None \<Longrightarrow> read_file fs p = Inl FileNotFoundError"
  by (simp_all add: read_file_def)

end
