(* ===== verification/Cpp_Double.thy ===== *)
theory Cpp_Double
  imports Py_Prelude "HOL-Library.Log_Nat"
begin

text \<open>
  The numbers the compiler computes with: \<open>double\<close> with the operations of IEEE 754 on rational
  numbers, rounded to nearest with ties to even, and the conversions of C++ between \<open>double\<close>
  and integers. Zero has no sign here and there is one \<open>NaN\<close>. What stops a C++ program is a value
  of \<open>stop\<close>: a failed assertion, behaviour the language does not define, or a recursion or loop
  that has used up its fuel.
\<close>

section \<open>Programs that may stop\<close>

datatype stop = Aborts | Undefined | No_end

type_synonym 'a cpp = "stop + 'a"

fun bind_cpp :: "'a cpp \<Rightarrow> ('a \<Rightarrow> 'b cpp) \<Rightarrow> 'b cpp" where
  "bind_cpp (Inl e) f = Inl e"
| "bind_cpp (Inr x) f = f x"

lemma bind_cpp_Inr: "bind_cpp m f = Inr y \<longleftrightarrow> (\<exists>x. m = Inr x \<and> f x = Inr y)"
  by (cases m) auto

definition assert_cpp :: "bool \<Rightarrow> unit cpp" where
  "assert_cpp b = (if b then Inr () else Inl Aborts)"

text \<open>Following a pointer that may be null or dangling.\<close>

definition deref :: "('a \<Rightarrow> 'b option) \<Rightarrow> 'a \<Rightarrow> 'b cpp" where
  "deref h a = (case h a of None \<Rightarrow> Inl Undefined | Some x \<Rightarrow> Inr x)"

lemma assert_cpp_simps [simp]: "assert_cpp True = Inr ()" "assert_cpp False = Inl Aborts"
  "assert_cpp b = Inr u \<longleftrightarrow> b"
  by (auto simp: assert_cpp_def)

lemma deref_Inr: "deref h a = Inr x \<longleftrightarrow> h a = Some x"
  by (simp add: deref_def split: option.split)

section \<open>Rounding\<close>

definition rhe :: "rat \<Rightarrow> int" where
  "rhe q =
     (let f = \<lfloor>q\<rfloor>; d = q - of_int f
      in if d < 1 / 2 \<or> (d = 1 / 2 \<and> even f) then f else f + 1)"

definition flog2 :: "rat \<Rightarrow> int" where
  "flog2 q =
     (let (a, b) = quotient_of q; k = bitlen a - bitlen b
      in if q < 2 powi k then k - 1 else k)"

definition grid :: "rat \<Rightarrow> int" where
  "grid q = max (flog2 \<bar>q\<bar> - 52) (- 1074)"

definition dround :: "rat \<Rightarrow> rat" where
  "dround q = (if q = 0 then 0 else of_int (rhe (q / 2 powi grid q)) * 2 powi grid q)"

lemma rhe_of_int [simp]: "rhe (of_int n) = n"
  by (simp add: rhe_def)

lemma rhe_floor: "\<lfloor>q\<rfloor> \<le> rhe q" "rhe q \<le> \<lfloor>q\<rfloor> + 1"
  by (simp_all add: rhe_def Let_def)

lemma rhe_mono: "q \<le> r \<Longrightarrow> rhe q \<le> rhe r"
proof (cases "\<lfloor>q\<rfloor> = \<lfloor>r\<rfloor>")
  case True
  then show "q \<le> r \<Longrightarrow> rhe q \<le> rhe r" by (auto simp: rhe_def Let_def)
next
  case False
  assume "q \<le> r"
  then have "\<lfloor>q\<rfloor> + 1 \<le> \<lfloor>r\<rfloor>" using False floor_mono [of q r] by linarith
  then show "rhe q \<le> rhe r" using rhe_floor [of q] rhe_floor [of r] by linarith
qed

lemma rhe_uminus: "rhe (- q) = - rhe q"
proof (cases "q = of_int \<lfloor>q\<rfloor>")
  case True
  then show ?thesis by (metis of_int_minus rhe_of_int)
next
  case False
  have "of_int \<lfloor>q\<rfloor> < q" using False of_int_floor_le [of q] by linarith
  moreover have "q < of_int \<lfloor>q\<rfloor> + 1" by linarith
  ultimately have f: "\<lfloor>- q\<rfloor> = - \<lfloor>q\<rfloor> - 1" by (intro floor_unique) simp_all
  show ?thesis unfolding rhe_def f Let_def by auto
qed

text \<open>The binary logarithm.\<close>

lemma powi_diff: "(2 :: rat) powi (m - n) = 2 powi m / 2 powi n"
  by (rule power_int_diff) simp

lemma bitlen_powi: "0 < a \<Longrightarrow> 2 powi (bitlen a - 1) \<le> (of_int a :: rat)" "0 < a \<Longrightarrow> (of_int a :: rat) < 2 powi bitlen a"
proof -
  assume a: "0 < a"
  have b: "2 ^ nat (bitlen a - 1) \<le> a" "a < 2 ^ nat (bitlen a)" using bitlen_bounds [OF a] by auto
  have "1 \<le> bitlen a" using a bitlen_eq_zero_iff [of a] bitlen_nonneg [of a] by linarith
  then show "2 powi (bitlen a - 1) \<le> (of_int a :: rat)" "(of_int a :: rat) < 2 powi bitlen a"
    using b by (simp_all add: power_int_def)
qed

lemma flog2: 
  assumes "0 < q"
  shows "2 powi flog2 q \<le> q" and "q < 2 powi (flog2 q + 1)"
proof -
  obtain a b where ab: "quotient_of q = (a, b)" by force
  then have b: "0 < b" by (rule quotient_of_denom_pos)
  have q: "q = of_int a / of_int b" using ab by (rule quotient_of_div)
  then have a: "0 < a" using assms b by (simp add: zero_less_divide_iff)
  define k where "k = bitlen a - bitlen b"
  have "q < 2 powi bitlen a / 2 powi (bitlen b - 1)"
    unfolding q using a b bitlen_powi [OF a] bitlen_powi [OF b] by (intro frac_less) auto
  also have "\<dots> = 2 powi (bitlen a - (bitlen b - 1))" by (simp only: powi_diff)
  also have "bitlen a - (bitlen b - 1) = k + 1" by (simp add: k_def)
  finally have up: "q < 2 powi (k + 1)" .
  have "k - 1 = (bitlen a - 1) - bitlen b" by (simp add: k_def)
  then have "2 powi (k - 1) = 2 powi (bitlen a - 1) / (2 powi bitlen b :: rat)" by (simp only: powi_diff)
  also have "\<dots> \<le> q"
    unfolding q using a b bitlen_powi [OF a] bitlen_powi [OF b] by (intro frac_le) auto
  finally have lo: "2 powi (k - 1) \<le> q" .
  have "flog2 q = (if q < 2 powi k then k - 1 else k)" by (simp add: flog2_def ab k_def)
  with up lo show "2 powi flog2 q \<le> q" "q < 2 powi (flog2 q + 1)" by auto
qed

lemma flog2_mono: "0 < q \<Longrightarrow> q \<le> r \<Longrightarrow> flog2 q \<le> flog2 r"
proof (rule ccontr)
  assume q: "0 < q" "q \<le> r" and "\<not> flog2 q \<le> flog2 r"
  then have "2 powi (flog2 r + 1) \<le> (2 :: rat) powi flog2 q" by (intro power_int_increasing) auto
  also have "\<dots> \<le> q" using flog2(1) [OF q(1)] .
  finally show False using flog2(2) [of r] q by linarith
qed


text \<open>Rounding is monotone, and exact on the numbers of its grid.\<close>

lemma flog2_eq: "2 powi k \<le> q \<Longrightarrow> q < 2 powi (k + 1) \<Longrightarrow> flog2 q = k"
proof -
  assume k: "2 powi k \<le> q" "q < 2 powi (k + 1)"
  have "0 < (2 :: rat) powi k" by simp
  then have q: "0 < q" using k(1) by linarith
  have "\<not> k + 1 \<le> flog2 q" using flog2(1) [OF q] k(2) power_int_increasing [of "k + 1" "flog2 q" "2 :: rat"] by auto
  moreover have "\<not> flog2 q + 1 \<le> k" using flog2(2) [OF q] k(1) power_int_increasing [of "flog2 q + 1" k "2 :: rat"] by auto
  ultimately show ?thesis by linarith
qed

lemma powi_int: "0 \<le> k \<Longrightarrow> (2 :: rat) powi k = of_int (2 ^ nat k)"
  by (simp add: power_int_def)

lemma rhe_scaled: "g \<le> k \<Longrightarrow> of_int (rhe (2 powi k / 2 powi g)) * 2 powi g = (2 powi k :: rat)"
proof -
  assume "g \<le> k"
  then have "2 powi k / 2 powi g = (of_int (2 ^ nat (k - g)) :: rat)"
    using powi_int [of "k - g"] by (simp only: powi_diff)
  then have "of_int (rhe (2 powi k / 2 powi g)) = (2 powi k / 2 powi g :: rat)" by (simp only: rhe_of_int)
  then show ?thesis by simp
qed

lemma dround_uminus: "dround (- q) = - dround q"
  by (simp add: dround_def grid_def rhe_uminus)

lemma dround_nonneg: "0 \<le> q \<Longrightarrow> 0 \<le> dround q"
  using rhe_mono [of 0 "q / 2 powi grid q"] rhe_of_int [of 0] by (simp add: dround_def)

lemma dround_pos_mono:
  assumes "0 < q" and "q \<le> r"
  shows "dround q \<le> dround r"
proof -
  have pos: "0 < r" "0 < (2 :: rat) powi k" for k using assms by auto
  have g: "grid q \<le> grid r" using flog2_mono [OF assms] assms by (simp add: grid_def)
  show ?thesis
  proof (cases "grid q = grid r")
    case True
    then show ?thesis
      using assms rhe_mono [of "q / 2 powi grid q" "r / 2 powi grid r"] by (simp add: dround_def divide_right_mono)
  next
    case False
    define k where "k = flog2 r"
    have k: "grid r = k - 52" "grid q \<le> k" using g False assms pos by (auto simp: grid_def k_def)
    have "flog2 q + 1 \<le> k" using False flog2_mono [OF assms] assms pos by (auto simp: grid_def k_def)
    then have "(2 :: rat) powi (flog2 q + 1) \<le> 2 powi k" by (intro power_int_increasing) auto
    then have "q \<le> 2 powi k" using flog2(2) [OF assms(1)] by linarith
    then have "q / 2 powi grid q \<le> 2 powi k / 2 powi grid q" by (intro divide_right_mono) simp_all
    then have "of_int (rhe (q / 2 powi grid q)) * 2 powi grid q \<le> (2 powi k :: rat)"
      using rhe_mono rhe_scaled [OF k(2)] by (metis mult_right_mono of_int_le_iff pos(2) less_imp_le)
    then have "dround q \<le> 2 powi k" using assms by (simp add: dround_def)
    also have "2 powi k \<le> r" using flog2(1) [OF pos(1)] by (simp add: k_def)
    then have "2 powi k / 2 powi grid r \<le> r / 2 powi grid r" by (intro divide_right_mono) simp_all
    then have "(2 powi k :: rat) \<le> of_int (rhe (r / 2 powi grid r)) * 2 powi grid r"
      using rhe_mono rhe_scaled [of "grid r" k, unfolded k(1)] k(1) by (simp) (metis mult_right_mono of_int_le_iff pos(2) less_imp_le)
    then have "2 powi k \<le> dround r" using pos by (simp add: dround_def)
    finally show ?thesis .
  qed
qed

lemma dround_0 [simp]: "dround 0 = 0"
  by (simp add: dround_def)

lemma dround_mono: "q \<le> r \<Longrightarrow> dround q \<le> dround r"
proof -
  assume le: "q \<le> r"
  consider "0 < q" | "q \<le> 0" "0 \<le> r" | "r < 0" by linarith
  then show ?thesis
  proof cases
    case 2
    then show ?thesis using dround_nonneg [of r] dround_nonneg [of "- q"] by (simp add: dround_uminus)
  next
    case 3
    then show ?thesis using dround_pos_mono [of "- r" "- q"] le by (simp add: dround_uminus)
  qed (use le dround_pos_mono in blast)
qed

lemma dround_exact:
  assumes "\<bar>n\<bar> < 2 ^ 53" and "- 1074 \<le> k"
  shows "dround (of_int n * 2 powi k) = of_int n * 2 powi k"
proof (cases "n = 0")
  case False
  let ?q = "of_int n * 2 powi k :: rat"
  have abs: "\<bar>?q\<bar> = of_int \<bar>n\<bar> * 2 powi k" "0 < \<bar>?q\<bar>" using False by (simp_all add: abs_mult)
  have "\<bar>?q\<bar> < 2 ^ 53 * 2 powi k"
    unfolding abs(1) using assms(1) by (intro mult_strict_right_mono) (simp_all flip: of_int_less_iff [where 'a = rat])
  also have "\<dots> = 2 powi (k + 53)" by (simp add: power_int_add)
  finally have "flog2 \<bar>?q\<bar> < k + 53"
    using flog2(1) [OF abs(2)] power_int_increasing [of "k + 53" "flog2 \<bar>?q\<bar>" "2 :: rat"] by (auto simp: not_less [symmetric])
  then have g: "grid ?q \<le> k" using assms(2) by (simp add: grid_def)
  then have "?q / 2 powi grid ?q = of_int (n * 2 ^ nat (k - grid ?q))"
    using powi_int [of "k - grid ?q"] by (simp add: powi_diff flip: times_divide_eq_right)
  then have "of_int (rhe (?q / 2 powi grid ?q)) = ?q / 2 powi grid ?q" by (simp only: rhe_of_int)
  with False show ?thesis by (simp add: dround_def)
qed simp


lemma dround_idem [simp]: "dround (dround q) = dround q"
proof (cases "q = 0")
  case False
  define g where "g = grid q"
  define m where "m = rhe (q / 2 powi g)"
  have q: "dround q = of_int m * 2 powi g" using False by (simp add: dround_def m_def g_def)
  have ge: "- 1074 \<le> g" by (simp add: g_def grid_def)
  have "\<bar>q\<bar> < 2 powi (flog2 \<bar>q\<bar> + 1)" using flog2(2) False by simp
  also have "\<dots> \<le> 2 powi (g + 53)" by (intro power_int_increasing) (simp_all add: g_def grid_def)
  finally have "\<bar>q\<bar> / 2 powi g < 2 ^ 53" by (simp add: power_int_add field_simps)
  then have "\<bar>q / 2 powi g\<bar> \<le> of_int (2 ^ 53)" by simp
  then have "q / 2 powi g \<le> of_int (2 ^ 53)" "of_int (- (2 ^ 53)) \<le> q / 2 powi g" by (simp_all only: of_int_minus abs_le_iff) linarith+
  then have m: "- (2 ^ 53) \<le> m" "m \<le> 2 ^ 53" using rhe_mono rhe_of_int unfolding m_def by metis+
  show ?thesis
  proof (cases "\<bar>m\<bar> < 2 ^ 53")
    case True
    then show ?thesis using dround_exact ge q by simp
  next
    case False
    then obtain n where n: "m = 2 * n" "\<bar>n\<bar> < 2 ^ 53" using m by (cases "0 \<le> m") (auto intro: that [of "2 ^ 52"] that [of "- (2 ^ 52)"])
    have "of_int m * 2 powi g = (of_int n * 2 powi (g + 1) :: rat)" by (simp add: n(1) power_int_add)
    then show ?thesis using dround_exact [OF n(2), of "g + 1"] ge q by simp
  qed
qed simp

section \<open>Numbers and operations\<close>

datatype double = Fin rat | PInf | NInf | NaN

definition double_limit :: rat where "double_limit = 2 ^ 1024"

definition fin :: "rat \<Rightarrow> double" where
  "fin q = (let r = dround q in if double_limit \<le> r then PInf else if r \<le> - double_limit then NInf else Fin r)"

lemma double_limit: "2 ^ 53 \<le> double_limit" "0 < double_limit"
  unfolding double_limit_def by (rule power_increasing) simp_all

fun dadd :: "double \<Rightarrow> double \<Rightarrow> double" where
  "dadd (Fin a) (Fin b) = fin (a + b)"
| "dadd NaN y = NaN"
| "dadd x NaN = NaN"
| "dadd PInf NInf = NaN"
| "dadd NInf PInf = NaN"
| "dadd PInf y = PInf"
| "dadd NInf y = NInf"
| "dadd x PInf = PInf"
| "dadd x NInf = NInf"

fun dneg :: "double \<Rightarrow> double" where
  "dneg (Fin a) = Fin (- a)"
| "dneg PInf = NInf"
| "dneg NInf = PInf"
| "dneg NaN = NaN"

definition dsub :: "double \<Rightarrow> double \<Rightarrow> double" where
  "dsub x y = dadd x (dneg y)"

text \<open>An infinity times a number, and a number that is not zero over zero.\<close>

definition signed_inf :: "rat \<Rightarrow> double" where
  "signed_inf a = (if 0 < a then PInf else if a < 0 then NInf else NaN)"

fun dmul :: "double \<Rightarrow> double \<Rightarrow> double" where
  "dmul (Fin a) (Fin b) = fin (a * b)"
| "dmul NaN y = NaN"
| "dmul x NaN = NaN"
| "dmul (Fin a) PInf = signed_inf a"
| "dmul (Fin a) NInf = signed_inf (- a)"
| "dmul PInf (Fin b) = signed_inf b"
| "dmul NInf (Fin b) = signed_inf (- b)"
| "dmul x y = (if x = y then PInf else NInf)"

fun ddiv :: "double \<Rightarrow> double \<Rightarrow> double" where
  "ddiv (Fin a) (Fin b) = (if b = 0 then signed_inf a else fin (a / b))"
| "ddiv NaN y = NaN"
| "ddiv x NaN = NaN"
| "ddiv (Fin a) y = Fin 0"
| "ddiv PInf (Fin b) = (if b < 0 then NInf else PInf)"
| "ddiv NInf (Fin b) = (if b < 0 then PInf else NInf)"
| "ddiv x y = NaN"

fun dle :: "double \<Rightarrow> double \<Rightarrow> bool" where
  "dle NaN y \<longleftrightarrow> False"
| "dle x NaN \<longleftrightarrow> False"
| "dle (Fin a) (Fin b) \<longleftrightarrow> a \<le> b"
| "dle NInf y \<longleftrightarrow> True"
| "dle x PInf \<longleftrightarrow> True"
| "dle x y \<longleftrightarrow> False"

definition dless :: "double \<Rightarrow> double \<Rightarrow> bool" where
  "dless x y \<longleftrightarrow> dle x y \<and> x \<noteq> y"

text \<open>\<open>std::max(x, y)\<close> and the conversions; a conversion out of the range of the type is undefined.\<close>

definition dmax :: "double \<Rightarrow> double \<Rightarrow> double" where
  "dmax x y = (if dless x y then y else x)"

definition of_ll :: "int \<Rightarrow> double" where
  "of_ll n = fin (of_int n)"

definition rat_trunc :: "rat \<Rightarrow> int" where
  "rat_trunc q = (if q < 0 then \<lceil>q\<rceil> else \<lfloor>q\<rfloor>)"

fun to_int :: "nat \<Rightarrow> double \<Rightarrow> int cpp" where
  "to_int w (Fin q) =
     (let n = rat_trunc q in if - (2 ^ (w - 1)) \<le> n \<and> n < 2 ^ (w - 1) then Inr n else Inl Undefined)"
| "to_int w x = Inl Undefined"

section \<open>Laws\<close>

text \<open>The numbers that a \<open>double\<close> can hold.\<close>

fun is_double :: "double \<Rightarrow> bool" where
  "is_double (Fin q) \<longleftrightarrow> dround q = q \<and> \<bar>q\<bar> < double_limit"
| "is_double x \<longleftrightarrow> True"

lemma is_double_fin [simp]: "is_double (fin q)"
  by (simp add: fin_def Let_def abs_less_iff)

lemma fin_double: "is_double (Fin q) \<Longrightarrow> fin q = Fin q"
  by (auto simp: fin_def abs_less_iff)

lemma dadd_0: "is_double x \<Longrightarrow> dadd x (Fin 0) = x"
  by (cases x) (simp_all add: fin_double)

lemma is_double_0 [simp]: "is_double (Fin 0)"
  by (simp add: double_limit)

lemma is_double_signed_inf [simp]: "is_double (signed_inf a)"
  by (simp add: signed_inf_def)

lemma is_double_ops [simp]: "is_double (dadd x y)" "is_double (ddiv x y)" "is_double (dmul x y)"
  by (cases x; cases y; simp del: is_double.simps(1))+

lemma is_double_of_ll [simp]: "is_double (of_ll n)"
  by (simp add: of_ll_def)

lemma fin_mono: "q \<le> r \<Longrightarrow> dle (fin q) (fin r)"
  using dround_mono [of q r] by (auto simp: fin_def Let_def)

lemma dle_refl: "x \<noteq> NaN \<Longrightarrow> dle x x"
  by (cases x) simp_all

lemma dle_trans: "dle x y \<Longrightarrow> dle y z \<Longrightarrow> dle x z"
  by (cases x; cases y; cases z; simp)

lemma dle_linear: "x \<noteq> NaN \<Longrightarrow> y \<noteq> NaN \<Longrightarrow> dle x y \<or> dle y x"
  by (cases x; cases y; auto)

lemma dle_antisym: "dle x y \<Longrightarrow> dle y x \<Longrightarrow> x = y"
  by (cases x; cases y; simp)

lemma dle_not_NaN: "dle x y \<Longrightarrow> x \<noteq> NaN \<and> y \<noteq> NaN"
  by (cases x; cases y; simp)

lemma dle_add: "is_double x \<Longrightarrow> x \<noteq> NaN \<Longrightarrow> dle (Fin 0) y \<Longrightarrow> dadd x y \<noteq> NaN \<Longrightarrow> dle x (dadd x y)"
  using fin_mono by (cases x; cases y; simp) (metis add.right_neutral add_left_mono fin_double is_double.simps(1))

lemma ddiv_0: "y \<noteq> Fin 0 \<Longrightarrow> y \<noteq> NaN \<Longrightarrow> ddiv (Fin 0) y = Fin 0"
  by (cases y) (simp_all add: fin_def double_limit not_le)

lemma ddiv_nonneg: "0 \<le> a \<Longrightarrow> 0 < b \<Longrightarrow> dle (Fin 0) (ddiv (Fin a) (Fin b))"
  using fin_mono [of 0 "a / b"] double_limit(2) by (simp add: fin_def)

lemma dmax: "x \<noteq> NaN \<Longrightarrow> y \<noteq> NaN \<Longrightarrow> dle x (dmax x y) \<and> dle y (dmax x y) \<and> dmax x y \<in> {x, y}"
  using dle_linear [of x y] dle_refl by (auto simp: dmax_def dless_def)

lemma of_ll_exact: "\<bar>n\<bar> < 2 ^ 53 \<Longrightarrow> of_ll n = Fin (of_int n)"
proof -
  assume n: "\<bar>n\<bar> < 2 ^ 53"
  then have "dround (of_int n) = of_int n" using dround_exact [of n 0] by simp
  moreover note double_limit(1)
  moreover have "\<bar>of_int n :: rat\<bar> < 2 ^ 53"
    unfolding of_int_abs [symmetric] using n by (metis of_int_less_iff of_int_numeral of_int_power)
  ultimately have "is_double (Fin (of_int n))" by (simp only: is_double.simps) linarith
  then show ?thesis by (simp only: of_ll_def fin_double)
qed

end
