(* ===== verification/Ns3_Pipeline.thy ===== *)
theory Ns3_Pipeline
  imports Cpp_Double "HOL-Library.Multiset"
begin

text \<open>
  The pipeline of the ns-3 experiments: \<open>model/MyPipeline.h\<close> and \<open>MyPipeline.cc\<close> of
  \<open>software/experiment/ns3_simulation/traffic-control\<close>. Pushes and pops on many heaps are queued in five
  lists and worked off by five units, one turn of which is \<open>WakeUp\<close>.
\<close>

section \<open>State\<close>

datatype op_kind = Op_Push | Op_Pop | Op_WriteBack | Op_Locked | Op_Empty

record Operation =
  kind :: op_kind
  op_root :: int
  op_TTL :: int
  op_rank :: int
  op_token :: int

definition N_UNITS :: nat where "N_UNITS = 5"

definition BUFFER_SIZE :: int where "BUFFER_SIZE = 4"

definition ROOT :: int where "ROOT = 233"

definition S_THRESHOLD :: int where "S_THRESHOLD = 240"

definition T_TREES :: int where "T_TREES = 240"

definition END_THRESHOLD :: int where "END_THRESHOLD = 1000000"

definition inf_wait :: int where "inf_wait = 1000000007"

text \<open>The three constructors of \<open>Operation\<close>; what they leave open is 0. The rank becomes an \<open>int\<close>.\<close>

definition empty_op :: Operation where
  "empty_op = \<lparr>kind = Op_Empty, op_root = 0, op_TTL = 0, op_rank = 0, op_token = 0\<rparr>"

definition push_op :: "int \<Rightarrow> int \<Rightarrow> int \<Rightarrow> Operation" where
  "push_op rt rk tk = \<lparr>kind = Op_Push, op_root = rt, op_TTL = int N_UNITS, op_rank = signed_take_bit 31 rk, op_token = tk\<rparr>"

definition pop_op :: "int \<Rightarrow> Operation" where
  "pop_op rt = \<lparr>kind = Op_Pop, op_root = rt, op_TTL = int N_UNITS, op_rank = 0, op_token = 0\<rparr>"

record Pipeline =
  RPU :: "nat \<Rightarrow> Operation"
  operation_list :: "nat \<Rightarrow> Operation list"
  heap :: "int \<Rightarrow> (int \<times> int) list"
  root_num :: int
  wait_time :: "nat \<Rightarrow> int"
  locked :: "nat \<Rightarrow> bool"
  beggar :: int
  empty_count :: int
  hungry_count :: int
  hungry_delay :: int
  starve_count :: int
  buffer_num :: int
  start_num :: int
  buffer :: "int list"
  list_map :: "int \<Rightarrow> nat option"
  list_cnt :: nat
  scheduled :: bool

text \<open>The constructor; \<open>memset(wait_time, -0x3f, ...)\<close> sets every byte to \<open>0xC1\<close>. \<open>scheduled\<close> says
  whether the next turn is in the event queue of the simulator.\<close>

definition Pipeline_init :: Pipeline where
  "Pipeline_init =
     \<lparr>RPU = (\<lambda>_. empty_op), operation_list = (\<lambda>_. []), heap = (\<lambda>_. []), root_num = 0,
      wait_time = (\<lambda>_. - 1044266559), locked = (\<lambda>_. False), beggar = - 1,
      empty_count = 0, hungry_count = 0, hungry_delay = 0, starve_count = 0,
      buffer_num = 0, start_num = 0, buffer = [], list_map = Map.empty, list_cnt = 0, scheduled = True\<rparr>"

text \<open>\<open>priority_queue<pair<long long, int>>\<close>: the largest pair is on top. It is kept as a list from the
  largest pair to the smallest.\<close>

fun pair_le :: "int \<times> int \<Rightarrow> int \<times> int \<Rightarrow> bool" where
  "pair_le (a, b) (c, d) \<longleftrightarrow> a < c \<or> a = c \<and> b \<le> d"

fun heap_push :: "int \<times> int \<Rightarrow> (int \<times> int) list \<Rightarrow> (int \<times> int) list" where
  "heap_push x [] = [x]"
| "heap_push x (y # ys) = (if pair_le y x then x # y # ys else y # heap_push x ys)"

section \<open>Operations\<close>

definition GetListId :: "int \<Rightarrow> Pipeline \<Rightarrow> nat \<times> Pipeline" where
  "GetListId user p =
     (case list_map p user of
        Some i \<Rightarrow> (i, p)
      | None \<Rightarrow> (list_cnt p, p\<lparr> list_map := (list_map p)(user \<mapsto> list_cnt p), list_cnt := (list_cnt p + 1) mod N_UNITS \<rparr>))"

text \<open>The common end of \<open>AddPush\<close> and \<open>AddPop\<close>.\<close>

definition add_op :: "int \<Rightarrow> Operation \<Rightarrow> Pipeline \<Rightarrow> Pipeline" where
  "add_op user t p =
     (let (i, p1) = GetListId user p;
          p2 = (if operation_list p1 i = [] then p1\<lparr> wait_time := (wait_time p1)(i := 0) \<rparr> else p1)
      in p2\<lparr> operation_list := (operation_list p2)(i := operation_list p2 i @ [t]) \<rparr>)"

definition AddPush :: "int \<Rightarrow> int \<Rightarrow> int \<Rightarrow> Pipeline \<Rightarrow> Pipeline" where
  "AddPush user rnk tok p =
     add_op user (push_op user rnk tok) (if user = ROOT then p\<lparr> root_num := root_num p + 1 \<rparr> else p)"

definition AddPop :: "int \<Rightarrow> Pipeline \<Rightarrow> Pipeline" where
  "AddPop user p =
     add_op user (pop_op user)
       (if user = ROOT then p\<lparr> root_num := root_num p - 1, start_num := start_num p + 1 \<rparr> else p)"

definition SendOperation :: "nat \<Rightarrow> Pipeline \<Rightarrow> Pipeline" where
  "SendOperation i p =
     (let p1 = p\<lparr> operation_list := (operation_list p)(i := tl (operation_list p i)) \<rparr>
      in if wait_time p1 i > S_THRESHOLD then
           let p2 = p1\<lparr> hungry_count := hungry_count p1 + 1, hungry_delay := hungry_delay p1 + (wait_time p1 i - S_THRESHOLD) \<rparr>;
               p3 = (if beggar p2 = int i then p2\<lparr> beggar := - 1, locked := (\<lambda>_. False) \<rparr> else p2)
           in p3\<lparr> wait_time := (wait_time p3)(i := if operation_list p3 i = [] then - inf_wait else 0) \<rparr>
         else p1)"

text \<open>\<open>GetToken\<close>; \<open>front\<close> of an empty queue is undefined.\<close>

definition GetToken :: "Pipeline \<Rightarrow> (int \<times> Pipeline) cpp" where
  "GetToken p =
     (if buffer_num p = 0 then Inr (- 1, p)
      else let p1 = p\<lparr> buffer_num := buffer_num p - 1, start_num := start_num p - 1 \<rparr>
           in case buffer p1 of
                [] \<Rightarrow> Inl Undefined
              | ret # rest \<Rightarrow> Inr (ret, p1\<lparr> buffer := rest \<rparr>))"

definition CheckRealQueue :: "int \<Rightarrow> bool" where
  "CheckRealQueue x \<longleftrightarrow> (if x \<ge> 1000 then True else if x < 100 then False else (x - 100) mod 10 > (x - 100) div 10)"

section \<open>A turn\<close>

fun each_do :: "('i \<Rightarrow> 's \<Rightarrow> 's cpp) \<Rightarrow> 'i list \<Rightarrow> 's \<Rightarrow> 's cpp" where
  "each_do f [] s = Inr s"
| "each_do f (i # is) s = bind_cpp (f i s) (each_do f is)"

definition running :: "Operation \<Rightarrow> bool" where
  "running t \<longleftrightarrow> kind t = Op_Push \<or> kind t = Op_Pop \<or> kind t = Op_WriteBack"

definition fresh_pop :: "Operation \<Rightarrow> bool" where
  "fresh_pop t \<longleftrightarrow> op_TTL t = int N_UNITS \<and> kind t = Op_Pop"

text \<open>The first loop: a pop that was sent in the last turn takes its token; \<open>top\<close> of an empty heap is
  undefined.\<close>

definition take_token :: "nat \<Rightarrow> Pipeline \<Rightarrow> Pipeline cpp" where
  "take_token i p =
     (if fresh_pop (RPU p i) then
        case heap p (op_root (RPU p i)) of
          [] \<Rightarrow> Inl Undefined
        | (r, ans) # h \<Rightarrow>
            let p1 = p\<lparr> heap := (heap p)(op_root (RPU p i) := h) \<rparr>
            in Inr (if CheckRealQueue ans then p1\<lparr> buffer_num := buffer_num p1 + 1, buffer := buffer p1 @ [ans] \<rparr>
                    else AddPop ans p1)
      else Inr p)"

text \<open>The second loop. \<open>nt\<close> is the entry of the scrolling array that holds the operation of the unit before.\<close>

fun pass_from :: "nat \<Rightarrow> nat \<Rightarrow> Operation \<Rightarrow> (nat \<Rightarrow> Operation) \<Rightarrow> (nat \<Rightarrow> Operation)" where
  "pass_from 0 i nt u = u"
| "pass_from (Suc k) i nt u =
     (let cur = (u i)\<lparr> op_TTL := op_TTL (u i) - 1 \<rparr>;
          new = (if kind (u i) = Op_Pop then (u i)\<lparr> kind := Op_WriteBack \<rparr>
                 else if op_TTL nt > 0 then nt
                 else (u i)\<lparr> kind := Op_Empty, op_TTL := 0 \<rparr>)
      in pass_from k (i + 1) cur (u(i := new)))"

declare pass_from.simps(2) [simp del]

definition pass_down_ops :: "Pipeline \<Rightarrow> Pipeline" where
  "pass_down_ops p =
     (let final = RPU p (N_UNITS - 1)
      in p\<lparr> RPU := pass_from N_UNITS 0 (final\<lparr> op_TTL := op_TTL final - 1 \<rparr>) (RPU p) \<rparr>)"

text \<open>The third loop: a new operation for unit \<open>i\<close>.\<close>

definition send_new :: "nat \<Rightarrow> Pipeline \<Rightarrow> Pipeline" where
  "send_new i p =
     (let p1 = p\<lparr> wait_time := (wait_time p)(i := wait_time p i + 1) \<rparr>
      in if kind (RPU p1 i) = Op_Empty \<and> \<not> locked p1 i then
           case operation_list p1 i of
             [] \<Rightarrow> p1
           | t # _ \<Rightarrow>
               if kind t = Op_Push then
                 SendOperation i (p1\<lparr> RPU := (RPU p1)(i := t),
                   heap := (heap p1)(op_root t := heap_push (- op_rank t, op_token t) (heap p1 (op_root t))) \<rparr>)
               else
                 let j = (i + N_UNITS - 1) mod N_UNITS
                 in if op_TTL (RPU p1 j) \<le> 1 then
                      let p2 = SendOperation i (p1\<lparr> RPU := (RPU p1)(i := t) \<rparr>);
                          w = RPU p2 j
                      in p2\<lparr> RPU := (RPU p2)(j := w\<lparr> kind := if kind w = Op_Empty then Op_Locked else kind w, op_TTL := 1 \<rparr>) \<rparr>
                    else p1
         else p1)"

text \<open>The search for places to lock. The condition of the source is read by C++ as
  \<open>(locked[j] || TTL <= (j < beggar)) ? (beggar - j) : (beggar + N - j)\<close>. An index below 0 is undefined.\<close>

fun find_places :: "nat \<Rightarrow> int \<Rightarrow> int \<Rightarrow> int \<Rightarrow> int \<Rightarrow> int \<Rightarrow> Pipeline \<Rightarrow> (int \<times> Pipeline) cpp" where
  "find_places 0 j k flag_nt need_pos b p = Inl No_end"
| "find_places (Suc fuel) j k flag_nt need_pos b p =
     (if j < 0 then Inl Undefined
      else let flag_last = flag_nt;
               c = (locked p (nat j) \<or> op_TTL (RPU p (nat j)) \<le> (if j < b then 1 else 0));
               v = (if c then b - j else b + int N_UNITS - j);
               flag = (if v \<noteq> 0 then 1 else 0)
           in if flag + flag_last = need_pos then
                let p1 = p\<lparr> locked := (locked p)(nat j := True) \<rparr>;
                    p2 = (if need_pos = 2 then p1\<lparr> locked := (locked p1)(nat k := True) \<rparr> else p1)
                in Inr (0, p2)
              else if need_pos = 0 \<or> j = b then Inr (need_pos, p)
              else find_places fuel ((if j = 0 then int N_UNITS else j) - 1) j flag need_pos b p)"

fun lock_some :: "nat list \<Rightarrow> int \<Rightarrow> Pipeline \<Rightarrow> int \<times> Pipeline" where
  "lock_some [] need_pos p = (need_pos, p)"
| "lock_some (j # js) need_pos p =
     (if need_pos = 0 then (need_pos, p)
      else if locked p j then lock_some js need_pos p
      else lock_some js (need_pos - 1) (p\<lparr> locked := (locked p)(j := True) \<rparr>))"

definition find_beggar :: "Pipeline \<Rightarrow> Pipeline" where
  "find_beggar p =
     (if beggar p = - 1 then
        case filter (\<lambda>i. wait_time p i > S_THRESHOLD) [0..<N_UNITS] of
          [] \<Rightarrow> p
        | i # _ \<Rightarrow> p\<lparr> beggar := int i \<rparr>
      else p)"

definition feed_beggar :: "Pipeline \<Rightarrow> Pipeline cpp" where
  "feed_beggar p =
     (let p0 = find_beggar p; b = beggar p0
      in if b = - 1 then Inr p0
         else case operation_list p0 (nat b) of
                [] \<Rightarrow> Inl Undefined
              | t # _ \<Rightarrow>
                  bind_cpp (find_places (2 * N_UNITS) (b - 1) 0 0 (if kind t = Op_Pop then 2 else 1) b p0) (\<lambda>(need_pos, p1).
                    if need_pos \<noteq> 0 then
                      let (n2, p2) = lock_some [nat b + 1..<N_UNITS] (wait_time p1 (nat b) - S_THRESHOLD) (p1\<lparr> starve_count := starve_count p1 + 1 \<rparr>);
                          (n3, p3) = lock_some [0..<nat b] n2 p2
                      in Inr p3
                    else Inr p1))"

definition WakeUp :: "Pipeline \<Rightarrow> Pipeline cpp" where
  "WakeUp p =
     (let p0 = (if root_num p > 0 \<and> start_num p < BUFFER_SIZE then AddPop ROOT p else p);
          use_num = length (filter (\<lambda>i. running (RPU p0 i)) [0..<N_UNITS])
      in bind_cpp (each_do take_token [0..<N_UNITS] p0) (\<lambda>p1.
         bind_cpp (feed_beggar (fold send_new [0..<N_UNITS] (pass_down_ops p1))) (\<lambda>p2.
           let e = (if use_num \<noteq> 0 then 0 else empty_count p2 + 1)
           in Inr (p2\<lparr> empty_count := e, scheduled := (e < END_THRESHOLD) \<rparr>))))"

end
