(* ===== verification/Ns3_Inv.thy ===== *)
theory Ns3_Inv
  imports Ns3_Pipeline
begin

text \<open>
  The invariant of the pipeline. What is on the way is counted in multisets: the tokens in heaps and
  waiting pushes, the heaps they are for, and the pops that are listed or sent. Every inner node is asked
  for exactly as many elements as it holds, and within its list no pop comes before the push it needs.
\<close>

section \<open>What is on the way\<close>

text \<open>Sums over the units, lists and heaps, and their change when one place changes.\<close>

lemma sum_upd:
  fixes g :: "'b \<Rightarrow> 'c :: cancel_comm_monoid_add"
  assumes "finite A" and "a \<in> A"
  shows "(\<Sum>y\<in>A. g ((f(a := v)) y)) + g (f a) = (\<Sum>y\<in>A. g (f y)) + g v"
proof -
  have "(\<Sum>y\<in>A. g ((f(a := v)) y)) = g v + (\<Sum>y\<in>A - {a}. g (f y))"
    using assms by (simp add: sum.remove [of A a])
  moreover have "(\<Sum>y\<in>A. g (f y)) = g (f a) + (\<Sum>y\<in>A - {a}. g (f y))"
    using assms by (rule sum.remove)
  ultimately show ?thesis by (simp add: ac_simps)
qed

definition push_roots :: "Operation list \<Rightarrow> int multiset" where
  "push_roots xs = image_mset op_root (filter_mset (\<lambda>t. kind t = Op_Push) (mset xs))"

definition push_tokens :: "Operation list \<Rightarrow> int multiset" where
  "push_tokens xs = image_mset op_token (filter_mset (\<lambda>t. kind t = Op_Push) (mset xs))"

definition pop_roots :: "Operation list \<Rightarrow> int multiset" where
  "pop_roots xs = image_mset op_root (filter_mset (\<lambda>t. kind t = Op_Pop) (mset xs))"

lemmas list_measures = push_roots_def push_tokens_def pop_roots_def

text \<open>All tokens that were pushed and not yet popped, the heaps they are for, and the pops in the lists.\<close>

definition tokens :: "Pipeline \<Rightarrow> int multiset" where
  "tokens p = (\<Sum>y\<in>{0..<T_TREES}. image_mset snd (mset (heap p y))) + (\<Sum>i<N_UNITS. push_tokens (operation_list p i))"

definition roots :: "Pipeline \<Rightarrow> int multiset" where
  "roots p = (\<Sum>y\<in>{0..<T_TREES}. replicate_mset (length (heap p y)) y) + (\<Sum>i<N_UNITS. push_roots (operation_list p i))"

definition pops :: "Pipeline \<Rightarrow> int multiset" where
  "pops p = (\<Sum>i<N_UNITS. pop_roots (operation_list p i))"

text \<open>The pops of the units from \<open>k\<close> on that have not taken their token yet.\<close>

definition fresh_pops :: "nat \<Rightarrow> Pipeline \<Rightarrow> int multiset" where
  "fresh_pops k p = (\<Sum>i\<in>{k..<N_UNITS}. if fresh_pop (RPU p i) then {#op_root (RPU p i)#} else {#})"

section \<open>Order in the lists\<close>

text \<open>Every pop of \<open>y\<close> finds an element, if \<open>a\<close> are there and the operations are done in this order.\<close>

fun served :: "int \<Rightarrow> nat \<Rightarrow> Operation list \<Rightarrow> bool" where
  "served y a [] \<longleftrightarrow> True"
| "served y a (t # ts) \<longleftrightarrow>
     (if op_root t \<noteq> y then served y a ts
      else if kind t = Op_Push then served y (a + 1) ts
      else 0 < a \<and> served y (a - 1) ts)"

definition list_of :: "Pipeline \<Rightarrow> int \<Rightarrow> Operation list" where
  "list_of p y = (case list_map p y of None \<Rightarrow> [] | Some i \<Rightarrow> operation_list p i)"

lemma list_of_cong: "list_map q = list_map p \<Longrightarrow> operation_list q = operation_list p \<Longrightarrow> list_of q = list_of p"
  by (auto simp: list_of_def fun_eq_iff split: option.split)

lemma fresh_cong: "RPU q = RPU p \<Longrightarrow> fresh_pops k q = fresh_pops k p"
  by (simp add: fresh_pops_def cong: if_cong)

definition op_ok :: "Operation \<Rightarrow> bool" where
  "op_ok t \<longleftrightarrow> (kind t = Op_Push \<or> kind t = Op_Pop) \<and> op_TTL t = int N_UNITS \<and> 0 \<le> op_root t \<and> op_root t < T_TREES"

definition placed :: "Pipeline \<Rightarrow> bool" where
  "placed p \<longleftrightarrow> list_cnt p < N_UNITS \<and> (\<forall>y i. list_map p y = Some i \<longrightarrow> i < N_UNITS) \<and>
     (\<forall>i<N_UNITS. \<forall>t\<in>set (operation_list p i). op_ok t \<and> list_map p (op_root t) = Some i) \<and>
     (\<forall>y. y \<notin> {0..<T_TREES} \<longrightarrow> heap p y = []) \<and> (\<forall>i<N_UNITS. op_TTL (RPU p i) \<le> int N_UNITS) \<and>
     - 1 \<le> beggar p \<and> beggar p < int N_UNITS"

definition served_all :: "int multiset \<Rightarrow> Pipeline \<Rightarrow> bool" where
  "served_all F p \<longleftrightarrow> (\<forall>y. count F y \<le> length (heap p y) \<and> served y (length (heap p y) - count F y) (list_of p y))"

text \<open>Each inner node is asked for as many elements as it holds: once for its token above it, or for a pop
  that is on the way. \<open>D\<close> are the pops that are still to be added.\<close>

definition balanced :: "int multiset \<Rightarrow> int multiset \<Rightarrow> Pipeline \<Rightarrow> bool" where
  "balanced F D p \<longleftrightarrow> 0 \<le> root_num p \<and> ROOT \<notin># tokens p \<and>
     filter_mset (\<lambda>x. \<not> CheckRealQueue x) (tokens p) + replicate_mset (nat (root_num p)) ROOT + pops p + F + D = roots p"

definition counted :: "int multiset \<Rightarrow> int multiset \<Rightarrow> Pipeline \<Rightarrow> bool" where
  "counted F D p \<longleftrightarrow> buffer_num p = int (length (buffer p)) \<and> list_all CheckRealQueue (buffer p) \<and>
     start_num p = int (length (buffer p)) + int (size (pops p)) + int (size F) + int (size D) \<and> start_num p \<le> BUFFER_SIZE"

definition pipe_inv :: "int multiset \<Rightarrow> int multiset \<Rightarrow> Pipeline \<Rightarrow> bool" where
  "pipe_inv F D p \<longleftrightarrow> placed p \<and> served_all F p \<and> balanced F D p \<and> counted F D p"

definition pipe_ok :: "Pipeline \<Rightarrow> bool" where
  "pipe_ok p \<longleftrightarrow> pipe_inv (fresh_pops 0 p) {#} p"

lemma served_push: "served y a xs \<Longrightarrow> kind t = Op_Push \<Longrightarrow> served y a (xs @ [t])"
  by (induction xs arbitrary: a) (auto split: if_splits)

lemma served_other: "op_root t \<noteq> y \<Longrightarrow> served y a (xs @ [t]) \<longleftrightarrow> served y a xs"
  by (induction xs arbitrary: a) auto

lemma served_pop:
  "served y a xs \<Longrightarrow> list_all op_ok xs \<Longrightarrow> op_root t = y \<Longrightarrow> kind t = Op_Pop \<Longrightarrow>
   count (pop_roots xs) y < a + count (push_roots xs) y \<Longrightarrow> served y a (xs @ [t])"
proof (induction xs arbitrary: a)
  case Nil
  then show ?case by (simp add: list_measures)
next
  case (Cons u us)
  have k: "kind u = Op_Push \<or> kind u = Op_Pop" using Cons.prems(2) by (simp add: op_ok_def)
  have ok: "list_all op_ok us" using Cons.prems(2) by simp
  show ?case
  proof (cases "op_root u = y")
    case False
    then have "served y a (us @ [t])"
      by (intro Cons.IH) (use Cons.prems ok False in \<open>auto simp: list_measures split: if_splits\<close>)
    with False show ?thesis by simp
  next
    case y: True
    show ?thesis
    proof (cases "kind u = Op_Push")
      case True
      then have "served y (a + 1) (us @ [t])"
        by (intro Cons.IH) (use Cons.prems ok y True in \<open>auto simp: list_measures\<close>)
      with y True show ?thesis by simp
    next
      case False
      then have u: "kind u = Op_Pop" using k by simp
      have a: "0 < a" "served y (a - 1) us" using Cons.prems(1) y u by simp_all
      then have "served y (a - 1) (us @ [t])"
        by (intro Cons.IH) (use Cons.prems ok y u in \<open>auto simp: list_measures\<close>)
      with y u a show ?thesis by simp
    qed
  qed
qed

section \<open>Adding an operation\<close>

text \<open>The counts of a node are those of its list.\<close>

lemma count_list_of:
  assumes "placed p"
  shows "count (\<Sum>i<N_UNITS. pop_roots (operation_list p i)) y = count (pop_roots (list_of p y)) y"
    and "count (\<Sum>i<N_UNITS. push_roots (operation_list p i)) y = count (push_roots (list_of p y)) y"
proof -
  have zero: "count (image_mset op_root (filter_mset P (mset (operation_list p i)))) y = 0"
    if "i < N_UNITS" "list_map p y \<noteq> Some i" for i P
  proof -
    have "op_root t \<noteq> y" if "t \<in> set (operation_list p i)" for t
      using assms \<open>i < N_UNITS\<close> \<open>list_map p y \<noteq> Some i\<close> that unfolding placed_def by fastforce
    then show ?thesis by (auto simp: count_eq_zero_iff)
  qed
  have *: "(\<Sum>i<N_UNITS. count (image_mset op_root (filter_mset P (mset (operation_list p i)))) y) =
      count (image_mset op_root (filter_mset P (mset (list_of p y)))) y" for P
  proof (cases "list_map p y")
    case None
    then show ?thesis using zero by (simp add: list_of_def)
  next
    case (Some j)
    then have j: "j < N_UNITS" using assms by (simp add: placed_def)
    have "(\<Sum>i<N_UNITS. count (image_mset op_root (filter_mset P (mset (operation_list p i)))) y) =
        (\<Sum>i<N_UNITS. if i = j then count (image_mset op_root (filter_mset P (mset (operation_list p j)))) y else 0)"
      using zero Some by (intro sum.cong) auto
    then show ?thesis using j Some by (simp add: list_of_def)
  qed
  show "count (\<Sum>i<N_UNITS. pop_roots (operation_list p i)) y = count (pop_roots (list_of p y)) y"
    using * [of "\<lambda>t. kind t = Op_Pop"] by (simp add: count_sum pop_roots_def)
  show "count (\<Sum>i<N_UNITS. push_roots (operation_list p i)) y = count (push_roots (list_of p y)) y"
    using * [of "\<lambda>t. kind t = Op_Push"] by (simp add: count_sum push_roots_def)
qed

lemma count_heaps:
  assumes "placed p"
  shows "count (\<Sum>y\<in>{0..<T_TREES}. replicate_mset (length (heap p y)) y) y = length (heap p y)"
proof -
  have "(\<Sum>z\<in>{0..<T_TREES}. count (replicate_mset (length (heap p z)) z) y) =
      (\<Sum>z\<in>{0..<T_TREES}. if z = y then length (heap p y) else 0)"
    by (intro sum.cong) auto
  then show ?thesis using assms by (auto simp: count_sum placed_def)
qed

lemma count_roots: "placed p \<Longrightarrow> count (roots p) y = length (heap p y) + count (push_roots (list_of p y)) y"
  using count_heaps count_list_of(2) by (simp add: roots_def)

text \<open>\<open>add_op\<close> as a whole.\<close>

definition listed :: "int \<Rightarrow> Operation \<Rightarrow> Pipeline \<Rightarrow> Pipeline \<Rightarrow> bool" where
  "listed y t p q \<longleftrightarrow> RPU q = RPU p \<and> heap q = heap p \<and> root_num q = root_num p \<and> buffer_num q = buffer_num p \<and>
     start_num q = start_num p \<and> buffer q = buffer p \<and> beggar q = beggar p \<and>
     (\<exists>i<N_UNITS. list_map q y = Some i \<and> (\<forall>z. z \<noteq> y \<longrightarrow> list_map q z = list_map p z) \<and>
        (list_map p y = None \<or> list_map p y = Some i) \<and>
        operation_list q = (operation_list p)(i := operation_list p i @ [t])) \<and> list_cnt q < N_UNITS"

lemma add_op_listed: "placed p \<Longrightarrow> listed y t p (add_op y t p)"
  unfolding listed_def add_op_def GetListId_def placed_def
  by (auto simp: Let_def N_UNITS_def split: option.splits)

lemma listed_placed:
  assumes "placed p" and "listed y t p q" and "op_ok t" and "op_root t = y"
  shows "placed q"
proof -
  obtain i where i: "i < N_UNITS" "list_map q y = Some i" "\<forall>z. z \<noteq> y \<longrightarrow> list_map q z = list_map p z"
    "list_map p y = None \<or> list_map p y = Some i" "operation_list q = (operation_list p)(i := operation_list p i @ [t])"
    using assms(2) unfolding listed_def by blast
  have same: "heap q = heap p" "RPU q = RPU p" "list_cnt q < N_UNITS" "beggar q = beggar p" using assms(2) by (simp_all add: listed_def)
  have m: "list_map q z = Some j" if "list_map p z = Some j" for z j using that i(2-4) by (cases "z = y") auto
  have "op_ok u \<and> list_map q (op_root u) = Some k" if "k < N_UNITS" "u \<in> set (operation_list q k)" for k u
    using that assms(1,3,4) i(2,5) m by (auto simp: placed_def split: if_splits)
  moreover have "k < N_UNITS" if "list_map q z = Some k" for z k
    using that i(1-3) assms(1) by (cases "z = y") (auto simp: placed_def)
  ultimately show ?thesis using assms(1) same by (simp add: placed_def)
qed

lemma served_none: "\<forall>t\<in>set xs. op_root t \<noteq> y \<Longrightarrow> served y a xs"
  by (induction xs) auto

lemma listed_lists:
  assumes "placed p" and "listed y t p q"
  shows "z \<noteq> y \<Longrightarrow> op_root t = y \<Longrightarrow> served z a (list_of q z) \<longleftrightarrow> served z a (list_of p z)"
    and "\<exists>xs. list_of q y = xs @ [t] \<and> list_all op_ok xs \<and> (served y a (list_of p y) \<longrightarrow> served y a xs) \<and>
      count (pop_roots xs) y = count (pop_roots (list_of p y)) y \<and> count (push_roots xs) y = count (push_roots (list_of p y)) y"
proof -
  obtain i where i: "i < N_UNITS" "list_map q y = Some i" "\<forall>z. z \<noteq> y \<longrightarrow> list_map q z = list_map p z"
    "list_map p y = None \<or> list_map p y = Some i" "operation_list q = (operation_list p)(i := operation_list p i @ [t])"
    using assms(2) unfolding listed_def by blast
  show "z \<noteq> y \<Longrightarrow> op_root t = y \<Longrightarrow> served z a (list_of q z) \<longleftrightarrow> served z a (list_of p z)"
    using i(3,5) by (auto simp: list_of_def served_other split: option.splits)
  have ok: "list_all op_ok (operation_list p i)" using assms(1) i(1) by (simp add: placed_def list_all_iff)
  have none: "\<forall>u\<in>set (operation_list p i). op_root u \<noteq> y" if "list_map p y = None"
    using that assms(1) i(1) by (fastforce simp: placed_def)
  show "\<exists>xs. list_of q y = xs @ [t] \<and> list_all op_ok xs \<and> (served y a (list_of p y) \<longrightarrow> served y a xs) \<and>
      count (pop_roots xs) y = count (pop_roots (list_of p y)) y \<and> count (push_roots xs) y = count (push_roots (list_of p y)) y"
  proof (intro exI [of _ "operation_list p i"] conjI)
    show "list_of q y = operation_list p i @ [t]" using i(2,5) by (simp add: list_of_def)
    show "served y a (list_of p y) \<longrightarrow> served y a (operation_list p i)"
      using i(4) none served_none by (auto simp: list_of_def)
    show "count (pop_roots (operation_list p i)) y = count (pop_roots (list_of p y)) y"
      "count (push_roots (operation_list p i)) y = count (push_roots (list_of p y)) y"
      using i(4) none by (auto simp: list_of_def list_measures count_eq_zero_iff)
  qed (rule ok)
qed

lemma listed_measures:
  assumes "placed p" and "listed y t p q" and "op_root t = y"
  shows "tokens q = tokens p + (if kind t = Op_Push then {#op_token t#} else {#})"
    and "roots q = roots p + (if kind t = Op_Push then {#y#} else {#})"
    and "pops q = pops p + (if kind t = Op_Pop then {#y#} else {#})"
proof -
  obtain i where i: "i < N_UNITS" "operation_list q = (operation_list p)(i := operation_list p i @ [t])"
    using assms(2) unfolding listed_def by blast
  have h: "heap q = heap p" using assms(2) by (simp add: listed_def)
  have upd: "(\<Sum>k<N_UNITS. g (operation_list q k)) = (\<Sum>k<N_UNITS. g (operation_list p k)) + d"
    if "g (operation_list p i @ [t]) = g (operation_list p i) + d" for g :: "Operation list \<Rightarrow> int multiset" and d
  proof -
    have "(\<Sum>k<N_UNITS. g (operation_list q k)) + g (operation_list p i) = ((\<Sum>k<N_UNITS. g (operation_list p k)) + d) + g (operation_list p i)"
      using sum_upd [of "{..<N_UNITS}" i g "operation_list p" "operation_list p i @ [t]"] i that by (simp add: ac_simps)
    then show ?thesis by (rule add_right_imp_eq)
  qed
  show "tokens q = tokens p + (if kind t = Op_Push then {#op_token t#} else {#})"
    using upd [of push_tokens "if kind t = Op_Push then {#op_token t#} else {#}"] by (simp add: tokens_def h push_tokens_def)
  show "roots q = roots p + (if kind t = Op_Push then {#y#} else {#})"
    using upd [of push_roots "if kind t = Op_Push then {#y#} else {#}"] assms(3) by (simp add: roots_def h push_roots_def)
  show "pops q = pops p + (if kind t = Op_Pop then {#y#} else {#})"
    using upd [of pop_roots "if kind t = Op_Pop then {#y#} else {#}"] assms(3) by (simp add: pops_def pop_roots_def)
qed

lemma listed_served:
  assumes "placed p" and "listed y t p q" and "op_root t = y" and "served_all F p"
    and "kind t = Op_Push \<or> kind t = Op_Pop \<and> count (pops p) y + count F y < count (roots p) y"
  shows "served_all F q"
  unfolding served_all_def
proof (intro allI conjI)
  fix z
  have h: "heap q = heap p" using assms(2) by (simp add: listed_def)
  then show le: "count F z \<le> length (heap q z)" using assms(4) by (simp add: served_all_def)
  let ?a = "length (heap p z) - count F z"
  have s: "served z ?a (list_of p z)" using assms(4) by (simp add: served_all_def)
  show "served z (length (heap q z) - count F z) (list_of q z)"
  proof (cases "z = y")
    case False
    then show ?thesis using s listed_lists(1) [OF assms(1,2) False assms(3)] h by simp
  next
    case True
    obtain xs where xs: "list_of q y = xs @ [t]" "list_all op_ok xs" "served y ?a xs"
      "count (pop_roots xs) y = count (pop_roots (list_of p y)) y" "count (push_roots xs) y = count (push_roots (list_of p y)) y"
      using listed_lists(2) [OF assms(1,2), of ?a] s True by blast
    have "count (pop_roots xs) y < ?a + count (push_roots xs) y" if "kind t = Op_Pop"
      using assms(5) that le count_roots [OF assms(1), of y] count_list_of(1) [OF assms(1), of y] True h xs(4,5)
      by (auto simp: pops_def)
    then have "served y ?a (xs @ [t])"
      using assms(3,5) xs(2,3) served_push served_pop by blast
    then show ?thesis using xs(1) h True by simp
  qed
qed

text \<open>Adding a pop that is due.\<close>

lemma add_pop_inv:
  assumes "pipe_inv F (add_mset y D) p" and "0 \<le> y" "y < T_TREES"
  defines "q \<equiv> add_op y (pop_op y) p"
  shows "pipe_inv F D q" and "RPU q = RPU p" and "tokens q = tokens p"
    and "buffer q = buffer p" and "root_num q = root_num p" and "start_num q = start_num p"
proof -
  have inv: "placed p" "served_all F p" "balanced F (add_mset y D) p" "counted F (add_mset y D) p"
    using assms(1) by (simp_all add: pipe_inv_def)
  have l: "listed y (pop_op y) p q" unfolding q_def by (rule add_op_listed [OF inv(1)])
  have t: "op_ok (pop_op y)" "op_root (pop_op y) = y" "kind (pop_op y) = Op_Pop"
    using assms(2,3) by (simp_all add: op_ok_def pop_op_def)
  note m = listed_measures [OF inv(1) l t(2)]
  have same: "root_num q = root_num p" "start_num q = start_num p" "buffer_num q = buffer_num p" "buffer q = buffer p"
    "RPU q = RPU p" using l by (simp_all add: listed_def)
  have "roots p = filter_mset (\<lambda>x. \<not> CheckRealQueue x) (tokens p) + replicate_mset (nat (root_num p)) ROOT + pops p + F + add_mset y D"
    using inv(3) by (simp add: balanced_def)
  then have "count (pops p) y + count F y < count (roots p) y" by simp
  then have "served_all F q" using listed_served [OF inv(1) l t(2) inv(2)] t(3) by blast
  moreover have "placed q" by (rule listed_placed [OF inv(1) l t(1,2)])
  moreover have "balanced F D q" using inv(3) m t(3) same by (simp add: balanced_def)
  moreover have "counted F D q" using inv(4) m t(3) same by (simp add: counted_def)
  ultimately show "pipe_inv F D q" by (simp add: pipe_inv_def)
  show "RPU q = RPU p" "buffer q = buffer p" "root_num q = root_num p" "start_num q = start_num p" by (fact same)+
  show "tokens q = tokens p" using m(1) t(3) by simp
qed

text \<open>Asking the root for an element.\<close>

lemma ask_root_inv:
  assumes "pipe_inv F {#} p" and "root_num p > 0" and "start_num p < BUFFER_SIZE"
  defines "q \<equiv> AddPop ROOT p"
  shows "pipe_inv F {#} q" and "RPU q = RPU p" and "tokens q = tokens p" and "buffer q = buffer p"
    and "root_num q + start_num q = root_num p + start_num p"
proof -
  let ?p = "p\<lparr> root_num := root_num p - 1, start_num := start_num p + 1 \<rparr>"
  have n: "nat (root_num p) = Suc (nat (root_num p - 1))" using assms(2) by simp
  have m: "tokens ?p = tokens p" "roots ?p = roots p" "pops ?p = pops p"
    by (simp_all add: tokens_def roots_def pops_def)
  have "list_of ?p = list_of p" by (rule list_of_cong) simp_all
  then have "placed ?p" "served_all F ?p" using assms(1) by (simp_all add: pipe_inv_def placed_def served_all_def)
  moreover have "balanced F {#ROOT#} ?p" using assms(1,2) n by (simp add: pipe_inv_def balanced_def m)
  moreover have "counted F {#ROOT#} ?p" using assms(1,3) unfolding pipe_inv_def counted_def m by simp
  ultimately have i: "pipe_inv F {#ROOT#} ?p" by (simp add: pipe_inv_def)
  have r: "0 \<le> ROOT" "ROOT < T_TREES" by (simp_all add: ROOT_def T_TREES_def)
  have q: "q = add_op ROOT (pop_op ROOT) ?p" by (simp add: q_def AddPop_def)
  show "pipe_inv F {#} q" "RPU q = RPU p" "tokens q = tokens p" "buffer q = buffer p"
    "root_num q + start_num q = root_num p + start_num p"
    using add_pop_inv [OF i r] by (simp_all add: q m)
qed

text \<open>Adding a push.\<close>

lemma AddPush_step:
  fixes rk x :: int
  assumes "placed p" and "served_all F p" and "0 \<le> y" "y < T_TREES"
  defines "q \<equiv> AddPush y rk x p"
  shows "placed q \<and> served_all F q \<and> RPU q = RPU p \<and> tokens q = tokens p + {#x#} \<and> roots q = roots p + {#y#} \<and> pops q = pops p \<and>
    buffer q = buffer p \<and> buffer_num q = buffer_num p \<and> start_num q = start_num p \<and>
    root_num q = root_num p + (if y = ROOT then 1 else 0)"
proof -
  let ?p = "if y = ROOT then p\<lparr> root_num := root_num p + 1 \<rparr> else p" and ?t = "push_op y rk x"
  have "list_of ?p = list_of p" by (rule list_of_cong) simp_all
  then have p: "placed ?p" "served_all F ?p" using assms(1,2) by (simp_all add: placed_def served_all_def)
  have m: "tokens ?p = tokens p" "roots ?p = roots p" "pops ?p = pops p"
    by (simp_all add: tokens_def roots_def pops_def)
  have l: "listed y ?t ?p q" unfolding q_def AddPush_def by (rule add_op_listed [OF p(1)])
  have t: "op_ok ?t" "op_root ?t = y" "kind ?t = Op_Push" "op_token ?t = x" using assms(3,4) by (simp_all add: op_ok_def push_op_def)
  have "served_all F q" using listed_served [OF p(1) l t(2) p(2)] t(3) by blast
  with listed_placed [OF p(1) l t(1,2)] listed_measures [OF p(1) l t(2)] t m l show ?thesis
    by (simp add: listed_def)
qed

text \<open>The pushes of a packet: one token for each inner node they go to, but the root, and one for a real
  queue.\<close>

definition packet_pushes :: "int \<Rightarrow> (int \<times> int \<times> int) list \<Rightarrow> bool" where
  "packet_pushes x bs \<longleftrightarrow> (\<forall>(y, rk, z)\<in>set bs. 0 \<le> y \<and> y < T_TREES \<and> z \<noteq> ROOT) \<and>
     filter_mset (\<lambda>z. \<not> CheckRealQueue z) (mset (map (snd \<circ> snd) bs)) + {#ROOT#} = mset (map fst bs) \<and>
     filter_mset CheckRealQueue (mset (map (snd \<circ> snd) bs)) = {#x#}"

definition add_pushes :: "(int \<times> int \<times> int) list \<Rightarrow> Pipeline \<Rightarrow> Pipeline" where
  "add_pushes bs = fold (\<lambda>(y, rk, z). AddPush y rk z) bs"

lemma add_pushes_steps:
  assumes "placed p" and "served_all F p" and "\<forall>(y, rk, z)\<in>set bs. 0 \<le> y \<and> y < T_TREES"
  defines "q \<equiv> add_pushes bs p"
  shows "placed q \<and> served_all F q \<and> RPU q = RPU p \<and> tokens q = tokens p + mset (map (snd \<circ> snd) bs) \<and>
    roots q = roots p + mset (map fst bs) \<and> pops q = pops p \<and> buffer q = buffer p \<and> buffer_num q = buffer_num p \<and>
    start_num q = start_num p \<and> root_num q = root_num p + int (count (mset (map fst bs)) ROOT)"
  using assms(1-3) unfolding q_def
proof (induction bs arbitrary: p)
  case Nil
  then show ?case by (simp add: add_pushes_def)
next
  case (Cons b bs)
  obtain y rk z where b: "b = (y, rk, z)" by (cases b)
  let ?p = "AddPush y rk z p"
  have s: "placed ?p \<and> served_all F ?p \<and> RPU ?p = RPU p \<and> tokens ?p = tokens p + {#z#} \<and> roots ?p = roots p + {#y#} \<and> pops ?p = pops p \<and>
    buffer ?p = buffer p \<and> buffer_num ?p = buffer_num p \<and> start_num ?p = start_num p \<and>
    root_num ?p = root_num p + (if y = ROOT then 1 else 0)"
    using AddPush_step [OF Cons.prems(1,2), of y rk z] Cons.prems(3) b by simp
  have "add_pushes (b # bs) p = add_pushes bs ?p" by (simp add: add_pushes_def b)
  with Cons.IH [of ?p] s Cons.prems(3) b show ?case by simp
qed

lemma add_pushes_inv:
  assumes "pipe_ok p" and "packet_pushes x bs"
  defines "q \<equiv> add_pushes bs p"
  shows "pipe_ok q" and "filter_mset CheckRealQueue (tokens q) = filter_mset CheckRealQueue (tokens p) + {#x#}"
    and "buffer q = buffer p" and "start_num q = start_num p" and "root_num q = root_num p + 1"
proof -
  have inv: "placed p" "served_all (fresh_pops 0 p) p" "balanced (fresh_pops 0 p) {#} p" "counted (fresh_pops 0 p) {#} p"
    using assms(1) by (simp_all add: pipe_ok_def pipe_inv_def)
  have bs: "\<forall>(y, rk, z)\<in>set bs. 0 \<le> y \<and> y < T_TREES"
    "filter_mset (\<lambda>z. \<not> CheckRealQueue z) (mset (map (snd \<circ> snd) bs)) + {#ROOT#} = mset (map fst bs)"
    "filter_mset CheckRealQueue (mset (map (snd \<circ> snd) bs)) = {#x#}" "ROOT \<notin> set (map (snd \<circ> snd) bs)"
    using assms(2) by (auto simp: packet_pushes_def)
  note s = add_pushes_steps [OF inv(1,2) bs(1), folded q_def]
  have real: "\<not> CheckRealQueue ROOT" by (simp add: CheckRealQueue_def ROOT_def)
  have "count (mset (map fst bs)) ROOT = 1"
    unfolding bs(2) [symmetric] using bs(4) by (simp add: count_eq_zero_iff)
  then have root: "root_num q = root_num p + 1" using s by simp
  moreover have "nat (root_num p + 1) = Suc (nat (root_num p))" using inv(3) unfolding balanced_def by linarith
  moreover have fr: "fresh_pops 0 q = fresh_pops 0 p" by (rule fresh_cong) (use s in simp)
  let ?B = "filter_mset (\<lambda>z. \<not> CheckRealQueue z) (mset (map (snd \<circ> snd) bs))"
  have "roots q = roots p + (?B + {#ROOT#})" unfolding bs(2) using s by simp
  moreover have "filter_mset (\<lambda>z. \<not> CheckRealQueue z) (tokens q) = filter_mset (\<lambda>z. \<not> CheckRealQueue z) (tokens p) + ?B" using s by simp
  moreover have "ROOT \<notin># tokens q" using s inv(3) bs(4) by (simp add: balanced_def)
  moreover have "pops q = pops p" using s by simp
  moreover have "roots p = filter_mset (\<lambda>x. \<not> CheckRealQueue x) (tokens p) + replicate_mset (nat (root_num p)) ROOT + pops p + fresh_pops 0 p"
    "0 \<le> root_num p" using inv(3) by (simp_all add: balanced_def)
  ultimately have "balanced (fresh_pops 0 q) {#} q" unfolding balanced_def fr by (simp add: ac_simps)
  moreover have "counted (fresh_pops 0 q) {#} q" using inv(4) s unfolding counted_def fr by simp
  ultimately show "pipe_ok q" using s unfolding pipe_ok_def pipe_inv_def fr by simp
  show "filter_mset CheckRealQueue (tokens q) = filter_mset CheckRealQueue (tokens p) + {#x#}" using s bs(3) by simp
  show "buffer q = buffer p" "start_num q = start_num p" using s by simp_all
  show "root_num q = root_num p + 1" by (fact root)
qed

end
