(* ===== verification/Ns3_Turn.thy ===== *)
theory Ns3_Turn
  imports Ns3_Inv
begin

text \<open>The first loop of a turn: every pop that was sent finds an element, and the invariant is kept.\<close>

section \<open>Taking tokens\<close>

lemma roots_range: "placed p \<Longrightarrow> y \<in># roots p \<Longrightarrow> 0 \<le> y \<and> y < T_TREES"
  by (auto simp: roots_def list_measures placed_def op_ok_def set_mset_sum split: if_splits)

lemma heap_tl_measures:
  assumes "y \<in> {0..<T_TREES}" and "heap p y = x # h"
  defines "q \<equiv> p\<lparr> heap := (heap p)(y := h) \<rparr>"
  shows "tokens p = add_mset (snd x) (tokens q)" and "roots p = add_mset y (roots q)" and "pops q = pops p"
proof -
  have h: "heap q = (heap p)(y := h)" by (simp add: q_def)
  have "(\<Sum>z\<in>{0..<T_TREES}. image_mset snd (mset (heap q z))) + {#snd x#} + image_mset snd (mset h) =
      (\<Sum>z\<in>{0..<T_TREES}. image_mset snd (mset (heap p z))) + image_mset snd (mset h)"
    using sum_upd [of "{0..<T_TREES}" y "\<lambda>l. image_mset snd (mset l)" "heap p" h] assms(1,2) by (simp add: h)
  then have "(\<Sum>z\<in>{0..<T_TREES}. image_mset snd (mset (heap q z))) + {#snd x#} = (\<Sum>z\<in>{0..<T_TREES}. image_mset snd (mset (heap p z)))"
    by (rule add_right_imp_eq)
  then show "tokens p = add_mset (snd x) (tokens q)" by (simp add: tokens_def q_def)
  have "(\<Sum>z\<in>{0..<T_TREES}. replicate_mset (length (heap p z)) z) =
      replicate_mset (length (heap p y)) y + (\<Sum>z\<in>{0..<T_TREES} - {y}. replicate_mset (length (heap p z)) z)"
    using assms(1) by (intro sum.remove) simp_all
  moreover have "(\<Sum>z\<in>{0..<T_TREES}. replicate_mset (length (heap q z)) z) =
      replicate_mset (length h) y + (\<Sum>z\<in>{0..<T_TREES} - {y}. replicate_mset (length (heap p z)) z)"
    using assms(1) by (simp add: sum.remove [of _ y] h)
  ultimately show "roots p = add_mset y (roots q)" by (simp add: roots_def q_def assms(2))
  show "pops q = pops p" by (simp add: pops_def q_def)
qed

lemma fresh_step:
  "i < N_UNITS \<Longrightarrow> fresh_pops i p = (if fresh_pop (RPU p i) then {#op_root (RPU p i)#} else {#}) + fresh_pops (Suc i) p"
  by (simp add: fresh_pops_def sum.atLeast_Suc_lessThan)

text \<open>What stays the same in a turn: the packets, as tokens of real queues and in the buffer.\<close>

definition keeps :: "Pipeline \<Rightarrow> Pipeline \<Rightarrow> bool" where
  "keeps p q \<longleftrightarrow> filter_mset CheckRealQueue (tokens q) + mset (buffer q) = filter_mset CheckRealQueue (tokens p) + mset (buffer p) \<and>
     root_num q + start_num q = root_num p + start_num p"

lemma keeps_trans: "keeps p q \<Longrightarrow> keeps q r \<Longrightarrow> keeps p r"
  by (simp add: keeps_def)

lemma take_token_inv:
  assumes "pipe_inv (fresh_pops i p) {#} p" and "i < N_UNITS"
  shows "\<exists>q. take_token i p = Inr q \<and> pipe_inv (fresh_pops (Suc i) q) {#} q \<and> RPU q = RPU p \<and> keeps p q"
proof (cases "fresh_pop (RPU p i)")
  case False
  then show ?thesis using assms fresh_step [OF assms(2), of p] by (simp add: take_token_def keeps_def)
next
  case True
  define y where "y = op_root (RPU p i)"
  define F where "F = fresh_pops (Suc i) p"
  have F: "fresh_pops i p = add_mset y F" using fresh_step [OF assms(2), of p] True by (simp add: y_def F_def)
  have inv: "placed p" "served_all (add_mset y F) p" "balanced (add_mset y F) {#} p" "counted (add_mset y F) {#} p"
    using assms(1) by (simp_all add: pipe_inv_def F)
  have "count (add_mset y F) y \<le> length (heap p y)" using inv(2) unfolding served_all_def by blast
  then obtain r ans h where h: "heap p y = (r, ans) # h" by (cases "heap p y") auto
  have y: "y \<in> {0..<T_TREES}" using inv(1) h unfolding placed_def by fastforce
  let ?p = "p\<lparr> heap := (heap p)(y := h) \<rparr>"
  note m = heap_tl_measures [OF y h]
  have "list_of ?p = list_of p" by (rule list_of_cong) simp_all
  then have s: "served_all F ?p" using inv(2) h unfolding served_all_def by (auto simp: Suc_diff_Suc split: if_splits)
      (metis (no_types, lifting) Suc_le_mono count_add_mset diff_Suc_Suc length_Cons)+
  have pl: "placed ?p" using inv(1) y by (auto simp: placed_def)
  have bal: "balanced F (if CheckRealQueue ans then {#} else {#ans#}) ?p"
    using inv(3) m by (auto simp: balanced_def)
  have ans: "ans \<noteq> ROOT" using inv(3) m(1) by (auto simp: balanced_def)
  show ?thesis
  proof (cases "CheckRealQueue ans")
    case real: True
    let ?q = "?p\<lparr> buffer_num := buffer_num p + 1, buffer := buffer p @ [ans] \<rparr>"
    have run: "take_token i p = Inr ?q" using True h real by (simp add: take_token_def y_def [symmetric] Let_def)
    have lq: "list_of ?q = list_of ?p" by (rule list_of_cong) simp_all
    have mq: "tokens ?q = tokens ?p" "roots ?q = roots ?p" "pops ?q = pops ?p" by (simp_all add: tokens_def roots_def pops_def)
    have "fresh_pops (Suc i) ?q = F" unfolding F_def by (rule fresh_cong) simp
    moreover have "placed ?q" "served_all F ?q" using pl s lq by (simp_all add: placed_def served_all_def)
    moreover have "balanced F {#} ?q" using bal real unfolding balanced_def mq by simp
    moreover have "counted F {#} ?q" using inv(4) m real unfolding counted_def mq by simp
    moreover have "keeps p ?q" using m real unfolding keeps_def mq by simp
    ultimately show ?thesis using run by (simp add: pipe_inv_def)
  next
    case False
    then have nr: "balanced F {#ans#} ?p" using bal by simp
    have "counted F {#ans#} ?p" using inv(4) m unfolding counted_def by simp
    then have i1: "pipe_inv F {#ans#} ?p" using pl s nr by (simp add: pipe_inv_def)
    have "ans \<in># roots ?p" using nr unfolding balanced_def by (metis union_iff multi_member_last)
    then have range: "0 \<le> ans" "ans < T_TREES" using roots_range [OF pl] by auto
    let ?q = "AddPop ans ?p"
    have q: "?q = add_op ans (pop_op ans) ?p" using ans by (simp add: AddPop_def)
    note a = add_pop_inv [OF i1 range, folded q]
    have "fresh_pops (Suc i) ?q = F" unfolding F_def by (rule fresh_cong) (use a(2) in simp)
    moreover have "take_token i p = Inr ?q" using True h False by (simp add: take_token_def y_def [symmetric] Let_def)
    moreover have "keeps p ?q" using a m False by (simp add: keeps_def)
    ultimately show ?thesis using a(1,2) by simp
  qed
qed

lemma take_tokens_inv:
  "pipe_inv (fresh_pops i p) {#} p \<Longrightarrow> i \<le> N_UNITS \<Longrightarrow>
   \<exists>q. each_do take_token [i..<N_UNITS] p = Inr q \<and> pipe_inv {#} {#} q \<and> RPU q = RPU p \<and> keeps p q"
proof (induction "N_UNITS - i" arbitrary: i p)
  case 0
  then have "i = N_UNITS" by simp
  with 0 show ?case by (simp add: fresh_pops_def keeps_def)
next
  case (Suc n)
  then have i: "i < N_UNITS" by simp
  obtain q where q: "take_token i p = Inr q" "pipe_inv (fresh_pops (Suc i) q) {#} q" "RPU q = RPU p" "keeps p q"
    using take_token_inv [OF Suc.prems(1) i] by blast
  have "n = N_UNITS - Suc i" "Suc i \<le> N_UNITS" using Suc.hyps(2) i by simp_all
  from Suc.hyps(1) [OF this(1) q(2) this(2)] q show ?case
    using i keeps_trans by (auto simp: upt_conv_Cons)
qed

end
