(* ===== verification/Ns3_Send.thy ===== *)
theory Ns3_Send
  imports Ns3_Turn
begin

text \<open>
  The second and third loop of a turn keep the invariant: operations are passed from unit to unit, and
  each free unit is sent the next operation of its list.
\<close>

section \<open>Passing operations down\<close>

lemma pass_from_outside: "j < i \<or> i + k \<le> j \<Longrightarrow> pass_from k i nt u j = u j"
  by (induction k i nt u rule: pass_from.induct) (auto simp: pass_from.simps(2) Let_def)

lemma pass_from_units:
  "op_TTL nt < int N_UNITS \<Longrightarrow> \<forall>j. i \<le> j \<and> j < i + k \<longrightarrow> op_TTL (u j) \<le> int N_UNITS \<Longrightarrow> i \<le> j \<Longrightarrow> j < i + k \<Longrightarrow>
   \<not> fresh_pop (pass_from k i nt u j) \<and> op_TTL (pass_from k i nt u j) \<le> int N_UNITS"
proof (induction k i nt u rule: pass_from.induct)
  case (1 i nt u)
  then show ?case by simp
next
  case (2 k i nt u)
  let ?cur = "(u i)\<lparr> op_TTL := op_TTL (u i) - 1 \<rparr>"
  let ?new = "if kind (u i) = Op_Pop then (u i)\<lparr> kind := Op_WriteBack \<rparr>
    else if op_TTL nt > 0 then nt else (u i)\<lparr> kind := Op_Empty, op_TTL := 0 \<rparr>"
  have ui: "op_TTL (u i) \<le> int N_UNITS" using "2.prems"(2) by simp
  have new: "\<not> fresh_pop ?new" "op_TTL ?new \<le> int N_UNITS" using ui "2.prems"(1) by (auto simp: fresh_pop_def)
  have step: "pass_from (Suc k) i nt u = pass_from k (i + 1) ?cur (u(i := ?new))" by (simp only: pass_from.simps Let_def)
  show ?case
  proof (cases "j = i")
    case True
    then show ?thesis unfolding step using new by (simp only: pass_from_outside fun_upd_same less_add_one simp_thms)
  next
    case False
    show ?thesis unfolding step
      by (rule "2.IH" [OF refl refl]) (use ui "2.prems" False in auto)
  qed
qed

section \<open>Frames\<close>

lemma pipe_inv_cong:
  assumes "pipe_inv F D p" and "operation_list q = operation_list p" "heap q = heap p" "root_num q = root_num p"
    "buffer_num q = buffer_num p" "start_num q = start_num p" "buffer q = buffer p" "list_map q = list_map p"
    "list_cnt q = list_cnt p" and "\<forall>i<N_UNITS. op_TTL (RPU q i) \<le> int N_UNITS" "- 1 \<le> beggar q" "beggar q < int N_UNITS"
  shows "pipe_inv F D q" and "keeps p q"
proof -
  have "list_of q = list_of p" by (rule list_of_cong) (fact assms)+
  moreover have m: "tokens q = tokens p" "roots q = roots p" "pops q = pops p"
    by (simp_all add: tokens_def roots_def pops_def assms)
  ultimately show "pipe_inv F D q" using assms(1,10-12)
    unfolding pipe_inv_def placed_def served_all_def balanced_def counted_def m assms(2-9) by simp
  show "keeps p q" by (simp add: keeps_def m assms)
qed

lemma pass_down_ok:
  assumes "pipe_inv {#} {#} p"
  shows "pipe_ok (pass_down_ops p)" and "keeps p (pass_down_ops p)"
proof -
  let ?q = "pass_down_ops p"
  have ttl: "\<forall>i<N_UNITS. op_TTL (RPU p i) \<le> int N_UNITS" and b: "- 1 \<le> beggar p" "beggar p < int N_UNITS"
    using assms by (simp_all add: pipe_inv_def placed_def)
  have u: "\<not> fresh_pop (RPU ?q j) \<and> op_TTL (RPU ?q j) \<le> int N_UNITS" if "j < N_UNITS" for j
  proof -
    have "op_TTL (RPU p (N_UNITS - 1)) - 1 < int N_UNITS" using ttl [rule_format, of "N_UNITS - 1"] by (simp add: N_UNITS_def)
    then show ?thesis unfolding pass_down_ops_def Let_def
      using pass_from_units [of _ 0 N_UNITS "RPU p" j] ttl that by simp
  qed
  have inv: "pipe_inv {#} {#} ?q" "keeps p ?q"
    by (rule pipe_inv_cong [OF assms]; use u b in \<open>simp add: pass_down_ops_def Let_def\<close>)+
  have "fresh_pops 0 ?q = {#}" using u by (simp add: fresh_pops_def)
  then show "pipe_ok ?q" "keeps p ?q" using inv by (simp_all add: pipe_ok_def)
qed

section \<open>Sending an operation\<close>

lemma lists_tl:
  fixes g :: "Operation list \<Rightarrow> int multiset"
  assumes "i < N_UNITS" and "f i = t # ts" and "g (t # ts) = g ts + d"
  shows "(\<Sum>k<N_UNITS. g (f k)) = (\<Sum>k<N_UNITS. g ((f(i := ts)) k)) + d"
proof -
  have "(\<Sum>k<N_UNITS. g (f k)) + g ts = ((\<Sum>k<N_UNITS. g ((f(i := ts)) k)) + d) + g ts"
    using sum_upd [of "{..<N_UNITS}" i g f ts] assms by (simp add: ac_simps)
  then show ?thesis by (rule add_right_imp_eq)
qed

lemma mset_heap_push: "mset (heap_push x h) = add_mset x (mset h)"
  by (induction x h rule: heap_push.induct) auto

lemma length_heap_push: "length (heap_push x h) = Suc (length h)"
  by (induction x h rule: heap_push.induct) auto

text \<open>The head of list \<open>i\<close> is taken off; a push goes into its heap.\<close>

definition sent :: "nat \<Rightarrow> Operation \<Rightarrow> Pipeline \<Rightarrow> Pipeline \<Rightarrow> bool" where
  "sent i t p q \<longleftrightarrow> (\<exists>ts. operation_list p i = t # ts \<and> operation_list q = (operation_list p)(i := ts)) \<and>
     heap q = (if kind t = Op_Push then (heap p)(op_root t := heap_push (- op_rank t, op_token t) (heap p (op_root t))) else heap p) \<and>
     root_num q = root_num p \<and> buffer_num q = buffer_num p \<and> start_num q = start_num p \<and> buffer q = buffer p \<and>
     list_map q = list_map p \<and> list_cnt q = list_cnt p \<and> (beggar q = beggar p \<or> beggar q = - 1)"

lemma sent_measures:
  assumes "placed p" and "i < N_UNITS" and "sent i t p q"
  shows "tokens q = tokens p" and "roots q = roots p" and "pops p = pops q + (if kind t = Op_Pop then {#op_root t#} else {#})"
proof -
  obtain ts where ts: "operation_list p i = t # ts" "operation_list q = (operation_list p)(i := ts)"
    using assms(3) by (auto simp: sent_def)
  have t: "op_ok t" using assms(1,2) ts(1) by (simp add: placed_def)
  then have y: "op_root t \<in> {0..<T_TREES}" by (simp add: op_ok_def)
  let ?ys = "{0..<T_TREES}" and ?h = "heap_push (- op_rank t, op_token t) (heap p (op_root t))"
  show "pops p = pops q + (if kind t = Op_Pop then {#op_root t#} else {#})"
    unfolding pops_def ts(2) by (rule lists_tl [where f = "operation_list p", OF assms(2) ts(1)]) (simp add: pop_roots_def)
  have l: "(\<Sum>k<N_UNITS. push_tokens (operation_list p k)) =
      (\<Sum>k<N_UNITS. push_tokens (operation_list q k)) + (if kind t = Op_Push then {#op_token t#} else {#})"
    "(\<Sum>k<N_UNITS. push_roots (operation_list p k)) =
      (\<Sum>k<N_UNITS. push_roots (operation_list q k)) + (if kind t = Op_Push then {#op_root t#} else {#})"
    unfolding ts(2) by (rule lists_tl [where f = "operation_list p", OF assms(2) ts(1)]; simp add: list_measures)+
  have "(\<Sum>y\<in>?ys. image_mset snd (mset (heap q y))) =
      (\<Sum>y\<in>?ys. image_mset snd (mset (heap p y))) + (if kind t = Op_Push then {#op_token t#} else {#})"
  proof (cases "kind t = Op_Push")
    case True
    then have h: "heap q = (heap p)(op_root t := ?h)" using assms(3) by (simp add: sent_def)
    have "(\<Sum>y\<in>?ys. image_mset snd (mset (heap q y))) + image_mset snd (mset (heap p (op_root t))) =
        ((\<Sum>y\<in>?ys. image_mset snd (mset (heap p y))) + {#op_token t#}) + image_mset snd (mset (heap p (op_root t)))"
      unfolding h using sum_upd [of ?ys "op_root t" "\<lambda>l. image_mset snd (mset l)" "heap p" ?h] y by (simp add: mset_heap_push)
    then show ?thesis using True by (simp only: add_right_cancel if_True refl)
  qed (use assms(3) in \<open>simp add: sent_def\<close>)
  then show "tokens q = tokens p" unfolding tokens_def l(1) by (simp only: ac_simps)
  have "(\<Sum>z\<in>?ys. replicate_mset (length (heap q z)) z) =
      (\<Sum>z\<in>?ys. replicate_mset (length (heap p z)) z) + (if kind t = Op_Push then {#op_root t#} else {#})"
  proof (cases "kind t = Op_Push")
    case True
    then have h: "heap q = (heap p)(op_root t := ?h)" using assms(3) by (simp add: sent_def)
    show ?thesis using True y by (simp add: sum.remove [of _ "op_root t"] h length_heap_push)
  qed (use assms(3) in \<open>simp add: sent_def\<close>)
  then show "roots q = roots p" unfolding roots_def l(2) by (simp only: ac_simps)
qed

lemma sent_placed:
  assumes "placed p" and "i < N_UNITS" and "sent i t p q" and "\<forall>i<N_UNITS. op_TTL (RPU q i) \<le> int N_UNITS"
  shows "placed q"
proof -
  obtain ts where ts: "operation_list p i = t # ts" "operation_list q = (operation_list p)(i := ts)"
    using assms(3) by (auto simp: sent_def)
  have "op_ok t" using assms(1,2) ts(1) by (simp add: placed_def)
  then have "heap q y = []" if "y \<notin> {0..<T_TREES}" for y
    using that assms(1,3) unfolding placed_def sent_def op_ok_def by auto
  moreover have "op_ok u \<and> list_map p (op_root u) = Some k" if "k < N_UNITS" "u \<in> set (operation_list q k)" for k u
    using that assms(1) ts unfolding placed_def by (cases "k = i") auto
  moreover have "list_map q = list_map p" "list_cnt q = list_cnt p" using assms(3) by (simp_all add: sent_def)
  moreover have "- 1 \<le> beggar q" "beggar q < int N_UNITS" using assms(1,3) by (auto simp: sent_def placed_def)
  ultimately show ?thesis using assms(1,4) unfolding placed_def by simp
qed

lemma sent_served:
  assumes "placed p" and "i < N_UNITS" and "sent i t p q" and "served_all F p"
  shows "served_all (if kind t = Op_Pop then add_mset (op_root t) F else F) q"
proof -
  obtain ts where ts: "operation_list p i = t # ts" "operation_list q = (operation_list p)(i := ts)"
    using assms(3) by (auto simp: sent_def)
  have t: "op_ok t" "list_map p (op_root t) = Some i" using assms(1,2) ts(1) by (simp_all add: placed_def)
  have m: "list_map q = list_map p" using assms(3) by (simp add: sent_def)
  define y where "y = op_root t"
  have k: "kind t = Op_Push \<or> kind t = Op_Pop" using t(1) by (simp add: op_ok_def)
  have lists: "list_of p y = t # ts" "list_of q y = ts" using t(2) ts m by (simp_all add: list_of_def y_def)
  have "count F y \<le> length (heap p y)" "served y (length (heap p y) - count F y) (t # ts)"
    using assms(4) lists unfolding served_all_def by metis+
  then have at: "count (if kind t = Op_Pop then add_mset y F else F) y \<le> length (heap q y) \<and>
      served y (length (heap q y) - count (if kind t = Op_Pop then add_mset y F else F) y) ts"
    using k assms(3) by (auto simp: sent_def y_def length_heap_push Suc_diff_le)
  have other: "served z a (list_of q z) \<longleftrightarrow> served z a (list_of p z)" "heap q z = heap p z" if "z \<noteq> y" for z a
    using that ts m assms(3) by (auto simp: list_of_def sent_def y_def split: option.split)
  have "count (if kind t = Op_Pop then add_mset y F else F) z \<le> length (heap q z) \<and>
      served z (length (heap q z) - count (if kind t = Op_Pop then add_mset y F else F) z) (list_of q z)" for z
    using at other [of z] assms(4) lists by (cases "z = y") (auto simp: served_all_def)
  then show ?thesis unfolding served_all_def y_def by blast
qed

lemma sent_inv:
  assumes "pipe_inv F {#} p" and "i < N_UNITS" and "sent i t p q" and "\<forall>i<N_UNITS. op_TTL (RPU q i) \<le> int N_UNITS"
  shows "pipe_inv (if kind t = Op_Pop then add_mset (op_root t) F else F) {#} q" and "keeps p q"
proof -
  have inv: "placed p" "served_all F p" "balanced F {#} p" "counted F {#} p" using assms(1) by (simp_all add: pipe_inv_def)
  note m = sent_measures [OF inv(1) assms(2,3)]
  have same: "root_num q = root_num p" "buffer_num q = buffer_num p" "start_num q = start_num p" "buffer q = buffer p"
    using assms(3) by (simp_all add: sent_def)
  have "balanced (if kind t = Op_Pop then add_mset (op_root t) F else F) {#} q"
    using inv(3) m by (auto simp: balanced_def same)
  moreover have "counted (if kind t = Op_Pop then add_mset (op_root t) F else F) {#} q"
    using inv(4) m by (auto simp: counted_def same)
  ultimately show "pipe_inv (if kind t = Op_Pop then add_mset (op_root t) F else F) {#} q"
    using sent_placed [OF inv(1) assms(2-4)] sent_served [OF inv(1) assms(2,3) inv(2)] by (simp add: pipe_inv_def)
  show "keeps p q" by (simp add: keeps_def m same)
qed

end
