(* ===== verification/Ns3_Wake.thy ===== *)
theory Ns3_Wake
  imports Ns3_Send
begin

text \<open>
  A whole turn of the pipeline keeps the invariant and the packets, and where its anti-starvation step is
  undefined.
\<close>

section \<open>New operations\<close>

lemma SendOperation_frame:
  "RPU (SendOperation i p) = RPU p" "operation_list (SendOperation i p) = (operation_list p)(i := tl (operation_list p i))"
  "heap (SendOperation i p) = heap p" "root_num (SendOperation i p) = root_num p" "buffer_num (SendOperation i p) = buffer_num p"
  "start_num (SendOperation i p) = start_num p" "buffer (SendOperation i p) = buffer p"
  "list_map (SendOperation i p) = list_map p" "list_cnt (SendOperation i p) = list_cnt p"
  "beggar (SendOperation i p) = beggar p \<or> beggar (SendOperation i p) = - 1"
  by (simp_all add: SendOperation_def Let_def)

lemma fresh_upd:
  assumes "i < N_UNITS" and "\<not> fresh_pop (u i)" and "RPU p = u" and "RPU q = u(i := t)"
  shows "fresh_pops 0 q = fresh_pops 0 p + (if fresh_pop t then {#op_root t#} else {#})"
  using sum_upd [of "{0..<N_UNITS}" i "\<lambda>t. if fresh_pop t then {#op_root t#} else {#}" u t] assms(1,2)
  unfolding fresh_pops_def assms(3,4) by (simp split del: if_split)

lemma send_new_inv:
  assumes "pipe_ok p" and "i < N_UNITS"
  shows "pipe_ok (send_new i p) \<and> keeps p (send_new i p)"
proof -
  define p1 where "p1 = p\<lparr> wait_time := (wait_time p)(i := wait_time p i + 1) \<rparr>"
  have inv: "pipe_inv (fresh_pops 0 p) {#} p" and ttl: "\<forall>i<N_UNITS. op_TTL (RPU p i) \<le> int N_UNITS"
    and beg: "- 1 \<le> beggar p" "beggar p < int N_UNITS"
    using assms(1) by (simp_all add: pipe_ok_def pipe_inv_def placed_def)
  have ok1: "pipe_inv (fresh_pops 0 p) {#} p1" "keeps p p1"
    by (rule pipe_inv_cong [OF inv]; use ttl beg in \<open>simp add: p1_def\<close>)+
  moreover have "fresh_pops 0 p1 = fresh_pops 0 p" by (rule fresh_cong) (simp add: p1_def)
  ultimately have skip: "pipe_ok p1 \<and> keeps p p1" by (simp add: pipe_ok_def)
  have r1: "RPU p1 = RPU p" "operation_list p1 = operation_list p" by (simp_all add: p1_def)
  show ?thesis
  proof (cases "kind (RPU p i) = Op_Empty \<and> \<not> locked p1 i \<and> operation_list p i \<noteq> []")
    case False
    then have "send_new i p = p1" unfolding send_new_def p1_def [symmetric] by (auto simp: Let_def r1 split: list.split)
    with skip show ?thesis by simp
  next
    case True
    then obtain t ts where t: "operation_list p i = t # ts" by (cases "operation_list p i") auto
    have ok: "op_ok t" using assms t inv by (simp add: pipe_inv_def placed_def)
    have nf: "\<not> fresh_pop (RPU p i)" using True by (simp add: fresh_pop_def)
    show ?thesis
    proof (cases "kind t = Op_Push")
      case push: True
      let ?h = "heap_push (- op_rank t, op_token t) (heap p1 (op_root t))"
      let ?q = "SendOperation i (p1\<lparr> RPU := (RPU p1)(i := t), heap := (heap p1)(op_root t := ?h) \<rparr>)"
      have q: "send_new i p = ?q" unfolding send_new_def p1_def [symmetric] using True push t by (simp add: Let_def r1)
      have sq: "sent i t p ?q" using push t SendOperation_frame(10) [of i "p1\<lparr> RPU := (RPU p1)(i := t), heap := (heap p1)(op_root t := ?h) \<rparr>"]
        by (simp add: sent_def SendOperation_frame(1-9) r1) (simp add: p1_def)
      have tq: "\<forall>k<N_UNITS. op_TTL (RPU ?q k) \<le> int N_UNITS" using ttl ok by (simp add: SendOperation_frame r1 op_ok_def)
      have "fresh_pops 0 ?q = fresh_pops 0 p"
        using fresh_upd [where u = "RPU p", OF assms(2) nf refl, of ?q t] push by (simp add: SendOperation_frame r1 fresh_pop_def)
      then show ?thesis using sent_inv [OF inv assms(2) sq tq] push unfolding q pipe_ok_def by simp
    next
      case False
      then have pop: "kind t = Op_Pop" "fresh_pop t" using ok by (simp_all add: op_ok_def fresh_pop_def)
      define j where "j = (i + N_UNITS - 1) mod N_UNITS"
      have "i = 0 \<or> i = 1 \<or> i = 2 \<or> i = 3 \<or> i = 4" using assms(2) by (simp add: N_UNITS_def) arith
      then have j: "j < N_UNITS" "j \<noteq> i" by (auto simp: j_def N_UNITS_def)
      show ?thesis
      proof (cases "op_TTL (RPU p j) \<le> 1")
        case late: False
        have "send_new i p = p1" unfolding send_new_def p1_def [symmetric] j_def [symmetric] using True False t late by (simp add: Let_def r1)
        with skip show ?thesis by simp
      next
        case early: True
        let ?p2 = "SendOperation i (p1\<lparr> RPU := (RPU p1)(i := t) \<rparr>)"
        let ?w = "(RPU p j)\<lparr> kind := if kind (RPU p j) = Op_Empty then Op_Locked else kind (RPU p j), op_TTL := 1 \<rparr>"
        let ?q = "?p2\<lparr> RPU := (RPU ?p2)(j := ?w) \<rparr>"
        have q: "send_new i p = ?q" unfolding send_new_def p1_def [symmetric] j_def [symmetric]
          using True False t early j by (simp add: Let_def r1 SendOperation_frame)
        have sq: "sent i t p ?q" using False t SendOperation_frame(10) [of i "p1\<lparr> RPU := (RPU p1)(i := t) \<rparr>"]
          by (simp add: sent_def SendOperation_frame(1-9) r1) (simp add: p1_def)
        have tq: "\<forall>k<N_UNITS. op_TTL (RPU ?q k) \<le> int N_UNITS"
          using ttl ok by (simp add: SendOperation_frame r1 op_ok_def)
        have "fresh_pops 0 ?q = add_mset (op_root t) (fresh_pops 0 p)"
        proof -
          have "fresh_pops 0 ?p2 = fresh_pops 0 p + {#op_root t#}"
            using fresh_upd [where u = "RPU p", OF assms(2) nf refl, of ?p2 t] pop by (simp add: SendOperation_frame r1)
          moreover have "\<not> fresh_pop (RPU ?p2 j)" "\<not> fresh_pop ?w"
            using early j by (simp_all add: SendOperation_frame r1 fresh_pop_def N_UNITS_def)
          ultimately show ?thesis using fresh_upd [OF j(1) _ refl, of ?p2 ?q ?w] by simp
        qed
        then show ?thesis using sent_inv [OF inv assms(2) sq tq] pop(1) unfolding q pipe_ok_def by simp
      qed
    qed
  qed
qed

lemma send_all_inv: "pipe_ok p \<Longrightarrow> \<forall>i\<in>set is. i < N_UNITS \<Longrightarrow> pipe_ok (fold send_new is p) \<and> keeps p (fold send_new is p)"
proof (induction "is" arbitrary: p)
  case Nil
  then show ?case by (simp add: keeps_def)
next
  case (Cons i "is")
  have i: "pipe_ok (send_new i p)" "keeps p (send_new i p)" using send_new_inv [of p i] Cons.prems by simp_all
  with Cons.IH [OF i(1)] Cons.prems(2) keeps_trans [OF i(2)] show ?case by simp
qed

section \<open>Anti-starvation\<close>

text \<open>It changes only who begs and what is locked.\<close>

definition locks_only :: "Pipeline \<Rightarrow> Pipeline \<Rightarrow> bool" where
  "locks_only p q \<longleftrightarrow> RPU q = RPU p \<and> operation_list q = operation_list p \<and> heap q = heap p \<and> root_num q = root_num p \<and>
     buffer_num q = buffer_num p \<and> start_num q = start_num p \<and> buffer q = buffer p \<and> list_map q = list_map p \<and>
     list_cnt q = list_cnt p \<and> wait_time q = wait_time p \<and>
     (- 1 \<le> beggar p \<and> beggar p < int N_UNITS \<longrightarrow> - 1 \<le> beggar q \<and> beggar q < int N_UNITS)"

lemma locks_only_refl: "locks_only p p"
  by (simp add: locks_only_def)

lemma locks_only_trans: "locks_only p q \<Longrightarrow> locks_only q r \<Longrightarrow> locks_only p r"
  by (simp add: locks_only_def)

lemma locks_only_upd:
  "locks_only p (p\<lparr> locked := l \<rparr>)" "- 1 \<le> b \<Longrightarrow> b < int N_UNITS \<Longrightarrow> locks_only p (p\<lparr> beggar := b \<rparr>)" "locks_only p (p\<lparr> starve_count := s \<rparr>)"
  by (simp_all add: locks_only_def)

lemma find_places_locks: "find_places n j k f m b p = Inr (m', q) \<Longrightarrow> locks_only p q"
proof (induction n j k f m b p rule: find_places.induct)
  case (2 fuel j k f m b p)
  then show ?case
    by (auto simp: Let_def split: if_splits intro: locks_only_upd locks_only_refl locks_only_trans)
qed simp

lemma lock_some_locks: "locks_only p (snd (lock_some js m p))"
  by (induction js m p rule: lock_some.induct) (auto intro: locks_only_refl locks_only_trans [OF locks_only_upd(1)])

lemma find_beggar_cases:
  "(find_beggar p = p \<and> (beggar p \<noteq> - 1 \<or> (\<forall>i<N_UNITS. wait_time p i \<le> S_THRESHOLD))) \<or>
   (\<exists>i<N_UNITS. find_beggar p = p\<lparr> beggar := int i \<rparr> \<and> wait_time p i > S_THRESHOLD \<and> beggar p = - 1)"
proof (cases "filter (\<lambda>i. wait_time p i > S_THRESHOLD) [0..<N_UNITS]")
  case Nil
  then have "\<forall>i<N_UNITS. wait_time p i \<le> S_THRESHOLD" by (simp add: filter_empty_conv not_less)
  then show ?thesis using Nil by (simp add: find_beggar_def)
next
  case (Cons i "is")
  then have "i \<in> set (filter (\<lambda>i. wait_time p i > S_THRESHOLD) [0..<N_UNITS])" by simp
  then have "i < N_UNITS" "wait_time p i > S_THRESHOLD" by simp_all
  moreover have "find_beggar p = (if beggar p = - 1 then p\<lparr> beggar := int i \<rparr> else p)" using Cons by (simp add: find_beggar_def)
  ultimately show ?thesis by (cases "beggar p = - 1") auto
qed

lemma feed_beggar_locks:
  assumes "feed_beggar p = Inr q"
  shows "locks_only p q"
proof -
  have b: "locks_only p (find_beggar p)"
    using find_beggar_cases [of p] by (auto intro!: locks_only_refl locks_only_upd)
  show ?thesis
  proof (cases "beggar (find_beggar p) = - 1")
    case True
    then show ?thesis using assms b by (simp add: feed_beggar_def Let_def)
  next
    case False
    define p0 where "p0 = find_beggar p"
    obtain t ts where t: "operation_list p0 (nat (beggar p0)) = t # ts"
      using assms False by (auto simp: feed_beggar_def Let_def p0_def split: list.splits)
    obtain m p1 where f: "find_places (2 * N_UNITS) (beggar p0 - 1) 0 0 (if kind t = Op_Pop then 2 else 1) (beggar p0) p0 = Inr (m, p1)"
      and q: "q = (if m \<noteq> 0 then snd (lock_some [0..<nat (beggar p0)]
          (fst (lock_some [nat (beggar p0) + 1..<N_UNITS] (wait_time p1 (nat (beggar p0)) - S_THRESHOLD) (p1\<lparr> starve_count := starve_count p1 + 1 \<rparr>)))
          (snd (lock_some [nat (beggar p0) + 1..<N_UNITS] (wait_time p1 (nat (beggar p0)) - S_THRESHOLD) (p1\<lparr> starve_count := starve_count p1 + 1 \<rparr>)))) else p1)"
      using assms False t unfolding feed_beggar_def Let_def p0_def [symmetric]
      by (auto simp: bind_cpp_Inr case_prod_beta' split: if_splits)
    have "locks_only p p1" using locks_only_trans [OF b] find_places_locks [OF f] by (simp add: p0_def)
    moreover have "locks_only p1 q" unfolding q
      using locks_only_refl locks_only_trans [OF locks_only_upd(3) locks_only_trans [OF lock_some_locks lock_some_locks]] by simp
    ultimately show ?thesis by (rule locks_only_trans)
  qed
qed

lemma locks_inv:
  assumes "locks_only p q" and "pipe_ok p"
  shows "pipe_ok q \<and> keeps p q"
proof -
  have same: "RPU q = RPU p" "operation_list q = operation_list p" "heap q = heap p" "root_num q = root_num p"
    "buffer_num q = buffer_num p" "start_num q = start_num p" "buffer q = buffer p" "list_map q = list_map p" "list_cnt q = list_cnt p"
    using assms(1) by (auto simp: locks_only_def)
  have inv: "pipe_inv (fresh_pops 0 p) {#} p" using assms(2) by (simp add: pipe_ok_def)
  then have "\<forall>i<N_UNITS. op_TTL (RPU q i) \<le> int N_UNITS" "- 1 \<le> beggar q" "beggar q < int N_UNITS"
    using assms(1) by (simp_all add: same pipe_inv_def placed_def locks_only_def)
  with pipe_inv_cong [OF inv same(2-9)] fresh_cong [OF same(1)] show ?thesis by (simp add: pipe_ok_def)
qed

section \<open>A whole turn\<close>

text \<open>Up to the anti-starvation step, a turn always succeeds.\<close>

definition before_feeding :: "Pipeline \<Rightarrow> Pipeline cpp" where
  "before_feeding p =
     bind_cpp (each_do take_token [0..<N_UNITS]
       (if root_num p > 0 \<and> start_num p < BUFFER_SIZE then AddPop ROOT p else p))
       (\<lambda>p1. Inr (fold send_new [0..<N_UNITS] (pass_down_ops p1)))"

lemma before_feeding_inv:
  assumes "pipe_ok p"
  shows "\<exists>q. before_feeding p = Inr q \<and> pipe_ok q \<and> keeps p q"
proof -
  let ?p0 = "if root_num p > 0 \<and> start_num p < BUFFER_SIZE then AddPop ROOT p else p"
  have inv: "pipe_inv (fresh_pops 0 p) {#} p" using assms by (simp add: pipe_ok_def)
  have p0: "pipe_inv (fresh_pops 0 ?p0) {#} ?p0 \<and> keeps p ?p0"
  proof (cases "root_num p > 0 \<and> start_num p < BUFFER_SIZE")
    case True
    then have a: "pipe_inv (fresh_pops 0 p) {#} (AddPop ROOT p)" "RPU (AddPop ROOT p) = RPU p" "keeps p (AddPop ROOT p)"
      using ask_root_inv [OF inv] by (simp_all add: keeps_def)
    then show ?thesis using fresh_cong [OF a(2)] True by simp
  qed (use inv in \<open>auto simp: keeps_def\<close>)
  obtain p1 where p1: "each_do take_token [0..<N_UNITS] ?p0 = Inr p1" "pipe_inv {#} {#} p1" "keeps ?p0 p1"
    using take_tokens_inv [of 0 ?p0] p0 by auto
  let ?q = "fold send_new [0..<N_UNITS] (pass_down_ops p1)"
  have "pipe_ok ?q \<and> keeps (pass_down_ops p1) ?q" by (rule send_all_inv [OF pass_down_ok(1) [OF p1(2)]]) simp
  moreover have "keeps p (pass_down_ops p1)" using p0 p1 pass_down_ok(2) keeps_trans by metis
  ultimately have "pipe_ok ?q" "keeps p ?q" using keeps_trans by blast+
  then show ?thesis using p1(1) by (simp add: before_feeding_def)
qed

lemma WakeUp_parts:
  "WakeUp p = bind_cpp (before_feeding p) (\<lambda>p1. bind_cpp (feed_beggar p1) (\<lambda>p2.
     let p0 = (if root_num p > 0 \<and> start_num p < BUFFER_SIZE then AddPop ROOT p else p);
         e = (if length (filter (\<lambda>i. running (RPU p0 i)) [0..<N_UNITS]) \<noteq> 0 then 0 else empty_count p2 + 1)
     in Inr (p2\<lparr> empty_count := e, scheduled := (e < END_THRESHOLD) \<rparr>)))"
  unfolding WakeUp_def before_feeding_def Let_def
  by (cases "each_do take_token [0..<N_UNITS] (if root_num p > 0 \<and> start_num p < BUFFER_SIZE then AddPop ROOT p else p)") simp_all

lemma WakeUp_inv:
  assumes "pipe_ok p" and "WakeUp p = Inr q"
  shows "pipe_ok q \<and> keeps p q"
proof -
  obtain p1 where p1: "before_feeding p = Inr p1" "pipe_ok p1" "keeps p p1" using before_feeding_inv [OF assms(1)] by blast
  obtain p2 e s where p2: "feed_beggar p1 = Inr p2" and q: "q = p2\<lparr> empty_count := e, scheduled := s \<rparr>"
    using assms(2) unfolding WakeUp_parts p1(1) by (auto simp: Let_def bind_cpp_Inr)
  have "pipe_ok p2" "keeps p p2" using locks_inv [OF feed_beggar_locks [OF p2] p1(2)] p1(3) keeps_trans by blast+
  moreover have "pipe_inv (fresh_pops 0 p2) {#} q" "keeps p2 q" if "pipe_inv (fresh_pops 0 p2) {#} p2"
    by (rule pipe_inv_cong [OF that]; use that in \<open>simp add: q pipe_inv_def placed_def\<close>)+
  moreover have "fresh_pops 0 q = fresh_pops 0 p2" by (rule fresh_cong) (simp add: q)
  ultimately show ?thesis using keeps_trans unfolding pipe_ok_def by metis
qed

text \<open>A turn fails only where the starving list is empty or is the first one.\<close>

lemma find_places_defined:
  "0 \<le> j \<Longrightarrow> j \<le> int N_UNITS - 1 \<Longrightarrow> 0 < b \<Longrightarrow> b < int N_UNITS \<Longrightarrow>
   (if j < b then j + int N_UNITS - b else j - b) < int n \<Longrightarrow> \<exists>r. find_places n j k f m b p = Inr r"
proof (induction n j k f m b p rule: find_places.induct)
  case (2 fuel j k f m b p)
  show ?case
  proof (cases "j = b")
    case True
    then show ?thesis using "2.prems" by (auto simp: Let_def)
  next
    case False
    let ?j = "(if j = 0 then int N_UNITS else j) - 1"
    have range: "0 \<le> ?j" "?j \<le> int N_UNITS - 1" using "2.prems" by auto
    have "(if ?j < b then ?j + int N_UNITS - b else ?j - b) < int fuel" using "2.prems" False by (auto split: if_splits)
    with 2 range False show ?thesis by (auto simp: Let_def)
  qed
qed (auto split: if_splits)

lemma feed_beggar_fails:
  assumes "- 1 \<le> beggar p" and "beggar p < int N_UNITS"
  defines "b \<equiv> beggar (find_beggar p)"
  shows "feed_beggar p = Inl e \<longleftrightarrow> e = Undefined \<and> b \<noteq> - 1 \<and> (b = 0 \<or> operation_list p (nat b) = [])"
proof -
  have b: "- 1 \<le> b" "b < int N_UNITS" "operation_list (find_beggar p) = operation_list p"
    using find_beggar_cases [of p] assms(1,2) by (auto simp: b_def)
  show ?thesis
  proof (cases "b = - 1 \<or> operation_list p (nat b) = []")
    case True
    then show ?thesis using b by (auto simp: feed_beggar_def Let_def b_def [symmetric])
  next
    case False
    then obtain t ts where t: "operation_list p (nat b) = t # ts" by (cases "operation_list p (nat b)") auto
    let ?f = "find_places (2 * N_UNITS) (b - 1) 0 0 (if kind t = Op_Pop then 2 else 1) b (find_beggar p)"
    show ?thesis
    proof (cases "b = 0")
      case True
      then have "2 * N_UNITS = Suc 9" "?f = Inl Undefined" by (simp_all add: N_UNITS_def numeral_eq_Suc)
      then show ?thesis using True t b by (auto simp: feed_beggar_def Let_def b_def [symmetric])
    next
      case pos: False
      have "\<exists>r. ?f = Inr r" by (rule find_places_defined) (use False pos b in \<open>auto simp: N_UNITS_def\<close>)
      then obtain m q where "?f = Inr (m, q)" by auto
      then have "feed_beggar p \<noteq> Inl e" using False t b
        by (auto simp: feed_beggar_def Let_def b_def [symmetric] split: prod.split)
      then show ?thesis using False pos by simp
    qed
  qed
qed

end
