(* ===== verification/Ns3_Disc.thy ===== *)
theory Ns3_Disc
  imports Ns3_Wake "HOL-Library.Signed_Division"
begin

text \<open>
  The two queue discs of the ns-3 experiments: \<open>model/vPIFO.cc\<close> schedules with a tree of PIFOs that share
  one pipeline, \<open>model/SimplePIFO.cc\<close> with the root alone; \<open>model/MyScheduling.cc\<close> computes the ranks.
\<close>

section \<open>Ranks\<close>

datatype Scheduling =
    Sched_SP
  | Sched_WFQ (sch_num: int) (virtual_time: int) (last_time: "int \<rightharpoonup> int")
  | Sched_pFabric (flow_size: "int \<rightharpoonup> int")

definition SP_new :: Scheduling where "SP_new = Sched_SP"

definition WFQ_new :: "int \<Rightarrow> Scheduling" where "WFQ_new x = Sched_WFQ x 0 Map.empty"

definition pFabric_new :: Scheduling where "pFabric_new = Sched_pFabric Map.empty"

text \<open>\<open>m[k]\<close> of an \<open>unordered_map\<close>, which inserts 0 for a new key.\<close>

definition map_at :: "(int \<rightharpoonup> int) \<Rightarrow> int \<Rightarrow> int" where
  "map_at m k = (case m k of None \<Rightarrow> 0 | Some v \<Rightarrow> v)"

fun RankComputation :: "int \<Rightarrow> int \<Rightarrow> Scheduling \<Rightarrow> int \<times> Scheduling" where
  "RankComputation token x2 Sched_SP = (if token < 10 then token else token mod 10, Sched_SP)"
| "RankComputation user sz (Sched_WFQ num vt lt) =
     (let r = max vt (map_at lt user) + sz * num in (r, Sched_WFQ num vt (lt(user \<mapsto> r))))"
| "RankComputation flow x2 (Sched_pFabric fs) = (map_at fs flow, Sched_pFabric (fs(flow \<mapsto> map_at fs flow)))"

fun Dequeue :: "int \<Rightarrow> Scheduling \<Rightarrow> Scheduling" where
  "Dequeue x1 Sched_SP = Sched_SP"
| "Dequeue sz (Sched_WFQ num vt lt) = Sched_WFQ num (vt + sz) lt"
| "Dequeue flow (Sched_pFabric fs) = Sched_pFabric (fs(flow \<mapsto> map_at fs flow - 1))"

fun InitializeSize :: "int \<Rightarrow> int \<Rightarrow> Scheduling \<Rightarrow> Scheduling" where
  "InitializeSize flow sz (Sched_pFabric fs) = Sched_pFabric (fs(flow \<mapsto> sz))"
| "InitializeSize flow sz s = s"

section \<open>State\<close>

text \<open>What the discs read of a packet: the tenant of its tag, 10233 without one, its size, and the source
  address and port of its headers.\<close>

record item =
  tenant :: int
  packet_size :: int
  src_addr :: nat
  src_port :: nat

record disc =
  flow_map :: "string \<rightharpoonup> int"
  sch_tree :: "int \<rightharpoonup> Scheduling"
  queue_map :: "int \<Rightarrow> item list"
  bypath_queue :: "item list"
  queue_cnt :: int
  root_size :: int
  pipe :: Pipeline

record simple_disc = disc +
  arrival_time :: int

definition SIZE :: int where "SIZE = (2 ^ 10 - 1) div 3"

definition HANDSHAKE :: int where "HANDSHAKE = 10233"

definition IsHadoop :: "int \<Rightarrow> bool" where
  "IsHadoop x \<longleftrightarrow> x smod 10 > x sdiv 10"

definition GetFlowLabel :: "item \<Rightarrow> string" where
  "GetFlowLabel it = dec_digits (src_addr it) @ dec_digits (src_port it)"

definition vPIFO_tree :: "int \<rightharpoonup> Scheduling" where
  "vPIFO_tree =
     fold (\<lambda>i m. if IsHadoop (i - 100) then m else m(i \<mapsto> pFabric_new)) [100..199]
       (fold (\<lambda>i m. m(10 + i * 2 \<mapsto> WFQ_new (i + 1), 10 + i * 2 + 1 \<mapsto> WFQ_new (10 - i - 1))) [0..9]
         (fold (\<lambda>i m. m(i \<mapsto> SP_new)) [0..9] [ROOT \<mapsto> SP_new]))"

definition vPIFO_new :: disc where
  "vPIFO_new =
     \<lparr>flow_map = Map.empty, sch_tree = vPIFO_tree, queue_map = (\<lambda>_. []), bypath_queue = [],
      queue_cnt = 1000, root_size = 0, pipe = Pipeline_init\<rparr>"

definition SimplePIFO_tree :: "int \<rightharpoonup> Scheduling" where
  "SimplePIFO_tree = fold (\<lambda>i m. if IsHadoop i then m else m(i \<mapsto> pFabric_new)) [0..99] Map.empty"

definition SimplePIFO_new :: simple_disc where
  "SimplePIFO_new =
     \<lparr>flow_map = Map.empty, sch_tree = SimplePIFO_tree, queue_map = (\<lambda>_. []), bypath_queue = [],
      queue_cnt = 1000, root_size = 0, pipe = Pipeline_init, arrival_time = - (10 ^ 16)\<rparr>"

section \<open>Operations\<close>

text \<open>A call of a node of the scheduling tree; a missing node is a null pointer.\<close>

definition at_node :: "int \<Rightarrow> (Scheduling \<Rightarrow> 'r \<times> Scheduling) \<Rightarrow> 'x disc_scheme \<Rightarrow> ('r \<times> 'x disc_scheme) cpp" where
  "at_node k f d =
     bind_cpp (deref (sch_tree d) k) (\<lambda>s. let (r, s') = f s in Inr (r, d\<lparr> sch_tree := (sch_tree d)(k \<mapsto> s') \<rparr>))"

text \<open>A row of \<open>flowlabel.txt\<close>: label, source, destination, size, tenant. A server, a node below 144,
  takes only the rows it is an end of.\<close>

type_synonym label_row = "string \<times> nat \<times> nat \<times> int \<times> int"

fun InitializeRow :: "(int \<Rightarrow> int) \<Rightarrow> nat \<Rightarrow> label_row \<Rightarrow> 'x disc_scheme \<Rightarrow> 'x disc_scheme cpp" where
  "InitializeRow node_of node (label, src, dst, sz, tn) d =
     (if node < 144 \<and> src \<noteq> node \<and> dst \<noteq> node then Inr d
      else let n = queue_cnt d + 1;
               d1 = d\<lparr> queue_cnt := n, flow_map := (flow_map d)(label \<mapsto> n), queue_map := (queue_map d)(n := []) \<rparr>
           in bind_cpp (at_node (node_of tn) (\<lambda>s. ((), InitializeSize n sz s)) d1) (\<lambda>(_, d2). Inr d2))"

definition vPIFO_InitializeParams :: "nat \<Rightarrow> label_row list \<Rightarrow> disc \<Rightarrow> disc cpp" where
  "vPIFO_InitializeParams node rows = each_do (InitializeRow (\<lambda>tn. tn + 100) node) rows"

definition SimplePIFO_InitializeParams :: "nat \<Rightarrow> label_row list \<Rightarrow> simple_disc \<Rightarrow> simple_disc cpp" where
  "SimplePIFO_InitializeParams node rows = each_do (InitializeRow (\<lambda>tn. tn) node) rows"

definition push_at :: "int \<Rightarrow> int \<Rightarrow> int \<Rightarrow> 'x disc_scheme \<Rightarrow> 'x disc_scheme" where
  "push_at user rnk tok d = d\<lparr> pipe := AddPush user rnk tok (pipe d) \<rparr>"

definition store_packet :: "int \<Rightarrow> item \<Rightarrow> 'x disc_scheme \<Rightarrow> 'x disc_scheme" where
  "store_packet x it d = d\<lparr> queue_map := (queue_map d)(x := queue_map d x @ [it]) \<rparr>"

text \<open>\<open>flow_map[label]\<close> inserts 0 for a label it does not have.\<close>

definition flow_id_of :: "string \<Rightarrow> 'x disc_scheme \<Rightarrow> int \<times> 'x disc_scheme" where
  "flow_id_of label d =
     (case flow_map d label of Some i \<Rightarrow> (i, d) | None \<Rightarrow> (0, d\<lparr> flow_map := (flow_map d)(label \<mapsto> 0) \<rparr>))"

definition vPIFO_DoEnqueue :: "item \<Rightarrow> disc \<Rightarrow> (bool \<times> disc) cpp" where
  "vPIFO_DoEnqueue it d =
     (if tenant it = HANDSHAKE then Inr (True, d\<lparr> bypath_queue := bypath_queue d @ [it] \<rparr>)
      else if root_size d \<ge> SIZE then Inr (False, d)
      else
        let d0 = d\<lparr> root_size := root_size d + 1 \<rparr>;
            gr = tenant it sdiv 10;
            type_id = 10 + gr * 2 + (if IsHadoop (tenant it) then 1 else 0);
            tenant_id = 100 + tenant it
        in bind_cpp (at_node ROOT (RankComputation gr 0) d0) (\<lambda>(rk1, d1).
           bind_cpp (at_node gr (RankComputation type_id 0) (push_at ROOT rk1 gr d1)) (\<lambda>(rk2, d2).
           bind_cpp (at_node type_id (RankComputation tenant_id (packet_size it)) (push_at gr rk2 type_id d2)) (\<lambda>(rk3, d3).
             let d4 = push_at type_id rk3 tenant_id d3
             in if IsHadoop (tenant it) then Inr (True, store_packet tenant_id it d4)
                else let (flow_id, d5) = flow_id_of (GetFlowLabel it) d4
                     in bind_cpp (at_node tenant_id (RankComputation flow_id 0) d5) (\<lambda>(rk4, d6).
                          Inr (True, store_packet flow_id it (push_at tenant_id rk4 flow_id d6)))))))"

definition SimplePIFO_DoEnqueue :: "item \<Rightarrow> simple_disc \<Rightarrow> (bool \<times> simple_disc) cpp" where
  "SimplePIFO_DoEnqueue it d =
     (if tenant it = HANDSHAKE then Inr (True, d\<lparr> bypath_queue := bypath_queue d @ [it] \<rparr>)
      else if root_size d \<ge> SIZE then Inr (False, d)
      else
        let d0 = d\<lparr> root_size := root_size d + 1 \<rparr>
        in if IsHadoop (tenant it) then
             let d1 = d0\<lparr> arrival_time := arrival_time d0 + 1 \<rparr>; q = tenant it + 100
             in Inr (True, store_packet q it (push_at ROOT (arrival_time d1) q d1))
           else
             let (flow_id, d1) = flow_id_of (GetFlowLabel it) d0
             in bind_cpp (at_node (tenant it) (RankComputation flow_id 0) d1) (\<lambda>(pri, d2).
                  Inr (True, store_packet flow_id it (push_at ROOT pri flow_id d2))))"

text \<open>The common start of \<open>DoDequeue\<close>: a packet that goes around the tree, or the next one of the buffer.
  \<open>notify\<close> is what the disc then tells its scheduling tree.\<close>

definition take_packet :: "(int \<Rightarrow> item \<Rightarrow> 'x disc_scheme \<Rightarrow> 'x disc_scheme cpp) \<Rightarrow> 'x disc_scheme \<Rightarrow> (item option \<times> 'x disc_scheme) cpp" where
  "take_packet notify d =
     (case bypath_queue d of
        it # rest \<Rightarrow> Inr (Some it, d\<lparr> bypath_queue := rest \<rparr>)
      | [] \<Rightarrow>
          bind_cpp (GetToken (pipe d)) (\<lambda>(ans, p).
            let d1 = d\<lparr> pipe := p \<rparr>
            in if ans = - 1 then Inr (None, d1)
               else let d2 = d1\<lparr> root_size := root_size d1 - 1 \<rparr>
                    in case queue_map d2 ans of
                         [] \<Rightarrow> Inl Undefined
                       | it # rest \<Rightarrow>
                           bind_cpp (notify ans it (d2\<lparr> queue_map := (queue_map d2)(ans := rest) \<rparr>)) (\<lambda>d3. Inr (Some it, d3))))"

definition tell :: "int \<Rightarrow> int \<Rightarrow> 'x disc_scheme \<Rightarrow> 'x disc_scheme cpp" where
  "tell k x d = bind_cpp (at_node k (\<lambda>s. ((), Dequeue x s)) d) (\<lambda>(_, d1). Inr d1)"

definition vPIFO_notify :: "int \<Rightarrow> item \<Rightarrow> disc \<Rightarrow> disc cpp" where
  "vPIFO_notify ans it d =
     bind_cpp (tell (10 + (tenant it sdiv 10) * 2 + (if IsHadoop (tenant it) then 1 else 0)) (packet_size it) d) (\<lambda>d1.
       if \<not> IsHadoop (tenant it) then tell (tenant it + 100) ans d1 else Inr d1)"

definition vPIFO_DoDequeue :: "disc \<Rightarrow> (item option \<times> disc) cpp" where
  "vPIFO_DoDequeue = take_packet vPIFO_notify"

definition SimplePIFO_notify :: "int \<Rightarrow> item \<Rightarrow> simple_disc \<Rightarrow> simple_disc cpp" where
  "SimplePIFO_notify ans it d = (if \<not> IsHadoop (tenant it) then tell (tenant it) ans d else Inr d)"

definition SimplePIFO_DoDequeue :: "simple_disc \<Rightarrow> (item option \<times> simple_disc) cpp" where
  "SimplePIFO_DoDequeue = take_packet SimplePIFO_notify"

end
