(* ===== verification/Ns3_Starve.thy ===== *)
theory Ns3_Starve
  imports Ns3_Wake
begin

text \<open>
  The anti-starvation step of the pipeline: the only place where a turn can fail, and that it does fail
  once the pipeline has had nothing to do for some time.
\<close>

section \<open>Where a turn fails\<close>

lemma WakeUp_fails:
  assumes "pipe_ok p" and "before_feeding p = Inr q"
  defines "b \<equiv> beggar (find_beggar q)"
  shows "WakeUp p = Inl e \<longleftrightarrow> e = Undefined \<and> b \<noteq> - 1 \<and> (b = 0 \<or> operation_list q (nat b) = [])"
proof -
  have "pipe_ok q" using before_feeding_inv [OF assms(1)] assms(2) by auto
  then have "- 1 \<le> beggar q" "beggar q < int N_UNITS" by (simp_all add: pipe_ok_def pipe_inv_def placed_def)
  note f = feed_beggar_fails [OF this, folded b_def]
  have "WakeUp p = Inl e \<longleftrightarrow> feed_beggar q = Inl e" unfolding WakeUp_parts assms(2) by (cases "feed_beggar q") (simp_all add: Let_def)
  then show ?thesis using f by simp
qed

section \<open>An idle pipeline\<close>

text \<open>Nothing is left to send or to take.\<close>

definition idle :: "Pipeline \<Rightarrow> bool" where
  "idle p \<longleftrightarrow> root_num p \<le> 0 \<and> beggar p = - 1 \<and>
     (\<forall>i<N_UNITS. operation_list p i = [] \<and> \<not> fresh_pop (RPU p i) \<and> op_TTL (RPU p i) \<le> int N_UNITS)"

lemma idle_takes: "\<forall>i\<in>set is. \<not> fresh_pop (RPU p i) \<Longrightarrow> each_do take_token is p = Inr p"
  by (induction "is") (simp_all add: take_token_def)

lemma idle_sends:
  "distinct is \<Longrightarrow> \<forall>i\<in>set is. operation_list p i = [] \<Longrightarrow>
   fold send_new is p = p\<lparr> wait_time := (\<lambda>i. wait_time p i + (if i \<in> set is then 1 else 0)) \<rparr>"
proof (induction "is" arbitrary: p)
  case (Cons i "is")
  let ?p = "p\<lparr> wait_time := (wait_time p)(i := wait_time p i + 1) \<rparr>"
  have "send_new i p = ?p" using Cons.prems by (simp add: send_new_def Let_def)
  with Cons.IH [of ?p] Cons.prems show ?case by (auto simp: fun_eq_iff intro!: Pipeline.equality)
qed simp

lemma pass_down_units:
  assumes "\<forall>i<N_UNITS. op_TTL (RPU p i) \<le> int N_UNITS" and "j < N_UNITS"
  shows "\<not> fresh_pop (RPU (pass_down_ops p) j) \<and> op_TTL (RPU (pass_down_ops p) j) \<le> int N_UNITS"
proof -
  have "op_TTL (RPU p (N_UNITS - 1)) - 1 < int N_UNITS" using assms(1) [rule_format, of "N_UNITS - 1"] by (simp add: N_UNITS_def)
  then show ?thesis unfolding pass_down_ops_def Let_def
    using pass_from_units [of _ 0 N_UNITS "RPU p" j] assms by simp
qed

lemma idle_before:
  assumes "idle p"
  shows "before_feeding p = Inr ((pass_down_ops p)\<lparr> wait_time := (\<lambda>i. wait_time p i + (if i < N_UNITS then 1 else 0)) \<rparr>)"
proof -
  have "each_do take_token [0..<N_UNITS] p = Inr p" using assms by (intro idle_takes) (simp add: idle_def)
  moreover have "fold send_new [0..<N_UNITS] (pass_down_ops p) =
      (pass_down_ops p)\<lparr> wait_time := (\<lambda>i. wait_time p i + (if i < N_UNITS then 1 else 0)) \<rparr>"
    using idle_sends [of "[0..<N_UNITS]" "pass_down_ops p"] assms by (simp add: idle_def pass_down_ops_def Let_def)
  ultimately show ?thesis using assms by (simp add: before_feeding_def idle_def)
qed

lemma idle_turn:
  assumes "idle p"
  shows "(\<exists>i<N_UNITS. wait_time p i \<ge> S_THRESHOLD) \<Longrightarrow> WakeUp p = Inl Undefined"
    and "\<forall>i<N_UNITS. wait_time p i < S_THRESHOLD \<Longrightarrow>
      \<exists>q. WakeUp p = Inr q \<and> idle q \<and> (\<forall>i<N_UNITS. wait_time q i = wait_time p i + 1)"
proof -
  let ?q = "(pass_down_ops p)\<lparr> wait_time := (\<lambda>i. wait_time p i + (if i < N_UNITS then 1 else 0)) \<rparr>"
  have q: "beggar ?q = - 1" "operation_list ?q = operation_list p" "root_num ?q = root_num p"
    using assms by (simp_all add: idle_def pass_down_ops_def Let_def)
  show "WakeUp p = Inl Undefined" if s: "\<exists>i<N_UNITS. wait_time p i \<ge> S_THRESHOLD"
  proof -
    have "\<not> (\<forall>i<N_UNITS. wait_time ?q i \<le> S_THRESHOLD)" using s by (auto simp: not_le)
    then obtain i where i: "i < N_UNITS" "find_beggar ?q = ?q\<lparr> beggar := int i \<rparr>" using find_beggar_cases [of ?q] q(1) by blast
    then have "feed_beggar ?q = Inl Undefined" using assms q(2) by (simp add: feed_beggar_def Let_def idle_def)
    then show ?thesis unfolding WakeUp_parts idle_before [OF assms] by simp
  qed
  show "\<exists>q. WakeUp p = Inr q \<and> idle q \<and> (\<forall>i<N_UNITS. wait_time q i = wait_time p i + 1)"
    if s: "\<forall>i<N_UNITS. wait_time p i < S_THRESHOLD"
  proof -
    have none: "find_beggar ?q = ?q" using find_beggar_cases [of ?q] s by fastforce
    then have "feed_beggar ?q = Inr ?q" using q(1) by (simp add: feed_beggar_def Let_def)
    moreover have "idle (?q\<lparr> empty_count := e, scheduled := c \<rparr>)" for e c
      using assms q pass_down_units [of p] by (simp add: idle_def)
    ultimately show ?thesis unfolding WakeUp_parts idle_before [OF assms] by (simp add: Let_def)
  qed
qed

fun turns :: "nat \<Rightarrow> Pipeline \<Rightarrow> Pipeline cpp" where
  "turns 0 p = Inr p"
| "turns (Suc n) p = bind_cpp (WakeUp p) (turns n)"

lemma idle_turns:
  assumes "idle p" and "i < N_UNITS" and "\<forall>k<N_UNITS. wait_time p k \<le> wait_time p i" and "wait_time p i + int n = S_THRESHOLD"
  shows "turns (Suc n) p = Inl Undefined"
  using assms
proof (induction n arbitrary: p)
  case 0
  then have "S_THRESHOLD \<le> wait_time p i" by simp
  then have "WakeUp p = Inl Undefined" using idle_turn(1) [OF "0.prems"(1)] "0.prems"(2) by blast
  then show ?case by simp
next
  case (Suc n)
  have lt: "\<forall>k<N_UNITS. wait_time p k < S_THRESHOLD" using Suc.prems by fastforce
  obtain q where q: "WakeUp p = Inr q" "idle q" "\<forall>i<N_UNITS. wait_time q i = wait_time p i + 1"
    using idle_turn(2) [OF Suc.prems(1) lt] by blast
  have "turns (Suc n) q = Inl Undefined" by (rule Suc.IH) (use q Suc.prems in auto)
  then show ?case using q(1) by simp
qed

end
