(* ===== verification/Ns3_Order.thy ===== *)
theory Ns3_Order
  imports Ns3_Wake
begin

text \<open>The heaps of the pipeline stay ordered, so a pop takes the smallest rank.\<close>

definition heaps_sorted :: "Pipeline \<Rightarrow> bool" where
  "heaps_sorted p \<longleftrightarrow> (\<forall>y. sorted_wrt (\<lambda>a b. pair_le b a) (heap p y))"

lemma pair_le_trans: "pair_le a b \<Longrightarrow> pair_le b c \<Longrightarrow> pair_le a c"
  by (cases a; cases b; cases c) auto

lemma pair_le_total: "\<not> pair_le a b \<Longrightarrow> pair_le b a"
  by (cases a; cases b) auto

lemma set_heap_push: "set (heap_push x h) = insert x (set h)"
  by (induction x h rule: heap_push.induct) auto

lemma sorted_heap_push: "sorted_wrt (\<lambda>a b. pair_le b a) h \<Longrightarrow> sorted_wrt (\<lambda>a b. pair_le b a) (heap_push x h)"
  by (induction x h rule: heap_push.induct) (auto simp: set_heap_push intro: pair_le_trans pair_le_total)

lemma add_op_heap [simp]: "heap (add_op y t p) = heap p"
  by (simp add: add_op_def GetListId_def Let_def split: option.split prod.split)

lemma AddPush_heap [simp]: "heap (AddPush y rk x p) = heap p"
  by (simp add: AddPush_def)

lemma AddPop_heap [simp]: "heap (AddPop y p) = heap p"
  by (simp add: AddPop_def)

lemma add_pushes_heap: "heap (add_pushes bs p) = heap p"
  by (induction bs arbitrary: p) (auto simp: add_pushes_def)

lemma take_token_sorted: "heaps_sorted p \<Longrightarrow> take_token i p = Inr q \<Longrightarrow> heaps_sorted q"
  by (auto simp: take_token_def heaps_sorted_def Let_def split: if_splits list.splits) (metis sorted_wrt.simps(2))+

lemma take_tokens_sorted: "heaps_sorted p \<Longrightarrow> each_do take_token is p = Inr q \<Longrightarrow> heaps_sorted q"
  by (induction "is" arbitrary: p) (auto simp: bind_cpp_Inr dest: take_token_sorted)

lemma send_new_sorted: "heaps_sorted p \<Longrightarrow> heaps_sorted (send_new i p)"
  unfolding send_new_def heaps_sorted_def Let_def
  by (auto simp: SendOperation_frame sorted_heap_push split: list.split)

lemma send_all_sorted: "heaps_sorted p \<Longrightarrow> heaps_sorted (fold send_new is p)"
  by (induction "is" arbitrary: p) (simp_all add: send_new_sorted)

lemma WakeUp_sorted:
  assumes "heaps_sorted p" and "WakeUp p = Inr q"
  shows "heaps_sorted q"
proof -
  obtain p1 p2 where p: "before_feeding p = Inr p1" "feed_beggar p1 = Inr p2" "heap q = heap p2"
    using assms(2) unfolding WakeUp_parts by (auto simp: bind_cpp_Inr Let_def)
  let ?p0 = "if root_num p > 0 \<and> start_num p < BUFFER_SIZE then AddPop ROOT p else p"
  obtain p' where p': "each_do take_token [0..<N_UNITS] ?p0 = Inr p'" "p1 = fold send_new [0..<N_UNITS] (pass_down_ops p')"
    using p(1) unfolding before_feeding_def by (auto simp: bind_cpp_Inr)
  have "heaps_sorted ?p0" using assms(1) by (simp add: heaps_sorted_def)
  then have "heaps_sorted p'" using take_tokens_sorted p'(1) by blast
  then have "heaps_sorted (pass_down_ops p')" by (simp add: heaps_sorted_def pass_down_ops_def Let_def)
  then have "heaps_sorted p1" unfolding p'(2) by (rule send_all_sorted)
  then show ?thesis using feed_beggar_locks [OF p(2)] p(3) by (simp add: heaps_sorted_def locks_only_def)
qed

end
