(* ===== verification/Ns3_Runs.thy ===== *)
theory Ns3_Runs
  imports Ns3_Disc Ns3_Starve Ns3_Order
begin

text \<open>
  Runs of a queue disc: packets are enqueued and dequeued and the pipeline takes its turns, in any
  order. The locale \<open>pifo_disc\<close> is what the two discs have in common; what holds in every run is proved
  there once.
\<close>

section \<open>Runs\<close>

datatype disc_event = Ev_Enqueue item | Ev_Dequeue | Ev_Turn

datatype disc_out = Accepted item | Rejected item | Delivered item | No_packet | Turned

definition disc_turn :: "'x disc_scheme \<Rightarrow> 'x disc_scheme cpp" where
  "disc_turn d = bind_cpp (WakeUp (pipe d)) (\<lambda>p. Inr (d\<lparr> pipe := p \<rparr>))"

fun disc_step ::
  "(item \<Rightarrow> 'x disc_scheme \<Rightarrow> (bool \<times> 'x disc_scheme) cpp) \<Rightarrow> ('x disc_scheme \<Rightarrow> (item option \<times> 'x disc_scheme) cpp) \<Rightarrow>
   disc_event \<Rightarrow> 'x disc_scheme \<Rightarrow> (disc_out \<times> 'x disc_scheme) cpp" where
  "disc_step enq deq (Ev_Enqueue it) d = bind_cpp (enq it d) (\<lambda>(b, d1). Inr (if b then Accepted it else Rejected it, d1))"
| "disc_step enq deq Ev_Dequeue d =
     bind_cpp (deq d) (\<lambda>(r, d1). Inr (case r of None \<Rightarrow> No_packet | Some it \<Rightarrow> Delivered it, d1))"
| "disc_step enq deq Ev_Turn d = bind_cpp (disc_turn d) (\<lambda>d1. Inr (Turned, d1))"

fun disc_run ::
  "(item \<Rightarrow> 'x disc_scheme \<Rightarrow> (bool \<times> 'x disc_scheme) cpp) \<Rightarrow> ('x disc_scheme \<Rightarrow> (item option \<times> 'x disc_scheme) cpp) \<Rightarrow>
   disc_event list \<Rightarrow> 'x disc_scheme \<Rightarrow> (disc_out list \<times> 'x disc_scheme) cpp" where
  "disc_run enq deq [] d = Inr ([], d)"
| "disc_run enq deq (ev # evs) d =
     bind_cpp (disc_step enq deq ev d) (\<lambda>(out, d1).
     bind_cpp (disc_run enq deq evs d1) (\<lambda>(outs, d2). Inr (out # outs, d2)))"

fun accepted :: "disc_out list \<Rightarrow> item list" where
  "accepted [] = []"
| "accepted (Accepted it # os) = it # accepted os"
| "accepted (_ # os) = accepted os"

fun delivered :: "disc_out list \<Rightarrow> item list" where
  "delivered [] = []"
| "delivered (Delivered it # os) = it # delivered os"
| "delivered (_ # os) = delivered os"

section \<open>Queues\<close>

text \<open>Where a packet waits: packets of a handshake in a queue of their own, those of a Hadoop tenant with the
  tenant, those of web search with their flow.\<close>

definition queue_of :: "(string \<rightharpoonup> int) \<Rightarrow> item \<Rightarrow> int" where
  "queue_of fm it = (if IsHadoop (tenant it) then 100 + tenant it else case fm (GetFlowLabel it) of None \<Rightarrow> 0 | Some i \<Rightarrow> i)"

definition line_of :: "(string \<rightharpoonup> int) \<Rightarrow> item \<Rightarrow> int option" where
  "line_of fm it = (if tenant it = HANDSHAKE then None else Some (queue_of fm it))"

fun stored :: "'x disc_scheme \<Rightarrow> int option \<Rightarrow> item list" where
  "stored d None = bypath_queue d"
| "stored d (Some x) = queue_map d x"

text \<open>The packets of the experiments: a tenant below 100, and a flow of web search that was announced.\<close>

definition admissible :: "(string \<rightharpoonup> int) \<Rightarrow> item \<Rightarrow> bool" where
  "admissible fm it \<longleftrightarrow>
     tenant it = HANDSHAKE \<or> 0 \<le> tenant it \<and> tenant it < 100 \<and> (IsHadoop (tenant it) \<or> fm (GetFlowLabel it) \<noteq> None)"

fun admissible_event :: "(string \<rightharpoonup> int) \<Rightarrow> disc_event \<Rightarrow> bool" where
  "admissible_event fm (Ev_Enqueue it) = admissible fm it"
| "admissible_event fm _ = True"

definition disc_wf :: "int set \<Rightarrow> 'x disc_scheme \<Rightarrow> bool" where
  "disc_wf nodes d \<longleftrightarrow> nodes \<subseteq> dom (sch_tree d) \<and> (\<forall>l i. flow_map d l = Some i \<longrightarrow> 1000 < i)"

definition disc_inv :: "int set \<Rightarrow> 'x disc_scheme \<Rightarrow> bool" where
  "disc_inv nodes d \<longleftrightarrow> disc_wf nodes d \<and> pipe_ok (pipe d) \<and> heaps_sorted (pipe d) \<and>
     root_size d = root_num (pipe d) + start_num (pipe d) \<and> root_size d \<le> SIZE \<and>
     (\<forall>x. CheckRealQueue x \<longrightarrow> length (queue_map d x) = count (tokens (pipe d)) x + count (mset (buffer (pipe d))) x) \<and>
     (\<forall>x. \<forall>it\<in>set (queue_map d x). 0 \<le> tenant it \<and> tenant it < 100 \<and> queue_of (flow_map d) it = x) \<and>
     (\<forall>it\<in>set (bypath_queue d). tenant it = HANDSHAKE)"

definition same_queues :: "'x disc_scheme \<Rightarrow> 'x disc_scheme \<Rightarrow> bool" where
  "same_queues d d' \<longleftrightarrow> queue_map d' = queue_map d \<and> bypath_queue d' = bypath_queue d \<and> root_size d' = root_size d \<and>
     flow_map d' = flow_map d \<and> pipe d' = pipe d"

text \<open>No packet is lost, doubled or overtaken within its queue, and \<open>root_size\<close> counts those inside.\<close>

definition conserves :: "(string \<rightharpoonup> int) \<Rightarrow> 'x disc_scheme \<Rightarrow> disc_out list \<Rightarrow> 'x disc_scheme \<Rightarrow> bool" where
  "conserves fm d outs d' \<longleftrightarrow>
     (\<forall>l. stored d l @ filter (\<lambda>it. line_of fm it = l) (accepted outs) = filter (\<lambda>it. line_of fm it = l) (delivered outs) @ stored d' l) \<and>
     root_size d + int (length (filter (\<lambda>it. tenant it \<noteq> HANDSHAKE) (accepted outs))) =
       root_size d' + int (length (filter (\<lambda>it. tenant it \<noteq> HANDSHAKE) (delivered outs)))"

lemma accepted_append: "accepted (os @ qs) = accepted os @ accepted qs"
  by (induction os rule: accepted.induct) simp_all

lemma delivered_append: "delivered (os @ qs) = delivered os @ delivered qs"
  by (induction os rule: delivered.induct) simp_all

lemma conserves_trans:
  assumes "conserves fm d os d1" and "conserves fm d1 qs d2"
  shows "conserves fm d (os @ qs) d2"
proof -
  let ?in = "\<lambda>l os. filter (\<lambda>it. line_of fm it = l) (accepted os)" and ?out = "\<lambda>l os. filter (\<lambda>it. line_of fm it = l) (delivered os)"
  have "stored d l @ ?in l (os @ qs) = ?out l (os @ qs) @ stored d2 l" for l
  proof -
    have "stored d l @ ?in l (os @ qs) = (?out l os @ stored d1 l) @ ?in l qs"
      using assms(1) unfolding conserves_def accepted_append filter_append by (metis append_assoc)
    also have "\<dots> = ?out l os @ ?out l qs @ stored d2 l" using assms(2) unfolding conserves_def by simp
    finally show ?thesis by (simp add: delivered_append)
  qed
  with assms show ?thesis by (simp add: conserves_def accepted_append delivered_append)
qed

lemma HANDSHAKE_range: "\<not> HANDSHAKE < 100"
  by (simp add: HANDSHAKE_def)

lemma hadoop_real: "0 \<le> x \<Longrightarrow> x < 100 \<Longrightarrow> CheckRealQueue (100 + x) \<longleftrightarrow> IsHadoop x"
  by (simp add: CheckRealQueue_def IsHadoop_def signed_modulo_int_def signed_divide_int_def sgn_if)

lemma queue_of_real:
  "disc_wf nodes d \<Longrightarrow> admissible (flow_map d) it \<Longrightarrow> tenant it \<noteq> HANDSHAKE \<Longrightarrow> CheckRealQueue (queue_of (flow_map d) it)"
  by (auto simp: admissible_def queue_of_def hadoop_real disc_wf_def) (metis CheckRealQueue_def less_imp_le)

lemma GetToken_inv:
  assumes "pipe_ok p" and "GetToken p = Inr (x, q)" and "x \<noteq> - 1"
  shows "pipe_ok q" and "tokens q = tokens p" and "buffer p = x # buffer q" and "root_num q = root_num p" and "start_num q = start_num p - 1"
    and "heap q = heap p"
proof -
  obtain rest where b: "buffer p = x # rest"
    and q: "q = p\<lparr> buffer_num := buffer_num p - 1, start_num := start_num p - 1, buffer := rest \<rparr>"
    using assms(2,3) by (auto simp: GetToken_def Let_def split: if_splits list.splits)
  show "buffer p = x # buffer q" "root_num q = root_num p" "start_num q = start_num p - 1" "heap q = heap p" using b by (simp_all add: q)
  have m: "tokens q = tokens p" "roots q = roots p" "pops q = pops p" by (simp_all add: tokens_def roots_def pops_def q)
  have l: "list_of q = list_of p" by (rule list_of_cong) (simp_all add: q)
  have f: "fresh_pops 0 q = fresh_pops 0 p" by (rule fresh_cong) (simp add: q)
  have "placed q" "served_all (fresh_pops 0 p) q" "balanced (fresh_pops 0 p) {#} q" "counted (fresh_pops 0 p) {#} q"
    using assms(1) unfolding pipe_ok_def pipe_inv_def placed_def served_all_def balanced_def counted_def l m by (simp_all add: b q)
  then show "pipe_ok q" by (simp add: pipe_ok_def pipe_inv_def f)
  show "tokens q = tokens p" by (rule m)
qed

section \<open>What the discs have in common\<close>

locale pifo_disc =
  fixes enq :: "item \<Rightarrow> 'x disc_scheme \<Rightarrow> (bool \<times> 'x disc_scheme) cpp"
    and deq :: "'x disc_scheme \<Rightarrow> (item option \<times> 'x disc_scheme) cpp"
    and notify :: "int \<Rightarrow> item \<Rightarrow> 'x disc_scheme \<Rightarrow> 'x disc_scheme cpp"
    and nodes :: "int set"
  assumes enq_bypass: "tenant it = HANDSHAKE \<Longrightarrow> enq it d = Inr (True, d\<lparr> bypath_queue := bypath_queue d @ [it] \<rparr>)"
    and enq_full: "tenant it \<noteq> HANDSHAKE \<Longrightarrow> SIZE \<le> root_size d \<Longrightarrow> enq it d = Inr (False, d)"
    and enq_accept: "disc_wf nodes d \<Longrightarrow> admissible (flow_map d) it \<Longrightarrow> tenant it \<noteq> HANDSHAKE \<Longrightarrow> root_size d < SIZE \<Longrightarrow>
      \<exists>bs d'. enq it d = Inr (True, d') \<and> disc_wf nodes d' \<and> packet_pushes (queue_of (flow_map d) it) bs \<and>
        same_queues (store_packet (queue_of (flow_map d) it) it
          (d\<lparr> pipe := add_pushes bs (pipe d), root_size := root_size d + 1 \<rparr>)) d'"
    and deq_take: "deq = take_packet notify"
    and notify_ok: "disc_wf nodes d \<Longrightarrow> 0 \<le> tenant it \<Longrightarrow> tenant it < 100 \<Longrightarrow>
      \<exists>d'. notify x it d = Inr d' \<and> disc_wf nodes d' \<and> same_queues d d'"
begin

text \<open>A packet is enqueued.\<close>

lemma enq_inv:
  assumes "disc_inv nodes d" and "admissible (flow_map d) it"
  shows "\<exists>b d'. enq it d = Inr (b, d') \<and> disc_inv nodes d' \<and> flow_map d' = flow_map d \<and>
    (\<forall>l. stored d' l = stored d l @ (if b \<and> line_of (flow_map d) it = l then [it] else [])) \<and>
    root_size d' = root_size d + (if b \<and> tenant it \<noteq> HANDSHAKE then 1 else 0)"
proof (cases "tenant it = HANDSHAKE")
  case True
  let ?d = "d\<lparr> bypath_queue := bypath_queue d @ [it] \<rparr>"
  have "stored ?d l = stored d l @ (if line_of (flow_map d) it = l then [it] else [])" for l
    by (cases l) (simp_all add: line_of_def True)
  moreover have "disc_inv nodes ?d" using assms(1) True unfolding disc_inv_def disc_wf_def by simp
  ultimately show ?thesis using enq_bypass [OF True] True by (intro exI [of _ True] exI [of _ ?d]) simp
next
  case pk: False
  show ?thesis
  proof (cases "root_size d < SIZE")
    case False
    then show ?thesis using enq_full [OF pk] assms(1) by (intro exI [of _ False] exI [of _ d]) simp
  next
    case True
    let ?x = "queue_of (flow_map d) it"
    have wf: "disc_wf nodes d" and ok: "pipe_ok (pipe d)" using assms(1) by (simp_all add: disc_inv_def)
    obtain bs d' where d': "enq it d = Inr (True, d')" "disc_wf nodes d'" "packet_pushes ?x bs"
      "same_queues (store_packet ?x it (d\<lparr> pipe := add_pushes bs (pipe d), root_size := root_size d + 1 \<rparr>)) d'"
      using enq_accept [OF wf assms(2) pk True] by blast
    have eq: "pipe d' = add_pushes bs (pipe d)" "queue_map d' = (queue_map d)(?x := queue_map d ?x @ [it])"
      "bypath_queue d' = bypath_queue d" "root_size d' = root_size d + 1" "flow_map d' = flow_map d"
      using d'(4) by (simp_all add: same_queues_def store_packet_def)
    note a = add_pushes_inv [OF ok d'(3), folded eq(1)]
    have c: "count (tokens (pipe d')) x = count (tokens (pipe d)) x + (if x = ?x then 1 else 0)" if "CheckRealQueue x" for x
      using that arg_cong [OF a(2), of "\<lambda>M. count M x"] by simp
    have t: "0 \<le> tenant it" "tenant it < 100" using assms(2) pk by (simp_all add: admissible_def)
    have "heaps_sorted (add_pushes bs (pipe d))" using assms(1) by (simp add: disc_inv_def heaps_sorted_def add_pushes_heap)
    then have "disc_inv nodes d'" using assms(1) d'(2) a c t True unfolding disc_inv_def eq by auto
    moreover have "stored d' l = stored d l @ (if line_of (flow_map d) it = l then [it] else [])" for l
      using pk by (cases l) (auto simp: eq line_of_def)
    ultimately show ?thesis using d'(1) eq pk by (intro exI [of _ True] exI [of _ d']) simp
  qed
qed

text \<open>A packet is dequeued.\<close>

lemma deq_inv:
  assumes "disc_inv nodes d"
  shows "\<exists>r d'. deq d = Inr (r, d') \<and> disc_inv nodes d' \<and> flow_map d' = flow_map d \<and>
    (\<forall>l. stored d l = (case r of Some it \<Rightarrow> if line_of (flow_map d) it = l then [it] else [] | None \<Rightarrow> []) @ stored d' l) \<and>
    root_size d = root_size d' + (case r of Some it \<Rightarrow> if tenant it = HANDSHAKE then 0 else 1 | None \<Rightarrow> 0)"
proof (cases "bypath_queue d")
  case (Cons it rest)
  let ?d = "d\<lparr> bypath_queue := rest \<rparr>"
  have hs: "tenant it = HANDSHAKE" using assms Cons by (simp add: disc_inv_def)
  have "stored d l = (if line_of (flow_map d) it = l then [it] else []) @ stored ?d l" for l
    by (cases l) (simp_all add: line_of_def hs Cons)
  moreover have "disc_inv nodes ?d" using assms Cons unfolding disc_inv_def disc_wf_def by simp
  ultimately show ?thesis using Cons hs by (intro exI [of _ "Some it"] exI [of _ ?d]) (simp add: deq_take take_packet_def)
next
  case Nil
  have ok: "pipe_ok (pipe d)" using assms by (simp add: disc_inv_def)
  then have cn: "buffer_num (pipe d) = int (length (buffer (pipe d)))" "list_all CheckRealQueue (buffer (pipe d))"
    by (simp_all add: pipe_ok_def pipe_inv_def counted_def)
  show ?thesis
  proof (cases "buffer (pipe d)")
    case e: Nil
    then have "GetToken (pipe d) = Inr (- 1, pipe d)" using cn by (simp add: GetToken_def)
    then have "deq d = Inr (None, d)" using Nil by (simp add: deq_take take_packet_def)
    then show ?thesis using assms by (intro exI [of _ None] exI [of _ d]) simp
  next
    case (Cons x rest)
    have real: "CheckRealQueue x" "x \<noteq> - 1" using cn(2) Cons by (auto simp: CheckRealQueue_def)
    obtain q where q: "GetToken (pipe d) = Inr (x, q)" using cn Cons by (simp add: GetToken_def Let_def)
    note g = GetToken_inv [OF ok q real(2)]
    have "0 < length (queue_map d x)" using assms real(1) Cons by (simp add: disc_inv_def)
    then obtain it its where its: "queue_map d x = it # its" by (cases "queue_map d x") auto
    then have "it \<in> set (queue_map d x)" by simp
    then have it: "0 \<le> tenant it" "tenant it < 100" "queue_of (flow_map d) it = x" using assms unfolding disc_inv_def by blast+
    let ?d = "d\<lparr> pipe := q, root_size := root_size d - 1, queue_map := (queue_map d)(x := its) \<rparr>"
    have "disc_wf nodes ?d" using assms by (simp add: disc_inv_def disc_wf_def)
    then obtain d' where d': "notify x it ?d = Inr d'" "disc_wf nodes d'" "same_queues ?d d'" using notify_ok it by blast
    have eq: "pipe d' = q" "queue_map d' = (queue_map d)(x := its)" "bypath_queue d' = []" "root_size d' = root_size d - 1"
      "flow_map d' = flow_map d" using d'(3) Nil by (simp_all add: same_queues_def)
    have "deq d = Inr (Some it, d')" using Nil q real(2) its d'(1) by (simp add: deq_take take_packet_def Let_def)
    moreover have "disc_inv nodes d'"
    proof -
      have "length (queue_map d' y) = count (tokens q) y + count (mset (buffer q)) y" if "CheckRealQueue y" for y
        using assms that its g(2,3) unfolding disc_inv_def eq by (cases "y = x") (auto dest!: spec [of _ y])
      moreover have "0 \<le> tenant u \<and> tenant u < 100 \<and> queue_of (flow_map d) u = y" if "u \<in> set (queue_map d' y)" for y u
      proof -
        have "u \<in> set (queue_map d y)" using that its by (auto simp: eq split: if_splits)
        then show ?thesis using assms unfolding disc_inv_def by blast
      qed
      ultimately show ?thesis using assms d'(2) g unfolding disc_inv_def eq by (simp add: heaps_sorted_def)
    qed
    moreover have "tenant it \<noteq> HANDSHAKE" using it(2) HANDSHAKE_range by auto
    then have "stored d l = (if line_of (flow_map d) it = l then [it] else []) @ stored d' l" for l
      using it(3) its Nil by (cases l) (auto simp: eq line_of_def)
    ultimately show ?thesis using eq \<open>tenant it \<noteq> HANDSHAKE\<close> by (intro exI [of _ "Some it"] exI [of _ d']) simp
  qed
qed

text \<open>The pipeline takes a turn.\<close>

lemma turn_inv:
  assumes "disc_inv nodes d" and "disc_turn d = Inr d'"
  shows "disc_inv nodes d'" and "flow_map d' = flow_map d" and "stored d' l = stored d l" and "root_size d' = root_size d"
proof -
  obtain q where q: "WakeUp (pipe d) = Inr q" "d' = d\<lparr> pipe := q \<rparr>" using assms(2) by (auto simp: disc_turn_def bind_cpp_Inr)
  have w: "pipe_ok q" "keeps (pipe d) q" using WakeUp_inv [OF _ q(1)] assms(1) by (auto simp: disc_inv_def)
  have "count (tokens q) x + count (mset (buffer q)) x = count (tokens (pipe d)) x + count (mset (buffer (pipe d))) x"
    if "CheckRealQueue x" for x
    using w(2) that unfolding keeps_def by (metis (mono_tags) count_filter_mset count_union)
  then show "disc_inv nodes d'" using assms(1) w WakeUp_sorted [OF _ q(1)] unfolding disc_inv_def disc_wf_def q(2) by (simp add: keeps_def)
  show "flow_map d' = flow_map d" "stored d' l = stored d l" "root_size d' = root_size d"
    by (simp_all add: q(2)) (cases l; simp)
qed

text \<open>Runs keep the invariant and conserve the packets.\<close>

lemma step_inv:
  assumes "disc_inv nodes d" and "admissible_event (flow_map d) ev" and "disc_step enq deq ev d = Inr (out, d1)"
  shows "disc_inv nodes d1 \<and> flow_map d1 = flow_map d \<and> conserves (flow_map d) d [out] d1"
proof (cases ev)
  case (Ev_Enqueue it)
  then obtain b where b: "enq it d = Inr (b, d1)" "out = (if b then Accepted it else Rejected it)"
    using assms(3) by (auto simp: bind_cpp_Inr)
  have e: "disc_inv nodes d1" "flow_map d1 = flow_map d" "root_size d1 = root_size d + (if b \<and> tenant it \<noteq> HANDSHAKE then 1 else 0)"
    "\<forall>l. stored d1 l = stored d l @ (if b \<and> line_of (flow_map d) it = l then [it] else [])"
    using enq_inv [OF assms(1), of it] assms(2) Ev_Enqueue b(1) by auto
  then show ?thesis by (cases b) (auto simp: conserves_def b(2))
next
  case Ev_Dequeue
  then obtain r where r: "deq d = Inr (r, d1)" "out = (case r of None \<Rightarrow> No_packet | Some it \<Rightarrow> Delivered it)"
    using assms(3) by (auto simp: bind_cpp_Inr)
  have e: "disc_inv nodes d1" "flow_map d1 = flow_map d"
    "root_size d = root_size d1 + (case r of Some it \<Rightarrow> if tenant it = HANDSHAKE then 0 else 1 | None \<Rightarrow> 0)"
    "\<forall>l. stored d l = (case r of Some it \<Rightarrow> if line_of (flow_map d) it = l then [it] else [] | None \<Rightarrow> []) @ stored d1 l"
    using deq_inv [OF assms(1)] r(1) by auto
  then show ?thesis by (cases r) (auto simp: conserves_def r(2))
next
  case Ev_Turn
  then have t: "disc_turn d = Inr d1" "out = Turned" using assms(3) by (auto simp: bind_cpp_Inr)
  then show ?thesis using turn_inv [OF assms(1) t(1)] by (simp add: conserves_def)
qed

lemma run_inv:
  "disc_inv nodes d \<Longrightarrow> \<forall>ev\<in>set evs. admissible_event (flow_map d) ev \<Longrightarrow> disc_run enq deq evs d = Inr (outs, d') \<Longrightarrow>
   disc_inv nodes d' \<and> flow_map d' = flow_map d \<and> conserves (flow_map d) d outs d'"
proof (induction evs arbitrary: d outs)
  case Nil
  then show ?case by (simp add: conserves_def)
next
  case (Cons ev evs)
  obtain out d1 os where s: "disc_step enq deq ev d = Inr (out, d1)" "disc_run enq deq evs d1 = Inr (os, d')" "outs = out # os"
    using Cons.prems(3) by (auto simp: bind_cpp_Inr)
  have i: "disc_inv nodes d1" "flow_map d1 = flow_map d" "conserves (flow_map d) d [out] d1"
    using step_inv [OF Cons.prems(1) _ s(1)] Cons.prems(2) by simp_all
  with Cons.IH [OF i(1) _ s(2)] Cons.prems(2) conserves_trans [OF i(3)] show ?case by (simp add: s(3))
qed

lemma run_defined:
  assumes "disc_inv nodes d"
  shows "admissible (flow_map d) it \<Longrightarrow> \<exists>r. enq it d = Inr r" and "\<exists>r. deq d = Inr r" and "\<exists>p. before_feeding (pipe d) = Inr p"
  using enq_inv [OF assms, of it] deq_inv [OF assms] before_feeding_inv [of "pipe d"] assms by (auto simp: disc_inv_def)

end

end
