(* ===== verification/Ns3_Queue_Discs.thy ===== *)
theory Ns3_Queue_Discs
  imports Ns3_Runs
begin

text \<open>The two queue discs provide \<open>pifo_disc\<close>, and what follows for their runs.\<close>

section \<open>Trees\<close>

definition vPIFO_nodes :: "int set" where "vPIFO_nodes = dom vPIFO_tree"

definition SimplePIFO_nodes :: "int set" where "SimplePIFO_nodes = dom SimplePIFO_tree"

lemma dom_fold_new: "dom (fold (\<lambda>i m. if P i then m else m(i \<mapsto> c)) xs m0) = {i \<in> set xs. \<not> P i} \<union> dom m0"
  by (induction xs arbitrary: m0) auto

lemma dom_fold_SP: "dom (fold (\<lambda>i m. m(i \<mapsto> c)) xs m0) = set xs \<union> dom m0"
  by (induction xs arbitrary: m0) auto

lemma dom_fold_WFQ:
  "dom (fold (\<lambda>i m. m(10 + i * 2 \<mapsto> f i, 10 + i * 2 + 1 \<mapsto> g i)) xs m0) = (\<Union>i\<in>set xs. {10 + i * 2, 10 + i * 2 + (1::int)}) \<union> dom m0"
  by (induction xs arbitrary: m0) auto

lemma vPIFO_nodes_eq: "vPIFO_nodes = {i. 100 \<le> i \<and> i < 200 \<and> \<not> IsHadoop (i - 100)} \<union>
  (\<Union>i\<in>{0..9}. {10 + i * 2, 10 + i * 2 + 1}) \<union> {0..9} \<union> {ROOT}"
  unfolding vPIFO_nodes_def vPIFO_tree_def dom_fold_new dom_fold_WFQ dom_fold_SP set_upto by auto

lemma SimplePIFO_nodes_eq: "SimplePIFO_nodes = {i. 0 \<le> i \<and> i < 100 \<and> \<not> IsHadoop i}"
  unfolding SimplePIFO_nodes_def SimplePIFO_tree_def dom_fold_new set_upto by auto

lemma at_node_ok:
  assumes "k \<in> dom (sch_tree d)"
  shows "\<exists>r m. at_node k f d = Inr (r, d\<lparr> sch_tree := m \<rparr>) \<and> dom m = dom (sch_tree d)"
proof -
  obtain s where s: "sch_tree d k = Some s" using assms by auto
  obtain r s' where f: "f s = (r, s')" by (cases "f s")
  show ?thesis
    by (rule exI [of _ r], rule exI [of _ "(sch_tree d)(k \<mapsto> s')"]) (use assms s f in \<open>auto simp: at_node_def deref_def\<close>)
qed

lemma tell_ok:
  assumes "k \<in> dom (sch_tree d)"
  shows "\<exists>m. tell k x d = Inr (d\<lparr> sch_tree := m \<rparr>) \<and> dom m = dom (sch_tree d)"
  using at_node_ok [OF assms, of "\<lambda>s. ((), Dequeue x s)"] by (auto simp: tell_def)

section \<open>Packets\<close>

lemma group_range: "0 \<le> t \<Longrightarrow> t < 100 \<Longrightarrow> 0 \<le> t sdiv 10 \<and> t sdiv 10 \<le> (9::int)"
  by (simp add: signed_divide_int_def sgn_if) presburger

definition type_of :: "int \<Rightarrow> int" where
  "type_of t = 10 + t sdiv 10 * 2 + (if IsHadoop t then 1 else 0)"

lemma tenant_nodes:
  assumes "0 \<le> t" and "t < 100"
  shows "t sdiv 10 \<in> vPIFO_nodes" and "type_of t \<in> vPIFO_nodes" and "\<not> IsHadoop t \<Longrightarrow> 100 + t \<in> vPIFO_nodes"
  using group_range [OF assms] assms by (auto simp: vPIFO_nodes_eq type_of_def)

lemma tenant_pushes:
  assumes "0 \<le> t" and "t < 100"
  shows "IsHadoop t \<Longrightarrow> packet_pushes (100 + t) [(ROOT, a, t sdiv 10), (t sdiv 10, b, type_of t), (type_of t, c, 100 + t)]"
    and "\<not> IsHadoop t \<Longrightarrow> 1000 < x \<Longrightarrow>
      packet_pushes x [(ROOT, a, t sdiv 10), (t sdiv 10, b, type_of t), (type_of t, c, 100 + t), (100 + t, e, x)]"
proof -
  have g: "0 \<le> t sdiv 10" "t sdiv 10 \<le> 9" using group_range [OF assms] by simp_all
  then have y: "10 \<le> type_of t" "type_of t \<le> 29" by (simp_all add: type_of_def)
  have small: "\<not> CheckRealQueue (t sdiv 10)" "\<not> CheckRealQueue (type_of t)" using g y by (simp_all add: CheckRealQueue_def)
  have x: "1000 < z \<Longrightarrow> CheckRealQueue z" for z by (simp add: CheckRealQueue_def)
  note c = ROOT_def T_TREES_def
  show "packet_pushes (100 + t) [(ROOT, a, t sdiv 10), (t sdiv 10, b, type_of t), (type_of t, c, 100 + t)]" if "IsHadoop t"
    using that g y assms small hadoop_real [OF assms] by (auto simp: packet_pushes_def c)
  show "packet_pushes x [(ROOT, a, t sdiv 10), (t sdiv 10, b, type_of t), (type_of t, c, 100 + t), (100 + t, e, x)]"
    if "\<not> IsHadoop t" "1000 < x"
    using that g y assms small hadoop_real [OF assms] x by (auto simp: packet_pushes_def c)
qed

lemma wf_flow:
  assumes "disc_wf nodes d" and "admissible (flow_map d) it" and "\<not> IsHadoop (tenant it)" and "tenant it \<noteq> HANDSHAKE"
  shows "flow_map d (GetFlowLabel it) = Some (queue_of (flow_map d) it)" and "1000 < queue_of (flow_map d) it"
  using assms by (auto simp: admissible_def queue_of_def disc_wf_def)

section \<open>The tree of PIFOs\<close>

lemma vPIFO_accepts:
  assumes "disc_wf vPIFO_nodes d" and "admissible (flow_map d) it" and "tenant it \<noteq> HANDSHAKE" and "root_size d < SIZE"
  shows "\<exists>bs d'. vPIFO_DoEnqueue it d = Inr (True, d') \<and> disc_wf vPIFO_nodes d' \<and> packet_pushes (queue_of (flow_map d) it) bs \<and>
    same_queues (store_packet (queue_of (flow_map d) it) it (d\<lparr> pipe := add_pushes bs (pipe d), root_size := root_size d + 1 \<rparr>)) d'"
proof -
  let ?t = "tenant it"
  have t: "0 \<le> ?t" "?t < 100" using assms(2,3) by (auto simp: admissible_def)
  let ?g = "?t sdiv 10" and ?y = "type_of ?t" and ?d0 = "d\<lparr> root_size := root_size d + 1 \<rparr>"
  have sub: "vPIFO_nodes \<subseteq> dom (sch_tree d)" using assms(1) by (simp add: disc_wf_def)
  have "ROOT \<in> dom (sch_tree ?d0)" using sub by (auto simp: vPIFO_nodes_eq)
  from at_node_ok [OF this, of "RankComputation ?g 0"] obtain a m1
    where 1: "at_node ROOT (RankComputation ?g 0) ?d0 = Inr (a, ?d0\<lparr> sch_tree := m1 \<rparr>)" "dom m1 = dom (sch_tree d)" by auto
  let ?d1 = "push_at ROOT a ?g (?d0\<lparr> sch_tree := m1 \<rparr>)"
  have "?g \<in> dom (sch_tree ?d1)" using sub tenant_nodes(1) [OF t] 1(2) by (auto simp: push_at_def)
  from at_node_ok [OF this, of "RankComputation ?y 0"] obtain b m2
    where 2: "at_node ?g (RankComputation ?y 0) ?d1 = Inr (b, ?d1\<lparr> sch_tree := m2 \<rparr>)" "dom m2 = dom (sch_tree d)"
    using 1(2) by (auto simp: push_at_def)
  let ?d2 = "push_at ?g b ?y (?d1\<lparr> sch_tree := m2 \<rparr>)"
  have "?y \<in> dom (sch_tree ?d2)" using sub tenant_nodes(2) [OF t] 2(2) by (auto simp: push_at_def)
  from at_node_ok [OF this, of "RankComputation (100 + ?t) (packet_size it)"] obtain c m3
    where 3: "at_node ?y (RankComputation (100 + ?t) (packet_size it)) ?d2 = Inr (c, ?d2\<lparr> sch_tree := m3 \<rparr>)" "dom m3 = dom (sch_tree d)"
    using 2(2) by (auto simp: push_at_def)
  let ?d3 = "push_at ?y c (100 + ?t) (?d2\<lparr> sch_tree := m3 \<rparr>)"
  have run: "vPIFO_DoEnqueue it d =
      (if IsHadoop ?t then Inr (True, store_packet (100 + ?t) it ?d3)
       else let (x, d5) = flow_id_of (GetFlowLabel it) ?d3
            in bind_cpp (at_node (100 + ?t) (RankComputation x 0) d5) (\<lambda>(e, d6).
                 Inr (True, store_packet x it (push_at (100 + ?t) e x d6))))"
    using assms(3,4) 1 2 3 unfolding vPIFO_DoEnqueue_def by (simp add: Let_def type_of_def cong: if_cong)
  have wf: "\<forall>l i. flow_map d l = Some i \<longrightarrow> 1000 < i" using assms(1) by (simp add: disc_wf_def)
  show ?thesis
  proof (cases "IsHadoop ?t")
    case True
    let ?bs = "[(ROOT, a, ?g), (?g, b, ?y), (?y, c, 100 + ?t)]"
    have x: "queue_of (flow_map d) it = 100 + ?t" using True by (simp add: queue_of_def)
    show ?thesis
      by (rule exI [of _ ?bs], rule exI [of _ "store_packet (100 + ?t) it ?d3"])
        (use run True wf sub 3(2) tenant_pushes(1) [OF t] in
          \<open>simp add: x disc_wf_def store_packet_def push_at_def same_queues_def add_pushes_def\<close>)
  next
    case False
    define x where "x = queue_of (flow_map d) it"
    have fl: "flow_map d (GetFlowLabel it) = Some x" "1000 < x" using wf_flow [OF assms(1,2) False assms(3)] by (simp_all add: x_def)
    have id: "flow_id_of (GetFlowLabel it) ?d3 = (x, ?d3)" using fl(1) by (simp add: flow_id_of_def push_at_def)
    have "100 + ?t \<in> dom (sch_tree ?d3)" using sub tenant_nodes(3) [OF t False] 3(2) by (auto simp: push_at_def)
    from at_node_ok [OF this, of "RankComputation x 0"] obtain e m4
      where 4: "at_node (100 + ?t) (RankComputation x 0) ?d3 = Inr (e, ?d3\<lparr> sch_tree := m4 \<rparr>)" "dom m4 = dom (sch_tree d)"
      using 3(2) by (auto simp: push_at_def)
    let ?bs = "[(ROOT, a, ?g), (?g, b, ?y), (?y, c, 100 + ?t), (100 + ?t, e, x)]"
    let ?d4 = "store_packet x it (push_at (100 + ?t) e x (?d3\<lparr> sch_tree := m4 \<rparr>))"
    have "vPIFO_DoEnqueue it d = Inr (True, ?d4)" using run False id 4(1) by simp
    then show ?thesis unfolding x_def [symmetric]
      by (intro exI [of _ ?bs] exI [of _ ?d4])
        (use wf sub 4(2) tenant_pushes(2) [OF t False fl(2)] in
          \<open>simp add: disc_wf_def store_packet_def push_at_def same_queues_def add_pushes_def\<close>)
  qed
qed

lemma vPIFO_notifies:
  assumes "disc_wf vPIFO_nodes d" and "0 \<le> tenant it" "tenant it < 100"
  shows "\<exists>d'. vPIFO_notify x it d = Inr d' \<and> disc_wf vPIFO_nodes d' \<and> same_queues d d'"
proof -
  let ?t = "tenant it"
  have sub: "vPIFO_nodes \<subseteq> dom (sch_tree d)" using assms(1) by (simp add: disc_wf_def)
  have "type_of ?t \<in> dom (sch_tree d)" using sub tenant_nodes(2) [OF assms(2,3)] by auto
  from tell_ok [OF this, of "packet_size it"] obtain m
    where 1: "tell (type_of ?t) (packet_size it) d = Inr (d\<lparr> sch_tree := m \<rparr>)" "dom m = dom (sch_tree d)" by blast
  show ?thesis
  proof (cases "IsHadoop ?t")
    case True
    then show ?thesis using assms(1) 1 by (auto simp: vPIFO_notify_def type_of_def disc_wf_def same_queues_def)
  next
    case False
    have "?t + 100 \<in> dom (sch_tree (d\<lparr> sch_tree := m \<rparr>))"
      using sub tenant_nodes(3) [OF assms(2,3) False] 1(2) by (auto simp: add.commute)
    from tell_ok [OF this, of x] obtain m' where 2: "tell (?t + 100) x (d\<lparr> sch_tree := m \<rparr>) = Inr (d\<lparr> sch_tree := m' \<rparr>)"
      "dom m' = dom (sch_tree d)" using 1(2) by auto
    then show ?thesis using assms(1) 1 False by (auto simp: vPIFO_notify_def type_of_def disc_wf_def same_queues_def)
  qed
qed

interpretation vpifo: pifo_disc vPIFO_DoEnqueue vPIFO_DoDequeue vPIFO_notify vPIFO_nodes
  by unfold_locales (simp_all add: vPIFO_accepts vPIFO_notifies vPIFO_DoDequeue_def, simp_all add: vPIFO_DoEnqueue_def)

section \<open>The root alone\<close>

lemma root_push: "CheckRealQueue x \<Longrightarrow> packet_pushes x [(ROOT, a, x)]"
  by (auto simp: packet_pushes_def ROOT_def T_TREES_def CheckRealQueue_def)

lemma SimplePIFO_accepts:
  assumes "disc_wf SimplePIFO_nodes d" and "admissible (flow_map d) it" and "tenant it \<noteq> HANDSHAKE" and "root_size d < SIZE"
  shows "\<exists>bs d'. SimplePIFO_DoEnqueue it d = Inr (True, d') \<and> disc_wf SimplePIFO_nodes d' \<and> packet_pushes (queue_of (flow_map d) it) bs \<and>
    same_queues (store_packet (queue_of (flow_map d) it) it (d\<lparr> pipe := add_pushes bs (pipe d), root_size := root_size d + 1 \<rparr>)) d'"
proof -
  let ?t = "tenant it" and ?d0 = "d\<lparr> root_size := root_size d + 1 \<rparr>"
  define x where "x = queue_of (flow_map d) it"
  have t: "0 \<le> ?t" "?t < 100" using assms(2,3) by (auto simp: admissible_def)
  have real: "CheckRealQueue x" unfolding x_def by (rule queue_of_real [OF assms(1-3)])
  show ?thesis
  proof (cases "IsHadoop ?t")
    case True
    let ?a = "arrival_time d + 1"
    let ?d = "store_packet x it (push_at ROOT ?a x (?d0\<lparr> arrival_time := ?a \<rparr>))"
    have "x = ?t + 100" using True by (simp add: x_def queue_of_def)
    then have "SimplePIFO_DoEnqueue it d = Inr (True, ?d)" using True assms(3,4) by (simp add: SimplePIFO_DoEnqueue_def Let_def)
    then show ?thesis unfolding x_def [symmetric]
      by (intro exI [of _ "[(ROOT, ?a, x)]"] exI [of _ ?d])
        (use assms(1) root_push [OF real] in \<open>simp add: disc_wf_def store_packet_def push_at_def same_queues_def add_pushes_def\<close>)
  next
    case False
    have id: "flow_id_of (GetFlowLabel it) ?d0 = (x, ?d0)"
      using wf_flow(1) [OF assms(1,2) False assms(3)] by (simp add: flow_id_of_def x_def)
    have "?t \<in> dom (sch_tree ?d0)" using assms(1) t False by (auto simp: disc_wf_def SimplePIFO_nodes_eq)
    from at_node_ok [OF this, of "RankComputation x 0"] obtain a m
      where 1: "at_node ?t (RankComputation x 0) ?d0 = Inr (a, ?d0\<lparr> sch_tree := m \<rparr>)" "dom m = dom (sch_tree d)" by auto
    let ?d = "store_packet x it (push_at ROOT a x (?d0\<lparr> sch_tree := m \<rparr>))"
    have "SimplePIFO_DoEnqueue it d = Inr (True, ?d)" using False assms(3,4) id 1(1) by (simp add: SimplePIFO_DoEnqueue_def Let_def)
    then show ?thesis unfolding x_def [symmetric]
      by (intro exI [of _ "[(ROOT, a, x)]"] exI [of _ ?d])
        (use assms(1) 1(2) root_push [OF real] in \<open>simp add: disc_wf_def store_packet_def push_at_def same_queues_def add_pushes_def\<close>)
  qed
qed

lemma SimplePIFO_notifies:
  assumes "disc_wf SimplePIFO_nodes d" and "0 \<le> tenant it" "tenant it < 100"
  shows "\<exists>d'. SimplePIFO_notify x it d = Inr d' \<and> disc_wf SimplePIFO_nodes d' \<and> same_queues d d'"
proof (cases "IsHadoop (tenant it)")
  case True
  then show ?thesis using assms(1) by (simp add: SimplePIFO_notify_def same_queues_def)
next
  case False
  have "tenant it \<in> dom (sch_tree d)" using assms False by (auto simp: disc_wf_def SimplePIFO_nodes_eq)
  from tell_ok [OF this, of x] False assms(1) show ?thesis by (auto simp: SimplePIFO_notify_def disc_wf_def same_queues_def)
qed

interpretation simple: pifo_disc SimplePIFO_DoEnqueue SimplePIFO_DoDequeue SimplePIFO_notify SimplePIFO_nodes
  by unfold_locales (simp_all add: SimplePIFO_accepts SimplePIFO_notifies SimplePIFO_DoDequeue_def, simp_all add: SimplePIFO_DoEnqueue_def)

end
