(* ===== verification/Ns3_Eval.thy ===== *)
theory Ns3_Eval
  imports Ns3_Wake
begin

text \<open>
  Evaluation of the pipeline on states that are written out: one rule per operation, which applies to
  a state in the form \<open>pipe_st\<close> only, so that \<open>simp\<close> runs a turn from the inside out.
\<close>

abbreviation pipe_st ::
  "(nat \<Rightarrow> Operation) \<Rightarrow> (nat \<Rightarrow> Operation list) \<Rightarrow> (int \<Rightarrow> (int \<times> int) list) \<Rightarrow> int \<Rightarrow> (nat \<Rightarrow> int) \<Rightarrow> (nat \<Rightarrow> bool) \<Rightarrow>
   int \<Rightarrow> int \<Rightarrow> int \<Rightarrow> int \<Rightarrow> int \<Rightarrow> int \<Rightarrow> int \<Rightarrow> int list \<Rightarrow> (int \<rightharpoonup> nat) \<Rightarrow> nat \<Rightarrow> bool \<Rightarrow> Pipeline" where
  "pipe_st u ol hp rn wt lk bg ec hc hy sc bn sn bf lm lc sd \<equiv>
     \<lparr>RPU = u, operation_list = ol, heap = hp, root_num = rn, wait_time = wt, locked = lk, beggar = bg, empty_count = ec,
      hungry_count = hc, hungry_delay = hy, starve_count = sc, buffer_num = bn, start_num = sn, buffer = bf,
      list_map = lm, list_cnt = lc, scheduled = sd\<rparr>"

lemma unit_list: "[0..<N_UNITS] = [0, Suc 0, Suc (Suc 0), Suc (Suc (Suc 0)), (Suc (Suc (Suc (Suc 0))))]"
  by (simp add: N_UNITS_def upt_rec)

lemma all_units:
  "(\<forall>i<N_UNITS. P i) \<longleftrightarrow> P 0 \<and> P (Suc 0) \<and> P (Suc (Suc 0)) \<and> P (Suc (Suc (Suc 0))) \<and> P (Suc (Suc (Suc (Suc 0))))"
  by (simp add: N_UNITS_def numeral_eq_Suc All_less_Suc) blast

lemma pass_from_Suc:
  "pass_from (Suc k) i nt u = pass_from k (Suc i) ((u i)\<lparr> op_TTL := op_TTL (u i) - 1 \<rparr>)
     (u(i := if kind (u i) = Op_Pop then (u i)\<lparr> kind := Op_WriteBack \<rparr>
        else if op_TTL nt > 0 then nt else (u i)\<lparr> kind := Op_Empty, op_TTL := 0 \<rparr>))"
  by (simp add: pass_from.simps(2) Let_def)

lemma add_op_lit:
  "lc < 5 \<Longrightarrow> add_op y t (pipe_st u ol hp rn wt lk bg ec hc hy sc bn sn bf lm lc sd) =
     (case lm y of
        Some i \<Rightarrow> (pipe_st u (ol(i := ol i @ [t])) hp rn (if ol i = [] then wt(i := 0) else wt) lk bg ec hc hy sc bn sn bf lm lc sd)
      | None \<Rightarrow> (pipe_st u (ol(lc := ol lc @ [t])) hp rn (if ol lc = [] then wt(lc := 0) else wt) lk bg ec hc hy sc bn sn bf (lm(y \<mapsto> lc)) (if lc = (Suc (Suc (Suc (Suc 0)))) then 0 else Suc lc) sd))"
  by (auto simp: add_op_def GetListId_def Let_def N_UNITS_def split: option.split)

lemma AddPush_lit:
  "AddPush y rk x (pipe_st u ol hp rn wt lk bg ec hc hy sc bn sn bf lm lc sd) =
     add_op y (push_op y rk x) (pipe_st u ol hp (if y = 233 then rn + 1 else rn) wt lk bg ec hc hy sc bn sn bf lm lc sd)"
  by (simp add: AddPush_def ROOT_def)

lemma AddPop_lit:
  "AddPop y (pipe_st u ol hp rn wt lk bg ec hc hy sc bn sn bf lm lc sd) =
     add_op y (pop_op y) (pipe_st u ol hp (if y = 233 then rn - 1 else rn) wt lk bg ec hc hy sc bn (if y = 233 then sn + 1 else sn) bf lm lc sd)"
  by (simp add: AddPop_def ROOT_def)

lemma take_token_lit:
  "take_token i (pipe_st u ol hp rn wt lk bg ec hc hy sc bn sn bf lm lc sd) =
     (if fresh_pop (u i) then
        case hp (op_root (u i)) of
          [] \<Rightarrow> Inl Undefined
        | x # h \<Rightarrow>
            if CheckRealQueue (snd x) then Inr (pipe_st u ol (hp(op_root (u i) := h)) rn wt lk bg ec hc hy sc (bn + 1) sn (bf @ [snd x]) lm lc sd)
            else Inr (AddPop (snd x) (pipe_st u ol (hp(op_root (u i) := h)) rn wt lk bg ec hc hy sc bn sn bf lm lc sd))
      else Inr (pipe_st u ol hp rn wt lk bg ec hc hy sc bn sn bf lm lc sd))"
  by (simp add: take_token_def Let_def split: list.split prod.split)

lemma pass_down_lit:
  "pass_down_ops (pipe_st u ol hp rn wt lk bg ec hc hy sc bn sn bf lm lc sd) = (pipe_st (pass_from (Suc (Suc (Suc (Suc (Suc 0))))) 0 ((u (Suc (Suc (Suc (Suc 0)))))\<lparr> op_TTL := op_TTL (u (Suc (Suc (Suc (Suc 0))))) - 1 \<rparr>) u) ol hp rn wt lk bg ec hc hy sc bn sn bf lm lc sd)"
  by (simp add: pass_down_ops_def Let_def N_UNITS_def eval_nat_numeral del: pass_from.simps(1))

lemma SendOperation_lit:
  "wt i \<le> 240 \<Longrightarrow> SendOperation i (pipe_st u ol hp rn wt lk bg ec hc hy sc bn sn bf lm lc sd) =
     (pipe_st u (ol(i := tl (ol i))) hp rn wt lk bg ec hc hy sc bn sn bf lm lc sd)"
  by (simp add: SendOperation_def S_THRESHOLD_def)

definition prev_unit :: "nat \<Rightarrow> nat" where
  "prev_unit i = (case i of 0 \<Rightarrow> (Suc (Suc (Suc (Suc 0)))) | Suc j \<Rightarrow> j)"

lemma prev_unit_mod: "i < 5 \<Longrightarrow> (4 + i) mod 5 = prev_unit i"
  by (auto simp: prev_unit_def mod_if split: nat.split)

lemma send_new_lit:
  assumes "wt i < 240" and "i < 5"
  shows "send_new i (pipe_st u ol hp rn wt lk bg ec hc hy sc bn sn bf lm lc sd) =
     (if kind (u i) = Op_Empty \<and> \<not> lk i then
        case ol i of
          [] \<Rightarrow> (pipe_st u ol hp rn (wt(i := wt i + 1)) lk bg ec hc hy sc bn sn bf lm lc sd)
        | t # ts \<Rightarrow>
            if kind t = Op_Push then
              (pipe_st (u(i := t)) (ol(i := ts)) (hp(op_root t := heap_push (- op_rank t, op_token t) (hp (op_root t)))) rn (wt(i := wt i + 1)) lk bg ec hc hy sc bn sn bf lm lc sd)
            else if op_TTL (u (prev_unit i)) \<le> 1 then
              (pipe_st (u(i := t, prev_unit i := ((u(i := t)) (prev_unit i))\<lparr> kind := if kind ((u(i := t)) (prev_unit i)) = Op_Empty then Op_Locked else kind ((u(i := t)) (prev_unit i)), op_TTL := 1 \<rparr>)) (ol(i := ts)) hp rn (wt(i := wt i + 1)) lk bg ec hc hy sc bn sn bf lm lc sd)
            else (pipe_st u ol hp rn (wt(i := wt i + 1)) lk bg ec hc hy sc bn sn bf lm lc sd)
      else (pipe_st u ol hp rn (wt(i := wt i + 1)) lk bg ec hc hy sc bn sn bf lm lc sd))"
  using assms prev_unit_mod [OF assms(2)]
  by (cases "ol i"; cases "kind (u i) = Op_Empty"; cases "lk i"; cases "kind (hd (ol i)) = Op_Push";
      cases "op_TTL (u (prev_unit i)) \<le> 1") (simp_all add: send_new_def SendOperation_lit Let_def N_UNITS_def)

lemma feed_lit:
  "wt 0 \<le> 240 \<Longrightarrow> wt (Suc 0) \<le> 240 \<Longrightarrow> wt (Suc (Suc 0)) \<le> 240 \<Longrightarrow> wt (Suc (Suc (Suc 0))) \<le> 240 \<Longrightarrow> wt (Suc (Suc (Suc (Suc 0)))) \<le> 240 \<Longrightarrow>
   feed_beggar (pipe_st u ol hp rn wt lk (- 1) ec hc hy sc bn sn bf lm lc sd) = Inr (pipe_st u ol hp rn wt lk (- 1) ec hc hy sc bn sn bf lm lc sd)"
  by (simp add: feed_beggar_def find_beggar_def unit_list S_THRESHOLD_def)

definition end_turn :: "nat \<Rightarrow> Pipeline \<Rightarrow> Pipeline" where
  "end_turn n p = (let e = (if n \<noteq> 0 then 0 else empty_count p + 1) in p\<lparr> empty_count := e, scheduled := (e < END_THRESHOLD) \<rparr>)"

lemma end_turn_lit:
  "end_turn n (pipe_st u ol hp rn wt lk bg ec hc hy sc bn sn bf lm lc sd) =
     (pipe_st u ol hp rn wt lk bg (if n \<noteq> 0 then 0 else ec + 1) hc hy sc bn sn bf lm lc ((if n \<noteq> 0 then 0 else ec + 1) < 1000000))"
  by (simp add: end_turn_def Let_def END_THRESHOLD_def)

lemma WakeUp_lit:
  "WakeUp (pipe_st u ol hp rn wt lk bg ec hc hy sc bn sn bf lm lc sd) =
     bind_cpp (each_do take_token [0, Suc 0, Suc (Suc 0), Suc (Suc (Suc 0)), (Suc (Suc (Suc (Suc 0))))]
         (if rn > 0 \<and> sn < 4 then AddPop 233 (pipe_st u ol hp rn wt lk bg ec hc hy sc bn sn bf lm lc sd)
          else (pipe_st u ol hp rn wt lk bg ec hc hy sc bn sn bf lm lc sd)))
       (\<lambda>p1. bind_cpp (feed_beggar (send_new (Suc (Suc (Suc (Suc 0)))) (send_new (Suc (Suc (Suc 0))) (send_new (Suc (Suc 0))
                (send_new (Suc 0) (send_new 0 (pass_down_ops p1)))))))
         (\<lambda>p2. Inr (end_turn (length (filter (\<lambda>i. running (u i)) [0, Suc 0, Suc (Suc 0), Suc (Suc (Suc 0)), (Suc (Suc (Suc (Suc 0))))])) p2)))"
proof -
  have r: "RPU (AddPop y p) = RPU p" for y p
    by (simp add: AddPop_def add_op_def GetListId_def Let_def split: option.split)
  show ?thesis by (simp add: WakeUp_def unit_list end_turn_def BUFFER_SIZE_def ROOT_def r Let_def)
qed

lemmas op_eval = push_op_def pop_op_def empty_op_def fresh_pop_def running_def N_UNITS_def CheckRealQueue_def prev_unit_def

lemmas pipe_eval = WakeUp_lit end_turn_lit feed_lit send_new_lit pass_down_lit pass_from_Suc take_token_lit
  AddPush_lit AddPop_lit add_op_lit

end
