(* ===== verification/Ns3_Packets.thy ===== *)
theory Ns3_Packets
  imports Ns3_Queue_Discs Ns3_Eval
begin

text \<open>What holds for every run of the two queue discs from their construction on.\<close>

section \<open>Start\<close>

definition disc_new :: "int set \<Rightarrow> 'x disc_scheme \<Rightarrow> bool" where
  "disc_new nodes d \<longleftrightarrow> disc_wf nodes d \<and> 1000 \<le> queue_cnt d \<and> queue_map d = (\<lambda>_. []) \<and> bypath_queue d = [] \<and>
     root_size d = 0 \<and> pipe d = Pipeline_init"

lemma InitializeRow_new:
  assumes "disc_new nodes d"
  shows "InitializeRow f node row d = Inr d' \<Longrightarrow> disc_new nodes d'"
    and "f (snd (snd (snd (snd row)))) \<in> nodes \<Longrightarrow> \<exists>d'. InitializeRow f node row d = Inr d'"
proof -
  obtain label src dst sz tn where row: "row = (label, src, dst, sz, tn)" by (cases row)
  show "disc_new nodes d'" if "InitializeRow f node row d = Inr d'"
    using assms that unfolding row
    by (auto simp: Let_def at_node_def bind_cpp_Inr deref_Inr disc_new_def disc_wf_def fun_eq_iff split: if_splits)
  show "\<exists>d'. InitializeRow f node row d = Inr d'" if "f (snd (snd (snd (snd row)))) \<in> nodes"
    using assms that unfolding row
    by (auto simp: Let_def at_node_def deref_def disc_new_def disc_wf_def dest!: subsetD split: option.split)
qed

lemma InitializeRows_new:
  "disc_new nodes d \<Longrightarrow> each_do (InitializeRow f node) rows d = Inr d' \<Longrightarrow> disc_new nodes d'"
proof (induction rows arbitrary: d)
  case (Cons row rows)
  obtain d1 where d1: "InitializeRow f node row d = Inr d1" "each_do (InitializeRow f node) rows d1 = Inr d'"
    using Cons.prems(2) by (auto simp only: each_do.simps bind_cpp_Inr)
  then show ?case using Cons.IH [OF InitializeRow_new(1) [OF Cons.prems(1) d1(1)]] by simp
qed simp

lemma InitializeRows_defined:
  "disc_new nodes d \<Longrightarrow> \<forall>row\<in>set rows. f (snd (snd (snd (snd row)))) \<in> nodes \<Longrightarrow> \<exists>d'. each_do (InitializeRow f node) rows d = Inr d'"
proof (induction rows arbitrary: d)
  case (Cons row rows)
  obtain d1 where d1: "InitializeRow f node row d = Inr d1" using InitializeRow_new(2) [OF Cons.prems(1), of f row] Cons.prems(2) by auto
  then show ?case using Cons.IH [OF InitializeRow_new(1) [OF Cons.prems(1) d1]] Cons.prems(2) by simp
qed simp

lemma init_measures: "tokens Pipeline_init = {#}" "roots Pipeline_init = {#}" "pops Pipeline_init = {#}" "fresh_pops 0 Pipeline_init = {#}"
  by (simp_all add: tokens_def roots_def pops_def fresh_pops_def Pipeline_init_def list_measures fresh_pop_def empty_op_def)

lemma Pipeline_init_ok: "pipe_ok Pipeline_init"
proof -
  have "placed Pipeline_init" by (simp add: placed_def Pipeline_init_def empty_op_def N_UNITS_def)
  moreover have "served_all {#} Pipeline_init" by (simp add: served_all_def list_of_def Pipeline_init_def)
  moreover have "balanced {#} {#} Pipeline_init" unfolding balanced_def init_measures by (simp add: Pipeline_init_def)
  moreover have "counted {#} {#} Pipeline_init" unfolding counted_def init_measures by (simp add: Pipeline_init_def BUFFER_SIZE_def)
  ultimately show ?thesis by (simp add: pipe_ok_def pipe_inv_def init_measures)
qed

lemma disc_new_inv: "disc_new nodes d \<Longrightarrow> disc_inv nodes d \<and> stored d l = []"
  unfolding disc_new_def disc_inv_def
  by (cases l) (simp_all add: Pipeline_init_ok init_measures, simp_all add: heaps_sorted_def Pipeline_init_def SIZE_def)

lemma vPIFO_new_new: "disc_new vPIFO_nodes vPIFO_new"
  by (simp add: disc_new_def disc_wf_def vPIFO_new_def vPIFO_nodes_def)

lemma SimplePIFO_new_new: "disc_new SimplePIFO_nodes SimplePIFO_new"
  by (simp add: disc_new_def disc_wf_def SimplePIFO_new_def SimplePIFO_nodes_def)

lemmas start_defs = vPIFO_InitializeParams_def SimplePIFO_InitializeParams_def

text \<open>The rows of the file of flows: web search tenants only.\<close>

definition web_search_rows :: "label_row list \<Rightarrow> bool" where
  "web_search_rows rows \<longleftrightarrow> list_all (\<lambda>(label, src, dst, sz, tn). 0 \<le> tn \<and> tn < 100 \<and> \<not> IsHadoop tn) rows"

lemma vPIFO_starts: "web_search_rows rows \<Longrightarrow> \<exists>d. vPIFO_InitializeParams node rows vPIFO_new = Inr d"
  unfolding start_defs by (rule InitializeRows_defined [OF vPIFO_new_new]) (auto simp: web_search_rows_def list_all_iff vPIFO_nodes_eq)

lemma SimplePIFO_starts: "web_search_rows rows \<Longrightarrow> \<exists>d. SimplePIFO_InitializeParams node rows SimplePIFO_new = Inr d"
  unfolding start_defs by (rule InitializeRows_defined [OF SimplePIFO_new_new]) (auto simp: web_search_rows_def list_all_iff SimplePIFO_nodes_eq)

lemma vPIFO_start_inv:
  "vPIFO_InitializeParams node rows vPIFO_new = Inr d \<Longrightarrow> disc_inv vPIFO_nodes d \<and> root_size d = 0 \<and> (\<forall>l. stored d l = [])"
  unfolding start_defs using InitializeRows_new [OF vPIFO_new_new] disc_new_inv by (metis disc_new_def)

lemma SimplePIFO_start_inv:
  "SimplePIFO_InitializeParams node rows SimplePIFO_new = Inr d \<Longrightarrow> disc_inv SimplePIFO_nodes d \<and> root_size d = 0 \<and> (\<forall>l. stored d l = [])"
  unfolding start_defs using InitializeRows_new [OF SimplePIFO_new_new] disc_new_inv by (metis disc_new_def)

section \<open>Runs\<close>

abbreviation in_line :: "(string \<rightharpoonup> int) \<Rightarrow> int option \<Rightarrow> item list \<Rightarrow> item list" where
  "in_line fm l its \<equiv> filter (\<lambda>it. line_of fm it = l) its"

abbreviation scheduled_items :: "item list \<Rightarrow> nat" where
  "scheduled_items its \<equiv> length (filter (\<lambda>it. tenant it \<noteq> HANDSHAKE) its)"

lemma conserves_start:
  assumes "disc_inv nodes d" and "root_size d0 = 0" and "\<forall>l. stored d0 l = []" and "conserves fm d0 outs d"
  shows "(\<forall>l. in_line fm l (accepted outs) = in_line fm l (delivered outs) @ stored d l) \<and>
    int (scheduled_items (accepted outs)) = root_size d + int (scheduled_items (delivered outs)) \<and>
    0 \<le> root_size d \<and> root_size d \<le> 341 \<and> length (buffer (pipe d)) \<le> 4"
proof -
  have p: "counted (fresh_pops 0 (pipe d)) {#} (pipe d)" "0 \<le> root_num (pipe d)" "root_size d = root_num (pipe d) + start_num (pipe d)" "root_size d \<le> SIZE"
    using assms(1) by (simp_all add: disc_inv_def pipe_ok_def pipe_inv_def balanced_def)
  then have "0 \<le> start_num (pipe d)" "int (length (buffer (pipe d))) \<le> BUFFER_SIZE" unfolding counted_def by linarith+
  with p(2-4) have "0 \<le> root_size d" "root_size d \<le> 341" "length (buffer (pipe d)) \<le> 4" by (simp_all add: SIZE_def BUFFER_SIZE_def)
  with assms(2-4) show ?thesis by (simp add: conserves_def)
qed

section \<open>A run\<close>

text \<open>A packet of Hadoop, one of web search and one of a handshake on the same route.\<close>

definition hadoop_item :: item where
  "hadoop_item = \<lparr>tenant = 37, packet_size = 1500, src_addr = 5, src_port = 7\<rparr>"

definition web_item :: item where
  "web_item = \<lparr>tenant = 31, packet_size = 1500, src_addr = 5, src_port = 7\<rparr>"

definition syn_item :: item where
  "syn_item = \<lparr>tenant = 10233, packet_size = 40, src_addr = 5, src_port = 7\<rparr>"

lemmas items = hadoop_item_def web_item_def syn_item_def

definition flow_rows :: "label_row list" where
  "flow_rows = [(''57'', 1, 2, 30, 31)]"

definition started :: disc where
  "started = vPIFO_new\<lparr> queue_cnt := 1001, flow_map := [''57'' \<mapsto> 1001], sch_tree := vPIFO_tree(131 \<mapsto> Sched_pFabric [1001 \<mapsto> 30]) \<rparr>"

lemma fold_new_at: "fold (\<lambda>i m. if P i then m else m(i \<mapsto> c)) xs m0 k = (if k \<in> set xs \<and> \<not> P k then Some c else m0 k)"
  by (induction xs arbitrary: m0) auto

lemma vPIFO_tree_at:
  "vPIFO_tree 233 = Some SP_new" "vPIFO_tree 3 = Some SP_new" "vPIFO_tree 16 = Some (WFQ_new 4)" "vPIFO_tree 17 = Some (WFQ_new 6)"
  "vPIFO_tree 131 = Some pFabric_new"
  unfolding vPIFO_tree_def fold_new_at set_upto by (simp_all add: upto_rec1 ROOT_def IsHadoop_def signed_modulo_int_def signed_divide_int_def)

lemma flow_rows_ok: "web_search_rows flow_rows"
  by code_simp

lemma labels: "GetFlowLabel hadoop_item = ''57''" "GetFlowLabel web_item = ''57''" "GetFlowLabel syn_item = ''57''"
  by code_simp+

lemma tenants: "IsHadoop 37" "\<not> IsHadoop 31" "37 sdiv 10 = (3::int)" "31 sdiv 10 = (3::int)"
  by code_simp+

lemma vPIFO_started: "vPIFO_InitializeParams 200 flow_rows vPIFO_new = Inr started"
  by (simp add: vPIFO_InitializeParams_def flow_rows_def at_node_def deref_def vPIFO_new_def vPIFO_tree_at pFabric_new_def started_def Let_def fun_eq_iff)

definition one_in :: disc where
  "one_in = started\<lparr> root_size := 1, queue_map := (\<lambda>_. [])(137 := [hadoop_item]),
     sch_tree := vPIFO_tree(131 \<mapsto> Sched_pFabric [1001 \<mapsto> 30], 233 \<mapsto> Sched_SP, 3 \<mapsto> Sched_SP, 17 \<mapsto> Sched_WFQ 6 0 [137 \<mapsto> 9000]),
     pipe := AddPush 17 9000 137 (AddPush 3 7 17 (AddPush 233 3 3 Pipeline_init)) \<rparr>"

definition two_in :: disc where
  "two_in = one_in\<lparr> root_size := 2, queue_map := (\<lambda>_. [])(137 := [hadoop_item], 1001 := [web_item]),
     sch_tree := vPIFO_tree(17 \<mapsto> Sched_WFQ 6 0 [137 \<mapsto> 9000], 233 \<mapsto> Sched_SP, 3 \<mapsto> Sched_SP,
       16 \<mapsto> Sched_WFQ 4 0 [131 \<mapsto> 6000], 131 \<mapsto> Sched_pFabric [1001 \<mapsto> 30]),
     pipe := AddPush 131 30 1001 (AddPush 16 6000 131 (AddPush 3 6 16 (AddPush 233 3 3
       (AddPush 17 9000 137 (AddPush 3 7 17 (AddPush 233 3 3 Pipeline_init)))))) \<rparr>"

lemmas disc_eval = HANDSHAKE_def SIZE_def tenants at_node_def deref_def push_at_def store_packet_def flow_id_of_def map_at_def
  ROOT_def vPIFO_tree_at SP_new_def WFQ_new_def tell_def

lemma vPIFO_enqueued:
  "vPIFO_DoEnqueue hadoop_item started = Inr (True, one_in)" "vPIFO_DoEnqueue web_item one_in = Inr (True, two_in)"
  "vPIFO_DoEnqueue syn_item two_in = Inr (True, two_in\<lparr> bypath_queue := [syn_item] \<rparr>)"
  by (simp_all add: vPIFO_DoEnqueue_def two_in_def one_in_def started_def vPIFO_new_def labels [unfolded items] items disc_eval Let_def fun_upd_twist)

lemma turns_numeral: "turns (numeral k) p = bind_cpp (WakeUp p) (turns (pred_numeral k))"
  by (simp add: numeral_eq_Suc)

lemma two_in_turns: "\<exists>q. turns 24 (pipe two_in) = Inr q \<and> buffer_num q = 2 \<and> buffer q = [137, 1001]"
  unfolding two_in_def Pipeline_init_def by (simp add: turns_numeral pipe_eval op_eval)

text \<open>Several turns in a run.\<close>

lemma run_turns:
  "disc_run enq deq (replicate n Ev_Turn @ evs) d =
   bind_cpp (turns n (pipe d)) (\<lambda>p. bind_cpp (disc_run enq deq evs (d\<lparr> pipe := p \<rparr>)) (\<lambda>(outs, d'). Inr (replicate n Turned @ outs, d')))"
proof (induction n arbitrary: d)
  case 0
  then show ?case by (cases "disc_run enq deq evs d") auto
next
  case (Suc n)
  show ?case
  proof (cases "WakeUp (pipe d)")
    case (Inr p)
    then show ?thesis using Suc.IH [of "d\<lparr> pipe := p \<rparr>"]
      by (cases "turns n p"; cases "disc_run enq deq evs (d\<lparr> pipe := the (case turns n p of Inr q \<Rightarrow> Some q | _ \<Rightarrow> None) \<rparr>)") (auto simp: disc_turn_def)
  qed (simp add: disc_turn_def)
qed

definition three_events :: "disc_event list" where
  "three_events = [Ev_Enqueue hadoop_item, Ev_Enqueue web_item, Ev_Enqueue syn_item] @ replicate 24 Ev_Turn @ [Ev_Dequeue, Ev_Dequeue, Ev_Dequeue]"

lemma three_admissible: "\<forall>ev\<in>set three_events. admissible_event (flow_map started) ev"
  by (auto simp: three_events_def admissible_def items HANDSHAKE_def tenants started_def labels [unfolded items])

lemma three_run:
  "\<exists>d. disc_run vPIFO_DoEnqueue vPIFO_DoDequeue three_events started =
     Inr ([Accepted hadoop_item, Accepted web_item, Accepted syn_item] @ replicate 24 Turned @
       [Delivered syn_item, Delivered hadoop_item, Delivered web_item], d)"
proof -
  obtain q where q: "turns 24 (pipe two_in) = Inr q" "buffer_num q = 2" "buffer q = [137, 1001]" using two_in_turns by blast
  let ?d = "two_in\<lparr> bypath_queue := [syn_item], pipe := q \<rparr>"
  have "\<exists>d. disc_run vPIFO_DoEnqueue vPIFO_DoDequeue [Ev_Dequeue, Ev_Dequeue, Ev_Dequeue] ?d =
      Inr ([Delivered syn_item, Delivered hadoop_item, Delivered web_item], d)"
    by (simp add: vPIFO_DoDequeue_def take_packet_def vPIFO_notify_def GetToken_def q disc_eval two_in_def items)
  with q(1) show ?thesis unfolding three_events_def by (auto simp: vPIFO_enqueued run_turns)
qed

lemma one_in_turns: "\<exists>q. turns 2 (pipe one_in) = Inr q \<and> RPU q 0 = pop_op 233 \<and> heap q 233 = [(- 3, 3)]"
  unfolding one_in_def Pipeline_init_def by (simp add: turns_numeral pipe_eval op_eval)

lemma one_run:
  "\<exists>d. disc_run vPIFO_DoEnqueue vPIFO_DoDequeue (Ev_Enqueue hadoop_item # replicate 2 Ev_Turn @ []) started =
     Inr (Accepted hadoop_item # replicate 2 Turned @ [], d) \<and> RPU (pipe d) 0 = pop_op 233 \<and> heap (pipe d) 233 = [(- 3, 3)]"
proof -
  obtain q where q: "turns 2 (pipe one_in) = Inr q" "RPU q 0 = pop_op 233" "heap q 233 = [(- 3, 3)]" using one_in_turns by blast
  then have "disc_run vPIFO_DoEnqueue vPIFO_DoDequeue (Ev_Enqueue hadoop_item # replicate 2 Ev_Turn @ []) started =
      Inr (Accepted hadoop_item # replicate 2 Turned @ [], one_in\<lparr> pipe := q \<rparr>)"
    unfolding disc_run.simps(2) run_turns by (simp add: vPIFO_enqueued)
  with q(2,3) show ?thesis by simp
qed

text \<open>The other disc on a server that no announced flow starts or ends at.\<close>

definition simple_in :: simple_disc where
  "simple_in = SimplePIFO_new\<lparr> root_size := 1, queue_map := (\<lambda>_. [])(137 := [hadoop_item]), arrival_time := - (10 ^ 16) + 1,
     pipe := AddPush 233 (- (10 ^ 16) + 1) 137 Pipeline_init \<rparr>"

lemma SimplePIFO_started: "SimplePIFO_InitializeParams 5 flow_rows SimplePIFO_new = Inr SimplePIFO_new"
  by (simp add: SimplePIFO_InitializeParams_def flow_rows_def)

lemma SimplePIFO_enqueued: "SimplePIFO_DoEnqueue hadoop_item SimplePIFO_new = Inr (True, simple_in)"
  by (simp add: SimplePIFO_DoEnqueue_def simple_in_def SimplePIFO_new_def items disc_eval Let_def)

lemma simple_turns:
  "\<exists>q. turns 3 (pipe simple_in) = Inr q \<and> buffer_num q = 1 \<and> buffer q = [137] \<and> root_num q = 0 \<and> beggar q = - 1 \<and>
    (\<forall>i<N_UNITS. operation_list q i = [] \<and> \<not> fresh_pop (RPU q i) \<and> op_TTL (RPU q i) \<le> int N_UNITS \<and> wait_time q i \<le> 3) \<and>
    wait_time q 0 = 3"
  unfolding simple_in_def Pipeline_init_def
  by (simp add: turns_numeral pipe_eval op_eval all_units)

definition simple_events :: "disc_event list" where
  "simple_events = Ev_Enqueue hadoop_item # replicate 3 Ev_Turn @ [Ev_Dequeue]"

lemma simple_run:
  "\<exists>d. disc_run SimplePIFO_DoEnqueue SimplePIFO_DoDequeue simple_events SimplePIFO_new =
     Inr (Accepted hadoop_item # replicate 3 Turned @ [Delivered hadoop_item], d)"
proof -
  obtain q where q: "turns 3 (pipe simple_in) = Inr q" "buffer_num q = 1" "buffer q = [137]" using simple_turns by blast
  have "\<exists>d. disc_run SimplePIFO_DoEnqueue SimplePIFO_DoDequeue [Ev_Dequeue] (simple_in\<lparr> pipe := q \<rparr>) = Inr ([Delivered hadoop_item], d)"
    by (simp add: SimplePIFO_DoDequeue_def take_packet_def SimplePIFO_notify_def GetToken_def q disc_eval simple_in_def SimplePIFO_new_def items)
  with q(1) show ?thesis unfolding simple_events_def disc_run.simps(2) run_turns by (auto simp: SimplePIFO_enqueued)
qed

section \<open>Properties\<close>

text \<open>C8. From its construction on, in whatever order packets of the experiments are enqueued, dequeued and the
  pipeline takes its turns, vPIFO neither loses nor doubles a packet, and delivers those of a tenant or flow in
  the order they were accepted; \<open>root_size\<close> counts the packets inside, at most 341, of which at most 4 are in
  the buffer of the pipeline.\<close>

theorem vPIFO_conserves:
  assumes "vPIFO_InitializeParams node rows vPIFO_new = Inr d0"
    and "\<forall>ev\<in>set evs. admissible_event (flow_map d0) ev"
    and "disc_run vPIFO_DoEnqueue vPIFO_DoDequeue evs d0 = Inr (outs, d)"
  shows "(\<forall>l. in_line (flow_map d0) l (accepted outs) = in_line (flow_map d0) l (delivered outs) @ stored d l) \<and>
    int (scheduled_items (accepted outs)) = root_size d + int (scheduled_items (delivered outs)) \<and>
    0 \<le> root_size d \<and> root_size d \<le> 341 \<and> length (buffer (pipe d)) \<le> 4"
  using conserves_start vPIFO_start_inv [OF assms(1)] vpifo.run_inv [OF _ assms(2,3)] by blast

theorem vPIFO_conserves_witness:
  "\<exists>outs d. vPIFO_InitializeParams 200 flow_rows vPIFO_new = Inr started \<and>
     disc_run vPIFO_DoEnqueue vPIFO_DoDequeue three_events started = Inr (outs, d) \<and>
     accepted outs = [hadoop_item, web_item, syn_item] \<and> delivered outs = [syn_item, hadoop_item, web_item] \<and>
     (\<forall>l. in_line (flow_map started) l (accepted outs) = in_line (flow_map started) l (delivered outs) @ stored d l) \<and> root_size d = 0"
proof -
  obtain d where d: "disc_run vPIFO_DoEnqueue vPIFO_DoDequeue three_events started =
      Inr ([Accepted hadoop_item, Accepted web_item, Accepted syn_item] @ replicate 24 Turned @
        [Delivered syn_item, Delivered hadoop_item, Delivered web_item], d)" (is "_ = Inr (?outs, d)")
    using three_run by blast
  have o: "accepted ?outs = [hadoop_item, web_item, syn_item]" "delivered ?outs = [syn_item, hadoop_item, web_item]"
    by (simp_all add: numeral_eq_Suc)
  have p: "\<forall>l. in_line (flow_map started) l (accepted ?outs) = in_line (flow_map started) l (delivered ?outs) @ stored d l"
    "int (scheduled_items (accepted ?outs)) = root_size d + int (scheduled_items (delivered ?outs))"
    using vPIFO_conserves [OF vPIFO_started three_admissible d] by blast+
  then have "root_size d = 0" unfolding o by (simp add: items HANDSHAKE_def)
  with vPIFO_started d o p(1) show ?thesis by blast
qed

text \<open>C21. SimplePIFO, the disc with the root alone, conserves the packets in the same way.\<close>

theorem SimplePIFO_conserves:
  assumes "SimplePIFO_InitializeParams node rows SimplePIFO_new = Inr d0"
    and "\<forall>ev\<in>set evs. admissible_event (flow_map d0) ev"
    and "disc_run SimplePIFO_DoEnqueue SimplePIFO_DoDequeue evs d0 = Inr (outs, d)"
  shows "(\<forall>l. in_line (flow_map d0) l (accepted outs) = in_line (flow_map d0) l (delivered outs) @ stored d l) \<and>
    int (scheduled_items (accepted outs)) = root_size d + int (scheduled_items (delivered outs)) \<and>
    0 \<le> root_size d \<and> root_size d \<le> 341 \<and> length (buffer (pipe d)) \<le> 4"
  using conserves_start SimplePIFO_start_inv [OF assms(1)] simple.run_inv [OF _ assms(2,3)] by blast

theorem SimplePIFO_conserves_witness:
  "\<exists>outs d. SimplePIFO_InitializeParams 5 flow_rows SimplePIFO_new = Inr SimplePIFO_new \<and>
     disc_run SimplePIFO_DoEnqueue SimplePIFO_DoDequeue simple_events SimplePIFO_new = Inr (outs, d) \<and>
     accepted outs = [hadoop_item] \<and> delivered outs = [hadoop_item] \<and>
     (\<forall>l. in_line Map.empty l (accepted outs) = in_line Map.empty l (delivered outs) @ stored d l)"
proof -
  obtain d where d: "disc_run SimplePIFO_DoEnqueue SimplePIFO_DoDequeue simple_events SimplePIFO_new =
      Inr (Accepted hadoop_item # replicate 3 Turned @ [Delivered hadoop_item], d)" (is "_ = Inr (?outs, d)") using simple_run by blast
  have fm: "flow_map SimplePIFO_new = Map.empty" by (simp add: SimplePIFO_new_def)
  have "\<forall>ev\<in>set simple_events. admissible_event (flow_map SimplePIFO_new) ev"
    by (auto simp: simple_events_def admissible_def items tenants)
  from SimplePIFO_conserves [OF SimplePIFO_started this d]
  have "\<forall>l. in_line Map.empty l (accepted ?outs) = in_line Map.empty l (delivered ?outs) @ stored d l" unfolding fm by blast
  moreover have "accepted ?outs = [hadoop_item]" "delivered ?outs = [hadoop_item]" by (simp_all add: numeral_eq_Suc)
  ultimately show ?thesis using SimplePIFO_started d by blast
qed

text \<open>C9. On a file of web search flows vPIFO starts, and in every state it reaches, enqueuing a packet of the
  experiments and dequeuing are defined: no node of the scheduling tree is missing and no queue is empty when
  a packet is taken from it. In a turn no pop ever meets an empty heap: the turn is defined, unless the
  anti-starvation step picks the first list or one that is empty.\<close>

theorem vPIFO_safe:
  assumes "web_search_rows rows"
  shows "\<exists>d0. vPIFO_InitializeParams node rows vPIFO_new = Inr d0 \<and>
    (\<forall>evs outs d it. (\<forall>ev\<in>set evs. admissible_event (flow_map d0) ev) \<and> admissible (flow_map d0) it \<and>
       disc_run vPIFO_DoEnqueue vPIFO_DoDequeue evs d0 = Inr (outs, d) \<longrightarrow>
       (\<exists>r. vPIFO_DoEnqueue it d = Inr r) \<and> (\<exists>r. vPIFO_DoDequeue d = Inr r) \<and>
       (\<exists>q. before_feeding (pipe d) = Inr q \<and>
         (\<forall>e. WakeUp (pipe d) = Inl e \<longleftrightarrow> e = Undefined \<and> beggar (find_beggar q) \<noteq> - 1 \<and>
            (beggar (find_beggar q) = 0 \<or> operation_list q (nat (beggar (find_beggar q))) = []))))"
proof -
  obtain d0 where d0: "vPIFO_InitializeParams node rows vPIFO_new = Inr d0" using vPIFO_starts [OF assms] by blast
  have "(\<exists>r. vPIFO_DoEnqueue it d = Inr r) \<and> (\<exists>r. vPIFO_DoDequeue d = Inr r) \<and>
      (\<exists>q. before_feeding (pipe d) = Inr q \<and>
        (\<forall>e. WakeUp (pipe d) = Inl e \<longleftrightarrow> e = Undefined \<and> beggar (find_beggar q) \<noteq> - 1 \<and>
           (beggar (find_beggar q) = 0 \<or> operation_list q (nat (beggar (find_beggar q))) = [])))"
    if run: "\<forall>ev\<in>set evs. admissible_event (flow_map d0) ev" "admissible (flow_map d0) it"
      "disc_run vPIFO_DoEnqueue vPIFO_DoDequeue evs d0 = Inr (outs, d)" for evs outs d it
  proof -
    have i: "disc_inv vPIFO_nodes d" "flow_map d = flow_map d0"
      using vpifo.run_inv [OF _ run(1,3)] vPIFO_start_inv [OF d0] by blast+
    then have p: "pipe_ok (pipe d)" by (simp add: disc_inv_def)
    obtain q where q: "before_feeding (pipe d) = Inr q" using vpifo.run_defined(3) [OF i(1)] by blast
    have "\<exists>r. vPIFO_DoEnqueue it d = Inr r" using vpifo.run_defined(1) [OF i(1)] run(2) i(2) by simp
    with vpifo.run_defined(2) [OF i(1)] q WakeUp_fails [OF p q] show ?thesis by blast
  qed
  with d0 show ?thesis by blast
qed

theorem vPIFO_safe_witness:
  "web_search_rows flow_rows \<and> (\<exists>outs d q. disc_run vPIFO_DoEnqueue vPIFO_DoDequeue three_events started = Inr (outs, d) \<and>
     (\<exists>r. vPIFO_DoEnqueue web_item d = Inr r) \<and> (\<exists>r. vPIFO_DoDequeue d = Inr r) \<and> before_feeding (pipe d) = Inr q)"
proof -
  have adm: "admissible (flow_map started) web_item"
    by (simp add: admissible_def labels started_def tenants) (simp add: items)
  obtain outs d where d: "disc_run vPIFO_DoEnqueue vPIFO_DoDequeue three_events started = Inr (outs, d)" using three_run by blast
  have "(\<exists>r. vPIFO_DoEnqueue web_item d = Inr r) \<and> (\<exists>r. vPIFO_DoDequeue d = Inr r) \<and> (\<exists>q. before_feeding (pipe d) = Inr q)"
    using vPIFO_safe [OF flow_rows_ok, of 200] three_admissible adm d unfolding vPIFO_started by blast
  with d flow_rows_ok show ?thesis by blast
qed

text \<open>C20. In every state vPIFO reaches, a pop that is due takes from its heap the token of the smallest rank, the
  largest of these tokens when there are several; a token of a real queue goes to the end of the buffer, any
  other token is popped next.\<close>

theorem vPIFO_pops_least:
  assumes "vPIFO_InitializeParams node rows vPIFO_new = Inr d0"
    and "\<forall>ev\<in>set evs. admissible_event (flow_map d0) ev"
    and "disc_run vPIFO_DoEnqueue vPIFO_DoDequeue evs d0 = Inr (outs, d)"
    and "i < N_UNITS" and "fresh_pop (RPU (pipe d) i)"
  shows "\<exists>rk x h q. heap (pipe d) (op_root (RPU (pipe d) i)) = (- rk, x) # h \<and>
    (\<forall>(s, z)\<in>set h. rk < - s \<or> rk = - s \<and> z \<le> x) \<and> take_token i (pipe d) = Inr q \<and>
    heap q = (heap (pipe d))(op_root (RPU (pipe d) i) := h) \<and>
    (if CheckRealQueue x then buffer q = buffer (pipe d) @ [x]
     else buffer q = buffer (pipe d) \<and> x \<in># pops q)"
proof -
  let ?p = "pipe d" and ?y = "op_root (RPU (pipe d) i)"
  have i: "disc_inv vPIFO_nodes d" using vpifo.run_inv [OF _ assms(2,3)] vPIFO_start_inv [OF assms(1)] by blast
  then have ok: "pipe_ok ?p" "heaps_sorted ?p" by (simp_all add: disc_inv_def)
  then have pl: "placed ?p" "served_all (fresh_pops 0 ?p) ?p" by (simp_all add: pipe_ok_def pipe_inv_def)
  have "?y \<in># fresh_pops 0 ?p" using assms(4,5) by (auto simp: fresh_pops_def set_mset_sum)
  then have "0 < length (heap ?p ?y)" using pl(2) unfolding served_all_def by (metis count_greater_zero_iff less_le_trans)
  then obtain r x h where h: "heap ?p ?y = (r, x) # h" by (cases "heap ?p ?y") auto
  then have srt: "\<forall>(s, z)\<in>set h. s < r \<or> s = r \<and> z \<le> x"
    using ok(2) unfolding heaps_sorted_def by (metis (mono_tags, lifting) case_prodI2 pair_le.simps sorted_wrt.simps(2))
  let ?p1 = "?p\<lparr> heap := (heap ?p)(?y := h) \<rparr>"
  let ?q = "if CheckRealQueue x then ?p1\<lparr> buffer_num := buffer_num ?p1 + 1, buffer := buffer ?p1 @ [x] \<rparr> else AddPop x ?p1"
  have t: "take_token i ?p = Inr ?q" using assms(5) h by (simp add: take_token_def Let_def)
  have y: "?y \<in> {0..<T_TREES}" using pl(1) h unfolding placed_def by fastforce
  have "buffer ?q = buffer ?p \<and> x \<in># pops ?q" if "\<not> CheckRealQueue x"
  proof -
    let ?p2 = "if x = ROOT then ?p1\<lparr> root_num := root_num ?p1 - 1, start_num := start_num ?p1 + 1 \<rparr> else ?p1"
    have "placed ?p2" using pl(1) y by (simp add: placed_def)
    from add_op_listed [OF this, of x "pop_op x"] listed_measures(3) [OF this, of x "pop_op x"] that
    show ?thesis by (simp add: AddPop_def listed_def pop_op_def cong: if_cong)
  qed
  moreover have "heap ?q = (heap ?p)(?y := h)" by simp
  ultimately show ?thesis using h t srt by (intro exI [of _ "- r"] exI [of _ x] exI [of _ h] exI [of _ ?q]) auto
qed

theorem vPIFO_pops_least_witness:
  "\<exists>outs d q. disc_run vPIFO_DoEnqueue vPIFO_DoDequeue (Ev_Enqueue hadoop_item # replicate 2 Ev_Turn @ []) started = Inr (outs, d) \<and>
     heap (pipe d) 233 = [(- 3, 3)] \<and> take_token 0 (pipe d) = Inr q \<and> heap q 233 = [] \<and> 3 \<in># pops q"
proof -
  obtain d where d: "disc_run vPIFO_DoEnqueue vPIFO_DoDequeue (Ev_Enqueue hadoop_item # replicate 2 Ev_Turn @ []) started =
      Inr (Accepted hadoop_item # replicate 2 Turned @ [], d)" "RPU (pipe d) 0 = pop_op 233" "heap (pipe d) 233 = [(- 3, 3)]"
    using one_run by blast
  have a: "\<forall>ev\<in>set (Ev_Enqueue hadoop_item # replicate 2 Ev_Turn @ []). admissible_event (flow_map started) ev"
    by (auto simp: admissible_def items tenants)
  have f: "0 < N_UNITS" "fresh_pop (RPU (pipe d) 0)" "op_root (RPU (pipe d) 0) = 233" "\<not> CheckRealQueue 3"
    by (simp_all add: d(2) pop_op_def fresh_pop_def N_UNITS_def CheckRealQueue_def)
  from vPIFO_pops_least [OF vPIFO_started a d(1) f(1,2)] d(3) f(3,4)
  have "\<exists>q. take_token 0 (pipe d) = Inr q \<and> heap q 233 = [] \<and> 3 \<in># pops q" by auto
  with d show ?thesis by blast
qed



end
