(* ===== verification/SRAM_Layout.thy ===== *)
theory SRAM_Layout
  imports Py_Prelude "HOL-Library.Multiset"
begin

text \<open>
  \<open>gen_SRAM_layout/gen_SRAM_layout.py\<close>: the data placement scheme. Every PIFO tree with
  \<open>l\<close> levels needs \<open>l\<close> blocks, level \<open>i\<close> one of \<open>DEGREE ^ i\<close> cells; level \<open>i\<close> of tree \<open>t\<close>
  goes to SRAM \<open>(t + i) mod SRAM_NUM\<close>, behind the blocks placed there before. The script
  writes the placement as a readable table and as the memory image of the address table.

  Console output is not modelled, and \<open>PrettyTable\<close> is a parameter \<open>render\<close> that turns the
  column names and the rows into text. \<open>math.ceil(math.log2(x))\<close> is the exact ceiling of
  the logarithm; the floating-point result agrees with it for arguments below \<open>2 ^ 46\<close>, far
  above any memory size.
\<close>

section \<open>Library functions the script calls\<close>

definition py_mod :: "int \<Rightarrow> int \<Rightarrow> int py" where
  "py_mod a b = (if b = 0 then Inl ZeroDivisionError else Inr (a mod b))"

definition py_getitem :: "'a list \<Rightarrow> int \<Rightarrow> 'a py" where
  "py_getitem xs i =
     (let j = (if i < 0 then int (length xs) + i else i)
      in if 0 \<le> j \<and> j < int (length xs) then Inr (xs ! nat j) else Inl IndexError)"

fun py_max :: "int list \<Rightarrow> int py" where
  "py_max [] = Inl ValueError"
| "py_max (x # xs) = Inr (foldl max x xs)"

fun ceil_log2 :: "nat \<Rightarrow> nat" where
  "ceil_log2 n = (if n \<le> 1 then 0 else Suc (ceil_log2 ((n + 1) div 2)))"

declare ceil_log2.simps [simp del]

definition math_ceil_log2 :: "int \<Rightarrow> nat py" where
  "math_ceil_log2 x = (if x \<le> 0 then Inl ValueError else Inr (ceil_log2 (nat x)))"

text \<open>\<open>os.path.split\<close>, \<open>os.path.splitext\<close> and \<open>os.path.join\<close> on POSIX paths.\<close>

definition slash :: char where "slash = CHR ''/''"

definition path_split :: "string \<Rightarrow> string \<times> string" where
  "path_split p =
     (let tail = rev (takeWhile (\<lambda>c. c \<noteq> slash) (rev p));
          head = take (length p - length tail) p
      in (if list_all (\<lambda>c. c = slash) head then head
          else rev (dropWhile (\<lambda>c. c = slash) (rev head)), tail))"

text \<open>The last dot splits off the extension of a file name, unless only dots stand before
  it. The argument is a name without a slash.\<close>

definition path_splitext :: "string \<Rightarrow> string \<times> string" where
  "path_splitext name =
     (let ext = rev (takeWhile (\<lambda>c. c \<noteq> CHR ''.'') (rev name));
          base = take (length name - Suc (length ext)) name
      in if CHR ''.'' \<in> set name \<and> list_ex (\<lambda>c. c \<noteq> CHR ''.'') base
         then (base, CHR ''.'' # ext) else (name, []))"

definition path_join :: "string \<Rightarrow> string \<Rightarrow> string" where
  "path_join a b =
     (if starts_with [slash] b then b
      else if a = [] \<or> last a = slash then a @ b
      else a @ [slash] @ b)"

section \<open>The script\<close>

definition DEGREE :: int where "DEGREE = 2"

text \<open>One line \<open>tree_id: t, level: l\<close>.\<close>

definition field_value :: "string \<Rightarrow> int py" where
  "field_value part = bind_py (py_index (py_split_on part CHR '':'' '' '') 1) py_int"

definition parse_line :: "string \<Rightarrow> (int \<times> int) py" where
  "parse_line line =
     (let parts = py_split_on line CHR '','' '' ''
      in bind_py (bind_py (py_index parts 0) field_value) (\<lambda>tree_id.
         bind_py (bind_py (py_index parts 1) field_value) (\<lambda>level.
         Inr (tree_id, level))))"

definition parse_tree_data :: "string \<Rightarrow> (int \<times> int) list py" where
  "parse_tree_data content =
     map_py parse_line (filter (\<lambda>line. py_strip line \<noteq> []) (py_split_on content newline []))"

record layout =
  start_addr :: "int list"
  start_addr_dict :: "((int \<times> int) \<times> (int \<times> int)) list"

text \<open>The inner loop over the levels of one tree: \<open>k\<close> levels remain, the next is \<open>i\<close>.\<close>

fun place_levels :: "int \<Rightarrow> int \<Rightarrow> nat \<Rightarrow> nat \<Rightarrow> int \<Rightarrow> layout \<Rightarrow> layout py" where
  "place_levels SRAM_NUM tree_id i 0 cur_level_size st = Inr st"
| "place_levels SRAM_NUM tree_id i (Suc k) cur_level_size st =
     bind_py (py_mod (tree_id + int i) SRAM_NUM) (\<lambda>SRAM_id.
     bind_py (py_getitem (start_addr st) SRAM_id) (\<lambda>a.
     place_levels SRAM_NUM tree_id (Suc i) k (cur_level_size * DEGREE)
       (st\<lparr> start_addr := (start_addr st)[nat SRAM_id := a + cur_level_size],
            start_addr_dict := dict_set (start_addr_dict st) (tree_id, int i) (SRAM_id, a) \<rparr>)))"

fun place_trees :: "int \<Rightarrow> (int \<times> int) list \<Rightarrow> layout \<Rightarrow> layout py" where
  "place_trees SRAM_NUM [] st = Inr st"
| "place_trees SRAM_NUM ((tree_id, level) # trees) st =
     bind_py (place_levels SRAM_NUM tree_id 0 (nat level) 1 st) (place_trees SRAM_NUM trees)"

definition empty_layout :: "int \<Rightarrow> layout" where
  "empty_layout SRAM_NUM = \<lparr>start_addr = replicate (nat SRAM_NUM) 0, start_addr_dict = []\<rparr>"

definition compute_layout :: "int \<Rightarrow> (int \<times> int) list \<Rightarrow> layout py" where
  "compute_layout SRAM_NUM tree_data =
     place_trees SRAM_NUM (sort_key fst tree_data) (empty_layout SRAM_NUM)"

text \<open>The widths of the four fields.\<close>

record widths =
  SRAM_addr_bits :: nat
  level_bits :: nat
  tree_id_bits :: nat
  SRAM_id_bits :: nat

definition compute_widths :: "int \<Rightarrow> int \<Rightarrow> int \<Rightarrow> layout \<Rightarrow> widths py" where
  "compute_widths SRAM_NUM max_tree_id max_level st =
     bind_py (py_max (start_addr st)) (\<lambda>max_SRAM_addr.
     bind_py (math_ceil_log2 max_SRAM_addr) (\<lambda>addr_bits.
     bind_py (math_ceil_log2 max_level) (\<lambda>lv_bits.
     bind_py (math_ceil_log2 (max_tree_id + 1)) (\<lambda>tid_bits.
     bind_py (math_ceil_log2 SRAM_NUM) (\<lambda>id_bits.
     Inr \<lparr>SRAM_addr_bits = addr_bits, level_bits = lv_bits, tree_id_bits = tid_bits,
          SRAM_id_bits = id_bits\<rparr>)))))"

text \<open>One row of the address table; a pair that is not placed is written as all ones.\<close>

definition mem_row :: "widths \<Rightarrow> layout \<Rightarrow> int \<times> int \<Rightarrow> string" where
  "mem_row w st key =
     (case dict_get (start_addr_dict st) key of
        Some (SRAM_id, start_address) \<Rightarrow>
          format_bin (SRAM_id_bits w) SRAM_id @ format_bin (SRAM_addr_bits w) start_address
      | None \<Rightarrow>
          format_bin (SRAM_id_bits w) (2 ^ SRAM_id_bits w - 1) @
          format_bin (SRAM_addr_bits w) (2 ^ SRAM_addr_bits w - 1))"

definition mem_rows :: "widths \<Rightarrow> layout \<Rightarrow> string list" where
  "mem_rows w st =
     concat (map (\<lambda>tree_id. map (\<lambda>level. mem_row w st (int tree_id, int level)) [0..<2 ^ level_bits w])
       [0..<2 ^ tree_id_bits w])"

definition table_rows :: "layout \<Rightarrow> int list list" where
  "table_rows st =
     map (\<lambda>((tree_id, i), (SRAM_id, start_address)). [tree_id, i, SRAM_id, start_address])
       (start_addr_dict st)"

definition output_paths :: "string \<Rightarrow> string \<times> string" where
  "output_paths file_path =
     (let (base_path, file_name) = path_split file_path;
          (stem, ext) = path_splitext file_name
      in (path_join base_path (stem @ ''.tb''), path_join base_path (stem @ ''.mem'')))"

definition gen_SRAM_layout ::
  "(string list \<Rightarrow> int list list \<Rightarrow> string) \<Rightarrow> string \<Rightarrow> string \<Rightarrow> files \<Rightarrow> run" where
  "gen_SRAM_layout render file_path answer fs =
     (let (tb_path, mem_path) = output_paths file_path
      in case
          bind_py (read_file fs file_path) (\<lambda>content.
          bind_py (parse_tree_data content) (\<lambda>tree_data.
          bind_py (py_max (map fst tree_data)) (\<lambda>max_tree_id.
          bind_py (py_max (map snd tree_data)) (\<lambda>max_level.
          bind_py (py_int answer) (\<lambda>SRAM_NUM.
          bind_py (compute_layout SRAM_NUM tree_data) (\<lambda>st.
          bind_py (compute_widths SRAM_NUM max_tree_id max_level st) (\<lambda>w.
          Inr (st, w))))))))
         of Inl e \<Rightarrow> (fs, Some e)
          | Inr (st, w) \<Rightarrow>
              (fs(tb_path \<mapsto> render [''tree_id'', ''level'', ''SRAM_id'', ''start_address''] (table_rows st) @ [newline],
                  mem_path \<mapsto> unlines (mem_rows w st)), None))"

section \<open>The layout as a sequence of block requests\<close>

text \<open>
  An abstract placement: a request asks for a block of \<open>n\<close> cells in a bank, and gets the
  cells from the bank's current top on. The laws of such an allocator are the interface;
  its client lemmas say where the blocks lie and that they never overlap.
\<close>

fun block_starts :: "('s \<Rightarrow> int \<Rightarrow> int) \<Rightarrow> ('s \<Rightarrow> int \<Rightarrow> int \<Rightarrow> 's) \<Rightarrow> 's \<Rightarrow> (int \<times> int) list \<Rightarrow> int list" where
  "block_starts bank_top bump s [] = []"
| "block_starts bank_top bump s ((b, n) # rs) = bank_top s b # block_starts bank_top bump (bump s b n) rs"

definition bank_load :: "(int \<times> int) list \<Rightarrow> int \<Rightarrow> int" where
  "bank_load rs b = sum_list (map snd (filter (\<lambda>r. fst r = b) rs))"

lemma bank_load_simps [simp]:
  "bank_load [] b = 0"
  "bank_load ((b', n) # rs) b = (if b' = b then n else 0) + bank_load rs b"
  "bank_load (rs @ qs) b = bank_load rs b + bank_load qs b"
  by (simp_all add: bank_load_def)

lemma take_nth_split:
  assumes "p < q" "q \<le> length xs"
  shows "take q xs = take p xs @ xs ! p # take (q - Suc p) (drop (Suc p) xs)"
proof -
  have "p < length (take q xs)" using assms by simp
  from id_take_nth_drop [OF this] show ?thesis
    using assms by (simp only: take_take nth_take drop_take min.absorb1 less_imp_le)
qed

lemma list_all_take: "list_all P xs \<Longrightarrow> list_all P (take n xs)"
  by (metis append_take_drop_id list_all_append)

lemma list_all_drop: "list_all P xs \<Longrightarrow> list_all P (drop n xs)"
  by (metis append_take_drop_id list_all_append)

lemma bank_load_nonneg: "list_all (\<lambda>r. 0 \<le> snd r) rs \<Longrightarrow> 0 \<le> bank_load rs b"
  by (induction rs) auto

locale bank_allocator =
  fixes bank_top :: "'s \<Rightarrow> int \<Rightarrow> int"
    and bump :: "'s \<Rightarrow> int \<Rightarrow> int \<Rightarrow> 's"
    and ok :: "'s \<Rightarrow> bool"
    and banks :: "int set"
  assumes top_bump: "ok s \<Longrightarrow> b \<in> banks \<Longrightarrow> b' \<in> banks \<Longrightarrow>
      bank_top (bump s b n) b' = (if b' = b then bank_top s b + n else bank_top s b')"
    and ok_bump: "ok s \<Longrightarrow> b \<in> banks \<Longrightarrow> ok (bump s b n)"
begin

lemma ok_run: "ok s \<Longrightarrow> fst ` set rs \<subseteq> banks \<Longrightarrow> ok (foldl (\<lambda>s (b, n). bump s b n) s rs)"
  by (induction rs arbitrary: s) (auto simp: ok_bump)

lemma top_run:
  assumes "ok s" and "fst ` set rs \<subseteq> banks" and "b \<in> banks"
  shows "bank_top (foldl (\<lambda>s (b, n). bump s b n) s rs) b = bank_top s b + bank_load rs b"
  using assms
proof (induction rs arbitrary: s)
  case Nil
  then show ?case by simp
next
  case (Cons r rs)
  then show ?case by (cases r) (auto simp: top_bump ok_bump)
qed

lemma block_start_nth:
  assumes "ok s" and "fst ` set rs \<subseteq> banks" and "p < length rs"
  shows "block_starts bank_top bump s rs ! p = bank_top s (fst (rs ! p)) + bank_load (take p rs) (fst (rs ! p))"
  using assms
proof (induction rs arbitrary: s p)
  case Nil
  then show ?case by simp
next
  case (Cons r rs)
  obtain b n where r: "r = (b, n)" by (cases r)
  show ?case
  proof (cases p)
    case 0
    then show ?thesis by (simp add: r)
  next
    case (Suc q)
    with Cons.prems have q: "q < length rs" and b: "b \<in> banks" "fst (rs ! q) \<in> banks"
      by (auto simp: r dest: nth_mem)
    have "block_starts bank_top bump (bump s b n) rs ! q
        = bank_top (bump s b n) (fst (rs ! q)) + bank_load (take q rs) (fst (rs ! q))"
      using Cons.IH [of "bump s b n" q] Cons.prems q b by (auto simp: ok_bump)
    then show ?thesis using Cons.prems b by (auto simp: r Suc top_bump)
  qed
qed

text \<open>Of two blocks in one bank the earlier one ends where the later one may begin.\<close>

lemma blocks_ordered:
  assumes "ok s" and "fst ` set rs \<subseteq> banks" and "list_all (\<lambda>r. 0 \<le> snd r) rs"
    and "p < q" "q < length rs" and "fst (rs ! p) = fst (rs ! q)"
  shows "block_starts bank_top bump s rs ! p + snd (rs ! p) \<le> block_starts bank_top bump s rs ! q"
proof -
  let ?b = "fst (rs ! q)"
  have "take q rs = take p rs @ rs ! p # take (q - Suc p) (drop (Suc p) rs)"
    using assms(4,5) by (intro take_nth_split) simp_all
  then have "bank_load (take q rs) ?b = bank_load (take p rs @ rs ! p # take (q - Suc p) (drop (Suc p) rs)) ?b"
    by (rule arg_cong)
  also have "\<dots>
      = bank_load (take p rs) ?b + snd (rs ! p) + bank_load (take (q - Suc p) (drop (Suc p) rs)) ?b"
    using assms(6) by (cases "rs ! p") simp
  finally have "bank_load (take q rs) ?b
      = bank_load (take p rs) ?b + snd (rs ! p) + bank_load (take (q - Suc p) (drop (Suc p) rs)) ?b" .
  moreover have "0 \<le> bank_load (take (q - Suc p) (drop (Suc p) rs)) ?b"
    using assms(3) by (intro bank_load_nonneg list_all_take list_all_drop)
  ultimately show ?thesis
    using assms block_start_nth [OF assms(1,2), of p] block_start_nth [OF assms(1,2), of q] by simp
qed

text \<open>A block ends below the final top of its bank.\<close>

lemma block_below_top:
  assumes "ok s" and "fst ` set rs \<subseteq> banks" and "list_all (\<lambda>r. 0 \<le> snd r) rs"
    and "p < length rs"
  shows "block_starts bank_top bump s rs ! p + snd (rs ! p)
    \<le> bank_top (foldl (\<lambda>s (b, n). bump s b n) s rs) (fst (rs ! p))"
proof -
  let ?b = "fst (rs ! p)"
  have b: "?b \<in> banks" using assms(2,4) by (auto dest: nth_mem)
  have "bank_load rs ?b = bank_load (take p rs @ rs ! p # drop (Suc p) rs) ?b"
    by (simp only: id_take_nth_drop [OF assms(4), symmetric])
  also have "\<dots> = bank_load (take p rs) ?b + snd (rs ! p) + bank_load (drop (Suc p) rs) ?b"
    by (cases "rs ! p") simp
  finally have "bank_load rs ?b = bank_load (take p rs) ?b + snd (rs ! p) + bank_load (drop (Suc p) rs) ?b" .
  moreover have "0 \<le> bank_load (drop (Suc p) rs) ?b"
    using assms(3) by (intro bank_load_nonneg list_all_drop)
  ultimately show ?thesis
    using block_start_nth [OF assms(1,2,4)] top_run [OF assms(1,2) b] by simp
qed

end

section \<open>The loops refine the allocator\<close>

definition cell_top :: "int list \<Rightarrow> int \<Rightarrow> int" where
  "cell_top xs b = xs ! nat b"

definition cell_bump :: "int list \<Rightarrow> int \<Rightarrow> int \<Rightarrow> int list" where
  "cell_bump xs b n = xs[nat b := xs ! nat b + n]"

interpretation sram: bank_allocator cell_top cell_bump "\<lambda>xs. length xs = nat N" "{0..<N}" for N
  by unfold_locales (auto simp: cell_top_def cell_bump_def nth_list_update)

text \<open>The requests of one tree and of a list of trees: the key of the dictionary, the bank,
  the number of cells.\<close>

definition tree_requests :: "int \<Rightarrow> int \<Rightarrow> nat \<Rightarrow> ((int \<times> int) \<times> (int \<times> int)) list" where
  "tree_requests N t l = map (\<lambda>i. ((t, int i), ((t + int i) mod N, DEGREE ^ i))) [0..<l]"

definition requests :: "int \<Rightarrow> (int \<times> int) list \<Rightarrow> ((int \<times> int) \<times> (int \<times> int)) list" where
  "requests N trees = concat (map (\<lambda>(t, l). tree_requests N t (nat l)) trees)"

definition place_block :: "layout \<Rightarrow> (int \<times> int) \<times> (int \<times> int) \<Rightarrow> layout" where
  "place_block st r =
     (case r of (key, (b, n)) \<Rightarrow>
        st\<lparr> start_addr := cell_bump (start_addr st) b n,
            start_addr_dict := dict_set (start_addr_dict st) key (b, cell_top (start_addr st) b) \<rparr>)"

definition block_list :: "int list \<Rightarrow> ((int \<times> int) \<times> (int \<times> int)) list \<Rightarrow> ((int \<times> int) \<times> (int \<times> int)) list" where
  "block_list xs rs =
     zip (map fst rs) (zip (map (fst \<circ> snd) rs) (block_starts cell_top cell_bump xs (map snd rs)))"

lemma length_block_starts [simp]: "length (block_starts tp bp s rs) = length rs"
  by (induction tp bp s rs rule: block_starts.induct) auto

lemma length_block_list [simp]: "length (block_list xs rs) = length rs"
  by (simp add: block_list_def)

lemma block_list_nth:
  "p < length rs \<Longrightarrow> block_list xs rs ! p =
     (fst (rs ! p), fst (snd (rs ! p)), block_starts cell_top cell_bump xs (map snd rs) ! p)"
  by (simp add: block_list_def)

lemma length_place_block [simp]: "length (start_addr (place_block st r)) = length (start_addr st)"
  by (simp add: place_block_def cell_bump_def split: prod.split)

lemma place_levels_step:
  assumes "0 < N" and "length (start_addr st) = nat N"
  shows "place_levels N t i (Suc k) sz st
    = place_levels N t (Suc i) k (sz * DEGREE) (place_block st ((t, int i), ((t + int i) mod N, sz)))"
proof -
  have nn: "((t + int i) mod N < 0) = False" using assms(1) by (simp add: not_less)
  have "py_getitem (start_addr st) ((t + int i) mod N)
      = Inr (cell_top (start_addr st) ((t + int i) mod N))"
    using assms by (simp add: py_getitem_def cell_top_def nn)
  then show ?thesis
    using assms(1) by (simp add: py_mod_def place_block_def cell_bump_def cell_top_def)
qed

lemma place_levels_run:
  assumes "0 < N" and "length (start_addr st) = nat N"
  shows "place_levels N t i k sz st = Inr (foldl place_block st
    (map (\<lambda>j. ((t, int (i + j)), ((t + int (i + j)) mod N, sz * DEGREE ^ j))) [0..<k]))"
  using assms(2)
proof (induction k arbitrary: i sz st)
  case 0
  show ?case by simp
next
  case (Suc k)
  let ?st = "place_block st ((t, int i), ((t + int i) mod N, sz))"
  have "place_levels N t i (Suc k) sz st = place_levels N t (Suc i) k (sz * DEGREE) ?st"
    by (rule place_levels_step [OF assms(1) Suc.prems])
  also have "\<dots> = Inr (foldl place_block ?st
      (map (\<lambda>j. ((t, int (Suc i + j)), ((t + int (Suc i + j)) mod N, sz * DEGREE * DEGREE ^ j))) [0..<k]))"
    by (rule Suc.IH) (simp add: Suc.prems)
  also have "map (\<lambda>j. ((t, int (Suc i + j)), ((t + int (Suc i + j)) mod N, sz * DEGREE * DEGREE ^ j))) [0..<k]
      = map (\<lambda>j. ((t, int (i + j)), ((t + int (i + j)) mod N, sz * DEGREE ^ j))) (map Suc [0..<k])"
    by (simp add: algebra_simps)
  finally show ?case
    by (simp add: map_Suc_upt upt_conv_Cons del: upt_Suc map_map)
qed

lemma length_foldl_place_block [simp]:
  "length (start_addr (foldl place_block st rs)) = length (start_addr st)"
  by (induction rs arbitrary: st) auto

lemma place_trees_run:
  assumes "0 < N" and "length (start_addr st) = nat N"
  shows "place_trees N trees st = Inr (foldl place_block st (requests N trees))"
  using assms(2)
proof (induction trees arbitrary: st)
  case Nil
  show ?case by (simp add: requests_def)
next
  case (Cons tree trees)
  obtain t l where tl: "tree = (t, l)" by (cases tree)
  let ?st = "foldl place_block st (tree_requests N t (nat l))"
  have "place_levels N t 0 (nat l) 1 st = Inr ?st"
    using place_levels_run [OF assms(1) Cons.prems] by (simp add: tree_requests_def)
  moreover have "place_trees N trees ?st = Inr (foldl place_block ?st (requests N trees))"
    by (rule Cons.IH) (simp add: Cons.prems)
  ultimately show ?case by (simp add: tl requests_def)
qed

lemma foldl_place_block:
  "start_addr (foldl place_block st rs) = foldl (\<lambda>xs (b, n). cell_bump xs b n) (start_addr st) (map snd rs)"
  "start_addr_dict (foldl place_block st rs)
    = foldl (\<lambda>d (k, v). dict_set d k v) (start_addr_dict st) (block_list (start_addr st) rs)"
  by (induction rs arbitrary: st) (auto simp: place_block_def block_list_def)

lemma compute_layout_eq:
  assumes "0 < N"
  shows "compute_layout N tree_data
    = Inr (foldl place_block (empty_layout N) (requests N (sort_key fst tree_data)))"
  using assms by (simp add: compute_layout_def place_trees_run empty_layout_def)

section \<open>What a placed level looks like\<close>

lemma DEGREE_power [simp]: "0 < DEGREE ^ i" "0 \<le> DEGREE ^ i"
  by (simp_all add: DEGREE_def)

lemma requests_mem:
  "r \<in> set (requests N trees) \<longleftrightarrow>
     (\<exists>t l i. (t, l) \<in> set trees \<and> i < nat l \<and> r = ((t, int i), ((t + int i) mod N, DEGREE ^ i)))"
  by (fastforce simp: requests_def tree_requests_def)

lemma requests_banks: "0 < N \<Longrightarrow> fst ` set (map snd (requests N trees)) \<subseteq> {0..<N}"
  by (auto simp: requests_mem)

lemma requests_sizes: "list_all (\<lambda>r. 0 \<le> snd r) (map snd (requests N trees))"
  by (auto simp: list_all_iff requests_mem)

text \<open>The layout the script computes is the list of its blocks.\<close>

lemma layout_dict:
  assumes "0 < N" and "compute_layout N tree_data = Inr st"
  shows "start_addr_dict st = foldl (\<lambda>d (k, v). dict_set d k v) []
      (block_list (replicate (nat N) 0) (requests N (sort_key fst tree_data)))"
    and "start_addr st = foldl (\<lambda>xs (b, n). cell_bump xs b n) (replicate (nat N) 0)
      (map snd (requests N (sort_key fst tree_data)))"
  using assms by (auto simp: compute_layout_eq foldl_place_block empty_layout_def)

lemma layout_get:
  assumes "0 < N" and "compute_layout N tree_data = Inr st"
    and "dict_get (start_addr_dict st) key = Some (b, a)"
  obtains p where "p < length (requests N (sort_key fst tree_data))"
    and "fst (requests N (sort_key fst tree_data) ! p) = key"
    and "fst (snd (requests N (sort_key fst tree_data) ! p)) = b"
    and "block_starts cell_top cell_bump (replicate (nat N) 0)
      (map snd (requests N (sort_key fst tree_data))) ! p = a"
proof -
  let ?rs = "requests N (sort_key fst tree_data)"
  have "map_of (rev (block_list (replicate (nat N) 0) ?rs)) key = Some (b, a)"
    using assms(3) unfolding layout_dict(1) [OF assms(1,2)] alist_dict.get_fold .
  then have "(key, b, a) \<in> set (block_list (replicate (nat N) 0) ?rs)"
    by (auto dest: map_of_SomeD)
  then obtain p where "p < length ?rs" and "block_list (replicate (nat N) 0) ?rs ! p = (key, b, a)"
    by (auto simp: in_set_conv_nth)
  then show thesis using that by (simp add: block_list_nth)
qed

lemma layout_key:
  assumes "0 < N" and "compute_layout N tree_data = Inr st"
    and "dict_get (start_addr_dict st) (t, i) = Some (b, a)"
  obtains p where "p < length (requests N (sort_key fst tree_data))"
    and "requests N (sort_key fst tree_data) ! p = ((t, i), (b, DEGREE ^ nat i))"
    and "block_starts cell_top cell_bump (replicate (nat N) 0)
      (map snd (requests N (sort_key fst tree_data))) ! p = a"
    and "0 \<le> i" "b = (t + i) mod N" "\<exists>l. (t, l) \<in> set tree_data \<and> i < l"
proof -
  let ?rs = "requests N (sort_key fst tree_data)"
  from layout_get [OF assms] obtain p where p: "p < length ?rs" "fst (?rs ! p) = (t, i)"
    "fst (snd (?rs ! p)) = b"
    "block_starts cell_top cell_bump (replicate (nat N) 0) (map snd ?rs) ! p = a" .
  have "?rs ! p \<in> set ?rs" using p(1) by (rule nth_mem)
  then obtain t' l j where m':"(t', l) \<in> set (sort_key fst tree_data)" "j < nat l"
    "?rs ! p = ((t', int j), ((t' + int j) mod N, DEGREE ^ j))"
    unfolding requests_mem by blast
  then have m: "(t, l) \<in> set tree_data" "j < nat l"
    "?rs ! p = ((t, int j), ((t + int j) mod N, DEGREE ^ j))" and i: "i = int j"
    using p(2) by simp_all
  have "i < l" using m(2) i by simp
  moreover have "b = (t + i) mod N" using m(3) i p(3) by simp
  ultimately show thesis
    using that [OF p(1) _ p(4)] m(1,3) i by auto
qed

lemma layout_bank: "0 < N \<Longrightarrow> 0 \<le> (t + i) mod N \<and> (t + i) mod N < (N::int)"
  by simp

lemma layout_region:
  assumes "0 < N" and "compute_layout N tree_data = Inr st"
    and "dict_get (start_addr_dict st) (t, i) = Some (b, a)"
  shows "0 \<le> a" and "a + DEGREE ^ nat i \<le> start_addr st ! nat b"
proof -
  let ?rs = "requests N (sort_key fst tree_data)" and ?z = "replicate (nat N) (0::int)"
  from layout_key [OF assms] obtain p where p: "p < length ?rs"
    "?rs ! p = ((t, i), (b, DEGREE ^ nat i))" "block_starts cell_top cell_bump ?z (map snd ?rs) ! p = a"
    and b: "b = (t + i) mod N" .
  have prem: "length ?z = nat N" "fst ` set (map snd ?rs) \<subseteq> {0..<N}" "p < length (map snd ?rs)"
    using requests_banks [OF assms(1)] p(1) by simp_all
  have bn: "0 \<le> b" "b < N" using b layout_bank [OF assms(1)] by simp_all
  have "a = cell_top ?z b + bank_load (take p (map snd ?rs)) b"
    using sram.block_start_nth [OF prem] p by simp
  moreover have "0 \<le> bank_load (take p (map snd ?rs)) b"
    by (intro bank_load_nonneg list_all_take requests_sizes)
  moreover have "cell_top ?z b = 0" using bn by (simp add: cell_top_def)
  ultimately show "0 \<le> a" by simp
  have "a + DEGREE ^ nat i \<le> cell_top (start_addr st) b"
    using sram.block_below_top [OF prem(1,2) requests_sizes prem(3)] p
    by (simp add: layout_dict(2) [OF assms(1,2)])
  then show "a + DEGREE ^ nat i \<le> start_addr st ! nat b" by (simp add: cell_top_def)
qed

lemma layout_starts_nonneg:
  assumes "0 < N" and "compute_layout N tree_data = Inr st" and "0 \<le> b" "b < N"
  shows "0 \<le> start_addr st ! nat b"
proof -
  have "cell_top (start_addr st) b = cell_top (replicate (nat N) 0) b
      + bank_load (map snd (requests N (sort_key fst tree_data))) b"
    unfolding layout_dict(2) [OF assms(1,2)]
    using assms requests_banks [OF assms(1)] by (intro sram.top_run [where N = N]) auto
  moreover have "0 \<le> bank_load (map snd (requests N (sort_key fst tree_data))) b"
    by (rule bank_load_nonneg [OF requests_sizes])
  ultimately show ?thesis using assms(3,4) by (simp add: cell_top_def)
qed

lemma layout_placed:
  assumes "0 < SRAM_NUM" and "compute_layout SRAM_NUM tree_data = Inr st"
  shows "dict_get (start_addr_dict st) (t, i) \<noteq> None \<longleftrightarrow>
    0 \<le> i \<and> (\<exists>l. (t, l) \<in> set tree_data \<and> i < l)"
proof -
  let ?rs = "requests SRAM_NUM (sort_key fst tree_data)"
  have "dict_get (start_addr_dict st) (t, i) \<noteq> None \<longleftrightarrow> (t, i) \<in> set (dict_keys (start_addr_dict st))"
    using dict_get_keys [of "start_addr_dict st" "(t, i)"] by auto
  also have "\<dots> \<longleftrightarrow> (t, i) \<in> fst ` set ?rs"
    unfolding layout_dict(1) [OF assms] alist_dict.keys_fold
    by (simp add: block_list_def set_zip_rightD flip: image_set)
  also have "\<dots> \<longleftrightarrow> 0 \<le> i \<and> (\<exists>l. (t, l) \<in> set tree_data \<and> i < l)"
  proof
    assume "(t, i) \<in> fst ` set ?rs"
    then show "0 \<le> i \<and> (\<exists>l. (t, l) \<in> set tree_data \<and> i < l)"
      by (auto simp: requests_mem zless_nat_eq_int_zless)
  next
    assume "0 \<le> i \<and> (\<exists>l. (t, l) \<in> set tree_data \<and> i < l)"
    then obtain l where l: "(t, l) \<in> set tree_data" "0 \<le> i" "i < l" by blast
    then have "((t, i), ((t + i) mod SRAM_NUM, DEGREE ^ nat i)) \<in> set ?rs"
      unfolding requests_mem by (intro exI [of _ t] exI [of _ l] exI [of _ "nat i"]) simp
    then show "(t, i) \<in> fst ` set ?rs" by force
  qed
  finally show ?thesis .
qed

section \<open>Properties of the placement\<close>

text \<open>C4. No two levels share a cell: two different placed levels that lie in the same SRAM
  occupy disjoint address ranges, whatever trees and however many SRAMs are given.\<close>

theorem layout_disjoint:
  assumes "0 < SRAM_NUM" and "compute_layout SRAM_NUM tree_data = Inr st"
    and "dict_get (start_addr_dict st) (t, i) = Some (b, a)"
    and "dict_get (start_addr_dict st) (t', i') = Some (b, a')"
    and "(t, i) \<noteq> (t', i')"
  shows "{a ..< a + DEGREE ^ nat i} \<inter> {a' ..< a' + DEGREE ^ nat i'} = {}"
proof -
  let ?rs = "requests SRAM_NUM (sort_key fst tree_data)"
  let ?z = "replicate (nat SRAM_NUM) (0::int)"
  let ?s = "block_starts cell_top cell_bump ?z (map snd ?rs)"
  from layout_key [OF assms(1-3)] obtain p where p: "p < length ?rs"
    "?rs ! p = ((t, i), (b, DEGREE ^ nat i))" "?s ! p = a" .
  from layout_key [OF assms(1,2,4)] obtain q where q: "q < length ?rs"
    "?rs ! q = ((t', i'), (b, DEGREE ^ nat i'))" "?s ! q = a'" .
  have prem: "length ?z = nat SRAM_NUM" "fst ` set (map snd ?rs) \<subseteq> {0..<SRAM_NUM}"
    using requests_banks [OF assms(1)] by simp_all
  have "p \<noteq> q" using p q assms(5) by auto
  then consider "p < q" | "q < p" by linarith
  then have "a + DEGREE ^ nat i \<le> a' \<or> a' + DEGREE ^ nat i' \<le> a"
  proof cases
    case 1
    then show ?thesis
      using sram.blocks_ordered [OF prem requests_sizes 1] p q by simp
  next
    case 2
    then show ?thesis
      using sram.blocks_ordered [OF prem requests_sizes 2] p q by simp
  qed
  then show ?thesis by auto
qed

text \<open>Trees 0 and 1 with three and two levels in two SRAMs, as a concrete layout.\<close>

definition sample_layout :: layout where
  "sample_layout = \<lparr>start_addr = [7, 3],
     start_addr_dict = [((0, 0), (0, 0)), ((0, 1), (1, 0)), ((0, 2), (0, 1)), ((1, 0), (1, 2)), ((1, 1), (0, 5))]\<rparr>"

lemma sample_layout_computed: "compute_layout 2 [(1, 2), (0, 3)] = Inr sample_layout"
  by code_simp

theorem layout_disjoint_witness:
  "dict_get (start_addr_dict sample_layout) (0, 2) = Some (0, 1) \<and>
   dict_get (start_addr_dict sample_layout) (1, 1) = Some (0, 5) \<and>
   {1 ..< 1 + DEGREE ^ nat 2} \<inter> {5 ..< 5 + DEGREE ^ nat 1} = {}"
proof -
  have "dict_get (start_addr_dict sample_layout) (0, 2) = Some (0, 1)"
    "dict_get (start_addr_dict sample_layout) (1, 1) = Some (0, 5)"
    by code_simp+
  with layout_disjoint [OF _ sample_layout_computed this] show ?thesis by simp
qed

text \<open>C25. Which levels are placed, and where: level \<open>i\<close> of tree \<open>t\<close> has an entry exactly when
  some line gives tree \<open>t\<close> more than \<open>i\<close> levels; it lies in SRAM \<open>(t + i) mod SRAM_NUM\<close>, at
  an address that is not negative, and ends within the used part of that SRAM.\<close>

theorem layout_complete:
  assumes "0 < SRAM_NUM" and "compute_layout SRAM_NUM tree_data = Inr st"
  shows "(dict_get (start_addr_dict st) (t, i) \<noteq> None \<longleftrightarrow>
      0 \<le> i \<and> (\<exists>l. (t, l) \<in> set tree_data \<and> i < l)) \<and>
    (dict_get (start_addr_dict st) (t, i) = Some (b, a) \<longrightarrow>
      b = (t + i) mod SRAM_NUM \<and> 0 \<le> a \<and> a + DEGREE ^ nat i \<le> start_addr st ! nat b)"
proof -
  have "b = (t + i) mod SRAM_NUM" if "dict_get (start_addr_dict st) (t, i) = Some (b, a)"
    using layout_key [OF assms that] by blast
  then show ?thesis using layout_placed [OF assms] layout_region [OF assms] by blast
qed

theorem layout_complete_witness:
  "dict_get (start_addr_dict sample_layout) (0, 2) = Some (0, 1) \<and>
   (0::int) = (0 + 2) mod 2 \<and> 1 + DEGREE ^ nat 2 \<le> start_addr sample_layout ! nat 0"
proof -
  have "dict_get (start_addr_dict sample_layout) (0, 2) = Some (0, 1)" by code_simp
  with layout_complete [OF _ sample_layout_computed, of 0 2 0 1] show ?thesis by simp
qed

text \<open>C24. Pipelining: when no tree has more levels than there are SRAMs, as the prompt asks,
  two different levels of one tree never lie in the same SRAM.\<close>

theorem layout_conflict_free:
  assumes "compute_layout SRAM_NUM tree_data = Inr st"
    and "list_all (\<lambda>(t, l). l \<le> SRAM_NUM) tree_data"
    and "dict_get (start_addr_dict st) (t, i) = Some (b, a)"
    and "dict_get (start_addr_dict st) (t, j) = Some (b', a')" and "i \<noteq> j" and "0 < SRAM_NUM"
  shows "b \<noteq> b'"
proof
  assume eq: "b = b'"
  from layout_key [OF assms(6,1,3)] obtain l where l: "0 \<le> i" "b = (t + i) mod SRAM_NUM"
    "(t, l) \<in> set tree_data" "i < l" by blast
  from layout_key [OF assms(6,1,4)] obtain k where k: "0 \<le> j" "b' = (t + j) mod SRAM_NUM"
    "(t, k) \<in> set tree_data" "j < k" by blast
  have "SRAM_NUM dvd (t + i) - (t + j)" using eq l(2) k(2) by (simp add: mod_eq_dvd_iff)
  then have "SRAM_NUM dvd i - j" by simp
  moreover have "l \<le> SRAM_NUM" "k \<le> SRAM_NUM" using assms(2) l(3) k(3) by (auto simp: list_all_iff)
  then have "\<bar>i - j\<bar> < SRAM_NUM" using l k by linarith
  ultimately have "i - j = 0" by (metis dvd_imp_le_int abs_of_pos assms(6) not_less)
  with assms(5) show False by simp
qed

theorem layout_conflict_free_witness:
  "dict_get (start_addr_dict \<lparr>start_addr = [1, 2], start_addr_dict = [((0, 0), (0, 0)), ((0, 1), (1, 0))]\<rparr>) (0, 1)
     = Some (1, 0) \<and> (0::int) \<noteq> 1"
proof -
  let ?st = "\<lparr>start_addr = [1, 2], start_addr_dict = [((0, 0), (0, 0)), ((0, 1), (1, 0))]\<rparr>"
  have c: "compute_layout 2 [(0, 2)] = Inr ?st" by code_simp
  have g: "dict_get (start_addr_dict ?st) (0, 0) = Some (0, 0)"
    "dict_get (start_addr_dict ?st) (0, 1) = Some (1, 0)" by code_simp+
  show ?thesis using layout_conflict_free [OF c _ g] g(2) by simp
qed

text \<open>With distinct tree identifiers no entry of the dictionary is overwritten.\<close>

lemma foldl_dict_set_distinct:
  "distinct (map fst kvs) \<Longrightarrow> foldl (\<lambda>d (k, v). dict_set d k v) [] kvs = kvs"
proof (induction kvs rule: rev_induct)
  case Nil
  show ?case by simp
next
  case (snoc kv kvs)
  have "dict_set d k v = d @ [(k, v)]" if "k \<notin> fst ` set d" for d :: "('a \<times> 'b) list" and k v
    using that by (induction d) auto
  with snoc show ?case by (cases kv) auto
qed

lemma distinct_requests: "distinct (map fst trees) \<Longrightarrow> distinct (map fst (requests N trees))"
proof (induction trees)
  case Nil
  show ?case by (simp add: requests_def)
next
  case (Cons tree trees)
  obtain t l where tl: "tree = (t, l)" by (cases tree)
  have r: "requests N (tree # trees) = tree_requests N t (nat l) @ requests N trees"
    by (simp add: requests_def tl)
  have "distinct (map fst (tree_requests N t (nat l)))"
    by (simp add: tree_requests_def comp_def distinct_map inj_on_def)
  moreover have "fst ` set (tree_requests N t (nat l)) \<inter> fst ` set (requests N trees) = {}"
    using Cons.prems by (force simp: tl requests_mem tree_requests_def)
  ultimately show ?case using Cons by (simp add: r)
qed

lemma block_list_load:
  "list_all (\<lambda>r. snd (snd r) = DEGREE ^ nat (snd (fst r))) rs \<Longrightarrow>
   (\<Sum>((t, i), (b', a)) \<leftarrow> block_list xs rs. if b' = b then DEGREE ^ nat i else 0) = bank_load (map snd rs) b"
  by (induction rs arbitrary: xs) (auto simp: block_list_def)

lemma requests_size_eq: "list_all (\<lambda>r. snd (snd r) = DEGREE ^ nat (snd (fst r))) (requests N trees)"
  by (auto simp: list_all_iff requests_mem)

text \<open>No cell is wasted: when the tree identifiers are distinct, the used size of every
  SRAM is exactly the sum of the sizes of the levels placed in it.\<close>

theorem layout_tight:
  assumes "0 < SRAM_NUM" and "compute_layout SRAM_NUM tree_data = Inr st"
    and "distinct (map fst tree_data)" and "0 \<le> b" "b < SRAM_NUM"
  shows "start_addr st ! nat b =
    (\<Sum>((t, i), (b', a)) \<leftarrow> start_addr_dict st. if b' = b then DEGREE ^ nat i else 0)"
proof -
  let ?rs = "requests SRAM_NUM (sort_key fst tree_data)" and ?z = "replicate (nat SRAM_NUM) (0::int)"
  have "distinct (map fst (sort_key fst tree_data))"
    using assms(3) by (metis mset_map mset_sort mset_eq_imp_distinct_iff)
  then have "distinct (map fst (block_list ?z ?rs))"
    by (simp add: block_list_def distinct_requests)
  then have "start_addr_dict st = block_list ?z ?rs"
    by (simp add: layout_dict(1) [OF assms(1,2)] foldl_dict_set_distinct)
  moreover have "cell_top (start_addr st) b = cell_top ?z b + bank_load (map snd ?rs) b"
    unfolding layout_dict(2) [OF assms(1,2)]
    using assms requests_banks [OF assms(1)] by (intro sram.top_run [where N = SRAM_NUM]) auto
  ultimately show ?thesis
    using assms(4,5) by (simp add: block_list_load [OF requests_size_eq] cell_top_def)
qed

theorem layout_tight_witness:
  "start_addr sample_layout ! nat 0 =
    (\<Sum>((t, i), (b', a)) \<leftarrow> start_addr_dict sample_layout. if b' = 0 then DEGREE ^ nat i else 0)"
  by (rule layout_tight [OF _ sample_layout_computed]) simp_all

text \<open>The order of the input lines does not matter: two files that list the same trees,
  each tree once, give the same layout (and the same exception, if any).\<close>

theorem layout_order_independent:
  assumes "mset tree_data = mset tree_data'" and "distinct (map fst tree_data)"
  shows "compute_layout SRAM_NUM tree_data = compute_layout SRAM_NUM tree_data'"
proof -
  have "sort_key fst tree_data = sort_key fst tree_data'"
  proof (rule sort_key_inj_key_eq)
    show "mset tree_data = mset (sort_key fst tree_data')" using assms(1) by simp
    show "inj_on fst (set tree_data)" using assms(2) by (simp add: distinct_map)
    show "sorted (map fst (sort_key fst tree_data'))" by simp
  qed
  then show ?thesis by (simp add: compute_layout_def)
qed

theorem layout_order_independent_witness:
  "mset [(1, 2), (0, 3)] = mset [(0, 3), (1, 2 :: int)] \<and>
   compute_layout 2 [(1, 2), (0, 3)] = compute_layout 2 [(0, 3), (1, 2)]"
  using layout_order_independent [of "[(1, 2), (0, 3)]" "[(0, 3), (1, 2)]" 2] by simp

end
