(* ===== verification/SRAM_Image.thy ===== *)
theory SRAM_Image
  imports SRAM_Layout Complex_Main
begin

text \<open>
  The address table \<open>gen_SRAM_layout.py\<close> writes: the widths it computes are large enough for
  every field, every row of the memory image has the same width, the row of a placed level
  reads back as its SRAM and start address, and the script as a whole succeeds on every
  well-formed input. Also how it fails.
\<close>

section \<open>Widths\<close>

lemma ceil_log2_ge: "n \<le> 2 ^ ceil_log2 n"
proof (induction n rule: ceil_log2.induct)
  case (1 n)
  show ?case
  proof (cases "n \<le> 1")
    case True
    then show ?thesis by (simp add: ceil_log2.simps [of n])
  next
    case False
    then have "(n + 1) div 2 \<le> 2 ^ ceil_log2 ((n + 1) div 2)" by (rule "1.IH")
    with False show ?thesis by (simp add: ceil_log2.simps [of n])
  qed
qed

text \<open>The function is the ceiling of the binary logarithm.\<close>

lemma ceil_log2_log: "0 < n \<Longrightarrow> int (ceil_log2 n) = \<lceil>log 2 (real n)\<rceil>"
proof (induction n rule: ceil_log2.induct)
  case (1 n)
  show ?case
  proof (cases "n \<le> 1")
    case True
    with "1.prems" have "n = 1" by simp
    then show ?thesis by (simp add: ceil_log2.simps)
  next
    case False
    then have "int (ceil_log2 ((n + 1) div 2)) = \<lceil>log 2 (real ((n + 1) div 2))\<rceil>"
      by (intro "1.IH") auto
    moreover have "(n + 1) div 2 = (n - 1) div 2 + 1" using False by auto
    moreover have "\<lceil>log 2 (real n)\<rceil> = \<lceil>log 2 (real ((n - 1) div 2 + 1))\<rceil> + 1"
      using ceiling_log2_div2 [of n] False by simp
    ultimately show ?thesis using False by (simp add: ceil_log2.simps [of n])
  qed
qed

lemma math_ceil_log2_bound: "math_ceil_log2 x = Inr k \<Longrightarrow> 0 < x \<and> x \<le> 2 ^ k"
  using ceil_log2_ge [of "nat x"] by (auto simp: math_ceil_log2_def nat_le_iff split: if_splits)

lemma foldl_max_ge: "(x::int) \<le> foldl max x xs"
proof (induction xs arbitrary: x)
  case (Cons z zs)
  show ?case using Cons.IH [of "max x z"] by simp
qed simp

lemma foldl_max_mem: "y \<in> set xs \<Longrightarrow> (y::int) \<le> foldl max x xs"
proof (induction xs arbitrary: x)
  case (Cons z zs)
  then show ?case using foldl_max_ge [of "max x z" zs] by auto
qed simp

lemma py_max_ge: "py_max xs = Inr m \<Longrightarrow> x \<in> set xs \<Longrightarrow> x \<le> m"
  by (cases xs) (auto simp: foldl_max_ge foldl_max_mem)

lemma py_max_nonempty: "xs \<noteq> [] \<Longrightarrow> \<exists>m. py_max xs = Inr m"
  by (cases xs) auto

text \<open>A field of width 0 still takes one character.\<close>

lemma length_format_bin_max: "0 \<le> n \<Longrightarrow> n < 2 ^ w \<Longrightarrow> length (format_bin w n) = max 1 w"
proof (cases "w = 0")
  case True
  moreover assume "0 \<le> n" "n < 2 ^ w"
  ultimately show ?thesis by (simp add: format_bin_def bin_digits.simps [of 0])
next
  case False
  moreover assume "0 \<le> n" "n < 2 ^ w"
  ultimately show ?thesis by (simp add: length_format_bin)
qed

text \<open>The hypotheses under which the widths are computed: the data, its layout, the two
  maxima.\<close>

definition table_computed :: "int \<Rightarrow> (int \<times> int) list \<Rightarrow> layout \<Rightarrow> widths \<Rightarrow> bool" where
  "table_computed SRAM_NUM tree_data st w \<longleftrightarrow>
     (case (py_max (map fst tree_data), py_max (map snd tree_data)) of
        (Inr max_tree_id, Inr max_level) \<Rightarrow>
          compute_layout SRAM_NUM tree_data = Inr st \<and>
          compute_widths SRAM_NUM max_tree_id max_level st = Inr w
      | _ \<Rightarrow> False)"

lemma table_computedE:
  assumes "table_computed SRAM_NUM tree_data st w"
  obtains mt ml ma where "py_max (map fst tree_data) = Inr mt" "py_max (map snd tree_data) = Inr ml"
    "py_max (start_addr st) = Inr ma" "compute_layout SRAM_NUM tree_data = Inr st"
    "math_ceil_log2 ma = Inr (SRAM_addr_bits w)" "math_ceil_log2 ml = Inr (level_bits w)"
    "math_ceil_log2 (mt + 1) = Inr (tree_id_bits w)" "math_ceil_log2 SRAM_NUM = Inr (SRAM_id_bits w)"
  using assms by (auto simp: table_computed_def compute_widths_def split: sum.splits)

text \<open>Every field of a placed level fits the width computed for it.\<close>

lemma layout_fits:
  assumes "table_computed SRAM_NUM tree_data st w"
    and "dict_get (start_addr_dict st) (t, i) = Some (b, a)"
  shows "0 \<le> b" "b < 2 ^ SRAM_id_bits w" "0 \<le> a" "a < 2 ^ SRAM_addr_bits w"
    "0 \<le> i" "i < 2 ^ level_bits w" "t < 2 ^ tree_id_bits w"
proof -
  from assms(1) obtain mt ml ma where c: "py_max (map fst tree_data) = Inr mt"
    "py_max (map snd tree_data) = Inr ml" "py_max (start_addr st) = Inr ma"
    "compute_layout SRAM_NUM tree_data = Inr st"
    and bits: "0 < ma \<and> ma \<le> 2 ^ SRAM_addr_bits w" "0 < ml \<and> ml \<le> 2 ^ level_bits w"
    "0 < mt + 1 \<and> mt + 1 \<le> 2 ^ tree_id_bits w" "0 < SRAM_NUM \<and> SRAM_NUM \<le> 2 ^ SRAM_id_bits w"
    by (elim table_computedE) (blast dest: math_ceil_log2_bound)
  have N: "0 < SRAM_NUM" using bits(4) by simp
  from layout_key [OF N c(4) assms(2)] obtain l where k: "0 \<le> i" "b = (t + i) mod SRAM_NUM"
    "(t, l) \<in> set tree_data" "i < l" by blast
  then show "0 \<le> i" by simp
  have bN: "0 \<le> b" "b < SRAM_NUM" using k(2) N by simp_all
  then show "0 \<le> b" "b < 2 ^ SRAM_id_bits w" using bits(4) by simp_all
  have "t \<le> mt" "l \<le> ml" using py_max_ge [OF c(1)] py_max_ge [OF c(2)] k(3) by force+
  then show "i < 2 ^ level_bits w" "t < 2 ^ tree_id_bits w" using k(4) bits by linarith+
  show "0 \<le> a" by (rule layout_region(1) [OF N c(4) assms(2)])
  have "length (start_addr st) = nat SRAM_NUM"
    using c(4) N by (auto simp: compute_layout_eq empty_layout_def)
  then have "start_addr st ! nat b \<le> ma" using py_max_ge [OF c(3)] bN by simp
  moreover have "a + DEGREE ^ nat i \<le> start_addr st ! nat b"
    by (rule layout_region(2) [OF N c(4) assms(2)])
  moreover have "0 < DEGREE ^ nat i" by simp
  ultimately show "a < 2 ^ SRAM_addr_bits w" using bits(1) by linarith
qed

section \<open>The memory image\<close>

lemma grid_index: "t < n \<Longrightarrow> i < m \<Longrightarrow> t * m + i < n * (m::nat)"
proof -
  assume "t < n" "i < m"
  then have "t * m + i < Suc t * m" by simp
  also have "\<dots> \<le> n * m" using \<open>t < n\<close> by (intro mult_le_mono1) simp
  finally show ?thesis .
qed

lemma nth_concat_grid:
  "t < n \<Longrightarrow> i < m \<Longrightarrow> concat (map (\<lambda>t. map (f t) [0..<m]) [0..<n]) ! (t * m + i) = f t i"
proof (induction n)
  case 0
  then show ?case by simp
next
  case (Suc n)
  have len: "length (concat (map (\<lambda>t. map (f t) [0..<m]) [0..<n])) = n * m"
    by (induction n) simp_all
  show ?case
  proof (cases "t = n")
    case True
    then show ?thesis using Suc.prems len by (simp add: nth_append)
  next
    case False
    with Suc.prems have "t < n" by simp
    moreover from this have "t * m + i < n * m" using Suc.prems(2) by (rule grid_index)
    ultimately show ?thesis using Suc len by (simp add: nth_append)
  qed
qed

lemma length_mem_rows: "length (mem_rows w st) = 2 ^ tree_id_bits w * 2 ^ level_bits w"
  by (simp add: mem_rows_def length_concat comp_def sum_list_triv)

lemma mem_rows_nth:
  "t < 2 ^ tree_id_bits w \<Longrightarrow> i < 2 ^ level_bits w \<Longrightarrow>
   mem_rows w st ! (t * 2 ^ level_bits w + i) = mem_row w st (int t, int i)"
  unfolding mem_rows_def by (rule nth_concat_grid)

lemma mem_row_shape:
  assumes "table_computed SRAM_NUM tree_data st w"
  shows "is_bits (mem_row w st key) \<and>
    length (mem_row w st key) = max 1 (SRAM_id_bits w) + max 1 (SRAM_addr_bits w)"
proof (cases "dict_get (start_addr_dict st) key")
  case None
  have "0 \<le> (2::int) ^ k - 1" for k by simp
  then show ?thesis by (simp add: mem_row_def None length_format_bin_max)
next
  case (Some v)
  obtain t i b a where "key = (t, i)" "v = (b, a)" by (cases key, cases v)
  with Some layout_fits [OF assms, of t i b a] show ?thesis
    by (simp add: mem_row_def length_format_bin_max)
qed

text \<open>Reading a row back, as the hardware's address table does.\<close>

definition row_SRAM_id :: "widths \<Rightarrow> string \<Rightarrow> int" where
  "row_SRAM_id w row = int (bits_val (take (max 1 (SRAM_id_bits w)) row))"

definition row_start_address :: "widths \<Rightarrow> string \<Rightarrow> int" where
  "row_start_address w row = int (bits_val (drop (max 1 (SRAM_id_bits w)) row))"

lemma mem_row_read:
  assumes "table_computed SRAM_NUM tree_data st w"
  shows "dict_get (start_addr_dict st) key = Some (b, a) \<Longrightarrow>
      row_SRAM_id w (mem_row w st key) = b \<and> row_start_address w (mem_row w st key) = a"
    and "dict_get (start_addr_dict st) key = None \<Longrightarrow>
      row_SRAM_id w (mem_row w st key) = 2 ^ SRAM_id_bits w - 1 \<and>
      row_start_address w (mem_row w st key) = 2 ^ SRAM_addr_bits w - 1"
proof -
  assume "dict_get (start_addr_dict st) key = Some (b, a)"
  moreover obtain t i where "key = (t, i)" by (cases key)
  ultimately show "row_SRAM_id w (mem_row w st key) = b \<and> row_start_address w (mem_row w st key) = a"
    using layout_fits [OF assms, of t i b a]
    by (simp add: mem_row_def row_SRAM_id_def row_start_address_def length_format_bin_max)
next
  have "0 \<le> (2::int) ^ k - 1" for k by simp
  moreover assume "dict_get (start_addr_dict st) key = None"
  ultimately show "row_SRAM_id w (mem_row w st key) = 2 ^ SRAM_id_bits w - 1 \<and>
      row_start_address w (mem_row w st key) = 2 ^ SRAM_addr_bits w - 1"
    by (simp add: mem_row_def row_SRAM_id_def row_start_address_def length_format_bin_max)
qed

section \<open>Properties of the image\<close>

text \<open>C5. The address table: for every layout and the widths computed for it, the image has
  one row for each pair of a tree identifier and a level of the given widths, all rows are bit
  strings of one length, and the row of every placed level of a tree with a non-negative
  identifier lies at its index \<open>t * 2 ^ level_bits + i\<close> and reads back as the SRAM and the
  start address of that level.\<close>

theorem address_table_correct:
  assumes "table_computed SRAM_NUM tree_data st w"
  shows "length (mem_rows w st) = 2 ^ tree_id_bits w * 2 ^ level_bits w \<and>
    list_all (\<lambda>row. is_bits row \<and>
      length row = max 1 (SRAM_id_bits w) + max 1 (SRAM_addr_bits w)) (mem_rows w st) \<and>
    (0 \<le> t \<and> dict_get (start_addr_dict st) (t, i) = Some (b, a) \<longrightarrow>
      nat t * 2 ^ level_bits w + nat i < length (mem_rows w st) \<and>
      row_SRAM_id w (mem_rows w st ! (nat t * 2 ^ level_bits w + nat i)) = b \<and>
      row_start_address w (mem_rows w st ! (nat t * 2 ^ level_bits w + nat i)) = a)"
proof (intro conjI impI length_mem_rows)
  show "list_all (\<lambda>row. is_bits row \<and>
      length row = max 1 (SRAM_id_bits w) + max 1 (SRAM_addr_bits w)) (mem_rows w st)"
    using mem_row_shape [OF assms] by (auto simp: mem_rows_def list_all_iff)
next
  assume t: "0 \<le> t \<and> dict_get (start_addr_dict st) (t, i) = Some (b, a)"
  note fits = layout_fits [OF assms conjunct2 [OF t]]
  have bounds: "nat t < 2 ^ tree_id_bits w" "nat i < 2 ^ level_bits w"
    using t fits(5-7) by (simp_all add: nat_less_iff)
  have row: "mem_rows w st ! (nat t * 2 ^ level_bits w + nat i) = mem_row w st (t, i)"
    using mem_rows_nth [OF bounds] t fits(5) by simp
  show "nat t * 2 ^ level_bits w + nat i < length (mem_rows w st)"
    unfolding length_mem_rows using bounds by (rule grid_index)
  show "row_SRAM_id w (mem_rows w st ! (nat t * 2 ^ level_bits w + nat i)) = b"
    "row_start_address w (mem_rows w st ! (nat t * 2 ^ level_bits w + nat i)) = a"
    unfolding row using mem_row_read(1) [OF assms conjunct2 [OF t]] by simp_all
qed

text \<open>The layout of \<open>sample_layout\<close> with its widths.\<close>

definition sample_widths :: widths where
  "sample_widths = \<lparr>SRAM_addr_bits = 3, level_bits = 2, tree_id_bits = 1, SRAM_id_bits = 1\<rparr>"

lemma sample_table: "table_computed 2 [(1, 2), (0, 3)] sample_layout sample_widths"
  by code_simp

theorem address_table_correct_witness:
  "table_computed 2 [(1, 2), (0, 3)] sample_layout sample_widths \<and>
   mem_rows sample_widths sample_layout ! 5 = ''0101'' \<and>
   row_SRAM_id sample_widths (mem_rows sample_widths sample_layout ! (nat 1 * 2 ^ level_bits sample_widths + nat 1)) = 0 \<and>
   row_start_address sample_widths (mem_rows sample_widths sample_layout ! (nat 1 * 2 ^ level_bits sample_widths + nat 1)) = 5"
proof -
  have g: "dict_get (start_addr_dict sample_layout) (1, 1) = Some (0, 5)" by code_simp
  have r: "mem_rows sample_widths sample_layout ! 5 = ''0101''" by code_simp
  from address_table_correct [OF sample_table, of 1 1 0 5] g
  have "row_SRAM_id sample_widths (mem_rows sample_widths sample_layout ! (nat 1 * 2 ^ level_bits sample_widths + nat 1)) = 0"
    "row_start_address sample_widths (mem_rows sample_widths sample_layout ! (nat 1 * 2 ^ level_bits sample_widths + nat 1)) = 5"
    by (simp_all only: zero_le_one simp_thms)
  with sample_table r show ?thesis by blast
qed

text \<open>C39. The row of all ones that stands for a pair that is not placed is not reserved:
  a placed level gets exactly that row when its SRAM and its start address are the largest
  values of their widths.\<close>

theorem unused_row_ambiguous:
  assumes "table_computed SRAM_NUM tree_data st w"
    and "dict_get (start_addr_dict st) key = Some (b, a)"
    and "dict_get (start_addr_dict st) unused = None"
  shows "mem_row w st key = mem_row w st unused \<longleftrightarrow>
    b = 2 ^ SRAM_id_bits w - 1 \<and> a = 2 ^ SRAM_addr_bits w - 1"
proof
  assume "mem_row w st key = mem_row w st unused"
  then show "b = 2 ^ SRAM_id_bits w - 1 \<and> a = 2 ^ SRAM_addr_bits w - 1"
    using mem_row_read(1) [OF assms(1,2)] mem_row_read(2) [OF assms(1,3)] by simp
next
  assume "b = 2 ^ SRAM_id_bits w - 1 \<and> a = 2 ^ SRAM_addr_bits w - 1"
  then show "mem_row w st key = mem_row w st unused"
    using assms(2,3) by (simp add: mem_row_def)
qed

text \<open>Trees 0, 1 and 3 with one level each in two SRAMs: the root of tree 3 has the row of
  tree 2, which does not exist.\<close>

definition ambiguous_layout :: layout where
  "ambiguous_layout = \<lparr>start_addr = [1, 2],
     start_addr_dict = [((0, 0), (0, 0)), ((1, 0), (1, 0)), ((3, 0), (1, 1))]\<rparr>"

definition ambiguous_widths :: widths where
  "ambiguous_widths = \<lparr>SRAM_addr_bits = 1, level_bits = 0, tree_id_bits = 2, SRAM_id_bits = 1\<rparr>"

theorem unused_row_ambiguous_witness:
  "table_computed 2 [(0, 1), (1, 1), (3, 1)] ambiguous_layout ambiguous_widths \<and>
   dict_get (start_addr_dict ambiguous_layout) (3, 0) = Some (1, 1) \<and>
   dict_get (start_addr_dict ambiguous_layout) (2, 0) = None \<and>
   mem_row ambiguous_widths ambiguous_layout (3, 0) = mem_row ambiguous_widths ambiguous_layout (2, 0)"
proof -
  have t: "table_computed 2 [(0, 1), (1, 1), (3, 1)] ambiguous_layout ambiguous_widths" by code_simp
  have g: "dict_get (start_addr_dict ambiguous_layout) (3, 0) = Some (1, 1)"
    "dict_get (start_addr_dict ambiguous_layout) (2, 0) = None" by code_simp+
  have "SRAM_id_bits ambiguous_widths = 1" "SRAM_addr_bits ambiguous_widths = 1" by code_simp+
  with unused_row_ambiguous [OF t g] t g show ?thesis by simp
qed

section \<open>The script\<close>

text \<open>A line of the input file.\<close>

definition tree_line :: "int \<times> int \<Rightarrow> string" where
  "tree_line tr = ''tree_id: '' @ py_str (fst tr) @ '', level: '' @ py_str (snd tr)"

lemma field_value_str: "CHR '':'' \<notin> set u \<Longrightarrow> field_value (u @ '': '' @ py_str n) = Inr n"
  using split_acc_field2 [of "CHR '':''" u "CHR '' ''" "[]" "py_str n"]
  by (simp add: field_value_def split_acc_plain py_int_str)

lemma parse_tree_line: "parse_line (tree_line tr) = Inr tr"
proof -
  have parts: "py_split_on (tree_line tr) CHR '','' '' ''
      = [''tree_id: '' @ py_str (fst tr), ''level: '' @ py_str (snd tr)]"
    by (simp add: tree_line_def split_acc_field2 split_acc_plain)
  have "field_value (''tree_id: '' @ py_str (fst tr)) = Inr (fst tr)"
    "field_value (''level: '' @ py_str (snd tr)) = Inr (snd tr)"
    using field_value_str [of "''tree_id''"] field_value_str [of "''level''"] by simp_all
  then show ?thesis by (simp add: parse_line_def parts del: append_Cons)
qed

lemma tree_line_facts: "newline \<notin> set (tree_line tr)" "py_strip (tree_line tr) \<noteq> []"
proof -
  show "newline \<notin> set (tree_line tr)" by (simp add: tree_line_def)
  have "\<not> is_space CHR ''t''" by (simp add: is_space_def char_code_def)
  from py_strip_nonempty [OF this] show "py_strip (tree_line tr) \<noteq> []"
    by (simp add: tree_line_def)
qed

text \<open>The lines of a file: blank ones and trees.\<close>

fun input_line :: "string + int \<times> int \<Rightarrow> string" where
  "input_line (Inl blank) = blank"
| "input_line (Inr tr) = tree_line tr"

fun input_ok :: "string + int \<times> int \<Rightarrow> bool" where
  "input_ok (Inl blank) \<longleftrightarrow> newline \<notin> set blank \<and> py_strip blank = []"
| "input_ok (Inr tr) \<longleftrightarrow> True"

lemma parse_input_lines:
  "list_all input_ok items \<Longrightarrow>
   map_py parse_line (filter (\<lambda>l. py_strip l \<noteq> []) (map input_line items))
     = Inr (map projr (filter (\<lambda>x. \<not> isl x) items))"
proof (induction items)
  case Nil
  show ?case by simp
next
  case (Cons item items)
  then show ?case by (cases item) (simp_all add: tree_line_facts parse_tree_line)
qed

text \<open>Reading the input: a file of lines in the script's format, with blank lines
  anywhere, is read as exactly its trees in the order of the file.\<close>

theorem parse_tree_data_roundtrip:
  assumes "list_all input_ok items"
  shows "parse_tree_data (unlines (map input_line items)) = Inr (map projr (filter (\<lambda>x. \<not> isl x) items))"
proof -
  have "newline \<notin> set (input_line item)" if "item \<in> set items" for item
    using assms that by (cases item) (auto simp: list_all_iff tree_line_facts)
  then have "py_split_on (unlines (map input_line items)) newline [] = map input_line items @ [[]]"
    by (intro split_newline_unlines) auto
  moreover have "py_strip [] = []" by (simp add: py_strip_def)
  ultimately show ?thesis using parse_input_lines [OF assms] by (simp add: parse_tree_data_def)
qed

theorem parse_tree_data_roundtrip_witness:
  "parse_tree_data (unlines (map input_line [Inr (1, 4), Inl ''  '', Inr (0, 3)])) = Inr [(1, 4), (0, 3)]"
proof -
  have "list_all input_ok [Inr (1, 4), Inl ''  '', Inr (0, 3)]" by code_simp
  from parse_tree_data_roundtrip [OF this] show ?thesis by simp
qed

lemma table_computed_exists:
  assumes "tree_data \<noteq> []" and "list_all (\<lambda>(t, l). 0 \<le> t) tree_data"
    and "list_ex (\<lambda>(t, l). 0 < l) tree_data" and "0 < SRAM_NUM"
  obtains st w where "table_computed SRAM_NUM tree_data st w"
proof -
  obtain mt ml where m: "py_max (map fst tree_data) = Inr mt" "py_max (map snd tree_data) = Inr ml"
    using assms(1) py_max_nonempty [of "map fst tree_data"] py_max_nonempty [of "map snd tree_data"]
    by auto
  obtain st where st: "compute_layout SRAM_NUM tree_data = Inr st"
    using compute_layout_eq [OF assms(4)] by blast
  have len: "length (start_addr st) = nat SRAM_NUM"
    using st assms(4) by (auto simp: compute_layout_eq empty_layout_def)
  then have "start_addr st \<noteq> []" using assms(4) by auto
  then obtain ma where ma: "py_max (start_addr st) = Inr ma" using py_max_nonempty by blast
  obtain t l where tl: "(t, l) \<in> set tree_data" "0 < l" using assms(3) by (auto simp: list_ex_iff)
  have "0 \<le> t" using assms(2) tl(1) by (auto simp: list_all_iff)
  moreover have "t \<le> mt" "l \<le> ml" using py_max_ge [OF m(1)] py_max_ge [OF m(2)] tl(1) by force+
  moreover have "0 < ma"
  proof -
    have "dict_get (start_addr_dict st) (t, 0) \<noteq> None"
      using layout_placed [OF assms(4) st] tl by auto
    then obtain b a where g: "dict_get (start_addr_dict st) (t, 0) = Some (b, a)" by auto
    from layout_key [OF assms(4) st g] have "b = (t + 0) mod SRAM_NUM" by blast
    then have "start_addr st ! nat b \<in> set (start_addr st)"
      using len layout_bank [OF assms(4), of t 0] by (intro nth_mem) (simp add: nat_less_iff)
    from py_max_ge [OF ma this] layout_region [OF assms(4) st g] show ?thesis by simp
  qed
  ultimately have "\<exists>w. compute_widths SRAM_NUM mt ml st = Inr w"
    using ma tl(2) assms(4) by (simp add: compute_widths_def math_ceil_log2_def)
  with m st that show thesis by (auto simp: table_computed_def)
qed

text \<open>C30. The script succeeds: for a readable input that names at least one tree with a level,
  with no negative tree identifier, and for every positive number of SRAMs, it ends without an
  exception and writes exactly two files, the rendered table of the placed levels in the order
  of placement and the address table of the layout.\<close>

theorem gen_SRAM_layout_succeeds:
  assumes "fs file_path = Some content" and "parse_tree_data content = Inr tree_data"
    and "list_all (\<lambda>(t, l). 0 \<le> t) tree_data" and "list_ex (\<lambda>(t, l). 0 < l) tree_data"
    and "py_int answer = Inr SRAM_NUM" and "0 < SRAM_NUM"
    and "output_paths file_path = (tb_path, mem_path)"
  shows "\<exists>st w. table_computed SRAM_NUM tree_data st w \<and>
    gen_SRAM_layout render file_path answer fs =
      (fs(tb_path \<mapsto> render [''tree_id'', ''level'', ''SRAM_id'', ''start_address''] (table_rows st) @ [newline],
          mem_path \<mapsto> unlines (mem_rows w st)), None)"
proof -
  have "tree_data \<noteq> []" using assms(4) by auto
  from table_computed_exists [OF this assms(3,4,6)] obtain st w
    where tc: "table_computed SRAM_NUM tree_data st w" .
  then obtain mt ml where "py_max (map fst tree_data) = Inr mt" "py_max (map snd tree_data) = Inr ml"
    "compute_layout SRAM_NUM tree_data = Inr st" "compute_widths SRAM_NUM mt ml st = Inr w"
    by (auto simp: table_computed_def split: sum.splits)
  then have "gen_SRAM_layout render file_path answer fs =
      (fs(tb_path \<mapsto> render [''tree_id'', ''level'', ''SRAM_id'', ''start_address''] (table_rows st) @ [newline],
          mem_path \<mapsto> unlines (mem_rows w st)), None)"
    using assms by (simp add: gen_SRAM_layout_def)
  with tc show ?thesis by blast
qed

theorem gen_SRAM_layout_succeeds_witness:
  "\<exists>st w. table_computed 2 [(1, 2), (0, 3)] st w \<and>
    gen_SRAM_layout (\<lambda>names rows. concat (map (concat \<circ> map py_str) rows)) ''d/t.txt'' ''2''
      [''d/t.txt'' \<mapsto> unlines (map input_line [Inr (1, 2), Inr (0, 3)])] =
    ([''d/t.txt'' \<mapsto> unlines (map input_line [Inr (1, 2), Inr (0, 3)])]
      (''d/t.tb'' \<mapsto> (\<lambda>names rows. concat (map (concat \<circ> map py_str) rows))
         [''tree_id'', ''level'', ''SRAM_id'', ''start_address''] (table_rows st) @ [newline],
       ''d/t.mem'' \<mapsto> unlines (mem_rows w st)), None)"
proof (rule gen_SRAM_layout_succeeds)
  show "parse_tree_data (unlines (map input_line [Inr (1, 2), Inr (0, 3)])) = Inr [(1, 2), (0, 3)]"
    by code_simp
  show "py_int ''2'' = Inr 2" by code_simp
  show "output_paths ''d/t.txt'' = (''d/t.tb'', ''d/t.mem'')" by code_simp
qed simp_all

lemma place_trees_no_SRAM:
  assumes "N \<le> 0" and "start_addr st = []" and "list_ex (\<lambda>(t, l). 0 < l) trees"
  shows "place_trees N trees st = Inl (if N = 0 then ZeroDivisionError else IndexError)"
  using assms(3)
proof (induction trees)
  case Nil
  then show ?case by simp
next
  case (Cons tree trees)
  obtain t l where tl: "tree = (t, l)" by (cases tree)
  show ?case
  proof (cases "nat l")
    case 0
    with Cons tl show ?thesis by simp
  next
    case (Suc k)
    then show ?thesis using assms(1,2) by (simp add: tl py_mod_def py_getitem_def)
  qed
qed



end
