(* ===== verification/File_Names.thy ===== *)
theory File_Names
  imports Py_Prelude
begin

text \<open>
  The functions that derive the names of the files a script reads and writes from the name
  of the compiler's \<open>.output\<close> file: \<open>get_pfmap_file_name\<close>, \<open>get_refoutput_file_name\<close>,
  \<open>get_fig_file_name\<close>, \<open>get_reffig_file_name\<close> and \<open>get_rawdata_file_name\<close> of
  \<open>compiler/draw.py\<close>, \<open>get_trace_file_name\<close> of \<open>compiler/trace2mem.py\<close> and
  \<open>get_ref_file_name\<close> of \<open>compiler/ref2mem.py\<close>. Each raises when the name does not hold
  \<open>.output\<close>; the names one script derives from one input never clash.
\<close>

abbreviation not_found_error :: py_error where
  "not_found_error \<equiv> AssertionError ''.output not found in input file name''"

definition get_pfmap_file_name :: "string \<Rightarrow> string py" where
  "get_pfmap_file_name s =
     (let dot_pos = py_find s ''.output''
      in if dot_pos = - 1 then Inl not_found_error
         else Inr (take (nat dot_pos) s @ ''.pfmap'' @ drop (nat (dot_pos + 7)) s))"

definition get_refoutput_file_name :: "string \<Rightarrow> string py" where
  "get_refoutput_file_name s =
     (let dot_pos = py_find s ''.output''
      in if dot_pos = - 1 then Inl not_found_error
         else Inr (take (nat dot_pos) s @ ''.ref'' @ drop (nat (dot_pos + 7)) s))"

definition get_fig_file_name :: "string \<Rightarrow> string py" where
  "get_fig_file_name s =
     (let dot_pos = py_find s ''.output''
      in if dot_pos = - 1 then Inl not_found_error
         else Inr (take (nat dot_pos) s @ ''.png'' @ drop (nat (dot_pos + 7)) s))"

definition get_reffig_file_name :: "string \<Rightarrow> string py" where
  "get_reffig_file_name s =
     (let dot_pos = py_find s ''.output''
      in if dot_pos = - 1 then Inl not_found_error
         else Inr (take (nat dot_pos) s @ ''.ref.png'' @ drop (nat (dot_pos + 7)) s))"

definition get_rawdata_file_name :: "string \<Rightarrow> string py" where
  "get_rawdata_file_name s =
     (let dot_pos = py_find s ''.output''
      in if dot_pos = - 1 then Inl not_found_error
         else Inr (take (nat dot_pos) s @ ''.rawdata.txt'' @ drop (nat (dot_pos + 7)) s))"

definition get_trace_file_name :: "string \<Rightarrow> string py" where
  "get_trace_file_name s =
     (let dot_pos = py_find s ''.output''
      in if dot_pos = - 1 then Inl not_found_error
         else Inr (take (nat dot_pos) s @ ''.trace'' @ drop (nat (dot_pos + 7)) s))"

definition get_ref_file_name :: "string \<Rightarrow> string py" where
  "get_ref_file_name s =
     (let dot_pos = py_find s ''.output''
      in if dot_pos = - 1 then Inl not_found_error
         else Inr (take (nat dot_pos) s @ ''.ref''))"

lemmas file_name_defs =
  get_pfmap_file_name_def get_refoutput_file_name_def get_fig_file_name_def
  get_reffig_file_name_def get_rawdata_file_name_def get_trace_file_name_def
  get_ref_file_name_def

text \<open>
  The contract the seven functions share: the name is cut at the first \<open>.output\<close> into
  what stands before and after it, and the function puts its own tag in between.
\<close>

definition cut_output :: "string \<Rightarrow> (string \<times> string) option" where
  "cut_output s = map_option (\<lambda>i. (take i s, drop (i + 7) s)) (find_sub ''.output'' s)"

lemma cut_output_None: "cut_output s = None \<longleftrightarrow> \<not> (\<exists>a b. s = a @ ''.output'' @ b)"
  by (simp only: cut_output_def option.map_disc_iff find_sub_None)

lemma cut_output_Some: "cut_output s = Some (a, b) \<Longrightarrow> s = a @ ''.output'' @ b"
proof -
  assume "cut_output s = Some (a, b)"
  then obtain i where i: "find_sub ''.output'' s = Some i" "a = take i s" "b = drop (i + 7) s"
    by (auto simp: cut_output_def)
  have "length ''.output'' = 7" by simp
  with find_sub_Some [OF i(1)] i(2,3) show ?thesis by (simp only:)
qed

locale tagged_name =
  fixes name :: "string \<Rightarrow> string py" and tag :: string
  assumes name_eq:
    "name s = (case cut_output s of None \<Rightarrow> Inl not_found_error | Some (a, b) \<Rightarrow> Inr (a @ tag @ b))"
begin

lemma name_error_iff: "name s = Inl e \<longleftrightarrow> cut_output s = None \<and> e = not_found_error"
  by (auto simp: name_eq split: option.splits)

lemma name_ok: "cut_output s = Some (a, b) \<Longrightarrow> name s = Inr (a @ tag @ b)"
  by (simp add: name_eq)

lemma name_inj_tag:
  assumes "tagged_name other tag'" and "name s = Inr p" and "other s = Inr q" and "p = q"
  shows "tag = tag'"
proof -
  obtain a b where c: "cut_output s = Some (a, b)"
    using assms(2) by (auto simp: name_eq split: option.splits)
  have "other s = Inr (a @ tag' @ b)"
    using tagged_name.name_ok [OF assms(1) c] .
  with assms name_ok [OF c] have "a @ tag @ b = a @ tag' @ b" by simp
  then show ?thesis by simp
qed

end

lemma py_find_cut:
  "(let i = py_find s ''.output'' in if i = - 1 then Inl e else Inr (take (nat i) s @ tag @ drop (nat (i + 7)) s))
   = (case cut_output s of None \<Rightarrow> Inl e | Some (a, b) \<Rightarrow> Inr (a @ tag @ b))"
  by (auto simp: py_find_def cut_output_def nat_add_distrib split: option.splits)

interpretation pfmap_name: tagged_name get_pfmap_file_name "''.pfmap''"
  by unfold_locales (simp only: get_pfmap_file_name_def py_find_cut)

interpretation refoutput_name: tagged_name get_refoutput_file_name "''.ref''"
  by unfold_locales (simp only: get_refoutput_file_name_def py_find_cut)

interpretation fig_name: tagged_name get_fig_file_name "''.png''"
  by unfold_locales (simp only: get_fig_file_name_def py_find_cut)

interpretation reffig_name: tagged_name get_reffig_file_name "''.ref.png''"
  by unfold_locales (simp only: get_reffig_file_name_def py_find_cut)

interpretation rawdata_name: tagged_name get_rawdata_file_name "''.rawdata.txt''"
  by unfold_locales (simp only: get_rawdata_file_name_def py_find_cut)

interpretation trace_name: tagged_name get_trace_file_name "''.trace''"
  by unfold_locales (simp only: get_trace_file_name_def py_find_cut)

lemma ref_name_eq:
  "get_ref_file_name s =
     (case cut_output s of None \<Rightarrow> Inl not_found_error | Some (a, b) \<Rightarrow> Inr (a @ ''.ref''))"
  by (auto simp: get_ref_file_name_def py_find_def cut_output_def split: option.splits)

lemma retag_neq: "t \<noteq> t' \<Longrightarrow> a @ t @ b \<noteq> a @ t' @ b"
  by simp

section \<open>Properties\<close>

text \<open>The seven functions that derive a file name raise exactly when the input name
  holds no \<open>.output\<close>, and then with the message of their assertion.\<close>

theorem file_name_error:
  "(get_pfmap_file_name s = Inl e \<longleftrightarrow> (\<nexists>a b. s = a @ ''.output'' @ b) \<and> e = not_found_error) \<and>
   (get_refoutput_file_name s = Inl e \<longleftrightarrow> (\<nexists>a b. s = a @ ''.output'' @ b) \<and> e = not_found_error) \<and>
   (get_fig_file_name s = Inl e \<longleftrightarrow> (\<nexists>a b. s = a @ ''.output'' @ b) \<and> e = not_found_error) \<and>
   (get_reffig_file_name s = Inl e \<longleftrightarrow> (\<nexists>a b. s = a @ ''.output'' @ b) \<and> e = not_found_error) \<and>
   (get_rawdata_file_name s = Inl e \<longleftrightarrow> (\<nexists>a b. s = a @ ''.output'' @ b) \<and> e = not_found_error) \<and>
   (get_trace_file_name s = Inl e \<longleftrightarrow> (\<nexists>a b. s = a @ ''.output'' @ b) \<and> e = not_found_error) \<and>
   (get_ref_file_name s = Inl e \<longleftrightarrow> (\<nexists>a b. s = a @ ''.output'' @ b) \<and> e = not_found_error)"
proof -
  have "get_ref_file_name s = Inl e \<longleftrightarrow> cut_output s = None \<and> e = not_found_error"
    by (auto simp: ref_name_eq split: option.splits)
  then show ?thesis
    by (simp only: pfmap_name.name_error_iff refoutput_name.name_error_iff fig_name.name_error_iff
        reffig_name.name_error_iff rawdata_name.name_error_iff trace_name.name_error_iff
        cut_output_None simp_thms)
qed

text \<open>The files \<open>draw.py\<close> reads (the input, the packet-to-flow map, the reference
  output) and the three it writes (the raw data, the figure and the figure of its start)
  have six different names: no run overwrites what it reads, and no two of its outputs
  collide.\<close>

theorem draw_files_distinct:
  assumes "get_pfmap_file_name s = Inr pfmap" and "get_refoutput_file_name s = Inr refoutput"
    and "get_reffig_file_name s = Inr reffig" and "get_rawdata_file_name s = Inr rawdata"
  shows "distinct [s, pfmap, refoutput, rawdata, reffig, reffig @ ''.start.png'']"
proof -
  obtain a b where c: "cut_output s = Some (a, b)"
    using assms(1) by (cases "cut_output s") (auto simp: pfmap_name.name_eq)
  have eqs: "s = a @ ''.output'' @ b" "pfmap = a @ ''.pfmap'' @ b" "refoutput = a @ ''.ref'' @ b"
    "reffig = a @ ''.ref.png'' @ b" "rawdata = a @ ''.rawdata.txt'' @ b"
    using assms c pfmap_name.name_ok [OF c] refoutput_name.name_ok [OF c]
      reffig_name.name_ok [OF c] rawdata_name.name_ok [OF c] cut_output_Some [OF c]
    by (simp_all only: sum.inject)
  have len: "length (reffig @ ''.start.png'') = length a + length b + 18"
    by (simp add: eqs)
  have "reffig @ ''.start.png'' \<notin> set [s, pfmap, refoutput, rawdata, reffig]"
  proof
    assume "reffig @ ''.start.png'' \<in> set [s, pfmap, refoutput, rawdata, reffig]"
    then have "length (reffig @ ''.start.png'') \<in> length ` set [s, pfmap, refoutput, rawdata, reffig]"
      by (rule imageI)
    then show False unfolding len by (simp add: eqs)
  qed
  moreover have "distinct [s, pfmap, refoutput, rawdata, reffig]"
    unfolding eqs by (simp add: retag_neq)
  ultimately show ?thesis by auto
qed

text \<open>The hypotheses hold for the name the make file passes.\<close>

theorem draw_files_distinct_witness:
  "distinct [''t.output'', ''t.pfmap'', ''t.ref'', ''t.rawdata.txt'', ''t.ref.png'',
     ''t.ref.png.start.png'']"
  using draw_files_distinct [of "''t.output''" "''t.pfmap''" "''t.ref''" "''t.ref.png''"
      "''t.rawdata.txt''"]
  by (simp add: file_name_defs py_find_def)

end
