(* ===== verification/Trace2mem.thy ===== *)
theory Trace2mem
  imports File_Names
begin

text \<open>
  \<open>compiler/trace2mem.py\<close>: the readable trace of a scheduling run becomes the memory image
  the hardware test bench loads, one row of \<open>TOTAL_WIDTH\<close> bits per trace line, filled up to
  \<open>ROM_SIZE\<close> rows. The other side of the interface, the module \<open>TRACE_READER\<close> of
  \<open>hardware/BMW_PIFO_SRAM_vPIFO/TraceReader.sv\<close>, cuts the fields out of a row by bit
  positions; the main result is that it recovers what the trace line says.
\<close>

section \<open>The script\<close>

definition TREE_NUM_BITS :: nat where "TREE_NUM_BITS = 2"

definition IDLECYCLE_BITS :: nat where "IDLECYCLE_BITS = 8"

definition PTW :: nat where "PTW = 24"

definition MTW :: nat where "MTW = 13"

definition ROM_SIZE :: nat where "ROM_SIZE = 16384"

definition TOTAL_WIDTH :: nat where
  "TOTAL_WIDTH = max IDLECYCLE_BITS (PTW + TREE_NUM_BITS + MTW + PTW) + 2"

definition idlecycle_padding :: bool where
  "idlecycle_padding = (IDLECYCLE_BITS < PTW + TREE_NUM_BITS + MTW + PTW)"

definition padding_bits :: nat where
  "padding_bits = nat \<bar>int IDLECYCLE_BITS - int (PTW + TREE_NUM_BITS + MTW + PTW)\<bar>"

definition width_dict :: "(string \<times> nat) list" where
  "width_dict =
     [(''type'', 2), (''priority1'', PTW), (''tree_id'', TREE_NUM_BITS), (''meta'', MTW),
      (''priority0'', PTW), (''idle_cycle'', IDLECYCLE_BITS)]"

lemmas width_defs =
  TREE_NUM_BITS_def IDLECYCLE_BITS_def PTW_def MTW_def TOTAL_WIDTH_def idlecycle_padding_def
  padding_bits_def

text \<open>The zero bits that follow the type field.\<close>

definition item_padding :: "string \<Rightarrow> int \<Rightarrow> string" where
  "item_padding name value =
     (if name = ''type'' \<and> ((idlecycle_padding \<and> value = 0) \<or> (\<not> idlecycle_padding \<and> value = 1))
      then format_bin padding_bits 0 else []) @
     (if name = ''type'' \<and> value = 2 then format_bin (TOTAL_WIDTH - 2) 0 else [])"

text \<open>One \<open>name:value\<close> item: the value is read before the name is checked.\<close>

definition encode_item :: "string \<Rightarrow> string py" where
  "encode_item item =
     (let parts = py_split_on item CHR '':'' []
      in bind_py (py_index parts 0) (\<lambda>part0.
         let name = py_strip part0
         in bind_py (py_index parts 1) (\<lambda>part1.
            bind_py (py_int (py_strip part1)) (\<lambda>value.
            case dict_get width_dict name of
              None \<Rightarrow> Inl (AssertionError [])
            | Some w \<Rightarrow> Inr (format_bin w value @ item_padding name value)))))"

fun encode_items :: "string \<Rightarrow> string list \<Rightarrow> string py" where
  "encode_items binary_result [] = Inr binary_result"
| "encode_items binary_result (item # items) =
     bind_py (encode_item item) (\<lambda>bits. encode_items (binary_result @ bits) items)"

definition encode_line :: "string \<Rightarrow> string py" where
  "encode_line line = encode_items [] (py_split_on line CHR '','' [])"

text \<open>The loop over the lines writes each row as soon as it is complete, so an exception
  leaves the rows before it in the file.\<close>

fun write_lines :: "string \<Rightarrow> string list \<Rightarrow> string \<times> py_error option" where
  "write_lines out [] = (out, None)"
| "write_lines out (line # lines) =
     (case encode_line line of
        Inl e \<Rightarrow> (out, Some e)
      | Inr row \<Rightarrow> write_lines (out @ row @ [newline]) lines)"

definition trace2mem_text :: "string \<Rightarrow> string \<times> py_error option" where
  "trace2mem_text text =
     (let lines = readlines text
      in case write_lines [] lines of
           (out, Some e) \<Rightarrow> (out, Some e)
         | (out, None) \<Rightarrow>
             (out @ unlines (replicate (ROM_SIZE - length lines) (format_bin TOTAL_WIDTH 0)), None))"

definition trace2mem :: "string \<Rightarrow> files \<Rightarrow> run" where
  "trace2mem input_file_path fs =
     (case get_trace_file_name input_file_path of
        Inl e \<Rightarrow> (fs, Some e)
      | Inr readable_file \<Rightarrow>
          (case read_file fs readable_file of
             Inl e \<Rightarrow> (fs, Some e)
           | Inr text \<Rightarrow>
               (case trace2mem_text text of
                  (out, r) \<Rightarrow> (fs(readable_file @ ''.mem'' \<mapsto> out), r))))"

section \<open>The hardware side\<close>

text \<open>\<open>row[hi:lo]\<close> of a row written most significant bit first.\<close>

definition sv_slice :: "nat \<Rightarrow> nat \<Rightarrow> string \<Rightarrow> nat" where
  "sv_slice hi lo row = bits_val (take (Suc hi - lo) (drop (length row - Suc hi) row))"

text \<open>The wires \<open>TRACE_READER\<close> cuts out of a row, for its parameters \<open>PTW\<close>, \<open>MTW\<close>,
  \<open>TREE_NUM_BITS\<close>, \<open>IDLECYCLE_BITS\<close> set to the script's widths.\<close>

record trace_wires =
  i_pop :: bool
  i_push :: bool
  i_push_tree_id :: nat
  i_push_data :: nat
  i_push_priority :: nat
  i_idle_cycle_counter :: nat

definition TRACE_READER :: "string \<Rightarrow> trace_wires" where
  "TRACE_READER i_trace_data =
     \<lparr> i_pop = sv_slice (TOTAL_WIDTH - 1) (TOTAL_WIDTH - 1) i_trace_data = 1,
       i_push = sv_slice (TOTAL_WIDTH - 2) (TOTAL_WIDTH - 2) i_trace_data = 1,
       i_push_tree_id =
         sv_slice (MTW + PTW + TREE_NUM_BITS + PTW - 1) (MTW + PTW + PTW) i_trace_data,
       i_push_data = sv_slice (MTW + PTW + PTW - 1) PTW i_trace_data,
       i_push_priority = sv_slice (PTW - 1) 0 i_trace_data,
       i_idle_cycle_counter = sv_slice (IDLECYCLE_BITS - 1) 0 i_trace_data \<rparr>"

section \<open>Trace lines\<close>

text \<open>The three kinds of line \<open>tagPriorityHandler\<close> of \<open>compiler/SchedStrategy.cpp\<close>
  prints: an idle period, the arrival of a packet with two priorities, a departure.\<close>

datatype trace_entry =
    Idle int
  | Push (push_tree_id: int) (push_meta: int) (push_priority0: int) (push_priority1: int)
  | Pop

fun trace_line :: "trace_entry \<Rightarrow> string" where
  "trace_line (Idle n) = ''type:0, idle_cycle:'' @ py_str n"
| "trace_line (Push t m p0 p1) =
     ''type:1, tree_id:'' @ py_str t @ '', meta:'' @ py_str m @
     '', priority0:'' @ py_str p0 @ '', priority1:'' @ py_str p1"
| "trace_line Pop = ''type:2''"

fun entry_fits :: "trace_entry \<Rightarrow> bool" where
  "entry_fits (Idle n) \<longleftrightarrow> 0 \<le> n \<and> n < 2 ^ IDLECYCLE_BITS"
| "entry_fits (Push t m p0 p1) \<longleftrightarrow>
     (0 \<le> t \<and> t < 2 ^ TREE_NUM_BITS) \<and> (0 \<le> m \<and> m < 2 ^ MTW) \<and>
     (0 \<le> p0 \<and> p0 < 2 ^ PTW) \<and> (0 \<le> p1 \<and> p1 < 2 ^ PTW)"
| "entry_fits Pop \<longleftrightarrow> True"

text \<open>The wires an entry stands for.\<close>

fun entry_seen :: "trace_entry \<Rightarrow> trace_wires \<Rightarrow> bool" where
  "entry_seen (Idle n) w \<longleftrightarrow>
     \<not> i_pop w \<and> \<not> i_push w \<and> int (i_idle_cycle_counter w) = n"
| "entry_seen (Push t m p0 p1) w \<longleftrightarrow>
     \<not> i_pop w \<and> i_push w \<and> int (i_push_tree_id w) = t \<and>
     int (i_push_data w) = m * 2 ^ PTW + p0 \<and> int (i_push_priority w) = p1"
| "entry_seen Pop w \<longleftrightarrow> i_pop w \<and> \<not> i_push w"

section \<open>One line\<close>

text \<open>A line ends with a newline, except perhaps the last one.\<close>

definition line_end :: "string \<Rightarrow> bool" where
  "line_end e = (e = [] \<or> e = [newline])"

lemma line_end_space: "line_end e \<Longrightarrow> \<forall>c \<in> set e. is_space c"
  by (auto simp: line_end_def is_space_def char_code_def)

lemma line_end_plain: "line_end e \<Longrightarrow> CHR '','' \<notin> set e \<and> CHR '':'' \<notin> set e"
  by (auto simp: line_end_def)

lemma split_comma_line:
  "line_end e \<Longrightarrow> split_acc CHR '','' [] acc (py_str n @ e) = [rev acc @ py_str n @ e]"
  using line_end_plain [of e] by (simp add: split_acc_plain)

text \<open>An item of the form \<open>name:value\<close>, with white space around it.\<close>

lemma encode_item_ok:
  assumes w: "dict_get width_dict name = Some w"
    and name: "CHR '':'' \<notin> set (a @ name)" "py_strip (a @ name) = name"
    and e: "\<forall>c \<in> set e. is_space c" "CHR '':'' \<notin> set e"
  shows "encode_item (a @ name @ CHR '':'' # py_str n @ e)
    = Inr (format_bin w n @ item_padding name n)"
proof -
  have "py_split_on (a @ name @ CHR '':'' # py_str n @ e) CHR '':'' [] = [a @ name, py_str n @ e]"
    using name(1) e(2) split_acc_field1 [of "CHR '':''" "a @ name" "[]" "py_str n @ e"]
    by (simp add: split_acc_plain)
  then show ?thesis
    using w name(2) e(1) by (simp add: encode_item_def py_int_str)
qed

lemma encode_item_fields:
  "\<lbrakk>\<forall>c \<in> set e. is_space c; CHR '':'' \<notin> set e\<rbrakk> \<Longrightarrow>
     encode_item ('' idle_cycle:'' @ py_str n @ e) = Inr (format_bin IDLECYCLE_BITS n)"
  "\<lbrakk>\<forall>c \<in> set e. is_space c; CHR '':'' \<notin> set e\<rbrakk> \<Longrightarrow>
     encode_item ('' tree_id:'' @ py_str n @ e) = Inr (format_bin TREE_NUM_BITS n)"
  "\<lbrakk>\<forall>c \<in> set e. is_space c; CHR '':'' \<notin> set e\<rbrakk> \<Longrightarrow>
     encode_item ('' meta:'' @ py_str n @ e) = Inr (format_bin MTW n)"
  "\<lbrakk>\<forall>c \<in> set e. is_space c; CHR '':'' \<notin> set e\<rbrakk> \<Longrightarrow>
     encode_item ('' priority0:'' @ py_str n @ e) = Inr (format_bin PTW n)"
  "\<lbrakk>\<forall>c \<in> set e. is_space c; CHR '':'' \<notin> set e\<rbrakk> \<Longrightarrow>
     encode_item ('' priority1:'' @ py_str n @ e) = Inr (format_bin PTW n)"
  using encode_item_ok [of "''idle_cycle''" IDLECYCLE_BITS "'' ''" e n]
    encode_item_ok [of "''tree_id''" TREE_NUM_BITS "'' ''" e n]
    encode_item_ok [of "''meta''" MTW "'' ''" e n]
    encode_item_ok [of "''priority0''" PTW "'' ''" e n]
    encode_item_ok [of "''priority1''" PTW "'' ''" e n]
  by (simp_all add: width_dict_def dict_get_def item_padding_def py_strip_def is_space_def char_code_def)

lemma encode_item_type:
  "encode_item ''type:0'' = Inr (format_bin 2 0 @ format_bin padding_bits 0)"
  "encode_item ''type:1'' = Inr (format_bin 2 1)"
  "\<lbrakk>\<forall>c \<in> set e. is_space c; CHR '':'' \<notin> set e\<rbrakk> \<Longrightarrow>
     encode_item (''type:2'' @ e) = Inr (format_bin 2 2 @ format_bin (TOTAL_WIDTH - 2) 0)"
  using encode_item_ok [of "''type''" 2 "[]" "[]" 0]
    encode_item_ok [of "''type''" 2 "[]" "[]" 1]
    encode_item_ok [of "''type''" 2 "[]" e 2]
  by (simp_all add: width_dict_def dict_get_def item_padding_def py_strip_def is_space_def
      char_code_def width_defs py_str_small)

fun entry_row :: "trace_entry \<Rightarrow> string" where
  "entry_row (Idle n) = ''00'' @ format_bin padding_bits 0 @ format_bin IDLECYCLE_BITS n"
| "entry_row (Push t m p0 p1) =
     ''01'' @ format_bin TREE_NUM_BITS t @ format_bin MTW m @ format_bin PTW p0 @ format_bin PTW p1"
| "entry_row Pop = ''10'' @ format_bin (TOTAL_WIDTH - 2) 0"

lemma format_type: "format_bin 2 0 = ''00''" "format_bin 2 1 = ''01''" "format_bin 2 2 = ''10''"
  by code_simp+

lemma space_ends:
  "line_end e \<Longrightarrow> (\<forall>c \<in> set e. is_space c) \<and> CHR '':'' \<notin> set e"
  using line_end_space line_end_plain by blast

text \<open>The items of the three kinds of line.\<close>

lemma trace_line_items:
  assumes "line_end e"
  shows "py_split_on (trace_line (Idle n) @ e) CHR '','' [] = [''type:0'', '' idle_cycle:'' @ py_str n @ e]"
    and "py_split_on (trace_line (Push t m p0 p1) @ e) CHR '','' []
      = [''type:1'', '' tree_id:'' @ py_str t, '' meta:'' @ py_str m, '' priority0:'' @ py_str p0,
         '' priority1:'' @ py_str p1 @ e]"
    and "py_split_on (trace_line Pop @ e) CHR '','' [] = [''type:2'' @ e]"
  using assms line_end_plain [OF assms]
  by (simp_all add: split_comma_line split_acc_field1 split_acc_plain)

lemma encode_line_entry:
  assumes "line_end e"
  shows "encode_line (trace_line x @ e) = Inr (entry_row x)"
proof (cases x)
  case (Idle n)
  show ?thesis
    using space_ends [OF assms]
    unfolding Idle encode_line_def trace_line_items(1) [OF assms]
    by (simp add: encode_item_type(1) encode_item_fields(1) format_type del: append_Cons)
next
  case (Push t m p0 p1)
  show ?thesis
    using space_ends [OF assms] encode_item_fields(2) [of "[]" t] encode_item_fields(3) [of "[]" m]
      encode_item_fields(4) [of "[]" p0]
    unfolding Push encode_line_def trace_line_items(2) [OF assms]
    by (simp add: encode_item_type(2) encode_item_fields(5) format_type del: append_Cons)
next
  case Pop
  show ?thesis
    using space_ends [OF assms]
    unfolding Pop encode_line_def trace_line_items(3) [OF assms]
    by (simp add: encode_item_type(3) format_type del: append_Cons)
qed

section \<open>Rows and wires\<close>

interpretation ptw: bit_field "format_bin PTW" PTW
  by (rule format_bin_field) (simp add: PTW_def)

interpretation mtw: bit_field "format_bin MTW" MTW
  by (rule format_bin_field) (simp add: MTW_def)

interpretation tree_id: bit_field "format_bin TREE_NUM_BITS" TREE_NUM_BITS
  by (rule format_bin_field) (simp add: TREE_NUM_BITS_def)

interpretation idle_cycle: bit_field "format_bin IDLECYCLE_BITS" IDLECYCLE_BITS
  by (rule format_bin_field) (simp add: IDLECYCLE_BITS_def)

lemma sv_slice_field:
  assumes "row = a @ f @ b" and "length b = lo" and "length f = Suc hi - lo" and "lo \<le> hi"
  shows "sv_slice hi lo row = bits_val f"
  using assms by (simp add: sv_slice_def)

lemma length_zeros: "0 < k \<Longrightarrow> length (format_bin k 0) = k"
  by (rule length_format_bin) simp_all

lemma entry_row_length: "entry_fits x \<Longrightarrow> length (entry_row x) = TOTAL_WIDTH"
  by (cases x)
    (simp_all add: ptw.enc_length mtw.enc_length tree_id.enc_length idle_cycle.enc_length
      length_zeros, simp_all add: width_defs length_zeros)

lemma entry_row_bits: "entry_fits x \<Longrightarrow> is_bits (entry_row x)"
  by (cases x) simp_all

lemma entry_seen_Idle:
  assumes "entry_fits (Idle n)"
  shows "entry_seen (Idle n) (TRACE_READER (entry_row (Idle n)))"
proof -
  let ?z = "format_bin padding_bits 0" and ?n = "format_bin IDLECYCLE_BITS n"
  have n: "0 \<le> n" "n < 2 ^ IDLECYCLE_BITS" using assms by auto
  have len: "length ?z = 55" "length ?n = 8"
    using idle_cycle.enc_length [OF n] by (simp_all add: length_zeros width_defs)
  have "sv_slice (TOTAL_WIDTH - 1) (TOTAL_WIDTH - 1) (entry_row (Idle n)) = bits_val ''0''"
    by (rule sv_slice_field [where a = "[]" and b = "''0'' @ ?z @ ?n"])
      (simp_all add: len, simp_all add: width_defs)
  moreover have "sv_slice (TOTAL_WIDTH - 2) (TOTAL_WIDTH - 2) (entry_row (Idle n)) = bits_val ''0''"
    by (rule sv_slice_field [where a = "''0''" and b = "?z @ ?n"])
      (simp_all add: len, simp_all add: width_defs)
  moreover have "sv_slice (IDLECYCLE_BITS - 1) 0 (entry_row (Idle n)) = bits_val ?n"
    by (rule sv_slice_field [where a = "''00'' @ ?z" and b = "[]"])
      (simp_all add: len, simp_all add: width_defs)
  ultimately show ?thesis
    using n by (simp add: TRACE_READER_def bits_val_def [of "[_]"] idle_cycle.enc_val)
qed

lemma entry_seen_Push:
  assumes "entry_fits (Push t m p0 p1)"
  shows "entry_seen (Push t m p0 p1) (TRACE_READER (entry_row (Push t m p0 p1)))"
proof -
  let ?t = "format_bin TREE_NUM_BITS t" and ?m = "format_bin MTW m"
  let ?p0 = "format_bin PTW p0" and ?p1 = "format_bin PTW p1"
  have b: "0 \<le> t" "t < 2 ^ TREE_NUM_BITS" "0 \<le> m" "m < 2 ^ MTW" "0 \<le> p0" "p0 < 2 ^ PTW"
    "0 \<le> p1" "p1 < 2 ^ PTW"
    using assms by auto
  have len: "length ?t = 2" "length ?m = 13" "length ?p0 = 24" "length ?p1 = 24"
    using tree_id.enc_length [OF b(1,2)] mtw.enc_length [OF b(3,4)] ptw.enc_length [OF b(5,6)]
      ptw.enc_length [OF b(7,8)] by (simp_all add: width_defs)
  have "sv_slice (TOTAL_WIDTH - 1) (TOTAL_WIDTH - 1) (entry_row (Push t m p0 p1)) = bits_val ''0''"
    by (rule sv_slice_field [where a = "[]" and b = "''1'' @ ?t @ ?m @ ?p0 @ ?p1"])
      (simp_all add: len, simp_all add: width_defs)
  moreover have "sv_slice (TOTAL_WIDTH - 2) (TOTAL_WIDTH - 2) (entry_row (Push t m p0 p1)) = bits_val ''1''"
    by (rule sv_slice_field [where a = "''0''" and b = "?t @ ?m @ ?p0 @ ?p1"])
      (simp_all add: len, simp_all add: width_defs)
  moreover have "sv_slice (MTW + PTW + TREE_NUM_BITS + PTW - 1) (MTW + PTW + PTW) (entry_row (Push t m p0 p1))
      = bits_val ?t"
    by (rule sv_slice_field [where a = "''01''" and b = "?m @ ?p0 @ ?p1"])
      (simp_all add: len, simp_all add: width_defs)
  moreover have "sv_slice (MTW + PTW + PTW - 1) PTW (entry_row (Push t m p0 p1)) = bits_val (?m @ ?p0)"
    by (rule sv_slice_field [where a = "''01'' @ ?t" and b = "?p1"])
      (simp_all add: len, simp_all add: width_defs)
  moreover have "sv_slice (PTW - 1) 0 (entry_row (Push t m p0 p1)) = bits_val ?p1"
    by (rule sv_slice_field [where a = "''01'' @ ?t @ ?m @ ?p0" and b = "[]"])
      (simp_all add: len, simp_all add: width_defs)
  ultimately show ?thesis
    using b len by (simp add: TRACE_READER_def bits_val_def [of "[_]"] bits_val_append PTW_def)
qed

lemma entry_seen_Pop:
  shows "entry_seen Pop (TRACE_READER (entry_row Pop))"
proof -
  let ?z = "format_bin (TOTAL_WIDTH - 2) 0"
  have len: "length ?z = 63" by (simp add: length_zeros width_defs)
  have "sv_slice (TOTAL_WIDTH - 1) (TOTAL_WIDTH - 1) (entry_row Pop) = bits_val ''1''"
    by (rule sv_slice_field [where a = "[]" and b = "''0'' @ ?z"])
      (simp_all add: len, simp_all add: width_defs)
  moreover have "sv_slice (TOTAL_WIDTH - 2) (TOTAL_WIDTH - 2) (entry_row Pop) = bits_val ''0''"
    by (rule sv_slice_field [where a = "''1''" and b = ?z])
      (simp_all add: len, simp_all add: width_defs)
  ultimately show ?thesis
    by (simp add: TRACE_READER_def bits_val_def [of "[_]"])
qed

lemma entry_row_seen: "entry_fits x \<Longrightarrow> entry_seen x (TRACE_READER (entry_row x))"
  by (cases x) (simp_all only: entry_seen_Idle entry_seen_Push entry_seen_Pop)

section \<open>The whole image\<close>

lemma newline_trace_line: "newline \<notin> set (trace_line x)"
  by (cases x) auto

lemma write_lines_rows:
  "map_py encode_line ls = Inr rows \<Longrightarrow> write_lines out ls = (out @ unlines rows, None)"
proof (induction ls arbitrary: out rows)
  case Nil
  then show ?case by simp
next
  case (Cons l ls)
  then obtain r rs where "encode_line l = Inr r" "map_py encode_line ls = Inr rs" "rows = r # rs"
    by auto
  with Cons.IH [of rs] show ?case by simp
qed

lemma write_lines_error:
  "map_py encode_line ls = Inr rows \<Longrightarrow> encode_line l = Inl e \<Longrightarrow>
   write_lines out (ls @ l # ms) = (out @ unlines rows, Some e)"
proof (induction ls arbitrary: out rows)
  case Nil
  then show ?case by simp
next
  case (Cons k ls)
  then obtain r rs where "encode_line k = Inr r" "map_py encode_line ls = Inr rs" "rows = r # rs"
    by auto
  with Cons.IH [of rs] Cons.prems(2) show ?case by simp
qed

lemma write_lines_ok:
  "write_lines out ls = (out', None) \<Longrightarrow> \<exists>rows. map_py encode_line ls = Inr rows"
proof (induction ls arbitrary: out)
  case Nil
  then show ?case by simp
next
  case (Cons l ls)
  then show ?case by (cases "encode_line l") auto
qed

definition filler_rows :: "nat \<Rightarrow> string list" where
  "filler_rows n = replicate (ROM_SIZE - n) (format_bin TOTAL_WIDTH 0)"

lemma trace2mem_text_rows:
  assumes "map_py encode_line (readlines text) = Inr rows"
  shows "trace2mem_text text = (unlines (rows @ filler_rows (length (readlines text))), None)"
  using write_lines_rows [OF assms] by (simp add: trace2mem_text_def Let_def filler_rows_def)

lemma encode_trace_lines:
  "map_py encode_line (readlines (unlines (map trace_line es))) = Inr (map entry_row es)"
proof -
  have "readlines (unlines (map trace_line es)) = map (\<lambda>l. l @ [newline]) (map trace_line es)"
    by (rule readlines_unlines) (auto simp: newline_trace_line)
  moreover have "line_end [newline]" by (simp add: line_end_def)
  ultimately show ?thesis
    by (auto simp: map_py_eq_Inr list_all2_conv_all_nth encode_line_entry)
qed

text \<open>A filler row is an idle period of no cycles.\<close>

lemma filler_row_idle: "format_bin TOTAL_WIDTH 0 = entry_row (Idle 0)"
  by code_simp

lemma encode_items_eq: "encode_items acc items =
    bind_py (map_py encode_item items) (\<lambda>bs. Inr (acc @ concat bs))"
proof (induction items arbitrary: acc)
  case Nil
  show ?case by simp
next
  case (Cons it its)
  show ?case
    by (cases "encode_item it"; cases "map_py encode_item its") (simp_all add: Cons.IH)
qed

lemma newline_format_bin: "newline \<notin> set (format_bin w n)"
proof -
  have "newline \<notin> set (bin_digits k)" for k
    using is_bits_no_break [OF is_bits_bin_digits] newline_linebreak by blast
  then show ?thesis by (auto simp: format_bin_def Let_def)
qed

lemma newline_encode_item: "encode_item item = Inr bits \<Longrightarrow> newline \<notin> set bits"
  by (auto simp: encode_item_def item_padding_def Let_def newline_format_bin split: option.splits)

lemma newline_encode_line: "encode_line l = Inr row \<Longrightarrow> newline \<notin> set row"
proof -
  assume "encode_line l = Inr row"
  then obtain bs where bs: "map_py encode_item (py_split_on l CHR '','' []) = Inr bs"
    and row: "row = concat bs"
    by (auto simp: encode_line_def encode_items_eq)
  have "newline \<notin> set b" if "b \<in> set bs" for b
    using map_py_set [OF bs that] newline_encode_item by blast
  then show ?thesis using row by auto
qed

section \<open>Properties\<close>

text \<open>C6. Round trip through the hardware: for every trace whose fields fit their widths and
  that has at most \<open>ROM_SIZE\<close> lines, the script succeeds and writes exactly \<open>ROM_SIZE\<close> rows
  of exactly \<open>TOTAL_WIDTH\<close> bits; the wires \<open>TRACE_READER\<close> cuts out of row \<open>i\<close> are those of
  trace line \<open>i\<close>, and every further row reads as an idle period of no cycles.\<close>

theorem trace2mem_roundtrip:
  assumes "list_all entry_fits es" and "length es \<le> ROM_SIZE"
  shows "\<exists>rows. trace2mem_text (unlines (map trace_line es)) = (unlines rows, None) \<and>
    length rows = ROM_SIZE \<and>
    list_all (\<lambda>row. is_bits row \<and> length row = TOTAL_WIDTH) rows \<and>
    (\<forall>i < ROM_SIZE. entry_seen (if i < length es then es ! i else Idle 0) (TRACE_READER (rows ! i)))"
proof -
  let ?f = "filler_rows (length es)"
  let ?rows = "map entry_row es @ ?f"
  have "length (readlines (unlines (map trace_line es))) = length es"
    using map_py_length [OF encode_trace_lines [of es]] by simp
  then have image: "trace2mem_text (unlines (map trace_line es)) = (unlines ?rows, None)"
    using trace2mem_text_rows [OF encode_trace_lines] by simp
  have fits0: "entry_fits (Idle 0)" by simp
  have len: "length ?rows = ROM_SIZE"
    using assms(2) by (simp add: filler_rows_def)
  have nth: "?rows ! i = entry_row (if i < length es then es ! i else Idle 0)" if "i < ROM_SIZE" for i
    using that by (auto simp: nth_append filler_rows_def filler_row_idle)
  have fits: "entry_fits (if i < length es then es ! i else Idle 0)" for i
    using assms(1) fits0 by (auto simp: list_all_length)
  have "list_all (\<lambda>row. is_bits row \<and> length row = TOTAL_WIDTH) ?rows"
    unfolding list_all_length len using nth fits entry_row_bits entry_row_length by metis
  moreover have "\<forall>i < ROM_SIZE. entry_seen (if i < length es then es ! i else Idle 0) (TRACE_READER (?rows ! i))"
    using nth fits entry_row_seen by metis
  ultimately show ?thesis using image len by blast
qed

theorem trace2mem_roundtrip_witness:
  "list_all entry_fits [Idle 10, Push 3 0 105400 7, Pop, Idle 255] \<and>
   (\<exists>rows. trace2mem_text (unlines (map trace_line [Idle 10, Push 3 0 105400 7, Pop, Idle 255])) =
      (unlines rows, None) \<and> length rows = ROM_SIZE \<and>
      entry_seen (Push 3 0 105400 7) (TRACE_READER (rows ! 1)))"
proof -
  let ?es = "[Idle 10, Push 3 0 105400 7, Pop, Idle 255]"
  have fits: "list_all entry_fits ?es" and le: "length ?es \<le> ROM_SIZE" and one: "1 < ROM_SIZE"
    by (simp_all add: width_defs ROM_SIZE_def)
  from trace2mem_roundtrip [OF fits le] obtain rows where
    r: "trace2mem_text (unlines (map trace_line ?es)) = (unlines rows, None)" "length rows = ROM_SIZE"
    and w: "\<forall>i < ROM_SIZE. entry_seen (if i < length ?es then ?es ! i else Idle 0) (TRACE_READER (rows ! i))"
    by blast
  have "(if 1 < length ?es then ?es ! 1 else Idle 0) = Push 3 0 105400 7" by simp
  with w [rule_format, OF one] have "entry_seen (Push 3 0 105400 7) (TRACE_READER (rows ! 1))"
    by (simp only:)
  with fits r show ?thesis by blast
qed

text \<open>A run of \<open>trace2mem.py\<close> that ends normally leaves an image of
  \<open>max ROM_SIZE n\<close> rows for a trace of \<open>n\<close> lines: a short trace is filled up, a long one is
  written in full and is longer than the memory.\<close>

theorem trace2mem_row_count:
  assumes "trace2mem_text text = (out, None)"
  shows "\<exists>rows. out = unlines rows \<and> length rows = max ROM_SIZE (length (readlines text)) \<and>
    list_all (\<lambda>row. newline \<notin> set row) rows"
proof -
  from assms obtain out' where "write_lines [] (readlines text) = (out', None)"
    by (auto simp: trace2mem_text_def Let_def split: prod.splits option.splits)
  then obtain rows where rows: "map_py encode_line (readlines text) = Inr rows"
    using write_lines_ok by blast
  have "out = unlines (rows @ filler_rows (length (readlines text)))"
    using assms trace2mem_text_rows [OF rows] by simp
  moreover have "length (rows @ filler_rows (length (readlines text))) = max ROM_SIZE (length (readlines text))"
    using map_py_length [OF rows] by (simp add: filler_rows_def)
  moreover have "list_all (\<lambda>row. newline \<notin> set row) rows"
    using map_py_set [OF rows] newline_encode_line by (fastforce simp: list_all_iff)
  then have "list_all (\<lambda>row. newline \<notin> set row) (rows @ filler_rows (length (readlines text)))"
    by (auto simp: filler_rows_def list_all_iff newline_format_bin)
  ultimately show ?thesis by blast
qed

theorem trace2mem_row_count_witness:
  "trace2mem_text ''type:2'' = (unlines (entry_row Pop # filler_rows 1), None) \<and>
   (\<exists>rows. unlines (entry_row Pop # filler_rows 1) = unlines rows \<and> length rows = ROM_SIZE)"
proof -
  have r: "readlines ''type:2'' = [''type:2'']" by (simp add: readlines_def)
  have "encode_line ''type:2'' = Inr (entry_row Pop)"
    using encode_line_entry [of "[]" Pop] by (simp add: line_end_def)
  then have t: "trace2mem_text ''type:2'' = (unlines (entry_row Pop # filler_rows 1), None)"
    using trace2mem_text_rows [of "''type:2''"] by (simp add: r)
  from trace2mem_row_count [OF t] show ?thesis
    using t by (auto simp: r ROM_SIZE_def)
qed

text \<open>C31. How a line fails: an item without a colon is an index error (so is every item of
  a blank line), a value that is not an integer is a value error whether or not the name is
  known, and a known integer under an unknown name breaks the assertion. The rows of the
  lines before the failing one are in the image, nothing of the failing line or after it.\<close>

theorem trace2mem_error:
  assumes "readlines text = good @ bad # rest" and "map_py encode_line good = Inr rows"
    and "py_split_on bad CHR '','' [] = items @ item # items'" and "map_py encode_item items = Inr bits"
    and "CHR '':'' \<notin> set item \<and> e = IndexError \<or>
      (\<exists>name v vs. py_split_on item CHR '':'' [] = name # v # vs \<and>
        (py_int (py_strip v) = Inl ValueError \<and> e = ValueError \<or>
         (\<exists>n. py_int (py_strip v) = Inr n) \<and> py_strip name \<notin> set (dict_keys width_dict) \<and>
           e = AssertionError []))"
  shows "trace2mem_text text = (unlines rows, Some e)"
proof -
  have "encode_item item = Inl e"
  proof -
    from assms(5) consider (colon) "CHR '':'' \<notin> set item" "e = IndexError"
      | (invalid) name v vs where "py_split_on item CHR '':'' [] = name # v # vs"
          "py_int (py_strip v) = Inl ValueError" "e = ValueError"
      | (unknown) name v vs n where "py_split_on item CHR '':'' [] = name # v # vs"
          "py_int (py_strip v) = Inr n" "py_strip name \<notin> set (dict_keys width_dict)"
          "e = AssertionError []"
      by blast
    then show ?thesis
    proof cases
      case colon
      then show ?thesis by (simp add: encode_item_def split_acc_plain)
    next
      case invalid
      then show ?thesis by (simp add: encode_item_def)
    next
      case unknown
      then show ?thesis
        using dict_get_keys [of width_dict "py_strip name"]
        by (cases "dict_get width_dict (py_strip name)") (simp_all add: encode_item_def)
    qed
  qed
  then have "encode_line bad = Inl e"
    using assms(3,4) map_py_error [of encode_item items bits item e items']
    by (simp add: encode_line_def encode_items_eq)
  then show ?thesis
    using write_lines_error [OF assms(2)] assms(1) by (simp add: trace2mem_text_def)
qed

theorem trace2mem_error_witness:
  "trace2mem_text (''type:2'' @ [newline] @ ''type:1, color:3'') =
     (unlines [entry_row Pop], Some (AssertionError []))"
proof (rule trace2mem_error [where good = "[''type:2'' @ [newline]]" and bad = "''type:1, color:3''"
      and rest = "[]" and items = "[''type:1'']" and item = "'' color:3''" and items' = "[]"
      and bits = "[''01'']"])
  show "readlines (''type:2'' @ [newline] @ ''type:1, color:3'')
      = [''type:2'' @ [newline]] @ [''type:1, color:3'']"
    by (simp add: readlines_def)
  show "map_py encode_line [''type:2'' @ [newline]] = Inr [entry_row Pop]"
    using encode_line_entry [of "[newline]" Pop] by (simp add: line_end_def)
  show "py_split_on ''type:1, color:3'' CHR '','' [] = [''type:1''] @ '' color:3'' # []"
    by simp
  show "map_py encode_item [''type:1''] = Inr [''01'']"
    by (simp add: encode_item_type(2) format_type)
  have "py_split_on '' color:3'' CHR '':'' [] = ['' color'', ''3'']"
    by simp
  moreover have "py_int (py_strip ''3'') = Inr 3" by code_simp
  moreover have "py_strip '' color'' \<notin> set (dict_keys width_dict)" by code_simp
  ultimately show "CHR '':'' \<notin> set '' color:3'' \<and> AssertionError [] = IndexError \<or>
      (\<exists>name v vs. py_split_on '' color:3'' CHR '':'' [] = name # v # vs \<and>
        (py_int (py_strip v) = Inl ValueError \<and> AssertionError [] = ValueError \<or>
         (\<exists>n. py_int (py_strip v) = Inr n) \<and> py_strip name \<notin> set (dict_keys width_dict) \<and>
           AssertionError [] = AssertionError []))"
    by auto
qed

text \<open>A packet line whose tree identifier needs more than \<open>TREE_NUM_BITS\<close> bits is still accepted, but its
  row is longer than \<open>TOTAL_WIDTH\<close>, so no field of it lies where the reader looks.\<close>

lemma trace2mem_overflow:
  assumes "2 ^ TREE_NUM_BITS \<le> t" and "0 \<le> m" and "0 \<le> p0" and "0 \<le> p1"
  shows "\<exists>row. encode_line (trace_line (Push t m p0 p1)) = Inr row \<and> TOTAL_WIDTH < length row"
proof -
  have t: "0 \<le> t" using assms(1) zero_le_power [of "2::int" TREE_NUM_BITS] by linarith
  have "TREE_NUM_BITS < length (format_bin TREE_NUM_BITS t)"
    using length_format_bin_wide [OF t assms(1)] .
  moreover have "MTW \<le> length (format_bin MTW m)" "PTW \<le> length (format_bin PTW p0)" "PTW \<le> length (format_bin PTW p1)"
    using assms by (simp_all add: format_bin_def Let_def)
  ultimately have "TOTAL_WIDTH < length (entry_row (Push t m p0 p1))"
    by (simp add: TOTAL_WIDTH_def IDLECYCLE_BITS_def PTW_def)
  moreover have "encode_line (trace_line (Push t m p0 p1)) = Inr (entry_row (Push t m p0 p1))"
    using encode_line_entry [of "[]" "Push t m p0 p1"] by (simp only: line_end_def append_Nil2 simp_thms)
  ultimately show ?thesis by blast
qed

text \<open>The script as a whole: it changes no file but the image beside the trace, in
  particular not the trace itself, and a missing trace or a name without \<open>.output\<close> changes
  nothing at all.\<close>

theorem trace2mem_frame:
  "(\<forall>q. fst (trace2mem p fs) q \<noteq> fs q \<longrightarrow> (\<exists>t. get_trace_file_name p = Inr t \<and> q = t @ ''.mem'' \<and> q \<noteq> t \<and> fs t \<noteq> None)) \<and>
   (get_trace_file_name p = Inr t \<and> fs t = None \<longrightarrow> trace2mem p fs = (fs, Some FileNotFoundError)) \<and>
   (get_trace_file_name p = Inl e \<longrightarrow> trace2mem p fs = (fs, Some e)) \<and>
   (get_trace_file_name p = Inr t \<and> fs t = Some text \<longrightarrow>
      trace2mem p fs = (fs(t @ ''.mem'' \<mapsto> fst (trace2mem_text text)), snd (trace2mem_text text)))"
  by (auto simp: trace2mem_def read_file_def split: sum.splits option.splits prod.splits)

theorem trace2mem_frame_witness:
  "get_trace_file_name ''a.output'' = Inr ''a.trace'' \<and>
   trace2mem ''a.output'' Map.empty = (Map.empty, Some FileNotFoundError)"
proof -
  have n: "get_trace_file_name ''a.output'' = Inr ''a.trace''" by code_simp
  then show ?thesis
    using trace2mem_frame [of "''a.output''" Map.empty "''a.trace''" undefined undefined] by simp
qed

end
