(* ===== verification/Trace_Reader.thy ===== *)
theory Trace_Reader
  imports Trace2mem SRAM_Layout
begin

text \<open>
  The module \<open>TRACE_READER\<close> of \<open>hardware/BMW_PIFO_SRAM_vPIFO/TraceReader.sv\<close> as a clocked
  machine, with the memory \<open>TRACE_ROM\<close> of \<open>TraceRom.sv\<close> it is wired to in the test benches
  \<open>TC_SimTop.sv\<close> and \<open>TC_SynTop.sv\<close>. One step is one rising edge of the clock out of reset. The
  parameters of the modules are the widths of \<open>trace2mem.py\<close>, whose image the memory loads.
\<close>

section \<open>Registers and memory\<close>

text \<open>The registers behind the output ports, and the others.\<close>

record ports =
  o_push :: bool
  o_push_priority :: nat
  o_push_tree_id :: nat
  o_push_data :: nat
  o_pop :: bool

record reader =
  idle_cycle_counter :: nat
  out_ports :: ports
  read_addr :: nat

definition ROM_WIDTH :: nat where
  "ROM_WIDTH = ceil_log2 ROM_SIZE"

text \<open>The output registers after a cycle without a packet: ones, except for the tree.\<close>

definition quiet :: ports where
  "quiet = \<lparr> o_push = False, o_push_priority = 2 ^ PTW - 1, o_push_tree_id = 0,
     o_push_data = 2 ^ (MTW + PTW) - 1, o_pop = False \<rparr>"

definition reader_reset :: reader where
  "reader_reset = \<lparr> idle_cycle_counter = 0, out_ports = quiet, read_addr = 0 \<rparr>"

text \<open>\<open>$readmemb\<close> loads one row per line; \<open>TRACE_ROM\<close> answers zeros when it is not read.\<close>

definition readmemb :: "string \<Rightarrow> string list" where
  "readmemb text = map py_strip (readlines text)"

definition TRACE_ROM :: "string list \<Rightarrow> bool \<Rightarrow> nat \<Rightarrow> string" where
  "TRACE_ROM mem i_read_en i_addr = (if i_read_en then mem ! i_addr else replicate TOTAL_WIDTH CHR ''0'')"

section \<open>One clock cycle\<close>

definition o_read :: "reader \<Rightarrow> bool" where
  "o_read s \<longleftrightarrow> idle_cycle_counter s = 0"

definition reader_wires :: "string list \<Rightarrow> reader \<Rightarrow> trace_wires" where
  "reader_wires mem s = TRACE_READER (TRACE_ROM mem (o_read s) (read_addr s))"

definition next_ports :: "trace_wires \<Rightarrow> ports" where
  "next_ports w =
     \<lparr> o_push = i_push w,
       o_push_priority = (if i_push w then i_push_priority w else 2 ^ PTW - 1),
       o_push_tree_id = (if i_push w then i_push_tree_id w else 0),
       o_push_data = (if i_push w then i_push_data w else 2 ^ (MTW + PTW) - 1),
       o_pop = i_pop w \<rparr>"

definition next_idle_cycle_counter :: "trace_wires \<Rightarrow> reader \<Rightarrow> nat" where
  "next_idle_cycle_counter w s =
     (if \<not> i_push w \<and> o_read s then i_idle_cycle_counter w
      else if idle_cycle_counter s = 0 then 0 else idle_cycle_counter s - 1)"

definition next_read_addr :: "reader \<Rightarrow> nat" where
  "next_read_addr s = (if o_read s then (read_addr s + 1) mod 2 ^ ROM_WIDTH else read_addr s)"

definition reader_step :: "string list \<Rightarrow> reader \<Rightarrow> reader" where
  "reader_step mem s =
     \<lparr> idle_cycle_counter = next_idle_cycle_counter (reader_wires mem s) s,
       out_ports = next_ports (reader_wires mem s),
       read_addr = next_read_addr s \<rparr>"

definition o_finish :: "string list \<Rightarrow> reader \<Rightarrow> bool" where
  "o_finish mem s \<longleftrightarrow> o_read s \<and> i_idle_cycle_counter (reader_wires mem s) = 2 ^ IDLECYCLE_BITS - 1"

text \<open>The output ports after each of \<open>k\<close> cycles, and the state at the end.\<close>

fun reader_run :: "string list \<Rightarrow> nat \<Rightarrow> reader \<Rightarrow> ports list \<times> reader" where
  "reader_run mem 0 s = ([], s)"
| "reader_run mem (Suc k) s =
     (let s1 = reader_step mem s; (ps, s2) = reader_run mem k s1 in (out_ports s1 # ps, s2))"

section \<open>What a trace asks for\<close>

text \<open>The ports in the cycles of one entry: an idle period of \<open>n\<close> cycles takes one more, in which
  its row is read.\<close>

fun entry_ports :: "trace_entry \<Rightarrow> ports list" where
  "entry_ports (Idle n) = replicate (Suc (nat n)) quiet"
| "entry_ports (Push t m p0 p1) =
     [\<lparr> o_push = True, o_push_priority = nat p1, o_push_tree_id = nat t,
        o_push_data = nat (m * 2 ^ PTW + p0), o_pop = False \<rparr>]"
| "entry_ports Pop = [quiet\<lparr> o_pop := True \<rparr>]"

definition trace_ports :: "trace_entry list \<Rightarrow> ports list" where
  "trace_ports es = concat (map entry_ports es)"

section \<open>Runs\<close>

lemma reader_run_append:
  "reader_run mem (j + k) s =
     (let (ps, s1) = reader_run mem j s; (qs, s2) = reader_run mem k s1 in (ps @ qs, s2))"
  by (induction j arbitrary: s) (simp_all add: Let_def split_beta)

lemma rom_width: "2 ^ ROM_WIDTH = ROM_SIZE"
  by (simp add: ROM_WIDTH_def ROM_SIZE_def ceil_log2.simps)

lemma zeros_row: "replicate TOTAL_WIDTH CHR ''0'' = entry_row (Idle 0)"
  by code_simp

text \<open>Between two rows the machine waits.\<close>

lemma wait_step:
  assumes "idle_cycle_counter s = Suc c"
  shows "reader_step mem s = \<lparr> idle_cycle_counter = c, out_ports = quiet, read_addr = read_addr s \<rparr>"
proof -
  have "\<not> o_read s" using assms by (simp add: o_read_def)
  moreover have "entry_seen (Idle 0) (TRACE_READER (entry_row (Idle 0)))"
    by (rule entry_row_seen) simp
  ultimately show ?thesis
    using assms by (simp add: reader_step_def reader_wires_def TRACE_ROM_def zeros_row next_ports_def quiet_def
        next_idle_cycle_counter_def next_read_addr_def)
qed

lemma wait_run:
  "idle_cycle_counter s = c \<Longrightarrow> out_ports s = quiet \<Longrightarrow>
   reader_run mem c s = (replicate c quiet, s\<lparr> idle_cycle_counter := 0 \<rparr>)"
  by (induction c arbitrary: s) (simp_all add: wait_step)

text \<open>The machine is at a row: it reads the row in this cycle.\<close>

definition at_row :: "nat \<Rightarrow> reader \<Rightarrow> bool" where
  "at_row a s \<longleftrightarrow> idle_cycle_counter s = 0 \<and> read_addr s = a"

lemma read_step:
  assumes "at_row a s" and "mem ! a = entry_row x"
  shows "reader_step mem s =
    (let w = TRACE_READER (entry_row x)
     in \<lparr> idle_cycle_counter = (if i_push w then 0 else i_idle_cycle_counter w), out_ports = next_ports w,
          read_addr = Suc a mod ROM_SIZE \<rparr>)"
  using assms
  by (simp add: at_row_def reader_step_def reader_wires_def o_read_def TRACE_ROM_def Let_def
      next_idle_cycle_counter_def next_read_addr_def rom_width)

lemma pop_row_counter: "i_idle_cycle_counter (TRACE_READER (entry_row Pop)) = 0"
  by code_simp

lemma entry_run:
  assumes "at_row a s" and "mem ! a = entry_row x" and "entry_fits x"
  shows "\<exists>s'. reader_run mem (length (entry_ports x)) s = (entry_ports x, s') \<and> at_row (Suc a mod ROM_SIZE) s'"
proof -
  note step = read_step [OF assms(1,2)] and seen = entry_row_seen [OF assms(3)]
  show ?thesis
  proof (cases x)
    case (Idle n)
    let ?s = "reader_step mem s"
    have "idle_cycle_counter ?s = nat n" "out_ports ?s = quiet" "read_addr ?s = Suc a mod ROM_SIZE"
      using step seen Idle by (auto simp: Let_def next_ports_def quiet_def)
    with wait_run [OF this(1,2)] show ?thesis by (simp add: Idle at_row_def)
  next
    case (Push t m p0 p1)
    then show ?thesis using step seen by (auto simp: Let_def next_ports_def at_row_def)
  next
    case Pop
    then show ?thesis
      using step seen pop_row_counter by (auto simp: Let_def next_ports_def quiet_def at_row_def)
  qed
qed

lemma trace_run:
  assumes "at_row a s" and "\<forall>i < length es. mem ! (a + i) = entry_row (es ! i)" and "list_all entry_fits es"
    and "a + length es \<le> ROM_SIZE" and "a < ROM_SIZE"
  shows "\<exists>s'. reader_run mem (length (trace_ports es)) s = (trace_ports es, s') \<and>
    at_row ((a + length es) mod ROM_SIZE) s'"
  using assms
proof (induction es arbitrary: a s)
  case Nil
  then show ?case by (simp add: trace_ports_def)
next
  case (Cons x es)
  obtain s1 where s1: "reader_run mem (length (entry_ports x)) s = (entry_ports x, s1)" "at_row (Suc a mod ROM_SIZE) s1"
    using entry_run [OF Cons.prems(1)] Cons.prems(2,3) by (metis add.right_neutral length_greater_0_conv list.pred_inject(2) list.simps(3) nth_Cons_0)
  show ?case
  proof (cases "es = []")
    case True
    with s1 show ?thesis by (simp add: trace_ports_def)
  next
    case False
    then have a: "Suc a < ROM_SIZE" using Cons.prems(4) by (cases es) simp_all
    have "\<forall>i < length es. mem ! (Suc a + i) = entry_row (es ! i)"
      using Cons.prems(2) by (metis Suc_less_eq add_Suc_shift length_Cons nth_Cons_Suc)
    with Cons.IH [of "Suc a" s1] s1(2) a Cons.prems(3,4) obtain s' where
      "reader_run mem (length (trace_ports es)) s1 = (trace_ports es, s')" "at_row ((Suc a + length es) mod ROM_SIZE) s'"
      by auto
    with s1(1) show ?thesis by (simp add: trace_ports_def reader_run_append)
  qed
qed

section \<open>The memory\<close>

text \<open>The rows of the memory: those of the trace, then idle periods of no cycles.\<close>

definition image_entries :: "trace_entry list \<Rightarrow> trace_entry list" where
  "image_entries es = es @ replicate (ROM_SIZE - length es) (Idle 0)"

definition trace_memory :: "trace_entry list \<Rightarrow> string list" where
  "trace_memory es = readmemb (fst (trace2mem_text (unlines (map trace_line es))))"

lemma strip_row:
  assumes "is_bits row"
  shows "py_strip (row @ [newline]) = row"
proof (cases "row = []")
  case False
  have "\<not> is_space CHR ''0''" "\<not> is_space CHR ''1''" by (simp_all add: is_space_def char_code_def)
  then have "\<not> is_space c" if "c \<in> set row" for c
    using that assms unfolding is_bits_def list_all_iff by metis
  then have "\<not> is_space (hd row)" "\<not> is_space (last row)" using False by simp_all
  moreover have "is_space newline" by (simp add: is_space_def char_code_def)
  ultimately show ?thesis using strip_pad [of "[]" "[newline]" row] False by simp
qed (simp add: py_strip_def is_space_def char_code_def)

lemma trace_memory_rows:
  assumes "list_all entry_fits es"
  shows "trace_memory es = map entry_row (image_entries es)"
proof -
  let ?rows = "map entry_row (image_entries es)"
  have "length (readlines (unlines (map trace_line es))) = length es"
    using map_py_length [OF encode_trace_lines [of es]] by simp
  then have "fst (trace2mem_text (unlines (map trace_line es))) = unlines ?rows"
    using trace2mem_text_rows [OF encode_trace_lines]
    by (simp add: filler_rows_def filler_row_idle image_entries_def)
  moreover have bits: "is_bits r" if "r \<in> set ?rows" for r
    using that assms by (auto simp: image_entries_def list_all_iff entry_row_bits)
  then have "readlines (unlines ?rows) = map (\<lambda>l. l @ [newline]) ?rows"
    using is_bits_no_break newline_linebreak by (intro readlines_unlines) blast
  ultimately show ?thesis
    using bits by (simp add: trace_memory_def readmemb_def strip_row cong: map_cong)
qed

lemma image_entries_fit: "list_all entry_fits es \<Longrightarrow> list_all entry_fits (image_entries es)"
  by (auto simp: image_entries_def list_all_iff)

text \<open>One pass over the memory brings the machine back to the first row.\<close>

lemma one_pass:
  assumes "list_all entry_fits es" and "length es \<le> ROM_SIZE" and "at_row 0 s"
  shows "\<exists>s'. reader_run (trace_memory es) (length (trace_ports (image_entries es))) s
      = (trace_ports (image_entries es), s') \<and> at_row 0 s'"
proof -
  have "length (image_entries es) = ROM_SIZE" using assms(2) by (simp add: image_entries_def)
  then show ?thesis
    using trace_run [OF assms(3), of "image_entries es" "trace_memory es"] image_entries_fit [OF assms(1)]
    by (simp add: trace_memory_rows [OF assms(1)] ROM_SIZE_def)
qed

lemma many_passes:
  assumes "list_all entry_fits es" and "length es \<le> ROM_SIZE" and "at_row 0 s"
  shows "fst (reader_run (trace_memory es) (k * length (trace_ports (image_entries es))) s)
    = concat (replicate k (trace_ports (image_entries es)))"
  using assms(3)
proof (induction k arbitrary: s)
  case (Suc k)
  from one_pass [OF assms(1,2) Suc.prems] obtain s' where
    "reader_run (trace_memory es) (length (trace_ports (image_entries es))) s = (trace_ports (image_entries es), s')"
    "at_row 0 s'" by blast
  with Suc.IH [of s'] show ?case by (simp add: reader_run_append split_beta Let_def)
qed simp

lemma trace_ports_image:
  "trace_ports (image_entries es) = trace_ports es @ replicate (ROM_SIZE - length es) quiet"
proof -
  have "trace_ports (replicate k (Idle 0)) = replicate k quiet" for k
    by (induction k) (simp_all add: trace_ports_def)
  then show ?thesis by (simp add: image_entries_def) (simp add: trace_ports_def)
qed

section \<open>The end marker\<close>

lemma low_bits: "k \<le> length s \<Longrightarrow> bits_val (drop (length s - k) s) = bits_val s mod 2 ^ k"
proof -
  assume k: "k \<le> length s"
  let ?t = "drop (length s - k) s"
  have "bits_val s = bits_val (take (length s - k) s) * 2 ^ k + bits_val ?t"
    using bits_val_append [of "take (length s - k) s" ?t] k by simp
  moreover have "bits_val ?t < 2 ^ k" using bits_val_bound [of ?t] k by simp
  ultimately show ?thesis by simp
qed

lemma row_counter:
  assumes "entry_fits (Push t m p0 p1)"
  shows "i_idle_cycle_counter (TRACE_READER (entry_row (Push t m p0 p1))) = nat p1 mod 2 ^ IDLECYCLE_BITS"
proof -
  let ?p = "format_bin PTW p1"
  have p: "0 \<le> p1" "length ?p = 24"
    using assms ptw.enc_length [of p1] by (auto simp: PTW_def)
  have "sv_slice (IDLECYCLE_BITS - 1) 0 (entry_row (Push t m p0 p1)) = bits_val (drop (length ?p - 8) ?p)"
    using p(2) append_take_drop_id [of "length ?p - 8" ?p]
    by (intro sv_slice_field [where b = "[]" and a = "''01'' @ format_bin TREE_NUM_BITS t @ format_bin MTW m @
        format_bin PTW p0 @ take (length ?p - 8) ?p"]) (simp_all add: IDLECYCLE_BITS_def)
  then show ?thesis
    using p low_bits [of 8 ?p] by (simp add: TRACE_READER_def IDLECYCLE_BITS_def)
qed

fun ends_run :: "trace_entry \<Rightarrow> bool" where
  "ends_run (Idle n) \<longleftrightarrow> n = 2 ^ IDLECYCLE_BITS - 1"
| "ends_run (Push t m p0 p1) \<longleftrightarrow> p1 mod 2 ^ IDLECYCLE_BITS = 2 ^ IDLECYCLE_BITS - 1"
| "ends_run Pop \<longleftrightarrow> False"

lemma finish_at_row:
  assumes "at_row a s" and "mem ! a = entry_row x" and "entry_fits x"
  shows "o_finish mem s \<longleftrightarrow> ends_run x"
proof -
  have "o_finish mem s \<longleftrightarrow> i_idle_cycle_counter (TRACE_READER (entry_row x)) = 2 ^ IDLECYCLE_BITS - 1"
    using assms(1,2) by (simp add: o_finish_def at_row_def o_read_def reader_wires_def TRACE_ROM_def)
  also have "\<dots> \<longleftrightarrow> ends_run x"
  proof (cases x)
    case (Idle n)
    then show ?thesis using entry_row_seen [OF assms(3)] by (auto simp: IDLECYCLE_BITS_def)
  next
    case (Push t m p0 p1)
    then have "0 \<le> p1" using assms(3) by simp
    then obtain k where "p1 = int k" by (rule nonneg_int_cases)
    then have "nat p1 mod 256 = 255 \<longleftrightarrow> p1 mod 256 = 255"
      using zmod_int [of k 256] by (simp del: of_nat_mod) linarith
    then show ?thesis
      using row_counter [of t m p0 p1] assms(3) Push by (simp add: IDLECYCLE_BITS_def del: entry_row.simps)
  next
    case Pop
    then show ?thesis by (simp add: pop_row_counter IDLECYCLE_BITS_def del: entry_row.simps)
  qed
  finally show ?thesis .
qed

section \<open>Properties\<close>

text \<open>C7. The reader issues the trace: from reset, with the image \<open>trace2mem.py\<close> writes for a trace
  whose fields fit and that has at most \<open>ROM_SIZE\<close> lines, the output ports show, cycle by cycle,
  every packet and every departure of the trace in order, with its tree, data and priority, for
  one cycle each, and are quiet for \<open>n + 1\<close> cycles for an idle period of \<open>n\<close>, and for the rows
  behind the trace. As nothing stops the reader and its address wraps around, it then issues
  the whole trace again, any number of times.\<close>

theorem trace_reader_issues:
  assumes "list_all entry_fits es" and "length es \<le> ROM_SIZE"
    and "pass = trace_ports es @ replicate (ROM_SIZE - length es) quiet"
  shows "fst (reader_run (readmemb (fst (trace2mem_text (unlines (map trace_line es)))))
      (k * length pass) reader_reset) = concat (replicate k pass)"
proof -
  have "at_row 0 reader_reset" by (simp add: at_row_def reader_reset_def)
  from many_passes [OF assms(1,2) this, of k] show ?thesis
    using assms(3) by (simp only: trace_memory_def trace_ports_image)
qed

theorem trace_reader_issues_witness:
  "list_all entry_fits [Push 3 0 105400 7, Pop] \<and>
   length (trace_ports [Push 3 0 105400 7, Pop] @ replicate (ROM_SIZE - 2) quiet) = ROM_SIZE \<and>
   fst (reader_run (readmemb (fst (trace2mem_text (unlines (map trace_line [Push 3 0 105400 7, Pop])))))
     ROM_SIZE reader_reset) ! 1 = quiet\<lparr> o_pop := True \<rparr>"
proof -
  let ?es = "[Push 3 0 105400 7, Pop]" and ?pass = "trace_ports [Push 3 0 105400 7, Pop] @ replicate (ROM_SIZE - 2) quiet"
  have fits: "list_all entry_fits ?es" and le: "length ?es \<le> ROM_SIZE"
    by (simp_all add: width_defs ROM_SIZE_def)
  have len: "length ?pass = ROM_SIZE" by (simp add: trace_ports_def ROM_SIZE_def)
  have "fst (reader_run (readmemb (fst (trace2mem_text (unlines (map trace_line ?es))))) (1 * length ?pass) reader_reset)
      = concat (replicate 1 ?pass)"
    by (rule trace_reader_issues [OF fits le]) simp
  then have run: "fst (reader_run (readmemb (fst (trace2mem_text (unlines (map trace_line ?es))))) ROM_SIZE reader_reset)
      = ?pass"
    by (simp only: len mult_Suc mult_0 add_0_right replicate_Suc replicate_0 One_nat_def concat.simps append_Nil2)
  have "?pass ! 1 = quiet\<lparr> o_pop := True \<rparr>" by (simp add: trace_ports_def)
  then show ?thesis unfolding run using fits len by blast
qed

text \<open>C33. When the reader signals the end: in the cycle that reads line \<open>i\<close> of the trace, \<open>o_finish\<close> is
  set exactly if the line is an idle period of all ones, the end marker of the compiler, or a
  packet whose second priority ends in eight ones: the counter bits are compared whether or
  not the row is an idle period.\<close>

theorem trace_reader_finish:
  assumes "list_all entry_fits es" and "length es \<le> ROM_SIZE" and "i < length es"
    and "mem = readmemb (fst (trace2mem_text (unlines (map trace_line es))))"
  shows "o_finish mem (snd (reader_run mem (length (trace_ports (take i es))) reader_reset)) \<longleftrightarrow>
    (case es ! i of Idle n \<Rightarrow> n = 255 | Push t m p0 p1 \<Rightarrow> p1 mod 256 = 255 | Pop \<Rightarrow> False)"
proof -
  have mem: "mem = map entry_row (image_entries es)"
    using assms(4) trace_memory_rows [OF assms(1)] by (simp add: trace_memory_def)
  have rows: "mem ! j = entry_row (es ! j)" if "j < length es" for j
    using that by (simp add: mem image_entries_def nth_append)
  have "list_all entry_fits (take i es)" using assms(1) by (auto simp: list_all_iff dest: in_set_takeD)
  moreover have "at_row 0 reader_reset" by (simp add: at_row_def reader_reset_def)
  ultimately obtain s where
    s: "reader_run mem (length (trace_ports (take i es))) reader_reset = (trace_ports (take i es), s)"
    and "at_row (i mod ROM_SIZE) s"
    using trace_run [of 0 reader_reset "take i es" mem] rows assms(2,3) by (auto simp: ROM_SIZE_def)
  then have "at_row i s" using assms(2,3) by simp
  from finish_at_row [OF this rows [OF assms(3)]] s assms(1,3) show ?thesis
    by (cases "es ! i") (auto simp: list_all_length IDLECYCLE_BITS_def)
qed

text \<open>A packet that is not the last line of the trace raises the signal.\<close>

theorem trace_reader_finish_witness:
  "list_all entry_fits [Push 1 0 1 511, Pop, Idle 255] \<and>
   o_finish (readmemb (fst (trace2mem_text (unlines (map trace_line [Push 1 0 1 511, Pop, Idle 255])))))
     reader_reset"
proof -
  let ?es = "[Push 1 0 1 511, Pop, Idle 255]"
  have fits: "list_all entry_fits ?es" and le: "length ?es \<le> ROM_SIZE"
    by (simp_all add: width_defs ROM_SIZE_def)
  let ?mem = "readmemb (fst (trace2mem_text (unlines (map trace_line ?es))))"
  have "reader_run ?mem (length (trace_ports (take 0 ?es))) reader_reset = ([], reader_reset)"
    by (simp add: trace_ports_def)
  with trace_reader_finish [OF fits le, of 0 ?mem] have "o_finish ?mem reader_reset"
    by (simp only: snd_conv refl nth_Cons_0 trace_entry.case list.size zero_less_Suc simp_thms) simp
  with fits show ?thesis by blast
qed

end
