(* ===== verification/Sim_Log.thy ===== *)
theory Sim_Log
  imports Py_Prelude
begin

text \<open>
  The log of the simulator: the lines \<open>write_push_line\<close> and \<open>write_pop_line\<close> of
  \<open>compiler/vPIFO_trace.cpp\<close> print for a packet that enters and one that leaves, without the
  newline that ends them, and logs as lists of events. The counters are \<open>long long\<close>; the
  model prints their value.
\<close>

definition write_push_line :: "int \<Rightarrow> int \<Rightarrow> string" where
  "write_push_line meta push_cnt = ''meta:'' @ py_str meta @ '', push_cyc:'' @ py_str push_cnt"

definition write_pop_line :: "int \<Rightarrow> int \<Rightarrow> string" where
  "write_pop_line meta pop_cnt = ''meta:'' @ py_str meta @ '', pop_cyc:'' @ py_str pop_cnt"

datatype log_event = Push_cyc int int | Pop_cyc int int

fun event_line :: "log_event \<Rightarrow> string" where
  "event_line (Push_cyc m c) = write_push_line m c"
| "event_line (Pop_cyc m c) = write_pop_line m c"

fun event_pair :: "log_event \<Rightarrow> int \<times> int" where
  "event_pair (Push_cyc m c) = (m, c)"
| "event_pair (Pop_cyc m c) = (m, c)"

fun is_push :: "log_event \<Rightarrow> bool" where
  "is_push (Push_cyc m c) \<longleftrightarrow> True"
| "is_push (Pop_cyc m c) \<longleftrightarrow> False"

definition push_pairs :: "log_event list \<Rightarrow> (int \<times> int) list" where
  "push_pairs es = map event_pair (filter is_push es)"

text \<open>In a proper log a packet is pushed before it is popped.\<close>

fun log_proper :: "int set \<Rightarrow> log_event list \<Rightarrow> bool" where
  "log_proper seen [] \<longleftrightarrow> True"
| "log_proper seen (Push_cyc m c # es) \<longleftrightarrow> log_proper (insert m seen) es"
| "log_proper seen (Pop_cyc m c # es) \<longleftrightarrow> m \<in> seen \<and> log_proper seen es"

text \<open>The packets of a log in the order of their arrival, when each was last pushed, and the
  cycle of its last event.\<close>

definition arrivals :: "log_event list \<Rightarrow> int list" where
  "arrivals es = firsts (map fst (push_pairs es))"

definition push_time :: "log_event list \<Rightarrow> int \<Rightarrow> int" where
  "push_time es m = the (map_of (rev (push_pairs es)) m)"

definition last_time :: "log_event list \<Rightarrow> int \<Rightarrow> int" where
  "last_time es m = the (map_of (rev (map event_pair es)) m)"

lemma newline_event_line: "newline \<notin> set (event_line e)"
  by (cases e) (simp_all add: write_push_line_def write_pop_line_def)

lemma log_proper_snoc:
  "log_proper seen (es @ [e]) \<longleftrightarrow> log_proper seen es \<and>
     (is_push e \<or> fst (event_pair e) \<in> seen \<union> fst ` set (push_pairs es))"
proof (induction seen es rule: log_proper.induct)
  case (1 seen)
  show ?case by (cases e) (simp_all add: push_pairs_def)
qed (auto simp: push_pairs_def)

lemma proper_firsts:
  "log_proper {} es \<Longrightarrow> firsts (map (fst \<circ> event_pair) es) = firsts (map fst (push_pairs es))"
proof (induction es rule: rev_induct)
  case Nil
  show ?case by (simp add: push_pairs_def)
next
  case (snoc e es)
  from snoc.prems have proper: "log_proper {} es"
    and e: "is_push e \<or> fst (event_pair e) \<in> fst ` set (push_pairs es)"
    by (simp_all add: log_proper_snoc)
  have IH: "firsts (map (fst \<circ> event_pair) es) = firsts (map fst (push_pairs es))"
    using proper by (rule snoc.IH)
  then have sets: "set (map (fst \<circ> event_pair) es) = fst ` set (push_pairs es)"
    by (metis set_firsts list.set_map)
  show ?case
  proof (cases "is_push e")
    case True
    then have "push_pairs (es @ [e]) = push_pairs es @ [event_pair e]" by (simp add: push_pairs_def)
    with IH sets show ?thesis by (simp add: firsts_snoc comp_def)
  next
    case False
    then have "push_pairs (es @ [e]) = push_pairs es" by (simp add: push_pairs_def)
    with IH sets e False show ?thesis by (simp add: firsts_snoc comp_def)
  qed
qed

end
