(* ===== verification/Ref2mem.thy ===== *)
theory Ref2mem
  imports File_Names Sim_Log
begin

text \<open>
  \<open>compiler/ref2mem.py\<close>: the list of reference numbers, one per line, becomes a memory
  image of 24-bit rows, filled up with zero rows. The numbers are converted before the
  output file is opened, so a bad line leaves every file as it was.
\<close>

section \<open>The script\<close>

definition binary_width :: nat where "binary_width = 24"

definition REF_ROM_SIZE :: nat where "REF_ROM_SIZE = 8192"

definition binary_number :: "nat \<Rightarrow> string \<Rightarrow> string py" where
  "binary_number w num = bind_py (py_int num) (\<lambda>n. Inr (format_bin w n))"

definition convert_to_binary :: "string \<Rightarrow> string \<Rightarrow> nat \<Rightarrow> files \<Rightarrow> run" where
  "convert_to_binary input_file output_file w fs =
     (case read_file fs input_file of
        Inl e \<Rightarrow> (fs, Some e)
      | Inr content \<Rightarrow>
          (let numbers = splitlines content
           in case map_py (binary_number w) numbers of
                Inl e \<Rightarrow> (fs, Some e)
              | Inr binary_numbers \<Rightarrow>
                  (fs(output_file \<mapsto>
                      join_sep [newline] binary_numbers @ [newline] @
                      unlines (replicate (REF_ROM_SIZE - length numbers) (format_bin w 0))),
                   None)))"

definition ref2mem :: "string \<Rightarrow> files \<Rightarrow> run" where
  "ref2mem input_file_path fs =
     (case get_ref_file_name input_file_path of
        Inl e \<Rightarrow> (fs, Some e)
      | Inr ref \<Rightarrow> convert_to_binary ref (ref @ ''.mem'') binary_width fs)"

section \<open>Lemmas\<close>

interpretation ref_field: bit_field "format_bin binary_width" binary_width
  by (rule format_bin_field) (simp add: binary_width_def)

lemma join_newline: "xs \<noteq> [] \<Longrightarrow> join_sep [newline] xs @ newline # ys = unlines xs @ ys"
  by (induction xs rule: induct_list012) auto

lemma py_str_no_break: "c \<in> set (py_str n) \<Longrightarrow> \<not> is_linebreak c"
proof -
  assume "c \<in> set (py_str n)"
  then consider "is_digit c" | "c = CHR ''-''" using py_str_chars by blast
  then show ?thesis
    by cases (simp, simp add: is_linebreak_def char_code_def)
qed

lemma splitlines_numbers: "splitlines (unlines (map py_str ns)) = map py_str ns"
  by (rule splitlines_unlines) (auto simp: py_str_no_break)

lemma binary_number_str: "binary_number w (py_str n) = Inr (format_bin w n)"
  by (simp add: binary_number_def py_int_str)

lemma binary_numbers_str: "map_py (binary_number w) (map py_str ns) = Inr (map (format_bin w) ns)"
  by (induction ns) (simp_all add: binary_number_str)

lemma binary_number_error: "binary_number w num = Inl e \<longleftrightarrow> py_int num = Inl e"
  by (auto simp: binary_number_def)

lemma py_int_error: "py_int s = Inl e \<Longrightarrow> e = ValueError"
  by (auto simp: py_int_def Let_def split: prod.splits option.splits)

text \<open>A text whose first letter is neither a blank, a sign nor a digit is not an integer.\<close>

lemma py_int_letter:
  assumes "\<not> is_int_space c" "c \<noteq> CHR ''-''" "c \<noteq> CHR ''+''" "\<not> is_digit c"
  shows "py_int (c # s) = Inl ValueError"
proof -
  have "rev (dropWhile is_int_space (rev s @ [c])) = c # rev (dropWhile is_int_space (rev s))"
    using assms(1) by (simp add: dropWhile_append3 dropWhile_append)
  then show ?thesis
    using assms by (simp add: py_int_def strip_int_def)
qed

lemma py_int_meta: "py_int (''meta:'' @ s) = Inl ValueError"
  using py_int_letter [of "CHR ''m''" "''eta:'' @ s"]
  by (simp add: is_int_space_def is_digit_def char_code_def)

lemma convert_to_binary_ok:
  assumes "fs input_file = Some content" and "map_py (binary_number w) (splitlines content) = Inr rows"
    and "rows \<noteq> []"
  shows "convert_to_binary input_file output_file w fs =
    (fs(output_file \<mapsto> unlines (rows @ replicate (REF_ROM_SIZE - length rows) (format_bin w 0))), None)"
  using assms map_py_length [OF assms(2)]
  by (simp add: convert_to_binary_def Let_def join_newline)

section \<open>Properties\<close>

text \<open>For a reference file that lists between one and \<open>REF_ROM_SIZE\<close> numbers that fit
  24 bits, \<open>ref2mem.py\<close> writes exactly \<open>REF_ROM_SIZE\<close> rows of 24 bits beside it; row \<open>i\<close>
  reads as the \<open>i\<close>-th number, every further row as zero, and no other file changes.\<close>

theorem ref2mem_roundtrip:
  assumes "get_ref_file_name p = Inr ref" and "fs ref = Some (unlines (map py_str ns))"
    and "ns \<noteq> []" and "length ns \<le> REF_ROM_SIZE"
    and "list_all (\<lambda>n. 0 \<le> n \<and> n < 2 ^ binary_width) ns"
  shows "\<exists>rows. ref2mem p fs = (fs(ref @ ''.mem'' \<mapsto> unlines rows), None) \<and>
    length rows = REF_ROM_SIZE \<and>
    list_all (\<lambda>row. is_bits row \<and> length row = binary_width) rows \<and>
    (\<forall>i < REF_ROM_SIZE. int (bits_val (rows ! i)) = (if i < length ns then ns ! i else 0))"
proof -
  let ?ns = "ns @ replicate (REF_ROM_SIZE - length ns) 0"
  let ?rows = "map (format_bin binary_width) ?ns"
  have "map_py (binary_number binary_width) (splitlines (unlines (map py_str ns)))
      = Inr (map (format_bin binary_width) ns)"
    by (simp only: splitlines_numbers binary_numbers_str)
  then have "ref2mem p fs = (fs(ref @ ''.mem'' \<mapsto> unlines ?rows), None)"
    using convert_to_binary_ok [of fs ref] assms(1-3) by (simp add: ref2mem_def)
  moreover have fits: "list_all (\<lambda>n. 0 \<le> n \<and> n < 2 ^ binary_width) ?ns"
    using assms(5) by (auto simp: list_all_iff)
  then have "list_all (\<lambda>row. is_bits row \<and> length row = binary_width) ?rows"
    by (auto simp: list_all_iff ref_field.enc_bits ref_field.enc_length)
  moreover have len: "length ?rows = REF_ROM_SIZE" using assms(4) by simp
  moreover have "int (bits_val (?rows ! i)) = (if i < length ns then ns ! i else 0)"
    if "i < REF_ROM_SIZE" for i
  proof -
    have "int (bits_val (?rows ! i)) = ?ns ! i"
      using that fits len by (simp add: list_all_length ref_field.enc_val del: map_append)
    then show ?thesis using that by (simp add: nth_append)
  qed
  ultimately show ?thesis by blast
qed

theorem ref2mem_roundtrip_witness:
  "\<exists>rows. ref2mem ''a.output'' [''a.ref'' \<mapsto> unlines (map py_str [0, 5])] =
      ([''a.ref'' \<mapsto> unlines (map py_str [0, 5])](''a.ref'' @ ''.mem'' \<mapsto> unlines rows), None) \<and>
    length rows = REF_ROM_SIZE \<and>
    list_all (\<lambda>row. is_bits row \<and> length row = binary_width) rows \<and>
    (\<forall>i < REF_ROM_SIZE. int (bits_val (rows ! i)) = (if i < length [0::int, 5] then [0, 5] ! i else 0))"
proof (rule ref2mem_roundtrip)
  show "get_ref_file_name ''a.output'' = Inr ''a.ref''" by code_simp
qed (simp_all add: REF_ROM_SIZE_def binary_width_def)

text \<open>A run of \<open>ref2mem.py\<close> that ends with an exception changes no file, and once the
  file is found the run fails exactly when some line of it is not an integer, with a value
  error.\<close>

theorem ref2mem_error:
  assumes "get_ref_file_name p = Inr ref" and "fs ref = Some content"
  shows "(snd (ref2mem p fs) = Some e \<longleftrightarrow>
      e = ValueError \<and> list_ex (\<lambda>line. py_int line = Inl ValueError) (splitlines content)) \<and>
    (snd (ref2mem p fs) \<noteq> None \<longrightarrow> fst (ref2mem p fs) = fs)"
proof (cases "map_py (binary_number binary_width) (splitlines content)")
  case (Inl e')
  then obtain line where "line \<in> set (splitlines content)" "py_int line = Inl e'"
    using map_py_Inl binary_number_error by blast
  moreover from this have "e' = ValueError" by (simp add: py_int_error)
  ultimately show ?thesis
    using Inl assms py_int_error
    by (auto simp: ref2mem_def convert_to_binary_def binary_number_error list_ex_iff)
next
  case (Inr rows)
  then have "\<not> list_ex (\<lambda>line. py_int line = Inl ValueError) (splitlines content)"
    using map_py_error_iff [of "binary_number binary_width" "splitlines content"]
    by (auto simp: list_ex_iff binary_number_error)
  with Inr assms show ?thesis by (simp add: ref2mem_def convert_to_binary_def)
qed

theorem ref2mem_error_witness:
  "get_ref_file_name ''a.output'' = Inr ''a.ref'' \<and>
   snd (ref2mem ''a.output'' [''a.ref'' \<mapsto> ''x'']) = Some ValueError \<and>
   fst (ref2mem ''a.output'' [''a.ref'' \<mapsto> ''x'']) = [''a.ref'' \<mapsto> ''x'']"
proof -
  have n: "get_ref_file_name ''a.output'' = Inr ''a.ref''" by code_simp
  have "list_ex (\<lambda>line. py_int line = Inl ValueError) (splitlines ''x'')" by code_simp
  with n ref2mem_error [OF n, of "[''a.ref'' \<mapsto> ''x'']" "''x''" ValueError] show ?thesis by simp
qed

text \<open>C40. The reference lines the current simulator writes (\<open>write_push_line\<close> and
  \<open>write_pop_line\<close> of \<open>compiler/vPIFO_trace.cpp\<close>, which \<open>draw.py\<close> reads) are not what
  \<open>ref2mem.py\<close> reads: on a file that holds such a line it always raises a value error and
  changes no file.\<close>

theorem ref2mem_rejects_simulator_output:
  assumes "get_ref_file_name p = Inr ref" and "fs ref = Some content"
    and "write_push_line meta cnt \<in> set (splitlines content) \<or>
      write_pop_line meta cnt \<in> set (splitlines content)"
  shows "ref2mem p fs = (fs, Some ValueError)"
proof -
  obtain line where l: "line \<in> set (splitlines content)" "py_int line = Inl ValueError"
    using assms(3) py_int_meta by (auto simp: write_push_line_def write_pop_line_def)
  then obtain e where e: "map_py (binary_number binary_width) (splitlines content) = Inl e"
    using map_py_error_iff [of "binary_number binary_width"] binary_number_error by metis
  then have "e = ValueError"
    using map_py_Inl [OF e] binary_number_error py_int_error by blast
  with e assms(1,2) show ?thesis by (simp add: ref2mem_def convert_to_binary_def)
qed

theorem ref2mem_rejects_simulator_output_witness:
  "write_push_line 0 0 = ''meta:0, push_cyc:0'' \<and>
   ref2mem ''a.output'' [''a.ref'' \<mapsto> ''meta:0, push_cyc:0''] =
     ([''a.ref'' \<mapsto> ''meta:0, push_cyc:0''], Some ValueError)"
proof
  show l: "write_push_line 0 0 = ''meta:0, push_cyc:0''" by code_simp
  have "get_ref_file_name ''a.output'' = Inr ''a.ref''" by code_simp
  moreover have "splitlines ''meta:0, push_cyc:0'' = [''meta:0, push_cyc:0'']" by code_simp
  ultimately show "ref2mem ''a.output'' [''a.ref'' \<mapsto> ''meta:0, push_cyc:0''] =
     ([''a.ref'' \<mapsto> ''meta:0, push_cyc:0''], Some ValueError)"
    using l by (intro ref2mem_rejects_simulator_output [where ref = "''a.ref''"
          and content = "''meta:0, push_cyc:0''" and meta = 0 and cnt = 0]) simp_all
qed

end
