(* ===== verification/Pybindgen.thy ===== *)
theory Pybindgen
  imports Py_Prelude
begin

text \<open>
  The language of the binding generators \<open>bindings/modulegen__gcc_LP64.py\<close> of the ns-3
  modules: straight-line scripts whose statements are calls on a \<open>pybindgen\<close> module, on a class
  that was looked up in it by its C++ name, or on a nested module. A function of the script is
  the list of its statements, and the functions below run such lists.

  \<open>pybindgen\<close> itself is a parameter: the record of the calls the scripts make, over a type of
  library states, of module handles and of class handles.
\<close>

section \<open>Statements\<close>

datatype const_arg = CBool bool | CStr string | CStrs "string list"

type_synonym flags = "(string \<times> const_arg) list"

text \<open>\<open>param(type, name, ...)\<close>\<close>

datatype param = Param string string flags

text \<open>Calls on \<open>cls\<close> in a \<open>register_..._methods\<close> function. The two operands of a binary
  numeric operator are classes, given by the key under which they are looked up.\<close>

datatype class_call =
    Add_constructor "param list" flags
  | Add_method string string "param list" flags
  | Add_instance_attribute string string flags
  | Add_static_attribute string string flags
  | Add_output_stream_operator
  | Add_binary_comparison_operator string
  | Add_unary_numeric_operator string
  | Add_inplace_numeric_operator string param
  | Add_binary_numeric_operator string string string param

text \<open>Keyword arguments of the calls that register types; a class is a key in the script and
  a handle when the call is made.\<close>

datatype 'c arg =
    Const const_arg
  | Strs "string list"
  | Class 'c
  | Classes "'c list"
  | RefPolicy string string string

type_synonym 'c kwargs = "(string \<times> 'c arg) list"

datatype type_call =
    Add_class string "string kwargs"
  | Add_enum string "string list" "string kwargs"
  | Add_container string string flags
  | Implicitly_converts_to string string
  | Add_type_alias string string
  | Nested string "type_call list"

text \<open>\<open>module.add_function(...)\<close> and \<open>register_functions_...(module.get_submodule(name), root_module)\<close>\<close>

datatype function_call =
    Add_function string string "param list" flags
  | Submodule string "function_call list"

section \<open>The library\<close>

record ('s, 'm, 'c) pybindgen =
  Module :: "string \<Rightarrow> string \<Rightarrow> 's \<times> 'm"
  getitem :: "'s \<Rightarrow> string \<Rightarrow> 'c option"
  full_name :: "'c \<Rightarrow> string"
  namespace :: "'m \<Rightarrow> string"
  add_class :: "'s \<Rightarrow> 'm \<Rightarrow> string \<Rightarrow> 'c kwargs \<Rightarrow> 's"
  add_enum :: "'s \<Rightarrow> 'm \<Rightarrow> string \<Rightarrow> string list \<Rightarrow> 'c kwargs \<Rightarrow> 's"
  add_container :: "'s \<Rightarrow> 'm \<Rightarrow> string \<Rightarrow> string \<Rightarrow> flags \<Rightarrow> 's"
  implicitly_converts_to :: "'s \<Rightarrow> 'c \<Rightarrow> 'c \<Rightarrow> 's"
  add_type_alias :: "'s \<Rightarrow> string \<Rightarrow> string \<Rightarrow> 's"
  add_cpp_namespace :: "'s \<Rightarrow> 'm \<Rightarrow> string \<Rightarrow> 's \<times> 'm"
  get_submodule :: "'s \<Rightarrow> 'm \<Rightarrow> string \<Rightarrow> 'm option"
  add_function :: "'s \<Rightarrow> 'm \<Rightarrow> string \<Rightarrow> string \<Rightarrow> param list \<Rightarrow> flags \<Rightarrow> 's"
  add_constructor :: "'s \<Rightarrow> 'c \<Rightarrow> param list \<Rightarrow> flags \<Rightarrow> 's"
  add_method :: "'s \<Rightarrow> 'c \<Rightarrow> string \<Rightarrow> string \<Rightarrow> param list \<Rightarrow> flags \<Rightarrow> 's"
  add_instance_attribute :: "'s \<Rightarrow> 'c \<Rightarrow> string \<Rightarrow> string \<Rightarrow> flags \<Rightarrow> 's"
  add_static_attribute :: "'s \<Rightarrow> 'c \<Rightarrow> string \<Rightarrow> string \<Rightarrow> flags \<Rightarrow> 's"
  add_output_stream_operator :: "'s \<Rightarrow> 'c \<Rightarrow> 's"
  add_binary_comparison_operator :: "'s \<Rightarrow> 'c \<Rightarrow> string \<Rightarrow> 's"
  add_unary_numeric_operator :: "'s \<Rightarrow> 'c \<Rightarrow> string \<Rightarrow> 's"
  add_inplace_numeric_operator :: "'s \<Rightarrow> 'c \<Rightarrow> string \<Rightarrow> param \<Rightarrow> 's"
  add_binary_numeric_operator :: "'s \<Rightarrow> 'c \<Rightarrow> string \<Rightarrow> 'c \<Rightarrow> 'c \<Rightarrow> param \<Rightarrow> 's"
  generate :: "'s \<Rightarrow> string"

section \<open>Running the statements\<close>

text \<open>\<open>root_module[key]\<close>\<close>

definition subscript :: "('s, 'm, 'c) pybindgen \<Rightarrow> 's \<Rightarrow> string \<Rightarrow> 'c py" where
  "subscript pbg s k = (case getitem pbg s k of None \<Rightarrow> Inl KeyError | Some c \<Rightarrow> Inr c)"

fun resolve_arg :: "('s, 'm, 'c) pybindgen \<Rightarrow> 's \<Rightarrow> string arg \<Rightarrow> 'c arg py" where
  "resolve_arg pbg s (Const a) = Inr (Const a)"
| "resolve_arg pbg s (Strs l) = Inr (Strs l)"
| "resolve_arg pbg s (Class k) = bind_py (subscript pbg s k) (\<lambda>c. Inr (Class c))"
| "resolve_arg pbg s (Classes ks) = bind_py (map_py (subscript pbg s) ks) (\<lambda>cs. Inr (Classes cs))"
| "resolve_arg pbg s (RefPolicy i d p) = Inr (RefPolicy i d p)"

definition resolve :: "('s, 'm, 'c) pybindgen \<Rightarrow> 's \<Rightarrow> string kwargs \<Rightarrow> 'c kwargs py" where
  "resolve pbg s kw = map_py (\<lambda>(n, a). bind_py (resolve_arg pbg s a) (\<lambda>a'. Inr (n, a'))) kw"

fun run_types :: "('s, 'm, 'c) pybindgen \<Rightarrow> 's \<Rightarrow> 'm \<Rightarrow> type_call list \<Rightarrow> 's py" where
  "run_types pbg s m [] = Inr s"
| "run_types pbg s m (Add_class n kw # cs) =
     bind_py (resolve pbg s kw) (\<lambda>kw'. run_types pbg (add_class pbg s m n kw') m cs)"
| "run_types pbg s m (Add_enum n vs kw # cs) =
     bind_py (resolve pbg s kw) (\<lambda>kw'. run_types pbg (add_enum pbg s m n vs kw') m cs)"
| "run_types pbg s m (Add_container n v fl # cs) = run_types pbg (add_container pbg s m n v fl) m cs"
| "run_types pbg s m (Implicitly_converts_to k k' # cs) =
     bind_py (subscript pbg s k) (\<lambda>c. bind_py (subscript pbg s k') (\<lambda>c'.
       run_types pbg (implicitly_converts_to pbg s c c') m cs))"
| "run_types pbg s m (Add_type_alias t a # cs) = run_types pbg (add_type_alias pbg s t a) m cs"
| "run_types pbg s m (Nested n body # cs) =
     (case add_cpp_namespace pbg s m n of
        (s1, m1) \<Rightarrow> bind_py (run_types pbg s1 m1 body) (\<lambda>s2. run_types pbg s2 m cs))"

fun run_class_call :: "('s, 'm, 'c) pybindgen \<Rightarrow> 's \<Rightarrow> 'c \<Rightarrow> class_call \<Rightarrow> 's py" where
  "run_class_call pbg s c (Add_constructor ps fl) = Inr (add_constructor pbg s c ps fl)"
| "run_class_call pbg s c (Add_method n r ps fl) = Inr (add_method pbg s c n r ps fl)"
| "run_class_call pbg s c (Add_instance_attribute n t fl) = Inr (add_instance_attribute pbg s c n t fl)"
| "run_class_call pbg s c (Add_static_attribute n t fl) = Inr (add_static_attribute pbg s c n t fl)"
| "run_class_call pbg s c Add_output_stream_operator = Inr (add_output_stream_operator pbg s c)"
| "run_class_call pbg s c (Add_binary_comparison_operator n) = Inr (add_binary_comparison_operator pbg s c n)"
| "run_class_call pbg s c (Add_unary_numeric_operator n) = Inr (add_unary_numeric_operator pbg s c n)"
| "run_class_call pbg s c (Add_inplace_numeric_operator n p) = Inr (add_inplace_numeric_operator pbg s c n p)"
| "run_class_call pbg s c (Add_binary_numeric_operator n k k' p) =
     bind_py (subscript pbg s k) (\<lambda>l. bind_py (subscript pbg s k') (\<lambda>r.
       Inr (add_binary_numeric_operator pbg s c n l r p)))"

fun run_class_calls :: "('s, 'm, 'c) pybindgen \<Rightarrow> 's \<Rightarrow> 'c \<Rightarrow> class_call list \<Rightarrow> 's py" where
  "run_class_calls pbg s c [] = Inr s"
| "run_class_calls pbg s c (x # xs) = bind_py (run_class_call pbg s c x) (\<lambda>s1. run_class_calls pbg s1 c xs)"

text \<open>\<open>register_..._methods(root_module, root_module[key])\<close>, one after the other\<close>

fun run_methods :: "('s, 'm, 'c) pybindgen \<Rightarrow> 's \<Rightarrow> (string \<times> class_call list) list \<Rightarrow> 's py" where
  "run_methods pbg s [] = Inr s"
| "run_methods pbg s ((k, calls) # rest) =
     bind_py (subscript pbg s k) (\<lambda>c. bind_py (run_class_calls pbg s c calls) (\<lambda>s1. run_methods pbg s1 rest))"

text \<open>\<open>get_submodule\<close> raises a value error when there is no such submodule.\<close>

fun run_functions :: "('s, 'm, 'c) pybindgen \<Rightarrow> 's \<Rightarrow> 'm \<Rightarrow> function_call list \<Rightarrow> 's py" where
  "run_functions pbg s m [] = Inr s"
| "run_functions pbg s m (Add_function n r ps fl # cs) =
     run_functions pbg (add_function pbg s m n r ps fl) m cs"
| "run_functions pbg s m (Submodule n body # cs) =
     (case get_submodule pbg s m n of
        None \<Rightarrow> Inl ValueError
      | Some m1 \<Rightarrow> bind_py (run_functions pbg s m1 body) (\<lambda>s1. run_functions pbg s1 m cs))"

section \<open>Qualified names\<close>

text \<open>The C++ name of a class: its template arguments in angle brackets after the name, and
  the class or the namespace it is in before it.\<close>

definition class_key :: "('c \<Rightarrow> string) \<Rightarrow> string \<Rightarrow> string \<Rightarrow> 'c kwargs \<Rightarrow> string" where
  "class_key name_of ns n kw =
     (case map_of kw ''outer_class'' of Some (Class c) \<Rightarrow> name_of c | _ \<Rightarrow> ns) @ ''::'' @ n @
     (case map_of kw ''template_parameters'' of
        Some (Strs ts) \<Rightarrow> ''< '' @ join_sep '', '' ts @ '' >'' | _ \<Rightarrow> [])"

end
