(* ===== verification/Bindings_Types.thy ===== *)
theory Bindings_Types
  imports Pybindgen
begin

text \<open>
  The types of the traffic-control module: \<open>register_types\<close> and the functions for its nested
  namespaces in \<open>traffic-control/bindings/modulegen__gcc_LP64.py\<close> (the ILP32 file is the same
  text). Each list holds the calls of the function in the order of the source; the long body
  of \<open>register_types\<close> is in parts of about forty lines.
\<close>

definition register_types_ns3_FatalImpl :: "type_call list" where
  "register_types_ns3_FatalImpl = []"

definition register_types_ns3_Hash_Function :: "type_call list" where
  "register_types_ns3_Hash_Function = [
     Add_class ''Fnv1a'' [(''import_from_module'', Const (CStr ''ns.core'')),
       (''parent'', Class ''ns3::Hash::Implementation'')],
     Add_class ''Hash32'' [(''import_from_module'', Const (CStr ''ns.core'')),
       (''parent'', Class ''ns3::Hash::Implementation'')],
     Add_class ''Hash64'' [(''import_from_module'', Const (CStr ''ns.core'')),
       (''parent'', Class ''ns3::Hash::Implementation'')],
     Add_class ''Murmur3'' [(''import_from_module'', Const (CStr ''ns.core'')),
       (''parent'', Class ''ns3::Hash::Implementation'')]]"

definition register_types_ns3_Hash :: "type_call list" where
  "register_types_ns3_Hash = [
     Add_class ''Implementation'' [(''import_from_module'', Const (CStr ''ns.core'')),
       (''parent'', Class ''ns3::SimpleRefCount< ns3::Hash::Implementation, ns3::empty, ns3::DefaultDeleter<ns3::Hash::Implementation> >'')],
     Add_type_alias ''uint32_t ( * ) ( char const *, size_t ) *'' ''ns3::Hash::Hash32Function_ptr'',
     Add_type_alias ''uint32_t ( * ) ( char const *, size_t ) **'' ''ns3::Hash::Hash32Function_ptr*'',
     Add_type_alias ''uint32_t ( * ) ( char const *, size_t ) *&'' ''ns3::Hash::Hash32Function_ptr&'',
     Add_type_alias ''uint64_t ( * ) ( char const *, size_t ) *'' ''ns3::Hash::Hash64Function_ptr'',
     Add_type_alias ''uint64_t ( * ) ( char const *, size_t ) **'' ''ns3::Hash::Hash64Function_ptr*'',
     Add_type_alias ''uint64_t ( * ) ( char const *, size_t ) *&'' ''ns3::Hash::Hash64Function_ptr&'',
     Nested ''Function'' register_types_ns3_Hash_Function]"

definition register_types_ns3_TracedValueCallback :: "type_call list" where
  "register_types_ns3_TracedValueCallback = [
     Add_type_alias ''void ( * ) ( bool, bool ) *'' ''ns3::TracedValueCallback::Bool'',
     Add_type_alias ''void ( * ) ( bool, bool ) **'' ''ns3::TracedValueCallback::Bool*'',
     Add_type_alias ''void ( * ) ( bool, bool ) *&'' ''ns3::TracedValueCallback::Bool&'',
     Add_type_alias ''void ( * ) ( double, double ) *'' ''ns3::TracedValueCallback::Double'',
     Add_type_alias ''void ( * ) ( double, double ) **'' ''ns3::TracedValueCallback::Double*'',
     Add_type_alias ''void ( * ) ( double, double ) *&'' ''ns3::TracedValueCallback::Double&'',
     Add_type_alias ''void ( * ) ( uint8_t, uint8_t ) *'' ''ns3::TracedValueCallback::Uint8'',
     Add_type_alias ''void ( * ) ( uint8_t, uint8_t ) **'' ''ns3::TracedValueCallback::Uint8*'',
     Add_type_alias ''void ( * ) ( uint8_t, uint8_t ) *&'' ''ns3::TracedValueCallback::Uint8&'',
     Add_type_alias ''void ( * ) ( uint32_t, uint32_t ) *'' ''ns3::TracedValueCallback::Uint32'',
     Add_type_alias ''void ( * ) ( uint32_t, uint32_t ) **'' ''ns3::TracedValueCallback::Uint32*'',
     Add_type_alias ''void ( * ) ( uint32_t, uint32_t ) *&'' ''ns3::TracedValueCallback::Uint32&'',
     Add_type_alias ''void ( * ) ( ns3::Time, ns3::Time ) *'' ''ns3::TracedValueCallback::Time'',
     Add_type_alias ''void ( * ) ( ns3::Time, ns3::Time ) **'' ''ns3::TracedValueCallback::Time*'',
     Add_type_alias ''void ( * ) ( ns3::Time, ns3::Time ) *&'' ''ns3::TracedValueCallback::Time&'',
     Add_type_alias ''void ( * ) ( int16_t, int16_t ) *'' ''ns3::TracedValueCallback::Int16'',
     Add_type_alias ''void ( * ) ( int16_t, int16_t ) **'' ''ns3::TracedValueCallback::Int16*'',
     Add_type_alias ''void ( * ) ( int16_t, int16_t ) *&'' ''ns3::TracedValueCallback::Int16&'',
     Add_type_alias ''void ( * ) ( int32_t, int32_t ) *'' ''ns3::TracedValueCallback::Int32'',
     Add_type_alias ''void ( * ) ( int32_t, int32_t ) **'' ''ns3::TracedValueCallback::Int32*'',
     Add_type_alias ''void ( * ) ( int32_t, int32_t ) *&'' ''ns3::TracedValueCallback::Int32&'',
     Add_type_alias ''void ( * ) ( int8_t, int8_t ) *'' ''ns3::TracedValueCallback::Int8'',
     Add_type_alias ''void ( * ) ( int8_t, int8_t ) **'' ''ns3::TracedValueCallback::Int8*'',
     Add_type_alias ''void ( * ) ( int8_t, int8_t ) *&'' ''ns3::TracedValueCallback::Int8&'',
     Add_type_alias ''void ( * ) (  ) *'' ''ns3::TracedValueCallback::Void'',
     Add_type_alias ''void ( * ) (  ) **'' ''ns3::TracedValueCallback::Void*'',
     Add_type_alias ''void ( * ) (  ) *&'' ''ns3::TracedValueCallback::Void&'',
     Add_type_alias ''void ( * ) ( uint16_t, uint16_t ) *'' ''ns3::TracedValueCallback::Uint16'',
     Add_type_alias ''void ( * ) ( uint16_t, uint16_t ) **'' ''ns3::TracedValueCallback::Uint16*'',
     Add_type_alias ''void ( * ) ( uint16_t, uint16_t ) *&'' ''ns3::TracedValueCallback::Uint16&'']"

definition register_types_ns3_internal :: "type_call list" where
  "register_types_ns3_internal = []"

definition register_types_1 :: "type_call list" where
  "register_types_1 = [
     Add_class ''Address'' [(''import_from_module'', Const (CStr ''ns.network''))],
     Add_enum ''MaxSize_e'' [''MAX_SIZE''] [(''outer_class'', Class ''ns3::Address''),
       (''import_from_module'', Const (CStr ''ns.network''))],
     Add_class ''AttributeConstructionList'' [(''import_from_module'', Const (CStr ''ns.core''))],
     Add_class ''Item'' [(''import_from_module'', Const (CStr ''ns.core'')),
       (''outer_class'', Class ''ns3::AttributeConstructionList'')],
     Add_class ''Buffer'' [(''import_from_module'', Const (CStr ''ns.network''))],
     Add_class ''Iterator'' [(''import_from_module'', Const (CStr ''ns.network'')),
       (''outer_class'', Class ''ns3::Buffer'')],
     Add_class ''ByteTagIterator'' [(''import_from_module'', Const (CStr ''ns.network''))],
     Add_class ''Item'' [(''import_from_module'', Const (CStr ''ns.network'')),
       (''outer_class'', Class ''ns3::ByteTagIterator'')],
     Add_class ''ByteTagList'' [(''import_from_module'', Const (CStr ''ns.network''))],
     Add_class ''Iterator'' [(''import_from_module'', Const (CStr ''ns.network'')),
       (''outer_class'', Class ''ns3::ByteTagList'')],
     Add_class ''Item'' [(''import_from_module'', Const (CStr ''ns.network'')),
       (''outer_class'', Class ''ns3::ByteTagList::Iterator'')],
     Add_class ''CallbackBase'' [(''import_from_module'', Const (CStr ''ns.core''))],
     Add_class ''DataRate'' [(''import_from_module'', Const (CStr ''ns.network''))],
     Add_class ''EventId'' [(''import_from_module'', Const (CStr ''ns.core''))],
     Add_class ''Hasher'' [(''import_from_module'', Const (CStr ''ns.core''))],
     Add_class ''IntToType'' [(''import_from_module'', Const (CStr ''ns.core'')),
       (''template_parameters'', Strs [''0''])],
     Add_enum ''v_e'' [''value''] [(''outer_class'', Class ''ns3::IntToType< 0 >''),
       (''import_from_module'', Const (CStr ''ns.core''))],
     Add_class ''IntToType'' [(''import_from_module'', Const (CStr ''ns.core'')),
       (''template_parameters'', Strs [''1''])]]"

definition register_types_2 :: "type_call list" where
  "register_types_2 = [
     Add_enum ''v_e'' [''value''] [(''outer_class'', Class ''ns3::IntToType< 1 >''),
       (''import_from_module'', Const (CStr ''ns.core''))],
     Add_class ''IntToType'' [(''import_from_module'', Const (CStr ''ns.core'')),
       (''template_parameters'', Strs [''2''])],
     Add_enum ''v_e'' [''value''] [(''outer_class'', Class ''ns3::IntToType< 2 >''),
       (''import_from_module'', Const (CStr ''ns.core''))],
     Add_class ''IntToType'' [(''import_from_module'', Const (CStr ''ns.core'')),
       (''template_parameters'', Strs [''3''])],
     Add_enum ''v_e'' [''value''] [(''outer_class'', Class ''ns3::IntToType< 3 >''),
       (''import_from_module'', Const (CStr ''ns.core''))],
     Add_class ''IntToType'' [(''import_from_module'', Const (CStr ''ns.core'')),
       (''template_parameters'', Strs [''4''])],
     Add_enum ''v_e'' [''value''] [(''outer_class'', Class ''ns3::IntToType< 4 >''),
       (''import_from_module'', Const (CStr ''ns.core''))],
     Add_class ''IntToType'' [(''import_from_module'', Const (CStr ''ns.core'')),
       (''template_parameters'', Strs [''5''])],
     Add_enum ''v_e'' [''value''] [(''outer_class'', Class ''ns3::IntToType< 5 >''),
       (''import_from_module'', Const (CStr ''ns.core''))],
     Add_class ''IntToType'' [(''import_from_module'', Const (CStr ''ns.core'')),
       (''template_parameters'', Strs [''6''])],
     Add_enum ''v_e'' [''value''] [(''outer_class'', Class ''ns3::IntToType< 6 >''),
       (''import_from_module'', Const (CStr ''ns.core''))],
     Add_class ''Ipv4Address'' [(''import_from_module'', Const (CStr ''ns.network''))],
     Implicitly_converts_to ''ns3::Ipv4Address'' ''ns3::Address'',
     Add_class ''Ipv4Mask'' [(''import_from_module'', Const (CStr ''ns.network''))],
     Add_class ''Ipv6Address'' [(''import_from_module'', Const (CStr ''ns.network''))],
     Implicitly_converts_to ''ns3::Ipv6Address'' ''ns3::Address'',
     Add_class ''Ipv6Prefix'' [(''import_from_module'', Const (CStr ''ns.network''))],
     Add_class ''Mac48Address'' [(''import_from_module'', Const (CStr ''ns.network''))],
     Implicitly_converts_to ''ns3::Mac48Address'' ''ns3::Address'',
     Add_class ''NetDeviceContainer'' [(''import_from_module'', Const (CStr ''ns.network''))]]"

definition register_types_3 :: "type_call list" where
  "register_types_3 = [
     Add_class ''ObjectBase'' [(''allow_subclassing'', Const (CBool True)),
       (''import_from_module'', Const (CStr ''ns.core''))],
     Add_class ''ObjectDeleter'' [(''import_from_module'', Const (CStr ''ns.core''))],
     Add_class ''ObjectFactory'' [(''import_from_module'', Const (CStr ''ns.core''))],
     Add_class ''PacketMetadata'' [(''import_from_module'', Const (CStr ''ns.network''))],
     Add_class ''Item'' [(''import_from_module'', Const (CStr ''ns.network'')),
       (''outer_class'', Class ''ns3::PacketMetadata'')],
     Add_enum '''' [''PAYLOAD'', ''HEADER'', ''TRAILER''] [(''outer_class'', Class ''ns3::PacketMetadata::Item''), (''import_from_module'', Const (CStr ''ns.network''))],
     Add_class ''ItemIterator'' [(''import_from_module'', Const (CStr ''ns.network'')),
       (''outer_class'', Class ''ns3::PacketMetadata'')],
     Add_class ''PacketTagIterator'' [(''import_from_module'', Const (CStr ''ns.network''))],
     Add_class ''Item'' [(''import_from_module'', Const (CStr ''ns.network'')),
       (''outer_class'', Class ''ns3::PacketTagIterator'')],
     Add_class ''PacketTagList'' [(''import_from_module'', Const (CStr ''ns.network''))],
     Add_class ''TagData'' [(''import_from_module'', Const (CStr ''ns.network'')),
       (''outer_class'', Class ''ns3::PacketTagList'')],
     Add_enum ''TagData_e'' [''MAX_SIZE''] [(''outer_class'', Class ''ns3::PacketTagList::TagData''),
       (''import_from_module'', Const (CStr ''ns.network''))],
     Add_class ''QueueDiscContainer'' [],
     Add_class ''QueueDiscFactory'' [],
     Add_class ''SimpleRefCount'' [(''automatic_type_narrowing'', Const (CBool True)),
       (''import_from_module'', Const (CStr ''ns.core'')),
       (''template_parameters'', Strs [''ns3::Object'', ''ns3::ObjectBase'', ''ns3::ObjectDeleter'']),
       (''parent'', Class ''ns3::ObjectBase''),
       (''memory_policy'', RefPolicy ''Ref'' ''Unref'' ''GetReferenceCount'')],
     Add_class ''Simulator'' [(''destructor_visibility'', Const (CStr ''private'')),
       (''import_from_module'', Const (CStr ''ns.core''))],
     Add_enum '''' [''NO_CONTEXT''] [(''outer_class'', Class ''ns3::Simulator''),
       (''import_from_module'', Const (CStr ''ns.core''))],
     Add_class ''Tag'' [(''import_from_module'', Const (CStr ''ns.network'')),
       (''parent'', Class ''ns3::ObjectBase'')],
     Add_class ''TagBuffer'' [(''import_from_module'', Const (CStr ''ns.network''))],
     Add_class ''TimeWithUnit'' [(''import_from_module'', Const (CStr ''ns.core''))]]"

definition register_types_4 :: "type_call list" where
  "register_types_4 = [
     Add_class ''Timer'' [(''import_from_module'', Const (CStr ''ns.core''))],
     Add_enum ''DestroyPolicy'' [''CANCEL_ON_DESTROY'', ''REMOVE_ON_DESTROY'', ''CHECK_ON_DESTROY''] [(''outer_class'', Class ''ns3::Timer''), (''import_from_module'', Const (CStr ''ns.core''))],
     Add_enum ''State'' [''RUNNING'', ''EXPIRED'', ''SUSPENDED''] [(''outer_class'', Class ''ns3::Timer''),
       (''import_from_module'', Const (CStr ''ns.core''))],
     Add_class ''TimerImpl'' [(''allow_subclassing'', Const (CBool True)),
       (''import_from_module'', Const (CStr ''ns.core''))],
     Add_class ''TracedValue'' [(''import_from_module'', Const (CStr ''ns.core'')),
       (''template_parameters'', Strs [''bool''])],
     Add_class ''TracedValue'' [(''import_from_module'', Const (CStr ''ns.core'')),
       (''template_parameters'', Strs [''unsigned int''])],
     Add_class ''TrafficControlHelper'' [],
     Add_class ''TypeId'' [(''import_from_module'', Const (CStr ''ns.core''))],
     Add_enum ''AttributeFlag'' [''ATTR_GET'', ''ATTR_SET'', ''ATTR_CONSTRUCT'', ''ATTR_SGC''] [(''outer_class'', Class ''ns3::TypeId''), (''import_from_module'', Const (CStr ''ns.core''))],
     Add_enum ''SupportLevel'' [''SUPPORTED'', ''DEPRECATED'', ''OBSOLETE''] [(''outer_class'', Class ''ns3::TypeId''), (''import_from_module'', Const (CStr ''ns.core''))],
     Add_class ''AttributeInformation'' [(''import_from_module'', Const (CStr ''ns.core'')),
       (''outer_class'', Class ''ns3::TypeId'')],
     Add_class ''TraceSourceInformation'' [(''import_from_module'', Const (CStr ''ns.core'')),
       (''outer_class'', Class ''ns3::TypeId'')],
     Add_class ''empty'' [(''import_from_module'', Const (CStr ''ns.core''))],
     Add_class ''int64x64_t'' [(''import_from_module'', Const (CStr ''ns.core''))],
     Add_enum ''impl_type'' [''int128_impl'', ''cairo_impl'', ''ld_impl''] [(''outer_class'', Class ''ns3::int64x64_t''), (''import_from_module'', Const (CStr ''ns.core''))],
     Add_class ''Chunk'' [(''import_from_module'', Const (CStr ''ns.network'')),
       (''parent'', Class ''ns3::ObjectBase'')],
     Add_class ''Header'' [(''import_from_module'', Const (CStr ''ns.network'')),
       (''parent'', Class ''ns3::Chunk'')],
     Add_class ''Object'' [(''import_from_module'', Const (CStr ''ns.core'')),
       (''parent'', Class ''ns3::SimpleRefCount< ns3::Object, ns3::ObjectBase, ns3::ObjectDeleter >'')],
     Add_class ''AggregateIterator'' [(''import_from_module'', Const (CStr ''ns.core'')),
       (''outer_class'', Class ''ns3::Object'')],
     Add_class ''PacketFilter'' [(''parent'', Class ''ns3::Object'')]]"

definition register_types_5 :: "type_call list" where
  "register_types_5 = [
     Add_class ''Queue'' [(''import_from_module'', Const (CStr ''ns.network'')),
       (''parent'', Class ''ns3::Object'')],
     Add_enum ''QueueMode'' [''QUEUE_MODE_PACKETS'', ''QUEUE_MODE_BYTES''] [(''outer_class'', Class ''ns3::Queue''), (''import_from_module'', Const (CStr ''ns.network''))],
     Add_class ''QueueDisc'' [(''parent'', Class ''ns3::Object'')],
     Add_enum ''WakeMode'' [''WAKE_ROOT'', ''WAKE_CHILD''] [(''outer_class'', Class ''ns3::QueueDisc'')],
     Add_class ''QueueDiscClass'' [(''parent'', Class ''ns3::Object'')],
     Add_class ''RandomVariableStream'' [(''import_from_module'', Const (CStr ''ns.core'')),
       (''parent'', Class ''ns3::Object'')],
     Add_class ''RedQueueDisc'' [(''parent'', Class ''ns3::QueueDisc'')],
     Add_enum '''' [''DTYPE_NONE'', ''DTYPE_FORCED'', ''DTYPE_UNFORCED''] [(''outer_class'', Class ''ns3::RedQueueDisc'')],
     Add_class ''Stats'' [(''outer_class'', Class ''ns3::RedQueueDisc'')],
     Add_class ''SequentialRandomVariable'' [(''import_from_module'', Const (CStr ''ns.core'')),
       (''parent'', Class ''ns3::RandomVariableStream'')],
     Add_class ''SimpleRefCount'' [(''automatic_type_narrowing'', Const (CBool True)),
       (''import_from_module'', Const (CStr ''ns.core'')),
       (''template_parameters'', Strs [''ns3::AttributeAccessor'', ''ns3::empty'', ''ns3::DefaultDeleter<ns3::AttributeAccessor>'']), (''parent'', Class ''ns3::empty''), (''memory_policy'', RefPolicy ''Ref'' ''Unref'' ''GetReferenceCount'')],
     Add_class ''SimpleRefCount'' [(''automatic_type_narrowing'', Const (CBool True)),
       (''import_from_module'', Const (CStr ''ns.core'')),
       (''template_parameters'', Strs [''ns3::AttributeChecker'', ''ns3::empty'', ''ns3::DefaultDeleter<ns3::AttributeChecker>'']), (''parent'', Class ''ns3::empty''), (''memory_policy'', RefPolicy ''Ref'' ''Unref'' ''GetReferenceCount'')],
     Add_class ''SimpleRefCount'' [(''automatic_type_narrowing'', Const (CBool True)),
       (''import_from_module'', Const (CStr ''ns.core'')),
       (''template_parameters'', Strs [''ns3::AttributeValue'', ''ns3::empty'', ''ns3::DefaultDeleter<ns3::AttributeValue>'']), (''parent'', Class ''ns3::empty''), (''memory_policy'', RefPolicy ''Ref'' ''Unref'' ''GetReferenceCount'')],
     Add_class ''SimpleRefCount'' [(''automatic_type_narrowing'', Const (CBool True)),
       (''import_from_module'', Const (CStr ''ns.core'')),
       (''template_parameters'', Strs [''ns3::CallbackImplBase'', ''ns3::empty'', ''ns3::DefaultDeleter<ns3::CallbackImplBase>'']), (''parent'', Class ''ns3::empty''), (''memory_policy'', RefPolicy ''Ref'' ''Unref'' ''GetReferenceCount'')],
     Add_class ''SimpleRefCount'' [(''automatic_type_narrowing'', Const (CBool True)),
       (''import_from_module'', Const (CStr ''ns.core'')),
       (''template_parameters'', Strs [''ns3::EventImpl'', ''ns3::empty'', ''ns3::DefaultDeleter<ns3::EventImpl>'']), (''parent'', Class ''ns3::empty''), (''memory_policy'', RefPolicy ''Ref'' ''Unref'' ''GetReferenceCount'')],
     Add_class ''SimpleRefCount'' [(''automatic_type_narrowing'', Const (CBool True)),
       (''import_from_module'', Const (CStr ''ns.core'')),
       (''template_parameters'', Strs [''ns3::Hash::Implementation'', ''ns3::empty'', ''ns3::DefaultDeleter<ns3::Hash::Implementation>'']), (''parent'', Class ''ns3::empty''), (''memory_policy'', RefPolicy ''Ref'' ''Unref'' ''GetReferenceCount'')],
     Add_class ''SimpleRefCount'' [(''automatic_type_narrowing'', Const (CBool True)),
       (''import_from_module'', Const (CStr ''ns.core'')),
       (''template_parameters'', Strs [''ns3::NetDeviceQueue'', ''ns3::empty'', ''ns3::DefaultDeleter<ns3::NetDeviceQueue>'']), (''parent'', Class ''ns3::empty''), (''memory_policy'', RefPolicy ''Ref'' ''Unref'' ''GetReferenceCount'')],
     Add_class ''SimpleRefCount'' [(''automatic_type_narrowing'', Const (CBool True)),
       (''import_from_module'', Const (CStr ''ns.core'')),
       (''template_parameters'', Strs [''ns3::NixVector'', ''ns3::empty'', ''ns3::DefaultDeleter<ns3::NixVector>'']), (''parent'', Class ''ns3::empty''), (''memory_policy'', RefPolicy ''Ref'' ''Unref'' ''GetReferenceCount'')],
     Add_class ''SimpleRefCount'' [(''automatic_type_narrowing'', Const (CBool True)),
       (''import_from_module'', Const (CStr ''ns.core'')),
       (''template_parameters'', Strs [''ns3::Packet'', ''ns3::empty'', ''ns3::DefaultDeleter<ns3::Packet>'']), (''parent'', Class ''ns3::empty''), (''memory_policy'', RefPolicy ''Ref'' ''Unref'' ''GetReferenceCount'')],
     Add_class ''SimpleRefCount'' [(''automatic_type_narrowing'', Const (CBool True)),
       (''import_from_module'', Const (CStr ''ns.core'')),
       (''template_parameters'', Strs [''ns3::QueueItem'', ''ns3::empty'', ''ns3::DefaultDeleter<ns3::QueueItem>'']), (''parent'', Class ''ns3::empty''), (''memory_policy'', RefPolicy ''Ref'' ''Unref'' ''GetReferenceCount'')]]"

definition register_types_6 :: "type_call list" where
  "register_types_6 = [
     Add_class ''SimpleRefCount'' [(''automatic_type_narrowing'', Const (CBool True)),
       (''import_from_module'', Const (CStr ''ns.core'')),
       (''template_parameters'', Strs [''ns3::TraceSourceAccessor'', ''ns3::empty'', ''ns3::DefaultDeleter<ns3::TraceSourceAccessor>'']), (''parent'', Class ''ns3::empty''), (''memory_policy'', RefPolicy ''Ref'' ''Unref'' ''GetReferenceCount'')],
     Add_class ''Time'' [(''import_from_module'', Const (CStr ''ns.core''))],
     Add_enum ''Unit'' [''Y'', ''D'', ''H'', ''MIN'', ''S'', ''MS'', ''US'', ''NS'', ''PS'', ''FS'', ''LAST''] [(''outer_class'', Class ''ns3::Time''), (''import_from_module'', Const (CStr ''ns.core''))],
     Implicitly_converts_to ''ns3::Time'' ''ns3::int64x64_t'',
     Add_class ''TraceSourceAccessor'' [(''import_from_module'', Const (CStr ''ns.core'')),
       (''parent'', Class ''ns3::SimpleRefCount< ns3::TraceSourceAccessor, ns3::empty, ns3::DefaultDeleter<ns3::TraceSourceAccessor> >'')],
     Add_class ''TracedValue'' [(''import_from_module'', Const (CStr ''ns.core'')),
       (''template_parameters'', Strs [''ns3::Time''])],
     Implicitly_converts_to ''ns3::TracedValue< ns3::Time >'' ''ns3::Time'',
     Add_class ''TrafficControlLayer'' [(''parent'', Class ''ns3::Object'')],
     Add_class ''Trailer'' [(''import_from_module'', Const (CStr ''ns.network'')),
       (''parent'', Class ''ns3::Chunk'')],
     Add_class ''TriangularRandomVariable'' [(''import_from_module'', Const (CStr ''ns.core'')),
       (''parent'', Class ''ns3::RandomVariableStream'')],
     Add_class ''UniformRandomVariable'' [(''import_from_module'', Const (CStr ''ns.core'')),
       (''parent'', Class ''ns3::RandomVariableStream'')],
     Add_class ''WeibullRandomVariable'' [(''import_from_module'', Const (CStr ''ns.core'')),
       (''parent'', Class ''ns3::RandomVariableStream'')],
     Add_class ''ZetaRandomVariable'' [(''import_from_module'', Const (CStr ''ns.core'')),
       (''parent'', Class ''ns3::RandomVariableStream'')],
     Add_class ''ZipfRandomVariable'' [(''import_from_module'', Const (CStr ''ns.core'')),
       (''parent'', Class ''ns3::RandomVariableStream'')],
     Add_class ''AttributeAccessor'' [(''import_from_module'', Const (CStr ''ns.core'')),
       (''parent'', Class ''ns3::SimpleRefCount< ns3::AttributeAccessor, ns3::empty, ns3::DefaultDeleter<ns3::AttributeAccessor> >'')],
     Add_class ''AttributeChecker'' [(''allow_subclassing'', Const (CBool False)),
       (''automatic_type_narrowing'', Const (CBool True)), (''import_from_module'', Const (CStr ''ns.core'')),
       (''parent'', Class ''ns3::SimpleRefCount< ns3::AttributeChecker, ns3::empty, ns3::DefaultDeleter<ns3::AttributeChecker> >'')],
     Add_class ''AttributeValue'' [(''allow_subclassing'', Const (CBool False)),
       (''automatic_type_narrowing'', Const (CBool True)), (''import_from_module'', Const (CStr ''ns.core'')),
       (''parent'', Class ''ns3::SimpleRefCount< ns3::AttributeValue, ns3::empty, ns3::DefaultDeleter<ns3::AttributeValue> >'')],
     Add_class ''BooleanChecker'' [(''import_from_module'', Const (CStr ''ns.core'')),
       (''parent'', Class ''ns3::AttributeChecker'')],
     Add_class ''BooleanValue'' [(''import_from_module'', Const (CStr ''ns.core'')),
       (''parent'', Class ''ns3::AttributeValue'')],
     Add_class ''CallbackChecker'' [(''import_from_module'', Const (CStr ''ns.core'')),
       (''parent'', Class ''ns3::AttributeChecker'')]]"

definition register_types_7 :: "type_call list" where
  "register_types_7 = [
     Add_class ''CallbackImplBase'' [(''import_from_module'', Const (CStr ''ns.core'')),
       (''parent'', Class ''ns3::SimpleRefCount< ns3::CallbackImplBase, ns3::empty, ns3::DefaultDeleter<ns3::CallbackImplBase> >'')],
     Add_class ''CallbackValue'' [(''import_from_module'', Const (CStr ''ns.core'')),
       (''parent'', Class ''ns3::AttributeValue'')],
     Add_class ''CoDelQueueDisc'' [(''parent'', Class ''ns3::QueueDisc'')],
     Add_class ''ConstantRandomVariable'' [(''import_from_module'', Const (CStr ''ns.core'')),
       (''parent'', Class ''ns3::RandomVariableStream'')],
     Add_class ''DataRateChecker'' [(''import_from_module'', Const (CStr ''ns.network'')),
       (''parent'', Class ''ns3::AttributeChecker'')],
     Add_class ''DataRateValue'' [(''import_from_module'', Const (CStr ''ns.network'')),
       (''parent'', Class ''ns3::AttributeValue'')],
     Add_class ''DeterministicRandomVariable'' [(''import_from_module'', Const (CStr ''ns.core'')),
       (''parent'', Class ''ns3::RandomVariableStream'')],
     Add_class ''DoubleValue'' [(''import_from_module'', Const (CStr ''ns.core'')),
       (''parent'', Class ''ns3::AttributeValue'')],
     Add_class ''EmpiricalRandomVariable'' [(''import_from_module'', Const (CStr ''ns.core'')),
       (''parent'', Class ''ns3::RandomVariableStream'')],
     Add_class ''EmptyAttributeAccessor'' [(''import_from_module'', Const (CStr ''ns.core'')),
       (''parent'', Class ''ns3::AttributeAccessor'')],
     Add_class ''EmptyAttributeChecker'' [(''import_from_module'', Const (CStr ''ns.core'')),
       (''parent'', Class ''ns3::AttributeChecker'')],
     Add_class ''EmptyAttributeValue'' [(''import_from_module'', Const (CStr ''ns.core'')),
       (''parent'', Class ''ns3::AttributeValue'')],
     Add_class ''EnumChecker'' [(''import_from_module'', Const (CStr ''ns.core'')),
       (''parent'', Class ''ns3::AttributeChecker'')],
     Add_class ''EnumValue'' [(''import_from_module'', Const (CStr ''ns.core'')),
       (''parent'', Class ''ns3::AttributeValue'')],
     Add_class ''ErlangRandomVariable'' [(''import_from_module'', Const (CStr ''ns.core'')),
       (''parent'', Class ''ns3::RandomVariableStream'')],
     Add_class ''EventImpl'' [(''import_from_module'', Const (CStr ''ns.core'')),
       (''parent'', Class ''ns3::SimpleRefCount< ns3::EventImpl, ns3::empty, ns3::DefaultDeleter<ns3::EventImpl> >'')],
     Add_class ''ExponentialRandomVariable'' [(''import_from_module'', Const (CStr ''ns.core'')),
       (''parent'', Class ''ns3::RandomVariableStream'')],
     Add_class ''FqCoDelFlow'' [(''parent'', Class ''ns3::QueueDiscClass'')],
     Add_enum ''FlowStatus'' [''INACTIVE'', ''NEW_FLOW'', ''OLD_FLOW''] [(''outer_class'', Class ''ns3::FqCoDelFlow'')],
     Add_class ''FqCoDelQueueDisc'' [(''parent'', Class ''ns3::QueueDisc'')]]"

definition register_types_8 :: "type_call list" where
  "register_types_8 = [
     Add_class ''GammaRandomVariable'' [(''import_from_module'', Const (CStr ''ns.core'')),
       (''parent'', Class ''ns3::RandomVariableStream'')],
     Add_class ''IntegerValue'' [(''import_from_module'', Const (CStr ''ns.core'')),
       (''parent'', Class ''ns3::AttributeValue'')],
     Add_class ''Ipv4AddressChecker'' [(''import_from_module'', Const (CStr ''ns.network'')),
       (''parent'', Class ''ns3::AttributeChecker'')],
     Add_class ''Ipv4AddressValue'' [(''import_from_module'', Const (CStr ''ns.network'')),
       (''parent'', Class ''ns3::AttributeValue'')],
     Add_class ''Ipv4MaskChecker'' [(''import_from_module'', Const (CStr ''ns.network'')),
       (''parent'', Class ''ns3::AttributeChecker'')],
     Add_class ''Ipv4MaskValue'' [(''import_from_module'', Const (CStr ''ns.network'')),
       (''parent'', Class ''ns3::AttributeValue'')],
     Add_class ''Ipv6AddressChecker'' [(''import_from_module'', Const (CStr ''ns.network'')),
       (''parent'', Class ''ns3::AttributeChecker'')],
     Add_class ''Ipv6AddressValue'' [(''import_from_module'', Const (CStr ''ns.network'')),
       (''parent'', Class ''ns3::AttributeValue'')],
     Add_class ''Ipv6PrefixChecker'' [(''import_from_module'', Const (CStr ''ns.network'')),
       (''parent'', Class ''ns3::AttributeChecker'')],
     Add_class ''Ipv6PrefixValue'' [(''import_from_module'', Const (CStr ''ns.network'')),
       (''parent'', Class ''ns3::AttributeValue'')],
     Add_class ''LogNormalRandomVariable'' [(''import_from_module'', Const (CStr ''ns.core'')),
       (''parent'', Class ''ns3::RandomVariableStream'')],
     Add_class ''Mac48AddressChecker'' [(''import_from_module'', Const (CStr ''ns.network'')),
       (''parent'', Class ''ns3::AttributeChecker'')],
     Add_class ''Mac48AddressValue'' [(''import_from_module'', Const (CStr ''ns.network'')),
       (''parent'', Class ''ns3::AttributeValue'')],
     Add_class ''NetDevice'' [(''import_from_module'', Const (CStr ''ns.network'')),
       (''parent'', Class ''ns3::Object'')],
     Add_enum ''PacketType'' [''PACKET_HOST'', ''NS3_PACKET_HOST'', ''PACKET_BROADCAST'', ''NS3_PACKET_BROADCAST'', ''PACKET_MULTICAST'', ''NS3_PACKET_MULTICAST'', ''PACKET_OTHERHOST'', ''NS3_PACKET_OTHERHOST''] [(''outer_class'', Class ''ns3::NetDevice''), (''import_from_module'', Const (CStr ''ns.network''))],
     Add_class ''NetDeviceQueue'' [(''import_from_module'', Const (CStr ''ns.network'')),
       (''parent'', Class ''ns3::SimpleRefCount< ns3::NetDeviceQueue, ns3::empty, ns3::DefaultDeleter<ns3::NetDeviceQueue> >'')],
     Add_class ''NetDeviceQueueInterface'' [(''import_from_module'', Const (CStr ''ns.network'')),
       (''parent'', Class ''ns3::Object'')],
     Add_class ''NixVector'' [(''import_from_module'', Const (CStr ''ns.network'')),
       (''parent'', Class ''ns3::SimpleRefCount< ns3::NixVector, ns3::empty, ns3::DefaultDeleter<ns3::NixVector> >'')],
     Add_class ''Node'' [(''import_from_module'', Const (CStr ''ns.network'')),
       (''parent'', Class ''ns3::Object'')],
     Add_class ''NormalRandomVariable'' [(''import_from_module'', Const (CStr ''ns.core'')),
       (''parent'', Class ''ns3::RandomVariableStream'')]]"

definition register_types_9 :: "type_call list" where
  "register_types_9 = [
     Add_class ''ObjectFactoryChecker'' [(''import_from_module'', Const (CStr ''ns.core'')),
       (''parent'', Class ''ns3::AttributeChecker'')],
     Add_class ''ObjectFactoryValue'' [(''import_from_module'', Const (CStr ''ns.core'')),
       (''parent'', Class ''ns3::AttributeValue'')],
     Add_class ''Packet'' [(''import_from_module'', Const (CStr ''ns.network'')),
       (''parent'', Class ''ns3::SimpleRefCount< ns3::Packet, ns3::empty, ns3::DefaultDeleter<ns3::Packet> >'')],
     Add_class ''ParetoRandomVariable'' [(''import_from_module'', Const (CStr ''ns.core'')),
       (''parent'', Class ''ns3::RandomVariableStream'')],
     Add_class ''PfifoFastQueueDisc'' [(''parent'', Class ''ns3::QueueDisc'')],
     Add_class ''PieQueueDisc'' [(''parent'', Class ''ns3::QueueDisc'')],
     Add_enum ''BurstStateT'' [''NO_BURST'', ''IN_BURST'', ''IN_BURST_PROTECTING''] [(''outer_class'', Class ''ns3::PieQueueDisc'')],
     Add_class ''Stats'' [(''outer_class'', Class ''ns3::PieQueueDisc'')],
     Add_class ''QueueItem'' [(''import_from_module'', Const (CStr ''ns.network'')),
       (''parent'', Class ''ns3::SimpleRefCount< ns3::QueueItem, ns3::empty, ns3::DefaultDeleter<ns3::QueueItem> >'')],
     Add_enum ''Uint8Values'' [''IP_DSFIELD''] [(''outer_class'', Class ''ns3::QueueItem''),
       (''import_from_module'', Const (CStr ''ns.network''))],
     Add_class ''StringChecker'' [(''import_from_module'', Const (CStr ''ns.core'')),
       (''parent'', Class ''ns3::AttributeChecker'')],
     Add_class ''StringValue'' [(''import_from_module'', Const (CStr ''ns.core'')),
       (''parent'', Class ''ns3::AttributeValue'')],
     Add_class ''TimeValue'' [(''import_from_module'', Const (CStr ''ns.core'')),
       (''parent'', Class ''ns3::AttributeValue'')],
     Add_class ''TypeIdChecker'' [(''import_from_module'', Const (CStr ''ns.core'')),
       (''parent'', Class ''ns3::AttributeChecker'')],
     Add_class ''TypeIdValue'' [(''import_from_module'', Const (CStr ''ns.core'')),
       (''parent'', Class ''ns3::AttributeValue'')],
     Add_class ''UintegerValue'' [(''import_from_module'', Const (CStr ''ns.core'')),
       (''parent'', Class ''ns3::AttributeValue'')],
     Add_class ''AddressChecker'' [(''import_from_module'', Const (CStr ''ns.network'')),
       (''parent'', Class ''ns3::AttributeChecker'')],
     Add_class ''AddressValue'' [(''import_from_module'', Const (CStr ''ns.network'')),
       (''parent'', Class ''ns3::AttributeValue'')],
     Add_class ''QueueDiscItem'' [(''parent'', Class ''ns3::QueueItem'')],
     Add_container ''std::vector< ns3::Ptr< ns3::QueueDisc > >'' ''ns3::Ptr< ns3::QueueDisc >'' [(''container_type'', CStr ''vector'')],
     Add_container ''std::vector< short unsigned int >'' ''short unsigned int'' [(''container_type'', CStr ''vector'')]]"

definition register_types_10 :: "type_call list" where
  "register_types_10 = [
     Nested ''FatalImpl'' register_types_ns3_FatalImpl,
     Nested ''Hash'' register_types_ns3_Hash,
     Nested ''TracedValueCallback'' register_types_ns3_TracedValueCallback,
     Nested ''internal'' register_types_ns3_internal]"

definition register_types :: "type_call list" where
  "register_types = register_types_1 @ register_types_2 @ register_types_3 @ register_types_4 @ register_types_5 @ register_types_6 @ register_types_7 @ register_types_8 @ register_types_9 @ register_types_10"

end
