(* ===== verification/Bindings_Methods_1.thy ===== *)
theory Bindings_Methods_1
  imports Pybindgen
begin

text \<open>
  Part 1 of the functions that register the members of the classes of the traffic-control
  module, from \<open>register_Ns3Address_methods\<close> to \<open>register_Ns3Ipv6Address_methods\<close> of
  \<open>traffic-control/bindings/modulegen__gcc_LP64.py\<close>: the calls on \<open>cls\<close> in the order of the
  source.
\<close>

definition register_Ns3Address_methods :: "class_call list" where
  "register_Ns3Address_methods = [
     Add_binary_comparison_operator ''<'',
     Add_binary_comparison_operator ''!='',
     Add_output_stream_operator,
     Add_binary_comparison_operator ''=='',
     Add_constructor [] [],
     Add_constructor [Param ''uint8_t'' ''type'' [], Param ''uint8_t const *'' ''buffer'' [],
       Param ''uint8_t'' ''len'' []] [],
     Add_constructor [Param ''ns3::Address const &'' ''address'' []] [],
     Add_method ''CheckCompatible'' ''bool'' [Param ''uint8_t'' ''type'' [],
       Param ''uint8_t'' ''len'' []] [(''is_const'', CBool True)],
     Add_method ''CopyAllFrom'' ''uint32_t'' [Param ''uint8_t const *'' ''buffer'' [],
       Param ''uint8_t'' ''len'' []] [],
     Add_method ''CopyAllTo'' ''uint32_t'' [Param ''uint8_t *'' ''buffer'' [],
       Param ''uint8_t'' ''len'' []] [(''is_const'', CBool True)],
     Add_method ''CopyFrom'' ''uint32_t'' [Param ''uint8_t const *'' ''buffer'' [],
       Param ''uint8_t'' ''len'' []] [],
     Add_method ''CopyTo'' ''uint32_t'' [Param ''uint8_t *'' ''buffer'' []] [(''is_const'', CBool True)],
     Add_method ''Deserialize'' ''void'' [Param ''ns3::TagBuffer'' ''buffer'' []] [],
     Add_method ''GetLength'' ''uint8_t'' [] [(''is_const'', CBool True)],
     Add_method ''GetSerializedSize'' ''uint32_t'' [] [(''is_const'', CBool True)],
     Add_method ''IsInvalid'' ''bool'' [] [(''is_const'', CBool True)],
     Add_method ''IsMatchingType'' ''bool'' [Param ''uint8_t'' ''type'' []] [(''is_const'', CBool True)],
     Add_method ''Register'' ''uint8_t'' [] [(''is_static'', CBool True)],
     Add_method ''Serialize'' ''void'' [Param ''ns3::TagBuffer'' ''buffer'' []] [(''is_const'', CBool True)]]"

definition register_Ns3AttributeConstructionList_methods :: "class_call list" where
  "register_Ns3AttributeConstructionList_methods = [
     Add_constructor [Param ''ns3::AttributeConstructionList const &'' ''arg0'' []] [],
     Add_constructor [] [],
     Add_method ''Add'' ''void'' [Param ''std::string'' ''name'' [],
       Param ''ns3::Ptr< ns3::AttributeChecker const >'' ''checker'' [],
       Param ''ns3::Ptr< ns3::AttributeValue >'' ''value'' []] [],
     Add_method ''Begin'' ''std::_List_const_iterator< ns3::AttributeConstructionList::Item >'' [] [(''is_const'', CBool True)],
     Add_method ''End'' ''std::_List_const_iterator< ns3::AttributeConstructionList::Item >'' [] [(''is_const'', CBool True)],
     Add_method ''Find'' ''ns3::Ptr< ns3::AttributeValue >'' [Param ''ns3::Ptr< ns3::AttributeChecker const >'' ''checker'' []] [(''is_const'', CBool True)]]"

definition register_Ns3AttributeConstructionListItem_methods :: "class_call list" where
  "register_Ns3AttributeConstructionListItem_methods = [
     Add_constructor [] [],
     Add_constructor [Param ''ns3::AttributeConstructionList::Item const &'' ''arg0'' []] [],
     Add_instance_attribute ''checker'' ''ns3::Ptr< ns3::AttributeChecker const >'' [(''is_const'', CBool False)],
     Add_instance_attribute ''name'' ''std::string'' [(''is_const'', CBool False)],
     Add_instance_attribute ''value'' ''ns3::Ptr< ns3::AttributeValue >'' [(''is_const'', CBool False)]]"

definition register_Ns3Buffer_methods :: "class_call list" where
  "register_Ns3Buffer_methods = [
     Add_constructor [] [],
     Add_constructor [Param ''uint32_t'' ''dataSize'' []] [],
     Add_constructor [Param ''uint32_t'' ''dataSize'' [], Param ''bool'' ''initialize'' []] [],
     Add_constructor [Param ''ns3::Buffer const &'' ''o'' []] [],
     Add_method ''AddAtEnd'' ''void'' [Param ''uint32_t'' ''end'' []] [],
     Add_method ''AddAtEnd'' ''void'' [Param ''ns3::Buffer const &'' ''o'' []] [],
     Add_method ''AddAtStart'' ''void'' [Param ''uint32_t'' ''start'' []] [],
     Add_method ''Begin'' ''ns3::Buffer::Iterator'' [] [(''is_const'', CBool True)],
     Add_method ''CopyData'' ''void'' [Param ''std::ostream *'' ''os'' [],
       Param ''uint32_t'' ''size'' []] [(''is_const'', CBool True)],
     Add_method ''CopyData'' ''uint32_t'' [Param ''uint8_t *'' ''buffer'' [],
       Param ''uint32_t'' ''size'' []] [(''is_const'', CBool True)],
     Add_method ''CreateFragment'' ''ns3::Buffer'' [Param ''uint32_t'' ''start'' [],
       Param ''uint32_t'' ''length'' []] [(''is_const'', CBool True)],
     Add_method ''Deserialize'' ''uint32_t'' [Param ''uint8_t const *'' ''buffer'' [],
       Param ''uint32_t'' ''size'' []] [],
     Add_method ''End'' ''ns3::Buffer::Iterator'' [] [(''is_const'', CBool True)],
     Add_method ''GetSerializedSize'' ''uint32_t'' [] [(''is_const'', CBool True)],
     Add_method ''GetSize'' ''uint32_t'' [] [(''is_const'', CBool True)],
     Add_method ''PeekData'' ''uint8_t const *'' [] [(''is_const'', CBool True)],
     Add_method ''RemoveAtEnd'' ''void'' [Param ''uint32_t'' ''end'' []] [],
     Add_method ''RemoveAtStart'' ''void'' [Param ''uint32_t'' ''start'' []] [],
     Add_method ''Serialize'' ''uint32_t'' [Param ''uint8_t *'' ''buffer'' [],
       Param ''uint32_t'' ''maxSize'' []] [(''is_const'', CBool True)]]"

definition register_Ns3BufferIterator_methods :: "class_call list" where
  "register_Ns3BufferIterator_methods = [
     Add_constructor [Param ''ns3::Buffer::Iterator const &'' ''arg0'' []] [],
     Add_constructor [] [],
     Add_method ''CalculateIpChecksum'' ''uint16_t'' [Param ''uint16_t'' ''size'' []] [],
     Add_method ''CalculateIpChecksum'' ''uint16_t'' [Param ''uint16_t'' ''size'' [],
       Param ''uint32_t'' ''initialChecksum'' []] [],
     Add_method ''GetDistanceFrom'' ''uint32_t'' [Param ''ns3::Buffer::Iterator const &'' ''o'' []] [(''is_const'', CBool True)],
     Add_method ''GetRemainingSize'' ''uint32_t'' [] [(''is_const'', CBool True)],
     Add_method ''GetSize'' ''uint32_t'' [] [(''is_const'', CBool True)],
     Add_method ''IsEnd'' ''bool'' [] [(''is_const'', CBool True)],
     Add_method ''IsStart'' ''bool'' [] [(''is_const'', CBool True)],
     Add_method ''Next'' ''void'' [] [],
     Add_method ''Next'' ''void'' [Param ''uint32_t'' ''delta'' []] [],
     Add_method ''PeekU8'' ''uint8_t'' [] [],
     Add_method ''Prev'' ''void'' [] [],
     Add_method ''Prev'' ''void'' [Param ''uint32_t'' ''delta'' []] [],
     Add_method ''Read'' ''void'' [Param ''uint8_t *'' ''buffer'' [], Param ''uint32_t'' ''size'' []] [],
     Add_method ''Read'' ''void'' [Param ''ns3::Buffer::Iterator'' ''start'' [],
       Param ''uint32_t'' ''size'' []] [],
     Add_method ''ReadLsbtohU16'' ''uint16_t'' [] [],
     Add_method ''ReadLsbtohU32'' ''uint32_t'' [] [],
     Add_method ''ReadLsbtohU64'' ''uint64_t'' [] [],
     Add_method ''ReadNtohU16'' ''uint16_t'' [] [],
     Add_method ''ReadNtohU32'' ''uint32_t'' [] [],
     Add_method ''ReadNtohU64'' ''uint64_t'' [] [],
     Add_method ''ReadU16'' ''uint16_t'' [] [],
     Add_method ''ReadU32'' ''uint32_t'' [] [],
     Add_method ''ReadU64'' ''uint64_t'' [] [],
     Add_method ''ReadU8'' ''uint8_t'' [] [],
     Add_method ''Write'' ''void'' [Param ''uint8_t const *'' ''buffer'' [],
       Param ''uint32_t'' ''size'' []] [],
     Add_method ''Write'' ''void'' [Param ''ns3::Buffer::Iterator'' ''start'' [],
       Param ''ns3::Buffer::Iterator'' ''end'' []] [],
     Add_method ''WriteHtolsbU16'' ''void'' [Param ''uint16_t'' ''data'' []] [],
     Add_method ''WriteHtolsbU32'' ''void'' [Param ''uint32_t'' ''data'' []] [],
     Add_method ''WriteHtolsbU64'' ''void'' [Param ''uint64_t'' ''data'' []] [],
     Add_method ''WriteHtonU16'' ''void'' [Param ''uint16_t'' ''data'' []] [],
     Add_method ''WriteHtonU32'' ''void'' [Param ''uint32_t'' ''data'' []] [],
     Add_method ''WriteHtonU64'' ''void'' [Param ''uint64_t'' ''data'' []] [],
     Add_method ''WriteU16'' ''void'' [Param ''uint16_t'' ''data'' []] [],
     Add_method ''WriteU32'' ''void'' [Param ''uint32_t'' ''data'' []] [],
     Add_method ''WriteU64'' ''void'' [Param ''uint64_t'' ''data'' []] [],
     Add_method ''WriteU8'' ''void'' [Param ''uint8_t'' ''data'' []] [],
     Add_method ''WriteU8'' ''void'' [Param ''uint8_t'' ''data'' [], Param ''uint32_t'' ''len'' []] []]"

definition register_Ns3ByteTagIterator_methods :: "class_call list" where
  "register_Ns3ByteTagIterator_methods = [
     Add_constructor [Param ''ns3::ByteTagIterator const &'' ''arg0'' []] [],
     Add_method ''HasNext'' ''bool'' [] [(''is_const'', CBool True)],
     Add_method ''Next'' ''ns3::ByteTagIterator::Item'' [] []]"

definition register_Ns3ByteTagIteratorItem_methods :: "class_call list" where
  "register_Ns3ByteTagIteratorItem_methods = [
     Add_constructor [Param ''ns3::ByteTagIterator::Item const &'' ''arg0'' []] [],
     Add_method ''GetEnd'' ''uint32_t'' [] [(''is_const'', CBool True)],
     Add_method ''GetStart'' ''uint32_t'' [] [(''is_const'', CBool True)],
     Add_method ''GetTag'' ''void'' [Param ''ns3::Tag &'' ''tag'' []] [(''is_const'', CBool True)],
     Add_method ''GetTypeId'' ''ns3::TypeId'' [] [(''is_const'', CBool True)]]"

definition register_Ns3ByteTagList_methods :: "class_call list" where
  "register_Ns3ByteTagList_methods = [
     Add_constructor [] [],
     Add_constructor [Param ''ns3::ByteTagList const &'' ''o'' []] [],
     Add_method ''Add'' ''ns3::TagBuffer'' [Param ''ns3::TypeId'' ''tid'' [],
       Param ''uint32_t'' ''bufferSize'' [], Param ''int32_t'' ''start'' [], Param ''int32_t'' ''end'' []] [],
     Add_method ''Add'' ''void'' [Param ''ns3::ByteTagList const &'' ''o'' []] [],
     Add_method ''AddAtEnd'' ''void'' [Param ''int32_t'' ''appendOffset'' []] [],
     Add_method ''AddAtStart'' ''void'' [Param ''int32_t'' ''prependOffset'' []] [],
     Add_method ''Adjust'' ''void'' [Param ''int32_t'' ''adjustment'' []] [],
     Add_method ''Begin'' ''ns3::ByteTagList::Iterator'' [Param ''int32_t'' ''offsetStart'' [],
       Param ''int32_t'' ''offsetEnd'' []] [(''is_const'', CBool True)],
     Add_method ''RemoveAll'' ''void'' [] []]"

definition register_Ns3ByteTagListIterator_methods :: "class_call list" where
  "register_Ns3ByteTagListIterator_methods = [
     Add_constructor [Param ''ns3::ByteTagList::Iterator const &'' ''arg0'' []] [],
     Add_method ''GetOffsetStart'' ''uint32_t'' [] [(''is_const'', CBool True)],
     Add_method ''HasNext'' ''bool'' [] [(''is_const'', CBool True)],
     Add_method ''Next'' ''ns3::ByteTagList::Iterator::Item'' [] []]"

definition register_Ns3ByteTagListIteratorItem_methods :: "class_call list" where
  "register_Ns3ByteTagListIteratorItem_methods = [
     Add_constructor [Param ''ns3::ByteTagList::Iterator::Item const &'' ''arg0'' []] [],
     Add_constructor [Param ''ns3::TagBuffer'' ''buf'' []] [],
     Add_instance_attribute ''buf'' ''ns3::TagBuffer'' [(''is_const'', CBool False)],
     Add_instance_attribute ''end'' ''int32_t'' [(''is_const'', CBool False)],
     Add_instance_attribute ''size'' ''uint32_t'' [(''is_const'', CBool False)],
     Add_instance_attribute ''start'' ''int32_t'' [(''is_const'', CBool False)],
     Add_instance_attribute ''tid'' ''ns3::TypeId'' [(''is_const'', CBool False)]]"

definition register_Ns3CallbackBase_methods :: "class_call list" where
  "register_Ns3CallbackBase_methods = [
     Add_constructor [Param ''ns3::CallbackBase const &'' ''arg0'' []] [],
     Add_constructor [] [],
     Add_method ''GetImpl'' ''ns3::Ptr< ns3::CallbackImplBase >'' [] [(''is_const'', CBool True)],
     Add_constructor [Param ''ns3::Ptr< ns3::CallbackImplBase >'' ''impl'' []] [(''visibility'', CStr ''protected'')]]"

definition register_Ns3DataRate_methods :: "class_call list" where
  "register_Ns3DataRate_methods = [
     Add_output_stream_operator,
     Add_binary_comparison_operator ''!='',
     Add_binary_comparison_operator ''<'',
     Add_binary_comparison_operator ''<='',
     Add_binary_comparison_operator ''=='',
     Add_binary_comparison_operator ''>'',
     Add_binary_comparison_operator ''>='',
     Add_constructor [Param ''ns3::DataRate const &'' ''arg0'' []] [],
     Add_constructor [] [],
     Add_constructor [Param ''uint64_t'' ''bps'' []] [],
     Add_constructor [Param ''std::string'' ''rate'' []] [],
     Add_method ''CalculateBitsTxTime'' ''ns3::Time'' [Param ''uint32_t'' ''bits'' []] [(''is_const'', CBool True)],
     Add_method ''CalculateBytesTxTime'' ''ns3::Time'' [Param ''uint32_t'' ''bytes'' []] [(''is_const'', CBool True)],
     Add_method ''CalculateTxTime'' ''double'' [Param ''uint32_t'' ''bytes'' []] [(''deprecated'', CBool True), (''is_const'', CBool True)],
     Add_method ''GetBitRate'' ''uint64_t'' [] [(''is_const'', CBool True)]]"

definition register_Ns3EventId_methods :: "class_call list" where
  "register_Ns3EventId_methods = [
     Add_binary_comparison_operator ''!='',
     Add_binary_comparison_operator ''=='',
     Add_constructor [Param ''ns3::EventId const &'' ''arg0'' []] [],
     Add_constructor [] [],
     Add_constructor [Param ''ns3::Ptr< ns3::EventImpl > const &'' ''impl'' [], Param ''uint64_t'' ''ts'' [],
       Param ''uint32_t'' ''context'' [], Param ''uint32_t'' ''uid'' []] [],
     Add_method ''Cancel'' ''void'' [] [],
     Add_method ''GetContext'' ''uint32_t'' [] [(''is_const'', CBool True)],
     Add_method ''GetTs'' ''uint64_t'' [] [(''is_const'', CBool True)],
     Add_method ''GetUid'' ''uint32_t'' [] [(''is_const'', CBool True)],
     Add_method ''IsExpired'' ''bool'' [] [(''is_const'', CBool True)],
     Add_method ''IsRunning'' ''bool'' [] [(''is_const'', CBool True)],
     Add_method ''PeekEventImpl'' ''ns3::EventImpl *'' [] [(''is_const'', CBool True)]]"

definition register_Ns3Hasher_methods :: "class_call list" where
  "register_Ns3Hasher_methods = [
     Add_constructor [Param ''ns3::Hasher const &'' ''arg0'' []] [],
     Add_constructor [] [],
     Add_constructor [Param ''ns3::Ptr< ns3::Hash::Implementation >'' ''hp'' []] [],
     Add_method ''GetHash32'' ''uint32_t'' [Param ''char const *'' ''buffer'' [],
       Param ''size_t const'' ''size'' []] [],
     Add_method ''GetHash32'' ''uint32_t'' [Param ''std::string const'' ''s'' []] [],
     Add_method ''GetHash64'' ''uint64_t'' [Param ''char const *'' ''buffer'' [],
       Param ''size_t const'' ''size'' []] [],
     Add_method ''GetHash64'' ''uint64_t'' [Param ''std::string const'' ''s'' []] [],
     Add_method ''clear'' ''ns3::Hasher &'' [] []]"

definition register_Ns3IntToType__0_methods :: "class_call list" where
  "register_Ns3IntToType__0_methods = [
     Add_constructor [] [],
     Add_constructor [Param ''ns3::IntToType< 0 > const &'' ''arg0'' []] []]"

definition register_Ns3IntToType__1_methods :: "class_call list" where
  "register_Ns3IntToType__1_methods = [
     Add_constructor [] [],
     Add_constructor [Param ''ns3::IntToType< 1 > const &'' ''arg0'' []] []]"

definition register_Ns3IntToType__2_methods :: "class_call list" where
  "register_Ns3IntToType__2_methods = [
     Add_constructor [] [],
     Add_constructor [Param ''ns3::IntToType< 2 > const &'' ''arg0'' []] []]"

definition register_Ns3IntToType__3_methods :: "class_call list" where
  "register_Ns3IntToType__3_methods = [
     Add_constructor [] [],
     Add_constructor [Param ''ns3::IntToType< 3 > const &'' ''arg0'' []] []]"

definition register_Ns3IntToType__4_methods :: "class_call list" where
  "register_Ns3IntToType__4_methods = [
     Add_constructor [] [],
     Add_constructor [Param ''ns3::IntToType< 4 > const &'' ''arg0'' []] []]"

definition register_Ns3IntToType__5_methods :: "class_call list" where
  "register_Ns3IntToType__5_methods = [
     Add_constructor [] [],
     Add_constructor [Param ''ns3::IntToType< 5 > const &'' ''arg0'' []] []]"

definition register_Ns3IntToType__6_methods :: "class_call list" where
  "register_Ns3IntToType__6_methods = [
     Add_constructor [] [],
     Add_constructor [Param ''ns3::IntToType< 6 > const &'' ''arg0'' []] []]"

definition register_Ns3Ipv4Address_methods :: "class_call list" where
  "register_Ns3Ipv4Address_methods = [
     Add_binary_comparison_operator ''<'',
     Add_binary_comparison_operator ''!='',
     Add_output_stream_operator,
     Add_binary_comparison_operator ''=='',
     Add_constructor [Param ''ns3::Ipv4Address const &'' ''arg0'' []] [],
     Add_constructor [] [],
     Add_constructor [Param ''uint32_t'' ''address'' []] [],
     Add_constructor [Param ''char const *'' ''address'' []] [],
     Add_method ''CombineMask'' ''ns3::Ipv4Address'' [Param ''ns3::Ipv4Mask const &'' ''mask'' []] [(''is_const'', CBool True)],
     Add_method ''ConvertFrom'' ''ns3::Ipv4Address'' [Param ''ns3::Address const &'' ''address'' []] [(''is_static'', CBool True)],
     Add_method ''Deserialize'' ''ns3::Ipv4Address'' [Param ''uint8_t const *'' ''buf'' []] [(''is_static'', CBool True)],
     Add_method ''Get'' ''uint32_t'' [] [(''is_const'', CBool True)],
     Add_method ''GetAny'' ''ns3::Ipv4Address'' [] [(''is_static'', CBool True)],
     Add_method ''GetBroadcast'' ''ns3::Ipv4Address'' [] [(''is_static'', CBool True)],
     Add_method ''GetLoopback'' ''ns3::Ipv4Address'' [] [(''is_static'', CBool True)],
     Add_method ''GetSubnetDirectedBroadcast'' ''ns3::Ipv4Address'' [Param ''ns3::Ipv4Mask const &'' ''mask'' []] [(''is_const'', CBool True)],
     Add_method ''GetZero'' ''ns3::Ipv4Address'' [] [(''is_static'', CBool True)],
     Add_method ''IsAny'' ''bool'' [] [(''is_const'', CBool True)],
     Add_method ''IsBroadcast'' ''bool'' [] [(''is_const'', CBool True)],
     Add_method ''IsEqual'' ''bool'' [Param ''ns3::Ipv4Address const &'' ''other'' []] [(''is_const'', CBool True)],
     Add_method ''IsLocalMulticast'' ''bool'' [] [(''is_const'', CBool True)],
     Add_method ''IsLocalhost'' ''bool'' [] [(''is_const'', CBool True)],
     Add_method ''IsMatchingType'' ''bool'' [Param ''ns3::Address const &'' ''address'' []] [(''is_static'', CBool True)],
     Add_method ''IsMulticast'' ''bool'' [] [(''is_const'', CBool True)],
     Add_method ''IsSubnetDirectedBroadcast'' ''bool'' [Param ''ns3::Ipv4Mask const &'' ''mask'' []] [(''is_const'', CBool True)],
     Add_method ''Print'' ''void'' [Param ''std::ostream &'' ''os'' []] [(''is_const'', CBool True)],
     Add_method ''Serialize'' ''void'' [Param ''uint8_t *'' ''buf'' []] [(''is_const'', CBool True)],
     Add_method ''Set'' ''void'' [Param ''uint32_t'' ''address'' []] [],
     Add_method ''Set'' ''void'' [Param ''char const *'' ''address'' []] []]"

definition register_Ns3Ipv4Mask_methods :: "class_call list" where
  "register_Ns3Ipv4Mask_methods = [
     Add_binary_comparison_operator ''!='',
     Add_output_stream_operator,
     Add_binary_comparison_operator ''=='',
     Add_constructor [Param ''ns3::Ipv4Mask const &'' ''arg0'' []] [],
     Add_constructor [] [],
     Add_constructor [Param ''uint32_t'' ''mask'' []] [],
     Add_constructor [Param ''char const *'' ''mask'' []] [],
     Add_method ''Get'' ''uint32_t'' [] [(''is_const'', CBool True)],
     Add_method ''GetInverse'' ''uint32_t'' [] [(''is_const'', CBool True)],
     Add_method ''GetLoopback'' ''ns3::Ipv4Mask'' [] [(''is_static'', CBool True)],
     Add_method ''GetOnes'' ''ns3::Ipv4Mask'' [] [(''is_static'', CBool True)],
     Add_method ''GetPrefixLength'' ''uint16_t'' [] [(''is_const'', CBool True)],
     Add_method ''GetZero'' ''ns3::Ipv4Mask'' [] [(''is_static'', CBool True)],
     Add_method ''IsEqual'' ''bool'' [Param ''ns3::Ipv4Mask'' ''other'' []] [(''is_const'', CBool True)],
     Add_method ''IsMatch'' ''bool'' [Param ''ns3::Ipv4Address'' ''a'' [],
       Param ''ns3::Ipv4Address'' ''b'' []] [(''is_const'', CBool True)],
     Add_method ''Print'' ''void'' [Param ''std::ostream &'' ''os'' []] [(''is_const'', CBool True)],
     Add_method ''Set'' ''void'' [Param ''uint32_t'' ''mask'' []] []]"

definition register_Ns3Ipv6Address_methods :: "class_call list" where
  "register_Ns3Ipv6Address_methods = [
     Add_binary_comparison_operator ''<'',
     Add_binary_comparison_operator ''!='',
     Add_output_stream_operator,
     Add_binary_comparison_operator ''=='',
     Add_constructor [] [],
     Add_constructor [Param ''char const *'' ''address'' []] [],
     Add_constructor [Param ''uint8_t *'' ''address'' []] [],
     Add_constructor [Param ''ns3::Ipv6Address const &'' ''addr'' []] [],
     Add_constructor [Param ''ns3::Ipv6Address const *'' ''addr'' []] [],
     Add_method ''CombinePrefix'' ''ns3::Ipv6Address'' [Param ''ns3::Ipv6Prefix const &'' ''prefix'' []] [],
     Add_method ''ConvertFrom'' ''ns3::Ipv6Address'' [Param ''ns3::Address const &'' ''address'' []] [(''is_static'', CBool True)],
     Add_method ''Deserialize'' ''ns3::Ipv6Address'' [Param ''uint8_t const *'' ''buf'' []] [(''is_static'', CBool True)],
     Add_method ''GetAllHostsMulticast'' ''ns3::Ipv6Address'' [] [(''is_static'', CBool True)],
     Add_method ''GetAllNodesMulticast'' ''ns3::Ipv6Address'' [] [(''is_static'', CBool True)],
     Add_method ''GetAllRoutersMulticast'' ''ns3::Ipv6Address'' [] [(''is_static'', CBool True)],
     Add_method ''GetAny'' ''ns3::Ipv6Address'' [] [(''is_static'', CBool True)],
     Add_method ''GetBytes'' ''void'' [Param ''uint8_t *'' ''buf'' []] [(''is_const'', CBool True)],
     Add_method ''GetIpv4MappedAddress'' ''ns3::Ipv4Address'' [] [(''is_const'', CBool True)],
     Add_method ''GetLoopback'' ''ns3::Ipv6Address'' [] [(''is_static'', CBool True)],
     Add_method ''GetOnes'' ''ns3::Ipv6Address'' [] [(''is_static'', CBool True)],
     Add_method ''GetZero'' ''ns3::Ipv6Address'' [] [(''is_static'', CBool True)],
     Add_method ''IsAllHostsMulticast'' ''bool'' [] [(''deprecated'', CBool True),
       (''is_const'', CBool True)],
     Add_method ''IsAllNodesMulticast'' ''bool'' [] [(''is_const'', CBool True)],
     Add_method ''IsAllRoutersMulticast'' ''bool'' [] [(''is_const'', CBool True)],
     Add_method ''IsAny'' ''bool'' [] [(''is_const'', CBool True)],
     Add_method ''IsDocumentation'' ''bool'' [] [(''is_const'', CBool True)],
     Add_method ''IsEqual'' ''bool'' [Param ''ns3::Ipv6Address const &'' ''other'' []] [(''is_const'', CBool True)],
     Add_method ''IsIpv4MappedAddress'' ''bool'' [] [(''is_const'', CBool True)],
     Add_method ''IsLinkLocal'' ''bool'' [] [(''is_const'', CBool True)],
     Add_method ''IsLinkLocalMulticast'' ''bool'' [] [(''is_const'', CBool True)],
     Add_method ''IsLocalhost'' ''bool'' [] [(''is_const'', CBool True)],
     Add_method ''IsMatchingType'' ''bool'' [Param ''ns3::Address const &'' ''address'' []] [(''is_static'', CBool True)],
     Add_method ''IsMulticast'' ''bool'' [] [(''is_const'', CBool True)],
     Add_method ''IsSolicitedMulticast'' ''bool'' [] [(''is_const'', CBool True)],
     Add_method ''MakeAutoconfiguredAddress'' ''ns3::Ipv6Address'' [Param ''ns3::Mac16Address'' ''addr'' [],
       Param ''ns3::Ipv6Address'' ''prefix'' []] [(''is_static'', CBool True)],
     Add_method ''MakeAutoconfiguredAddress'' ''ns3::Ipv6Address'' [Param ''ns3::Mac48Address'' ''addr'' [],
       Param ''ns3::Ipv6Address'' ''prefix'' []] [(''is_static'', CBool True)],
     Add_method ''MakeAutoconfiguredAddress'' ''ns3::Ipv6Address'' [Param ''ns3::Mac64Address'' ''addr'' [],
       Param ''ns3::Ipv6Address'' ''prefix'' []] [(''is_static'', CBool True)],
     Add_method ''MakeAutoconfiguredLinkLocalAddress'' ''ns3::Ipv6Address'' [Param ''ns3::Mac16Address'' ''mac'' []] [(''is_static'', CBool True)],
     Add_method ''MakeAutoconfiguredLinkLocalAddress'' ''ns3::Ipv6Address'' [Param ''ns3::Mac48Address'' ''mac'' []] [(''is_static'', CBool True)],
     Add_method ''MakeAutoconfiguredLinkLocalAddress'' ''ns3::Ipv6Address'' [Param ''ns3::Mac64Address'' ''mac'' []] [(''is_static'', CBool True)],
     Add_method ''MakeIpv4MappedAddress'' ''ns3::Ipv6Address'' [Param ''ns3::Ipv4Address'' ''addr'' []] [(''is_static'', CBool True)],
     Add_method ''MakeSolicitedAddress'' ''ns3::Ipv6Address'' [Param ''ns3::Ipv6Address'' ''addr'' []] [(''is_static'', CBool True)],
     Add_method ''Print'' ''void'' [Param ''std::ostream &'' ''os'' []] [(''is_const'', CBool True)],
     Add_method ''Serialize'' ''void'' [Param ''uint8_t *'' ''buf'' []] [(''is_const'', CBool True)],
     Add_method ''Set'' ''void'' [Param ''char const *'' ''address'' []] [],
     Add_method ''Set'' ''void'' [Param ''uint8_t *'' ''address'' []] []]"

text \<open>The functions of this part.\<close>

definition members_1 :: "class_call list list" where
  "members_1 = [
     register_Ns3Address_methods,
     register_Ns3AttributeConstructionList_methods,
     register_Ns3AttributeConstructionListItem_methods,
     register_Ns3Buffer_methods,
     register_Ns3BufferIterator_methods,
     register_Ns3ByteTagIterator_methods,
     register_Ns3ByteTagIteratorItem_methods,
     register_Ns3ByteTagList_methods,
     register_Ns3ByteTagListIterator_methods,
     register_Ns3ByteTagListIteratorItem_methods,
     register_Ns3CallbackBase_methods,
     register_Ns3DataRate_methods,
     register_Ns3EventId_methods,
     register_Ns3Hasher_methods,
     register_Ns3IntToType__0_methods,
     register_Ns3IntToType__1_methods,
     register_Ns3IntToType__2_methods,
     register_Ns3IntToType__3_methods,
     register_Ns3IntToType__4_methods,
     register_Ns3IntToType__5_methods,
     register_Ns3IntToType__6_methods,
     register_Ns3Ipv4Address_methods,
     register_Ns3Ipv4Mask_methods,
     register_Ns3Ipv6Address_methods]"

end
