(* ===== verification/Bindings_Methods_2.thy ===== *)
theory Bindings_Methods_2
  imports Pybindgen
begin

text \<open>
  Part 2 of the functions that register the members of the classes of the traffic-control
  module, from \<open>register_Ns3Ipv6Prefix_methods\<close> to \<open>register_Ns3TrafficControlHelper_methods\<close> of
  \<open>traffic-control/bindings/modulegen__gcc_LP64.py\<close>: the calls on \<open>cls\<close> in the order of the
  source.
\<close>

definition register_Ns3Ipv6Prefix_methods :: "class_call list" where
  "register_Ns3Ipv6Prefix_methods = [
     Add_binary_comparison_operator ''!='',
     Add_output_stream_operator,
     Add_binary_comparison_operator ''=='',
     Add_constructor [] [],
     Add_constructor [Param ''uint8_t *'' ''prefix'' []] [],
     Add_constructor [Param ''char const *'' ''prefix'' []] [],
     Add_constructor [Param ''uint8_t'' ''prefix'' []] [],
     Add_constructor [Param ''ns3::Ipv6Prefix const &'' ''prefix'' []] [],
     Add_constructor [Param ''ns3::Ipv6Prefix const *'' ''prefix'' []] [],
     Add_method ''GetBytes'' ''void'' [Param ''uint8_t *'' ''buf'' []] [(''is_const'', CBool True)],
     Add_method ''GetLoopback'' ''ns3::Ipv6Prefix'' [] [(''is_static'', CBool True)],
     Add_method ''GetOnes'' ''ns3::Ipv6Prefix'' [] [(''is_static'', CBool True)],
     Add_method ''GetPrefixLength'' ''uint8_t'' [] [(''is_const'', CBool True)],
     Add_method ''GetZero'' ''ns3::Ipv6Prefix'' [] [(''is_static'', CBool True)],
     Add_method ''IsEqual'' ''bool'' [Param ''ns3::Ipv6Prefix const &'' ''other'' []] [(''is_const'', CBool True)],
     Add_method ''IsMatch'' ''bool'' [Param ''ns3::Ipv6Address'' ''a'' [],
       Param ''ns3::Ipv6Address'' ''b'' []] [(''is_const'', CBool True)],
     Add_method ''Print'' ''void'' [Param ''std::ostream &'' ''os'' []] [(''is_const'', CBool True)]]"

definition register_Ns3Mac48Address_methods :: "class_call list" where
  "register_Ns3Mac48Address_methods = [
     Add_binary_comparison_operator ''<'',
     Add_binary_comparison_operator ''!='',
     Add_output_stream_operator,
     Add_binary_comparison_operator ''=='',
     Add_constructor [Param ''ns3::Mac48Address const &'' ''arg0'' []] [],
     Add_constructor [] [],
     Add_constructor [Param ''char const *'' ''str'' []] [],
     Add_method ''Allocate'' ''ns3::Mac48Address'' [] [(''is_static'', CBool True)],
     Add_method ''ConvertFrom'' ''ns3::Mac48Address'' [Param ''ns3::Address const &'' ''address'' []] [(''is_static'', CBool True)],
     Add_method ''CopyFrom'' ''void'' [Param ''uint8_t const *'' ''buffer'' []] [],
     Add_method ''CopyTo'' ''void'' [Param ''uint8_t *'' ''buffer'' []] [(''is_const'', CBool True)],
     Add_method ''GetBroadcast'' ''ns3::Mac48Address'' [] [(''is_static'', CBool True)],
     Add_method ''GetMulticast'' ''ns3::Mac48Address'' [Param ''ns3::Ipv4Address'' ''address'' []] [(''is_static'', CBool True)],
     Add_method ''GetMulticast'' ''ns3::Mac48Address'' [Param ''ns3::Ipv6Address'' ''address'' []] [(''is_static'', CBool True)],
     Add_method ''GetMulticast6Prefix'' ''ns3::Mac48Address'' [] [(''is_static'', CBool True)],
     Add_method ''GetMulticastPrefix'' ''ns3::Mac48Address'' [] [(''is_static'', CBool True)],
     Add_method ''IsBroadcast'' ''bool'' [] [(''is_const'', CBool True)],
     Add_method ''IsGroup'' ''bool'' [] [(''is_const'', CBool True)],
     Add_method ''IsMatchingType'' ''bool'' [Param ''ns3::Address const &'' ''address'' []] [(''is_static'', CBool True)]]"

definition register_Ns3NetDeviceContainer_methods :: "class_call list" where
  "register_Ns3NetDeviceContainer_methods = [
     Add_constructor [Param ''ns3::NetDeviceContainer const &'' ''arg0'' []] [],
     Add_constructor [] [],
     Add_constructor [Param ''ns3::Ptr< ns3::NetDevice >'' ''dev'' []] [],
     Add_constructor [Param ''std::string'' ''devName'' []] [],
     Add_constructor [Param ''ns3::NetDeviceContainer const &'' ''a'' [],
       Param ''ns3::NetDeviceContainer const &'' ''b'' []] [],
     Add_method ''Add'' ''void'' [Param ''ns3::NetDeviceContainer'' ''other'' []] [],
     Add_method ''Add'' ''void'' [Param ''ns3::Ptr< ns3::NetDevice >'' ''device'' []] [],
     Add_method ''Add'' ''void'' [Param ''std::string'' ''deviceName'' []] [],
     Add_method ''Begin'' ''__gnu_cxx::__normal_iterator< ns3::Ptr< ns3::NetDevice > const, std::vector< ns3::Ptr< ns3::NetDevice > > >'' [] [(''is_const'', CBool True)],
     Add_method ''End'' ''__gnu_cxx::__normal_iterator< ns3::Ptr< ns3::NetDevice > const, std::vector< ns3::Ptr< ns3::NetDevice > > >'' [] [(''is_const'', CBool True)],
     Add_method ''Get'' ''ns3::Ptr< ns3::NetDevice >'' [Param ''uint32_t'' ''i'' []] [(''is_const'', CBool True)],
     Add_method ''GetN'' ''uint32_t'' [] [(''is_const'', CBool True)]]"

definition register_Ns3ObjectBase_methods :: "class_call list" where
  "register_Ns3ObjectBase_methods = [
     Add_constructor [] [],
     Add_constructor [Param ''ns3::ObjectBase const &'' ''arg0'' []] [],
     Add_method ''GetAttribute'' ''void'' [Param ''std::string'' ''name'' [],
       Param ''ns3::AttributeValue &'' ''value'' []] [(''is_const'', CBool True)],
     Add_method ''GetAttributeFailSafe'' ''bool'' [Param ''std::string'' ''name'' [],
       Param ''ns3::AttributeValue &'' ''value'' []] [(''is_const'', CBool True)],
     Add_method ''GetInstanceTypeId'' ''ns3::TypeId'' [] [(''is_pure_virtual'', CBool True),
       (''is_const'', CBool True), (''is_virtual'', CBool True)],
     Add_method ''GetTypeId'' ''ns3::TypeId'' [] [(''is_static'', CBool True)],
     Add_method ''SetAttribute'' ''void'' [Param ''std::string'' ''name'' [],
       Param ''ns3::AttributeValue const &'' ''value'' []] [],
     Add_method ''SetAttributeFailSafe'' ''bool'' [Param ''std::string'' ''name'' [],
       Param ''ns3::AttributeValue const &'' ''value'' []] [],
     Add_method ''TraceConnect'' ''bool'' [Param ''std::string'' ''name'' [],
       Param ''std::string'' ''context'' [], Param ''ns3::CallbackBase const &'' ''cb'' []] [],
     Add_method ''TraceConnectWithoutContext'' ''bool'' [Param ''std::string'' ''name'' [],
       Param ''ns3::CallbackBase const &'' ''cb'' []] [],
     Add_method ''TraceDisconnect'' ''bool'' [Param ''std::string'' ''name'' [],
       Param ''std::string'' ''context'' [], Param ''ns3::CallbackBase const &'' ''cb'' []] [],
     Add_method ''TraceDisconnectWithoutContext'' ''bool'' [Param ''std::string'' ''name'' [],
       Param ''ns3::CallbackBase const &'' ''cb'' []] [],
     Add_method ''ConstructSelf'' ''void'' [Param ''ns3::AttributeConstructionList const &'' ''attributes'' []] [(''visibility'', CStr ''protected'')],
     Add_method ''NotifyConstructionCompleted'' ''void'' [] [(''visibility'', CStr ''protected''),
       (''is_virtual'', CBool True)]]"

definition register_Ns3ObjectDeleter_methods :: "class_call list" where
  "register_Ns3ObjectDeleter_methods = [
     Add_constructor [] [],
     Add_constructor [Param ''ns3::ObjectDeleter const &'' ''arg0'' []] [],
     Add_method ''Delete'' ''void'' [Param ''ns3::Object *'' ''object'' []] [(''is_static'', CBool True)]]"

definition register_Ns3ObjectFactory_methods :: "class_call list" where
  "register_Ns3ObjectFactory_methods = [
     Add_output_stream_operator,
     Add_constructor [Param ''ns3::ObjectFactory const &'' ''arg0'' []] [],
     Add_constructor [] [],
     Add_constructor [Param ''std::string'' ''typeId'' []] [],
     Add_method ''Create'' ''ns3::Ptr< ns3::Object >'' [] [(''is_const'', CBool True)],
     Add_method ''GetTypeId'' ''ns3::TypeId'' [] [(''is_const'', CBool True)],
     Add_method ''Set'' ''void'' [Param ''std::string'' ''name'' [],
       Param ''ns3::AttributeValue const &'' ''value'' []] [],
     Add_method ''SetTypeId'' ''void'' [Param ''ns3::TypeId'' ''tid'' []] [],
     Add_method ''SetTypeId'' ''void'' [Param ''char const *'' ''tid'' []] [],
     Add_method ''SetTypeId'' ''void'' [Param ''std::string'' ''tid'' []] []]"

definition register_Ns3PacketMetadata_methods :: "class_call list" where
  "register_Ns3PacketMetadata_methods = [
     Add_constructor [Param ''uint64_t'' ''uid'' [], Param ''uint32_t'' ''size'' []] [],
     Add_constructor [Param ''ns3::PacketMetadata const &'' ''o'' []] [],
     Add_method ''AddAtEnd'' ''void'' [Param ''ns3::PacketMetadata const &'' ''o'' []] [],
     Add_method ''AddHeader'' ''void'' [Param ''ns3::Header const &'' ''header'' [],
       Param ''uint32_t'' ''size'' []] [],
     Add_method ''AddPaddingAtEnd'' ''void'' [Param ''uint32_t'' ''end'' []] [],
     Add_method ''AddTrailer'' ''void'' [Param ''ns3::Trailer const &'' ''trailer'' [],
       Param ''uint32_t'' ''size'' []] [],
     Add_method ''BeginItem'' ''ns3::PacketMetadata::ItemIterator'' [Param ''ns3::Buffer'' ''buffer'' []] [(''is_const'', CBool True)],
     Add_method ''CreateFragment'' ''ns3::PacketMetadata'' [Param ''uint32_t'' ''start'' [],
       Param ''uint32_t'' ''end'' []] [(''is_const'', CBool True)],
     Add_method ''Deserialize'' ''uint32_t'' [Param ''uint8_t const *'' ''buffer'' [],
       Param ''uint32_t'' ''size'' []] [],
     Add_method ''Enable'' ''void'' [] [(''is_static'', CBool True)],
     Add_method ''EnableChecking'' ''void'' [] [(''is_static'', CBool True)],
     Add_method ''GetSerializedSize'' ''uint32_t'' [] [(''is_const'', CBool True)],
     Add_method ''GetUid'' ''uint64_t'' [] [(''is_const'', CBool True)],
     Add_method ''RemoveAtEnd'' ''void'' [Param ''uint32_t'' ''end'' []] [],
     Add_method ''RemoveAtStart'' ''void'' [Param ''uint32_t'' ''start'' []] [],
     Add_method ''RemoveHeader'' ''void'' [Param ''ns3::Header const &'' ''header'' [],
       Param ''uint32_t'' ''size'' []] [],
     Add_method ''RemoveTrailer'' ''void'' [Param ''ns3::Trailer const &'' ''trailer'' [],
       Param ''uint32_t'' ''size'' []] [],
     Add_method ''Serialize'' ''uint32_t'' [Param ''uint8_t *'' ''buffer'' [],
       Param ''uint32_t'' ''maxSize'' []] [(''is_const'', CBool True)]]"

definition register_Ns3PacketMetadataItem_methods :: "class_call list" where
  "register_Ns3PacketMetadataItem_methods = [
     Add_constructor [] [],
     Add_constructor [Param ''ns3::PacketMetadata::Item const &'' ''arg0'' []] [],
     Add_instance_attribute ''current'' ''ns3::Buffer::Iterator'' [(''is_const'', CBool False)],
     Add_instance_attribute ''currentSize'' ''uint32_t'' [(''is_const'', CBool False)],
     Add_instance_attribute ''currentTrimedFromEnd'' ''uint32_t'' [(''is_const'', CBool False)],
     Add_instance_attribute ''currentTrimedFromStart'' ''uint32_t'' [(''is_const'', CBool False)],
     Add_instance_attribute ''isFragment'' ''bool'' [(''is_const'', CBool False)],
     Add_instance_attribute ''tid'' ''ns3::TypeId'' [(''is_const'', CBool False)]]"

definition register_Ns3PacketMetadataItemIterator_methods :: "class_call list" where
  "register_Ns3PacketMetadataItemIterator_methods = [
     Add_constructor [Param ''ns3::PacketMetadata::ItemIterator const &'' ''arg0'' []] [],
     Add_constructor [Param ''ns3::PacketMetadata const *'' ''metadata'' [],
       Param ''ns3::Buffer'' ''buffer'' []] [],
     Add_method ''HasNext'' ''bool'' [] [(''is_const'', CBool True)],
     Add_method ''Next'' ''ns3::PacketMetadata::Item'' [] []]"

definition register_Ns3PacketTagIterator_methods :: "class_call list" where
  "register_Ns3PacketTagIterator_methods = [
     Add_constructor [Param ''ns3::PacketTagIterator const &'' ''arg0'' []] [],
     Add_method ''HasNext'' ''bool'' [] [(''is_const'', CBool True)],
     Add_method ''Next'' ''ns3::PacketTagIterator::Item'' [] []]"

definition register_Ns3PacketTagIteratorItem_methods :: "class_call list" where
  "register_Ns3PacketTagIteratorItem_methods = [
     Add_constructor [Param ''ns3::PacketTagIterator::Item const &'' ''arg0'' []] [],
     Add_method ''GetTag'' ''void'' [Param ''ns3::Tag &'' ''tag'' []] [(''is_const'', CBool True)],
     Add_method ''GetTypeId'' ''ns3::TypeId'' [] [(''is_const'', CBool True)]]"

definition register_Ns3PacketTagList_methods :: "class_call list" where
  "register_Ns3PacketTagList_methods = [
     Add_constructor [] [],
     Add_constructor [Param ''ns3::PacketTagList const &'' ''o'' []] [],
     Add_method ''Add'' ''void'' [Param ''ns3::Tag const &'' ''tag'' []] [(''is_const'', CBool True)],
     Add_method ''Head'' ''ns3::PacketTagList::TagData const *'' [] [(''is_const'', CBool True)],
     Add_method ''Peek'' ''bool'' [Param ''ns3::Tag &'' ''tag'' []] [(''is_const'', CBool True)],
     Add_method ''Remove'' ''bool'' [Param ''ns3::Tag &'' ''tag'' []] [],
     Add_method ''RemoveAll'' ''void'' [] [],
     Add_method ''Replace'' ''bool'' [Param ''ns3::Tag &'' ''tag'' []] []]"

definition register_Ns3PacketTagListTagData_methods :: "class_call list" where
  "register_Ns3PacketTagListTagData_methods = [
     Add_constructor [] [],
     Add_constructor [Param ''ns3::PacketTagList::TagData const &'' ''arg0'' []] [],
     Add_instance_attribute ''count'' ''uint32_t'' [(''is_const'', CBool False)],
     Add_instance_attribute ''data'' ''uint8_t [ 21 ]'' [(''is_const'', CBool False)],
     Add_instance_attribute ''next'' ''ns3::PacketTagList::TagData *'' [(''is_const'', CBool False)],
     Add_instance_attribute ''tid'' ''ns3::TypeId'' [(''is_const'', CBool False)]]"

definition register_Ns3QueueDiscContainer_methods :: "class_call list" where
  "register_Ns3QueueDiscContainer_methods = [
     Add_constructor [Param ''ns3::QueueDiscContainer const &'' ''arg0'' []] [],
     Add_constructor [] [],
     Add_constructor [Param ''ns3::Ptr< ns3::QueueDisc >'' ''qDisc'' []] [],
     Add_method ''Add'' ''void'' [Param ''ns3::QueueDiscContainer'' ''other'' []] [],
     Add_method ''Add'' ''void'' [Param ''ns3::Ptr< ns3::QueueDisc >'' ''qDisc'' []] [],
     Add_method ''Begin'' ''__gnu_cxx::__normal_iterator< ns3::Ptr< ns3::QueueDisc > const, std::vector< ns3::Ptr< ns3::QueueDisc > > >'' [] [(''is_const'', CBool True)],
     Add_method ''End'' ''__gnu_cxx::__normal_iterator< ns3::Ptr< ns3::QueueDisc > const, std::vector< ns3::Ptr< ns3::QueueDisc > > >'' [] [(''is_const'', CBool True)],
     Add_method ''Get'' ''ns3::Ptr< ns3::QueueDisc >'' [Param ''uint32_t'' ''i'' []] [(''is_const'', CBool True)],
     Add_method ''GetN'' ''uint32_t'' [] [(''is_const'', CBool True)]]"

definition register_Ns3QueueDiscFactory_methods :: "class_call list" where
  "register_Ns3QueueDiscFactory_methods = [
     Add_constructor [Param ''ns3::QueueDiscFactory const &'' ''arg0'' []] [],
     Add_constructor [Param ''ns3::ObjectFactory'' ''factory'' []] [],
     Add_method ''AddInternalQueue'' ''void'' [Param ''ns3::ObjectFactory'' ''factory'' []] [],
     Add_method ''AddPacketFilter'' ''void'' [Param ''ns3::ObjectFactory'' ''factory'' []] [],
     Add_method ''AddQueueDiscClass'' ''uint16_t'' [Param ''ns3::ObjectFactory'' ''factory'' []] [],
     Add_method ''CreateQueueDisc'' ''ns3::Ptr< ns3::QueueDisc >'' [Param ''std::vector< ns3::Ptr< ns3::QueueDisc > > const &'' ''queueDiscs'' []] [],
     Add_method ''SetChildQueueDisc'' ''void'' [Param ''uint16_t'' ''classId'' [],
       Param ''uint16_t'' ''handle'' []] []]"

definition register_Ns3SimpleRefCount__Ns3Object_Ns3ObjectBase_Ns3ObjectDeleter_methods :: "class_call list" where
  "register_Ns3SimpleRefCount__Ns3Object_Ns3ObjectBase_Ns3ObjectDeleter_methods = [
     Add_constructor [] [],
     Add_constructor [Param ''ns3::SimpleRefCount< ns3::Object, ns3::ObjectBase, ns3::ObjectDeleter > const &'' ''o'' []] [],
     Add_method ''Cleanup'' ''void'' [] [(''is_static'', CBool True)]]"

definition register_Ns3Simulator_methods :: "class_call list" where
  "register_Ns3Simulator_methods = [
     Add_constructor [Param ''ns3::Simulator const &'' ''arg0'' []] [],
     Add_method ''Cancel'' ''void'' [Param ''ns3::EventId const &'' ''id'' []] [(''is_static'', CBool True)],
     Add_method ''Destroy'' ''void'' [] [(''is_static'', CBool True)],
     Add_method ''GetContext'' ''uint32_t'' [] [(''is_static'', CBool True)],
     Add_method ''GetDelayLeft'' ''ns3::Time'' [Param ''ns3::EventId const &'' ''id'' []] [(''is_static'', CBool True)],
     Add_method ''GetImplementation'' ''ns3::Ptr< ns3::SimulatorImpl >'' [] [(''is_static'', CBool True)],
     Add_method ''GetMaximumSimulationTime'' ''ns3::Time'' [] [(''is_static'', CBool True)],
     Add_method ''GetSystemId'' ''uint32_t'' [] [(''is_static'', CBool True)],
     Add_method ''IsExpired'' ''bool'' [Param ''ns3::EventId const &'' ''id'' []] [(''is_static'', CBool True)],
     Add_method ''IsFinished'' ''bool'' [] [(''is_static'', CBool True)],
     Add_method ''Now'' ''ns3::Time'' [] [(''is_static'', CBool True)],
     Add_method ''Remove'' ''void'' [Param ''ns3::EventId const &'' ''id'' []] [(''is_static'', CBool True)],
     Add_method ''SetImplementation'' ''void'' [Param ''ns3::Ptr< ns3::SimulatorImpl >'' ''impl'' []] [(''is_static'', CBool True)],
     Add_method ''SetScheduler'' ''void'' [Param ''ns3::ObjectFactory'' ''schedulerFactory'' []] [(''is_static'', CBool True)],
     Add_method ''Stop'' ''void'' [] [(''is_static'', CBool True)],
     Add_method ''Stop'' ''void'' [Param ''ns3::Time const &'' ''delay'' []] [(''is_static'', CBool True)]]"

definition register_Ns3Tag_methods :: "class_call list" where
  "register_Ns3Tag_methods = [
     Add_constructor [] [],
     Add_constructor [Param ''ns3::Tag const &'' ''arg0'' []] [],
     Add_method ''Deserialize'' ''void'' [Param ''ns3::TagBuffer'' ''i'' []] [(''is_pure_virtual'', CBool True), (''is_virtual'', CBool True)],
     Add_method ''GetSerializedSize'' ''uint32_t'' [] [(''is_pure_virtual'', CBool True),
       (''is_const'', CBool True), (''is_virtual'', CBool True)],
     Add_method ''GetTypeId'' ''ns3::TypeId'' [] [(''is_static'', CBool True)],
     Add_method ''Print'' ''void'' [Param ''std::ostream &'' ''os'' []] [(''is_pure_virtual'', CBool True),
       (''is_const'', CBool True), (''is_virtual'', CBool True)],
     Add_method ''Serialize'' ''void'' [Param ''ns3::TagBuffer'' ''i'' []] [(''is_pure_virtual'', CBool True),
       (''is_const'', CBool True), (''is_virtual'', CBool True)]]"

definition register_Ns3TagBuffer_methods :: "class_call list" where
  "register_Ns3TagBuffer_methods = [
     Add_constructor [Param ''ns3::TagBuffer const &'' ''arg0'' []] [],
     Add_constructor [Param ''uint8_t *'' ''start'' [], Param ''uint8_t *'' ''end'' []] [],
     Add_method ''CopyFrom'' ''void'' [Param ''ns3::TagBuffer'' ''o'' []] [],
     Add_method ''Read'' ''void'' [Param ''uint8_t *'' ''buffer'' [], Param ''uint32_t'' ''size'' []] [],
     Add_method ''ReadDouble'' ''double'' [] [],
     Add_method ''ReadU16'' ''uint16_t'' [] [],
     Add_method ''ReadU32'' ''uint32_t'' [] [],
     Add_method ''ReadU64'' ''uint64_t'' [] [],
     Add_method ''ReadU8'' ''uint8_t'' [] [],
     Add_method ''TrimAtEnd'' ''void'' [Param ''uint32_t'' ''trim'' []] [],
     Add_method ''Write'' ''void'' [Param ''uint8_t const *'' ''buffer'' [],
       Param ''uint32_t'' ''size'' []] [],
     Add_method ''WriteDouble'' ''void'' [Param ''double'' ''v'' []] [],
     Add_method ''WriteU16'' ''void'' [Param ''uint16_t'' ''data'' []] [],
     Add_method ''WriteU32'' ''void'' [Param ''uint32_t'' ''data'' []] [],
     Add_method ''WriteU64'' ''void'' [Param ''uint64_t'' ''v'' []] [],
     Add_method ''WriteU8'' ''void'' [Param ''uint8_t'' ''v'' []] []]"

definition register_Ns3TimeWithUnit_methods :: "class_call list" where
  "register_Ns3TimeWithUnit_methods = [
     Add_output_stream_operator,
     Add_constructor [Param ''ns3::TimeWithUnit const &'' ''arg0'' []] [],
     Add_constructor [Param ''ns3::Time const'' ''time'' [], Param ''ns3::Time::Unit const'' ''unit'' []] []]"

definition register_Ns3Timer_methods :: "class_call list" where
  "register_Ns3Timer_methods = [
     Add_constructor [Param ''ns3::Timer const &'' ''arg0'' []] [],
     Add_constructor [] [],
     Add_constructor [Param ''ns3::Timer::DestroyPolicy'' ''destroyPolicy'' []] [],
     Add_method ''Cancel'' ''void'' [] [],
     Add_method ''GetDelay'' ''ns3::Time'' [] [(''is_const'', CBool True)],
     Add_method ''GetDelayLeft'' ''ns3::Time'' [] [(''is_const'', CBool True)],
     Add_method ''GetState'' ''ns3::Timer::State'' [] [(''is_const'', CBool True)],
     Add_method ''IsExpired'' ''bool'' [] [(''is_const'', CBool True)],
     Add_method ''IsRunning'' ''bool'' [] [(''is_const'', CBool True)],
     Add_method ''IsSuspended'' ''bool'' [] [(''is_const'', CBool True)],
     Add_method ''Remove'' ''void'' [] [],
     Add_method ''Resume'' ''void'' [] [],
     Add_method ''Schedule'' ''void'' [] [],
     Add_method ''Schedule'' ''void'' [Param ''ns3::Time'' ''delay'' []] [],
     Add_method ''SetDelay'' ''void'' [Param ''ns3::Time const &'' ''delay'' []] [],
     Add_method ''Suspend'' ''void'' [] []]"

definition register_Ns3TimerImpl_methods :: "class_call list" where
  "register_Ns3TimerImpl_methods = [
     Add_constructor [] [],
     Add_constructor [Param ''ns3::TimerImpl const &'' ''arg0'' []] [],
     Add_method ''Invoke'' ''void'' [] [(''is_pure_virtual'', CBool True), (''is_virtual'', CBool True)],
     Add_method ''Schedule'' ''ns3::EventId'' [Param ''ns3::Time const &'' ''delay'' []] [(''is_pure_virtual'', CBool True), (''is_virtual'', CBool True)]]"

definition register_Ns3TracedValue__Bool_methods :: "class_call list" where
  "register_Ns3TracedValue__Bool_methods = [
     Add_constructor [] [],
     Add_constructor [Param ''ns3::TracedValue< bool > const &'' ''o'' []] [],
     Add_constructor [Param ''bool const &'' ''v'' []] [],
     Add_method ''Connect'' ''void'' [Param ''ns3::CallbackBase const &'' ''cb'' [],
       Param ''std::string'' ''path'' []] [],
     Add_method ''ConnectWithoutContext'' ''void'' [Param ''ns3::CallbackBase const &'' ''cb'' []] [],
     Add_method ''Disconnect'' ''void'' [Param ''ns3::CallbackBase const &'' ''cb'' [],
       Param ''std::string'' ''path'' []] [],
     Add_method ''DisconnectWithoutContext'' ''void'' [Param ''ns3::CallbackBase const &'' ''cb'' []] [],
     Add_method ''Get'' ''bool'' [] [(''is_const'', CBool True)],
     Add_method ''Set'' ''void'' [Param ''bool const &'' ''v'' []] []]"

definition register_Ns3TracedValue__Unsigned_int_methods :: "class_call list" where
  "register_Ns3TracedValue__Unsigned_int_methods = [
     Add_constructor [] [],
     Add_constructor [Param ''ns3::TracedValue< unsigned int > const &'' ''o'' []] [],
     Add_constructor [Param ''unsigned int const &'' ''v'' []] [],
     Add_method ''Connect'' ''void'' [Param ''ns3::CallbackBase const &'' ''cb'' [],
       Param ''std::string'' ''path'' []] [],
     Add_method ''ConnectWithoutContext'' ''void'' [Param ''ns3::CallbackBase const &'' ''cb'' []] [],
     Add_method ''Disconnect'' ''void'' [Param ''ns3::CallbackBase const &'' ''cb'' [],
       Param ''std::string'' ''path'' []] [],
     Add_method ''DisconnectWithoutContext'' ''void'' [Param ''ns3::CallbackBase const &'' ''cb'' []] [],
     Add_method ''Get'' ''unsigned int'' [] [(''is_const'', CBool True)],
     Add_method ''Set'' ''void'' [Param ''unsigned int const &'' ''v'' []] []]"

definition register_Ns3TrafficControlHelper_methods :: "class_call list" where
  \<open>register_Ns3TrafficControlHelper_methods = [
     Add_constructor [Param ''ns3::TrafficControlHelper const &'' ''arg0'' []] [],
     Add_constructor [] [],
     Add_method ''AddChildQueueDisc'' ''uint16_t'' [Param ''uint16_t'' ''handle'' [],
       Param ''uint16_t'' ''classId'' [], Param ''std::string'' ''type'' [],
       Param ''std::string'' ''n01'' [(''default_value'', CStr ''""'')],
       Param ''ns3::AttributeValue const &'' ''v01'' [(''default_value'', CStr ''ns3::EmptyAttributeValue()'')], Param ''std::string'' ''n02'' [(''default_value'', CStr ''""'')], Param ''ns3::AttributeValue const &'' ''v02'' [(''default_value'', CStr ''ns3::EmptyAttributeValue()'')], Param ''std::string'' ''n03'' [(''default_value'', CStr ''""'')], Param ''ns3::AttributeValue const &'' ''v03'' [(''default_value'', CStr ''ns3::EmptyAttributeValue()'')], Param ''std::string'' ''n04'' [(''default_value'', CStr ''""'')], Param ''ns3::AttributeValue const &'' ''v04'' [(''default_value'', CStr ''ns3::EmptyAttributeValue()'')], Param ''std::string'' ''n05'' [(''default_value'', CStr ''""'')], Param ''ns3::AttributeValue const &'' ''v05'' [(''default_value'', CStr ''ns3::EmptyAttributeValue()'')], Param ''std::string'' ''n06'' [(''default_value'', CStr ''""'')], Param ''ns3::AttributeValue const &'' ''v06'' [(''default_value'', CStr ''ns3::EmptyAttributeValue()'')], Param ''std::string'' ''n07'' [(''default_value'', CStr ''""'')], Param ''ns3::AttributeValue const &'' ''v07'' [(''default_value'', CStr ''ns3::EmptyAttributeValue()'')], Param ''std::string'' ''n08'' [(''default_value'', CStr ''""'')], Param ''ns3::AttributeValue const &'' ''v08'' [(''default_value'', CStr ''ns3::EmptyAttributeValue()'')], Param ''std::string'' ''n09'' [(''default_value'', CStr ''""'')], Param ''ns3::AttributeValue const &'' ''v09'' [(''default_value'', CStr ''ns3::EmptyAttributeValue()'')], Param ''std::string'' ''n10'' [(''default_value'', CStr ''""'')], Param ''ns3::AttributeValue const &'' ''v10'' [(''default_value'', CStr ''ns3::EmptyAttributeValue()'')], Param ''std::string'' ''n11'' [(''default_value'', CStr ''""'')], Param ''ns3::AttributeValue const &'' ''v11'' [(''default_value'', CStr ''ns3::EmptyAttributeValue()'')], Param ''std::string'' ''n12'' [(''default_value'', CStr ''""'')], Param ''ns3::AttributeValue const &'' ''v12'' [(''default_value'', CStr ''ns3::EmptyAttributeValue()'')], Param ''std::string'' ''n13'' [(''default_value'', CStr ''""'')], Param ''ns3::AttributeValue const &'' ''v13'' [(''default_value'', CStr ''ns3::EmptyAttributeValue()'')], Param ''std::string'' ''n14'' [(''default_value'', CStr ''""'')], Param ''ns3::AttributeValue const &'' ''v14'' [(''default_value'', CStr ''ns3::EmptyAttributeValue()'')], Param ''std::string'' ''n15'' [(''default_value'', CStr ''""'')], Param ''ns3::AttributeValue const &'' ''v15'' [(''default_value'', CStr ''ns3::EmptyAttributeValue()'')]] [],
     Add_method ''AddChildQueueDiscs'' ''std::vector< short unsigned int >'' [Param ''uint16_t'' ''handle'' [], Param ''std::vector< short unsigned int > const &'' ''classes'' [], Param ''std::string'' ''type'' [], Param ''std::string'' ''n01'' [(''default_value'', CStr ''""'')], Param ''ns3::AttributeValue const &'' ''v01'' [(''default_value'', CStr ''ns3::EmptyAttributeValue()'')], Param ''std::string'' ''n02'' [(''default_value'', CStr ''""'')], Param ''ns3::AttributeValue const &'' ''v02'' [(''default_value'', CStr ''ns3::EmptyAttributeValue()'')], Param ''std::string'' ''n03'' [(''default_value'', CStr ''""'')], Param ''ns3::AttributeValue const &'' ''v03'' [(''default_value'', CStr ''ns3::EmptyAttributeValue()'')], Param ''std::string'' ''n04'' [(''default_value'', CStr ''""'')], Param ''ns3::AttributeValue const &'' ''v04'' [(''default_value'', CStr ''ns3::EmptyAttributeValue()'')], Param ''std::string'' ''n05'' [(''default_value'', CStr ''""'')], Param ''ns3::AttributeValue const &'' ''v05'' [(''default_value'', CStr ''ns3::EmptyAttributeValue()'')], Param ''std::string'' ''n06'' [(''default_value'', CStr ''""'')], Param ''ns3::AttributeValue const &'' ''v06'' [(''default_value'', CStr ''ns3::EmptyAttributeValue()'')], Param ''std::string'' ''n07'' [(''default_value'', CStr ''""'')], Param ''ns3::AttributeValue const &'' ''v07'' [(''default_value'', CStr ''ns3::EmptyAttributeValue()'')], Param ''std::string'' ''n08'' [(''default_value'', CStr ''""'')], Param ''ns3::AttributeValue const &'' ''v08'' [(''default_value'', CStr ''ns3::EmptyAttributeValue()'')], Param ''std::string'' ''n09'' [(''default_value'', CStr ''""'')], Param ''ns3::AttributeValue const &'' ''v09'' [(''default_value'', CStr ''ns3::EmptyAttributeValue()'')], Param ''std::string'' ''n10'' [(''default_value'', CStr ''""'')], Param ''ns3::AttributeValue const &'' ''v10'' [(''default_value'', CStr ''ns3::EmptyAttributeValue()'')], Param ''std::string'' ''n11'' [(''default_value'', CStr ''""'')], Param ''ns3::AttributeValue const &'' ''v11'' [(''default_value'', CStr ''ns3::EmptyAttributeValue()'')], Param ''std::string'' ''n12'' [(''default_value'', CStr ''""'')], Param ''ns3::AttributeValue const &'' ''v12'' [(''default_value'', CStr ''ns3::EmptyAttributeValue()'')], Param ''std::string'' ''n13'' [(''default_value'', CStr ''""'')], Param ''ns3::AttributeValue const &'' ''v13'' [(''default_value'', CStr ''ns3::EmptyAttributeValue()'')], Param ''std::string'' ''n14'' [(''default_value'', CStr ''""'')], Param ''ns3::AttributeValue const &'' ''v14'' [(''default_value'', CStr ''ns3::EmptyAttributeValue()'')], Param ''std::string'' ''n15'' [(''default_value'', CStr ''""'')], Param ''ns3::AttributeValue const &'' ''v15'' [(''default_value'', CStr ''ns3::EmptyAttributeValue()'')]] [],
     Add_method ''AddInternalQueues'' ''void'' [Param ''uint16_t'' ''handle'' [],
       Param ''uint16_t'' ''count'' [], Param ''std::string'' ''type'' [],
       Param ''std::string'' ''n01'' [(''default_value'', CStr ''""'')],
       Param ''ns3::AttributeValue const &'' ''v01'' [(''default_value'', CStr ''ns3::EmptyAttributeValue()'')], Param ''std::string'' ''n02'' [(''default_value'', CStr ''""'')], Param ''ns3::AttributeValue const &'' ''v02'' [(''default_value'', CStr ''ns3::EmptyAttributeValue()'')], Param ''std::string'' ''n03'' [(''default_value'', CStr ''""'')], Param ''ns3::AttributeValue const &'' ''v03'' [(''default_value'', CStr ''ns3::EmptyAttributeValue()'')], Param ''std::string'' ''n04'' [(''default_value'', CStr ''""'')], Param ''ns3::AttributeValue const &'' ''v04'' [(''default_value'', CStr ''ns3::EmptyAttributeValue()'')], Param ''std::string'' ''n05'' [(''default_value'', CStr ''""'')], Param ''ns3::AttributeValue const &'' ''v05'' [(''default_value'', CStr ''ns3::EmptyAttributeValue()'')], Param ''std::string'' ''n06'' [(''default_value'', CStr ''""'')], Param ''ns3::AttributeValue const &'' ''v06'' [(''default_value'', CStr ''ns3::EmptyAttributeValue()'')], Param ''std::string'' ''n07'' [(''default_value'', CStr ''""'')], Param ''ns3::AttributeValue const &'' ''v07'' [(''default_value'', CStr ''ns3::EmptyAttributeValue()'')], Param ''std::string'' ''n08'' [(''default_value'', CStr ''""'')], Param ''ns3::AttributeValue const &'' ''v08'' [(''default_value'', CStr ''ns3::EmptyAttributeValue()'')]] [],
     Add_method ''AddPacketFilter'' ''void'' [Param ''uint16_t'' ''handle'' [],
       Param ''std::string'' ''type'' [], Param ''std::string'' ''n01'' [(''default_value'', CStr ''""'')],
       Param ''ns3::AttributeValue const &'' ''v01'' [(''default_value'', CStr ''ns3::EmptyAttributeValue()'')], Param ''std::string'' ''n02'' [(''default_value'', CStr ''""'')], Param ''ns3::AttributeValue const &'' ''v02'' [(''default_value'', CStr ''ns3::EmptyAttributeValue()'')], Param ''std::string'' ''n03'' [(''default_value'', CStr ''""'')], Param ''ns3::AttributeValue const &'' ''v03'' [(''default_value'', CStr ''ns3::EmptyAttributeValue()'')], Param ''std::string'' ''n04'' [(''default_value'', CStr ''""'')], Param ''ns3::AttributeValue const &'' ''v04'' [(''default_value'', CStr ''ns3::EmptyAttributeValue()'')], Param ''std::string'' ''n05'' [(''default_value'', CStr ''""'')], Param ''ns3::AttributeValue const &'' ''v05'' [(''default_value'', CStr ''ns3::EmptyAttributeValue()'')], Param ''std::string'' ''n06'' [(''default_value'', CStr ''""'')], Param ''ns3::AttributeValue const &'' ''v06'' [(''default_value'', CStr ''ns3::EmptyAttributeValue()'')], Param ''std::string'' ''n07'' [(''default_value'', CStr ''""'')], Param ''ns3::AttributeValue const &'' ''v07'' [(''default_value'', CStr ''ns3::EmptyAttributeValue()'')], Param ''std::string'' ''n08'' [(''default_value'', CStr ''""'')], Param ''ns3::AttributeValue const &'' ''v08'' [(''default_value'', CStr ''ns3::EmptyAttributeValue()'')]] [],
     Add_method ''AddQueueDiscClasses'' ''std::vector< short unsigned int >'' [Param ''uint16_t'' ''handle'' [], Param ''uint16_t'' ''count'' [], Param ''std::string'' ''type'' [], Param ''std::string'' ''n01'' [(''default_value'', CStr ''""'')], Param ''ns3::AttributeValue const &'' ''v01'' [(''default_value'', CStr ''ns3::EmptyAttributeValue()'')], Param ''std::string'' ''n02'' [(''default_value'', CStr ''""'')], Param ''ns3::AttributeValue const &'' ''v02'' [(''default_value'', CStr ''ns3::EmptyAttributeValue()'')], Param ''std::string'' ''n03'' [(''default_value'', CStr ''""'')], Param ''ns3::AttributeValue const &'' ''v03'' [(''default_value'', CStr ''ns3::EmptyAttributeValue()'')], Param ''std::string'' ''n04'' [(''default_value'', CStr ''""'')], Param ''ns3::AttributeValue const &'' ''v04'' [(''default_value'', CStr ''ns3::EmptyAttributeValue()'')], Param ''std::string'' ''n05'' [(''default_value'', CStr ''""'')], Param ''ns3::AttributeValue const &'' ''v05'' [(''default_value'', CStr ''ns3::EmptyAttributeValue()'')], Param ''std::string'' ''n06'' [(''default_value'', CStr ''""'')], Param ''ns3::AttributeValue const &'' ''v06'' [(''default_value'', CStr ''ns3::EmptyAttributeValue()'')], Param ''std::string'' ''n07'' [(''default_value'', CStr ''""'')], Param ''ns3::AttributeValue const &'' ''v07'' [(''default_value'', CStr ''ns3::EmptyAttributeValue()'')], Param ''std::string'' ''n08'' [(''default_value'', CStr ''""'')], Param ''ns3::AttributeValue const &'' ''v08'' [(''default_value'', CStr ''ns3::EmptyAttributeValue()'')]] [],
     Add_method ''Default'' ''ns3::TrafficControlHelper'' [] [(''is_static'', CBool True)],
     Add_method ''Install'' ''ns3::QueueDiscContainer'' [Param ''ns3::NetDeviceContainer'' ''c'' []] [],
     Add_method ''Install'' ''ns3::QueueDiscContainer'' [Param ''ns3::Ptr< ns3::NetDevice >'' ''d'' []] [],
     Add_method ''SetQueueLimits'' ''void'' [Param ''std::string'' ''type'' [],
       Param ''std::string'' ''n01'' [(''default_value'', CStr ''""'')],
       Param ''ns3::AttributeValue const &'' ''v01'' [(''default_value'', CStr ''ns3::EmptyAttributeValue()'')], Param ''std::string'' ''n02'' [(''default_value'', CStr ''""'')], Param ''ns3::AttributeValue const &'' ''v02'' [(''default_value'', CStr ''ns3::EmptyAttributeValue()'')], Param ''std::string'' ''n03'' [(''default_value'', CStr ''""'')], Param ''ns3::AttributeValue const &'' ''v03'' [(''default_value'', CStr ''ns3::EmptyAttributeValue()'')], Param ''std::string'' ''n04'' [(''default_value'', CStr ''""'')], Param ''ns3::AttributeValue const &'' ''v04'' [(''default_value'', CStr ''ns3::EmptyAttributeValue()'')], Param ''std::string'' ''n05'' [(''default_value'', CStr ''""'')], Param ''ns3::AttributeValue const &'' ''v05'' [(''default_value'', CStr ''ns3::EmptyAttributeValue()'')], Param ''std::string'' ''n06'' [(''default_value'', CStr ''""'')], Param ''ns3::AttributeValue const &'' ''v06'' [(''default_value'', CStr ''ns3::EmptyAttributeValue()'')], Param ''std::string'' ''n07'' [(''default_value'', CStr ''""'')], Param ''ns3::AttributeValue const &'' ''v07'' [(''default_value'', CStr ''ns3::EmptyAttributeValue()'')], Param ''std::string'' ''n08'' [(''default_value'', CStr ''""'')], Param ''ns3::AttributeValue const &'' ''v08'' [(''default_value'', CStr ''ns3::EmptyAttributeValue()'')]] [],
     Add_method ''SetRootQueueDisc'' ''uint16_t'' [Param ''std::string'' ''type'' [],
       Param ''std::string'' ''n01'' [(''default_value'', CStr ''""'')],
       Param ''ns3::AttributeValue const &'' ''v01'' [(''default_value'', CStr ''ns3::EmptyAttributeValue()'')], Param ''std::string'' ''n02'' [(''default_value'', CStr ''""'')], Param ''ns3::AttributeValue const &'' ''v02'' [(''default_value'', CStr ''ns3::EmptyAttributeValue()'')], Param ''std::string'' ''n03'' [(''default_value'', CStr ''""'')], Param ''ns3::AttributeValue const &'' ''v03'' [(''default_value'', CStr ''ns3::EmptyAttributeValue()'')], Param ''std::string'' ''n04'' [(''default_value'', CStr ''""'')], Param ''ns3::AttributeValue const &'' ''v04'' [(''default_value'', CStr ''ns3::EmptyAttributeValue()'')], Param ''std::string'' ''n05'' [(''default_value'', CStr ''""'')], Param ''ns3::AttributeValue const &'' ''v05'' [(''default_value'', CStr ''ns3::EmptyAttributeValue()'')], Param ''std::string'' ''n06'' [(''default_value'', CStr ''""'')], Param ''ns3::AttributeValue const &'' ''v06'' [(''default_value'', CStr ''ns3::EmptyAttributeValue()'')], Param ''std::string'' ''n07'' [(''default_value'', CStr ''""'')], Param ''ns3::AttributeValue const &'' ''v07'' [(''default_value'', CStr ''ns3::EmptyAttributeValue()'')], Param ''std::string'' ''n08'' [(''default_value'', CStr ''""'')], Param ''ns3::AttributeValue const &'' ''v08'' [(''default_value'', CStr ''ns3::EmptyAttributeValue()'')], Param ''std::string'' ''n09'' [(''default_value'', CStr ''""'')], Param ''ns3::AttributeValue const &'' ''v09'' [(''default_value'', CStr ''ns3::EmptyAttributeValue()'')], Param ''std::string'' ''n10'' [(''default_value'', CStr ''""'')], Param ''ns3::AttributeValue const &'' ''v10'' [(''default_value'', CStr ''ns3::EmptyAttributeValue()'')], Param ''std::string'' ''n11'' [(''default_value'', CStr ''""'')], Param ''ns3::AttributeValue const &'' ''v11'' [(''default_value'', CStr ''ns3::EmptyAttributeValue()'')], Param ''std::string'' ''n12'' [(''default_value'', CStr ''""'')], Param ''ns3::AttributeValue const &'' ''v12'' [(''default_value'', CStr ''ns3::EmptyAttributeValue()'')], Param ''std::string'' ''n13'' [(''default_value'', CStr ''""'')], Param ''ns3::AttributeValue const &'' ''v13'' [(''default_value'', CStr ''ns3::EmptyAttributeValue()'')], Param ''std::string'' ''n14'' [(''default_value'', CStr ''""'')], Param ''ns3::AttributeValue const &'' ''v14'' [(''default_value'', CStr ''ns3::EmptyAttributeValue()'')], Param ''std::string'' ''n15'' [(''default_value'', CStr ''""'')], Param ''ns3::AttributeValue const &'' ''v15'' [(''default_value'', CStr ''ns3::EmptyAttributeValue()'')]] [],
     Add_method ''Uninstall'' ''void'' [Param ''ns3::NetDeviceContainer'' ''c'' []] [],
     Add_method ''Uninstall'' ''void'' [Param ''ns3::Ptr< ns3::NetDevice >'' ''d'' []] []]\<close>

text \<open>The functions of this part.\<close>

definition members_2 :: "class_call list list" where
  "members_2 = [
     register_Ns3Ipv6Prefix_methods,
     register_Ns3Mac48Address_methods,
     register_Ns3NetDeviceContainer_methods,
     register_Ns3ObjectBase_methods,
     register_Ns3ObjectDeleter_methods,
     register_Ns3ObjectFactory_methods,
     register_Ns3PacketMetadata_methods,
     register_Ns3PacketMetadataItem_methods,
     register_Ns3PacketMetadataItemIterator_methods,
     register_Ns3PacketTagIterator_methods,
     register_Ns3PacketTagIteratorItem_methods,
     register_Ns3PacketTagList_methods,
     register_Ns3PacketTagListTagData_methods,
     register_Ns3QueueDiscContainer_methods,
     register_Ns3QueueDiscFactory_methods,
     register_Ns3SimpleRefCount__Ns3Object_Ns3ObjectBase_Ns3ObjectDeleter_methods,
     register_Ns3Simulator_methods,
     register_Ns3Tag_methods,
     register_Ns3TagBuffer_methods,
     register_Ns3TimeWithUnit_methods,
     register_Ns3Timer_methods,
     register_Ns3TimerImpl_methods,
     register_Ns3TracedValue__Bool_methods,
     register_Ns3TracedValue__Unsigned_int_methods,
     register_Ns3TrafficControlHelper_methods]"

end
