(* ===== verification/Bindings_Methods_3.thy ===== *)
theory Bindings_Methods_3
  imports Pybindgen
begin

text \<open>
  Part 3 of the functions that register the members of the classes of the traffic-control
  module, from \<open>register_Ns3TypeId_methods\<close> to \<open>register_Ns3SequentialRandomVariable_methods\<close> of
  \<open>traffic-control/bindings/modulegen__gcc_LP64.py\<close>: the calls on \<open>cls\<close> in the order of the
  source.
\<close>

definition register_Ns3TypeId_methods :: "class_call list" where
  \<open>register_Ns3TypeId_methods = [
     Add_binary_comparison_operator ''<'',
     Add_binary_comparison_operator ''!='',
     Add_output_stream_operator,
     Add_binary_comparison_operator ''=='',
     Add_constructor [Param ''char const *'' ''name'' []] [],
     Add_constructor [] [],
     Add_constructor [Param ''ns3::TypeId const &'' ''o'' []] [],
     Add_method ''AddAttribute'' ''ns3::TypeId'' [Param ''std::string'' ''name'' [],
       Param ''std::string'' ''help'' [], Param ''ns3::AttributeValue const &'' ''initialValue'' [],
       Param ''ns3::Ptr< ns3::AttributeAccessor const >'' ''accessor'' [],
       Param ''ns3::Ptr< ns3::AttributeChecker const >'' ''checker'' [],
       Param ''ns3::TypeId::SupportLevel'' ''supportLevel'' [(''default_value'', CStr ''::ns3::TypeId::SUPPORTED'')], Param ''std::string const &'' ''supportMsg'' [(''default_value'', CStr ''""'')]] [],
     Add_method ''AddAttribute'' ''ns3::TypeId'' [Param ''std::string'' ''name'' [],
       Param ''std::string'' ''help'' [], Param ''uint32_t'' ''flags'' [],
       Param ''ns3::AttributeValue const &'' ''initialValue'' [],
       Param ''ns3::Ptr< ns3::AttributeAccessor const >'' ''accessor'' [],
       Param ''ns3::Ptr< ns3::AttributeChecker const >'' ''checker'' [],
       Param ''ns3::TypeId::SupportLevel'' ''supportLevel'' [(''default_value'', CStr ''::ns3::TypeId::SUPPORTED'')], Param ''std::string const &'' ''supportMsg'' [(''default_value'', CStr ''""'')]] [],
     Add_method ''AddTraceSource'' ''ns3::TypeId'' [Param ''std::string'' ''name'' [],
       Param ''std::string'' ''help'' [],
       Param ''ns3::Ptr< ns3::TraceSourceAccessor const >'' ''accessor'' []] [(''deprecated'', CBool True)],
     Add_method ''AddTraceSource'' ''ns3::TypeId'' [Param ''std::string'' ''name'' [],
       Param ''std::string'' ''help'' [],
       Param ''ns3::Ptr< ns3::TraceSourceAccessor const >'' ''accessor'' [],
       Param ''std::string'' ''callback'' [],
       Param ''ns3::TypeId::SupportLevel'' ''supportLevel'' [(''default_value'', CStr ''::ns3::TypeId::SUPPORTED'')], Param ''std::string const &'' ''supportMsg'' [(''default_value'', CStr ''""'')]] [],
     Add_method ''GetAttribute'' ''ns3::TypeId::AttributeInformation'' [Param ''uint32_t'' ''i'' []] [(''is_const'', CBool True)],
     Add_method ''GetAttributeFullName'' ''std::string'' [Param ''uint32_t'' ''i'' []] [(''is_const'', CBool True)],
     Add_method ''GetAttributeN'' ''uint32_t'' [] [(''is_const'', CBool True)],
     Add_method ''GetConstructor'' ''ns3::Callback< ns3::ObjectBase *, ns3::empty, ns3::empty, ns3::empty, ns3::empty, ns3::empty, ns3::empty, ns3::empty, ns3::empty, ns3::empty >'' [] [(''is_const'', CBool True)],
     Add_method ''GetGroupName'' ''std::string'' [] [(''is_const'', CBool True)],
     Add_method ''GetHash'' ''uint32_t'' [] [(''is_const'', CBool True)],
     Add_method ''GetName'' ''std::string'' [] [(''is_const'', CBool True)],
     Add_method ''GetParent'' ''ns3::TypeId'' [] [(''is_const'', CBool True)],
     Add_method ''GetRegistered'' ''ns3::TypeId'' [Param ''uint32_t'' ''i'' []] [(''is_static'', CBool True)],
     Add_method ''GetRegisteredN'' ''uint32_t'' [] [(''is_static'', CBool True)],
     Add_method ''GetSize'' ''std::size_t'' [] [(''is_const'', CBool True)],
     Add_method ''GetTraceSource'' ''ns3::TypeId::TraceSourceInformation'' [Param ''uint32_t'' ''i'' []] [(''is_const'', CBool True)],
     Add_method ''GetTraceSourceN'' ''uint32_t'' [] [(''is_const'', CBool True)],
     Add_method ''GetUid'' ''uint16_t'' [] [(''is_const'', CBool True)],
     Add_method ''HasConstructor'' ''bool'' [] [(''is_const'', CBool True)],
     Add_method ''HasParent'' ''bool'' [] [(''is_const'', CBool True)],
     Add_method ''HideFromDocumentation'' ''ns3::TypeId'' [] [],
     Add_method ''IsChildOf'' ''bool'' [Param ''ns3::TypeId'' ''other'' []] [(''is_const'', CBool True)],
     Add_method ''LookupAttributeByName'' ''bool'' [Param ''std::string'' ''name'' [],
       Param ''ns3::TypeId::AttributeInformation *'' ''info'' [(''transfer_ownership'', CBool False)]] [(''is_const'', CBool True)],
     Add_method ''LookupByHash'' ''ns3::TypeId'' [Param ''uint32_t'' ''hash'' []] [(''is_static'', CBool True)],
     Add_method ''LookupByHashFailSafe'' ''bool'' [Param ''uint32_t'' ''hash'' [],
       Param ''ns3::TypeId *'' ''tid'' []] [(''is_static'', CBool True)],
     Add_method ''LookupByName'' ''ns3::TypeId'' [Param ''std::string'' ''name'' []] [(''is_static'', CBool True)],
     Add_method ''LookupTraceSourceByName'' ''ns3::Ptr< ns3::TraceSourceAccessor const >'' [Param ''std::string'' ''name'' []] [(''is_const'', CBool True)],
     Add_method ''LookupTraceSourceByName'' ''ns3::Ptr< ns3::TraceSourceAccessor const >'' [Param ''std::string'' ''name'' [], Param ''ns3::TypeId::TraceSourceInformation *'' ''info'' []] [(''is_const'', CBool True)],
     Add_method ''MustHideFromDocumentation'' ''bool'' [] [(''is_const'', CBool True)],
     Add_method ''SetAttributeInitialValue'' ''bool'' [Param ''uint32_t'' ''i'' [],
       Param ''ns3::Ptr< ns3::AttributeValue const >'' ''initialValue'' []] [],
     Add_method ''SetGroupName'' ''ns3::TypeId'' [Param ''std::string'' ''groupName'' []] [],
     Add_method ''SetParent'' ''ns3::TypeId'' [Param ''ns3::TypeId'' ''tid'' []] [],
     Add_method ''SetSize'' ''ns3::TypeId'' [Param ''std::size_t'' ''size'' []] [],
     Add_method ''SetUid'' ''void'' [Param ''uint16_t'' ''uid'' []] []]\<close>

definition register_Ns3TypeIdAttributeInformation_methods :: "class_call list" where
  "register_Ns3TypeIdAttributeInformation_methods = [
     Add_constructor [] [],
     Add_constructor [Param ''ns3::TypeId::AttributeInformation const &'' ''arg0'' []] [],
     Add_instance_attribute ''accessor'' ''ns3::Ptr< ns3::AttributeAccessor const >'' [(''is_const'', CBool False)],
     Add_instance_attribute ''checker'' ''ns3::Ptr< ns3::AttributeChecker const >'' [(''is_const'', CBool False)],
     Add_instance_attribute ''flags'' ''uint32_t'' [(''is_const'', CBool False)],
     Add_instance_attribute ''help'' ''std::string'' [(''is_const'', CBool False)],
     Add_instance_attribute ''initialValue'' ''ns3::Ptr< ns3::AttributeValue const >'' [(''is_const'', CBool False)],
     Add_instance_attribute ''name'' ''std::string'' [(''is_const'', CBool False)],
     Add_instance_attribute ''originalInitialValue'' ''ns3::Ptr< ns3::AttributeValue const >'' [(''is_const'', CBool False)],
     Add_instance_attribute ''supportLevel'' ''ns3::TypeId::SupportLevel'' [(''is_const'', CBool False)],
     Add_instance_attribute ''supportMsg'' ''std::string'' [(''is_const'', CBool False)]]"

definition register_Ns3TypeIdTraceSourceInformation_methods :: "class_call list" where
  "register_Ns3TypeIdTraceSourceInformation_methods = [
     Add_constructor [] [],
     Add_constructor [Param ''ns3::TypeId::TraceSourceInformation const &'' ''arg0'' []] [],
     Add_instance_attribute ''accessor'' ''ns3::Ptr< ns3::TraceSourceAccessor const >'' [(''is_const'', CBool False)],
     Add_instance_attribute ''callback'' ''std::string'' [(''is_const'', CBool False)],
     Add_instance_attribute ''help'' ''std::string'' [(''is_const'', CBool False)],
     Add_instance_attribute ''name'' ''std::string'' [(''is_const'', CBool False)],
     Add_instance_attribute ''supportLevel'' ''ns3::TypeId::SupportLevel'' [(''is_const'', CBool False)],
     Add_instance_attribute ''supportMsg'' ''std::string'' [(''is_const'', CBool False)]]"

definition register_Ns3Empty_methods :: "class_call list" where
  "register_Ns3Empty_methods = [
     Add_constructor [] [],
     Add_constructor [Param ''ns3::empty const &'' ''arg0'' []] []]"

definition register_Ns3Int64x64_t_methods :: "class_call list" where
  "register_Ns3Int64x64_t_methods = [
     Add_binary_numeric_operator ''*'' ''ns3::int64x64_t'' ''ns3::int64x64_t'' (Param ''ns3::int64x64_t const &'' ''right'' []),
     Add_binary_numeric_operator ''+'' ''ns3::int64x64_t'' ''ns3::int64x64_t'' (Param ''ns3::int64x64_t const &'' ''right'' []),
     Add_binary_numeric_operator ''-'' ''ns3::int64x64_t'' ''ns3::int64x64_t'' (Param ''ns3::int64x64_t const &'' ''right'' []),
     Add_unary_numeric_operator ''-'',
     Add_binary_numeric_operator ''/'' ''ns3::int64x64_t'' ''ns3::int64x64_t'' (Param ''ns3::int64x64_t const &'' ''right'' []),
     Add_binary_comparison_operator ''<'',
     Add_binary_comparison_operator ''>'',
     Add_binary_comparison_operator ''!='',
     Add_inplace_numeric_operator ''*='' (Param ''ns3::int64x64_t const &'' ''right'' []),
     Add_inplace_numeric_operator ''+='' (Param ''ns3::int64x64_t const &'' ''right'' []),
     Add_inplace_numeric_operator ''-='' (Param ''ns3::int64x64_t const &'' ''right'' []),
     Add_inplace_numeric_operator ''/='' (Param ''ns3::int64x64_t const &'' ''right'' []),
     Add_output_stream_operator,
     Add_binary_comparison_operator ''<='',
     Add_binary_comparison_operator ''=='',
     Add_binary_comparison_operator ''>='',
     Add_constructor [] [],
     Add_constructor [Param ''double'' ''v'' []] [],
     Add_constructor [Param ''long double'' ''v'' []] [],
     Add_constructor [Param ''int'' ''v'' []] [],
     Add_constructor [Param ''long int'' ''v'' []] [],
     Add_constructor [Param ''long long int'' ''v'' []] [],
     Add_constructor [Param ''unsigned int'' ''v'' []] [],
     Add_constructor [Param ''long unsigned int'' ''v'' []] [],
     Add_constructor [Param ''long long unsigned int'' ''v'' []] [],
     Add_constructor [Param ''int64_t'' ''hi'' [], Param ''uint64_t'' ''lo'' []] [],
     Add_constructor [Param ''ns3::int64x64_t const &'' ''o'' []] [],
     Add_method ''GetDouble'' ''double'' [] [(''is_const'', CBool True)],
     Add_method ''GetHigh'' ''int64_t'' [] [(''is_const'', CBool True)],
     Add_method ''GetLow'' ''uint64_t'' [] [(''is_const'', CBool True)],
     Add_method ''Invert'' ''ns3::int64x64_t'' [Param ''uint64_t'' ''v'' []] [(''is_static'', CBool True)],
     Add_method ''MulByInvert'' ''void'' [Param ''ns3::int64x64_t const &'' ''o'' []] [],
     Add_static_attribute ''implementation'' ''ns3::int64x64_t::impl_type const'' [(''is_const'', CBool True)]]"

definition register_Ns3Chunk_methods :: "class_call list" where
  "register_Ns3Chunk_methods = [
     Add_constructor [] [],
     Add_constructor [Param ''ns3::Chunk const &'' ''arg0'' []] [],
     Add_method ''Deserialize'' ''uint32_t'' [Param ''ns3::Buffer::Iterator'' ''start'' []] [(''is_pure_virtual'', CBool True), (''is_virtual'', CBool True)],
     Add_method ''GetTypeId'' ''ns3::TypeId'' [] [(''is_static'', CBool True)],
     Add_method ''Print'' ''void'' [Param ''std::ostream &'' ''os'' []] [(''is_pure_virtual'', CBool True),
       (''is_const'', CBool True), (''is_virtual'', CBool True)]]"

definition register_Ns3Header_methods :: "class_call list" where
  "register_Ns3Header_methods = [
     Add_output_stream_operator,
     Add_constructor [] [],
     Add_constructor [Param ''ns3::Header const &'' ''arg0'' []] [],
     Add_method ''Deserialize'' ''uint32_t'' [Param ''ns3::Buffer::Iterator'' ''start'' []] [(''is_pure_virtual'', CBool True), (''is_virtual'', CBool True)],
     Add_method ''GetSerializedSize'' ''uint32_t'' [] [(''is_pure_virtual'', CBool True),
       (''is_const'', CBool True), (''is_virtual'', CBool True)],
     Add_method ''GetTypeId'' ''ns3::TypeId'' [] [(''is_static'', CBool True)],
     Add_method ''Print'' ''void'' [Param ''std::ostream &'' ''os'' []] [(''is_pure_virtual'', CBool True),
       (''is_const'', CBool True), (''is_virtual'', CBool True)],
     Add_method ''Serialize'' ''void'' [Param ''ns3::Buffer::Iterator'' ''start'' []] [(''is_pure_virtual'', CBool True), (''is_const'', CBool True), (''is_virtual'', CBool True)]]"

definition register_Ns3Object_methods :: "class_call list" where
  "register_Ns3Object_methods = [
     Add_constructor [] [],
     Add_method ''AggregateObject'' ''void'' [Param ''ns3::Ptr< ns3::Object >'' ''other'' []] [],
     Add_method ''Dispose'' ''void'' [] [],
     Add_method ''GetAggregateIterator'' ''ns3::Object::AggregateIterator'' [] [(''is_const'', CBool True)],
     Add_method ''GetInstanceTypeId'' ''ns3::TypeId'' [] [(''is_const'', CBool True),
       (''is_virtual'', CBool True)],
     Add_method ''GetTypeId'' ''ns3::TypeId'' [] [(''is_static'', CBool True)],
     Add_method ''Initialize'' ''void'' [] [],
     Add_method ''IsInitialized'' ''bool'' [] [(''is_const'', CBool True)],
     Add_constructor [Param ''ns3::Object const &'' ''o'' []] [(''visibility'', CStr ''protected'')],
     Add_method ''DoDispose'' ''void'' [] [(''visibility'', CStr ''protected''),
       (''is_virtual'', CBool True)],
     Add_method ''DoInitialize'' ''void'' [] [(''visibility'', CStr ''protected''),
       (''is_virtual'', CBool True)],
     Add_method ''NotifyNewAggregate'' ''void'' [] [(''visibility'', CStr ''protected''),
       (''is_virtual'', CBool True)]]"

definition register_Ns3ObjectAggregateIterator_methods :: "class_call list" where
  "register_Ns3ObjectAggregateIterator_methods = [
     Add_constructor [Param ''ns3::Object::AggregateIterator const &'' ''arg0'' []] [],
     Add_constructor [] [],
     Add_method ''HasNext'' ''bool'' [] [(''is_const'', CBool True)],
     Add_method ''Next'' ''ns3::Ptr< ns3::Object const >'' [] []]"

definition register_Ns3PacketFilter_methods :: "class_call list" where
  "register_Ns3PacketFilter_methods = [
     Add_constructor [Param ''ns3::PacketFilter const &'' ''arg0'' []] [],
     Add_constructor [] [],
     Add_method ''Classify'' ''int32_t'' [Param ''ns3::Ptr< ns3::QueueDiscItem >'' ''item'' []] [(''is_const'', CBool True)],
     Add_method ''GetTypeId'' ''ns3::TypeId'' [] [(''is_static'', CBool True)],
     Add_static_attribute ''PF_NO_MATCH'' ''int const'' [(''is_const'', CBool True)],
     Add_method ''CheckProtocol'' ''bool'' [Param ''ns3::Ptr< ns3::QueueDiscItem >'' ''item'' []] [(''is_pure_virtual'', CBool True), (''is_const'', CBool True), (''visibility'', CStr ''private''), (''is_virtual'', CBool True)],
     Add_method ''DoClassify'' ''int32_t'' [Param ''ns3::Ptr< ns3::QueueDiscItem >'' ''item'' []] [(''is_pure_virtual'', CBool True), (''is_const'', CBool True), (''visibility'', CStr ''private''), (''is_virtual'', CBool True)]]"

definition register_Ns3Queue_methods :: "class_call list" where
  "register_Ns3Queue_methods = [
     Add_constructor [Param ''ns3::Queue const &'' ''arg0'' []] [],
     Add_constructor [] [],
     Add_method ''Dequeue'' ''ns3::Ptr< ns3::QueueItem >'' [] [],
     Add_method ''DequeueAll'' ''void'' [] [],
     Add_method ''Enqueue'' ''bool'' [Param ''ns3::Ptr< ns3::QueueItem >'' ''item'' []] [],
     Add_method ''GetMaxBytes'' ''uint32_t'' [] [(''is_const'', CBool True)],
     Add_method ''GetMaxPackets'' ''uint32_t'' [] [(''is_const'', CBool True)],
     Add_method ''GetMode'' ''ns3::Queue::QueueMode'' [] [(''is_const'', CBool True)],
     Add_method ''GetNBytes'' ''uint32_t'' [] [(''is_const'', CBool True)],
     Add_method ''GetNPackets'' ''uint32_t'' [] [(''is_const'', CBool True)],
     Add_method ''GetTotalDroppedBytes'' ''uint32_t'' [] [(''is_const'', CBool True)],
     Add_method ''GetTotalDroppedPackets'' ''uint32_t'' [] [(''is_const'', CBool True)],
     Add_method ''GetTotalReceivedBytes'' ''uint32_t'' [] [(''is_const'', CBool True)],
     Add_method ''GetTotalReceivedPackets'' ''uint32_t'' [] [(''is_const'', CBool True)],
     Add_method ''GetTypeId'' ''ns3::TypeId'' [] [(''is_static'', CBool True)],
     Add_method ''IsEmpty'' ''bool'' [] [(''is_const'', CBool True)],
     Add_method ''Peek'' ''ns3::Ptr< ns3::QueueItem const >'' [] [(''is_const'', CBool True)],
     Add_method ''Remove'' ''ns3::Ptr< ns3::QueueItem >'' [] [],
     Add_method ''ResetStatistics'' ''void'' [] [],
     Add_method ''SetDropCallback'' ''void'' [Param ''ns3::Callback< void, ns3::Ptr< ns3::QueueItem >, ns3::empty, ns3::empty, ns3::empty, ns3::empty, ns3::empty, ns3::empty, ns3::empty, ns3::empty >'' ''cb'' []] [(''is_virtual'', CBool True)],
     Add_method ''SetMaxBytes'' ''void'' [Param ''uint32_t'' ''maxBytes'' []] [],
     Add_method ''SetMaxPackets'' ''void'' [Param ''uint32_t'' ''maxPackets'' []] [],
     Add_method ''SetMode'' ''void'' [Param ''ns3::Queue::QueueMode'' ''mode'' []] [],
     Add_method ''Drop'' ''void'' [Param ''ns3::Ptr< ns3::QueueItem >'' ''item'' []] [(''visibility'', CStr ''protected'')],
     Add_method ''DoDequeue'' ''ns3::Ptr< ns3::QueueItem >'' [] [(''is_pure_virtual'', CBool True),
       (''visibility'', CStr ''private''), (''is_virtual'', CBool True)],
     Add_method ''DoEnqueue'' ''bool'' [Param ''ns3::Ptr< ns3::QueueItem >'' ''item'' []] [(''is_pure_virtual'', CBool True), (''visibility'', CStr ''private''), (''is_virtual'', CBool True)],
     Add_method ''DoPeek'' ''ns3::Ptr< ns3::QueueItem const >'' [] [(''is_pure_virtual'', CBool True),
       (''is_const'', CBool True), (''visibility'', CStr ''private''), (''is_virtual'', CBool True)],
     Add_method ''DoRemove'' ''ns3::Ptr< ns3::QueueItem >'' [] [(''is_pure_virtual'', CBool True),
       (''visibility'', CStr ''private''), (''is_virtual'', CBool True)]]"

definition register_Ns3QueueDisc_methods :: "class_call list" where
  "register_Ns3QueueDisc_methods = [
     Add_constructor [Param ''ns3::QueueDisc const &'' ''arg0'' []] [],
     Add_constructor [] [],
     Add_method ''AddInternalQueue'' ''void'' [Param ''ns3::Ptr< ns3::Queue >'' ''queue'' []] [],
     Add_method ''AddPacketFilter'' ''void'' [Param ''ns3::Ptr< ns3::PacketFilter >'' ''filter'' []] [],
     Add_method ''AddQueueDiscClass'' ''void'' [Param ''ns3::Ptr< ns3::QueueDiscClass >'' ''qdClass'' []] [],
     Add_method ''Classify'' ''int32_t'' [Param ''ns3::Ptr< ns3::QueueDiscItem >'' ''item'' []] [],
     Add_method ''Dequeue'' ''ns3::Ptr< ns3::QueueDiscItem >'' [] [],
     Add_method ''Enqueue'' ''bool'' [Param ''ns3::Ptr< ns3::QueueDiscItem >'' ''item'' []] [],
     Add_method ''GetInternalQueue'' ''ns3::Ptr< ns3::Queue >'' [Param ''uint32_t'' ''i'' []] [(''is_const'', CBool True)],
     Add_method ''GetNBytes'' ''uint32_t'' [] [(''is_const'', CBool True)],
     Add_method ''GetNInternalQueues'' ''uint32_t'' [] [(''is_const'', CBool True)],
     Add_method ''GetNPacketFilters'' ''uint32_t'' [] [(''is_const'', CBool True)],
     Add_method ''GetNPackets'' ''uint32_t'' [] [(''is_const'', CBool True)],
     Add_method ''GetNQueueDiscClasses'' ''uint32_t'' [] [(''is_const'', CBool True)],
     Add_method ''GetNetDevice'' ''ns3::Ptr< ns3::NetDevice >'' [] [(''is_const'', CBool True)],
     Add_method ''GetPacketFilter'' ''ns3::Ptr< ns3::PacketFilter >'' [Param ''uint32_t'' ''i'' []] [(''is_const'', CBool True)],
     Add_method ''GetQueueDiscClass'' ''ns3::Ptr< ns3::QueueDiscClass >'' [Param ''uint32_t'' ''i'' []] [(''is_const'', CBool True)],
     Add_method ''GetQuota'' ''uint32_t'' [] [(''is_const'', CBool True), (''is_virtual'', CBool True)],
     Add_method ''GetTotalDroppedBytes'' ''uint32_t'' [] [(''is_const'', CBool True)],
     Add_method ''GetTotalDroppedPackets'' ''uint32_t'' [] [(''is_const'', CBool True)],
     Add_method ''GetTotalReceivedBytes'' ''uint32_t'' [] [(''is_const'', CBool True)],
     Add_method ''GetTotalReceivedPackets'' ''uint32_t'' [] [(''is_const'', CBool True)],
     Add_method ''GetTotalRequeuedBytes'' ''uint32_t'' [] [(''is_const'', CBool True)],
     Add_method ''GetTotalRequeuedPackets'' ''uint32_t'' [] [(''is_const'', CBool True)],
     Add_method ''GetTypeId'' ''ns3::TypeId'' [] [(''is_static'', CBool True)],
     Add_method ''GetWakeMode'' ''ns3::QueueDisc::WakeMode'' [] [],
     Add_method ''Peek'' ''ns3::Ptr< ns3::QueueDiscItem const >'' [] [(''is_const'', CBool True)],
     Add_method ''Run'' ''void'' [] [],
     Add_method ''SetNetDevice'' ''void'' [Param ''ns3::Ptr< ns3::NetDevice >'' ''device'' []] [],
     Add_method ''SetParentDropCallback'' ''void'' [Param ''ns3::Callback< void, ns3::Ptr< ns3::QueueItem >, ns3::empty, ns3::empty, ns3::empty, ns3::empty, ns3::empty, ns3::empty, ns3::empty, ns3::empty >'' ''cb'' []] [(''is_virtual'', CBool True)],
     Add_method ''SetQuota'' ''void'' [Param ''uint32_t const'' ''quota'' []] [(''is_virtual'', CBool True)],
     Add_method ''DoDispose'' ''void'' [] [(''visibility'', CStr ''protected''),
       (''is_virtual'', CBool True)],
     Add_method ''DoInitialize'' ''void'' [] [(''visibility'', CStr ''protected''),
       (''is_virtual'', CBool True)],
     Add_method ''Drop'' ''void'' [Param ''ns3::Ptr< ns3::QueueItem >'' ''item'' []] [(''visibility'', CStr ''protected'')],
     Add_method ''CheckConfig'' ''bool'' [] [(''is_pure_virtual'', CBool True),
       (''visibility'', CStr ''private''), (''is_virtual'', CBool True)],
     Add_method ''DoDequeue'' ''ns3::Ptr< ns3::QueueDiscItem >'' [] [(''is_pure_virtual'', CBool True),
       (''visibility'', CStr ''private''), (''is_virtual'', CBool True)],
     Add_method ''DoEnqueue'' ''bool'' [Param ''ns3::Ptr< ns3::QueueDiscItem >'' ''item'' []] [(''is_pure_virtual'', CBool True), (''visibility'', CStr ''private''), (''is_virtual'', CBool True)],
     Add_method ''DoPeek'' ''ns3::Ptr< ns3::QueueDiscItem const >'' [] [(''is_pure_virtual'', CBool True),
       (''is_const'', CBool True), (''visibility'', CStr ''private''), (''is_virtual'', CBool True)],
     Add_method ''InitializeParams'' ''void'' [] [(''is_pure_virtual'', CBool True),
       (''visibility'', CStr ''private''), (''is_virtual'', CBool True)]]"

definition register_Ns3QueueDiscClass_methods :: "class_call list" where
  "register_Ns3QueueDiscClass_methods = [
     Add_constructor [Param ''ns3::QueueDiscClass const &'' ''arg0'' []] [],
     Add_constructor [] [],
     Add_method ''GetQueueDisc'' ''ns3::Ptr< ns3::QueueDisc >'' [] [(''is_const'', CBool True)],
     Add_method ''GetTypeId'' ''ns3::TypeId'' [] [(''is_static'', CBool True)],
     Add_method ''SetQueueDisc'' ''void'' [Param ''ns3::Ptr< ns3::QueueDisc >'' ''qd'' []] [],
     Add_method ''DoDispose'' ''void'' [] [(''visibility'', CStr ''protected''),
       (''is_virtual'', CBool True)]]"

definition register_Ns3RandomVariableStream_methods :: "class_call list" where
  "register_Ns3RandomVariableStream_methods = [
     Add_method ''GetTypeId'' ''ns3::TypeId'' [] [(''is_static'', CBool True)],
     Add_constructor [] [],
     Add_method ''SetStream'' ''void'' [Param ''int64_t'' ''stream'' []] [],
     Add_method ''GetStream'' ''int64_t'' [] [(''is_const'', CBool True)],
     Add_method ''SetAntithetic'' ''void'' [Param ''bool'' ''isAntithetic'' []] [],
     Add_method ''IsAntithetic'' ''bool'' [] [(''is_const'', CBool True)],
     Add_method ''GetValue'' ''double'' [] [(''is_pure_virtual'', CBool True), (''is_virtual'', CBool True)],
     Add_method ''GetInteger'' ''uint32_t'' [] [(''is_pure_virtual'', CBool True),
       (''is_virtual'', CBool True)],
     Add_method ''Peek'' ''ns3::RngStream *'' [] [(''is_const'', CBool True),
       (''visibility'', CStr ''protected'')]]"

definition register_Ns3RedQueueDisc_methods :: "class_call list" where
  "register_Ns3RedQueueDisc_methods = [
     Add_constructor [Param ''ns3::RedQueueDisc const &'' ''arg0'' []] [],
     Add_constructor [] [],
     Add_method ''AssignStreams'' ''int64_t'' [Param ''int64_t'' ''stream'' []] [],
     Add_method ''GetAredAlpha'' ''double'' [] [],
     Add_method ''GetAredBeta'' ''double'' [] [],
     Add_method ''GetMode'' ''ns3::Queue::QueueMode'' [] [],
     Add_method ''GetQueueSize'' ''uint32_t'' [] [],
     Add_method ''GetStats'' ''ns3::RedQueueDisc::Stats'' [] [],
     Add_method ''GetTypeId'' ''ns3::TypeId'' [] [(''is_static'', CBool True)],
     Add_method ''SetAredAlpha'' ''void'' [Param ''double'' ''alpha'' []] [],
     Add_method ''SetAredBeta'' ''void'' [Param ''double'' ''beta'' []] [],
     Add_method ''SetMode'' ''void'' [Param ''ns3::Queue::QueueMode'' ''mode'' []] [],
     Add_method ''SetQueueLimit'' ''void'' [Param ''uint32_t'' ''lim'' []] [],
     Add_method ''SetTh'' ''void'' [Param ''double'' ''minTh'' [], Param ''double'' ''maxTh'' []] [],
     Add_method ''DoDispose'' ''void'' [] [(''visibility'', CStr ''protected''),
       (''is_virtual'', CBool True)],
     Add_method ''CheckConfig'' ''bool'' [] [(''visibility'', CStr ''private''),
       (''is_virtual'', CBool True)],
     Add_method ''DoDequeue'' ''ns3::Ptr< ns3::QueueDiscItem >'' [] [(''visibility'', CStr ''private''),
       (''is_virtual'', CBool True)],
     Add_method ''DoEnqueue'' ''bool'' [Param ''ns3::Ptr< ns3::QueueDiscItem >'' ''item'' []] [(''visibility'', CStr ''private''), (''is_virtual'', CBool True)],
     Add_method ''DoPeek'' ''ns3::Ptr< ns3::QueueDiscItem const >'' [] [(''is_const'', CBool True),
       (''visibility'', CStr ''private''), (''is_virtual'', CBool True)],
     Add_method ''InitializeParams'' ''void'' [] [(''visibility'', CStr ''private''),
       (''is_virtual'', CBool True)]]"

definition register_Ns3RedQueueDiscStats_methods :: "class_call list" where
  "register_Ns3RedQueueDiscStats_methods = [
     Add_constructor [] [],
     Add_constructor [Param ''ns3::RedQueueDisc::Stats const &'' ''arg0'' []] [],
     Add_instance_attribute ''forcedDrop'' ''uint32_t'' [(''is_const'', CBool False)],
     Add_instance_attribute ''qLimDrop'' ''uint32_t'' [(''is_const'', CBool False)],
     Add_instance_attribute ''unforcedDrop'' ''uint32_t'' [(''is_const'', CBool False)]]"

definition register_Ns3SequentialRandomVariable_methods :: "class_call list" where
  "register_Ns3SequentialRandomVariable_methods = [
     Add_method ''GetTypeId'' ''ns3::TypeId'' [] [(''is_static'', CBool True)],
     Add_constructor [] [],
     Add_method ''GetMin'' ''double'' [] [(''is_const'', CBool True)],
     Add_method ''GetMax'' ''double'' [] [(''is_const'', CBool True)],
     Add_method ''GetIncrement'' ''ns3::Ptr< ns3::RandomVariableStream >'' [] [(''is_const'', CBool True)],
     Add_method ''GetConsecutive'' ''uint32_t'' [] [(''is_const'', CBool True)],
     Add_method ''GetValue'' ''double'' [] [(''is_virtual'', CBool True)],
     Add_method ''GetInteger'' ''uint32_t'' [] [(''is_virtual'', CBool True)]]"

text \<open>The functions of this part.\<close>

definition members_3 :: "class_call list list" where
  "members_3 = [
     register_Ns3TypeId_methods,
     register_Ns3TypeIdAttributeInformation_methods,
     register_Ns3TypeIdTraceSourceInformation_methods,
     register_Ns3Empty_methods,
     register_Ns3Int64x64_t_methods,
     register_Ns3Chunk_methods,
     register_Ns3Header_methods,
     register_Ns3Object_methods,
     register_Ns3ObjectAggregateIterator_methods,
     register_Ns3PacketFilter_methods,
     register_Ns3Queue_methods,
     register_Ns3QueueDisc_methods,
     register_Ns3QueueDiscClass_methods,
     register_Ns3RandomVariableStream_methods,
     register_Ns3RedQueueDisc_methods,
     register_Ns3RedQueueDiscStats_methods,
     register_Ns3SequentialRandomVariable_methods]"

end
