(* ===== verification/Bindings_Methods_4.thy ===== *)
theory Bindings_Methods_4
  imports Pybindgen
begin

text \<open>
  Part 4 of the functions that register the members of the classes of the traffic-control
  module, from \<open>register_Ns3SimpleRefCount__Ns3AttributeAccessor_Ns3Empty_Ns3DefaultDeleter__lt__ns3AttributeAccessor__gt___methods\<close> to \<open>register_Ns3ConstantRandomVariable_methods\<close> of
  \<open>traffic-control/bindings/modulegen__gcc_LP64.py\<close>: the calls on \<open>cls\<close> in the order of the
  source.
\<close>

definition register_Ns3SimpleRefCount__Ns3AttributeAccessor_Ns3Empty_Ns3DefaultDeleter__lt__ns3AttributeAccessor__gt___methods :: "class_call list" where
  "register_Ns3SimpleRefCount__Ns3AttributeAccessor_Ns3Empty_Ns3DefaultDeleter__lt__ns3AttributeAccessor__gt___methods = [
     Add_constructor [] [],
     Add_constructor [Param ''ns3::SimpleRefCount< ns3::AttributeAccessor, ns3::empty, ns3::DefaultDeleter< ns3::AttributeAccessor > > const &'' ''o'' []] [],
     Add_method ''Cleanup'' ''void'' [] [(''is_static'', CBool True)]]"

definition register_Ns3SimpleRefCount__Ns3AttributeChecker_Ns3Empty_Ns3DefaultDeleter__lt__ns3AttributeChecker__gt___methods :: "class_call list" where
  "register_Ns3SimpleRefCount__Ns3AttributeChecker_Ns3Empty_Ns3DefaultDeleter__lt__ns3AttributeChecker__gt___methods = [
     Add_constructor [] [],
     Add_constructor [Param ''ns3::SimpleRefCount< ns3::AttributeChecker, ns3::empty, ns3::DefaultDeleter< ns3::AttributeChecker > > const &'' ''o'' []] [],
     Add_method ''Cleanup'' ''void'' [] [(''is_static'', CBool True)]]"

definition register_Ns3SimpleRefCount__Ns3AttributeValue_Ns3Empty_Ns3DefaultDeleter__lt__ns3AttributeValue__gt___methods :: "class_call list" where
  "register_Ns3SimpleRefCount__Ns3AttributeValue_Ns3Empty_Ns3DefaultDeleter__lt__ns3AttributeValue__gt___methods = [
     Add_constructor [] [],
     Add_constructor [Param ''ns3::SimpleRefCount< ns3::AttributeValue, ns3::empty, ns3::DefaultDeleter< ns3::AttributeValue > > const &'' ''o'' []] [],
     Add_method ''Cleanup'' ''void'' [] [(''is_static'', CBool True)]]"

definition register_Ns3SimpleRefCount__Ns3CallbackImplBase_Ns3Empty_Ns3DefaultDeleter__lt__ns3CallbackImplBase__gt___methods :: "class_call list" where
  "register_Ns3SimpleRefCount__Ns3CallbackImplBase_Ns3Empty_Ns3DefaultDeleter__lt__ns3CallbackImplBase__gt___methods = [
     Add_constructor [] [],
     Add_constructor [Param ''ns3::SimpleRefCount< ns3::CallbackImplBase, ns3::empty, ns3::DefaultDeleter< ns3::CallbackImplBase > > const &'' ''o'' []] [],
     Add_method ''Cleanup'' ''void'' [] [(''is_static'', CBool True)]]"

definition register_Ns3SimpleRefCount__Ns3EventImpl_Ns3Empty_Ns3DefaultDeleter__lt__ns3EventImpl__gt___methods :: "class_call list" where
  "register_Ns3SimpleRefCount__Ns3EventImpl_Ns3Empty_Ns3DefaultDeleter__lt__ns3EventImpl__gt___methods = [
     Add_constructor [] [],
     Add_constructor [Param ''ns3::SimpleRefCount< ns3::EventImpl, ns3::empty, ns3::DefaultDeleter< ns3::EventImpl > > const &'' ''o'' []] [],
     Add_method ''Cleanup'' ''void'' [] [(''is_static'', CBool True)]]"

definition register_Ns3SimpleRefCount__Ns3HashImplementation_Ns3Empty_Ns3DefaultDeleter__lt__ns3HashImplementation__gt___methods :: "class_call list" where
  "register_Ns3SimpleRefCount__Ns3HashImplementation_Ns3Empty_Ns3DefaultDeleter__lt__ns3HashImplementation__gt___methods = [
     Add_constructor [] [],
     Add_constructor [Param ''ns3::SimpleRefCount< ns3::Hash::Implementation, ns3::empty, ns3::DefaultDeleter< ns3::Hash::Implementation > > const &'' ''o'' []] [],
     Add_method ''Cleanup'' ''void'' [] [(''is_static'', CBool True)]]"

definition register_Ns3SimpleRefCount__Ns3NetDeviceQueue_Ns3Empty_Ns3DefaultDeleter__lt__ns3NetDeviceQueue__gt___methods :: "class_call list" where
  "register_Ns3SimpleRefCount__Ns3NetDeviceQueue_Ns3Empty_Ns3DefaultDeleter__lt__ns3NetDeviceQueue__gt___methods = [
     Add_constructor [] [],
     Add_constructor [Param ''ns3::SimpleRefCount< ns3::NetDeviceQueue, ns3::empty, ns3::DefaultDeleter< ns3::NetDeviceQueue > > const &'' ''o'' []] [],
     Add_method ''Cleanup'' ''void'' [] [(''is_static'', CBool True)]]"

definition register_Ns3SimpleRefCount__Ns3NixVector_Ns3Empty_Ns3DefaultDeleter__lt__ns3NixVector__gt___methods :: "class_call list" where
  "register_Ns3SimpleRefCount__Ns3NixVector_Ns3Empty_Ns3DefaultDeleter__lt__ns3NixVector__gt___methods = [
     Add_constructor [] [],
     Add_constructor [Param ''ns3::SimpleRefCount< ns3::NixVector, ns3::empty, ns3::DefaultDeleter< ns3::NixVector > > const &'' ''o'' []] [],
     Add_method ''Cleanup'' ''void'' [] [(''is_static'', CBool True)]]"

definition register_Ns3SimpleRefCount__Ns3Packet_Ns3Empty_Ns3DefaultDeleter__lt__ns3Packet__gt___methods :: "class_call list" where
  "register_Ns3SimpleRefCount__Ns3Packet_Ns3Empty_Ns3DefaultDeleter__lt__ns3Packet__gt___methods = [
     Add_constructor [] [],
     Add_constructor [Param ''ns3::SimpleRefCount< ns3::Packet, ns3::empty, ns3::DefaultDeleter< ns3::Packet > > const &'' ''o'' []] [],
     Add_method ''Cleanup'' ''void'' [] [(''is_static'', CBool True)]]"

definition register_Ns3SimpleRefCount__Ns3QueueItem_Ns3Empty_Ns3DefaultDeleter__lt__ns3QueueItem__gt___methods :: "class_call list" where
  "register_Ns3SimpleRefCount__Ns3QueueItem_Ns3Empty_Ns3DefaultDeleter__lt__ns3QueueItem__gt___methods = [
     Add_constructor [] [],
     Add_constructor [Param ''ns3::SimpleRefCount< ns3::QueueItem, ns3::empty, ns3::DefaultDeleter< ns3::QueueItem > > const &'' ''o'' []] [],
     Add_method ''Cleanup'' ''void'' [] [(''is_static'', CBool True)]]"

definition register_Ns3SimpleRefCount__Ns3TraceSourceAccessor_Ns3Empty_Ns3DefaultDeleter__lt__ns3TraceSourceAccessor__gt___methods :: "class_call list" where
  "register_Ns3SimpleRefCount__Ns3TraceSourceAccessor_Ns3Empty_Ns3DefaultDeleter__lt__ns3TraceSourceAccessor__gt___methods = [
     Add_constructor [] [],
     Add_constructor [Param ''ns3::SimpleRefCount< ns3::TraceSourceAccessor, ns3::empty, ns3::DefaultDeleter< ns3::TraceSourceAccessor > > const &'' ''o'' []] [],
     Add_method ''Cleanup'' ''void'' [] [(''is_static'', CBool True)]]"

definition register_Ns3Time_methods :: "class_call list" where
  "register_Ns3Time_methods = [
     Add_binary_numeric_operator ''*'' ''ns3::Time'' ''ns3::Time'' (Param ''int64_t const &'' ''right'' []),
     Add_binary_numeric_operator ''+'' ''ns3::Time'' ''ns3::Time'' (Param ''ns3::Time const &'' ''right'' []),
     Add_binary_numeric_operator ''-'' ''ns3::Time'' ''ns3::Time'' (Param ''ns3::Time const &'' ''right'' []),
     Add_binary_numeric_operator ''/'' ''ns3::Time'' ''ns3::Time'' (Param ''int64_t const &'' ''right'' []),
     Add_binary_comparison_operator ''<'',
     Add_binary_comparison_operator ''>'',
     Add_binary_comparison_operator ''!='',
     Add_inplace_numeric_operator ''+='' (Param ''ns3::Time const &'' ''right'' []),
     Add_inplace_numeric_operator ''-='' (Param ''ns3::Time const &'' ''right'' []),
     Add_output_stream_operator,
     Add_binary_comparison_operator ''<='',
     Add_binary_comparison_operator ''=='',
     Add_binary_comparison_operator ''>='',
     Add_constructor [] [],
     Add_constructor [Param ''ns3::Time const &'' ''o'' []] [],
     Add_constructor [Param ''double'' ''v'' []] [],
     Add_constructor [Param ''int'' ''v'' []] [],
     Add_constructor [Param ''long int'' ''v'' []] [],
     Add_constructor [Param ''long long int'' ''v'' []] [],
     Add_constructor [Param ''unsigned int'' ''v'' []] [],
     Add_constructor [Param ''long unsigned int'' ''v'' []] [],
     Add_constructor [Param ''long long unsigned int'' ''v'' []] [],
     Add_constructor [Param ''ns3::int64x64_t const &'' ''v'' []] [],
     Add_constructor [Param ''std::string const &'' ''s'' []] [],
     Add_method ''As'' ''ns3::TimeWithUnit'' [Param ''ns3::Time::Unit const'' ''unit'' []] [(''is_const'', CBool True)],
     Add_method ''Compare'' ''int'' [Param ''ns3::Time const &'' ''o'' []] [(''is_const'', CBool True)],
     Add_method ''From'' ''ns3::Time'' [Param ''ns3::int64x64_t const &'' ''value'' []] [(''is_static'', CBool True)],
     Add_method ''From'' ''ns3::Time'' [Param ''ns3::int64x64_t const &'' ''value'' [],
       Param ''ns3::Time::Unit'' ''unit'' []] [(''is_static'', CBool True)],
     Add_method ''FromDouble'' ''ns3::Time'' [Param ''double'' ''value'' [],
       Param ''ns3::Time::Unit'' ''unit'' []] [(''is_static'', CBool True)],
     Add_method ''FromInteger'' ''ns3::Time'' [Param ''uint64_t'' ''value'' [],
       Param ''ns3::Time::Unit'' ''unit'' []] [(''is_static'', CBool True)],
     Add_method ''GetDays'' ''double'' [] [(''is_const'', CBool True)],
     Add_method ''GetDouble'' ''double'' [] [(''is_const'', CBool True)],
     Add_method ''GetFemtoSeconds'' ''int64_t'' [] [(''is_const'', CBool True)],
     Add_method ''GetHours'' ''double'' [] [(''is_const'', CBool True)],
     Add_method ''GetInteger'' ''int64_t'' [] [(''is_const'', CBool True)],
     Add_method ''GetMicroSeconds'' ''int64_t'' [] [(''is_const'', CBool True)],
     Add_method ''GetMilliSeconds'' ''int64_t'' [] [(''is_const'', CBool True)],
     Add_method ''GetMinutes'' ''double'' [] [(''is_const'', CBool True)],
     Add_method ''GetNanoSeconds'' ''int64_t'' [] [(''is_const'', CBool True)],
     Add_method ''GetPicoSeconds'' ''int64_t'' [] [(''is_const'', CBool True)],
     Add_method ''GetResolution'' ''ns3::Time::Unit'' [] [(''is_static'', CBool True)],
     Add_method ''GetSeconds'' ''double'' [] [(''is_const'', CBool True)],
     Add_method ''GetTimeStep'' ''int64_t'' [] [(''is_const'', CBool True)],
     Add_method ''GetYears'' ''double'' [] [(''is_const'', CBool True)],
     Add_method ''IsNegative'' ''bool'' [] [(''is_const'', CBool True)],
     Add_method ''IsPositive'' ''bool'' [] [(''is_const'', CBool True)],
     Add_method ''IsStrictlyNegative'' ''bool'' [] [(''is_const'', CBool True)],
     Add_method ''IsStrictlyPositive'' ''bool'' [] [(''is_const'', CBool True)],
     Add_method ''IsZero'' ''bool'' [] [(''is_const'', CBool True)],
     Add_method ''Max'' ''ns3::Time'' [] [(''is_static'', CBool True)],
     Add_method ''Min'' ''ns3::Time'' [] [(''is_static'', CBool True)],
     Add_method ''SetResolution'' ''void'' [Param ''ns3::Time::Unit'' ''resolution'' []] [(''is_static'', CBool True)],
     Add_method ''StaticInit'' ''bool'' [] [(''is_static'', CBool True)],
     Add_method ''To'' ''ns3::int64x64_t'' [Param ''ns3::Time::Unit'' ''unit'' []] [(''is_const'', CBool True)],
     Add_method ''ToDouble'' ''double'' [Param ''ns3::Time::Unit'' ''unit'' []] [(''is_const'', CBool True)],
     Add_method ''ToInteger'' ''int64_t'' [Param ''ns3::Time::Unit'' ''unit'' []] [(''is_const'', CBool True)]]"

definition register_Ns3TraceSourceAccessor_methods :: "class_call list" where
  "register_Ns3TraceSourceAccessor_methods = [
     Add_constructor [Param ''ns3::TraceSourceAccessor const &'' ''arg0'' []] [],
     Add_constructor [] [],
     Add_method ''Connect'' ''bool'' [Param ''ns3::ObjectBase *'' ''obj'' [(''transfer_ownership'', CBool False)], Param ''std::string'' ''context'' [], Param ''ns3::CallbackBase const &'' ''cb'' []] [(''is_pure_virtual'', CBool True), (''is_const'', CBool True), (''is_virtual'', CBool True)],
     Add_method ''ConnectWithoutContext'' ''bool'' [Param ''ns3::ObjectBase *'' ''obj'' [(''transfer_ownership'', CBool False)], Param ''ns3::CallbackBase const &'' ''cb'' []] [(''is_pure_virtual'', CBool True), (''is_const'', CBool True), (''is_virtual'', CBool True)],
     Add_method ''Disconnect'' ''bool'' [Param ''ns3::ObjectBase *'' ''obj'' [(''transfer_ownership'', CBool False)], Param ''std::string'' ''context'' [], Param ''ns3::CallbackBase const &'' ''cb'' []] [(''is_pure_virtual'', CBool True), (''is_const'', CBool True), (''is_virtual'', CBool True)],
     Add_method ''DisconnectWithoutContext'' ''bool'' [Param ''ns3::ObjectBase *'' ''obj'' [(''transfer_ownership'', CBool False)], Param ''ns3::CallbackBase const &'' ''cb'' []] [(''is_pure_virtual'', CBool True), (''is_const'', CBool True), (''is_virtual'', CBool True)]]"

definition register_Ns3TracedValue__Ns3Time_methods :: "class_call list" where
  "register_Ns3TracedValue__Ns3Time_methods = [
     Add_constructor [] [],
     Add_constructor [Param ''ns3::TracedValue< ns3::Time > const &'' ''o'' []] [],
     Add_constructor [Param ''ns3::Time const &'' ''v'' []] [],
     Add_method ''Connect'' ''void'' [Param ''ns3::CallbackBase const &'' ''cb'' [],
       Param ''std::string'' ''path'' []] [],
     Add_method ''ConnectWithoutContext'' ''void'' [Param ''ns3::CallbackBase const &'' ''cb'' []] [],
     Add_method ''Disconnect'' ''void'' [Param ''ns3::CallbackBase const &'' ''cb'' [],
       Param ''std::string'' ''path'' []] [],
     Add_method ''DisconnectWithoutContext'' ''void'' [Param ''ns3::CallbackBase const &'' ''cb'' []] [],
     Add_method ''Get'' ''ns3::Time'' [] [(''is_const'', CBool True)],
     Add_method ''Set'' ''void'' [Param ''ns3::Time const &'' ''v'' []] []]"

definition register_Ns3TrafficControlLayer_methods :: "class_call list" where
  "register_Ns3TrafficControlLayer_methods = [
     Add_constructor [] [],
     Add_method ''DeleteRootQueueDiscOnDevice'' ''void'' [Param ''ns3::Ptr< ns3::NetDevice >'' ''device'' []] [(''is_virtual'', CBool True)],
     Add_method ''GetInstanceTypeId'' ''ns3::TypeId'' [] [(''is_const'', CBool True),
       (''is_virtual'', CBool True)],
     Add_method ''GetRootQueueDiscOnDevice'' ''ns3::Ptr< ns3::QueueDisc >'' [Param ''ns3::Ptr< ns3::NetDevice >'' ''device'' []] [(''is_const'', CBool True), (''is_virtual'', CBool True)],
     Add_method ''GetTypeId'' ''ns3::TypeId'' [] [(''is_static'', CBool True)],
     Add_method ''Receive'' ''void'' [Param ''ns3::Ptr< ns3::NetDevice >'' ''device'' [],
       Param ''ns3::Ptr< ns3::Packet const >'' ''p'' [], Param ''uint16_t'' ''protocol'' [],
       Param ''ns3::Address const &'' ''from'' [], Param ''ns3::Address const &'' ''to'' [],
       Param ''ns3::NetDevice::PacketType'' ''packetType'' []] [(''is_virtual'', CBool True)],
     Add_method ''RegisterProtocolHandler'' ''void'' [Param ''ns3::Callback< void, ns3::Ptr< ns3::NetDevice >, ns3::Ptr< ns3::Packet const >, unsigned short, ns3::Address const &, ns3::Address const &, ns3::NetDevice::PacketType, ns3::empty, ns3::empty, ns3::empty >'' ''handler'' [], Param ''uint16_t'' ''protocolType'' [], Param ''ns3::Ptr< ns3::NetDevice >'' ''device'' []] [],
     Add_method ''Send'' ''void'' [Param ''ns3::Ptr< ns3::NetDevice >'' ''device'' [],
       Param ''ns3::Ptr< ns3::QueueDiscItem >'' ''item'' []] [(''is_virtual'', CBool True)],
     Add_method ''SetNode'' ''void'' [Param ''ns3::Ptr< ns3::Node >'' ''node'' []] [],
     Add_method ''SetRootQueueDiscOnDevice'' ''void'' [Param ''ns3::Ptr< ns3::NetDevice >'' ''device'' [],
       Param ''ns3::Ptr< ns3::QueueDisc >'' ''qDisc'' []] [(''is_virtual'', CBool True)],
     Add_method ''SetupDevice'' ''void'' [Param ''ns3::Ptr< ns3::NetDevice >'' ''device'' []] [(''is_virtual'', CBool True)],
     Add_method ''DoDispose'' ''void'' [] [(''visibility'', CStr ''protected''),
       (''is_virtual'', CBool True)],
     Add_method ''DoInitialize'' ''void'' [] [(''visibility'', CStr ''protected''),
       (''is_virtual'', CBool True)],
     Add_method ''NotifyNewAggregate'' ''void'' [] [(''visibility'', CStr ''protected''),
       (''is_virtual'', CBool True)]]"

definition register_Ns3Trailer_methods :: "class_call list" where
  "register_Ns3Trailer_methods = [
     Add_output_stream_operator,
     Add_constructor [] [],
     Add_constructor [Param ''ns3::Trailer const &'' ''arg0'' []] [],
     Add_method ''Deserialize'' ''uint32_t'' [Param ''ns3::Buffer::Iterator'' ''end'' []] [(''is_pure_virtual'', CBool True), (''is_virtual'', CBool True)],
     Add_method ''GetSerializedSize'' ''uint32_t'' [] [(''is_pure_virtual'', CBool True),
       (''is_const'', CBool True), (''is_virtual'', CBool True)],
     Add_method ''GetTypeId'' ''ns3::TypeId'' [] [(''is_static'', CBool True)],
     Add_method ''Print'' ''void'' [Param ''std::ostream &'' ''os'' []] [(''is_pure_virtual'', CBool True),
       (''is_const'', CBool True), (''is_virtual'', CBool True)],
     Add_method ''Serialize'' ''void'' [Param ''ns3::Buffer::Iterator'' ''start'' []] [(''is_pure_virtual'', CBool True), (''is_const'', CBool True), (''is_virtual'', CBool True)]]"

definition register_Ns3TriangularRandomVariable_methods :: "class_call list" where
  "register_Ns3TriangularRandomVariable_methods = [
     Add_method ''GetTypeId'' ''ns3::TypeId'' [] [(''is_static'', CBool True)],
     Add_constructor [] [],
     Add_method ''GetMean'' ''double'' [] [(''is_const'', CBool True)],
     Add_method ''GetMin'' ''double'' [] [(''is_const'', CBool True)],
     Add_method ''GetMax'' ''double'' [] [(''is_const'', CBool True)],
     Add_method ''GetValue'' ''double'' [Param ''double'' ''mean'' [], Param ''double'' ''min'' [],
       Param ''double'' ''max'' []] [],
     Add_method ''GetInteger'' ''uint32_t'' [Param ''uint32_t'' ''mean'' [], Param ''uint32_t'' ''min'' [],
       Param ''uint32_t'' ''max'' []] [],
     Add_method ''GetValue'' ''double'' [] [(''is_virtual'', CBool True)],
     Add_method ''GetInteger'' ''uint32_t'' [] [(''is_virtual'', CBool True)]]"

definition register_Ns3UniformRandomVariable_methods :: "class_call list" where
  "register_Ns3UniformRandomVariable_methods = [
     Add_method ''GetTypeId'' ''ns3::TypeId'' [] [(''is_static'', CBool True)],
     Add_constructor [] [],
     Add_method ''GetMin'' ''double'' [] [(''is_const'', CBool True)],
     Add_method ''GetMax'' ''double'' [] [(''is_const'', CBool True)],
     Add_method ''GetValue'' ''double'' [Param ''double'' ''min'' [], Param ''double'' ''max'' []] [],
     Add_method ''GetInteger'' ''uint32_t'' [Param ''uint32_t'' ''min'' [], Param ''uint32_t'' ''max'' []] [],
     Add_method ''GetValue'' ''double'' [] [(''is_virtual'', CBool True)],
     Add_method ''GetInteger'' ''uint32_t'' [] [(''is_virtual'', CBool True)]]"

definition register_Ns3WeibullRandomVariable_methods :: "class_call list" where
  "register_Ns3WeibullRandomVariable_methods = [
     Add_method ''GetTypeId'' ''ns3::TypeId'' [] [(''is_static'', CBool True)],
     Add_constructor [] [],
     Add_method ''GetScale'' ''double'' [] [(''is_const'', CBool True)],
     Add_method ''GetShape'' ''double'' [] [(''is_const'', CBool True)],
     Add_method ''GetBound'' ''double'' [] [(''is_const'', CBool True)],
     Add_method ''GetValue'' ''double'' [Param ''double'' ''scale'' [], Param ''double'' ''shape'' [],
       Param ''double'' ''bound'' []] [],
     Add_method ''GetInteger'' ''uint32_t'' [Param ''uint32_t'' ''scale'' [], Param ''uint32_t'' ''shape'' [],
       Param ''uint32_t'' ''bound'' []] [],
     Add_method ''GetValue'' ''double'' [] [(''is_virtual'', CBool True)],
     Add_method ''GetInteger'' ''uint32_t'' [] [(''is_virtual'', CBool True)]]"

definition register_Ns3ZetaRandomVariable_methods :: "class_call list" where
  "register_Ns3ZetaRandomVariable_methods = [
     Add_method ''GetTypeId'' ''ns3::TypeId'' [] [(''is_static'', CBool True)],
     Add_constructor [] [],
     Add_method ''GetAlpha'' ''double'' [] [(''is_const'', CBool True)],
     Add_method ''GetValue'' ''double'' [Param ''double'' ''alpha'' []] [],
     Add_method ''GetInteger'' ''uint32_t'' [Param ''uint32_t'' ''alpha'' []] [],
     Add_method ''GetValue'' ''double'' [] [(''is_virtual'', CBool True)],
     Add_method ''GetInteger'' ''uint32_t'' [] [(''is_virtual'', CBool True)]]"

definition register_Ns3ZipfRandomVariable_methods :: "class_call list" where
  "register_Ns3ZipfRandomVariable_methods = [
     Add_method ''GetTypeId'' ''ns3::TypeId'' [] [(''is_static'', CBool True)],
     Add_constructor [] [],
     Add_method ''GetN'' ''uint32_t'' [] [(''is_const'', CBool True)],
     Add_method ''GetAlpha'' ''double'' [] [(''is_const'', CBool True)],
     Add_method ''GetValue'' ''double'' [Param ''uint32_t'' ''n'' [], Param ''double'' ''alpha'' []] [],
     Add_method ''GetInteger'' ''uint32_t'' [Param ''uint32_t'' ''n'' [], Param ''uint32_t'' ''alpha'' []] [],
     Add_method ''GetValue'' ''double'' [] [(''is_virtual'', CBool True)],
     Add_method ''GetInteger'' ''uint32_t'' [] [(''is_virtual'', CBool True)]]"

definition register_Ns3AttributeAccessor_methods :: "class_call list" where
  "register_Ns3AttributeAccessor_methods = [
     Add_constructor [Param ''ns3::AttributeAccessor const &'' ''arg0'' []] [],
     Add_constructor [] [],
     Add_method ''Get'' ''bool'' [Param ''ns3::ObjectBase const *'' ''object'' [],
       Param ''ns3::AttributeValue &'' ''attribute'' []] [(''is_pure_virtual'', CBool True),
       (''is_const'', CBool True), (''is_virtual'', CBool True)],
     Add_method ''HasGetter'' ''bool'' [] [(''is_pure_virtual'', CBool True), (''is_const'', CBool True),
       (''is_virtual'', CBool True)],
     Add_method ''HasSetter'' ''bool'' [] [(''is_pure_virtual'', CBool True), (''is_const'', CBool True),
       (''is_virtual'', CBool True)],
     Add_method ''Set'' ''bool'' [Param ''ns3::ObjectBase *'' ''object'' [(''transfer_ownership'', CBool False)], Param ''ns3::AttributeValue const &'' ''value'' []] [(''is_pure_virtual'', CBool True), (''is_const'', CBool True), (''is_virtual'', CBool True)]]"

definition register_Ns3AttributeChecker_methods :: "class_call list" where
  "register_Ns3AttributeChecker_methods = [
     Add_constructor [Param ''ns3::AttributeChecker const &'' ''arg0'' []] [],
     Add_constructor [] [],
     Add_method ''Check'' ''bool'' [Param ''ns3::AttributeValue const &'' ''value'' []] [(''is_pure_virtual'', CBool True), (''is_const'', CBool True), (''is_virtual'', CBool True)],
     Add_method ''Copy'' ''bool'' [Param ''ns3::AttributeValue const &'' ''source'' [],
       Param ''ns3::AttributeValue &'' ''destination'' []] [(''is_pure_virtual'', CBool True),
       (''is_const'', CBool True), (''is_virtual'', CBool True)],
     Add_method ''Create'' ''ns3::Ptr< ns3::AttributeValue >'' [] [(''is_pure_virtual'', CBool True),
       (''is_const'', CBool True), (''is_virtual'', CBool True)],
     Add_method ''CreateValidValue'' ''ns3::Ptr< ns3::AttributeValue >'' [Param ''ns3::AttributeValue const &'' ''value'' []] [(''is_const'', CBool True)],
     Add_method ''GetUnderlyingTypeInformation'' ''std::string'' [] [(''is_pure_virtual'', CBool True),
       (''is_const'', CBool True), (''is_virtual'', CBool True)],
     Add_method ''GetValueTypeName'' ''std::string'' [] [(''is_pure_virtual'', CBool True),
       (''is_const'', CBool True), (''is_virtual'', CBool True)],
     Add_method ''HasUnderlyingTypeInformation'' ''bool'' [] [(''is_pure_virtual'', CBool True),
       (''is_const'', CBool True), (''is_virtual'', CBool True)]]"

definition register_Ns3AttributeValue_methods :: "class_call list" where
  "register_Ns3AttributeValue_methods = [
     Add_constructor [Param ''ns3::AttributeValue const &'' ''arg0'' []] [],
     Add_constructor [] [],
     Add_method ''Copy'' ''ns3::Ptr< ns3::AttributeValue >'' [] [(''is_pure_virtual'', CBool True),
       (''is_const'', CBool True), (''is_virtual'', CBool True)],
     Add_method ''DeserializeFromString'' ''bool'' [Param ''std::string'' ''value'' [],
       Param ''ns3::Ptr< ns3::AttributeChecker const >'' ''checker'' []] [(''is_pure_virtual'', CBool True),
       (''is_virtual'', CBool True)],
     Add_method ''SerializeToString'' ''std::string'' [Param ''ns3::Ptr< ns3::AttributeChecker const >'' ''checker'' []] [(''is_pure_virtual'', CBool True), (''is_const'', CBool True), (''is_virtual'', CBool True)]]"

definition register_Ns3BooleanChecker_methods :: "class_call list" where
  "register_Ns3BooleanChecker_methods = [
     Add_constructor [] [],
     Add_constructor [Param ''ns3::BooleanChecker const &'' ''arg0'' []] []]"

definition register_Ns3BooleanValue_methods :: "class_call list" where
  "register_Ns3BooleanValue_methods = [
     Add_output_stream_operator,
     Add_constructor [Param ''ns3::BooleanValue const &'' ''arg0'' []] [],
     Add_constructor [] [],
     Add_constructor [Param ''bool'' ''value'' []] [],
     Add_method ''Copy'' ''ns3::Ptr< ns3::AttributeValue >'' [] [(''is_const'', CBool True),
       (''is_virtual'', CBool True)],
     Add_method ''DeserializeFromString'' ''bool'' [Param ''std::string'' ''value'' [],
       Param ''ns3::Ptr< ns3::AttributeChecker const >'' ''checker'' []] [(''is_virtual'', CBool True)],
     Add_method ''Get'' ''bool'' [] [(''is_const'', CBool True)],
     Add_method ''SerializeToString'' ''std::string'' [Param ''ns3::Ptr< ns3::AttributeChecker const >'' ''checker'' []] [(''is_const'', CBool True), (''is_virtual'', CBool True)],
     Add_method ''Set'' ''void'' [Param ''bool'' ''value'' []] []]"

definition register_Ns3CallbackChecker_methods :: "class_call list" where
  "register_Ns3CallbackChecker_methods = [
     Add_constructor [] [],
     Add_constructor [Param ''ns3::CallbackChecker const &'' ''arg0'' []] []]"

definition register_Ns3CallbackImplBase_methods :: "class_call list" where
  "register_Ns3CallbackImplBase_methods = [
     Add_constructor [] [],
     Add_constructor [Param ''ns3::CallbackImplBase const &'' ''arg0'' []] [],
     Add_method ''GetTypeid'' ''std::string'' [] [(''is_pure_virtual'', CBool True),
       (''is_const'', CBool True), (''is_virtual'', CBool True)],
     Add_method ''IsEqual'' ''bool'' [Param ''ns3::Ptr< ns3::CallbackImplBase const >'' ''other'' []] [(''is_pure_virtual'', CBool True), (''is_const'', CBool True), (''is_virtual'', CBool True)],
     Add_method ''Demangle'' ''std::string'' [Param ''std::string const &'' ''mangled'' []] [(''is_static'', CBool True), (''visibility'', CStr ''protected'')]]"

definition register_Ns3CallbackValue_methods :: "class_call list" where
  "register_Ns3CallbackValue_methods = [
     Add_constructor [Param ''ns3::CallbackValue const &'' ''arg0'' []] [],
     Add_constructor [] [],
     Add_constructor [Param ''ns3::CallbackBase const &'' ''base'' []] [],
     Add_method ''Copy'' ''ns3::Ptr< ns3::AttributeValue >'' [] [(''is_const'', CBool True),
       (''is_virtual'', CBool True)],
     Add_method ''DeserializeFromString'' ''bool'' [Param ''std::string'' ''value'' [],
       Param ''ns3::Ptr< ns3::AttributeChecker const >'' ''checker'' []] [(''is_virtual'', CBool True)],
     Add_method ''SerializeToString'' ''std::string'' [Param ''ns3::Ptr< ns3::AttributeChecker const >'' ''checker'' []] [(''is_const'', CBool True), (''is_virtual'', CBool True)],
     Add_method ''Set'' ''void'' [Param ''ns3::CallbackBase'' ''base'' []] []]"

definition register_Ns3CoDelQueueDisc_methods :: "class_call list" where
  "register_Ns3CoDelQueueDisc_methods = [
     Add_constructor [Param ''ns3::CoDelQueueDisc const &'' ''arg0'' []] [],
     Add_constructor [] [],
     Add_method ''GetDropCount'' ''uint32_t'' [] [],
     Add_method ''GetDropNext'' ''uint32_t'' [] [],
     Add_method ''GetDropOverLimit'' ''uint32_t'' [] [],
     Add_method ''GetInterval'' ''ns3::Time'' [] [],
     Add_method ''GetMode'' ''ns3::Queue::QueueMode'' [] [],
     Add_method ''GetQueueSize'' ''uint32_t'' [] [],
     Add_method ''GetTarget'' ''ns3::Time'' [] [],
     Add_method ''GetTypeId'' ''ns3::TypeId'' [] [(''is_static'', CBool True)],
     Add_method ''SetMode'' ''void'' [Param ''ns3::Queue::QueueMode'' ''mode'' []] [],
     Add_method ''CheckConfig'' ''bool'' [] [(''visibility'', CStr ''private''),
       (''is_virtual'', CBool True)],
     Add_method ''DoDequeue'' ''ns3::Ptr< ns3::QueueDiscItem >'' [] [(''visibility'', CStr ''private''),
       (''is_virtual'', CBool True)],
     Add_method ''DoEnqueue'' ''bool'' [Param ''ns3::Ptr< ns3::QueueDiscItem >'' ''item'' []] [(''visibility'', CStr ''private''), (''is_virtual'', CBool True)],
     Add_method ''DoPeek'' ''ns3::Ptr< ns3::QueueDiscItem const >'' [] [(''is_const'', CBool True),
       (''visibility'', CStr ''private''), (''is_virtual'', CBool True)],
     Add_method ''InitializeParams'' ''void'' [] [(''visibility'', CStr ''private''),
       (''is_virtual'', CBool True)]]"

definition register_Ns3ConstantRandomVariable_methods :: "class_call list" where
  "register_Ns3ConstantRandomVariable_methods = [
     Add_method ''GetTypeId'' ''ns3::TypeId'' [] [(''is_static'', CBool True)],
     Add_constructor [] [],
     Add_method ''GetConstant'' ''double'' [] [(''is_const'', CBool True)],
     Add_method ''GetValue'' ''double'' [Param ''double'' ''constant'' []] [],
     Add_method ''GetInteger'' ''uint32_t'' [Param ''uint32_t'' ''constant'' []] [],
     Add_method ''GetValue'' ''double'' [] [(''is_virtual'', CBool True)],
     Add_method ''GetInteger'' ''uint32_t'' [] [(''is_virtual'', CBool True)]]"

text \<open>The functions of this part.\<close>

definition members_4 :: "class_call list list" where
  "members_4 = [
     register_Ns3SimpleRefCount__Ns3AttributeAccessor_Ns3Empty_Ns3DefaultDeleter__lt__ns3AttributeAccessor__gt___methods,
     register_Ns3SimpleRefCount__Ns3AttributeChecker_Ns3Empty_Ns3DefaultDeleter__lt__ns3AttributeChecker__gt___methods,
     register_Ns3SimpleRefCount__Ns3AttributeValue_Ns3Empty_Ns3DefaultDeleter__lt__ns3AttributeValue__gt___methods,
     register_Ns3SimpleRefCount__Ns3CallbackImplBase_Ns3Empty_Ns3DefaultDeleter__lt__ns3CallbackImplBase__gt___methods,
     register_Ns3SimpleRefCount__Ns3EventImpl_Ns3Empty_Ns3DefaultDeleter__lt__ns3EventImpl__gt___methods,
     register_Ns3SimpleRefCount__Ns3HashImplementation_Ns3Empty_Ns3DefaultDeleter__lt__ns3HashImplementation__gt___methods,
     register_Ns3SimpleRefCount__Ns3NetDeviceQueue_Ns3Empty_Ns3DefaultDeleter__lt__ns3NetDeviceQueue__gt___methods,
     register_Ns3SimpleRefCount__Ns3NixVector_Ns3Empty_Ns3DefaultDeleter__lt__ns3NixVector__gt___methods,
     register_Ns3SimpleRefCount__Ns3Packet_Ns3Empty_Ns3DefaultDeleter__lt__ns3Packet__gt___methods,
     register_Ns3SimpleRefCount__Ns3QueueItem_Ns3Empty_Ns3DefaultDeleter__lt__ns3QueueItem__gt___methods,
     register_Ns3SimpleRefCount__Ns3TraceSourceAccessor_Ns3Empty_Ns3DefaultDeleter__lt__ns3TraceSourceAccessor__gt___methods,
     register_Ns3Time_methods,
     register_Ns3TraceSourceAccessor_methods,
     register_Ns3TracedValue__Ns3Time_methods,
     register_Ns3TrafficControlLayer_methods,
     register_Ns3Trailer_methods,
     register_Ns3TriangularRandomVariable_methods,
     register_Ns3UniformRandomVariable_methods,
     register_Ns3WeibullRandomVariable_methods,
     register_Ns3ZetaRandomVariable_methods,
     register_Ns3ZipfRandomVariable_methods,
     register_Ns3AttributeAccessor_methods,
     register_Ns3AttributeChecker_methods,
     register_Ns3AttributeValue_methods,
     register_Ns3BooleanChecker_methods,
     register_Ns3BooleanValue_methods,
     register_Ns3CallbackChecker_methods,
     register_Ns3CallbackImplBase_methods,
     register_Ns3CallbackValue_methods,
     register_Ns3CoDelQueueDisc_methods,
     register_Ns3ConstantRandomVariable_methods]"

end
