(* ===== verification/Bindings_Methods_5.thy ===== *)
theory Bindings_Methods_5
  imports Pybindgen
begin

text \<open>
  Part 5 of the functions that register the members of the classes of the traffic-control
  module, from \<open>register_Ns3DataRateChecker_methods\<close> to \<open>register_Ns3NetDeviceQueue_methods\<close> of
  \<open>traffic-control/bindings/modulegen__gcc_LP64.py\<close>: the calls on \<open>cls\<close> in the order of the
  source.
\<close>

definition register_Ns3DataRateChecker_methods :: "class_call list" where
  "register_Ns3DataRateChecker_methods = [
     Add_constructor [] [],
     Add_constructor [Param ''ns3::DataRateChecker const &'' ''arg0'' []] []]"

definition register_Ns3DataRateValue_methods :: "class_call list" where
  "register_Ns3DataRateValue_methods = [
     Add_constructor [] [],
     Add_constructor [Param ''ns3::DataRateValue const &'' ''arg0'' []] [],
     Add_constructor [Param ''ns3::DataRate const &'' ''value'' []] [],
     Add_method ''Copy'' ''ns3::Ptr< ns3::AttributeValue >'' [] [(''is_const'', CBool True),
       (''is_virtual'', CBool True)],
     Add_method ''DeserializeFromString'' ''bool'' [Param ''std::string'' ''value'' [],
       Param ''ns3::Ptr< ns3::AttributeChecker const >'' ''checker'' []] [(''is_virtual'', CBool True)],
     Add_method ''Get'' ''ns3::DataRate'' [] [(''is_const'', CBool True)],
     Add_method ''SerializeToString'' ''std::string'' [Param ''ns3::Ptr< ns3::AttributeChecker const >'' ''checker'' []] [(''is_const'', CBool True), (''is_virtual'', CBool True)],
     Add_method ''Set'' ''void'' [Param ''ns3::DataRate const &'' ''value'' []] []]"

definition register_Ns3DeterministicRandomVariable_methods :: "class_call list" where
  "register_Ns3DeterministicRandomVariable_methods = [
     Add_method ''GetTypeId'' ''ns3::TypeId'' [] [(''is_static'', CBool True)],
     Add_constructor [] [],
     Add_method ''SetValueArray'' ''void'' [Param ''double *'' ''values'' [],
       Param ''uint64_t'' ''length'' []] [],
     Add_method ''GetValue'' ''double'' [] [(''is_virtual'', CBool True)],
     Add_method ''GetInteger'' ''uint32_t'' [] [(''is_virtual'', CBool True)]]"

definition register_Ns3DoubleValue_methods :: "class_call list" where
  "register_Ns3DoubleValue_methods = [
     Add_constructor [] [],
     Add_constructor [Param ''ns3::DoubleValue const &'' ''arg0'' []] [],
     Add_constructor [Param ''double const &'' ''value'' []] [],
     Add_method ''Copy'' ''ns3::Ptr< ns3::AttributeValue >'' [] [(''is_const'', CBool True),
       (''is_virtual'', CBool True)],
     Add_method ''DeserializeFromString'' ''bool'' [Param ''std::string'' ''value'' [],
       Param ''ns3::Ptr< ns3::AttributeChecker const >'' ''checker'' []] [(''is_virtual'', CBool True)],
     Add_method ''Get'' ''double'' [] [(''is_const'', CBool True)],
     Add_method ''SerializeToString'' ''std::string'' [Param ''ns3::Ptr< ns3::AttributeChecker const >'' ''checker'' []] [(''is_const'', CBool True), (''is_virtual'', CBool True)],
     Add_method ''Set'' ''void'' [Param ''double const &'' ''value'' []] []]"

definition register_Ns3EmpiricalRandomVariable_methods :: "class_call list" where
  "register_Ns3EmpiricalRandomVariable_methods = [
     Add_constructor [] [],
     Add_method ''CDF'' ''void'' [Param ''double'' ''v'' [], Param ''double'' ''c'' []] [],
     Add_method ''GetInteger'' ''uint32_t'' [] [(''is_virtual'', CBool True)],
     Add_method ''GetTypeId'' ''ns3::TypeId'' [] [(''is_static'', CBool True)],
     Add_method ''GetValue'' ''double'' [] [(''is_virtual'', CBool True)],
     Add_method ''Interpolate'' ''double'' [Param ''double'' ''c1'' [], Param ''double'' ''c2'' [],
       Param ''double'' ''v1'' [], Param ''double'' ''v2'' [],
       Param ''double'' ''r'' []] [(''visibility'', CStr ''private''), (''is_virtual'', CBool True)],
     Add_method ''Validate'' ''void'' [] [(''visibility'', CStr ''private''), (''is_virtual'', CBool True)]]"

definition register_Ns3EmptyAttributeAccessor_methods :: "class_call list" where
  "register_Ns3EmptyAttributeAccessor_methods = [
     Add_constructor [Param ''ns3::EmptyAttributeAccessor const &'' ''arg0'' []] [],
     Add_constructor [] [],
     Add_method ''Get'' ''bool'' [Param ''ns3::ObjectBase const *'' ''object'' [],
       Param ''ns3::AttributeValue &'' ''attribute'' []] [(''is_const'', CBool True),
       (''is_virtual'', CBool True)],
     Add_method ''HasGetter'' ''bool'' [] [(''is_const'', CBool True), (''is_virtual'', CBool True)],
     Add_method ''HasSetter'' ''bool'' [] [(''is_const'', CBool True), (''is_virtual'', CBool True)],
     Add_method ''Set'' ''bool'' [Param ''ns3::ObjectBase *'' ''object'' [],
       Param ''ns3::AttributeValue const &'' ''value'' []] [(''is_const'', CBool True),
       (''is_virtual'', CBool True)]]"

definition register_Ns3EmptyAttributeChecker_methods :: "class_call list" where
  "register_Ns3EmptyAttributeChecker_methods = [
     Add_constructor [Param ''ns3::EmptyAttributeChecker const &'' ''arg0'' []] [],
     Add_constructor [] [],
     Add_method ''Check'' ''bool'' [Param ''ns3::AttributeValue const &'' ''value'' []] [(''is_const'', CBool True), (''is_virtual'', CBool True)],
     Add_method ''Copy'' ''bool'' [Param ''ns3::AttributeValue const &'' ''source'' [],
       Param ''ns3::AttributeValue &'' ''destination'' []] [(''is_const'', CBool True),
       (''is_virtual'', CBool True)],
     Add_method ''Create'' ''ns3::Ptr< ns3::AttributeValue >'' [] [(''is_const'', CBool True),
       (''is_virtual'', CBool True)],
     Add_method ''GetUnderlyingTypeInformation'' ''std::string'' [] [(''is_const'', CBool True),
       (''is_virtual'', CBool True)],
     Add_method ''GetValueTypeName'' ''std::string'' [] [(''is_const'', CBool True),
       (''is_virtual'', CBool True)],
     Add_method ''HasUnderlyingTypeInformation'' ''bool'' [] [(''is_const'', CBool True),
       (''is_virtual'', CBool True)]]"

definition register_Ns3EmptyAttributeValue_methods :: "class_call list" where
  "register_Ns3EmptyAttributeValue_methods = [
     Add_constructor [Param ''ns3::EmptyAttributeValue const &'' ''arg0'' []] [],
     Add_constructor [] [],
     Add_method ''Copy'' ''ns3::Ptr< ns3::AttributeValue >'' [] [(''is_const'', CBool True),
       (''visibility'', CStr ''private''), (''is_virtual'', CBool True)],
     Add_method ''DeserializeFromString'' ''bool'' [Param ''std::string'' ''value'' [],
       Param ''ns3::Ptr< ns3::AttributeChecker const >'' ''checker'' []] [(''visibility'', CStr ''private''),
       (''is_virtual'', CBool True)],
     Add_method ''SerializeToString'' ''std::string'' [Param ''ns3::Ptr< ns3::AttributeChecker const >'' ''checker'' []] [(''is_const'', CBool True), (''visibility'', CStr ''private''), (''is_virtual'', CBool True)]]"

definition register_Ns3EnumChecker_methods :: "class_call list" where
  "register_Ns3EnumChecker_methods = [
     Add_constructor [Param ''ns3::EnumChecker const &'' ''arg0'' []] [],
     Add_constructor [] [],
     Add_method ''Add'' ''void'' [Param ''int'' ''value'' [], Param ''std::string'' ''name'' []] [],
     Add_method ''AddDefault'' ''void'' [Param ''int'' ''value'' [], Param ''std::string'' ''name'' []] [],
     Add_method ''Check'' ''bool'' [Param ''ns3::AttributeValue const &'' ''value'' []] [(''is_const'', CBool True), (''is_virtual'', CBool True)],
     Add_method ''Copy'' ''bool'' [Param ''ns3::AttributeValue const &'' ''src'' [],
       Param ''ns3::AttributeValue &'' ''dst'' []] [(''is_const'', CBool True), (''is_virtual'', CBool True)],
     Add_method ''Create'' ''ns3::Ptr< ns3::AttributeValue >'' [] [(''is_const'', CBool True),
       (''is_virtual'', CBool True)],
     Add_method ''GetUnderlyingTypeInformation'' ''std::string'' [] [(''is_const'', CBool True),
       (''is_virtual'', CBool True)],
     Add_method ''GetValueTypeName'' ''std::string'' [] [(''is_const'', CBool True),
       (''is_virtual'', CBool True)],
     Add_method ''HasUnderlyingTypeInformation'' ''bool'' [] [(''is_const'', CBool True),
       (''is_virtual'', CBool True)]]"

definition register_Ns3EnumValue_methods :: "class_call list" where
  "register_Ns3EnumValue_methods = [
     Add_constructor [Param ''ns3::EnumValue const &'' ''arg0'' []] [],
     Add_constructor [] [],
     Add_constructor [Param ''int'' ''value'' []] [],
     Add_method ''Copy'' ''ns3::Ptr< ns3::AttributeValue >'' [] [(''is_const'', CBool True),
       (''is_virtual'', CBool True)],
     Add_method ''DeserializeFromString'' ''bool'' [Param ''std::string'' ''value'' [],
       Param ''ns3::Ptr< ns3::AttributeChecker const >'' ''checker'' []] [(''is_virtual'', CBool True)],
     Add_method ''Get'' ''int'' [] [(''is_const'', CBool True)],
     Add_method ''SerializeToString'' ''std::string'' [Param ''ns3::Ptr< ns3::AttributeChecker const >'' ''checker'' []] [(''is_const'', CBool True), (''is_virtual'', CBool True)],
     Add_method ''Set'' ''void'' [Param ''int'' ''value'' []] []]"

definition register_Ns3ErlangRandomVariable_methods :: "class_call list" where
  "register_Ns3ErlangRandomVariable_methods = [
     Add_method ''GetTypeId'' ''ns3::TypeId'' [] [(''is_static'', CBool True)],
     Add_constructor [] [],
     Add_method ''GetK'' ''uint32_t'' [] [(''is_const'', CBool True)],
     Add_method ''GetLambda'' ''double'' [] [(''is_const'', CBool True)],
     Add_method ''GetValue'' ''double'' [Param ''uint32_t'' ''k'' [], Param ''double'' ''lambda'' []] [],
     Add_method ''GetInteger'' ''uint32_t'' [Param ''uint32_t'' ''k'' [],
       Param ''uint32_t'' ''lambda'' []] [],
     Add_method ''GetValue'' ''double'' [] [(''is_virtual'', CBool True)],
     Add_method ''GetInteger'' ''uint32_t'' [] [(''is_virtual'', CBool True)]]"

definition register_Ns3EventImpl_methods :: "class_call list" where
  "register_Ns3EventImpl_methods = [
     Add_constructor [Param ''ns3::EventImpl const &'' ''arg0'' []] [],
     Add_constructor [] [],
     Add_method ''Cancel'' ''void'' [] [],
     Add_method ''Invoke'' ''void'' [] [],
     Add_method ''IsCancelled'' ''bool'' [] [],
     Add_method ''Notify'' ''void'' [] [(''is_pure_virtual'', CBool True),
       (''visibility'', CStr ''protected''), (''is_virtual'', CBool True)]]"

definition register_Ns3ExponentialRandomVariable_methods :: "class_call list" where
  "register_Ns3ExponentialRandomVariable_methods = [
     Add_method ''GetTypeId'' ''ns3::TypeId'' [] [(''is_static'', CBool True)],
     Add_constructor [] [],
     Add_method ''GetMean'' ''double'' [] [(''is_const'', CBool True)],
     Add_method ''GetBound'' ''double'' [] [(''is_const'', CBool True)],
     Add_method ''GetValue'' ''double'' [Param ''double'' ''mean'' [], Param ''double'' ''bound'' []] [],
     Add_method ''GetInteger'' ''uint32_t'' [Param ''uint32_t'' ''mean'' [],
       Param ''uint32_t'' ''bound'' []] [],
     Add_method ''GetValue'' ''double'' [] [(''is_virtual'', CBool True)],
     Add_method ''GetInteger'' ''uint32_t'' [] [(''is_virtual'', CBool True)]]"

definition register_Ns3FqCoDelFlow_methods :: "class_call list" where
  "register_Ns3FqCoDelFlow_methods = [
     Add_constructor [Param ''ns3::FqCoDelFlow const &'' ''arg0'' []] [],
     Add_constructor [] [],
     Add_method ''GetDeficit'' ''int32_t'' [] [(''is_const'', CBool True)],
     Add_method ''GetStatus'' ''ns3::FqCoDelFlow::FlowStatus'' [] [(''is_const'', CBool True)],
     Add_method ''GetTypeId'' ''ns3::TypeId'' [] [(''is_static'', CBool True)],
     Add_method ''IncreaseDeficit'' ''void'' [Param ''int32_t'' ''deficit'' []] [],
     Add_method ''SetDeficit'' ''void'' [Param ''uint32_t'' ''deficit'' []] [],
     Add_method ''SetStatus'' ''void'' [Param ''ns3::FqCoDelFlow::FlowStatus'' ''status'' []] []]"

definition register_Ns3FqCoDelQueueDisc_methods :: "class_call list" where
  "register_Ns3FqCoDelQueueDisc_methods = [
     Add_constructor [Param ''ns3::FqCoDelQueueDisc const &'' ''arg0'' []] [],
     Add_constructor [] [],
     Add_method ''GetQuantum'' ''uint32_t'' [] [(''is_const'', CBool True)],
     Add_method ''GetTypeId'' ''ns3::TypeId'' [] [(''is_static'', CBool True)],
     Add_method ''SetQuantum'' ''void'' [Param ''uint32_t'' ''quantum'' []] [],
     Add_method ''CheckConfig'' ''bool'' [] [(''visibility'', CStr ''private''),
       (''is_virtual'', CBool True)],
     Add_method ''DoDequeue'' ''ns3::Ptr< ns3::QueueDiscItem >'' [] [(''visibility'', CStr ''private''),
       (''is_virtual'', CBool True)],
     Add_method ''DoEnqueue'' ''bool'' [Param ''ns3::Ptr< ns3::QueueDiscItem >'' ''item'' []] [(''visibility'', CStr ''private''), (''is_virtual'', CBool True)],
     Add_method ''DoPeek'' ''ns3::Ptr< ns3::QueueDiscItem const >'' [] [(''is_const'', CBool True),
       (''visibility'', CStr ''private''), (''is_virtual'', CBool True)],
     Add_method ''InitializeParams'' ''void'' [] [(''visibility'', CStr ''private''),
       (''is_virtual'', CBool True)]]"

definition register_Ns3GammaRandomVariable_methods :: "class_call list" where
  "register_Ns3GammaRandomVariable_methods = [
     Add_method ''GetTypeId'' ''ns3::TypeId'' [] [(''is_static'', CBool True)],
     Add_constructor [] [],
     Add_method ''GetAlpha'' ''double'' [] [(''is_const'', CBool True)],
     Add_method ''GetBeta'' ''double'' [] [(''is_const'', CBool True)],
     Add_method ''GetValue'' ''double'' [Param ''double'' ''alpha'' [], Param ''double'' ''beta'' []] [],
     Add_method ''GetInteger'' ''uint32_t'' [Param ''uint32_t'' ''alpha'' [],
       Param ''uint32_t'' ''beta'' []] [],
     Add_method ''GetValue'' ''double'' [] [(''is_virtual'', CBool True)],
     Add_method ''GetInteger'' ''uint32_t'' [] [(''is_virtual'', CBool True)]]"

definition register_Ns3IntegerValue_methods :: "class_call list" where
  "register_Ns3IntegerValue_methods = [
     Add_constructor [] [],
     Add_constructor [Param ''ns3::IntegerValue const &'' ''arg0'' []] [],
     Add_constructor [Param ''int64_t const &'' ''value'' []] [],
     Add_method ''Copy'' ''ns3::Ptr< ns3::AttributeValue >'' [] [(''is_const'', CBool True),
       (''is_virtual'', CBool True)],
     Add_method ''DeserializeFromString'' ''bool'' [Param ''std::string'' ''value'' [],
       Param ''ns3::Ptr< ns3::AttributeChecker const >'' ''checker'' []] [(''is_virtual'', CBool True)],
     Add_method ''Get'' ''int64_t'' [] [(''is_const'', CBool True)],
     Add_method ''SerializeToString'' ''std::string'' [Param ''ns3::Ptr< ns3::AttributeChecker const >'' ''checker'' []] [(''is_const'', CBool True), (''is_virtual'', CBool True)],
     Add_method ''Set'' ''void'' [Param ''int64_t const &'' ''value'' []] []]"

definition register_Ns3Ipv4AddressChecker_methods :: "class_call list" where
  "register_Ns3Ipv4AddressChecker_methods = [
     Add_constructor [] [],
     Add_constructor [Param ''ns3::Ipv4AddressChecker const &'' ''arg0'' []] []]"

definition register_Ns3Ipv4AddressValue_methods :: "class_call list" where
  "register_Ns3Ipv4AddressValue_methods = [
     Add_constructor [] [],
     Add_constructor [Param ''ns3::Ipv4AddressValue const &'' ''arg0'' []] [],
     Add_constructor [Param ''ns3::Ipv4Address const &'' ''value'' []] [],
     Add_method ''Copy'' ''ns3::Ptr< ns3::AttributeValue >'' [] [(''is_const'', CBool True),
       (''is_virtual'', CBool True)],
     Add_method ''DeserializeFromString'' ''bool'' [Param ''std::string'' ''value'' [],
       Param ''ns3::Ptr< ns3::AttributeChecker const >'' ''checker'' []] [(''is_virtual'', CBool True)],
     Add_method ''Get'' ''ns3::Ipv4Address'' [] [(''is_const'', CBool True)],
     Add_method ''SerializeToString'' ''std::string'' [Param ''ns3::Ptr< ns3::AttributeChecker const >'' ''checker'' []] [(''is_const'', CBool True), (''is_virtual'', CBool True)],
     Add_method ''Set'' ''void'' [Param ''ns3::Ipv4Address const &'' ''value'' []] []]"

definition register_Ns3Ipv4MaskChecker_methods :: "class_call list" where
  "register_Ns3Ipv4MaskChecker_methods = [
     Add_constructor [] [],
     Add_constructor [Param ''ns3::Ipv4MaskChecker const &'' ''arg0'' []] []]"

definition register_Ns3Ipv4MaskValue_methods :: "class_call list" where
  "register_Ns3Ipv4MaskValue_methods = [
     Add_constructor [] [],
     Add_constructor [Param ''ns3::Ipv4MaskValue const &'' ''arg0'' []] [],
     Add_constructor [Param ''ns3::Ipv4Mask const &'' ''value'' []] [],
     Add_method ''Copy'' ''ns3::Ptr< ns3::AttributeValue >'' [] [(''is_const'', CBool True),
       (''is_virtual'', CBool True)],
     Add_method ''DeserializeFromString'' ''bool'' [Param ''std::string'' ''value'' [],
       Param ''ns3::Ptr< ns3::AttributeChecker const >'' ''checker'' []] [(''is_virtual'', CBool True)],
     Add_method ''Get'' ''ns3::Ipv4Mask'' [] [(''is_const'', CBool True)],
     Add_method ''SerializeToString'' ''std::string'' [Param ''ns3::Ptr< ns3::AttributeChecker const >'' ''checker'' []] [(''is_const'', CBool True), (''is_virtual'', CBool True)],
     Add_method ''Set'' ''void'' [Param ''ns3::Ipv4Mask const &'' ''value'' []] []]"

definition register_Ns3Ipv6AddressChecker_methods :: "class_call list" where
  "register_Ns3Ipv6AddressChecker_methods = [
     Add_constructor [] [],
     Add_constructor [Param ''ns3::Ipv6AddressChecker const &'' ''arg0'' []] []]"

definition register_Ns3Ipv6AddressValue_methods :: "class_call list" where
  "register_Ns3Ipv6AddressValue_methods = [
     Add_constructor [] [],
     Add_constructor [Param ''ns3::Ipv6AddressValue const &'' ''arg0'' []] [],
     Add_constructor [Param ''ns3::Ipv6Address const &'' ''value'' []] [],
     Add_method ''Copy'' ''ns3::Ptr< ns3::AttributeValue >'' [] [(''is_const'', CBool True),
       (''is_virtual'', CBool True)],
     Add_method ''DeserializeFromString'' ''bool'' [Param ''std::string'' ''value'' [],
       Param ''ns3::Ptr< ns3::AttributeChecker const >'' ''checker'' []] [(''is_virtual'', CBool True)],
     Add_method ''Get'' ''ns3::Ipv6Address'' [] [(''is_const'', CBool True)],
     Add_method ''SerializeToString'' ''std::string'' [Param ''ns3::Ptr< ns3::AttributeChecker const >'' ''checker'' []] [(''is_const'', CBool True), (''is_virtual'', CBool True)],
     Add_method ''Set'' ''void'' [Param ''ns3::Ipv6Address const &'' ''value'' []] []]"

definition register_Ns3Ipv6PrefixChecker_methods :: "class_call list" where
  "register_Ns3Ipv6PrefixChecker_methods = [
     Add_constructor [] [],
     Add_constructor [Param ''ns3::Ipv6PrefixChecker const &'' ''arg0'' []] []]"

definition register_Ns3Ipv6PrefixValue_methods :: "class_call list" where
  "register_Ns3Ipv6PrefixValue_methods = [
     Add_constructor [] [],
     Add_constructor [Param ''ns3::Ipv6PrefixValue const &'' ''arg0'' []] [],
     Add_constructor [Param ''ns3::Ipv6Prefix const &'' ''value'' []] [],
     Add_method ''Copy'' ''ns3::Ptr< ns3::AttributeValue >'' [] [(''is_const'', CBool True),
       (''is_virtual'', CBool True)],
     Add_method ''DeserializeFromString'' ''bool'' [Param ''std::string'' ''value'' [],
       Param ''ns3::Ptr< ns3::AttributeChecker const >'' ''checker'' []] [(''is_virtual'', CBool True)],
     Add_method ''Get'' ''ns3::Ipv6Prefix'' [] [(''is_const'', CBool True)],
     Add_method ''SerializeToString'' ''std::string'' [Param ''ns3::Ptr< ns3::AttributeChecker const >'' ''checker'' []] [(''is_const'', CBool True), (''is_virtual'', CBool True)],
     Add_method ''Set'' ''void'' [Param ''ns3::Ipv6Prefix const &'' ''value'' []] []]"

definition register_Ns3LogNormalRandomVariable_methods :: "class_call list" where
  "register_Ns3LogNormalRandomVariable_methods = [
     Add_method ''GetTypeId'' ''ns3::TypeId'' [] [(''is_static'', CBool True)],
     Add_constructor [] [],
     Add_method ''GetMu'' ''double'' [] [(''is_const'', CBool True)],
     Add_method ''GetSigma'' ''double'' [] [(''is_const'', CBool True)],
     Add_method ''GetValue'' ''double'' [Param ''double'' ''mu'' [], Param ''double'' ''sigma'' []] [],
     Add_method ''GetInteger'' ''uint32_t'' [Param ''uint32_t'' ''mu'' [],
       Param ''uint32_t'' ''sigma'' []] [],
     Add_method ''GetValue'' ''double'' [] [(''is_virtual'', CBool True)],
     Add_method ''GetInteger'' ''uint32_t'' [] [(''is_virtual'', CBool True)]]"

definition register_Ns3Mac48AddressChecker_methods :: "class_call list" where
  "register_Ns3Mac48AddressChecker_methods = [
     Add_constructor [] [],
     Add_constructor [Param ''ns3::Mac48AddressChecker const &'' ''arg0'' []] []]"

definition register_Ns3Mac48AddressValue_methods :: "class_call list" where
  "register_Ns3Mac48AddressValue_methods = [
     Add_constructor [] [],
     Add_constructor [Param ''ns3::Mac48AddressValue const &'' ''arg0'' []] [],
     Add_constructor [Param ''ns3::Mac48Address const &'' ''value'' []] [],
     Add_method ''Copy'' ''ns3::Ptr< ns3::AttributeValue >'' [] [(''is_const'', CBool True),
       (''is_virtual'', CBool True)],
     Add_method ''DeserializeFromString'' ''bool'' [Param ''std::string'' ''value'' [],
       Param ''ns3::Ptr< ns3::AttributeChecker const >'' ''checker'' []] [(''is_virtual'', CBool True)],
     Add_method ''Get'' ''ns3::Mac48Address'' [] [(''is_const'', CBool True)],
     Add_method ''SerializeToString'' ''std::string'' [Param ''ns3::Ptr< ns3::AttributeChecker const >'' ''checker'' []] [(''is_const'', CBool True), (''is_virtual'', CBool True)],
     Add_method ''Set'' ''void'' [Param ''ns3::Mac48Address const &'' ''value'' []] []]"

definition register_Ns3NetDevice_methods :: "class_call list" where
  "register_Ns3NetDevice_methods = [
     Add_constructor [] [],
     Add_constructor [Param ''ns3::NetDevice const &'' ''arg0'' []] [],
     Add_method ''AddLinkChangeCallback'' ''void'' [Param ''ns3::Callback< void, ns3::empty, ns3::empty, ns3::empty, ns3::empty, ns3::empty, ns3::empty, ns3::empty, ns3::empty, ns3::empty >'' ''callback'' []] [(''is_pure_virtual'', CBool True), (''is_virtual'', CBool True)],
     Add_method ''GetAddress'' ''ns3::Address'' [] [(''is_pure_virtual'', CBool True),
       (''is_const'', CBool True), (''is_virtual'', CBool True)],
     Add_method ''GetBroadcast'' ''ns3::Address'' [] [(''is_pure_virtual'', CBool True),
       (''is_const'', CBool True), (''is_virtual'', CBool True)],
     Add_method ''GetChannel'' ''ns3::Ptr< ns3::Channel >'' [] [(''is_pure_virtual'', CBool True),
       (''is_const'', CBool True), (''is_virtual'', CBool True)],
     Add_method ''GetIfIndex'' ''uint32_t'' [] [(''is_pure_virtual'', CBool True), (''is_const'', CBool True),
       (''is_virtual'', CBool True)],
     Add_method ''GetMtu'' ''uint16_t'' [] [(''is_pure_virtual'', CBool True), (''is_const'', CBool True),
       (''is_virtual'', CBool True)],
     Add_method ''GetMulticast'' ''ns3::Address'' [Param ''ns3::Ipv4Address'' ''multicastGroup'' []] [(''is_pure_virtual'', CBool True), (''is_const'', CBool True), (''is_virtual'', CBool True)],
     Add_method ''GetMulticast'' ''ns3::Address'' [Param ''ns3::Ipv6Address'' ''addr'' []] [(''is_pure_virtual'', CBool True), (''is_const'', CBool True), (''is_virtual'', CBool True)],
     Add_method ''GetNode'' ''ns3::Ptr< ns3::Node >'' [] [(''is_pure_virtual'', CBool True),
       (''is_const'', CBool True), (''is_virtual'', CBool True)],
     Add_method ''GetTypeId'' ''ns3::TypeId'' [] [(''is_static'', CBool True)],
     Add_method ''IsBridge'' ''bool'' [] [(''is_pure_virtual'', CBool True), (''is_const'', CBool True),
       (''is_virtual'', CBool True)],
     Add_method ''IsBroadcast'' ''bool'' [] [(''is_pure_virtual'', CBool True), (''is_const'', CBool True),
       (''is_virtual'', CBool True)],
     Add_method ''IsLinkUp'' ''bool'' [] [(''is_pure_virtual'', CBool True), (''is_const'', CBool True),
       (''is_virtual'', CBool True)],
     Add_method ''IsMulticast'' ''bool'' [] [(''is_pure_virtual'', CBool True), (''is_const'', CBool True),
       (''is_virtual'', CBool True)],
     Add_method ''IsPointToPoint'' ''bool'' [] [(''is_pure_virtual'', CBool True), (''is_const'', CBool True),
       (''is_virtual'', CBool True)],
     Add_method ''NeedsArp'' ''bool'' [] [(''is_pure_virtual'', CBool True), (''is_const'', CBool True),
       (''is_virtual'', CBool True)],
     Add_method ''Send'' ''bool'' [Param ''ns3::Ptr< ns3::Packet >'' ''packet'' [],
       Param ''ns3::Address const &'' ''dest'' [],
       Param ''uint16_t'' ''protocolNumber'' []] [(''is_pure_virtual'', CBool True),
       (''is_virtual'', CBool True)],
     Add_method ''SendFrom'' ''bool'' [Param ''ns3::Ptr< ns3::Packet >'' ''packet'' [],
       Param ''ns3::Address const &'' ''source'' [], Param ''ns3::Address const &'' ''dest'' [],
       Param ''uint16_t'' ''protocolNumber'' []] [(''is_pure_virtual'', CBool True),
       (''is_virtual'', CBool True)],
     Add_method ''SetAddress'' ''void'' [Param ''ns3::Address'' ''address'' []] [(''is_pure_virtual'', CBool True), (''is_virtual'', CBool True)],
     Add_method ''SetIfIndex'' ''void'' [Param ''uint32_t const'' ''index'' []] [(''is_pure_virtual'', CBool True), (''is_virtual'', CBool True)],
     Add_method ''SetMtu'' ''bool'' [Param ''uint16_t const'' ''mtu'' []] [(''is_pure_virtual'', CBool True),
       (''is_virtual'', CBool True)],
     Add_method ''SetNode'' ''void'' [Param ''ns3::Ptr< ns3::Node >'' ''node'' []] [(''is_pure_virtual'', CBool True), (''is_virtual'', CBool True)],
     Add_method ''SetPromiscReceiveCallback'' ''void'' [Param ''ns3::Callback< bool, ns3::Ptr< ns3::NetDevice >, ns3::Ptr< ns3::Packet const >, short unsigned int, ns3::Address const &, ns3::Address const &, ns3::NetDevice::PacketType, ns3::empty, ns3::empty, ns3::empty >'' ''cb'' []] [(''is_pure_virtual'', CBool True), (''is_virtual'', CBool True)],
     Add_method ''SetReceiveCallback'' ''void'' [Param ''ns3::Callback< bool, ns3::Ptr< ns3::NetDevice >, ns3::Ptr< ns3::Packet const >, short unsigned int, ns3::Address const &, ns3::empty, ns3::empty, ns3::empty, ns3::empty, ns3::empty >'' ''cb'' []] [(''is_pure_virtual'', CBool True), (''is_virtual'', CBool True)],
     Add_method ''SupportsSendFrom'' ''bool'' [] [(''is_pure_virtual'', CBool True),
       (''is_const'', CBool True), (''is_virtual'', CBool True)]]"

definition register_Ns3NetDeviceQueue_methods :: "class_call list" where
  "register_Ns3NetDeviceQueue_methods = [
     Add_constructor [Param ''ns3::NetDeviceQueue const &'' ''arg0'' []] [],
     Add_constructor [] [],
     Add_method ''GetQueueLimits'' ''ns3::Ptr< ns3::QueueLimits >'' [] [],
     Add_method ''IsStopped'' ''bool'' [] [(''is_const'', CBool True)],
     Add_method ''NotifyQueuedBytes'' ''void'' [Param ''uint32_t'' ''bytes'' []] [],
     Add_method ''NotifyTransmittedBytes'' ''void'' [Param ''uint32_t'' ''bytes'' []] [],
     Add_method ''ResetQueueLimits'' ''void'' [] [],
     Add_method ''SetQueueLimits'' ''void'' [Param ''ns3::Ptr< ns3::QueueLimits >'' ''ql'' []] [],
     Add_method ''SetWakeCallback'' ''void'' [Param ''ns3::Callback< void, ns3::empty, ns3::empty, ns3::empty, ns3::empty, ns3::empty, ns3::empty, ns3::empty, ns3::empty, ns3::empty >'' ''cb'' []] [(''is_virtual'', CBool True)],
     Add_method ''Start'' ''void'' [] [(''is_virtual'', CBool True)],
     Add_method ''Stop'' ''void'' [] [(''is_virtual'', CBool True)],
     Add_method ''Wake'' ''void'' [] [(''is_virtual'', CBool True)]]"

text \<open>The functions of this part.\<close>

definition members_5 :: "class_call list list" where
  "members_5 = [
     register_Ns3DataRateChecker_methods,
     register_Ns3DataRateValue_methods,
     register_Ns3DeterministicRandomVariable_methods,
     register_Ns3DoubleValue_methods,
     register_Ns3EmpiricalRandomVariable_methods,
     register_Ns3EmptyAttributeAccessor_methods,
     register_Ns3EmptyAttributeChecker_methods,
     register_Ns3EmptyAttributeValue_methods,
     register_Ns3EnumChecker_methods,
     register_Ns3EnumValue_methods,
     register_Ns3ErlangRandomVariable_methods,
     register_Ns3EventImpl_methods,
     register_Ns3ExponentialRandomVariable_methods,
     register_Ns3FqCoDelFlow_methods,
     register_Ns3FqCoDelQueueDisc_methods,
     register_Ns3GammaRandomVariable_methods,
     register_Ns3IntegerValue_methods,
     register_Ns3Ipv4AddressChecker_methods,
     register_Ns3Ipv4AddressValue_methods,
     register_Ns3Ipv4MaskChecker_methods,
     register_Ns3Ipv4MaskValue_methods,
     register_Ns3Ipv6AddressChecker_methods,
     register_Ns3Ipv6AddressValue_methods,
     register_Ns3Ipv6PrefixChecker_methods,
     register_Ns3Ipv6PrefixValue_methods,
     register_Ns3LogNormalRandomVariable_methods,
     register_Ns3Mac48AddressChecker_methods,
     register_Ns3Mac48AddressValue_methods,
     register_Ns3NetDevice_methods,
     register_Ns3NetDeviceQueue_methods]"

end
