(* ===== verification/Bindings_Methods_6.thy ===== *)
theory Bindings_Methods_6
  imports Pybindgen
begin

text \<open>
  Part 6 of the functions that register the members of the classes of the traffic-control
  module, from \<open>register_Ns3NetDeviceQueueInterface_methods\<close> to \<open>register_Ns3HashFunctionMurmur3_methods\<close> of
  \<open>traffic-control/bindings/modulegen__gcc_LP64.py\<close>: the calls on \<open>cls\<close> in the order of the
  source.
\<close>

definition register_Ns3NetDeviceQueueInterface_methods :: "class_call list" where
  "register_Ns3NetDeviceQueueInterface_methods = [
     Add_constructor [Param ''ns3::NetDeviceQueueInterface const &'' ''arg0'' []] [],
     Add_constructor [] [],
     Add_method ''CreateTxQueues'' ''void'' [] [],
     Add_method ''GetNTxQueues'' ''uint8_t'' [] [(''is_const'', CBool True)],
     Add_method ''GetSelectQueueCallback'' ''ns3::Callback< unsigned char, ns3::Ptr< ns3::QueueItem >, ns3::empty, ns3::empty, ns3::empty, ns3::empty, ns3::empty, ns3::empty, ns3::empty, ns3::empty >'' [] [(''is_const'', CBool True)],
     Add_method ''GetTxQueue'' ''ns3::Ptr< ns3::NetDeviceQueue >'' [Param ''uint8_t'' ''i'' []] [(''is_const'', CBool True)],
     Add_method ''GetTypeId'' ''ns3::TypeId'' [] [(''is_static'', CBool True)],
     Add_method ''SetSelectQueueCallback'' ''void'' [Param ''ns3::Callback< unsigned char, ns3::Ptr< ns3::QueueItem >, ns3::empty, ns3::empty, ns3::empty, ns3::empty, ns3::empty, ns3::empty, ns3::empty, ns3::empty >'' ''cb'' []] [],
     Add_method ''SetTxQueuesN'' ''void'' [Param ''uint8_t'' ''numTxQueues'' []] [],
     Add_method ''DoDispose'' ''void'' [] [(''visibility'', CStr ''protected''),
       (''is_virtual'', CBool True)]]"

definition register_Ns3NixVector_methods :: "class_call list" where
  "register_Ns3NixVector_methods = [
     Add_output_stream_operator,
     Add_constructor [] [],
     Add_constructor [Param ''ns3::NixVector const &'' ''o'' []] [],
     Add_method ''AddNeighborIndex'' ''void'' [Param ''uint32_t'' ''newBits'' [],
       Param ''uint32_t'' ''numberOfBits'' []] [],
     Add_method ''BitCount'' ''uint32_t'' [Param ''uint32_t'' ''numberOfNeighbors'' []] [(''is_const'', CBool True)],
     Add_method ''Copy'' ''ns3::Ptr< ns3::NixVector >'' [] [(''is_const'', CBool True)],
     Add_method ''Deserialize'' ''uint32_t'' [Param ''uint32_t const *'' ''buffer'' [],
       Param ''uint32_t'' ''size'' []] [],
     Add_method ''ExtractNeighborIndex'' ''uint32_t'' [Param ''uint32_t'' ''numberOfBits'' []] [],
     Add_method ''GetRemainingBits'' ''uint32_t'' [] [],
     Add_method ''GetSerializedSize'' ''uint32_t'' [] [(''is_const'', CBool True)],
     Add_method ''Serialize'' ''uint32_t'' [Param ''uint32_t *'' ''buffer'' [],
       Param ''uint32_t'' ''maxSize'' []] [(''is_const'', CBool True)]]"

definition register_Ns3Node_methods :: "class_call list" where
  "register_Ns3Node_methods = [
     Add_constructor [Param ''ns3::Node const &'' ''arg0'' []] [],
     Add_constructor [] [],
     Add_constructor [Param ''uint32_t'' ''systemId'' []] [],
     Add_method ''AddApplication'' ''uint32_t'' [Param ''ns3::Ptr< ns3::Application >'' ''application'' []] [],
     Add_method ''AddDevice'' ''uint32_t'' [Param ''ns3::Ptr< ns3::NetDevice >'' ''device'' []] [],
     Add_method ''ChecksumEnabled'' ''bool'' [] [(''is_static'', CBool True)],
     Add_method ''GetApplication'' ''ns3::Ptr< ns3::Application >'' [Param ''uint32_t'' ''index'' []] [(''is_const'', CBool True)],
     Add_method ''GetDevice'' ''ns3::Ptr< ns3::NetDevice >'' [Param ''uint32_t'' ''index'' []] [(''is_const'', CBool True)],
     Add_method ''GetId'' ''uint32_t'' [] [(''is_const'', CBool True)],
     Add_method ''GetLocalTime'' ''ns3::Time'' [] [(''is_const'', CBool True)],
     Add_method ''GetNApplications'' ''uint32_t'' [] [(''is_const'', CBool True)],
     Add_method ''GetNDevices'' ''uint32_t'' [] [(''is_const'', CBool True)],
     Add_method ''GetSystemId'' ''uint32_t'' [] [(''is_const'', CBool True)],
     Add_method ''GetTypeId'' ''ns3::TypeId'' [] [(''is_static'', CBool True)],
     Add_method ''RegisterDeviceAdditionListener'' ''void'' [Param ''ns3::Callback< void, ns3::Ptr< ns3::NetDevice >, ns3::empty, ns3::empty, ns3::empty, ns3::empty, ns3::empty, ns3::empty, ns3::empty, ns3::empty >'' ''listener'' []] [],
     Add_method ''RegisterProtocolHandler'' ''void'' [Param ''ns3::Callback< void, ns3::Ptr< ns3::NetDevice >, ns3::Ptr< ns3::Packet const >, unsigned short, ns3::Address const &, ns3::Address const &, ns3::NetDevice::PacketType, ns3::empty, ns3::empty, ns3::empty >'' ''handler'' [], Param ''uint16_t'' ''protocolType'' [], Param ''ns3::Ptr< ns3::NetDevice >'' ''device'' [], Param ''bool'' ''promiscuous'' [(''default_value'', CStr ''false'')]] [],
     Add_method ''UnregisterDeviceAdditionListener'' ''void'' [Param ''ns3::Callback< void, ns3::Ptr< ns3::NetDevice >, ns3::empty, ns3::empty, ns3::empty, ns3::empty, ns3::empty, ns3::empty, ns3::empty, ns3::empty >'' ''listener'' []] [],
     Add_method ''UnregisterProtocolHandler'' ''void'' [Param ''ns3::Callback< void, ns3::Ptr< ns3::NetDevice >, ns3::Ptr< ns3::Packet const >, unsigned short, ns3::Address const &, ns3::Address const &, ns3::NetDevice::PacketType, ns3::empty, ns3::empty, ns3::empty >'' ''handler'' []] [],
     Add_method ''DoDispose'' ''void'' [] [(''visibility'', CStr ''protected''),
       (''is_virtual'', CBool True)],
     Add_method ''DoInitialize'' ''void'' [] [(''visibility'', CStr ''protected''),
       (''is_virtual'', CBool True)]]"

definition register_Ns3NormalRandomVariable_methods :: "class_call list" where
  "register_Ns3NormalRandomVariable_methods = [
     Add_static_attribute ''INFINITE_VALUE'' ''double const'' [(''is_const'', CBool True)],
     Add_method ''GetTypeId'' ''ns3::TypeId'' [] [(''is_static'', CBool True)],
     Add_constructor [] [],
     Add_method ''GetMean'' ''double'' [] [(''is_const'', CBool True)],
     Add_method ''GetVariance'' ''double'' [] [(''is_const'', CBool True)],
     Add_method ''GetBound'' ''double'' [] [(''is_const'', CBool True)],
     Add_method ''GetValue'' ''double'' [Param ''double'' ''mean'' [], Param ''double'' ''variance'' [],
       Param ''double'' ''bound'' [(''default_value'', CStr ''ns3::NormalRandomVariable::INFINITE_VALUE'')]] [],
     Add_method ''GetInteger'' ''uint32_t'' [Param ''uint32_t'' ''mean'' [],
       Param ''uint32_t'' ''variance'' [], Param ''uint32_t'' ''bound'' []] [],
     Add_method ''GetValue'' ''double'' [] [(''is_virtual'', CBool True)],
     Add_method ''GetInteger'' ''uint32_t'' [] [(''is_virtual'', CBool True)]]"

definition register_Ns3ObjectFactoryChecker_methods :: "class_call list" where
  "register_Ns3ObjectFactoryChecker_methods = [
     Add_constructor [] [],
     Add_constructor [Param ''ns3::ObjectFactoryChecker const &'' ''arg0'' []] []]"

definition register_Ns3ObjectFactoryValue_methods :: "class_call list" where
  "register_Ns3ObjectFactoryValue_methods = [
     Add_constructor [] [],
     Add_constructor [Param ''ns3::ObjectFactoryValue const &'' ''arg0'' []] [],
     Add_constructor [Param ''ns3::ObjectFactory const &'' ''value'' []] [],
     Add_method ''Copy'' ''ns3::Ptr< ns3::AttributeValue >'' [] [(''is_const'', CBool True),
       (''is_virtual'', CBool True)],
     Add_method ''DeserializeFromString'' ''bool'' [Param ''std::string'' ''value'' [],
       Param ''ns3::Ptr< ns3::AttributeChecker const >'' ''checker'' []] [(''is_virtual'', CBool True)],
     Add_method ''Get'' ''ns3::ObjectFactory'' [] [(''is_const'', CBool True)],
     Add_method ''SerializeToString'' ''std::string'' [Param ''ns3::Ptr< ns3::AttributeChecker const >'' ''checker'' []] [(''is_const'', CBool True), (''is_virtual'', CBool True)],
     Add_method ''Set'' ''void'' [Param ''ns3::ObjectFactory const &'' ''value'' []] []]"

definition register_Ns3Packet_methods :: "class_call list" where
  "register_Ns3Packet_methods = [
     Add_output_stream_operator,
     Add_constructor [] [],
     Add_constructor [Param ''ns3::Packet const &'' ''o'' []] [],
     Add_constructor [Param ''uint32_t'' ''size'' []] [],
     Add_constructor [Param ''uint8_t const *'' ''buffer'' [], Param ''uint32_t'' ''size'' [],
       Param ''bool'' ''magic'' []] [],
     Add_constructor [Param ''uint8_t const *'' ''buffer'' [], Param ''uint32_t'' ''size'' []] [],
     Add_method ''AddAtEnd'' ''void'' [Param ''ns3::Ptr< ns3::Packet const >'' ''packet'' []] [],
     Add_method ''AddByteTag'' ''void'' [Param ''ns3::Tag const &'' ''tag'' []] [(''is_const'', CBool True)],
     Add_method ''AddHeader'' ''void'' [Param ''ns3::Header const &'' ''header'' []] [],
     Add_method ''AddPacketTag'' ''void'' [Param ''ns3::Tag const &'' ''tag'' []] [(''is_const'', CBool True)],
     Add_method ''AddPaddingAtEnd'' ''void'' [Param ''uint32_t'' ''size'' []] [],
     Add_method ''AddTrailer'' ''void'' [Param ''ns3::Trailer const &'' ''trailer'' []] [],
     Add_method ''BeginItem'' ''ns3::PacketMetadata::ItemIterator'' [] [(''is_const'', CBool True)],
     Add_method ''Copy'' ''ns3::Ptr< ns3::Packet >'' [] [(''is_const'', CBool True)],
     Add_method ''CopyData'' ''uint32_t'' [Param ''uint8_t *'' ''buffer'' [],
       Param ''uint32_t'' ''size'' []] [(''is_const'', CBool True)],
     Add_method ''CopyData'' ''void'' [Param ''std::ostream *'' ''os'' [],
       Param ''uint32_t'' ''size'' []] [(''is_const'', CBool True)],
     Add_method ''CreateFragment'' ''ns3::Ptr< ns3::Packet >'' [Param ''uint32_t'' ''start'' [],
       Param ''uint32_t'' ''length'' []] [(''is_const'', CBool True)],
     Add_method ''EnableChecking'' ''void'' [] [(''is_static'', CBool True)],
     Add_method ''EnablePrinting'' ''void'' [] [(''is_static'', CBool True)],
     Add_method ''FindFirstMatchingByteTag'' ''bool'' [Param ''ns3::Tag &'' ''tag'' []] [(''is_const'', CBool True)],
     Add_method ''GetByteTagIterator'' ''ns3::ByteTagIterator'' [] [(''is_const'', CBool True)],
     Add_method ''GetNixVector'' ''ns3::Ptr< ns3::NixVector >'' [] [(''is_const'', CBool True)],
     Add_method ''GetPacketTagIterator'' ''ns3::PacketTagIterator'' [] [(''is_const'', CBool True)],
     Add_method ''GetSerializedSize'' ''uint32_t'' [] [(''is_const'', CBool True)],
     Add_method ''GetSize'' ''uint32_t'' [] [(''is_const'', CBool True)],
     Add_method ''GetUid'' ''uint64_t'' [] [(''is_const'', CBool True)],
     Add_method ''PeekHeader'' ''uint32_t'' [Param ''ns3::Header &'' ''header'' []] [(''is_const'', CBool True)],
     Add_method ''PeekPacketTag'' ''bool'' [Param ''ns3::Tag &'' ''tag'' []] [(''is_const'', CBool True)],
     Add_method ''PeekTrailer'' ''uint32_t'' [Param ''ns3::Trailer &'' ''trailer'' []] [],
     Add_method ''Print'' ''void'' [Param ''std::ostream &'' ''os'' []] [(''is_const'', CBool True)],
     Add_method ''PrintByteTags'' ''void'' [Param ''std::ostream &'' ''os'' []] [(''is_const'', CBool True)],
     Add_method ''PrintPacketTags'' ''void'' [Param ''std::ostream &'' ''os'' []] [(''is_const'', CBool True)],
     Add_method ''RemoveAllByteTags'' ''void'' [] [],
     Add_method ''RemoveAllPacketTags'' ''void'' [] [],
     Add_method ''RemoveAtEnd'' ''void'' [Param ''uint32_t'' ''size'' []] [],
     Add_method ''RemoveAtStart'' ''void'' [Param ''uint32_t'' ''size'' []] [],
     Add_method ''RemoveHeader'' ''uint32_t'' [Param ''ns3::Header &'' ''header'' []] [],
     Add_method ''RemovePacketTag'' ''bool'' [Param ''ns3::Tag &'' ''tag'' []] [],
     Add_method ''RemoveTrailer'' ''uint32_t'' [Param ''ns3::Trailer &'' ''trailer'' []] [],
     Add_method ''ReplacePacketTag'' ''bool'' [Param ''ns3::Tag &'' ''tag'' []] [],
     Add_method ''Serialize'' ''uint32_t'' [Param ''uint8_t *'' ''buffer'' [],
       Param ''uint32_t'' ''maxSize'' []] [(''is_const'', CBool True)],
     Add_method ''SetNixVector'' ''void'' [Param ''ns3::Ptr< ns3::NixVector >'' ''nixVector'' []] [],
     Add_method ''ToString'' ''std::string'' [] [(''is_const'', CBool True)]]"

definition register_Ns3ParetoRandomVariable_methods :: "class_call list" where
  "register_Ns3ParetoRandomVariable_methods = [
     Add_method ''GetTypeId'' ''ns3::TypeId'' [] [(''is_static'', CBool True)],
     Add_constructor [] [],
     Add_method ''GetMean'' ''double'' [] [(''is_const'', CBool True)],
     Add_method ''GetShape'' ''double'' [] [(''is_const'', CBool True)],
     Add_method ''GetBound'' ''double'' [] [(''is_const'', CBool True)],
     Add_method ''GetValue'' ''double'' [Param ''double'' ''mean'' [], Param ''double'' ''shape'' [],
       Param ''double'' ''bound'' []] [],
     Add_method ''GetInteger'' ''uint32_t'' [Param ''uint32_t'' ''mean'' [], Param ''uint32_t'' ''shape'' [],
       Param ''uint32_t'' ''bound'' []] [],
     Add_method ''GetValue'' ''double'' [] [(''is_virtual'', CBool True)],
     Add_method ''GetInteger'' ''uint32_t'' [] [(''is_virtual'', CBool True)]]"

definition register_Ns3PfifoFastQueueDisc_methods :: "class_call list" where
  "register_Ns3PfifoFastQueueDisc_methods = [
     Add_constructor [Param ''ns3::PfifoFastQueueDisc const &'' ''arg0'' []] [],
     Add_constructor [] [],
     Add_method ''GetTypeId'' ''ns3::TypeId'' [] [(''is_static'', CBool True)],
     Add_method ''CheckConfig'' ''bool'' [] [(''visibility'', CStr ''private''),
       (''is_virtual'', CBool True)],
     Add_method ''DoDequeue'' ''ns3::Ptr< ns3::QueueDiscItem >'' [] [(''visibility'', CStr ''private''),
       (''is_virtual'', CBool True)],
     Add_method ''DoEnqueue'' ''bool'' [Param ''ns3::Ptr< ns3::QueueDiscItem >'' ''item'' []] [(''visibility'', CStr ''private''), (''is_virtual'', CBool True)],
     Add_method ''DoPeek'' ''ns3::Ptr< ns3::QueueDiscItem const >'' [] [(''is_const'', CBool True),
       (''visibility'', CStr ''private''), (''is_virtual'', CBool True)],
     Add_method ''InitializeParams'' ''void'' [] [(''visibility'', CStr ''private''),
       (''is_virtual'', CBool True)]]"

definition register_Ns3PieQueueDisc_methods :: "class_call list" where
  "register_Ns3PieQueueDisc_methods = [
     Add_constructor [Param ''ns3::PieQueueDisc const &'' ''arg0'' []] [],
     Add_constructor [] [],
     Add_method ''AssignStreams'' ''int64_t'' [Param ''int64_t'' ''stream'' []] [],
     Add_method ''GetMode'' ''ns3::Queue::QueueMode'' [] [],
     Add_method ''GetQueueDelay'' ''ns3::Time'' [] [],
     Add_method ''GetQueueSize'' ''uint32_t'' [] [],
     Add_method ''GetStats'' ''ns3::PieQueueDisc::Stats'' [] [],
     Add_method ''GetTypeId'' ''ns3::TypeId'' [] [(''is_static'', CBool True)],
     Add_method ''SetMode'' ''void'' [Param ''ns3::Queue::QueueMode'' ''mode'' []] [],
     Add_method ''SetQueueLimit'' ''void'' [Param ''uint32_t'' ''lim'' []] [],
     Add_method ''DoDispose'' ''void'' [] [(''visibility'', CStr ''protected''),
       (''is_virtual'', CBool True)],
     Add_method ''CheckConfig'' ''bool'' [] [(''visibility'', CStr ''private''),
       (''is_virtual'', CBool True)],
     Add_method ''DoDequeue'' ''ns3::Ptr< ns3::QueueDiscItem >'' [] [(''visibility'', CStr ''private''),
       (''is_virtual'', CBool True)],
     Add_method ''DoEnqueue'' ''bool'' [Param ''ns3::Ptr< ns3::QueueDiscItem >'' ''item'' []] [(''visibility'', CStr ''private''), (''is_virtual'', CBool True)],
     Add_method ''DoPeek'' ''ns3::Ptr< ns3::QueueDiscItem const >'' [] [(''is_const'', CBool True),
       (''visibility'', CStr ''private''), (''is_virtual'', CBool True)],
     Add_method ''InitializeParams'' ''void'' [] [(''visibility'', CStr ''private''),
       (''is_virtual'', CBool True)]]"

definition register_Ns3PieQueueDiscStats_methods :: "class_call list" where
  "register_Ns3PieQueueDiscStats_methods = [
     Add_constructor [] [],
     Add_constructor [Param ''ns3::PieQueueDisc::Stats const &'' ''arg0'' []] [],
     Add_instance_attribute ''forcedDrop'' ''uint32_t'' [(''is_const'', CBool False)],
     Add_instance_attribute ''unforcedDrop'' ''uint32_t'' [(''is_const'', CBool False)]]"

definition register_Ns3QueueItem_methods :: "class_call list" where
  "register_Ns3QueueItem_methods = [
     Add_output_stream_operator,
     Add_constructor [Param ''ns3::Ptr< ns3::Packet >'' ''p'' []] [],
     Add_method ''GetPacket'' ''ns3::Ptr< ns3::Packet >'' [] [(''is_const'', CBool True)],
     Add_method ''GetPacketSize'' ''uint32_t'' [] [(''is_const'', CBool True), (''is_virtual'', CBool True)],
     Add_method ''GetUint8Value'' ''bool'' [Param ''ns3::QueueItem::Uint8Values'' ''field'' [],
       Param ''uint8_t &'' ''value'' []] [(''is_const'', CBool True), (''is_virtual'', CBool True)],
     Add_method ''Print'' ''void'' [Param ''std::ostream &'' ''os'' []] [(''is_const'', CBool True),
       (''is_virtual'', CBool True)]]"

definition register_Ns3StringChecker_methods :: "class_call list" where
  "register_Ns3StringChecker_methods = [
     Add_constructor [] [],
     Add_constructor [Param ''ns3::StringChecker const &'' ''arg0'' []] []]"

definition register_Ns3StringValue_methods :: "class_call list" where
  "register_Ns3StringValue_methods = [
     Add_constructor [] [],
     Add_constructor [Param ''ns3::StringValue const &'' ''arg0'' []] [],
     Add_constructor [Param ''std::string const &'' ''value'' []] [],
     Add_method ''Copy'' ''ns3::Ptr< ns3::AttributeValue >'' [] [(''is_const'', CBool True),
       (''is_virtual'', CBool True)],
     Add_method ''DeserializeFromString'' ''bool'' [Param ''std::string'' ''value'' [],
       Param ''ns3::Ptr< ns3::AttributeChecker const >'' ''checker'' []] [(''is_virtual'', CBool True)],
     Add_method ''Get'' ''std::string'' [] [(''is_const'', CBool True)],
     Add_method ''SerializeToString'' ''std::string'' [Param ''ns3::Ptr< ns3::AttributeChecker const >'' ''checker'' []] [(''is_const'', CBool True), (''is_virtual'', CBool True)],
     Add_method ''Set'' ''void'' [Param ''std::string const &'' ''value'' []] []]"

definition register_Ns3TimeValue_methods :: "class_call list" where
  "register_Ns3TimeValue_methods = [
     Add_constructor [] [],
     Add_constructor [Param ''ns3::TimeValue const &'' ''arg0'' []] [],
     Add_constructor [Param ''ns3::Time const &'' ''value'' []] [],
     Add_method ''Copy'' ''ns3::Ptr< ns3::AttributeValue >'' [] [(''is_const'', CBool True),
       (''is_virtual'', CBool True)],
     Add_method ''DeserializeFromString'' ''bool'' [Param ''std::string'' ''value'' [],
       Param ''ns3::Ptr< ns3::AttributeChecker const >'' ''checker'' []] [(''is_virtual'', CBool True)],
     Add_method ''Get'' ''ns3::Time'' [] [(''is_const'', CBool True)],
     Add_method ''SerializeToString'' ''std::string'' [Param ''ns3::Ptr< ns3::AttributeChecker const >'' ''checker'' []] [(''is_const'', CBool True), (''is_virtual'', CBool True)],
     Add_method ''Set'' ''void'' [Param ''ns3::Time const &'' ''value'' []] []]"

definition register_Ns3TypeIdChecker_methods :: "class_call list" where
  "register_Ns3TypeIdChecker_methods = [
     Add_constructor [] [],
     Add_constructor [Param ''ns3::TypeIdChecker const &'' ''arg0'' []] []]"

definition register_Ns3TypeIdValue_methods :: "class_call list" where
  "register_Ns3TypeIdValue_methods = [
     Add_constructor [] [],
     Add_constructor [Param ''ns3::TypeIdValue const &'' ''arg0'' []] [],
     Add_constructor [Param ''ns3::TypeId const &'' ''value'' []] [],
     Add_method ''Copy'' ''ns3::Ptr< ns3::AttributeValue >'' [] [(''is_const'', CBool True),
       (''is_virtual'', CBool True)],
     Add_method ''DeserializeFromString'' ''bool'' [Param ''std::string'' ''value'' [],
       Param ''ns3::Ptr< ns3::AttributeChecker const >'' ''checker'' []] [(''is_virtual'', CBool True)],
     Add_method ''Get'' ''ns3::TypeId'' [] [(''is_const'', CBool True)],
     Add_method ''SerializeToString'' ''std::string'' [Param ''ns3::Ptr< ns3::AttributeChecker const >'' ''checker'' []] [(''is_const'', CBool True), (''is_virtual'', CBool True)],
     Add_method ''Set'' ''void'' [Param ''ns3::TypeId const &'' ''value'' []] []]"

definition register_Ns3UintegerValue_methods :: "class_call list" where
  "register_Ns3UintegerValue_methods = [
     Add_constructor [] [],
     Add_constructor [Param ''ns3::UintegerValue const &'' ''arg0'' []] [],
     Add_constructor [Param ''uint64_t const &'' ''value'' []] [],
     Add_method ''Copy'' ''ns3::Ptr< ns3::AttributeValue >'' [] [(''is_const'', CBool True),
       (''is_virtual'', CBool True)],
     Add_method ''DeserializeFromString'' ''bool'' [Param ''std::string'' ''value'' [],
       Param ''ns3::Ptr< ns3::AttributeChecker const >'' ''checker'' []] [(''is_virtual'', CBool True)],
     Add_method ''Get'' ''uint64_t'' [] [(''is_const'', CBool True)],
     Add_method ''SerializeToString'' ''std::string'' [Param ''ns3::Ptr< ns3::AttributeChecker const >'' ''checker'' []] [(''is_const'', CBool True), (''is_virtual'', CBool True)],
     Add_method ''Set'' ''void'' [Param ''uint64_t const &'' ''value'' []] []]"

definition register_Ns3AddressChecker_methods :: "class_call list" where
  "register_Ns3AddressChecker_methods = [
     Add_constructor [] [],
     Add_constructor [Param ''ns3::AddressChecker const &'' ''arg0'' []] []]"

definition register_Ns3AddressValue_methods :: "class_call list" where
  "register_Ns3AddressValue_methods = [
     Add_constructor [] [],
     Add_constructor [Param ''ns3::AddressValue const &'' ''arg0'' []] [],
     Add_constructor [Param ''ns3::Address const &'' ''value'' []] [],
     Add_method ''Copy'' ''ns3::Ptr< ns3::AttributeValue >'' [] [(''is_const'', CBool True),
       (''is_virtual'', CBool True)],
     Add_method ''DeserializeFromString'' ''bool'' [Param ''std::string'' ''value'' [],
       Param ''ns3::Ptr< ns3::AttributeChecker const >'' ''checker'' []] [(''is_virtual'', CBool True)],
     Add_method ''Get'' ''ns3::Address'' [] [(''is_const'', CBool True)],
     Add_method ''SerializeToString'' ''std::string'' [Param ''ns3::Ptr< ns3::AttributeChecker const >'' ''checker'' []] [(''is_const'', CBool True), (''is_virtual'', CBool True)],
     Add_method ''Set'' ''void'' [Param ''ns3::Address const &'' ''value'' []] []]"

definition register_Ns3QueueDiscItem_methods :: "class_call list" where
  "register_Ns3QueueDiscItem_methods = [
     Add_constructor [Param ''ns3::Ptr< ns3::Packet >'' ''p'' [], Param ''ns3::Address const &'' ''addr'' [],
       Param ''uint16_t'' ''protocol'' []] [],
     Add_method ''GetAddress'' ''ns3::Address'' [] [(''is_const'', CBool True)],
     Add_method ''GetProtocol'' ''uint16_t'' [] [(''is_const'', CBool True)],
     Add_method ''GetTxQueueIndex'' ''uint8_t'' [] [(''is_const'', CBool True)],
     Add_method ''SetTxQueueIndex'' ''void'' [Param ''uint8_t'' ''txq'' []] [],
     Add_method ''AddHeader'' ''void'' [] [(''is_pure_virtual'', CBool True), (''is_virtual'', CBool True)],
     Add_method ''Print'' ''void'' [Param ''std::ostream &'' ''os'' []] [(''is_const'', CBool True),
       (''is_virtual'', CBool True)]]"

definition register_Ns3HashImplementation_methods :: "class_call list" where
  "register_Ns3HashImplementation_methods = [
     Add_constructor [Param ''ns3::Hash::Implementation const &'' ''arg0'' []] [],
     Add_constructor [] [],
     Add_method ''GetHash32'' ''uint32_t'' [Param ''char const *'' ''buffer'' [],
       Param ''size_t const'' ''size'' []] [(''is_pure_virtual'', CBool True), (''is_virtual'', CBool True)],
     Add_method ''GetHash64'' ''uint64_t'' [Param ''char const *'' ''buffer'' [],
       Param ''size_t const'' ''size'' []] [(''is_virtual'', CBool True)],
     Add_method ''clear'' ''void'' [] [(''is_pure_virtual'', CBool True), (''is_virtual'', CBool True)]]"

definition register_Ns3HashFunctionFnv1a_methods :: "class_call list" where
  "register_Ns3HashFunctionFnv1a_methods = [
     Add_constructor [Param ''ns3::Hash::Function::Fnv1a const &'' ''arg0'' []] [],
     Add_constructor [] [],
     Add_method ''GetHash32'' ''uint32_t'' [Param ''char const *'' ''buffer'' [],
       Param ''size_t const'' ''size'' []] [(''is_virtual'', CBool True)],
     Add_method ''GetHash64'' ''uint64_t'' [Param ''char const *'' ''buffer'' [],
       Param ''size_t const'' ''size'' []] [(''is_virtual'', CBool True)],
     Add_method ''clear'' ''void'' [] [(''is_virtual'', CBool True)]]"

definition register_Ns3HashFunctionHash32_methods :: "class_call list" where
  "register_Ns3HashFunctionHash32_methods = [
     Add_constructor [Param ''ns3::Hash::Function::Hash32 const &'' ''arg0'' []] [],
     Add_constructor [Param ''ns3::Hash::Hash32Function_ptr'' ''hp'' []] [],
     Add_method ''GetHash32'' ''uint32_t'' [Param ''char const *'' ''buffer'' [],
       Param ''size_t const'' ''size'' []] [(''is_virtual'', CBool True)],
     Add_method ''clear'' ''void'' [] [(''is_virtual'', CBool True)]]"

definition register_Ns3HashFunctionHash64_methods :: "class_call list" where
  "register_Ns3HashFunctionHash64_methods = [
     Add_constructor [Param ''ns3::Hash::Function::Hash64 const &'' ''arg0'' []] [],
     Add_constructor [Param ''ns3::Hash::Hash64Function_ptr'' ''hp'' []] [],
     Add_method ''GetHash32'' ''uint32_t'' [Param ''char const *'' ''buffer'' [],
       Param ''size_t const'' ''size'' []] [(''is_virtual'', CBool True)],
     Add_method ''GetHash64'' ''uint64_t'' [Param ''char const *'' ''buffer'' [],
       Param ''size_t const'' ''size'' []] [(''is_virtual'', CBool True)],
     Add_method ''clear'' ''void'' [] [(''is_virtual'', CBool True)]]"

definition register_Ns3HashFunctionMurmur3_methods :: "class_call list" where
  "register_Ns3HashFunctionMurmur3_methods = [
     Add_constructor [Param ''ns3::Hash::Function::Murmur3 const &'' ''arg0'' []] [],
     Add_constructor [] [],
     Add_method ''GetHash32'' ''uint32_t'' [Param ''char const *'' ''buffer'' [],
       Param ''size_t const'' ''size'' []] [(''is_virtual'', CBool True)],
     Add_method ''GetHash64'' ''uint64_t'' [Param ''char const *'' ''buffer'' [],
       Param ''size_t const'' ''size'' []] [(''is_virtual'', CBool True)],
     Add_method ''clear'' ''void'' [] [(''is_virtual'', CBool True)]]"

text \<open>The functions of this part.\<close>

definition members_6 :: "class_call list list" where
  "members_6 = [
     register_Ns3NetDeviceQueueInterface_methods,
     register_Ns3NixVector_methods,
     register_Ns3Node_methods,
     register_Ns3NormalRandomVariable_methods,
     register_Ns3ObjectFactoryChecker_methods,
     register_Ns3ObjectFactoryValue_methods,
     register_Ns3Packet_methods,
     register_Ns3ParetoRandomVariable_methods,
     register_Ns3PfifoFastQueueDisc_methods,
     register_Ns3PieQueueDisc_methods,
     register_Ns3PieQueueDiscStats_methods,
     register_Ns3QueueItem_methods,
     register_Ns3StringChecker_methods,
     register_Ns3StringValue_methods,
     register_Ns3TimeValue_methods,
     register_Ns3TypeIdChecker_methods,
     register_Ns3TypeIdValue_methods,
     register_Ns3UintegerValue_methods,
     register_Ns3AddressChecker_methods,
     register_Ns3AddressValue_methods,
     register_Ns3QueueDiscItem_methods,
     register_Ns3HashImplementation_methods,
     register_Ns3HashFunctionFnv1a_methods,
     register_Ns3HashFunctionHash32_methods,
     register_Ns3HashFunctionHash64_methods,
     register_Ns3HashFunctionMurmur3_methods]"

end
