(* ===== verification/Bindings_Script.thy ===== *)
theory Bindings_Script
  imports Bindings_Types Bindings_Methods_1 Bindings_Methods_2 Bindings_Methods_3 Bindings_Methods_4 Bindings_Methods_5 Bindings_Methods_6
begin

text \<open>
  The rest of \<open>traffic-control/bindings/modulegen__gcc_LP64.py\<close>: the table of
  \<open>register_methods\<close>, the functions of the nested namespaces, and \<open>main\<close>, which registers the
  types, the members and the functions on a new module and prints the generated code.
\<close>

definition register_methods :: "(string \<times> class_call list) list" where
  "register_methods = [
     (''ns3::Address'', register_Ns3Address_methods),
     (''ns3::AttributeConstructionList'', register_Ns3AttributeConstructionList_methods),
     (''ns3::AttributeConstructionList::Item'', register_Ns3AttributeConstructionListItem_methods),
     (''ns3::Buffer'', register_Ns3Buffer_methods),
     (''ns3::Buffer::Iterator'', register_Ns3BufferIterator_methods),
     (''ns3::ByteTagIterator'', register_Ns3ByteTagIterator_methods),
     (''ns3::ByteTagIterator::Item'', register_Ns3ByteTagIteratorItem_methods),
     (''ns3::ByteTagList'', register_Ns3ByteTagList_methods),
     (''ns3::ByteTagList::Iterator'', register_Ns3ByteTagListIterator_methods),
     (''ns3::ByteTagList::Iterator::Item'', register_Ns3ByteTagListIteratorItem_methods),
     (''ns3::CallbackBase'', register_Ns3CallbackBase_methods),
     (''ns3::DataRate'', register_Ns3DataRate_methods),
     (''ns3::EventId'', register_Ns3EventId_methods),
     (''ns3::Hasher'', register_Ns3Hasher_methods),
     (''ns3::IntToType< 0 >'', register_Ns3IntToType__0_methods),
     (''ns3::IntToType< 1 >'', register_Ns3IntToType__1_methods),
     (''ns3::IntToType< 2 >'', register_Ns3IntToType__2_methods),
     (''ns3::IntToType< 3 >'', register_Ns3IntToType__3_methods),
     (''ns3::IntToType< 4 >'', register_Ns3IntToType__4_methods),
     (''ns3::IntToType< 5 >'', register_Ns3IntToType__5_methods),
     (''ns3::IntToType< 6 >'', register_Ns3IntToType__6_methods),
     (''ns3::Ipv4Address'', register_Ns3Ipv4Address_methods),
     (''ns3::Ipv4Mask'', register_Ns3Ipv4Mask_methods),
     (''ns3::Ipv6Address'', register_Ns3Ipv6Address_methods),
     (''ns3::Ipv6Prefix'', register_Ns3Ipv6Prefix_methods),
     (''ns3::Mac48Address'', register_Ns3Mac48Address_methods),
     (''ns3::NetDeviceContainer'', register_Ns3NetDeviceContainer_methods),
     (''ns3::ObjectBase'', register_Ns3ObjectBase_methods),
     (''ns3::ObjectDeleter'', register_Ns3ObjectDeleter_methods),
     (''ns3::ObjectFactory'', register_Ns3ObjectFactory_methods),
     (''ns3::PacketMetadata'', register_Ns3PacketMetadata_methods),
     (''ns3::PacketMetadata::Item'', register_Ns3PacketMetadataItem_methods),
     (''ns3::PacketMetadata::ItemIterator'', register_Ns3PacketMetadataItemIterator_methods),
     (''ns3::PacketTagIterator'', register_Ns3PacketTagIterator_methods),
     (''ns3::PacketTagIterator::Item'', register_Ns3PacketTagIteratorItem_methods),
     (''ns3::PacketTagList'', register_Ns3PacketTagList_methods),
     (''ns3::PacketTagList::TagData'', register_Ns3PacketTagListTagData_methods),
     (''ns3::QueueDiscContainer'', register_Ns3QueueDiscContainer_methods),
     (''ns3::QueueDiscFactory'', register_Ns3QueueDiscFactory_methods),
     (''ns3::SimpleRefCount< ns3::Object, ns3::ObjectBase, ns3::ObjectDeleter >'', register_Ns3SimpleRefCount__Ns3Object_Ns3ObjectBase_Ns3ObjectDeleter_methods),
     (''ns3::Simulator'', register_Ns3Simulator_methods),
     (''ns3::Tag'', register_Ns3Tag_methods),
     (''ns3::TagBuffer'', register_Ns3TagBuffer_methods),
     (''ns3::TimeWithUnit'', register_Ns3TimeWithUnit_methods),
     (''ns3::Timer'', register_Ns3Timer_methods),
     (''ns3::TimerImpl'', register_Ns3TimerImpl_methods),
     (''ns3::TracedValue< bool >'', register_Ns3TracedValue__Bool_methods),
     (''ns3::TracedValue< unsigned int >'', register_Ns3TracedValue__Unsigned_int_methods),
     (''ns3::TrafficControlHelper'', register_Ns3TrafficControlHelper_methods),
     (''ns3::TypeId'', register_Ns3TypeId_methods),
     (''ns3::TypeId::AttributeInformation'', register_Ns3TypeIdAttributeInformation_methods),
     (''ns3::TypeId::TraceSourceInformation'', register_Ns3TypeIdTraceSourceInformation_methods),
     (''ns3::empty'', register_Ns3Empty_methods),
     (''ns3::int64x64_t'', register_Ns3Int64x64_t_methods),
     (''ns3::Chunk'', register_Ns3Chunk_methods),
     (''ns3::Header'', register_Ns3Header_methods),
     (''ns3::Object'', register_Ns3Object_methods),
     (''ns3::Object::AggregateIterator'', register_Ns3ObjectAggregateIterator_methods),
     (''ns3::PacketFilter'', register_Ns3PacketFilter_methods),
     (''ns3::Queue'', register_Ns3Queue_methods),
     (''ns3::QueueDisc'', register_Ns3QueueDisc_methods),
     (''ns3::QueueDiscClass'', register_Ns3QueueDiscClass_methods),
     (''ns3::RandomVariableStream'', register_Ns3RandomVariableStream_methods),
     (''ns3::RedQueueDisc'', register_Ns3RedQueueDisc_methods),
     (''ns3::RedQueueDisc::Stats'', register_Ns3RedQueueDiscStats_methods),
     (''ns3::SequentialRandomVariable'', register_Ns3SequentialRandomVariable_methods),
     (''ns3::SimpleRefCount< ns3::AttributeAccessor, ns3::empty, ns3::DefaultDeleter<ns3::AttributeAccessor> >'', register_Ns3SimpleRefCount__Ns3AttributeAccessor_Ns3Empty_Ns3DefaultDeleter__lt__ns3AttributeAccessor__gt___methods),
     (''ns3::SimpleRefCount< ns3::AttributeChecker, ns3::empty, ns3::DefaultDeleter<ns3::AttributeChecker> >'', register_Ns3SimpleRefCount__Ns3AttributeChecker_Ns3Empty_Ns3DefaultDeleter__lt__ns3AttributeChecker__gt___methods),
     (''ns3::SimpleRefCount< ns3::AttributeValue, ns3::empty, ns3::DefaultDeleter<ns3::AttributeValue> >'', register_Ns3SimpleRefCount__Ns3AttributeValue_Ns3Empty_Ns3DefaultDeleter__lt__ns3AttributeValue__gt___methods),
     (''ns3::SimpleRefCount< ns3::CallbackImplBase, ns3::empty, ns3::DefaultDeleter<ns3::CallbackImplBase> >'', register_Ns3SimpleRefCount__Ns3CallbackImplBase_Ns3Empty_Ns3DefaultDeleter__lt__ns3CallbackImplBase__gt___methods),
     (''ns3::SimpleRefCount< ns3::EventImpl, ns3::empty, ns3::DefaultDeleter<ns3::EventImpl> >'', register_Ns3SimpleRefCount__Ns3EventImpl_Ns3Empty_Ns3DefaultDeleter__lt__ns3EventImpl__gt___methods),
     (''ns3::SimpleRefCount< ns3::Hash::Implementation, ns3::empty, ns3::DefaultDeleter<ns3::Hash::Implementation> >'', register_Ns3SimpleRefCount__Ns3HashImplementation_Ns3Empty_Ns3DefaultDeleter__lt__ns3HashImplementation__gt___methods),
     (''ns3::SimpleRefCount< ns3::NetDeviceQueue, ns3::empty, ns3::DefaultDeleter<ns3::NetDeviceQueue> >'', register_Ns3SimpleRefCount__Ns3NetDeviceQueue_Ns3Empty_Ns3DefaultDeleter__lt__ns3NetDeviceQueue__gt___methods),
     (''ns3::SimpleRefCount< ns3::NixVector, ns3::empty, ns3::DefaultDeleter<ns3::NixVector> >'', register_Ns3SimpleRefCount__Ns3NixVector_Ns3Empty_Ns3DefaultDeleter__lt__ns3NixVector__gt___methods),
     (''ns3::SimpleRefCount< ns3::Packet, ns3::empty, ns3::DefaultDeleter<ns3::Packet> >'', register_Ns3SimpleRefCount__Ns3Packet_Ns3Empty_Ns3DefaultDeleter__lt__ns3Packet__gt___methods),
     (''ns3::SimpleRefCount< ns3::QueueItem, ns3::empty, ns3::DefaultDeleter<ns3::QueueItem> >'', register_Ns3SimpleRefCount__Ns3QueueItem_Ns3Empty_Ns3DefaultDeleter__lt__ns3QueueItem__gt___methods),
     (''ns3::SimpleRefCount< ns3::TraceSourceAccessor, ns3::empty, ns3::DefaultDeleter<ns3::TraceSourceAccessor> >'', register_Ns3SimpleRefCount__Ns3TraceSourceAccessor_Ns3Empty_Ns3DefaultDeleter__lt__ns3TraceSourceAccessor__gt___methods),
     (''ns3::Time'', register_Ns3Time_methods),
     (''ns3::TraceSourceAccessor'', register_Ns3TraceSourceAccessor_methods),
     (''ns3::TracedValue< ns3::Time >'', register_Ns3TracedValue__Ns3Time_methods),
     (''ns3::TrafficControlLayer'', register_Ns3TrafficControlLayer_methods),
     (''ns3::Trailer'', register_Ns3Trailer_methods),
     (''ns3::TriangularRandomVariable'', register_Ns3TriangularRandomVariable_methods),
     (''ns3::UniformRandomVariable'', register_Ns3UniformRandomVariable_methods),
     (''ns3::WeibullRandomVariable'', register_Ns3WeibullRandomVariable_methods),
     (''ns3::ZetaRandomVariable'', register_Ns3ZetaRandomVariable_methods),
     (''ns3::ZipfRandomVariable'', register_Ns3ZipfRandomVariable_methods),
     (''ns3::AttributeAccessor'', register_Ns3AttributeAccessor_methods),
     (''ns3::AttributeChecker'', register_Ns3AttributeChecker_methods),
     (''ns3::AttributeValue'', register_Ns3AttributeValue_methods),
     (''ns3::BooleanChecker'', register_Ns3BooleanChecker_methods),
     (''ns3::BooleanValue'', register_Ns3BooleanValue_methods),
     (''ns3::CallbackChecker'', register_Ns3CallbackChecker_methods),
     (''ns3::CallbackImplBase'', register_Ns3CallbackImplBase_methods),
     (''ns3::CallbackValue'', register_Ns3CallbackValue_methods),
     (''ns3::CoDelQueueDisc'', register_Ns3CoDelQueueDisc_methods),
     (''ns3::ConstantRandomVariable'', register_Ns3ConstantRandomVariable_methods),
     (''ns3::DataRateChecker'', register_Ns3DataRateChecker_methods),
     (''ns3::DataRateValue'', register_Ns3DataRateValue_methods),
     (''ns3::DeterministicRandomVariable'', register_Ns3DeterministicRandomVariable_methods),
     (''ns3::DoubleValue'', register_Ns3DoubleValue_methods),
     (''ns3::EmpiricalRandomVariable'', register_Ns3EmpiricalRandomVariable_methods),
     (''ns3::EmptyAttributeAccessor'', register_Ns3EmptyAttributeAccessor_methods),
     (''ns3::EmptyAttributeChecker'', register_Ns3EmptyAttributeChecker_methods),
     (''ns3::EmptyAttributeValue'', register_Ns3EmptyAttributeValue_methods),
     (''ns3::EnumChecker'', register_Ns3EnumChecker_methods),
     (''ns3::EnumValue'', register_Ns3EnumValue_methods),
     (''ns3::ErlangRandomVariable'', register_Ns3ErlangRandomVariable_methods),
     (''ns3::EventImpl'', register_Ns3EventImpl_methods),
     (''ns3::ExponentialRandomVariable'', register_Ns3ExponentialRandomVariable_methods),
     (''ns3::FqCoDelFlow'', register_Ns3FqCoDelFlow_methods),
     (''ns3::FqCoDelQueueDisc'', register_Ns3FqCoDelQueueDisc_methods),
     (''ns3::GammaRandomVariable'', register_Ns3GammaRandomVariable_methods),
     (''ns3::IntegerValue'', register_Ns3IntegerValue_methods),
     (''ns3::Ipv4AddressChecker'', register_Ns3Ipv4AddressChecker_methods),
     (''ns3::Ipv4AddressValue'', register_Ns3Ipv4AddressValue_methods),
     (''ns3::Ipv4MaskChecker'', register_Ns3Ipv4MaskChecker_methods),
     (''ns3::Ipv4MaskValue'', register_Ns3Ipv4MaskValue_methods),
     (''ns3::Ipv6AddressChecker'', register_Ns3Ipv6AddressChecker_methods),
     (''ns3::Ipv6AddressValue'', register_Ns3Ipv6AddressValue_methods),
     (''ns3::Ipv6PrefixChecker'', register_Ns3Ipv6PrefixChecker_methods),
     (''ns3::Ipv6PrefixValue'', register_Ns3Ipv6PrefixValue_methods),
     (''ns3::LogNormalRandomVariable'', register_Ns3LogNormalRandomVariable_methods),
     (''ns3::Mac48AddressChecker'', register_Ns3Mac48AddressChecker_methods),
     (''ns3::Mac48AddressValue'', register_Ns3Mac48AddressValue_methods),
     (''ns3::NetDevice'', register_Ns3NetDevice_methods),
     (''ns3::NetDeviceQueue'', register_Ns3NetDeviceQueue_methods),
     (''ns3::NetDeviceQueueInterface'', register_Ns3NetDeviceQueueInterface_methods),
     (''ns3::NixVector'', register_Ns3NixVector_methods),
     (''ns3::Node'', register_Ns3Node_methods),
     (''ns3::NormalRandomVariable'', register_Ns3NormalRandomVariable_methods),
     (''ns3::ObjectFactoryChecker'', register_Ns3ObjectFactoryChecker_methods),
     (''ns3::ObjectFactoryValue'', register_Ns3ObjectFactoryValue_methods),
     (''ns3::Packet'', register_Ns3Packet_methods),
     (''ns3::ParetoRandomVariable'', register_Ns3ParetoRandomVariable_methods),
     (''ns3::PfifoFastQueueDisc'', register_Ns3PfifoFastQueueDisc_methods),
     (''ns3::PieQueueDisc'', register_Ns3PieQueueDisc_methods),
     (''ns3::PieQueueDisc::Stats'', register_Ns3PieQueueDiscStats_methods),
     (''ns3::QueueItem'', register_Ns3QueueItem_methods),
     (''ns3::StringChecker'', register_Ns3StringChecker_methods),
     (''ns3::StringValue'', register_Ns3StringValue_methods),
     (''ns3::TimeValue'', register_Ns3TimeValue_methods),
     (''ns3::TypeIdChecker'', register_Ns3TypeIdChecker_methods),
     (''ns3::TypeIdValue'', register_Ns3TypeIdValue_methods),
     (''ns3::UintegerValue'', register_Ns3UintegerValue_methods),
     (''ns3::AddressChecker'', register_Ns3AddressChecker_methods),
     (''ns3::AddressValue'', register_Ns3AddressValue_methods),
     (''ns3::QueueDiscItem'', register_Ns3QueueDiscItem_methods),
     (''ns3::Hash::Implementation'', register_Ns3HashImplementation_methods),
     (''ns3::Hash::Function::Fnv1a'', register_Ns3HashFunctionFnv1a_methods),
     (''ns3::Hash::Function::Hash32'', register_Ns3HashFunctionHash32_methods),
     (''ns3::Hash::Function::Hash64'', register_Ns3HashFunctionHash64_methods),
     (''ns3::Hash::Function::Murmur3'', register_Ns3HashFunctionMurmur3_methods)]"

definition register_functions_ns3_FatalImpl :: "function_call list" where
  "register_functions_ns3_FatalImpl = []"

definition register_functions_ns3_Hash_Function :: "function_call list" where
  "register_functions_ns3_Hash_Function = []"

definition register_functions_ns3_Hash :: "function_call list" where
  "register_functions_ns3_Hash = [
     Submodule ''Function'' register_functions_ns3_Hash_Function]"

definition register_functions_ns3_TracedValueCallback :: "function_call list" where
  "register_functions_ns3_TracedValueCallback = []"

definition register_functions_ns3_internal :: "function_call list" where
  "register_functions_ns3_internal = []"

definition register_functions :: "function_call list" where
  "register_functions = [
     Submodule ''FatalImpl'' register_functions_ns3_FatalImpl,
     Submodule ''Hash'' register_functions_ns3_Hash,
     Submodule ''TracedValueCallback'' register_functions_ns3_TracedValueCallback,
     Submodule ''internal'' register_functions_ns3_internal]"

definition module_init :: "('s, 'm, 'c) pybindgen \<Rightarrow> 's \<times> 'm" where
  "module_init pbg = Module pbg ''ns.traffic_control'' ''::ns3''"

definition main :: "('s, 'm, 'c) pybindgen \<Rightarrow> string py" where
  "main pbg =
     (case module_init pbg of
        (s, root_module) \<Rightarrow>
          bind_py (run_types pbg s root_module register_types) (\<lambda>s1.
          bind_py (run_methods pbg s1 register_methods) (\<lambda>s2.
          bind_py (run_functions pbg s2 root_module register_functions) (\<lambda>s3.
          Inr (generate pbg s3)))))"

end
