(* ===== verification/Pybindgen_Laws.thy ===== *)
theory Pybindgen_Laws
  imports Pybindgen
begin

text \<open>
  What the binding scripts rely on of \<open>pybindgen\<close>, as the locale \<open>pybindgen_laws\<close>: a class is
  found by its C++ name once it was added, a nested module once its namespace was, and no call
  makes a class or a module disappear. \<open>name_registry\<close> is the least library with these laws:
  it only remembers names, so running a script on it checks that every name is introduced
  before it is used. The simulation lemmas of the locale carry a run that succeeds on
  \<open>name_registry\<close> over to every library with the laws.
\<close>

section \<open>The laws\<close>

definition extends :: "('s, 'm, 'c) pybindgen \<Rightarrow> 's \<Rightarrow> 's \<Rightarrow> bool" where
  "extends pbg s s' \<longleftrightarrow>
     (\<forall>k. getitem pbg s k \<noteq> None \<longrightarrow> getitem pbg s' k \<noteq> None) \<and>
     (\<forall>m n m'. get_submodule pbg s m n = Some m' \<longrightarrow> get_submodule pbg s' m n = Some m')"

lemma extends_refl [simp]: "extends pbg s s"
  by (simp add: extends_def)

lemma extends_trans [trans]: "extends pbg s s' \<Longrightarrow> extends pbg s' s'' \<Longrightarrow> extends pbg s s''"
  unfolding extends_def by blast

locale pybindgen_laws =
  fixes pbg :: "('s, 'm, 'c) pybindgen"
  assumes getitem_name: "getitem pbg s k = Some c \<Longrightarrow> full_name pbg c = k"
    and Module_namespace: "namespace pbg (snd (Module pbg n (''::'' @ ns))) = ns"
    and add_class_found:
      "getitem pbg (add_class pbg s m n kw) (class_key (full_name pbg) (namespace pbg m) n kw) \<noteq> None"
    and add_class_extends: "extends pbg s (add_class pbg s m n kw)"
    and add_enum_extends: "extends pbg s (add_enum pbg s m n vs kw)"
    and add_container_extends: "extends pbg s (add_container pbg s m n v fl)"
    and implicitly_converts_to_extends: "extends pbg s (implicitly_converts_to pbg s c c')"
    and add_type_alias_extends: "extends pbg s (add_type_alias pbg s t a)"
    and add_cpp_namespace_extends: "extends pbg s (fst (add_cpp_namespace pbg s m n))"
    and add_cpp_namespace_found:
      "get_submodule pbg (fst (add_cpp_namespace pbg s m n)) m n = Some (snd (add_cpp_namespace pbg s m n))"
    and add_cpp_namespace_name:
      "namespace pbg (snd (add_cpp_namespace pbg s m n)) = namespace pbg m @ ''::'' @ n"
    and add_function_extends: "extends pbg s (add_function pbg s m n rt ps fl)"
    and add_constructor_extends: "extends pbg s (add_constructor pbg s c ps fl)"
    and add_method_extends: "extends pbg s (add_method pbg s c n rt ps fl)"
    and add_instance_attribute_extends: "extends pbg s (add_instance_attribute pbg s c n t fl)"
    and add_static_attribute_extends: "extends pbg s (add_static_attribute pbg s c n t fl)"
    and add_output_stream_operator_extends: "extends pbg s (add_output_stream_operator pbg s c)"
    and add_binary_comparison_operator_extends: "extends pbg s (add_binary_comparison_operator pbg s c n)"
    and add_unary_numeric_operator_extends: "extends pbg s (add_unary_numeric_operator pbg s c n)"
    and add_inplace_numeric_operator_extends: "extends pbg s (add_inplace_numeric_operator pbg s c n p)"
    and add_binary_numeric_operator_extends: "extends pbg s (add_binary_numeric_operator pbg s c n c1 c2 p)"

section \<open>The registry of names\<close>

text \<open>The state is the list of class names and the list of nested modules; a module is the
  namespace of its root and the path of namespaces below it, a class is its name.\<close>

type_synonym module_path = "string \<times> string list"

type_synonym names = "string list \<times> module_path list"

definition path_namespace :: "module_path \<Rightarrow> string" where
  "path_namespace m = fst m @ concat (map (\<lambda>n. ''::'' @ n) (snd m))"

definition sub_path :: "module_path \<Rightarrow> string \<Rightarrow> module_path" where
  "sub_path m n = (fst m, snd m @ [n])"

definition name_registry :: "(names, module_path, string) pybindgen" where
  "name_registry =
     \<lparr>Module = (\<lambda>n ns. (([], []), (drop 2 ns, []))),
      getitem = (\<lambda>(ks, ms) k. if k \<in> set ks then Some k else None),
      full_name = (\<lambda>c. c),
      namespace = path_namespace,
      add_class = (\<lambda>(ks, ms) m n kw. (class_key (\<lambda>c. c) (path_namespace m) n kw # ks, ms)),
      add_enum = (\<lambda>s m n vs kw. s),
      add_container = (\<lambda>s m n v fl. s),
      implicitly_converts_to = (\<lambda>s c c'. s),
      add_type_alias = (\<lambda>s t a. s),
      add_cpp_namespace = (\<lambda>(ks, ms) m n. ((ks, sub_path m n # ms), sub_path m n)),
      get_submodule = (\<lambda>(ks, ms) m n. if sub_path m n \<in> set ms then Some (sub_path m n) else None),
      add_function = (\<lambda>s m n r ps fl. s),
      add_constructor = (\<lambda>s c ps fl. s),
      add_method = (\<lambda>s c n r ps fl. s),
      add_instance_attribute = (\<lambda>s c n t fl. s),
      add_static_attribute = (\<lambda>s c n t fl. s),
      add_output_stream_operator = (\<lambda>s c. s),
      add_binary_comparison_operator = (\<lambda>s c n. s),
      add_unary_numeric_operator = (\<lambda>s c n. s),
      add_inplace_numeric_operator = (\<lambda>s c n p. s),
      add_binary_numeric_operator = (\<lambda>s c n l r p. s),
      generate = (\<lambda>s. [])\<rparr>"

lemma name_registry_simps [simp]:
  "Module name_registry n ns = (([], []), (drop 2 ns, []))"
  "getitem name_registry (ks, ms) k = (if k \<in> set ks then Some k else None)"
  "full_name name_registry = (\<lambda>c. c)"
  "namespace name_registry = path_namespace"
  "add_class name_registry (ks, ms) m n kw = (class_key (\<lambda>c. c) (path_namespace m) n kw # ks, ms)"
  "add_enum name_registry s m n vs kw = s"
  "add_container name_registry s m n v fl = s"
  "implicitly_converts_to name_registry s c c' = s"
  "add_type_alias name_registry s t a = s"
  "add_cpp_namespace name_registry (ks, ms) m n = ((ks, sub_path m n # ms), sub_path m n)"
  "get_submodule name_registry (ks, ms) m n = (if sub_path m n \<in> set ms then Some (sub_path m n) else None)"
  "add_function name_registry s m n r ps fl = s"
  "add_constructor name_registry s c ps fl = s"
  "add_method name_registry s c n r ps fl = s"
  "add_instance_attribute name_registry s c n t fl = s"
  "add_static_attribute name_registry s c n t fl = s"
  "add_output_stream_operator name_registry s c = s"
  "add_binary_comparison_operator name_registry s c n = s"
  "add_unary_numeric_operator name_registry s c n = s"
  "add_inplace_numeric_operator name_registry s c n p = s"
  "add_binary_numeric_operator name_registry s c n c1 c2 p = s"
  "generate name_registry s = []"
  by (simp_all add: name_registry_def)

interpretation names: pybindgen_laws name_registry
proof unfold_locales
  show "getitem name_registry s k = Some c \<Longrightarrow> full_name name_registry c = k" for s k c
    by (cases s) (simp split: if_splits)
  show "getitem name_registry (add_class name_registry s m n kw)
      (class_key (full_name name_registry) (namespace name_registry m) n kw) \<noteq> None" for s m n kw
    by (cases s) simp
  show "extends name_registry s (add_class name_registry s m n kw)" for s m n kw
    by (cases s) (simp add: extends_def)
  show "extends name_registry s (fst (add_cpp_namespace name_registry s m n))" for s m n
    by (cases s) (simp add: extends_def)
  show "get_submodule name_registry (fst (add_cpp_namespace name_registry s m n)) m n
      = Some (snd (add_cpp_namespace name_registry s m n))" for s m n
    by (cases s) simp
  show "namespace name_registry (snd (add_cpp_namespace name_registry s m n))
      = namespace name_registry m @ ''::'' @ n" for s m n
    by (cases s) (simp add: path_namespace_def sub_path_def)
qed (simp_all add: path_namespace_def)

section \<open>Running on more names\<close>

text \<open>Arguments resolve when the classes they name are known, and to the same handles.\<close>

definition arg_keys :: "string kwargs \<Rightarrow> string set" where
  "arg_keys kw = (\<Union>(n, a) \<in> set kw. set_arg a)"

lemma arg_keys_simps [simp]:
  "arg_keys [] = {}" "arg_keys ((n, a) # kw) = set_arg a \<union> arg_keys kw"
  by (simp_all add: arg_keys_def)

lemma subscript_names:
  "map_py (subscript name_registry (ks, ms)) l = (if set l \<subseteq> set ks then Inr l else Inl KeyError)"
  by (induction l) (auto simp: subscript_def)

lemma resolve_arg_names:
  "resolve_arg name_registry (ks, ms) a = (if set_arg a \<subseteq> set ks then Inr a else Inl KeyError)"
  by (cases a) (auto simp: subscript_def subscript_names)

lemma resolve_names:
  "resolve name_registry (ks, ms) kw = (if arg_keys kw \<subseteq> set ks then Inr kw else Inl KeyError)"
proof (induction kw)
  case Nil
  show ?case by (simp add: resolve_def)
next
  case (Cons na kw)
  then show ?case by (cases na) (auto simp: resolve_def resolve_arg_names)
qed

text \<open>A run that succeeds adds names and nested modules in front of what is there, and does
  the same when more names are known at its start.\<close>

lemma run_types_frame:
  assumes "run_types name_registry s m cs = Inr s'" and "set (fst s) \<subseteq> set ks2"
  shows "\<exists>new newm. s' = (new @ fst s, newm @ snd s) \<and>
    run_types name_registry (ks2, ms2) m cs = Inr (new @ ks2, newm @ ms2)"
  using assms
proof (induction name_registry s m cs arbitrary: ks2 ms2 s' rule: run_types.induct)
  case (2 s m n kw cs)
  obtain ks ms where s: "s = (ks, ms)" by (cases s)
  with 2(2) have k: "arg_keys kw \<subseteq> set ks" by (simp add: resolve_names split: if_splits)
  let ?k = "class_key (\<lambda>c. c) (path_namespace m) n kw"
  have "run_types name_registry (add_class name_registry s m n kw) m cs = Inr s'"
    "set (fst (add_class name_registry s m n kw)) \<subseteq> set (?k # ks2)"
    using 2(2,3) k s by (auto simp: resolve_names)
  from 2(1) [OF this, of ms2] k s 2(3) show ?case
    by (auto simp: resolve_names)
next
  case (7 s m n body cs)
  obtain ks ms where s: "s = (ks, ms)" by (cases s)
  let ?m = "sub_path m n"
  obtain s2 where body: "run_types name_registry (ks, ?m # ms) ?m body = Inr s2"
    and rest: "run_types name_registry s2 m cs = Inr s'"
    using 7(3) s by (auto simp: bind_py_eq_Inr)
  have a: "((ks, ?m # ms), ?m) = add_cpp_namespace name_registry s m n" by (simp add: s)
  obtain new newm where 1: "s2 = (new @ ks, newm @ ?m # ms)"
    "run_types name_registry (ks2, ?m # ms2) ?m body = Inr (new @ ks2, newm @ ?m # ms2)"
    using 7(1) [OF a body, of ks2 "?m # ms2"] 7(4) s by auto
  have "set (fst s2) \<subseteq> set (new @ ks2)" using 1 7(4) s by auto
  from 7(2) [OF a rest this, of "newm @ ?m # ms2"] 1 s show ?case
    by (auto simp: body)
next
  case (3 s m n vs kw cs)
  then show ?case by (cases s) (auto simp: resolve_names split: if_splits)
qed (auto simp: subscript_def split: if_splits)

lemma run_types_append:
  "run_types pbg s m (xs @ ys) = bind_py (run_types pbg s m xs) (\<lambda>s1. run_types pbg s1 m ys)"
proof (induction pbg s m xs rule: run_types.induct)
  case (2 pbg s m n kw cs)
  then show ?case by (cases "resolve pbg s kw") simp_all
next
  case (3 pbg s m n vs kw cs)
  then show ?case by (cases "resolve pbg s kw") simp_all
next
  case (5 pbg s m k k' cs)
  then show ?case by (cases "subscript pbg s k"; cases "subscript pbg s k'") simp_all
next
  case (7 pbg s m n body cs)
  obtain s1 m1 where a: "add_cpp_namespace pbg s m n = (s1, m1)" by (cases "add_cpp_namespace pbg s m n")
  with 7(2) [OF a [symmetric]] show ?case by (cases "run_types pbg s1 m1 body") simp_all
qed simp_all

text \<open>Parts of a script that were run one by one, each on the names it uses, run in sequence.\<close>

lemma run_types_seq:
  assumes "run_types name_registry ([], []) m xs = Inr (ks, ms)"
    and "run_types name_registry (uses, []) m ys = Inr (new @ uses, newm)" and "set uses \<subseteq> set ks"
  shows "run_types name_registry ([], []) m (xs @ ys) = Inr (new @ ks, newm @ ms)"
  using run_types_frame [OF assms(2), of ks ms] assms(1,3) by (auto simp: run_types_append)

section \<open>Every library with the laws simulates the registry\<close>

fun walk :: "('s, 'm, 'c) pybindgen \<Rightarrow> 's \<Rightarrow> 'm \<Rightarrow> string list \<Rightarrow> 'm option" where
  "walk pbg s m [] = Some m"
| "walk pbg s m (n # ns) = (case get_submodule pbg s m n of None \<Rightarrow> None | Some m' \<Rightarrow> walk pbg s m' ns)"

text \<open>The module \<open>m\<close> of the library is the one at path \<open>q\<close> below \<open>root\<close>, and the library
  knows at least the classes and modules of a registry.\<close>

definition at_path :: "('s, 'm, 'c) pybindgen \<Rightarrow> 'm \<Rightarrow> 's \<Rightarrow> 'm \<Rightarrow> module_path \<Rightarrow> bool" where
  "at_path pbg root s m q \<longleftrightarrow> namespace pbg m = path_namespace q \<and> walk pbg s root (snd q) = Some m"

definition knows :: "('s, 'm, 'c) pybindgen \<Rightarrow> 'm \<Rightarrow> 's \<Rightarrow> names \<Rightarrow> bool" where
  "knows pbg root s a \<longleftrightarrow>
     (\<forall>k \<in> set (fst a). getitem pbg s k \<noteq> None) \<and> (\<forall>q \<in> set (snd a). \<exists>m. at_path pbg root s m q)"

lemma walk_snoc:
  "walk pbg s m (ns @ [n]) = (case walk pbg s m ns of None \<Rightarrow> None | Some m' \<Rightarrow> get_submodule pbg s m' n)"
  by (induction ns arbitrary: m) (auto split: option.splits)

lemma walk_extends: "extends pbg s s' \<Longrightarrow> walk pbg s m ns = Some m' \<Longrightarrow> walk pbg s' m ns = Some m'"
  by (induction ns arbitrary: m) (auto simp: extends_def split: option.splits)

lemma at_path_extends: "extends pbg s s' \<Longrightarrow> at_path pbg root s m q \<Longrightarrow> at_path pbg root s' m q"
  by (auto simp: at_path_def walk_extends)

lemma knows_extends: "extends pbg s s' \<Longrightarrow> knows pbg root s a \<Longrightarrow> knows pbg root s' a"
  unfolding knows_def using at_path_extends by (metis extends_def)

lemma subscript_known:
  "knows pbg root s (ks, ms) \<Longrightarrow> k \<in> set ks \<Longrightarrow> \<exists>c. subscript pbg s k = Inr c \<and> getitem pbg s k = Some c"
  by (force simp: knows_def subscript_def)

lemma class_key_map:
  "class_key f ns n kw = class_key (\<lambda>c. c) ns n (map (\<lambda>(x, a). (x, map_arg f a)) kw)"
  by (auto simp: class_key_def map_of_map split: option.splits arg.splits)

context pybindgen_laws
begin

lemma map_py_known:
  assumes "knows pbg root s (ks, ms)" and "set l \<subseteq> set ks"
  shows "\<exists>cs. map_py (subscript pbg s) l = Inr cs \<and> map (full_name pbg) cs = l"
  using assms(2)
proof (induction l)
  case (Cons k l)
  then obtain c where "subscript pbg s k = Inr c" "getitem pbg s k = Some c"
    using subscript_known [OF assms(1)] by auto
  with Cons getitem_name show ?case by auto
qed simp

lemma resolve_arg_known:
  assumes "knows pbg root s (ks, ms)" and "set_arg a \<subseteq> set ks"
  shows "\<exists>a'. resolve_arg pbg s a = Inr a' \<and> map_arg (full_name pbg) a' = a"
proof (cases a)
  case (Class k)
  then obtain c where "subscript pbg s k = Inr c" "getitem pbg s k = Some c"
    using subscript_known [OF assms(1)] assms(2) by auto
  with Class getitem_name show ?thesis by simp
next
  case (Classes l)
  then obtain cs where "map_py (subscript pbg s) l = Inr cs" "map (full_name pbg) cs = l"
    using map_py_known [OF assms(1)] assms(2) by auto
  with Classes show ?thesis by simp
qed simp_all

lemma resolve_known:
  assumes "knows pbg root s (ks, ms)" and "arg_keys kw \<subseteq> set ks"
  shows "\<exists>kw'. resolve pbg s kw = Inr kw' \<and> map (\<lambda>(x, a). (x, map_arg (full_name pbg) a)) kw' = kw"
  using assms(2)
proof (induction kw)
  case Nil
  show ?case by (simp add: resolve_def)
next
  case (Cons na kw)
  obtain n a where na: "na = (n, a)" by (cases na)
  obtain kw' where "resolve pbg s kw = Inr kw'" "map (\<lambda>(x, a). (x, map_arg (full_name pbg) a)) kw' = kw"
    using Cons by (auto simp: na)
  moreover obtain a' where "resolve_arg pbg s a = Inr a'" "map_arg (full_name pbg) a' = a"
    using resolve_arg_known [OF assms(1)] Cons.prems by (auto simp: na)
  ultimately show ?case by (auto simp: resolve_def na)
qed

lemma add_class_known:
  assumes "knows pbg root s (ks, ms)" and "at_path pbg root s m q" and "arg_keys kw \<subseteq> set ks"
  obtains kw' where "resolve pbg s kw = Inr kw'"
    "knows pbg root (add_class pbg s m n kw') (class_key (\<lambda>c. c) (path_namespace q) n kw # ks, ms)"
proof -
  obtain kw' where kw': "resolve pbg s kw = Inr kw'" "map (\<lambda>(x, a). (x, map_arg (full_name pbg) a)) kw' = kw"
    using resolve_known [OF assms(1,3)] by blast
  have "getitem pbg (add_class pbg s m n kw') (class_key (\<lambda>c. c) (path_namespace q) n kw) \<noteq> None"
    using add_class_found [of s m n kw'] assms(2) class_key_map [of "full_name pbg"] kw'(2)
    by (simp add: at_path_def)
  then show thesis
    using that [OF kw'(1)] knows_extends [OF add_class_extends assms(1)] by (simp add: knows_def)
qed

lemma add_cpp_namespace_known:
  assumes "knows pbg root s (ks, ms)" and "at_path pbg root s m q"
    and "add_cpp_namespace pbg s m n = (s1, m1)"
  shows "at_path pbg root s1 m1 (sub_path q n)" and "knows pbg root s1 (ks, sub_path q n # ms)"
    and "extends pbg s s1"
proof -
  show ext: "extends pbg s s1" using add_cpp_namespace_extends [of s m n] assms(3) by simp
  show at: "at_path pbg root s1 m1 (sub_path q n)"
    using add_cpp_namespace_found [of s m n] add_cpp_namespace_name [of s m n] assms(3)
      at_path_extends [OF ext assms(2)]
    by (auto simp: at_path_def sub_path_def path_namespace_def walk_snoc)
  then show "knows pbg root s1 (ks, sub_path q n # ms)"
    using knows_extends [OF ext assms(1)] by (auto simp: knows_def)
qed

lemma run_types_simulates:
  assumes "run_types name_registry a q cs = Inr a'" and "knows pbg root s a" and "at_path pbg root s m q"
  shows "\<exists>s'. run_types pbg s m cs = Inr s' \<and> knows pbg root s' a' \<and> extends pbg s s'"
  using assms
proof (induction name_registry a q cs arbitrary: s m a' rule: run_types.induct)
  case (1 a q)
  then show ?case by auto
next
  case (2 a q n kw cs)
  obtain ks ms where a: "a = (ks, ms)" by (cases a)
  then have k: "arg_keys kw \<subseteq> set ks" using 2(2) by (simp add: resolve_names split: if_splits)
  obtain kw' where kw': "resolve pbg s kw = Inr kw'"
    "knows pbg root (add_class pbg s m n kw') (class_key (\<lambda>c. c) (path_namespace q) n kw # ks, ms)"
    using add_class_known [OF _ 2(4) k] 2(3) a by metis
  have "run_types name_registry (class_key (\<lambda>c. c) (path_namespace q) n kw # ks, ms) q cs = Inr a'"
    using 2(2) a k by (simp add: resolve_names)
  with 2(1) [of kw a' "add_class pbg s m n kw'" m] kw' a at_path_extends [OF add_class_extends 2(4)]
  show ?case using extends_trans [OF add_class_extends] by simp blast
next
  case (3 a q n vs kw cs)
  obtain ks ms where a: "a = (ks, ms)" by (cases a)
  then have k: "arg_keys kw \<subseteq> set ks" using 3(2) by (simp add: resolve_names split: if_splits)
  obtain kw' where kw': "resolve pbg s kw = Inr kw'" using resolve_known 3(3) a k by blast
  have "run_types name_registry a q cs = Inr a'" using 3(2) a k by (simp add: resolve_names)
  with 3(1) [of kw a' "add_enum pbg s m n vs kw'" m] kw' knows_extends [OF add_enum_extends 3(3)]
    at_path_extends [OF add_enum_extends 3(4)]
  show ?case using extends_trans [OF add_enum_extends] by simp blast
next
  case (4 a q n v fl cs)
  from 4(1) [of a' "add_container pbg s m n v fl" m] 4(2) knows_extends [OF add_container_extends 4(3)]
    at_path_extends [OF add_container_extends 4(4)]
  show ?case using extends_trans [OF add_container_extends] by simp blast
next
  case (5 a q k k' cs)
  obtain ks ms where a: "a = (ks, ms)" by (cases a)
  then have k: "k \<in> set ks" "k' \<in> set ks" "run_types name_registry a q cs = Inr a'"
    using 5(2) by (auto simp: subscript_def split: if_splits)
  obtain c c' where c: "subscript pbg s k = Inr c" "subscript pbg s k' = Inr c'"
    using subscript_known [OF 5(3) [unfolded a]] k(1,2) by metis
  from 5(1) [of k k' a' "implicitly_converts_to pbg s c c'" m] c k(3)
    knows_extends [OF implicitly_converts_to_extends 5(3)]
    at_path_extends [OF implicitly_converts_to_extends 5(4)]
  show ?case using extends_trans [OF implicitly_converts_to_extends] by simp blast
next
  case (6 a q t b cs)
  from 6(1) [of a' "add_type_alias pbg s t b" m] 6(2) knows_extends [OF add_type_alias_extends 6(3)]
    at_path_extends [OF add_type_alias_extends 6(4)]
  show ?case using extends_trans [OF add_type_alias_extends] by simp blast
next
  case (7 a q n body cs)
  obtain ks ms where a: "a = (ks, ms)" by (cases a)
  obtain s1 m1 where sm: "add_cpp_namespace pbg s m n = (s1, m1)" by (cases "add_cpp_namespace pbg s m n")
  note 1 = add_cpp_namespace_known [OF 7(4) [unfolded a] 7(5) sm]
  have e: "((ks, sub_path q n # ms), sub_path q n) = add_cpp_namespace name_registry a q n" by (simp add: a)
  obtain a2 where b: "run_types name_registry (ks, sub_path q n # ms) (sub_path q n) body = Inr a2"
    "run_types name_registry a2 q cs = Inr a'" using 7(3) a by auto
  obtain s2 where s2: "run_types pbg s1 m1 body = Inr s2" "knows pbg root s2 a2" "extends pbg s1 s2"
    using 7(1) [OF e b(1) 1(2,1)] by blast
  have ext: "extends pbg s s2" using 1(3) s2(3) by (rule extends_trans)
  obtain s' where "run_types pbg s2 m cs = Inr s'" "knows pbg root s' a'" "extends pbg s2 s'"
    using 7(2) [OF e b(2) s2(2) at_path_extends [OF ext 7(5)]] by blast
  then show ?case using sm s2(1) extends_trans [OF ext] by simp
qed

lemma run_class_call_extends:
  "run_class_call pbg s c x = Inr s' \<Longrightarrow> extends pbg s s'"
  by (cases x)
    (auto simp: add_constructor_extends add_method_extends add_instance_attribute_extends
      add_static_attribute_extends add_output_stream_operator_extends
      add_binary_comparison_operator_extends add_unary_numeric_operator_extends
      add_inplace_numeric_operator_extends add_binary_numeric_operator_extends)

lemma run_class_calls_simulates:
  assumes "run_class_calls name_registry a n xs = Inr a'" and "knows pbg root s a"
  shows "\<exists>s'. run_class_calls pbg s c xs = Inr s' \<and> extends pbg s s' \<and> a' = a"
  using assms
proof (induction xs arbitrary: s)
  case (Cons x xs)
  obtain ks ms where a: "a = (ks, ms)" by (cases a)
  have "run_class_call name_registry a n x = Inr a \<and> (\<exists>s1. run_class_call pbg s c x = Inr s1)"
  proof (cases x)
    case (Add_binary_numeric_operator op k k' p)
    then have "k \<in> set ks" "k' \<in> set ks"
      using Cons.prems(1) a by (auto simp: subscript_def split: if_splits)
    then obtain l r where "subscript pbg s k = Inr l" "subscript pbg s k' = Inr r"
      using subscript_known [OF Cons.prems(2) [unfolded a]] by metis
    with Add_binary_numeric_operator \<open>k \<in> set ks\<close> \<open>k' \<in> set ks\<close> show ?thesis
      by (simp add: a subscript_def)
  qed simp_all
  then obtain s1 where s1: "run_class_call name_registry a n x = Inr a" "run_class_call pbg s c x = Inr s1"
    by blast
  note ext = run_class_call_extends [OF s1(2)]
  obtain s' where "run_class_calls pbg s1 c xs = Inr s'" "extends pbg s1 s'" "a' = a"
    using Cons.IH [OF _ knows_extends [OF ext Cons.prems(2)]] Cons.prems(1) s1(1) by auto
  then show ?case using s1(2) extends_trans [OF ext] by simp
qed simp

lemma run_methods_simulates:
  assumes "run_methods name_registry a ms = Inr a'" and "knows pbg root s a"
  shows "\<exists>s'. run_methods pbg s ms = Inr s' \<and> extends pbg s s' \<and> a' = a"
  using assms
proof (induction ms arbitrary: s)
  case (Cons kx ms)
  obtain k xs where kx: "kx = (k, xs)" by (cases kx)
  obtain ks qs where a: "a = (ks, qs)" by (cases a)
  have "k \<in> set ks" using Cons.prems(1) a kx by (auto simp: subscript_def split: if_splits)
  then obtain c where c: "subscript pbg s k = Inr c"
    using subscript_known [OF Cons.prems(2) [unfolded a]] by metis
  obtain a1 where a1: "run_class_calls name_registry a k xs = Inr a1" "run_methods name_registry a1 ms = Inr a'"
    using Cons.prems(1) kx a \<open>k \<in> set ks\<close> by (auto simp: subscript_def)
  obtain s1 where s1: "run_class_calls pbg s c xs = Inr s1" "extends pbg s s1" "a1 = a"
    using run_class_calls_simulates [OF a1(1) Cons.prems(2)] by blast
  obtain s' where "run_methods pbg s1 ms = Inr s'" "extends pbg s1 s'" "a' = a"
    using Cons.IH [OF _ knows_extends [OF s1(2) Cons.prems(2)]] a1(2) s1(3) by blast
  then show ?case using c s1(1) extends_trans [OF s1(2)] by (simp add: kx)
qed simp

lemma run_functions_simulates:
  assumes "run_functions name_registry a q fs = Inr a'" and "knows pbg root s a" and "at_path pbg root s m q"
  shows "\<exists>s'. run_functions pbg s m fs = Inr s' \<and> extends pbg s s' \<and> a' = a"
  using assms
proof (induction name_registry a q fs arbitrary: s m a' rule: run_functions.induct)
  case (1 a q)
  then show ?case by simp
next
  case (2 a q n r ps fl cs)
  note ext = add_function_extends [of s m n r ps fl]
  from 2(1) [of a' "add_function pbg s m n r ps fl" m] 2(2) knows_extends [OF ext 2(3)]
    at_path_extends [OF ext 2(4)]
  show ?case using extends_trans [OF ext] by auto
next
  case (3 a q n body cs)
  obtain ks qs where a: "a = (ks, qs)" by (cases a)
  have q: "sub_path q n \<in> set qs" using 3(3) a by (auto split: if_splits)
  then obtain m1 where m1: "at_path pbg root s m1 (sub_path q n)" using 3(4) a by (auto simp: knows_def)
  then have sub: "get_submodule pbg s m n = Some m1"
    using 3(5) by (auto simp: at_path_def sub_path_def walk_snoc)
  have g: "get_submodule name_registry a q n = Some (sub_path q n)" using a q by simp
  obtain a1 where a1: "run_functions name_registry a (sub_path q n) body = Inr a1"
    "run_functions name_registry a1 q cs = Inr a'"
    using 3(3) g by auto
  obtain s1 where s1: "run_functions pbg s m1 body = Inr s1" "extends pbg s s1" "a1 = a"
    using 3(1) [OF g a1(1) 3(4) m1] by blast
  obtain s' where "run_functions pbg s1 m cs = Inr s'" "extends pbg s1 s'" "a' = a1"
    using 3(2) [OF g a1(2)] knows_extends [OF s1(2) 3(4)] at_path_extends [OF s1(2) 3(5)] s1(3) by blast
  with sub s1 extends_trans [OF s1(2)] show ?case by simp
qed

text \<open>A whole script: what runs on the registry of names runs on every library with the laws.\<close>

lemma script_runs:
  assumes "Module pbg name (''::'' @ ns) = (s0, root)"
    and "run_types name_registry ([], []) (ns, []) types = Inr a"
    and "run_methods name_registry a methods = Inr a" and "run_functions name_registry a (ns, []) functions = Inr a"
  shows "\<exists>s1 s2 s3. run_types pbg s0 root types = Inr s1 \<and> run_methods pbg s1 methods = Inr s2 \<and>
    run_functions pbg s2 root functions = Inr s3"
proof -
  have "namespace pbg root = ns" using Module_namespace [of name ns] assms(1) by simp
  then have at: "at_path pbg root s0 root (ns, [])" by (simp add: at_path_def path_namespace_def)
  have "knows pbg root s0 ([], [])" by (simp add: knows_def)
  from run_types_simulates [OF assms(2) this at] obtain s1 where
    s1: "run_types pbg s0 root types = Inr s1" "knows pbg root s1 a" "extends pbg s0 s1" by blast
  from run_methods_simulates [OF assms(3) s1(2)] obtain s2 where
    s2: "run_methods pbg s1 methods = Inr s2" "extends pbg s1 s2" by blast
  from run_functions_simulates [OF assms(4) knows_extends [OF s2(2) s1(2)]]
    at_path_extends [OF s2(2) at_path_extends [OF s1(3) at]] s1(1) s2(1)
  show ?thesis by blast
qed

end

section \<open>Members on the registry of names\<close>

fun operand_keys :: "class_call \<Rightarrow> string list" where
  "operand_keys (Add_binary_numeric_operator n k k' p) = [k, k']"
| "operand_keys _ = []"

lemma run_class_calls_names:
  assumes "list_all (\<lambda>c. set (operand_keys c) \<subseteq> set ks) calls"
  shows "run_class_calls name_registry (ks, ms) k calls = Inr (ks, ms)"
  using assms
proof (induction calls)
  case (Cons c calls)
  then show ?case by (cases c) (simp_all add: subscript_def)
qed simp

lemma run_methods_names:
  assumes "set (map fst rs) \<subseteq> set ks"
    and "list_all (\<lambda>(k, calls). list_all (\<lambda>c. set (operand_keys c) \<subseteq> set ks) calls) rs"
  shows "run_methods name_registry (ks, ms) rs = Inr (ks, ms)"
  using assms by (induction rs) (auto simp: subscript_def run_class_calls_names)

section \<open>Evaluating a script\<close>

text \<open>The root module of the scripts, and what the checks of the names of a script use: the
  membership of a name in a list of names, and a number for each name, as different numbers show
  that the names differ.\<close>

abbreviation ns3 :: module_path where
  "ns3 \<equiv> (''ns3'', [])"

lemmas subset_simps =
  set_append list.set Un_insert_left Un_empty_left insert_subset insert_iff empty_subsetI simp_thms

definition name_number :: "string \<Rightarrow> int" where
  "name_number s = foldl (\<lambda>h c. 3 * h + of_char c) 0 s"

text \<open>Whether the elements of a list differ, decided on the classes of its elements modulo a power
  of two.\<close>

fun distinct_by :: "nat \<Rightarrow> int list \<Rightarrow> bool" where
  "distinct_by 0 xs = distinct xs"
| "distinct_by (Suc k) xs =
     (distinct_by k (map (\<lambda>x. x div 2) (filter even xs)) \<and> distinct_by k (map (\<lambda>x. x div 2) (filter odd xs)))"

lemma distinct_filter_split: "distinct (filter P xs) \<Longrightarrow> distinct (filter (\<lambda>x. \<not> P x) xs) \<Longrightarrow> distinct xs"
  by (induction xs) (auto split: if_splits)

lemma distinct_by_distinct: "distinct_by k xs \<Longrightarrow> distinct xs"
proof (induction k xs rule: distinct_by.induct)
  case (2 k xs)
  from 2(3) have "distinct_by k (map (\<lambda>x. x div 2) (filter even xs))"
    "distinct_by k (map (\<lambda>x. x div 2) (filter odd xs))" by (simp_all only: distinct_by.simps)
  from this(1) [THEN 2(1)] this(2) [THEN 2(2)] have "distinct (filter even xs)" "distinct (filter odd xs)"
    by (simp_all only: distinct_map)
  then show ?case by (rule distinct_filter_split)
qed simp
lemma distinct_by_number: "distinct_by k (map name_number xs) \<Longrightarrow> distinct xs"
  by (drule distinct_by_distinct) (simp add: distinct_map)

end
