(* ===== verification/Bindings_Names.thy ===== *)
theory Bindings_Names
  imports Bindings_Types Pybindgen_Laws
begin

text \<open>
  The types of the traffic-control module, run part by part on the registry of names: for each
  part of \<open>register_types\<close> the earlier classes it refers to and the classes it adds, the
  newest first.
\<close>

definition uses_1 :: "string list" where
  "uses_1 =
    []"

definition adds_1 :: "string list" where
  "adds_1 =
    [''ns3::IntToType< 1 >'',
     ''ns3::IntToType< 0 >'',
     ''ns3::Hasher'',
     ''ns3::EventId'',
     ''ns3::DataRate'',
     ''ns3::CallbackBase'',
     ''ns3::ByteTagList::Iterator::Item'',
     ''ns3::ByteTagList::Iterator'',
     ''ns3::ByteTagList'',
     ''ns3::ByteTagIterator::Item'',
     ''ns3::ByteTagIterator'',
     ''ns3::Buffer::Iterator'',
     ''ns3::Buffer'',
     ''ns3::AttributeConstructionList::Item'',
     ''ns3::AttributeConstructionList'',
     ''ns3::Address'']"

lemma run_part_1:
  "run_types name_registry (uses_1, []) ns3 register_types_1 = Inr (adds_1 @ uses_1, [])"
  by code_simp

definition uses_2 :: "string list" where
  "uses_2 =
    [''ns3::IntToType< 1 >'',
     ''ns3::Address'']"

definition adds_2 :: "string list" where
  "adds_2 =
    [''ns3::NetDeviceContainer'',
     ''ns3::Mac48Address'',
     ''ns3::Ipv6Prefix'',
     ''ns3::Ipv6Address'',
     ''ns3::Ipv4Mask'',
     ''ns3::Ipv4Address'',
     ''ns3::IntToType< 6 >'',
     ''ns3::IntToType< 5 >'',
     ''ns3::IntToType< 4 >'',
     ''ns3::IntToType< 3 >'',
     ''ns3::IntToType< 2 >'']"

lemma run_part_2:
  "run_types name_registry (uses_2, []) ns3 register_types_2 = Inr (adds_2 @ uses_2, [])"
  by code_simp

definition uses_3 :: "string list" where
  "uses_3 =
    []"

definition adds_3 :: "string list" where
  "adds_3 =
    [''ns3::TimeWithUnit'',
     ''ns3::TagBuffer'',
     ''ns3::Tag'',
     ''ns3::Simulator'',
     ''ns3::SimpleRefCount< ns3::Object, ns3::ObjectBase, ns3::ObjectDeleter >'',
     ''ns3::QueueDiscFactory'',
     ''ns3::QueueDiscContainer'',
     ''ns3::PacketTagList::TagData'',
     ''ns3::PacketTagList'',
     ''ns3::PacketTagIterator::Item'',
     ''ns3::PacketTagIterator'',
     ''ns3::PacketMetadata::ItemIterator'',
     ''ns3::PacketMetadata::Item'',
     ''ns3::PacketMetadata'',
     ''ns3::ObjectFactory'',
     ''ns3::ObjectDeleter'',
     ''ns3::ObjectBase'']"

lemma run_part_3:
  "run_types name_registry (uses_3, []) ns3 register_types_3 = Inr (adds_3 @ uses_3, [])"
  by code_simp

definition uses_4 :: "string list" where
  "uses_4 =
    [''ns3::ObjectBase'',
     ''ns3::SimpleRefCount< ns3::Object, ns3::ObjectBase, ns3::ObjectDeleter >'']"

definition adds_4 :: "string list" where
  "adds_4 =
    [''ns3::PacketFilter'',
     ''ns3::Object::AggregateIterator'',
     ''ns3::Object'',
     ''ns3::Header'',
     ''ns3::Chunk'',
     ''ns3::int64x64_t'',
     ''ns3::empty'',
     ''ns3::TypeId::TraceSourceInformation'',
     ''ns3::TypeId::AttributeInformation'',
     ''ns3::TypeId'',
     ''ns3::TrafficControlHelper'',
     ''ns3::TracedValue< unsigned int >'',
     ''ns3::TracedValue< bool >'',
     ''ns3::TimerImpl'',
     ''ns3::Timer'']"

lemma run_part_4:
  "run_types name_registry (uses_4, []) ns3 register_types_4 = Inr (adds_4 @ uses_4, [])"
  by code_simp

definition uses_5 :: "string list" where
  "uses_5 =
    [''ns3::Object'',
     ''ns3::empty'']"

definition adds_5 :: "string list" where
  "adds_5 =
    [''ns3::SimpleRefCount< ns3::QueueItem, ns3::empty, ns3::DefaultDeleter<ns3::QueueItem> >'',
     ''ns3::SimpleRefCount< ns3::Packet, ns3::empty, ns3::DefaultDeleter<ns3::Packet> >'',
     ''ns3::SimpleRefCount< ns3::NixVector, ns3::empty, ns3::DefaultDeleter<ns3::NixVector> >'',
     ''ns3::SimpleRefCount< ns3::NetDeviceQueue, ns3::empty, ns3::DefaultDeleter<ns3::NetDeviceQueue> >'',
     ''ns3::SimpleRefCount< ns3::Hash::Implementation, ns3::empty, ns3::DefaultDeleter<ns3::Hash::Implementation> >'',
     ''ns3::SimpleRefCount< ns3::EventImpl, ns3::empty, ns3::DefaultDeleter<ns3::EventImpl> >'',
     ''ns3::SimpleRefCount< ns3::CallbackImplBase, ns3::empty, ns3::DefaultDeleter<ns3::CallbackImplBase> >'',
     ''ns3::SimpleRefCount< ns3::AttributeValue, ns3::empty, ns3::DefaultDeleter<ns3::AttributeValue> >'',
     ''ns3::SimpleRefCount< ns3::AttributeChecker, ns3::empty, ns3::DefaultDeleter<ns3::AttributeChecker> >'',
     ''ns3::SimpleRefCount< ns3::AttributeAccessor, ns3::empty, ns3::DefaultDeleter<ns3::AttributeAccessor> >'',
     ''ns3::SequentialRandomVariable'',
     ''ns3::RedQueueDisc::Stats'',
     ''ns3::RedQueueDisc'',
     ''ns3::RandomVariableStream'',
     ''ns3::QueueDiscClass'',
     ''ns3::QueueDisc'',
     ''ns3::Queue'']"

lemma run_part_5:
  "run_types name_registry (uses_5, []) ns3 register_types_5 = Inr (adds_5 @ uses_5, [])"
  by code_simp

definition uses_6 :: "string list" where
  "uses_6 =
    [''ns3::empty'',
     ''ns3::int64x64_t'',
     ''ns3::Object'',
     ''ns3::Chunk'',
     ''ns3::RandomVariableStream'',
     ''ns3::SimpleRefCount< ns3::AttributeAccessor, ns3::empty, ns3::DefaultDeleter<ns3::AttributeAccessor> >'',
     ''ns3::SimpleRefCount< ns3::AttributeChecker, ns3::empty, ns3::DefaultDeleter<ns3::AttributeChecker> >'',
     ''ns3::SimpleRefCount< ns3::AttributeValue, ns3::empty, ns3::DefaultDeleter<ns3::AttributeValue> >'']"

definition adds_6 :: "string list" where
  "adds_6 =
    [''ns3::CallbackChecker'',
     ''ns3::BooleanValue'',
     ''ns3::BooleanChecker'',
     ''ns3::AttributeValue'',
     ''ns3::AttributeChecker'',
     ''ns3::AttributeAccessor'',
     ''ns3::ZipfRandomVariable'',
     ''ns3::ZetaRandomVariable'',
     ''ns3::WeibullRandomVariable'',
     ''ns3::UniformRandomVariable'',
     ''ns3::TriangularRandomVariable'',
     ''ns3::Trailer'',
     ''ns3::TrafficControlLayer'',
     ''ns3::TracedValue< ns3::Time >'',
     ''ns3::TraceSourceAccessor'',
     ''ns3::Time'',
     ''ns3::SimpleRefCount< ns3::TraceSourceAccessor, ns3::empty, ns3::DefaultDeleter<ns3::TraceSourceAccessor> >'']"

lemma run_part_6:
  "run_types name_registry (uses_6, []) ns3 register_types_6 = Inr (adds_6 @ uses_6, [])"
  by code_simp

definition uses_7 :: "string list" where
  "uses_7 =
    [''ns3::SimpleRefCount< ns3::CallbackImplBase, ns3::empty, ns3::DefaultDeleter<ns3::CallbackImplBase> >'',
     ''ns3::AttributeValue'',
     ''ns3::QueueDisc'',
     ''ns3::RandomVariableStream'',
     ''ns3::AttributeChecker'',
     ''ns3::AttributeAccessor'',
     ''ns3::SimpleRefCount< ns3::EventImpl, ns3::empty, ns3::DefaultDeleter<ns3::EventImpl> >'',
     ''ns3::QueueDiscClass'']"

definition adds_7 :: "string list" where
  "adds_7 =
    [''ns3::FqCoDelQueueDisc'',
     ''ns3::FqCoDelFlow'',
     ''ns3::ExponentialRandomVariable'',
     ''ns3::EventImpl'',
     ''ns3::ErlangRandomVariable'',
     ''ns3::EnumValue'',
     ''ns3::EnumChecker'',
     ''ns3::EmptyAttributeValue'',
     ''ns3::EmptyAttributeChecker'',
     ''ns3::EmptyAttributeAccessor'',
     ''ns3::EmpiricalRandomVariable'',
     ''ns3::DoubleValue'',
     ''ns3::DeterministicRandomVariable'',
     ''ns3::DataRateValue'',
     ''ns3::DataRateChecker'',
     ''ns3::ConstantRandomVariable'',
     ''ns3::CoDelQueueDisc'',
     ''ns3::CallbackValue'',
     ''ns3::CallbackImplBase'']"

lemma run_part_7:
  "run_types name_registry (uses_7, []) ns3 register_types_7 = Inr (adds_7 @ uses_7, [])"
  by code_simp

definition uses_8 :: "string list" where
  "uses_8 =
    [''ns3::RandomVariableStream'',
     ''ns3::AttributeValue'',
     ''ns3::AttributeChecker'',
     ''ns3::Object'',
     ''ns3::SimpleRefCount< ns3::NetDeviceQueue, ns3::empty, ns3::DefaultDeleter<ns3::NetDeviceQueue> >'',
     ''ns3::SimpleRefCount< ns3::NixVector, ns3::empty, ns3::DefaultDeleter<ns3::NixVector> >'']"

definition adds_8 :: "string list" where
  "adds_8 =
    [''ns3::NormalRandomVariable'',
     ''ns3::Node'',
     ''ns3::NixVector'',
     ''ns3::NetDeviceQueueInterface'',
     ''ns3::NetDeviceQueue'',
     ''ns3::NetDevice'',
     ''ns3::Mac48AddressValue'',
     ''ns3::Mac48AddressChecker'',
     ''ns3::LogNormalRandomVariable'',
     ''ns3::Ipv6PrefixValue'',
     ''ns3::Ipv6PrefixChecker'',
     ''ns3::Ipv6AddressValue'',
     ''ns3::Ipv6AddressChecker'',
     ''ns3::Ipv4MaskValue'',
     ''ns3::Ipv4MaskChecker'',
     ''ns3::Ipv4AddressValue'',
     ''ns3::Ipv4AddressChecker'',
     ''ns3::IntegerValue'',
     ''ns3::GammaRandomVariable'']"

lemma run_part_8:
  "run_types name_registry (uses_8, []) ns3 register_types_8 = Inr (adds_8 @ uses_8, [])"
  by code_simp

definition uses_9 :: "string list" where
  "uses_9 =
    [''ns3::AttributeChecker'',
     ''ns3::AttributeValue'',
     ''ns3::SimpleRefCount< ns3::Packet, ns3::empty, ns3::DefaultDeleter<ns3::Packet> >'',
     ''ns3::RandomVariableStream'',
     ''ns3::QueueDisc'',
     ''ns3::SimpleRefCount< ns3::QueueItem, ns3::empty, ns3::DefaultDeleter<ns3::QueueItem> >'']"

definition adds_9 :: "string list" where
  "adds_9 =
    [''ns3::QueueDiscItem'',
     ''ns3::AddressValue'',
     ''ns3::AddressChecker'',
     ''ns3::UintegerValue'',
     ''ns3::TypeIdValue'',
     ''ns3::TypeIdChecker'',
     ''ns3::TimeValue'',
     ''ns3::StringValue'',
     ''ns3::StringChecker'',
     ''ns3::QueueItem'',
     ''ns3::PieQueueDisc::Stats'',
     ''ns3::PieQueueDisc'',
     ''ns3::PfifoFastQueueDisc'',
     ''ns3::ParetoRandomVariable'',
     ''ns3::Packet'',
     ''ns3::ObjectFactoryValue'',
     ''ns3::ObjectFactoryChecker'']"

lemma run_part_9:
  "run_types name_registry (uses_9, []) ns3 register_types_9 = Inr (adds_9 @ uses_9, [])"
  by code_simp

definition uses_10 :: "string list" where
  "uses_10 =
    [''ns3::SimpleRefCount< ns3::Hash::Implementation, ns3::empty, ns3::DefaultDeleter<ns3::Hash::Implementation> >'']"

definition adds_10 :: "string list" where
  "adds_10 =
    [''ns3::Hash::Function::Murmur3'',
     ''ns3::Hash::Function::Hash64'',
     ''ns3::Hash::Function::Hash32'',
     ''ns3::Hash::Function::Fnv1a'',
     ''ns3::Hash::Implementation'']"

lemma run_part_10:
  "run_types name_registry (uses_10, []) ns3 register_types_10 = Inr (adds_10 @ uses_10, [(''ns3'', [''internal'']), (''ns3'', [''TracedValueCallback'']), (''ns3'', [''Hash'', ''Function'']), (''ns3'', [''Hash'']), (''ns3'', [''FatalImpl''])])"
  by code_simp

section \<open>The parts in sequence\<close>

lemmas adds_defs =
  adds_1_def adds_2_def adds_3_def adds_4_def adds_5_def adds_6_def adds_7_def adds_8_def adds_9_def adds_10_def

lemmas uses_defs =
  uses_1_def uses_2_def uses_3_def uses_4_def uses_5_def uses_6_def uses_7_def uses_8_def uses_9_def uses_10_def

lemma uses_known_2:
  "set uses_2 \<subseteq> set (adds_1)"
  by (simp only: uses_defs adds_defs subset_simps)

lemma uses_known_3:
  "set uses_3 \<subseteq> set (adds_2 @ adds_1)"
  by (simp only: uses_defs adds_defs subset_simps)

lemma uses_known_4:
  "set uses_4 \<subseteq> set (adds_3 @ adds_2 @ adds_1)"
  by (simp only: uses_defs adds_defs subset_simps)

lemma uses_known_5:
  "set uses_5 \<subseteq> set (adds_4 @ adds_3 @ adds_2 @ adds_1)"
  by (simp only: uses_defs adds_defs subset_simps)

lemma uses_known_6:
  "set uses_6 \<subseteq> set (adds_5 @ adds_4 @ adds_3 @ adds_2 @ adds_1)"
  by (simp only: uses_defs adds_defs subset_simps)

lemma uses_known_7:
  "set uses_7 \<subseteq> set (adds_6 @ adds_5 @ adds_4 @ adds_3 @ adds_2 @ adds_1)"
  by (simp only: uses_defs adds_defs subset_simps)

lemma uses_known_8:
  "set uses_8 \<subseteq> set (adds_7 @ adds_6 @ adds_5 @ adds_4 @ adds_3 @ adds_2 @ adds_1)"
  by (simp only: uses_defs adds_defs subset_simps)

lemma uses_known_9:
  "set uses_9 \<subseteq> set (adds_8 @ adds_7 @ adds_6 @ adds_5 @ adds_4 @ adds_3 @ adds_2 @ adds_1)"
  by (simp only: uses_defs adds_defs subset_simps)

lemma uses_known_10:
  "set uses_10 \<subseteq> set (adds_9 @ adds_8 @ adds_7 @ adds_6 @ adds_5 @ adds_4 @ adds_3 @ adds_2 @ adds_1)"
  by (simp only: uses_defs adds_defs subset_simps)

text \<open>All classes, the newest first, and all nested modules.\<close>

definition all_adds :: "string list" where
  "all_adds = adds_10 @ adds_9 @ adds_8 @ adds_7 @ adds_6 @ adds_5 @ adds_4 @ adds_3 @ adds_2 @ adds_1"

definition all_nested :: "module_path list" where
  "all_nested = [(''ns3'', [''internal'']), (''ns3'', [''TracedValueCallback'']), (''ns3'', [''Hash'', ''Function'']), (''ns3'', [''Hash'']), (''ns3'', [''FatalImpl''])]"

lemma run_register_types:
  "run_types name_registry ([], []) ns3 register_types = Inr (all_adds, all_nested)"
proof -
  note run = run_part_1 [unfolded uses_1_def append_Nil2]
  note run = run_types_seq [OF run run_part_2 uses_known_2]
  note run = run_types_seq [OF run run_part_3 uses_known_3]
  note run = run_types_seq [OF run run_part_4 uses_known_4]
  note run = run_types_seq [OF run run_part_5 uses_known_5]
  note run = run_types_seq [OF run run_part_6 uses_known_6]
  note run = run_types_seq [OF run run_part_7 uses_known_7]
  note run = run_types_seq [OF run run_part_8 uses_known_8]
  note run = run_types_seq [OF run run_part_9 uses_known_9]
  note run = run_types_seq [OF run run_part_10 uses_known_10]
  show ?thesis
    using run by (simp only: register_types_def all_adds_def all_nested_def append_assoc append_Nil2 append.simps)
qed

end
