(* ===== verification/Bindings_Members.thy ===== *)
theory Bindings_Members
  imports Bindings_Methods_1 Bindings_Methods_2 Bindings_Methods_3 Bindings_Methods_4
    Bindings_Methods_5 Bindings_Methods_6 Pybindgen_Laws
begin

text \<open>
  Checks on the members the binding script registers: the modifiers of a member fit together,
  optional parameters come last, and no class registers the same signature twice. The checks
  are functions; they are evaluated on the functions of the script, part by part.
\<close>

section \<open>Checks\<close>

definition is_set :: "flags \<Rightarrow> string \<Rightarrow> bool" where
  "is_set fl x \<longleftrightarrow> map_of fl x = Some (CBool True)"

definition visibility_ok :: "flags \<Rightarrow> bool" where
  "visibility_ok fl \<longleftrightarrow>
     map_of fl ''visibility'' \<in> {None, Some (CStr ''protected''), Some (CStr ''private'')}"

text \<open>A C++ member function that is pure virtual is virtual, and a static one is neither virtual
  nor \<open>const\<close>.\<close>

fun modifiers_ok :: "class_call \<Rightarrow> bool" where
  "modifiers_ok (Add_method n r ps fl) \<longleftrightarrow>
     visibility_ok fl \<and> (is_set fl ''is_pure_virtual'' \<longrightarrow> is_set fl ''is_virtual'') \<and>
     (is_set fl ''is_static'' \<longrightarrow> \<not> is_set fl ''is_virtual'' \<and> \<not> is_set fl ''is_const'')"
| "modifiers_ok (Add_constructor ps fl) \<longleftrightarrow> visibility_ok fl"
| "modifiers_ok _ \<longleftrightarrow> True"

fun param_type :: "param \<Rightarrow> string" where
  "param_type (Param t n fl) = t"

fun has_default :: "param \<Rightarrow> bool" where
  "has_default (Param t n fl) \<longleftrightarrow> map_of fl ''default_value'' \<noteq> None"

fun defaults_last :: "class_call \<Rightarrow> bool" where
  "defaults_last (Add_method n r ps fl) \<longleftrightarrow> list_all has_default (dropWhile (\<lambda>p. \<not> has_default p) ps)"
| "defaults_last (Add_constructor ps fl) \<longleftrightarrow> list_all has_default (dropWhile (\<lambda>p. \<not> has_default p) ps)"
| "defaults_last _ \<longleftrightarrow> True"

text \<open>What tells two overloads apart: the name (none for a constructor), the parameter types,
  and whether the function is \<open>const\<close>.\<close>

fun signature :: "class_call \<Rightarrow> (string \<times> string list \<times> bool) list" where
  "signature (Add_method n r ps fl) = [(n, map param_type ps, is_set fl ''is_const'')]"
| "signature (Add_constructor ps fl) = [([], map param_type ps, False)]"
| "signature _ = []"

text \<open>The members of one class; the operands of its operators are among \<open>ops\<close>.\<close>

definition members_ok :: "string list \<Rightarrow> class_call list \<Rightarrow> bool" where
  "members_ok ops calls \<longleftrightarrow>
     list_all (\<lambda>c. modifiers_ok c \<and> defaults_last c \<and> set (operand_keys c) \<subseteq> set ops) calls \<and>
     distinct (concat (map signature calls))"

lemma members_ok_mono: "set ops \<subseteq> set ops' \<Longrightarrow> members_ok ops calls \<Longrightarrow> members_ok ops' calls"
  by (auto simp: members_ok_def list_all_iff)

lemma members_ok_operands:
  assumes "list_all (members_ok ops) (map snd rs)" and "set ops \<subseteq> set ks"
  shows "list_all (\<lambda>(k, calls). list_all (\<lambda>c. set (operand_keys c) \<subseteq> set ks) calls) rs"
  using assms by (fastforce simp: members_ok_def list_all_iff)

lemma members_ok_consistent:
  assumes "list_all (members_ok ops) (map snd rs)"
  shows "list_all (\<lambda>(key, calls).
    list_all (\<lambda>c. modifiers_ok c \<and> defaults_last c) calls \<and> distinct (concat (map signature calls))) rs"
  using assms by (fastforce simp: members_ok_def list_all_iff)

definition operands :: "string list" where
  "operands = [''ns3::int64x64_t'', ''ns3::Time'']"

section \<open>The checks hold\<close>

lemma members_ok_1: "list_all (members_ok operands) members_1"
  by code_simp

lemma members_ok_2: "list_all (members_ok operands) members_2"
  by code_simp

lemma members_ok_3: "list_all (members_ok operands) members_3"
  by code_simp

lemma members_ok_4: "list_all (members_ok operands) members_4"
  by code_simp

lemma members_ok_5: "list_all (members_ok operands) members_5"
  by code_simp

lemma members_ok_6: "list_all (members_ok operands) members_6"
  by code_simp

end
