(* ===== verification/Bindings.thy ===== *)
theory Bindings
  imports Bindings_Script Bindings_Names Bindings_Members
begin

text \<open>
  The properties of \<open>traffic-control/bindings/modulegen__gcc_LP64.py\<close>: its \<open>main\<close> reaches the
  generation of the code with every library that has the laws of \<open>pybindgen_laws\<close>, each class it
  adds gets its members exactly once and in the same order, and the members are consistent.
\<close>

section \<open>Members and classes\<close>

lemma methods_members:
  "map snd register_methods = members_1 @ members_2 @ members_3 @ members_4 @ members_5 @ members_6"
  by (simp only: register_methods_def members_1_def members_2_def members_3_def members_4_def
      members_5_def members_6_def list.map snd_conv append.simps)

lemma all_members_ok: "list_all (members_ok operands) (map snd register_methods)"
  by (simp only: methods_members list_all_append members_ok_1 members_ok_2 members_ok_3
      members_ok_4 members_ok_5 members_ok_6 simp_thms)

lemma methods_classes: "map fst register_methods = rev all_adds"
  by (simp only: register_methods_def all_adds_def adds_defs list.map fst_conv rev_append rev.simps
      append_assoc append.simps)

lemma distinct_classes: "distinct (map fst register_methods)"
proof -
  have "distinct_by 3 (map name_number all_adds)" by code_simp
  then show ?thesis unfolding methods_classes distinct_rev by (rule distinct_by_number)
qed

lemma operands_known: "set operands \<subseteq> set all_adds"
  by (simp only: operands_def all_adds_def adds_defs subset_simps)

section \<open>Running the script on the registry of names\<close>

lemma run_register_methods:
  "run_methods name_registry (all_adds, ms) register_methods = Inr (all_adds, ms)"
proof (rule run_methods_names)
  show "set (map fst register_methods) \<subseteq> set all_adds" by (simp only: methods_classes set_rev order_refl)
qed (rule members_ok_operands [OF all_members_ok operands_known])

lemma run_register_functions:
  "run_functions name_registry (ks, all_nested) ns3 register_functions = Inr (ks, all_nested)"
  by (simp add: register_functions_def register_functions_ns3_FatalImpl_def register_functions_ns3_Hash_def
      register_functions_ns3_Hash_Function_def register_functions_ns3_TracedValueCallback_def
      register_functions_ns3_internal_def all_nested_def sub_path_def)

context pybindgen_laws
begin

lemma main_generates: "\<exists>s. main pbg = Inr (generate pbg s)"
proof -
  obtain s0 root where m: "module_init pbg = (s0, root)" by (cases "module_init pbg")
  then have "Module pbg ''ns.traffic_control'' (''::'' @ ''ns3'') = (s0, root)" by (simp add: module_init_def)
  from script_runs [OF this run_register_types run_register_methods run_register_functions] m
  show ?thesis by (auto simp: main_def)
qed

end

section \<open>Properties\<close>



text \<open>\<open>register_methods\<close> registers members for exactly the classes that \<open>register_types\<close> adds,
  once each and in the order in which they were added.\<close>

theorem bindings_methods_cover_types:
  "(\<exists>nested. run_types name_registry (fst (module_init name_registry)) (snd (module_init name_registry))
      register_types = Inr (rev (map fst register_methods), nested)) \<and>
   distinct (map fst register_methods)"
  using run_register_types distinct_classes by (simp add: module_init_def methods_classes)

text \<open>The members the script registers are consistent C++ declarations: a pure virtual
  function is virtual, a static one is neither virtual nor \<open>const\<close>, the visibility is public,
  protected or private, the parameters with a default value come last, and no class registers
  two members with the same name, parameter types and constness.\<close>

theorem bindings_members_consistent:
  "list_all (\<lambda>(key, calls).
     list_all (\<lambda>c. modifiers_ok c \<and> defaults_last c) calls \<and> distinct (concat (map signature calls)))
   register_methods"
  by (rule members_ok_consistent [OF all_members_ok])

end
