(* ===== verification/Network_Types.thy ===== *)
theory Network_Types
  imports Bindings_Types
begin

text \<open>
  The types of the network module: \<open>register_types\<close> and the functions for its nested
  namespaces in \<open>network/bindings/modulegen__gcc_LP64.py\<close> (the ILP32 file is the same text),
  in parts of about forty lines. A function that is the same in the traffic-control script is
  the definition of \<open>Bindings_Types\<close>; the names of those that differ start with \<open>net_\<close>.
\<close>

definition net_register_types_ns3_TracedValueCallback :: "type_call list" where
  "net_register_types_ns3_TracedValueCallback = [
     Add_type_alias ''void ( * ) ( double, double ) *'' ''ns3::TracedValueCallback::Double'',
     Add_type_alias ''void ( * ) ( double, double ) **'' ''ns3::TracedValueCallback::Double*'',
     Add_type_alias ''void ( * ) ( double, double ) *&'' ''ns3::TracedValueCallback::Double&'',
     Add_type_alias ''void ( * ) ( ns3::SequenceNumber32, ns3::SequenceNumber32 ) *'' ''ns3::TracedValueCallback::SequenceNumber32'',
     Add_type_alias ''void ( * ) ( ns3::SequenceNumber32, ns3::SequenceNumber32 ) **'' ''ns3::TracedValueCallback::SequenceNumber32*'',
     Add_type_alias ''void ( * ) ( ns3::SequenceNumber32, ns3::SequenceNumber32 ) *&'' ''ns3::TracedValueCallback::SequenceNumber32&'',
     Add_type_alias ''void ( * ) ( int8_t, int8_t ) *'' ''ns3::TracedValueCallback::Int8'',
     Add_type_alias ''void ( * ) ( int8_t, int8_t ) **'' ''ns3::TracedValueCallback::Int8*'',
     Add_type_alias ''void ( * ) ( int8_t, int8_t ) *&'' ''ns3::TracedValueCallback::Int8&'',
     Add_type_alias ''void ( * ) ( uint8_t, uint8_t ) *'' ''ns3::TracedValueCallback::Uint8'',
     Add_type_alias ''void ( * ) ( uint8_t, uint8_t ) **'' ''ns3::TracedValueCallback::Uint8*'',
     Add_type_alias ''void ( * ) ( uint8_t, uint8_t ) *&'' ''ns3::TracedValueCallback::Uint8&'',
     Add_type_alias ''void ( * ) ( int32_t, int32_t ) *'' ''ns3::TracedValueCallback::Int32'',
     Add_type_alias ''void ( * ) ( int32_t, int32_t ) **'' ''ns3::TracedValueCallback::Int32*'',
     Add_type_alias ''void ( * ) ( int32_t, int32_t ) *&'' ''ns3::TracedValueCallback::Int32&'',
     Add_type_alias ''void ( * ) ( bool, bool ) *'' ''ns3::TracedValueCallback::Bool'',
     Add_type_alias ''void ( * ) ( bool, bool ) **'' ''ns3::TracedValueCallback::Bool*'',
     Add_type_alias ''void ( * ) ( bool, bool ) *&'' ''ns3::TracedValueCallback::Bool&'',
     Add_type_alias ''void ( * ) ( uint16_t, uint16_t ) *'' ''ns3::TracedValueCallback::Uint16'',
     Add_type_alias ''void ( * ) ( uint16_t, uint16_t ) **'' ''ns3::TracedValueCallback::Uint16*'',
     Add_type_alias ''void ( * ) ( uint16_t, uint16_t ) *&'' ''ns3::TracedValueCallback::Uint16&'',
     Add_type_alias ''void ( * ) ( uint32_t, uint32_t ) *'' ''ns3::TracedValueCallback::Uint32'',
     Add_type_alias ''void ( * ) ( uint32_t, uint32_t ) **'' ''ns3::TracedValueCallback::Uint32*'',
     Add_type_alias ''void ( * ) ( uint32_t, uint32_t ) *&'' ''ns3::TracedValueCallback::Uint32&'',
     Add_type_alias ''void ( * ) ( int16_t, int16_t ) *'' ''ns3::TracedValueCallback::Int16'',
     Add_type_alias ''void ( * ) ( int16_t, int16_t ) **'' ''ns3::TracedValueCallback::Int16*'',
     Add_type_alias ''void ( * ) ( int16_t, int16_t ) *&'' ''ns3::TracedValueCallback::Int16&'',
     Add_type_alias ''void ( * ) ( ns3::Time, ns3::Time ) *'' ''ns3::TracedValueCallback::Time'',
     Add_type_alias ''void ( * ) ( ns3::Time, ns3::Time ) **'' ''ns3::TracedValueCallback::Time*'',
     Add_type_alias ''void ( * ) ( ns3::Time, ns3::Time ) *&'' ''ns3::TracedValueCallback::Time&'',
     Add_type_alias ''void ( * ) (  ) *'' ''ns3::TracedValueCallback::Void'',
     Add_type_alias ''void ( * ) (  ) **'' ''ns3::TracedValueCallback::Void*'',
     Add_type_alias ''void ( * ) (  ) *&'' ''ns3::TracedValueCallback::Void&'']"

definition register_types_ns3_addressUtils :: "type_call list" where
  "register_types_ns3_addressUtils = []"

definition net_register_types_1 :: "type_call list" where
  "net_register_types_1 = [
     Add_enum ''PbbAddressLength'' [''IPV4'', ''IPV6''] [],
     Add_enum ''ethernet_header_t'' [''LENGTH'', ''VLAN'', ''QINQ''] [],
     Add_class ''Address'' [],
     Add_enum ''MaxSize_e'' [''MAX_SIZE''] [(''outer_class'', Class ''ns3::Address'')],
     Add_class ''ApplicationContainer'' [],
     Add_class ''AsciiFile'' [],
     Add_class ''AsciiTraceHelper'' [],
     Add_class ''AsciiTraceHelperForDevice'' [(''allow_subclassing'', Const (CBool True))],
     Add_class ''AttributeConstructionList'' [(''import_from_module'', Const (CStr ''ns.core''))],
     Add_class ''Item'' [(''import_from_module'', Const (CStr ''ns.core'')),
       (''outer_class'', Class ''ns3::AttributeConstructionList'')],
     Add_class ''Buffer'' [],
     Add_class ''Iterator'' [(''outer_class'', Class ''ns3::Buffer'')],
     Add_class ''ByteTagIterator'' [],
     Add_class ''Item'' [(''outer_class'', Class ''ns3::ByteTagIterator'')],
     Add_class ''ByteTagList'' [],
     Add_class ''Iterator'' [(''outer_class'', Class ''ns3::ByteTagList'')],
     Add_class ''Item'' [(''outer_class'', Class ''ns3::ByteTagList::Iterator'')],
     Add_class ''CallbackBase'' [(''import_from_module'', Const (CStr ''ns.core''))]]"

definition net_register_types_2 :: "type_call list" where
  "net_register_types_2 = [
     Add_class ''ChannelList'' [],
     Add_class ''DataOutputCallback'' [(''allow_subclassing'', Const (CBool True)),
       (''import_from_module'', Const (CStr ''ns.stats''))],
     Add_class ''DataRate'' [],
     Add_class ''DelayJitterEstimation'' [],
     Add_class ''EventId'' [(''import_from_module'', Const (CStr ''ns.core''))],
     Add_class ''Hasher'' [(''import_from_module'', Const (CStr ''ns.core''))],
     Add_class ''Inet6SocketAddress'' [],
     Implicitly_converts_to ''ns3::Inet6SocketAddress'' ''ns3::Address'',
     Add_class ''InetSocketAddress'' [],
     Implicitly_converts_to ''ns3::InetSocketAddress'' ''ns3::Address'',
     Add_class ''Ipv4Address'' [],
     Implicitly_converts_to ''ns3::Ipv4Address'' ''ns3::Address'',
     Add_class ''Ipv4Mask'' [],
     Add_class ''Ipv6Address'' [],
     Implicitly_converts_to ''ns3::Ipv6Address'' ''ns3::Address'',
     Add_class ''Ipv6Prefix'' [],
     Add_class ''Mac16Address'' [],
     Implicitly_converts_to ''ns3::Mac16Address'' ''ns3::Address'',
     Add_class ''Mac48Address'' [],
     Implicitly_converts_to ''ns3::Mac48Address'' ''ns3::Address'']"

definition net_register_types_3 :: "type_call list" where
  "net_register_types_3 = [
     Add_class ''Mac64Address'' [],
     Implicitly_converts_to ''ns3::Mac64Address'' ''ns3::Address'',
     Add_class ''NetDeviceContainer'' [],
     Add_class ''NodeContainer'' [],
     Add_class ''NodeList'' [],
     Add_class ''NonCopyable'' [(''destructor_visibility'', Const (CStr ''protected'')),
       (''import_from_module'', Const (CStr ''ns.core''))],
     Add_class ''ObjectBase'' [(''allow_subclassing'', Const (CBool True)),
       (''import_from_module'', Const (CStr ''ns.core''))],
     Add_class ''ObjectDeleter'' [(''import_from_module'', Const (CStr ''ns.core''))],
     Add_class ''ObjectFactory'' [(''import_from_module'', Const (CStr ''ns.core''))],
     Add_class ''PacketMetadata'' [],
     Add_class ''Item'' [(''outer_class'', Class ''ns3::PacketMetadata'')],
     Add_enum '''' [''PAYLOAD'', ''HEADER'', ''TRAILER''] [(''outer_class'', Class ''ns3::PacketMetadata::Item'')],
     Add_class ''ItemIterator'' [(''outer_class'', Class ''ns3::PacketMetadata'')],
     Add_class ''PacketSocketAddress'' [],
     Implicitly_converts_to ''ns3::PacketSocketAddress'' ''ns3::Address'',
     Add_class ''PacketSocketHelper'' [],
     Add_class ''PacketTagIterator'' [],
     Add_class ''Item'' [(''outer_class'', Class ''ns3::PacketTagIterator'')],
     Add_class ''PacketTagList'' [],
     Add_class ''TagData'' [(''outer_class'', Class ''ns3::PacketTagList'')]]"

definition net_register_types_4 :: "type_call list" where
  "net_register_types_4 = [
     Add_enum ''TagData_e'' [''MAX_SIZE''] [(''outer_class'', Class ''ns3::PacketTagList::TagData'')],
     Add_class ''PbbAddressTlvBlock'' [],
     Add_class ''PbbTlvBlock'' [],
     Add_class ''PcapFile'' [],
     Add_class ''PcapHelper'' [],
     Add_enum ''DataLinkType'' [''DLT_NULL'', ''DLT_EN10MB'', ''DLT_PPP'', ''DLT_RAW'', ''DLT_IEEE802_11'', ''DLT_LINUX_SLL'', ''DLT_PRISM_HEADER'', ''DLT_IEEE802_11_RADIO'', ''DLT_IEEE802_15_4'', ''DLT_NETLINK''] [(''outer_class'', Class ''ns3::PcapHelper'')],
     Add_class ''PcapHelperForDevice'' [(''allow_subclassing'', Const (CBool True))],
     Add_class ''SequenceNumber32'' [],
     Add_class ''SequenceNumber16'' [],
     Add_class ''SimpleNetDeviceHelper'' [],
     Add_class ''SimpleRefCount'' [(''automatic_type_narrowing'', Const (CBool True)),
       (''import_from_module'', Const (CStr ''ns.core'')),
       (''template_parameters'', Strs [''ns3::Object'', ''ns3::ObjectBase'', ''ns3::ObjectDeleter'']),
       (''parent'', Class ''ns3::ObjectBase''),
       (''memory_policy'', RefPolicy ''Ref'' ''Unref'' ''GetReferenceCount'')],
     Add_class ''Simulator'' [(''destructor_visibility'', Const (CStr ''private'')),
       (''import_from_module'', Const (CStr ''ns.core''))],
     Add_enum '''' [''NO_CONTEXT''] [(''outer_class'', Class ''ns3::Simulator''),
       (''import_from_module'', Const (CStr ''ns.core''))],
     Add_class ''StatisticalSummary'' [(''allow_subclassing'', Const (CBool True)),
       (''import_from_module'', Const (CStr ''ns.stats''))],
     Add_class ''SystemWallClockMs'' [(''import_from_module'', Const (CStr ''ns.core''))],
     Add_class ''Tag'' [(''parent'', Class ''ns3::ObjectBase'')],
     Add_class ''TagBuffer'' [],
     Add_class ''TimeWithUnit'' [(''import_from_module'', Const (CStr ''ns.core''))],
     Add_class ''TracedValue'' [(''import_from_module'', Const (CStr ''ns.core'')),
       (''template_parameters'', Strs [''unsigned int''])],
     Add_class ''TypeId'' [(''import_from_module'', Const (CStr ''ns.core''))]]"

definition net_register_types_5 :: "type_call list" where
  "net_register_types_5 = [
     Add_enum ''AttributeFlag'' [''ATTR_GET'', ''ATTR_SET'', ''ATTR_CONSTRUCT'', ''ATTR_SGC''] [(''outer_class'', Class ''ns3::TypeId''), (''import_from_module'', Const (CStr ''ns.core''))],
     Add_enum ''SupportLevel'' [''SUPPORTED'', ''DEPRECATED'', ''OBSOLETE''] [(''outer_class'', Class ''ns3::TypeId''), (''import_from_module'', Const (CStr ''ns.core''))],
     Add_class ''AttributeInformation'' [(''import_from_module'', Const (CStr ''ns.core'')),
       (''outer_class'', Class ''ns3::TypeId'')],
     Add_class ''TraceSourceInformation'' [(''import_from_module'', Const (CStr ''ns.core'')),
       (''outer_class'', Class ''ns3::TypeId'')],
     Add_class ''empty'' [(''import_from_module'', Const (CStr ''ns.core''))],
     Add_class ''int64x64_t'' [(''import_from_module'', Const (CStr ''ns.core''))],
     Add_enum ''impl_type'' [''int128_impl'', ''cairo_impl'', ''ld_impl''] [(''outer_class'', Class ''ns3::int64x64_t''), (''import_from_module'', Const (CStr ''ns.core''))],
     Add_class ''Chunk'' [(''parent'', Class ''ns3::ObjectBase'')],
     Add_class ''DeviceNameTag'' [(''parent'', Class ''ns3::Tag'')],
     Add_class ''FlowIdTag'' [(''parent'', Class ''ns3::Tag'')],
     Add_class ''Header'' [(''parent'', Class ''ns3::Chunk'')],
     Add_class ''LlcSnapHeader'' [(''parent'', Class ''ns3::Header'')],
     Add_class ''Object'' [(''import_from_module'', Const (CStr ''ns.core'')),
       (''parent'', Class ''ns3::SimpleRefCount< ns3::Object, ns3::ObjectBase, ns3::ObjectDeleter >'')],
     Add_class ''AggregateIterator'' [(''import_from_module'', Const (CStr ''ns.core'')),
       (''outer_class'', Class ''ns3::Object'')],
     Add_class ''PacketBurst'' [(''parent'', Class ''ns3::Object'')],
     Add_class ''PacketSocketTag'' [(''parent'', Class ''ns3::Tag'')],
     Add_class ''PcapFileWrapper'' [(''parent'', Class ''ns3::Object'')],
     Add_class ''Queue'' [(''parent'', Class ''ns3::Object'')],
     Add_enum ''QueueMode'' [''QUEUE_MODE_PACKETS'', ''QUEUE_MODE_BYTES''] [(''outer_class'', Class ''ns3::Queue'')],
     Add_class ''QueueLimits'' [(''parent'', Class ''ns3::Object'')]]"

definition net_register_types_6 :: "type_call list" where
  "net_register_types_6 = [
     Add_class ''RadiotapHeader'' [(''parent'', Class ''ns3::Header'')],
     Add_enum ''FrameFlag'' [''FRAME_FLAG_NONE'', ''FRAME_FLAG_CFP'', ''FRAME_FLAG_SHORT_PREAMBLE'', ''FRAME_FLAG_WEP'', ''FRAME_FLAG_FRAGMENTED'', ''FRAME_FLAG_FCS_INCLUDED'', ''FRAME_FLAG_DATA_PADDING'', ''FRAME_FLAG_BAD_FCS'', ''FRAME_FLAG_SHORT_GUARD''] [(''outer_class'', Class ''ns3::RadiotapHeader'')],
     Add_enum ''ChannelFlags'' [''CHANNEL_FLAG_NONE'', ''CHANNEL_FLAG_TURBO'', ''CHANNEL_FLAG_CCK'', ''CHANNEL_FLAG_OFDM'', ''CHANNEL_FLAG_SPECTRUM_2GHZ'', ''CHANNEL_FLAG_SPECTRUM_5GHZ'', ''CHANNEL_FLAG_PASSIVE'', ''CHANNEL_FLAG_DYNAMIC'', ''CHANNEL_FLAG_GFSK''] [(''outer_class'', Class ''ns3::RadiotapHeader'')],
     Add_enum ''McsKnown'' [''MCS_KNOWN_NONE'', ''MCS_KNOWN_BANDWIDTH'', ''MCS_KNOWN_INDEX'', ''MCS_KNOWN_GUARD_INTERVAL'', ''MCS_KNOWN_HT_FORMAT'', ''MCS_KNOWN_FEC_TYPE'', ''MCS_KNOWN_STBC'', ''MCS_KNOWN_NESS'', ''MCS_KNOWN_NESS_BIT_1''] [(''outer_class'', Class ''ns3::RadiotapHeader'')],
     Add_enum ''McsFlags'' [''MCS_FLAGS_NONE'', ''MCS_FLAGS_BANDWIDTH_40'', ''MCS_FLAGS_BANDWIDTH_20L'', ''MCS_FLAGS_BANDWIDTH_20U'', ''MCS_FLAGS_GUARD_INTERVAL'', ''MCS_FLAGS_HT_GREENFIELD'', ''MCS_FLAGS_FEC_TYPE'', ''MCS_FLAGS_STBC_STREAMS'', ''MCS_FLAGS_NESS_BIT_0''] [(''outer_class'', Class ''ns3::RadiotapHeader'')],
     Add_enum ''AmpduFlags'' [''A_MPDU_STATUS_NONE'', ''A_MPDU_STATUS_REPORT_ZERO_LENGTH'', ''A_MPDU_STATUS_IS_ZERO_LENGTH'', ''A_MPDU_STATUS_LAST_KNOWN'', ''A_MPDU_STATUS_LAST'', ''A_MPDU_STATUS_DELIMITER_CRC_ERROR'', ''A_MPDU_STATUS_DELIMITER_CRC_KNOWN''] [(''outer_class'', Class ''ns3::RadiotapHeader'')],
     Add_enum ''VhtKnown'' [''VHT_KNOWN_NONE'', ''VHT_KNOWN_STBC'', ''VHT_KNOWN_TXOP_PS_NOT_ALLOWED'', ''VHT_KNOWN_GUARD_INTERVAL'', ''VHT_KNOWN_SHORT_GI_NSYM_DISAMBIGUATION'', ''VHT_KNOWN_LDPC_EXTRA_OFDM_SYMBOL'', ''VHT_KNOWN_BEAMFORMED'', ''VHT_KNOWN_BANDWIDTH'', ''VHT_KNOWN_GROUP_ID'', ''VHT_KNOWN_PARTIAL_AID''] [(''outer_class'', Class ''ns3::RadiotapHeader'')],
     Add_enum ''VhtFlags'' [''VHT_FLAGS_NONE'', ''VHT_FLAGS_STBC'', ''VHT_FLAGS_TXOP_PS_NOT_ALLOWED'', ''VHT_FLAGS_GUARD_INTERVAL'', ''VHT_FLAGS_SHORT_GI_NSYM_DISAMBIGUATION'', ''VHT_FLAGS_LDPC_EXTRA_OFDM_SYMBOL'', ''VHT_FLAGS_BEAMFORMED''] [(''outer_class'', Class ''ns3::RadiotapHeader'')],
     Add_class ''RandomVariableStream'' [(''import_from_module'', Const (CStr ''ns.core'')),
       (''parent'', Class ''ns3::Object'')],
     Add_class ''SequentialRandomVariable'' [(''import_from_module'', Const (CStr ''ns.core'')),
       (''parent'', Class ''ns3::RandomVariableStream'')],
     Add_class ''SimpleRefCount'' [(''automatic_type_narrowing'', Const (CBool True)),
       (''import_from_module'', Const (CStr ''ns.core'')),
       (''template_parameters'', Strs [''ns3::AttributeAccessor'', ''ns3::empty'', ''ns3::DefaultDeleter<ns3::AttributeAccessor>'']), (''parent'', Class ''ns3::empty''), (''memory_policy'', RefPolicy ''Ref'' ''Unref'' ''GetReferenceCount'')],
     Add_class ''SimpleRefCount'' [(''automatic_type_narrowing'', Const (CBool True)),
       (''import_from_module'', Const (CStr ''ns.core'')),
       (''template_parameters'', Strs [''ns3::AttributeChecker'', ''ns3::empty'', ''ns3::DefaultDeleter<ns3::AttributeChecker>'']), (''parent'', Class ''ns3::empty''), (''memory_policy'', RefPolicy ''Ref'' ''Unref'' ''GetReferenceCount'')],
     Add_class ''SimpleRefCount'' [(''automatic_type_narrowing'', Const (CBool True)),
       (''import_from_module'', Const (CStr ''ns.core'')),
       (''template_parameters'', Strs [''ns3::AttributeValue'', ''ns3::empty'', ''ns3::DefaultDeleter<ns3::AttributeValue>'']), (''parent'', Class ''ns3::empty''), (''memory_policy'', RefPolicy ''Ref'' ''Unref'' ''GetReferenceCount'')],
     Add_class ''SimpleRefCount'' [(''automatic_type_narrowing'', Const (CBool True)),
       (''import_from_module'', Const (CStr ''ns.core'')),
       (''template_parameters'', Strs [''ns3::CallbackImplBase'', ''ns3::empty'', ''ns3::DefaultDeleter<ns3::CallbackImplBase>'']), (''parent'', Class ''ns3::empty''), (''memory_policy'', RefPolicy ''Ref'' ''Unref'' ''GetReferenceCount'')],
     Add_class ''SimpleRefCount'' [(''automatic_type_narrowing'', Const (CBool True)),
       (''import_from_module'', Const (CStr ''ns.core'')),
       (''template_parameters'', Strs [''ns3::EventImpl'', ''ns3::empty'', ''ns3::DefaultDeleter<ns3::EventImpl>'']), (''parent'', Class ''ns3::empty''), (''memory_policy'', RefPolicy ''Ref'' ''Unref'' ''GetReferenceCount'')],
     Add_class ''SimpleRefCount'' [(''automatic_type_narrowing'', Const (CBool True)),
       (''import_from_module'', Const (CStr ''ns.core'')),
       (''template_parameters'', Strs [''ns3::Hash::Implementation'', ''ns3::empty'', ''ns3::DefaultDeleter<ns3::Hash::Implementation>'']), (''parent'', Class ''ns3::empty''), (''memory_policy'', RefPolicy ''Ref'' ''Unref'' ''GetReferenceCount'')],
     Add_class ''SimpleRefCount'' [(''automatic_type_narrowing'', Const (CBool True)),
       (''template_parameters'', Strs [''ns3::NetDeviceQueue'', ''ns3::empty'', ''ns3::DefaultDeleter<ns3::NetDeviceQueue>'']), (''parent'', Class ''ns3::empty''), (''memory_policy'', RefPolicy ''Ref'' ''Unref'' ''GetReferenceCount'')],
     Add_class ''SimpleRefCount'' [(''automatic_type_narrowing'', Const (CBool True)),
       (''template_parameters'', Strs [''ns3::NixVector'', ''ns3::empty'', ''ns3::DefaultDeleter<ns3::NixVector>'']), (''parent'', Class ''ns3::empty''), (''memory_policy'', RefPolicy ''Ref'' ''Unref'' ''GetReferenceCount'')],
     Add_class ''SimpleRefCount'' [(''automatic_type_narrowing'', Const (CBool True)),
       (''template_parameters'', Strs [''ns3::OutputStreamWrapper'', ''ns3::empty'', ''ns3::DefaultDeleter<ns3::OutputStreamWrapper>'']), (''parent'', Class ''ns3::empty''), (''memory_policy'', RefPolicy ''Ref'' ''Unref'' ''GetReferenceCount'')],
     Add_class ''SimpleRefCount'' [(''automatic_type_narrowing'', Const (CBool True)),
       (''template_parameters'', Strs [''ns3::Packet'', ''ns3::empty'', ''ns3::DefaultDeleter<ns3::Packet>'']), (''parent'', Class ''ns3::empty''), (''memory_policy'', RefPolicy ''Ref'' ''Unref'' ''GetReferenceCount'')]]"

definition net_register_types_7 :: "type_call list" where
  "net_register_types_7 = [
     Add_class ''SimpleRefCount'' [(''automatic_type_narrowing'', Const (CBool True)),
       (''template_parameters'', Strs [''ns3::PbbAddressBlock'', ''ns3::empty'', ''ns3::DefaultDeleter<ns3::PbbAddressBlock>'']), (''parent'', Class ''ns3::empty''), (''memory_policy'', RefPolicy ''Ref'' ''Unref'' ''GetReferenceCount'')],
     Add_class ''SimpleRefCount'' [(''automatic_type_narrowing'', Const (CBool True)),
       (''template_parameters'', Strs [''ns3::PbbMessage'', ''ns3::empty'', ''ns3::DefaultDeleter<ns3::PbbMessage>'']), (''parent'', Class ''ns3::empty''), (''memory_policy'', RefPolicy ''Ref'' ''Unref'' ''GetReferenceCount'')],
     Add_class ''SimpleRefCount'' [(''automatic_type_narrowing'', Const (CBool True)),
       (''template_parameters'', Strs [''ns3::PbbPacket'', ''ns3::Header'', ''ns3::DefaultDeleter<ns3::PbbPacket>'']), (''parent'', Class ''ns3::Header''), (''memory_policy'', RefPolicy ''Ref'' ''Unref'' ''GetReferenceCount'')],
     Add_class ''SimpleRefCount'' [(''automatic_type_narrowing'', Const (CBool True)),
       (''template_parameters'', Strs [''ns3::PbbTlv'', ''ns3::empty'', ''ns3::DefaultDeleter<ns3::PbbTlv>'']), (''parent'', Class ''ns3::empty''), (''memory_policy'', RefPolicy ''Ref'' ''Unref'' ''GetReferenceCount'')],
     Add_class ''SimpleRefCount'' [(''automatic_type_narrowing'', Const (CBool True)),
       (''template_parameters'', Strs [''ns3::QueueItem'', ''ns3::empty'', ''ns3::DefaultDeleter<ns3::QueueItem>'']), (''parent'', Class ''ns3::empty''), (''memory_policy'', RefPolicy ''Ref'' ''Unref'' ''GetReferenceCount'')],
     Add_class ''SimpleRefCount'' [(''automatic_type_narrowing'', Const (CBool True)),
       (''import_from_module'', Const (CStr ''ns.core'')),
       (''template_parameters'', Strs [''ns3::TraceSourceAccessor'', ''ns3::empty'', ''ns3::DefaultDeleter<ns3::TraceSourceAccessor>'']), (''parent'', Class ''ns3::empty''), (''memory_policy'', RefPolicy ''Ref'' ''Unref'' ''GetReferenceCount'')],
     Add_class ''SllHeader'' [(''parent'', Class ''ns3::Header'')],
     Add_enum ''PacketType'' [''UNICAST_FROM_PEER_TO_ME'', ''BROADCAST_BY_PEER'', ''MULTICAST_BY_PEER'', ''INTERCEPTED_PACKET'', ''SENT_BY_US''] [(''outer_class'', Class ''ns3::SllHeader'')],
     Add_class ''Socket'' [(''parent'', Class ''ns3::Object'')],
     Add_enum ''SocketErrno'' [''ERROR_NOTERROR'', ''ERROR_ISCONN'', ''ERROR_NOTCONN'', ''ERROR_MSGSIZE'', ''ERROR_AGAIN'', ''ERROR_SHUTDOWN'', ''ERROR_OPNOTSUPP'', ''ERROR_AFNOSUPPORT'', ''ERROR_INVAL'', ''ERROR_BADF'', ''ERROR_NOROUTETOHOST'', ''ERROR_NODEV'', ''ERROR_ADDRNOTAVAIL'', ''ERROR_ADDRINUSE'', ''SOCKET_ERRNO_LAST''] [(''outer_class'', Class ''ns3::Socket'')],
     Add_enum ''SocketType'' [''NS3_SOCK_STREAM'', ''NS3_SOCK_SEQPACKET'', ''NS3_SOCK_DGRAM'', ''NS3_SOCK_RAW''] [(''outer_class'', Class ''ns3::Socket'')],
     Add_enum ''SocketPriority'' [''NS3_PRIO_BESTEFFORT'', ''NS3_PRIO_FILLER'', ''NS3_PRIO_BULK'', ''NS3_PRIO_INTERACTIVE_BULK'', ''NS3_PRIO_INTERACTIVE'', ''NS3_PRIO_CONTROL''] [(''outer_class'', Class ''ns3::Socket'')],
     Add_enum ''Ipv6MulticastFilterMode'' [''INCLUDE'', ''EXCLUDE''] [(''outer_class'', Class ''ns3::Socket'')],
     Add_class ''SocketFactory'' [(''parent'', Class ''ns3::Object'')],
     Add_class ''SocketIpTosTag'' [(''parent'', Class ''ns3::Tag'')],
     Add_class ''SocketIpTtlTag'' [(''parent'', Class ''ns3::Tag'')],
     Add_class ''SocketIpv6HopLimitTag'' [(''parent'', Class ''ns3::Tag'')],
     Add_class ''SocketIpv6TclassTag'' [(''parent'', Class ''ns3::Tag'')],
     Add_class ''SocketPriorityTag'' [(''parent'', Class ''ns3::Tag'')],
     Add_class ''SocketSetDontFragmentTag'' [(''parent'', Class ''ns3::Tag'')]]"

definition net_register_types_8 :: "type_call list" where
  "net_register_types_8 = [
     Add_class ''Time'' [(''import_from_module'', Const (CStr ''ns.core''))],
     Add_enum ''Unit'' [''Y'', ''D'', ''H'', ''MIN'', ''S'', ''MS'', ''US'', ''NS'', ''PS'', ''FS'', ''LAST''] [(''outer_class'', Class ''ns3::Time''), (''import_from_module'', Const (CStr ''ns.core''))],
     Implicitly_converts_to ''ns3::Time'' ''ns3::int64x64_t'',
     Add_class ''TraceSourceAccessor'' [(''import_from_module'', Const (CStr ''ns.core'')),
       (''parent'', Class ''ns3::SimpleRefCount< ns3::TraceSourceAccessor, ns3::empty, ns3::DefaultDeleter<ns3::TraceSourceAccessor> >'')],
     Add_class ''Trailer'' [(''parent'', Class ''ns3::Chunk'')],
     Add_class ''TriangularRandomVariable'' [(''import_from_module'', Const (CStr ''ns.core'')),
       (''parent'', Class ''ns3::RandomVariableStream'')],
     Add_class ''UniformRandomVariable'' [(''import_from_module'', Const (CStr ''ns.core'')),
       (''parent'', Class ''ns3::RandomVariableStream'')],
     Add_class ''WeibullRandomVariable'' [(''import_from_module'', Const (CStr ''ns.core'')),
       (''parent'', Class ''ns3::RandomVariableStream'')],
     Add_class ''ZetaRandomVariable'' [(''import_from_module'', Const (CStr ''ns.core'')),
       (''parent'', Class ''ns3::RandomVariableStream'')],
     Add_class ''ZipfRandomVariable'' [(''import_from_module'', Const (CStr ''ns.core'')),
       (''parent'', Class ''ns3::RandomVariableStream'')],
     Add_class ''Application'' [(''parent'', Class ''ns3::Object'')],
     Add_class ''AttributeAccessor'' [(''import_from_module'', Const (CStr ''ns.core'')),
       (''parent'', Class ''ns3::SimpleRefCount< ns3::AttributeAccessor, ns3::empty, ns3::DefaultDeleter<ns3::AttributeAccessor> >'')],
     Add_class ''AttributeChecker'' [(''allow_subclassing'', Const (CBool False)),
       (''automatic_type_narrowing'', Const (CBool True)), (''import_from_module'', Const (CStr ''ns.core'')),
       (''parent'', Class ''ns3::SimpleRefCount< ns3::AttributeChecker, ns3::empty, ns3::DefaultDeleter<ns3::AttributeChecker> >'')],
     Add_class ''AttributeValue'' [(''allow_subclassing'', Const (CBool False)),
       (''automatic_type_narrowing'', Const (CBool True)), (''import_from_module'', Const (CStr ''ns.core'')),
       (''parent'', Class ''ns3::SimpleRefCount< ns3::AttributeValue, ns3::empty, ns3::DefaultDeleter<ns3::AttributeValue> >'')],
     Add_class ''BooleanChecker'' [(''import_from_module'', Const (CStr ''ns.core'')),
       (''parent'', Class ''ns3::AttributeChecker'')],
     Add_class ''BooleanValue'' [(''import_from_module'', Const (CStr ''ns.core'')),
       (''parent'', Class ''ns3::AttributeValue'')],
     Add_class ''CallbackChecker'' [(''import_from_module'', Const (CStr ''ns.core'')),
       (''parent'', Class ''ns3::AttributeChecker'')],
     Add_class ''CallbackImplBase'' [(''import_from_module'', Const (CStr ''ns.core'')),
       (''parent'', Class ''ns3::SimpleRefCount< ns3::CallbackImplBase, ns3::empty, ns3::DefaultDeleter<ns3::CallbackImplBase> >'')],
     Add_class ''CallbackValue'' [(''import_from_module'', Const (CStr ''ns.core'')),
       (''parent'', Class ''ns3::AttributeValue'')],
     Add_class ''Channel'' [(''parent'', Class ''ns3::Object'')]]"

definition net_register_types_9 :: "type_call list" where
  "net_register_types_9 = [
     Add_class ''ConstantRandomVariable'' [(''import_from_module'', Const (CStr ''ns.core'')),
       (''parent'', Class ''ns3::RandomVariableStream'')],
     Add_class ''DataCalculator'' [(''import_from_module'', Const (CStr ''ns.stats'')),
       (''parent'', Class ''ns3::Object'')],
     Add_class ''DataCollectionObject'' [(''import_from_module'', Const (CStr ''ns.stats'')),
       (''parent'', Class ''ns3::Object'')],
     Add_class ''DataOutputInterface'' [(''import_from_module'', Const (CStr ''ns.stats'')),
       (''parent'', Class ''ns3::Object'')],
     Add_class ''DataRateChecker'' [(''parent'', Class ''ns3::AttributeChecker'')],
     Add_class ''DataRateValue'' [(''parent'', Class ''ns3::AttributeValue'')],
     Add_class ''DeterministicRandomVariable'' [(''import_from_module'', Const (CStr ''ns.core'')),
       (''parent'', Class ''ns3::RandomVariableStream'')],
     Add_class ''DoubleValue'' [(''import_from_module'', Const (CStr ''ns.core'')),
       (''parent'', Class ''ns3::AttributeValue'')],
     Add_class ''DropTailQueue'' [(''parent'', Class ''ns3::Queue'')],
     Add_class ''DynamicQueueLimits'' [(''parent'', Class ''ns3::QueueLimits'')],
     Add_class ''EmpiricalRandomVariable'' [(''import_from_module'', Const (CStr ''ns.core'')),
       (''parent'', Class ''ns3::RandomVariableStream'')],
     Add_class ''EmptyAttributeAccessor'' [(''import_from_module'', Const (CStr ''ns.core'')),
       (''parent'', Class ''ns3::AttributeAccessor'')],
     Add_class ''EmptyAttributeChecker'' [(''import_from_module'', Const (CStr ''ns.core'')),
       (''parent'', Class ''ns3::AttributeChecker'')],
     Add_class ''EmptyAttributeValue'' [(''import_from_module'', Const (CStr ''ns.core'')),
       (''parent'', Class ''ns3::AttributeValue'')],
     Add_class ''EnumChecker'' [(''import_from_module'', Const (CStr ''ns.core'')),
       (''parent'', Class ''ns3::AttributeChecker'')],
     Add_class ''EnumValue'' [(''import_from_module'', Const (CStr ''ns.core'')),
       (''parent'', Class ''ns3::AttributeValue'')],
     Add_class ''ErlangRandomVariable'' [(''import_from_module'', Const (CStr ''ns.core'')),
       (''parent'', Class ''ns3::RandomVariableStream'')],
     Add_class ''ErrorModel'' [(''parent'', Class ''ns3::Object'')],
     Add_class ''EthernetHeader'' [(''parent'', Class ''ns3::Header'')],
     Add_class ''EthernetTrailer'' [(''parent'', Class ''ns3::Trailer'')]]"

definition net_register_types_10 :: "type_call list" where
  "net_register_types_10 = [
     Add_class ''EventImpl'' [(''import_from_module'', Const (CStr ''ns.core'')),
       (''parent'', Class ''ns3::SimpleRefCount< ns3::EventImpl, ns3::empty, ns3::DefaultDeleter<ns3::EventImpl> >'')],
     Add_class ''ExponentialRandomVariable'' [(''import_from_module'', Const (CStr ''ns.core'')),
       (''parent'', Class ''ns3::RandomVariableStream'')],
     Add_class ''GammaRandomVariable'' [(''import_from_module'', Const (CStr ''ns.core'')),
       (''parent'', Class ''ns3::RandomVariableStream'')],
     Add_class ''IntegerValue'' [(''import_from_module'', Const (CStr ''ns.core'')),
       (''parent'', Class ''ns3::AttributeValue'')],
     Add_class ''Ipv4AddressChecker'' [(''parent'', Class ''ns3::AttributeChecker'')],
     Add_class ''Ipv4AddressValue'' [(''parent'', Class ''ns3::AttributeValue'')],
     Add_class ''Ipv4MaskChecker'' [(''parent'', Class ''ns3::AttributeChecker'')],
     Add_class ''Ipv4MaskValue'' [(''parent'', Class ''ns3::AttributeValue'')],
     Add_class ''Ipv6AddressChecker'' [(''parent'', Class ''ns3::AttributeChecker'')],
     Add_class ''Ipv6AddressValue'' [(''parent'', Class ''ns3::AttributeValue'')],
     Add_class ''Ipv6PrefixChecker'' [(''parent'', Class ''ns3::AttributeChecker'')],
     Add_class ''Ipv6PrefixValue'' [(''parent'', Class ''ns3::AttributeValue'')],
     Add_class ''ListErrorModel'' [(''parent'', Class ''ns3::ErrorModel'')],
     Add_class ''LogNormalRandomVariable'' [(''import_from_module'', Const (CStr ''ns.core'')),
       (''parent'', Class ''ns3::RandomVariableStream'')],
     Add_class ''Mac16AddressChecker'' [(''parent'', Class ''ns3::AttributeChecker'')],
     Add_class ''Mac16AddressValue'' [(''parent'', Class ''ns3::AttributeValue'')],
     Add_class ''Mac48AddressChecker'' [(''parent'', Class ''ns3::AttributeChecker'')],
     Add_class ''Mac48AddressValue'' [(''parent'', Class ''ns3::AttributeValue'')],
     Add_class ''Mac64AddressChecker'' [(''parent'', Class ''ns3::AttributeChecker'')],
     Add_class ''Mac64AddressValue'' [(''parent'', Class ''ns3::AttributeValue'')]]"

definition net_register_types_11 :: "type_call list" where
  "net_register_types_11 = [
     Add_class ''MinMaxAvgTotalCalculator'' [(''import_from_module'', Const (CStr ''ns.stats'')),
       (''template_parameters'', Strs [''unsigned int'']),
       (''parent'', Classes [''ns3::DataCalculator'', ''ns3::StatisticalSummary''])],
     Add_class ''NetDevice'' [(''parent'', Class ''ns3::Object'')],
     Add_enum ''PacketType'' [''PACKET_HOST'', ''NS3_PACKET_HOST'', ''PACKET_BROADCAST'', ''NS3_PACKET_BROADCAST'', ''PACKET_MULTICAST'', ''NS3_PACKET_MULTICAST'', ''PACKET_OTHERHOST'', ''NS3_PACKET_OTHERHOST''] [(''outer_class'', Class ''ns3::NetDevice'')],
     Add_class ''NetDeviceQueue'' [(''parent'', Class ''ns3::SimpleRefCount< ns3::NetDeviceQueue, ns3::empty, ns3::DefaultDeleter<ns3::NetDeviceQueue> >'')],
     Add_class ''NetDeviceQueueInterface'' [(''parent'', Class ''ns3::Object'')],
     Add_class ''NixVector'' [(''parent'', Class ''ns3::SimpleRefCount< ns3::NixVector, ns3::empty, ns3::DefaultDeleter<ns3::NixVector> >'')],
     Add_class ''Node'' [(''parent'', Class ''ns3::Object'')],
     Add_class ''NormalRandomVariable'' [(''import_from_module'', Const (CStr ''ns.core'')),
       (''parent'', Class ''ns3::RandomVariableStream'')],
     Add_class ''ObjectFactoryChecker'' [(''import_from_module'', Const (CStr ''ns.core'')),
       (''parent'', Class ''ns3::AttributeChecker'')],
     Add_class ''ObjectFactoryValue'' [(''import_from_module'', Const (CStr ''ns.core'')),
       (''parent'', Class ''ns3::AttributeValue'')],
     Add_class ''OutputStreamWrapper'' [(''parent'', Class ''ns3::SimpleRefCount< ns3::OutputStreamWrapper, ns3::empty, ns3::DefaultDeleter<ns3::OutputStreamWrapper> >'')],
     Add_class ''Packet'' [(''parent'', Class ''ns3::SimpleRefCount< ns3::Packet, ns3::empty, ns3::DefaultDeleter<ns3::Packet> >'')],
     Add_class ''PacketSizeMinMaxAvgTotalCalculator'' [(''parent'', Class ''ns3::MinMaxAvgTotalCalculator< unsigned int >'')],
     Add_class ''PacketSocket'' [(''parent'', Class ''ns3::Socket'')],
     Add_class ''PacketSocketClient'' [(''parent'', Class ''ns3::Application'')],
     Add_class ''PacketSocketFactory'' [(''parent'', Class ''ns3::SocketFactory'')],
     Add_class ''PacketSocketServer'' [(''parent'', Class ''ns3::Application'')],
     Add_class ''ParetoRandomVariable'' [(''import_from_module'', Const (CStr ''ns.core'')),
       (''parent'', Class ''ns3::RandomVariableStream'')],
     Add_class ''PbbAddressBlock'' [(''parent'', Class ''ns3::SimpleRefCount< ns3::PbbAddressBlock, ns3::empty, ns3::DefaultDeleter<ns3::PbbAddressBlock> >'')],
     Add_class ''PbbAddressBlockIpv4'' [(''parent'', Class ''ns3::PbbAddressBlock'')]]"

definition net_register_types_12 :: "type_call list" where
  "net_register_types_12 = [
     Add_class ''PbbAddressBlockIpv6'' [(''parent'', Class ''ns3::PbbAddressBlock'')],
     Add_class ''PbbMessage'' [(''parent'', Class ''ns3::SimpleRefCount< ns3::PbbMessage, ns3::empty, ns3::DefaultDeleter<ns3::PbbMessage> >'')],
     Add_class ''PbbMessageIpv4'' [(''parent'', Class ''ns3::PbbMessage'')],
     Add_class ''PbbMessageIpv6'' [(''parent'', Class ''ns3::PbbMessage'')],
     Add_class ''PbbPacket'' [(''parent'', Class ''ns3::SimpleRefCount< ns3::PbbPacket, ns3::Header, ns3::DefaultDeleter<ns3::PbbPacket> >'')],
     Add_class ''PbbTlv'' [(''parent'', Class ''ns3::SimpleRefCount< ns3::PbbTlv, ns3::empty, ns3::DefaultDeleter<ns3::PbbTlv> >'')],
     Add_class ''Probe'' [(''import_from_module'', Const (CStr ''ns.stats'')),
       (''parent'', Class ''ns3::DataCollectionObject'')],
     Add_class ''QueueItem'' [(''parent'', Class ''ns3::SimpleRefCount< ns3::QueueItem, ns3::empty, ns3::DefaultDeleter<ns3::QueueItem> >'')],
     Add_enum ''Uint8Values'' [''IP_DSFIELD''] [(''outer_class'', Class ''ns3::QueueItem'')],
     Add_class ''RateErrorModel'' [(''parent'', Class ''ns3::ErrorModel'')],
     Add_enum ''ErrorUnit'' [''ERROR_UNIT_BIT'', ''ERROR_UNIT_BYTE'', ''ERROR_UNIT_PACKET''] [(''outer_class'', Class ''ns3::RateErrorModel'')],
     Add_class ''ReceiveListErrorModel'' [(''parent'', Class ''ns3::ErrorModel'')],
     Add_class ''SimpleChannel'' [(''parent'', Class ''ns3::Channel'')],
     Add_class ''SimpleNetDevice'' [(''parent'', Class ''ns3::NetDevice'')],
     Add_class ''TimeValue'' [(''import_from_module'', Const (CStr ''ns.core'')),
       (''parent'', Class ''ns3::AttributeValue'')],
     Add_class ''TypeIdChecker'' [(''import_from_module'', Const (CStr ''ns.core'')),
       (''parent'', Class ''ns3::AttributeChecker'')],
     Add_class ''TypeIdValue'' [(''import_from_module'', Const (CStr ''ns.core'')),
       (''parent'', Class ''ns3::AttributeValue'')],
     Add_class ''UintegerValue'' [(''import_from_module'', Const (CStr ''ns.core'')),
       (''parent'', Class ''ns3::AttributeValue'')],
     Add_class ''AddressChecker'' [(''parent'', Class ''ns3::AttributeChecker'')],
     Add_class ''AddressValue'' [(''parent'', Class ''ns3::AttributeValue'')]]"

definition net_register_types_13 :: "type_call list" where
  "net_register_types_13 = [
     Add_class ''BurstErrorModel'' [(''parent'', Class ''ns3::ErrorModel'')],
     Add_class ''CounterCalculator'' [(''import_from_module'', Const (CStr ''ns.stats'')),
       (''template_parameters'', Strs [''unsigned int'']), (''parent'', Class ''ns3::DataCalculator'')],
     Add_class ''PacketCounterCalculator'' [(''parent'', Class ''ns3::CounterCalculator< unsigned int >'')],
     Add_class ''PacketProbe'' [(''parent'', Class ''ns3::Probe'')],
     Add_class ''PbbAddressTlv'' [(''parent'', Class ''ns3::PbbTlv'')],
     Add_container ''std::list< ns3::Ptr< ns3::Packet > >'' ''ns3::Ptr< ns3::Packet >'' [(''container_type'', CStr ''list'')],
     Add_container ''std::vector< ns3::Ipv6Address >'' ''ns3::Ipv6Address'' [(''container_type'', CStr ''vector'')],
     Add_container ''std::list< unsigned int >'' ''unsigned int'' [(''container_type'', CStr ''list'')],
     Add_type_alias ''ns3::Callback< void, ns3::Ptr< ns3::Packet const >, ns3::empty, ns3::empty, ns3::empty, ns3::empty, ns3::empty, ns3::empty, ns3::empty, ns3::empty >'' ''ns3::GenericPhyTxEndCallback'',
     Add_type_alias ''ns3::Callback< void, ns3::Ptr< ns3::Packet const >, ns3::empty, ns3::empty, ns3::empty, ns3::empty, ns3::empty, ns3::empty, ns3::empty, ns3::empty >*'' ''ns3::GenericPhyTxEndCallback*'',
     Add_type_alias ''ns3::Callback< void, ns3::Ptr< ns3::Packet const >, ns3::empty, ns3::empty, ns3::empty, ns3::empty, ns3::empty, ns3::empty, ns3::empty, ns3::empty >&'' ''ns3::GenericPhyTxEndCallback&'',
     Add_type_alias ''ns3::SequenceNumber< unsigned short, short >'' ''ns3::SequenceNumber16'',
     Add_type_alias ''ns3::SequenceNumber< unsigned short, short >*'' ''ns3::SequenceNumber16*'',
     Add_type_alias ''ns3::SequenceNumber< unsigned short, short >&'' ''ns3::SequenceNumber16&'',
     Add_type_alias ''ns3::SequenceNumber< unsigned int, int >'' ''ns3::SequenceNumber32'',
     Add_type_alias ''ns3::SequenceNumber< unsigned int, int >*'' ''ns3::SequenceNumber32*'',
     Add_type_alias ''ns3::SequenceNumber< unsigned int, int >&'' ''ns3::SequenceNumber32&'',
     Add_type_alias ''ns3::Callback< void, ns3::empty, ns3::empty, ns3::empty, ns3::empty, ns3::empty, ns3::empty, ns3::empty, ns3::empty, ns3::empty >'' ''ns3::GenericPhyRxStartCallback'',
     Add_type_alias ''ns3::Callback< void, ns3::empty, ns3::empty, ns3::empty, ns3::empty, ns3::empty, ns3::empty, ns3::empty, ns3::empty, ns3::empty >*'' ''ns3::GenericPhyRxStartCallback*'',
     Add_type_alias ''ns3::Callback< void, ns3::empty, ns3::empty, ns3::empty, ns3::empty, ns3::empty, ns3::empty, ns3::empty, ns3::empty, ns3::empty >&'' ''ns3::GenericPhyRxStartCallback&'',
     Add_type_alias ''ns3::SequenceNumber< unsigned char, signed char >'' ''ns3::SequenceNumber8'',
     Add_type_alias ''ns3::SequenceNumber< unsigned char, signed char >*'' ''ns3::SequenceNumber8*'',
     Add_type_alias ''ns3::SequenceNumber< unsigned char, signed char >&'' ''ns3::SequenceNumber8&'',
     Add_type_alias ''ns3::Callback< void, ns3::empty, ns3::empty, ns3::empty, ns3::empty, ns3::empty, ns3::empty, ns3::empty, ns3::empty, ns3::empty >'' ''ns3::GenericPhyRxEndErrorCallback'',
     Add_type_alias ''ns3::Callback< void, ns3::empty, ns3::empty, ns3::empty, ns3::empty, ns3::empty, ns3::empty, ns3::empty, ns3::empty, ns3::empty >*'' ''ns3::GenericPhyRxEndErrorCallback*'',
     Add_type_alias ''ns3::Callback< void, ns3::empty, ns3::empty, ns3::empty, ns3::empty, ns3::empty, ns3::empty, ns3::empty, ns3::empty, ns3::empty >&'' ''ns3::GenericPhyRxEndErrorCallback&'',
     Add_type_alias ''ns3::Callback< bool, ns3::Ptr< ns3::Packet >, ns3::empty, ns3::empty, ns3::empty, ns3::empty, ns3::empty, ns3::empty, ns3::empty, ns3::empty >'' ''ns3::GenericPhyTxStartCallback'',
     Add_type_alias ''ns3::Callback< bool, ns3::Ptr< ns3::Packet >, ns3::empty, ns3::empty, ns3::empty, ns3::empty, ns3::empty, ns3::empty, ns3::empty, ns3::empty >*'' ''ns3::GenericPhyTxStartCallback*'',
     Add_type_alias ''ns3::Callback< bool, ns3::Ptr< ns3::Packet >, ns3::empty, ns3::empty, ns3::empty, ns3::empty, ns3::empty, ns3::empty, ns3::empty, ns3::empty >&'' ''ns3::GenericPhyTxStartCallback&'',
     Add_type_alias ''ns3::Callback< void, ns3::Ptr< ns3::Packet >, ns3::empty, ns3::empty, ns3::empty, ns3::empty, ns3::empty, ns3::empty, ns3::empty, ns3::empty >'' ''ns3::GenericPhyRxEndOkCallback'',
     Add_type_alias ''ns3::Callback< void, ns3::Ptr< ns3::Packet >, ns3::empty, ns3::empty, ns3::empty, ns3::empty, ns3::empty, ns3::empty, ns3::empty, ns3::empty >*'' ''ns3::GenericPhyRxEndOkCallback*'',
     Add_type_alias ''ns3::Callback< void, ns3::Ptr< ns3::Packet >, ns3::empty, ns3::empty, ns3::empty, ns3::empty, ns3::empty, ns3::empty, ns3::empty, ns3::empty >&'' ''ns3::GenericPhyRxEndOkCallback&'']"

definition net_register_types_14 :: "type_call list" where
  "net_register_types_14 = [
     Nested ''FatalImpl'' register_types_ns3_FatalImpl,
     Nested ''Hash'' register_types_ns3_Hash,
     Nested ''TracedValueCallback'' net_register_types_ns3_TracedValueCallback,
     Nested ''addressUtils'' register_types_ns3_addressUtils,
     Nested ''internal'' register_types_ns3_internal]"

definition net_register_types :: "type_call list" where
  "net_register_types = net_register_types_1 @ net_register_types_2 @ net_register_types_3 @ net_register_types_4 @ net_register_types_5 @ net_register_types_6 @ net_register_types_7 @ net_register_types_8 @ net_register_types_9 @ net_register_types_10 @ net_register_types_11 @ net_register_types_12 @ net_register_types_13 @ net_register_types_14"

end
