(* ===== verification/Network_Methods_1.thy ===== *)
theory Network_Methods_1
  imports Pybindgen
begin

text \<open>
  Part 1 of the functions that register the members of the classes of the network module,
  from \<open>register_Ns3Address_methods\<close> to \<open>register_Ns3NodeContainer_methods\<close> of
  \<open>network/bindings/modulegen__gcc_LP64.py\<close>, without those that the traffic-control script
  has as well: the calls on \<open>cls\<close> in the order of the source.
\<close>

definition net_register_Ns3Address_methods :: "class_call list" where
  "net_register_Ns3Address_methods = [
     Add_binary_comparison_operator ''!='',
     Add_binary_comparison_operator ''<'',
     Add_output_stream_operator,
     Add_binary_comparison_operator ''=='',
     Add_constructor [] [],
     Add_constructor [Param ''uint8_t'' ''type'' [], Param ''uint8_t const *'' ''buffer'' [],
       Param ''uint8_t'' ''len'' []] [],
     Add_constructor [Param ''ns3::Address const &'' ''address'' []] [],
     Add_method ''CheckCompatible'' ''bool'' [Param ''uint8_t'' ''type'' [],
       Param ''uint8_t'' ''len'' []] [(''is_const'', CBool True)],
     Add_method ''CopyAllFrom'' ''uint32_t'' [Param ''uint8_t const *'' ''buffer'' [],
       Param ''uint8_t'' ''len'' []] [],
     Add_method ''CopyAllTo'' ''uint32_t'' [Param ''uint8_t *'' ''buffer'' [],
       Param ''uint8_t'' ''len'' []] [(''is_const'', CBool True)],
     Add_method ''CopyFrom'' ''uint32_t'' [Param ''uint8_t const *'' ''buffer'' [],
       Param ''uint8_t'' ''len'' []] [],
     Add_method ''CopyTo'' ''uint32_t'' [Param ''uint8_t *'' ''buffer'' []] [(''is_const'', CBool True)],
     Add_method ''Deserialize'' ''void'' [Param ''ns3::TagBuffer'' ''buffer'' []] [],
     Add_method ''GetLength'' ''uint8_t'' [] [(''is_const'', CBool True)],
     Add_method ''GetSerializedSize'' ''uint32_t'' [] [(''is_const'', CBool True)],
     Add_method ''IsInvalid'' ''bool'' [] [(''is_const'', CBool True)],
     Add_method ''IsMatchingType'' ''bool'' [Param ''uint8_t'' ''type'' []] [(''is_const'', CBool True)],
     Add_method ''Register'' ''uint8_t'' [] [(''is_static'', CBool True)],
     Add_method ''Serialize'' ''void'' [Param ''ns3::TagBuffer'' ''buffer'' []] [(''is_const'', CBool True)]]"

definition register_Ns3ApplicationContainer_methods :: "class_call list" where
  "register_Ns3ApplicationContainer_methods = [
     Add_constructor [Param ''ns3::ApplicationContainer const &'' ''arg0'' []] [],
     Add_constructor [] [],
     Add_constructor [Param ''ns3::Ptr< ns3::Application >'' ''application'' []] [],
     Add_constructor [Param ''std::string'' ''name'' []] [],
     Add_method ''Add'' ''void'' [Param ''ns3::ApplicationContainer'' ''other'' []] [],
     Add_method ''Add'' ''void'' [Param ''ns3::Ptr< ns3::Application >'' ''application'' []] [],
     Add_method ''Add'' ''void'' [Param ''std::string'' ''name'' []] [],
     Add_method ''Begin'' ''__gnu_cxx::__normal_iterator< ns3::Ptr< ns3::Application > const, std::vector< ns3::Ptr< ns3::Application > > >'' [] [(''is_const'', CBool True)],
     Add_method ''End'' ''__gnu_cxx::__normal_iterator< ns3::Ptr< ns3::Application > const, std::vector< ns3::Ptr< ns3::Application > > >'' [] [(''is_const'', CBool True)],
     Add_method ''Get'' ''ns3::Ptr< ns3::Application >'' [Param ''uint32_t'' ''i'' []] [(''is_const'', CBool True)],
     Add_method ''GetN'' ''uint32_t'' [] [(''is_const'', CBool True)],
     Add_method ''Start'' ''void'' [Param ''ns3::Time'' ''start'' []] [],
     Add_method ''Stop'' ''void'' [Param ''ns3::Time'' ''stop'' []] []]"

definition register_Ns3AsciiFile_methods :: "class_call list" where
  "register_Ns3AsciiFile_methods = [
     Add_constructor [] [],
     Add_method ''Fail'' ''bool'' [] [(''is_const'', CBool True)],
     Add_method ''Eof'' ''bool'' [] [(''is_const'', CBool True)],
     Add_method ''Open'' ''void'' [Param ''std::string const &'' ''filename'' [],
       Param ''std::_Ios_Openmode'' ''mode'' []] [],
     Add_method ''Close'' ''void'' [] [],
     Add_method ''Read'' ''void'' [Param ''std::string &'' ''line'' []] [],
     Add_method ''Diff'' ''bool'' [Param ''std::string const &'' ''f1'' [],
       Param ''std::string const &'' ''f2'' [],
       Param ''uint64_t &'' ''lineNumber'' []] [(''is_static'', CBool True)]]"

definition register_Ns3AsciiTraceHelper_methods :: "class_call list" where
  "register_Ns3AsciiTraceHelper_methods = [
     Add_constructor [Param ''ns3::AsciiTraceHelper const &'' ''arg0'' []] [],
     Add_constructor [] [],
     Add_method ''CreateFileStream'' ''ns3::Ptr< ns3::OutputStreamWrapper >'' [Param ''std::string'' ''filename'' [], Param ''std::_Ios_Openmode'' ''filemode'' [(''default_value'', CStr ''std::ios_base::out'')]] [],
     Add_method ''DefaultDequeueSinkWithContext'' ''void'' [Param ''ns3::Ptr< ns3::OutputStreamWrapper >'' ''file'' [], Param ''std::string'' ''context'' [], Param ''ns3::Ptr< ns3::Packet const >'' ''p'' []] [(''is_static'', CBool True)],
     Add_method ''DefaultDequeueSinkWithoutContext'' ''void'' [Param ''ns3::Ptr< ns3::OutputStreamWrapper >'' ''file'' [], Param ''ns3::Ptr< ns3::Packet const >'' ''p'' []] [(''is_static'', CBool True)],
     Add_method ''DefaultDropSinkWithContext'' ''void'' [Param ''ns3::Ptr< ns3::OutputStreamWrapper >'' ''file'' [], Param ''std::string'' ''context'' [], Param ''ns3::Ptr< ns3::Packet const >'' ''p'' []] [(''is_static'', CBool True)],
     Add_method ''DefaultDropSinkWithoutContext'' ''void'' [Param ''ns3::Ptr< ns3::OutputStreamWrapper >'' ''file'' [], Param ''ns3::Ptr< ns3::Packet const >'' ''p'' []] [(''is_static'', CBool True)],
     Add_method ''DefaultEnqueueSinkWithContext'' ''void'' [Param ''ns3::Ptr< ns3::OutputStreamWrapper >'' ''file'' [], Param ''std::string'' ''context'' [], Param ''ns3::Ptr< ns3::Packet const >'' ''p'' []] [(''is_static'', CBool True)],
     Add_method ''DefaultEnqueueSinkWithoutContext'' ''void'' [Param ''ns3::Ptr< ns3::OutputStreamWrapper >'' ''file'' [], Param ''ns3::Ptr< ns3::Packet const >'' ''p'' []] [(''is_static'', CBool True)],
     Add_method ''DefaultReceiveSinkWithContext'' ''void'' [Param ''ns3::Ptr< ns3::OutputStreamWrapper >'' ''file'' [], Param ''std::string'' ''context'' [], Param ''ns3::Ptr< ns3::Packet const >'' ''p'' []] [(''is_static'', CBool True)],
     Add_method ''DefaultReceiveSinkWithoutContext'' ''void'' [Param ''ns3::Ptr< ns3::OutputStreamWrapper >'' ''file'' [], Param ''ns3::Ptr< ns3::Packet const >'' ''p'' []] [(''is_static'', CBool True)],
     Add_method ''GetFilenameFromDevice'' ''std::string'' [Param ''std::string'' ''prefix'' [],
       Param ''ns3::Ptr< ns3::NetDevice >'' ''device'' [],
       Param ''bool'' ''useObjectNames'' [(''default_value'', CStr ''true'')]] [],
     Add_method ''GetFilenameFromInterfacePair'' ''std::string'' [Param ''std::string'' ''prefix'' [],
       Param ''ns3::Ptr< ns3::Object >'' ''object'' [], Param ''uint32_t'' ''interface'' [],
       Param ''bool'' ''useObjectNames'' [(''default_value'', CStr ''true'')]] []]"

definition register_Ns3AsciiTraceHelperForDevice_methods :: "class_call list" where
  "register_Ns3AsciiTraceHelperForDevice_methods = [
     Add_constructor [Param ''ns3::AsciiTraceHelperForDevice const &'' ''arg0'' []] [],
     Add_constructor [] [],
     Add_method ''EnableAscii'' ''void'' [Param ''std::string'' ''prefix'' [],
       Param ''ns3::Ptr< ns3::NetDevice >'' ''nd'' [],
       Param ''bool'' ''explicitFilename'' [(''default_value'', CStr ''false'')]] [],
     Add_method ''EnableAscii'' ''void'' [Param ''ns3::Ptr< ns3::OutputStreamWrapper >'' ''stream'' [],
       Param ''ns3::Ptr< ns3::NetDevice >'' ''nd'' []] [],
     Add_method ''EnableAscii'' ''void'' [Param ''std::string'' ''prefix'' [],
       Param ''std::string'' ''ndName'' [],
       Param ''bool'' ''explicitFilename'' [(''default_value'', CStr ''false'')]] [],
     Add_method ''EnableAscii'' ''void'' [Param ''ns3::Ptr< ns3::OutputStreamWrapper >'' ''stream'' [],
       Param ''std::string'' ''ndName'' []] [],
     Add_method ''EnableAscii'' ''void'' [Param ''std::string'' ''prefix'' [],
       Param ''ns3::NetDeviceContainer'' ''d'' []] [],
     Add_method ''EnableAscii'' ''void'' [Param ''ns3::Ptr< ns3::OutputStreamWrapper >'' ''stream'' [],
       Param ''ns3::NetDeviceContainer'' ''d'' []] [],
     Add_method ''EnableAscii'' ''void'' [Param ''std::string'' ''prefix'' [],
       Param ''ns3::NodeContainer'' ''n'' []] [],
     Add_method ''EnableAscii'' ''void'' [Param ''ns3::Ptr< ns3::OutputStreamWrapper >'' ''stream'' [],
       Param ''ns3::NodeContainer'' ''n'' []] [],
     Add_method ''EnableAscii'' ''void'' [Param ''std::string'' ''prefix'' [],
       Param ''uint32_t'' ''nodeid'' [], Param ''uint32_t'' ''deviceid'' [],
       Param ''bool'' ''explicitFilename'' []] [],
     Add_method ''EnableAscii'' ''void'' [Param ''ns3::Ptr< ns3::OutputStreamWrapper >'' ''stream'' [],
       Param ''uint32_t'' ''nodeid'' [], Param ''uint32_t'' ''deviceid'' []] [],
     Add_method ''EnableAsciiAll'' ''void'' [Param ''std::string'' ''prefix'' []] [],
     Add_method ''EnableAsciiAll'' ''void'' [Param ''ns3::Ptr< ns3::OutputStreamWrapper >'' ''stream'' []] [],
     Add_method ''EnableAsciiInternal'' ''void'' [Param ''ns3::Ptr< ns3::OutputStreamWrapper >'' ''stream'' [], Param ''std::string'' ''prefix'' [], Param ''ns3::Ptr< ns3::NetDevice >'' ''nd'' [], Param ''bool'' ''explicitFilename'' []] [(''is_pure_virtual'', CBool True), (''is_virtual'', CBool True)]]"

definition register_Ns3ChannelList_methods :: "class_call list" where
  "register_Ns3ChannelList_methods = [
     Add_constructor [] [],
     Add_constructor [Param ''ns3::ChannelList const &'' ''arg0'' []] [],
     Add_method ''Add'' ''uint32_t'' [Param ''ns3::Ptr< ns3::Channel >'' ''channel'' []] [(''is_static'', CBool True)],
     Add_method ''Begin'' ''__gnu_cxx::__normal_iterator< ns3::Ptr< ns3::Channel > const, std::vector< ns3::Ptr< ns3::Channel > > >'' [] [(''is_static'', CBool True)],
     Add_method ''End'' ''__gnu_cxx::__normal_iterator< ns3::Ptr< ns3::Channel > const, std::vector< ns3::Ptr< ns3::Channel > > >'' [] [(''is_static'', CBool True)],
     Add_method ''GetChannel'' ''ns3::Ptr< ns3::Channel >'' [Param ''uint32_t'' ''n'' []] [(''is_static'', CBool True)],
     Add_method ''GetNChannels'' ''uint32_t'' [] [(''is_static'', CBool True)]]"

definition register_Ns3DataOutputCallback_methods :: "class_call list" where
  "register_Ns3DataOutputCallback_methods = [
     Add_constructor [] [],
     Add_constructor [Param ''ns3::DataOutputCallback const &'' ''arg0'' []] [],
     Add_method ''OutputSingleton'' ''void'' [Param ''std::string'' ''key'' [],
       Param ''std::string'' ''variable'' [], Param ''int'' ''val'' []] [(''is_pure_virtual'', CBool True),
       (''is_virtual'', CBool True)],
     Add_method ''OutputSingleton'' ''void'' [Param ''std::string'' ''key'' [],
       Param ''std::string'' ''variable'' [],
       Param ''uint32_t'' ''val'' []] [(''is_pure_virtual'', CBool True), (''is_virtual'', CBool True)],
     Add_method ''OutputSingleton'' ''void'' [Param ''std::string'' ''key'' [],
       Param ''std::string'' ''variable'' [], Param ''double'' ''val'' []] [(''is_pure_virtual'', CBool True),
       (''is_virtual'', CBool True)],
     Add_method ''OutputSingleton'' ''void'' [Param ''std::string'' ''key'' [],
       Param ''std::string'' ''variable'' [],
       Param ''std::string'' ''val'' []] [(''is_pure_virtual'', CBool True), (''is_virtual'', CBool True)],
     Add_method ''OutputSingleton'' ''void'' [Param ''std::string'' ''key'' [],
       Param ''std::string'' ''variable'' [],
       Param ''ns3::Time'' ''val'' []] [(''is_pure_virtual'', CBool True), (''is_virtual'', CBool True)],
     Add_method ''OutputStatistic'' ''void'' [Param ''std::string'' ''key'' [],
       Param ''std::string'' ''variable'' [],
       Param ''ns3::StatisticalSummary const *'' ''statSum'' []] [(''is_pure_virtual'', CBool True),
       (''is_virtual'', CBool True)]]"

definition register_Ns3DelayJitterEstimation_methods :: "class_call list" where
  "register_Ns3DelayJitterEstimation_methods = [
     Add_constructor [Param ''ns3::DelayJitterEstimation const &'' ''arg0'' []] [],
     Add_constructor [] [],
     Add_method ''GetLastDelay'' ''ns3::Time'' [] [(''is_const'', CBool True)],
     Add_method ''GetLastJitter'' ''uint64_t'' [] [(''is_const'', CBool True)],
     Add_method ''PrepareTx'' ''void'' [Param ''ns3::Ptr< ns3::Packet const >'' ''packet'' []] [(''is_static'', CBool True)],
     Add_method ''RecordRx'' ''void'' [Param ''ns3::Ptr< ns3::Packet const >'' ''packet'' []] []]"

definition register_Ns3Inet6SocketAddress_methods :: "class_call list" where
  "register_Ns3Inet6SocketAddress_methods = [
     Add_constructor [Param ''ns3::Inet6SocketAddress const &'' ''arg0'' []] [],
     Add_constructor [Param ''ns3::Ipv6Address'' ''ipv6'' [], Param ''uint16_t'' ''port'' []] [],
     Add_constructor [Param ''ns3::Ipv6Address'' ''ipv6'' []] [],
     Add_constructor [Param ''uint16_t'' ''port'' []] [],
     Add_constructor [Param ''char const *'' ''ipv6'' [], Param ''uint16_t'' ''port'' []] [],
     Add_constructor [Param ''char const *'' ''ipv6'' []] [],
     Add_method ''ConvertFrom'' ''ns3::Inet6SocketAddress'' [Param ''ns3::Address const &'' ''addr'' []] [(''is_static'', CBool True)],
     Add_method ''GetIpv6'' ''ns3::Ipv6Address'' [] [(''is_const'', CBool True)],
     Add_method ''GetPort'' ''uint16_t'' [] [(''is_const'', CBool True)],
     Add_method ''IsMatchingType'' ''bool'' [Param ''ns3::Address const &'' ''addr'' []] [(''is_static'', CBool True)],
     Add_method ''SetIpv6'' ''void'' [Param ''ns3::Ipv6Address'' ''ipv6'' []] [],
     Add_method ''SetPort'' ''void'' [Param ''uint16_t'' ''port'' []] []]"

definition register_Ns3InetSocketAddress_methods :: "class_call list" where
  "register_Ns3InetSocketAddress_methods = [
     Add_constructor [Param ''ns3::InetSocketAddress const &'' ''arg0'' []] [],
     Add_constructor [Param ''ns3::Ipv4Address'' ''ipv4'' [], Param ''uint16_t'' ''port'' []] [],
     Add_constructor [Param ''ns3::Ipv4Address'' ''ipv4'' []] [],
     Add_constructor [Param ''uint16_t'' ''port'' []] [],
     Add_constructor [Param ''char const *'' ''ipv4'' [], Param ''uint16_t'' ''port'' []] [],
     Add_constructor [Param ''char const *'' ''ipv4'' []] [],
     Add_method ''ConvertFrom'' ''ns3::InetSocketAddress'' [Param ''ns3::Address const &'' ''address'' []] [(''is_static'', CBool True)],
     Add_method ''GetIpv4'' ''ns3::Ipv4Address'' [] [(''is_const'', CBool True)],
     Add_method ''GetPort'' ''uint16_t'' [] [(''is_const'', CBool True)],
     Add_method ''GetTos'' ''uint8_t'' [] [(''is_const'', CBool True)],
     Add_method ''IsMatchingType'' ''bool'' [Param ''ns3::Address const &'' ''address'' []] [(''is_static'', CBool True)],
     Add_method ''SetIpv4'' ''void'' [Param ''ns3::Ipv4Address'' ''address'' []] [],
     Add_method ''SetPort'' ''void'' [Param ''uint16_t'' ''port'' []] [],
     Add_method ''SetTos'' ''void'' [Param ''uint8_t'' ''tos'' []] []]"

definition net_register_Ns3Ipv4Address_methods :: "class_call list" where
  "net_register_Ns3Ipv4Address_methods = [
     Add_binary_comparison_operator ''!='',
     Add_binary_comparison_operator ''<'',
     Add_output_stream_operator,
     Add_binary_comparison_operator ''=='',
     Add_constructor [Param ''ns3::Ipv4Address const &'' ''arg0'' []] [],
     Add_constructor [] [],
     Add_constructor [Param ''uint32_t'' ''address'' []] [],
     Add_constructor [Param ''char const *'' ''address'' []] [],
     Add_method ''CombineMask'' ''ns3::Ipv4Address'' [Param ''ns3::Ipv4Mask const &'' ''mask'' []] [(''is_const'', CBool True)],
     Add_method ''ConvertFrom'' ''ns3::Ipv4Address'' [Param ''ns3::Address const &'' ''address'' []] [(''is_static'', CBool True)],
     Add_method ''Deserialize'' ''ns3::Ipv4Address'' [Param ''uint8_t const *'' ''buf'' []] [(''is_static'', CBool True)],
     Add_method ''Get'' ''uint32_t'' [] [(''is_const'', CBool True)],
     Add_method ''GetAny'' ''ns3::Ipv4Address'' [] [(''is_static'', CBool True)],
     Add_method ''GetBroadcast'' ''ns3::Ipv4Address'' [] [(''is_static'', CBool True)],
     Add_method ''GetLoopback'' ''ns3::Ipv4Address'' [] [(''is_static'', CBool True)],
     Add_method ''GetSubnetDirectedBroadcast'' ''ns3::Ipv4Address'' [Param ''ns3::Ipv4Mask const &'' ''mask'' []] [(''is_const'', CBool True)],
     Add_method ''GetZero'' ''ns3::Ipv4Address'' [] [(''is_static'', CBool True)],
     Add_method ''IsAny'' ''bool'' [] [(''is_const'', CBool True)],
     Add_method ''IsBroadcast'' ''bool'' [] [(''is_const'', CBool True)],
     Add_method ''IsEqual'' ''bool'' [Param ''ns3::Ipv4Address const &'' ''other'' []] [(''is_const'', CBool True)],
     Add_method ''IsLocalMulticast'' ''bool'' [] [(''is_const'', CBool True)],
     Add_method ''IsLocalhost'' ''bool'' [] [(''is_const'', CBool True)],
     Add_method ''IsMatchingType'' ''bool'' [Param ''ns3::Address const &'' ''address'' []] [(''is_static'', CBool True)],
     Add_method ''IsMulticast'' ''bool'' [] [(''is_const'', CBool True)],
     Add_method ''IsSubnetDirectedBroadcast'' ''bool'' [Param ''ns3::Ipv4Mask const &'' ''mask'' []] [(''is_const'', CBool True)],
     Add_method ''Print'' ''void'' [Param ''std::ostream &'' ''os'' []] [(''is_const'', CBool True)],
     Add_method ''Serialize'' ''void'' [Param ''uint8_t *'' ''buf'' []] [(''is_const'', CBool True)],
     Add_method ''Set'' ''void'' [Param ''uint32_t'' ''address'' []] [],
     Add_method ''Set'' ''void'' [Param ''char const *'' ''address'' []] []]"

definition net_register_Ns3Ipv6Address_methods :: "class_call list" where
  "net_register_Ns3Ipv6Address_methods = [
     Add_binary_comparison_operator ''!='',
     Add_binary_comparison_operator ''<'',
     Add_output_stream_operator,
     Add_binary_comparison_operator ''=='',
     Add_constructor [] [],
     Add_constructor [Param ''char const *'' ''address'' []] [],
     Add_constructor [Param ''uint8_t *'' ''address'' []] [],
     Add_constructor [Param ''ns3::Ipv6Address const &'' ''addr'' []] [],
     Add_constructor [Param ''ns3::Ipv6Address const *'' ''addr'' []] [],
     Add_method ''CombinePrefix'' ''ns3::Ipv6Address'' [Param ''ns3::Ipv6Prefix const &'' ''prefix'' []] [],
     Add_method ''ConvertFrom'' ''ns3::Ipv6Address'' [Param ''ns3::Address const &'' ''address'' []] [(''is_static'', CBool True)],
     Add_method ''Deserialize'' ''ns3::Ipv6Address'' [Param ''uint8_t const *'' ''buf'' []] [(''is_static'', CBool True)],
     Add_method ''GetAllHostsMulticast'' ''ns3::Ipv6Address'' [] [(''is_static'', CBool True)],
     Add_method ''GetAllNodesMulticast'' ''ns3::Ipv6Address'' [] [(''is_static'', CBool True)],
     Add_method ''GetAllRoutersMulticast'' ''ns3::Ipv6Address'' [] [(''is_static'', CBool True)],
     Add_method ''GetAny'' ''ns3::Ipv6Address'' [] [(''is_static'', CBool True)],
     Add_method ''GetBytes'' ''void'' [Param ''uint8_t *'' ''buf'' []] [(''is_const'', CBool True)],
     Add_method ''GetIpv4MappedAddress'' ''ns3::Ipv4Address'' [] [(''is_const'', CBool True)],
     Add_method ''GetLoopback'' ''ns3::Ipv6Address'' [] [(''is_static'', CBool True)],
     Add_method ''GetOnes'' ''ns3::Ipv6Address'' [] [(''is_static'', CBool True)],
     Add_method ''GetZero'' ''ns3::Ipv6Address'' [] [(''is_static'', CBool True)],
     Add_method ''IsAllHostsMulticast'' ''bool'' [] [(''deprecated'', CBool True),
       (''is_const'', CBool True)],
     Add_method ''IsAllNodesMulticast'' ''bool'' [] [(''is_const'', CBool True)],
     Add_method ''IsAllRoutersMulticast'' ''bool'' [] [(''is_const'', CBool True)],
     Add_method ''IsAny'' ''bool'' [] [(''is_const'', CBool True)],
     Add_method ''IsDocumentation'' ''bool'' [] [(''is_const'', CBool True)],
     Add_method ''IsEqual'' ''bool'' [Param ''ns3::Ipv6Address const &'' ''other'' []] [(''is_const'', CBool True)],
     Add_method ''IsIpv4MappedAddress'' ''bool'' [] [(''is_const'', CBool True)],
     Add_method ''IsLinkLocal'' ''bool'' [] [(''is_const'', CBool True)],
     Add_method ''IsLinkLocalMulticast'' ''bool'' [] [(''is_const'', CBool True)],
     Add_method ''IsLocalhost'' ''bool'' [] [(''is_const'', CBool True)],
     Add_method ''IsMatchingType'' ''bool'' [Param ''ns3::Address const &'' ''address'' []] [(''is_static'', CBool True)],
     Add_method ''IsMulticast'' ''bool'' [] [(''is_const'', CBool True)],
     Add_method ''IsSolicitedMulticast'' ''bool'' [] [(''is_const'', CBool True)],
     Add_method ''MakeAutoconfiguredAddress'' ''ns3::Ipv6Address'' [Param ''ns3::Mac16Address'' ''addr'' [],
       Param ''ns3::Ipv6Address'' ''prefix'' []] [(''is_static'', CBool True)],
     Add_method ''MakeAutoconfiguredAddress'' ''ns3::Ipv6Address'' [Param ''ns3::Mac48Address'' ''addr'' [],
       Param ''ns3::Ipv6Address'' ''prefix'' []] [(''is_static'', CBool True)],
     Add_method ''MakeAutoconfiguredAddress'' ''ns3::Ipv6Address'' [Param ''ns3::Mac64Address'' ''addr'' [],
       Param ''ns3::Ipv6Address'' ''prefix'' []] [(''is_static'', CBool True)],
     Add_method ''MakeAutoconfiguredLinkLocalAddress'' ''ns3::Ipv6Address'' [Param ''ns3::Mac16Address'' ''mac'' []] [(''is_static'', CBool True)],
     Add_method ''MakeAutoconfiguredLinkLocalAddress'' ''ns3::Ipv6Address'' [Param ''ns3::Mac48Address'' ''mac'' []] [(''is_static'', CBool True)],
     Add_method ''MakeAutoconfiguredLinkLocalAddress'' ''ns3::Ipv6Address'' [Param ''ns3::Mac64Address'' ''mac'' []] [(''is_static'', CBool True)],
     Add_method ''MakeIpv4MappedAddress'' ''ns3::Ipv6Address'' [Param ''ns3::Ipv4Address'' ''addr'' []] [(''is_static'', CBool True)],
     Add_method ''MakeSolicitedAddress'' ''ns3::Ipv6Address'' [Param ''ns3::Ipv6Address'' ''addr'' []] [(''is_static'', CBool True)],
     Add_method ''Print'' ''void'' [Param ''std::ostream &'' ''os'' []] [(''is_const'', CBool True)],
     Add_method ''Serialize'' ''void'' [Param ''uint8_t *'' ''buf'' []] [(''is_const'', CBool True)],
     Add_method ''Set'' ''void'' [Param ''char const *'' ''address'' []] [],
     Add_method ''Set'' ''void'' [Param ''uint8_t *'' ''address'' []] []]"

definition register_Ns3Mac16Address_methods :: "class_call list" where
  "register_Ns3Mac16Address_methods = [
     Add_binary_comparison_operator ''!='',
     Add_binary_comparison_operator ''<'',
     Add_output_stream_operator,
     Add_binary_comparison_operator ''=='',
     Add_constructor [Param ''ns3::Mac16Address const &'' ''arg0'' []] [],
     Add_constructor [] [],
     Add_constructor [Param ''char const *'' ''str'' []] [],
     Add_method ''Allocate'' ''ns3::Mac16Address'' [] [(''is_static'', CBool True)],
     Add_method ''ConvertFrom'' ''ns3::Mac16Address'' [Param ''ns3::Address const &'' ''address'' []] [(''is_static'', CBool True)],
     Add_method ''CopyFrom'' ''void'' [Param ''uint8_t const *'' ''buffer'' []] [],
     Add_method ''CopyTo'' ''void'' [Param ''uint8_t *'' ''buffer'' []] [(''is_const'', CBool True)],
     Add_method ''IsMatchingType'' ''bool'' [Param ''ns3::Address const &'' ''address'' []] [(''is_static'', CBool True)]]"

definition net_register_Ns3Mac48Address_methods :: "class_call list" where
  "net_register_Ns3Mac48Address_methods = [
     Add_binary_comparison_operator ''!='',
     Add_binary_comparison_operator ''<'',
     Add_output_stream_operator,
     Add_binary_comparison_operator ''=='',
     Add_constructor [Param ''ns3::Mac48Address const &'' ''arg0'' []] [],
     Add_constructor [] [],
     Add_constructor [Param ''char const *'' ''str'' []] [],
     Add_method ''Allocate'' ''ns3::Mac48Address'' [] [(''is_static'', CBool True)],
     Add_method ''ConvertFrom'' ''ns3::Mac48Address'' [Param ''ns3::Address const &'' ''address'' []] [(''is_static'', CBool True)],
     Add_method ''CopyFrom'' ''void'' [Param ''uint8_t const *'' ''buffer'' []] [],
     Add_method ''CopyTo'' ''void'' [Param ''uint8_t *'' ''buffer'' []] [(''is_const'', CBool True)],
     Add_method ''GetBroadcast'' ''ns3::Mac48Address'' [] [(''is_static'', CBool True)],
     Add_method ''GetMulticast'' ''ns3::Mac48Address'' [Param ''ns3::Ipv4Address'' ''address'' []] [(''is_static'', CBool True)],
     Add_method ''GetMulticast'' ''ns3::Mac48Address'' [Param ''ns3::Ipv6Address'' ''address'' []] [(''is_static'', CBool True)],
     Add_method ''GetMulticast6Prefix'' ''ns3::Mac48Address'' [] [(''is_static'', CBool True)],
     Add_method ''GetMulticastPrefix'' ''ns3::Mac48Address'' [] [(''is_static'', CBool True)],
     Add_method ''IsBroadcast'' ''bool'' [] [(''is_const'', CBool True)],
     Add_method ''IsGroup'' ''bool'' [] [(''is_const'', CBool True)],
     Add_method ''IsMatchingType'' ''bool'' [Param ''ns3::Address const &'' ''address'' []] [(''is_static'', CBool True)]]"

definition register_Ns3Mac64Address_methods :: "class_call list" where
  "register_Ns3Mac64Address_methods = [
     Add_binary_comparison_operator ''!='',
     Add_binary_comparison_operator ''<'',
     Add_output_stream_operator,
     Add_binary_comparison_operator ''=='',
     Add_constructor [Param ''ns3::Mac64Address const &'' ''arg0'' []] [],
     Add_constructor [] [],
     Add_constructor [Param ''char const *'' ''str'' []] [],
     Add_method ''Allocate'' ''ns3::Mac64Address'' [] [(''is_static'', CBool True)],
     Add_method ''ConvertFrom'' ''ns3::Mac64Address'' [Param ''ns3::Address const &'' ''address'' []] [(''is_static'', CBool True)],
     Add_method ''CopyFrom'' ''void'' [Param ''uint8_t const *'' ''buffer'' []] [],
     Add_method ''CopyTo'' ''void'' [Param ''uint8_t *'' ''buffer'' []] [(''is_const'', CBool True)],
     Add_method ''IsMatchingType'' ''bool'' [Param ''ns3::Address const &'' ''address'' []] [(''is_static'', CBool True)]]"

definition register_Ns3NodeContainer_methods :: "class_call list" where
  "register_Ns3NodeContainer_methods = [
     Add_constructor [Param ''ns3::NodeContainer const &'' ''arg0'' []] [],
     Add_constructor [] [],
     Add_constructor [Param ''ns3::Ptr< ns3::Node >'' ''node'' []] [],
     Add_constructor [Param ''std::string'' ''nodeName'' []] [],
     Add_constructor [Param ''ns3::NodeContainer const &'' ''a'' [],
       Param ''ns3::NodeContainer const &'' ''b'' []] [],
     Add_constructor [Param ''ns3::NodeContainer const &'' ''a'' [],
       Param ''ns3::NodeContainer const &'' ''b'' [], Param ''ns3::NodeContainer const &'' ''c'' []] [],
     Add_constructor [Param ''ns3::NodeContainer const &'' ''a'' [],
       Param ''ns3::NodeContainer const &'' ''b'' [], Param ''ns3::NodeContainer const &'' ''c'' [],
       Param ''ns3::NodeContainer const &'' ''d'' []] [],
     Add_constructor [Param ''ns3::NodeContainer const &'' ''a'' [],
       Param ''ns3::NodeContainer const &'' ''b'' [], Param ''ns3::NodeContainer const &'' ''c'' [],
       Param ''ns3::NodeContainer const &'' ''d'' [], Param ''ns3::NodeContainer const &'' ''e'' []] [],
     Add_method ''Add'' ''void'' [Param ''ns3::NodeContainer'' ''other'' []] [],
     Add_method ''Add'' ''void'' [Param ''ns3::Ptr< ns3::Node >'' ''node'' []] [],
     Add_method ''Add'' ''void'' [Param ''std::string'' ''nodeName'' []] [],
     Add_method ''Begin'' ''__gnu_cxx::__normal_iterator< ns3::Ptr< ns3::Node > const, std::vector< ns3::Ptr< ns3::Node > > >'' [] [(''is_const'', CBool True)],
     Add_method ''Create'' ''void'' [Param ''uint32_t'' ''n'' []] [],
     Add_method ''Create'' ''void'' [Param ''uint32_t'' ''n'' [], Param ''uint32_t'' ''systemId'' []] [],
     Add_method ''End'' ''__gnu_cxx::__normal_iterator< ns3::Ptr< ns3::Node > const, std::vector< ns3::Ptr< ns3::Node > > >'' [] [(''is_const'', CBool True)],
     Add_method ''Get'' ''ns3::Ptr< ns3::Node >'' [Param ''uint32_t'' ''i'' []] [(''is_const'', CBool True)],
     Add_method ''GetGlobal'' ''ns3::NodeContainer'' [] [(''is_static'', CBool True)],
     Add_method ''GetN'' ''uint32_t'' [] [(''is_const'', CBool True)]]"

text \<open>The functions of this part.\<close>

definition net_members_1 :: "class_call list list" where
  "net_members_1 = [
     net_register_Ns3Address_methods,
     register_Ns3ApplicationContainer_methods,
     register_Ns3AsciiFile_methods,
     register_Ns3AsciiTraceHelper_methods,
     register_Ns3AsciiTraceHelperForDevice_methods,
     register_Ns3ChannelList_methods,
     register_Ns3DataOutputCallback_methods,
     register_Ns3DelayJitterEstimation_methods,
     register_Ns3Inet6SocketAddress_methods,
     register_Ns3InetSocketAddress_methods,
     net_register_Ns3Ipv4Address_methods,
     net_register_Ns3Ipv6Address_methods,
     register_Ns3Mac16Address_methods,
     net_register_Ns3Mac48Address_methods,
     register_Ns3Mac64Address_methods,
     register_Ns3NodeContainer_methods]"

end
