(* ===== verification/Network_Methods_2.thy ===== *)
theory Network_Methods_2
  imports Pybindgen
begin

text \<open>
  Part 2 of the functions that register the members of the classes of the network module,
  from \<open>register_Ns3NodeList_methods\<close> to \<open>register_Ns3FlowIdTag_methods\<close> of
  \<open>network/bindings/modulegen__gcc_LP64.py\<close>, without those that the traffic-control script
  has as well: the calls on \<open>cls\<close> in the order of the source.
\<close>

definition register_Ns3NodeList_methods :: "class_call list" where
  "register_Ns3NodeList_methods = [
     Add_constructor [] [],
     Add_constructor [Param ''ns3::NodeList const &'' ''arg0'' []] [],
     Add_method ''Add'' ''uint32_t'' [Param ''ns3::Ptr< ns3::Node >'' ''node'' []] [(''is_static'', CBool True)],
     Add_method ''Begin'' ''__gnu_cxx::__normal_iterator< ns3::Ptr< ns3::Node > const, std::vector< ns3::Ptr< ns3::Node > > >'' [] [(''is_static'', CBool True)],
     Add_method ''End'' ''__gnu_cxx::__normal_iterator< ns3::Ptr< ns3::Node > const, std::vector< ns3::Ptr< ns3::Node > > >'' [] [(''is_static'', CBool True)],
     Add_method ''GetNNodes'' ''uint32_t'' [] [(''is_static'', CBool True)],
     Add_method ''GetNode'' ''ns3::Ptr< ns3::Node >'' [Param ''uint32_t'' ''n'' []] [(''is_static'', CBool True)]]"

definition register_Ns3NonCopyable_methods :: "class_call list" where
  "register_Ns3NonCopyable_methods = [
     Add_constructor [] [(''visibility'', CStr ''protected'')]]"

definition register_Ns3PacketSocketAddress_methods :: "class_call list" where
  "register_Ns3PacketSocketAddress_methods = [
     Add_constructor [Param ''ns3::PacketSocketAddress const &'' ''arg0'' []] [],
     Add_constructor [] [],
     Add_method ''ConvertFrom'' ''ns3::PacketSocketAddress'' [Param ''ns3::Address const &'' ''address'' []] [(''is_static'', CBool True)],
     Add_method ''GetPhysicalAddress'' ''ns3::Address'' [] [(''is_const'', CBool True)],
     Add_method ''GetProtocol'' ''uint16_t'' [] [(''is_const'', CBool True)],
     Add_method ''GetSingleDevice'' ''uint32_t'' [] [(''is_const'', CBool True)],
     Add_method ''IsMatchingType'' ''bool'' [Param ''ns3::Address const &'' ''address'' []] [(''is_static'', CBool True)],
     Add_method ''IsSingleDevice'' ''bool'' [] [(''is_const'', CBool True)],
     Add_method ''SetAllDevices'' ''void'' [] [],
     Add_method ''SetPhysicalAddress'' ''void'' [Param ''ns3::Address const'' ''address'' []] [],
     Add_method ''SetProtocol'' ''void'' [Param ''uint16_t'' ''protocol'' []] [],
     Add_method ''SetSingleDevice'' ''void'' [Param ''uint32_t'' ''device'' []] []]"

definition register_Ns3PacketSocketHelper_methods :: "class_call list" where
  "register_Ns3PacketSocketHelper_methods = [
     Add_constructor [] [],
     Add_constructor [Param ''ns3::PacketSocketHelper const &'' ''arg0'' []] [],
     Add_method ''Install'' ''void'' [Param ''ns3::Ptr< ns3::Node >'' ''node'' []] [(''is_const'', CBool True)],
     Add_method ''Install'' ''void'' [Param ''std::string'' ''nodeName'' []] [(''is_const'', CBool True)],
     Add_method ''Install'' ''void'' [Param ''ns3::NodeContainer'' ''c'' []] [(''is_const'', CBool True)]]"

definition register_Ns3PbbAddressTlvBlock_methods :: "class_call list" where
  "register_Ns3PbbAddressTlvBlock_methods = [
     Add_binary_comparison_operator ''=='',
     Add_binary_comparison_operator ''!='',
     Add_constructor [Param ''ns3::PbbAddressTlvBlock const &'' ''arg0'' []] [],
     Add_constructor [] [],
     Add_method ''Back'' ''ns3::Ptr< ns3::PbbAddressTlv >'' [] [(''is_const'', CBool True)],
     Add_method ''Begin'' ''std::_List_iterator< ns3::Ptr< ns3::PbbAddressTlv > >'' [] [],
     Add_method ''Begin'' ''std::_List_const_iterator< ns3::Ptr< ns3::PbbAddressTlv > >'' [] [(''is_const'', CBool True)],
     Add_method ''Clear'' ''void'' [] [],
     Add_method ''Deserialize'' ''void'' [Param ''ns3::Buffer::Iterator &'' ''start'' []] [],
     Add_method ''Empty'' ''bool'' [] [(''is_const'', CBool True)],
     Add_method ''End'' ''std::_List_iterator< ns3::Ptr< ns3::PbbAddressTlv > >'' [] [],
     Add_method ''End'' ''std::_List_const_iterator< ns3::Ptr< ns3::PbbAddressTlv > >'' [] [(''is_const'', CBool True)],
     Add_method ''Erase'' ''std::_List_iterator< ns3::Ptr< ns3::PbbAddressTlv > >'' [Param ''std::_List_iterator< ns3::Ptr< ns3::PbbAddressTlv > >'' ''position'' []] [],
     Add_method ''Erase'' ''std::_List_iterator< ns3::Ptr< ns3::PbbAddressTlv > >'' [Param ''std::_List_iterator< ns3::Ptr< ns3::PbbAddressTlv > >'' ''first'' [], Param ''std::_List_iterator< ns3::Ptr< ns3::PbbAddressTlv > >'' ''last'' []] [],
     Add_method ''Front'' ''ns3::Ptr< ns3::PbbAddressTlv >'' [] [(''is_const'', CBool True)],
     Add_method ''GetSerializedSize'' ''uint32_t'' [] [(''is_const'', CBool True)],
     Add_method ''Insert'' ''std::_List_iterator< ns3::Ptr< ns3::PbbAddressTlv > >'' [Param ''std::_List_iterator< ns3::Ptr< ns3::PbbAddressTlv > >'' ''position'' [], Param ''ns3::Ptr< ns3::PbbAddressTlv > const'' ''tlv'' []] [],
     Add_method ''PopBack'' ''void'' [] [],
     Add_method ''PopFront'' ''void'' [] [],
     Add_method ''Print'' ''void'' [Param ''std::ostream &'' ''os'' []] [(''is_const'', CBool True)],
     Add_method ''Print'' ''void'' [Param ''std::ostream &'' ''os'' [],
       Param ''int'' ''level'' []] [(''is_const'', CBool True)],
     Add_method ''PushBack'' ''void'' [Param ''ns3::Ptr< ns3::PbbAddressTlv >'' ''tlv'' []] [],
     Add_method ''PushFront'' ''void'' [Param ''ns3::Ptr< ns3::PbbAddressTlv >'' ''tlv'' []] [],
     Add_method ''Serialize'' ''void'' [Param ''ns3::Buffer::Iterator &'' ''start'' []] [(''is_const'', CBool True)],
     Add_method ''Size'' ''int'' [] [(''is_const'', CBool True)]]"

definition register_Ns3PbbTlvBlock_methods :: "class_call list" where
  "register_Ns3PbbTlvBlock_methods = [
     Add_binary_comparison_operator ''=='',
     Add_binary_comparison_operator ''!='',
     Add_constructor [Param ''ns3::PbbTlvBlock const &'' ''arg0'' []] [],
     Add_constructor [] [],
     Add_method ''Back'' ''ns3::Ptr< ns3::PbbTlv >'' [] [(''is_const'', CBool True)],
     Add_method ''Begin'' ''std::_List_iterator< ns3::Ptr< ns3::PbbTlv > >'' [] [],
     Add_method ''Begin'' ''std::_List_const_iterator< ns3::Ptr< ns3::PbbTlv > >'' [] [(''is_const'', CBool True)],
     Add_method ''Clear'' ''void'' [] [],
     Add_method ''Deserialize'' ''void'' [Param ''ns3::Buffer::Iterator &'' ''start'' []] [],
     Add_method ''Empty'' ''bool'' [] [(''is_const'', CBool True)],
     Add_method ''End'' ''std::_List_iterator< ns3::Ptr< ns3::PbbTlv > >'' [] [],
     Add_method ''End'' ''std::_List_const_iterator< ns3::Ptr< ns3::PbbTlv > >'' [] [(''is_const'', CBool True)],
     Add_method ''Erase'' ''std::_List_iterator< ns3::Ptr< ns3::PbbTlv > >'' [Param ''std::_List_iterator< ns3::Ptr< ns3::PbbTlv > >'' ''position'' []] [],
     Add_method ''Erase'' ''std::_List_iterator< ns3::Ptr< ns3::PbbTlv > >'' [Param ''std::_List_iterator< ns3::Ptr< ns3::PbbTlv > >'' ''first'' [], Param ''std::_List_iterator< ns3::Ptr< ns3::PbbTlv > >'' ''last'' []] [],
     Add_method ''Front'' ''ns3::Ptr< ns3::PbbTlv >'' [] [(''is_const'', CBool True)],
     Add_method ''GetSerializedSize'' ''uint32_t'' [] [(''is_const'', CBool True)],
     Add_method ''Insert'' ''std::_List_iterator< ns3::Ptr< ns3::PbbTlv > >'' [Param ''std::_List_iterator< ns3::Ptr< ns3::PbbTlv > >'' ''position'' [], Param ''ns3::Ptr< ns3::PbbTlv > const'' ''tlv'' []] [],
     Add_method ''PopBack'' ''void'' [] [],
     Add_method ''PopFront'' ''void'' [] [],
     Add_method ''Print'' ''void'' [Param ''std::ostream &'' ''os'' []] [(''is_const'', CBool True)],
     Add_method ''Print'' ''void'' [Param ''std::ostream &'' ''os'' [],
       Param ''int'' ''level'' []] [(''is_const'', CBool True)],
     Add_method ''PushBack'' ''void'' [Param ''ns3::Ptr< ns3::PbbTlv >'' ''tlv'' []] [],
     Add_method ''PushFront'' ''void'' [Param ''ns3::Ptr< ns3::PbbTlv >'' ''tlv'' []] [],
     Add_method ''Serialize'' ''void'' [Param ''ns3::Buffer::Iterator &'' ''start'' []] [(''is_const'', CBool True)],
     Add_method ''Size'' ''int'' [] [(''is_const'', CBool True)]]"

definition register_Ns3PcapFile_methods :: "class_call list" where
  "register_Ns3PcapFile_methods = [
     Add_constructor [] [],
     Add_method ''Clear'' ''void'' [] [],
     Add_method ''Close'' ''void'' [] [],
     Add_method ''Diff'' ''bool'' [Param ''std::string const &'' ''f1'' [],
       Param ''std::string const &'' ''f2'' [], Param ''uint32_t &'' ''sec'' [],
       Param ''uint32_t &'' ''usec'' [], Param ''uint32_t &'' ''packets'' [],
       Param ''uint32_t'' ''snapLen'' [(''default_value'', CStr ''ns3::PcapFile::SNAPLEN_DEFAULT'')]] [(''is_static'', CBool True)],
     Add_method ''Eof'' ''bool'' [] [(''is_const'', CBool True)],
     Add_method ''Fail'' ''bool'' [] [(''is_const'', CBool True)],
     Add_method ''GetDataLinkType'' ''uint32_t'' [] [],
     Add_method ''GetMagic'' ''uint32_t'' [] [],
     Add_method ''GetSigFigs'' ''uint32_t'' [] [],
     Add_method ''GetSnapLen'' ''uint32_t'' [] [],
     Add_method ''GetSwapMode'' ''bool'' [] [],
     Add_method ''GetTimeZoneOffset'' ''int32_t'' [] [],
     Add_method ''GetVersionMajor'' ''uint16_t'' [] [],
     Add_method ''GetVersionMinor'' ''uint16_t'' [] [],
     Add_method ''Init'' ''void'' [Param ''uint32_t'' ''dataLinkType'' [],
       Param ''uint32_t'' ''snapLen'' [(''default_value'', CStr ''ns3::PcapFile::SNAPLEN_DEFAULT'')],
       Param ''int32_t'' ''timeZoneCorrection'' [(''default_value'', CStr ''ns3::PcapFile::ZONE_DEFAULT'')],
       Param ''bool'' ''swapMode'' [(''default_value'', CStr ''false'')],
       Param ''bool'' ''nanosecMode'' [(''default_value'', CStr ''false'')]] [],
     Add_method ''IsNanoSecMode'' ''bool'' [] [],
     Add_method ''Open'' ''void'' [Param ''std::string const &'' ''filename'' [],
       Param ''std::_Ios_Openmode'' ''mode'' []] [],
     Add_method ''Read'' ''void'' [Param ''uint8_t * const'' ''data'' [], Param ''uint32_t'' ''maxBytes'' [],
       Param ''uint32_t &'' ''tsSec'' [], Param ''uint32_t &'' ''tsUsec'' [],
       Param ''uint32_t &'' ''inclLen'' [], Param ''uint32_t &'' ''origLen'' [],
       Param ''uint32_t &'' ''readLen'' []] [],
     Add_method ''Write'' ''void'' [Param ''uint32_t'' ''tsSec'' [], Param ''uint32_t'' ''tsUsec'' [],
       Param ''uint8_t const * const'' ''data'' [], Param ''uint32_t'' ''totalLen'' []] [],
     Add_method ''Write'' ''void'' [Param ''uint32_t'' ''tsSec'' [], Param ''uint32_t'' ''tsUsec'' [],
       Param ''ns3::Ptr< ns3::Packet const >'' ''p'' []] [],
     Add_method ''Write'' ''void'' [Param ''uint32_t'' ''tsSec'' [], Param ''uint32_t'' ''tsUsec'' [],
       Param ''ns3::Header const &'' ''header'' [], Param ''ns3::Ptr< ns3::Packet const >'' ''p'' []] [],
     Add_static_attribute ''SNAPLEN_DEFAULT'' ''uint32_t const'' [(''is_const'', CBool True)],
     Add_static_attribute ''ZONE_DEFAULT'' ''int32_t const'' [(''is_const'', CBool True)]]"

definition register_Ns3PcapHelper_methods :: "class_call list" where
  "register_Ns3PcapHelper_methods = [
     Add_constructor [Param ''ns3::PcapHelper const &'' ''arg0'' []] [],
     Add_constructor [] [],
     Add_method ''CreateFile'' ''ns3::Ptr< ns3::PcapFileWrapper >'' [Param ''std::string'' ''filename'' [],
       Param ''std::_Ios_Openmode'' ''filemode'' [],
       Param ''ns3::PcapHelper::DataLinkType'' ''dataLinkType'' [],
       Param ''uint32_t'' ''snapLen'' [(''default_value'', CStr ''std::numeric_limits<unsigned int>::max()'')], Param ''int32_t'' ''tzCorrection'' [(''default_value'', CStr ''0'')]] [],
     Add_method ''GetFilenameFromDevice'' ''std::string'' [Param ''std::string'' ''prefix'' [],
       Param ''ns3::Ptr< ns3::NetDevice >'' ''device'' [],
       Param ''bool'' ''useObjectNames'' [(''default_value'', CStr ''true'')]] [],
     Add_method ''GetFilenameFromInterfacePair'' ''std::string'' [Param ''std::string'' ''prefix'' [],
       Param ''ns3::Ptr< ns3::Object >'' ''object'' [], Param ''uint32_t'' ''interface'' [],
       Param ''bool'' ''useObjectNames'' [(''default_value'', CStr ''true'')]] []]"

definition register_Ns3PcapHelperForDevice_methods :: "class_call list" where
  "register_Ns3PcapHelperForDevice_methods = [
     Add_constructor [Param ''ns3::PcapHelperForDevice const &'' ''arg0'' []] [],
     Add_constructor [] [],
     Add_method ''EnablePcap'' ''void'' [Param ''std::string'' ''prefix'' [],
       Param ''ns3::Ptr< ns3::NetDevice >'' ''nd'' [],
       Param ''bool'' ''promiscuous'' [(''default_value'', CStr ''false'')],
       Param ''bool'' ''explicitFilename'' [(''default_value'', CStr ''false'')]] [],
     Add_method ''EnablePcap'' ''void'' [Param ''std::string'' ''prefix'' [],
       Param ''std::string'' ''ndName'' [],
       Param ''bool'' ''promiscuous'' [(''default_value'', CStr ''false'')],
       Param ''bool'' ''explicitFilename'' [(''default_value'', CStr ''false'')]] [],
     Add_method ''EnablePcap'' ''void'' [Param ''std::string'' ''prefix'' [],
       Param ''ns3::NetDeviceContainer'' ''d'' [],
       Param ''bool'' ''promiscuous'' [(''default_value'', CStr ''false'')]] [],
     Add_method ''EnablePcap'' ''void'' [Param ''std::string'' ''prefix'' [],
       Param ''ns3::NodeContainer'' ''n'' [],
       Param ''bool'' ''promiscuous'' [(''default_value'', CStr ''false'')]] [],
     Add_method ''EnablePcap'' ''void'' [Param ''std::string'' ''prefix'' [],
       Param ''uint32_t'' ''nodeid'' [], Param ''uint32_t'' ''deviceid'' [],
       Param ''bool'' ''promiscuous'' [(''default_value'', CStr ''false'')]] [],
     Add_method ''EnablePcapAll'' ''void'' [Param ''std::string'' ''prefix'' [],
       Param ''bool'' ''promiscuous'' [(''default_value'', CStr ''false'')]] [],
     Add_method ''EnablePcapInternal'' ''void'' [Param ''std::string'' ''prefix'' [],
       Param ''ns3::Ptr< ns3::NetDevice >'' ''nd'' [], Param ''bool'' ''promiscuous'' [],
       Param ''bool'' ''explicitFilename'' []] [(''is_pure_virtual'', CBool True),
       (''is_virtual'', CBool True)]]"

definition register_Ns3SequenceNumber32_methods :: "class_call list" where
  "register_Ns3SequenceNumber32_methods = [
     Add_binary_comparison_operator ''!='',
     Add_binary_numeric_operator ''+'' ''ns3::SequenceNumber32'' ''ns3::SequenceNumber32'' (Param ''ns3::SequenceNumber< unsigned int, int > const &'' ''right'' []),
     Add_binary_numeric_operator ''+'' ''ns3::SequenceNumber32'' ''ns3::SequenceNumber32'' (Param ''int'' ''right'' []),
     Add_inplace_numeric_operator ''+='' (Param ''int'' ''right'' []),
     Add_binary_numeric_operator ''-'' ''ns3::SequenceNumber32'' ''ns3::SequenceNumber32'' (Param ''int'' ''right'' []),
     Add_inplace_numeric_operator ''-='' (Param ''int'' ''right'' []),
     Add_binary_comparison_operator ''<'',
     Add_binary_comparison_operator ''<='',
     Add_binary_comparison_operator ''=='',
     Add_binary_comparison_operator ''>'',
     Add_binary_comparison_operator ''>='',
     Add_constructor [] [],
     Add_constructor [Param ''unsigned int'' ''value'' []] [],
     Add_constructor [Param ''ns3::SequenceNumber< unsigned int, int > const &'' ''value'' []] [],
     Add_method ''GetValue'' ''unsigned int'' [] [(''is_const'', CBool True)]]"

definition register_Ns3SequenceNumber16_methods :: "class_call list" where
  "register_Ns3SequenceNumber16_methods = [
     Add_binary_comparison_operator ''!='',
     Add_binary_numeric_operator ''+'' ''ns3::SequenceNumber16'' ''ns3::SequenceNumber16'' (Param ''ns3::SequenceNumber< unsigned short, short > const &'' ''right'' []),
     Add_binary_numeric_operator ''+'' ''ns3::SequenceNumber16'' ''ns3::SequenceNumber16'' (Param ''short int'' ''right'' []),
     Add_inplace_numeric_operator ''+='' (Param ''short int'' ''right'' []),
     Add_binary_numeric_operator ''-'' ''ns3::SequenceNumber16'' ''ns3::SequenceNumber16'' (Param ''short int'' ''right'' []),
     Add_inplace_numeric_operator ''-='' (Param ''short int'' ''right'' []),
     Add_binary_comparison_operator ''<'',
     Add_binary_comparison_operator ''<='',
     Add_binary_comparison_operator ''=='',
     Add_binary_comparison_operator ''>'',
     Add_binary_comparison_operator ''>='',
     Add_constructor [] [],
     Add_constructor [Param ''short unsigned int'' ''value'' []] [],
     Add_constructor [Param ''ns3::SequenceNumber< unsigned short, short > const &'' ''value'' []] [],
     Add_method ''GetValue'' ''short unsigned int'' [] [(''is_const'', CBool True)]]"

definition register_Ns3SimpleNetDeviceHelper_methods :: "class_call list" where
  \<open>register_Ns3SimpleNetDeviceHelper_methods = [
     Add_constructor [Param ''ns3::SimpleNetDeviceHelper const &'' ''arg0'' []] [],
     Add_constructor [] [],
     Add_method ''Install'' ''ns3::NetDeviceContainer'' [Param ''ns3::Ptr< ns3::Node >'' ''node'' []] [(''is_const'', CBool True)],
     Add_method ''Install'' ''ns3::NetDeviceContainer'' [Param ''ns3::Ptr< ns3::Node >'' ''node'' [],
       Param ''ns3::Ptr< ns3::SimpleChannel >'' ''channel'' []] [(''is_const'', CBool True)],
     Add_method ''Install'' ''ns3::NetDeviceContainer'' [Param ''ns3::NodeContainer const &'' ''c'' []] [(''is_const'', CBool True)],
     Add_method ''Install'' ''ns3::NetDeviceContainer'' [Param ''ns3::NodeContainer const &'' ''c'' [],
       Param ''ns3::Ptr< ns3::SimpleChannel >'' ''channel'' []] [(''is_const'', CBool True)],
     Add_method ''SetChannel'' ''void'' [Param ''std::string'' ''type'' [],
       Param ''std::string'' ''n1'' [(''default_value'', CStr ''""'')],
       Param ''ns3::AttributeValue const &'' ''v1'' [(''default_value'', CStr ''ns3::EmptyAttributeValue()'')], Param ''std::string'' ''n2'' [(''default_value'', CStr ''""'')], Param ''ns3::AttributeValue const &'' ''v2'' [(''default_value'', CStr ''ns3::EmptyAttributeValue()'')], Param ''std::string'' ''n3'' [(''default_value'', CStr ''""'')], Param ''ns3::AttributeValue const &'' ''v3'' [(''default_value'', CStr ''ns3::EmptyAttributeValue()'')], Param ''std::string'' ''n4'' [(''default_value'', CStr ''""'')], Param ''ns3::AttributeValue const &'' ''v4'' [(''default_value'', CStr ''ns3::EmptyAttributeValue()'')]] [],
     Add_method ''SetChannelAttribute'' ''void'' [Param ''std::string'' ''n1'' [],
       Param ''ns3::AttributeValue const &'' ''v1'' []] [],
     Add_method ''SetDeviceAttribute'' ''void'' [Param ''std::string'' ''n1'' [],
       Param ''ns3::AttributeValue const &'' ''v1'' []] [],
     Add_method ''SetNetDevicePointToPointMode'' ''void'' [Param ''bool'' ''pointToPointMode'' []] [],
     Add_method ''SetQueue'' ''void'' [Param ''std::string'' ''type'' [],
       Param ''std::string'' ''n1'' [(''default_value'', CStr ''""'')],
       Param ''ns3::AttributeValue const &'' ''v1'' [(''default_value'', CStr ''ns3::EmptyAttributeValue()'')], Param ''std::string'' ''n2'' [(''default_value'', CStr ''""'')], Param ''ns3::AttributeValue const &'' ''v2'' [(''default_value'', CStr ''ns3::EmptyAttributeValue()'')], Param ''std::string'' ''n3'' [(''default_value'', CStr ''""'')], Param ''ns3::AttributeValue const &'' ''v3'' [(''default_value'', CStr ''ns3::EmptyAttributeValue()'')], Param ''std::string'' ''n4'' [(''default_value'', CStr ''""'')], Param ''ns3::AttributeValue const &'' ''v4'' [(''default_value'', CStr ''ns3::EmptyAttributeValue()'')]] []]\<close>

definition register_Ns3StatisticalSummary_methods :: "class_call list" where
  "register_Ns3StatisticalSummary_methods = [
     Add_constructor [] [],
     Add_constructor [Param ''ns3::StatisticalSummary const &'' ''arg0'' []] [],
     Add_method ''getCount'' ''long int'' [] [(''is_pure_virtual'', CBool True), (''is_const'', CBool True),
       (''is_virtual'', CBool True)],
     Add_method ''getMax'' ''double'' [] [(''is_pure_virtual'', CBool True), (''is_const'', CBool True),
       (''is_virtual'', CBool True)],
     Add_method ''getMean'' ''double'' [] [(''is_pure_virtual'', CBool True), (''is_const'', CBool True),
       (''is_virtual'', CBool True)],
     Add_method ''getMin'' ''double'' [] [(''is_pure_virtual'', CBool True), (''is_const'', CBool True),
       (''is_virtual'', CBool True)],
     Add_method ''getSqrSum'' ''double'' [] [(''is_pure_virtual'', CBool True), (''is_const'', CBool True),
       (''is_virtual'', CBool True)],
     Add_method ''getStddev'' ''double'' [] [(''is_pure_virtual'', CBool True), (''is_const'', CBool True),
       (''is_virtual'', CBool True)],
     Add_method ''getSum'' ''double'' [] [(''is_pure_virtual'', CBool True), (''is_const'', CBool True),
       (''is_virtual'', CBool True)],
     Add_method ''getVariance'' ''double'' [] [(''is_pure_virtual'', CBool True), (''is_const'', CBool True),
       (''is_virtual'', CBool True)]]"

definition register_Ns3SystemWallClockMs_methods :: "class_call list" where
  "register_Ns3SystemWallClockMs_methods = [
     Add_constructor [Param ''ns3::SystemWallClockMs const &'' ''arg0'' []] [],
     Add_constructor [] [],
     Add_method ''End'' ''int64_t'' [] [],
     Add_method ''GetElapsedReal'' ''int64_t'' [] [(''is_const'', CBool True)],
     Add_method ''GetElapsedSystem'' ''int64_t'' [] [(''is_const'', CBool True)],
     Add_method ''GetElapsedUser'' ''int64_t'' [] [(''is_const'', CBool True)],
     Add_method ''Start'' ''void'' [] []]"

definition net_register_Ns3TypeId_methods :: "class_call list" where
  \<open>net_register_Ns3TypeId_methods = [
     Add_binary_comparison_operator ''!='',
     Add_binary_comparison_operator ''<'',
     Add_output_stream_operator,
     Add_binary_comparison_operator ''=='',
     Add_constructor [Param ''char const *'' ''name'' []] [],
     Add_constructor [] [],
     Add_constructor [Param ''ns3::TypeId const &'' ''o'' []] [],
     Add_method ''AddAttribute'' ''ns3::TypeId'' [Param ''std::string'' ''name'' [],
       Param ''std::string'' ''help'' [], Param ''ns3::AttributeValue const &'' ''initialValue'' [],
       Param ''ns3::Ptr< ns3::AttributeAccessor const >'' ''accessor'' [],
       Param ''ns3::Ptr< ns3::AttributeChecker const >'' ''checker'' [],
       Param ''ns3::TypeId::SupportLevel'' ''supportLevel'' [(''default_value'', CStr ''::ns3::TypeId::SUPPORTED'')], Param ''std::string const &'' ''supportMsg'' [(''default_value'', CStr ''""'')]] [],
     Add_method ''AddAttribute'' ''ns3::TypeId'' [Param ''std::string'' ''name'' [],
       Param ''std::string'' ''help'' [], Param ''uint32_t'' ''flags'' [],
       Param ''ns3::AttributeValue const &'' ''initialValue'' [],
       Param ''ns3::Ptr< ns3::AttributeAccessor const >'' ''accessor'' [],
       Param ''ns3::Ptr< ns3::AttributeChecker const >'' ''checker'' [],
       Param ''ns3::TypeId::SupportLevel'' ''supportLevel'' [(''default_value'', CStr ''::ns3::TypeId::SUPPORTED'')], Param ''std::string const &'' ''supportMsg'' [(''default_value'', CStr ''""'')]] [],
     Add_method ''AddTraceSource'' ''ns3::TypeId'' [Param ''std::string'' ''name'' [],
       Param ''std::string'' ''help'' [],
       Param ''ns3::Ptr< ns3::TraceSourceAccessor const >'' ''accessor'' []] [(''deprecated'', CBool True)],
     Add_method ''AddTraceSource'' ''ns3::TypeId'' [Param ''std::string'' ''name'' [],
       Param ''std::string'' ''help'' [],
       Param ''ns3::Ptr< ns3::TraceSourceAccessor const >'' ''accessor'' [],
       Param ''std::string'' ''callback'' [],
       Param ''ns3::TypeId::SupportLevel'' ''supportLevel'' [(''default_value'', CStr ''::ns3::TypeId::SUPPORTED'')], Param ''std::string const &'' ''supportMsg'' [(''default_value'', CStr ''""'')]] [],
     Add_method ''GetAttribute'' ''ns3::TypeId::AttributeInformation'' [Param ''uint32_t'' ''i'' []] [(''is_const'', CBool True)],
     Add_method ''GetAttributeFullName'' ''std::string'' [Param ''uint32_t'' ''i'' []] [(''is_const'', CBool True)],
     Add_method ''GetAttributeN'' ''uint32_t'' [] [(''is_const'', CBool True)],
     Add_method ''GetConstructor'' ''ns3::Callback< ns3::ObjectBase *, ns3::empty, ns3::empty, ns3::empty, ns3::empty, ns3::empty, ns3::empty, ns3::empty, ns3::empty, ns3::empty >'' [] [(''is_const'', CBool True)],
     Add_method ''GetGroupName'' ''std::string'' [] [(''is_const'', CBool True)],
     Add_method ''GetHash'' ''uint32_t'' [] [(''is_const'', CBool True)],
     Add_method ''GetName'' ''std::string'' [] [(''is_const'', CBool True)],
     Add_method ''GetParent'' ''ns3::TypeId'' [] [(''is_const'', CBool True)],
     Add_method ''GetRegistered'' ''ns3::TypeId'' [Param ''uint32_t'' ''i'' []] [(''is_static'', CBool True)],
     Add_method ''GetRegisteredN'' ''uint32_t'' [] [(''is_static'', CBool True)],
     Add_method ''GetSize'' ''std::size_t'' [] [(''is_const'', CBool True)],
     Add_method ''GetTraceSource'' ''ns3::TypeId::TraceSourceInformation'' [Param ''uint32_t'' ''i'' []] [(''is_const'', CBool True)],
     Add_method ''GetTraceSourceN'' ''uint32_t'' [] [(''is_const'', CBool True)],
     Add_method ''GetUid'' ''uint16_t'' [] [(''is_const'', CBool True)],
     Add_method ''HasConstructor'' ''bool'' [] [(''is_const'', CBool True)],
     Add_method ''HasParent'' ''bool'' [] [(''is_const'', CBool True)],
     Add_method ''HideFromDocumentation'' ''ns3::TypeId'' [] [],
     Add_method ''IsChildOf'' ''bool'' [Param ''ns3::TypeId'' ''other'' []] [(''is_const'', CBool True)],
     Add_method ''LookupAttributeByName'' ''bool'' [Param ''std::string'' ''name'' [],
       Param ''ns3::TypeId::AttributeInformation *'' ''info'' [(''transfer_ownership'', CBool False)]] [(''is_const'', CBool True)],
     Add_method ''LookupByHash'' ''ns3::TypeId'' [Param ''uint32_t'' ''hash'' []] [(''is_static'', CBool True)],
     Add_method ''LookupByHashFailSafe'' ''bool'' [Param ''uint32_t'' ''hash'' [],
       Param ''ns3::TypeId *'' ''tid'' []] [(''is_static'', CBool True)],
     Add_method ''LookupByName'' ''ns3::TypeId'' [Param ''std::string'' ''name'' []] [(''is_static'', CBool True)],
     Add_method ''LookupTraceSourceByName'' ''ns3::Ptr< ns3::TraceSourceAccessor const >'' [Param ''std::string'' ''name'' []] [(''is_const'', CBool True)],
     Add_method ''LookupTraceSourceByName'' ''ns3::Ptr< ns3::TraceSourceAccessor const >'' [Param ''std::string'' ''name'' [], Param ''ns3::TypeId::TraceSourceInformation *'' ''info'' []] [(''is_const'', CBool True)],
     Add_method ''MustHideFromDocumentation'' ''bool'' [] [(''is_const'', CBool True)],
     Add_method ''SetAttributeInitialValue'' ''bool'' [Param ''uint32_t'' ''i'' [],
       Param ''ns3::Ptr< ns3::AttributeValue const >'' ''initialValue'' []] [],
     Add_method ''SetGroupName'' ''ns3::TypeId'' [Param ''std::string'' ''groupName'' []] [],
     Add_method ''SetParent'' ''ns3::TypeId'' [Param ''ns3::TypeId'' ''tid'' []] [],
     Add_method ''SetParent'' ''ns3::TypeId'' [] [(''template_parameters'', CStrs [''ns3::Object''])],
     Add_method ''SetSize'' ''ns3::TypeId'' [Param ''std::size_t'' ''size'' []] [],
     Add_method ''SetUid'' ''void'' [Param ''uint16_t'' ''uid'' []] []]\<close>

definition net_register_Ns3Int64x64_t_methods :: "class_call list" where
  "net_register_Ns3Int64x64_t_methods = [
     Add_binary_comparison_operator ''<='',
     Add_binary_comparison_operator ''!='',
     Add_inplace_numeric_operator ''+='' (Param ''ns3::int64x64_t const &'' ''right'' []),
     Add_binary_numeric_operator ''*'' ''ns3::int64x64_t'' ''ns3::int64x64_t'' (Param ''ns3::int64x64_t const &'' ''right'' []),
     Add_binary_numeric_operator ''+'' ''ns3::int64x64_t'' ''ns3::int64x64_t'' (Param ''ns3::int64x64_t const &'' ''right'' []),
     Add_binary_numeric_operator ''-'' ''ns3::int64x64_t'' ''ns3::int64x64_t'' (Param ''ns3::int64x64_t const &'' ''right'' []),
     Add_unary_numeric_operator ''-'',
     Add_binary_numeric_operator ''/'' ''ns3::int64x64_t'' ''ns3::int64x64_t'' (Param ''ns3::int64x64_t const &'' ''right'' []),
     Add_binary_comparison_operator ''<'',
     Add_binary_comparison_operator ''>'',
     Add_inplace_numeric_operator ''*='' (Param ''ns3::int64x64_t const &'' ''right'' []),
     Add_inplace_numeric_operator ''-='' (Param ''ns3::int64x64_t const &'' ''right'' []),
     Add_inplace_numeric_operator ''/='' (Param ''ns3::int64x64_t const &'' ''right'' []),
     Add_output_stream_operator,
     Add_binary_comparison_operator ''=='',
     Add_binary_comparison_operator ''>='',
     Add_constructor [] [],
     Add_constructor [Param ''double'' ''v'' []] [],
     Add_constructor [Param ''long double'' ''v'' []] [],
     Add_constructor [Param ''int'' ''v'' []] [],
     Add_constructor [Param ''long int'' ''v'' []] [],
     Add_constructor [Param ''long long int'' ''v'' []] [],
     Add_constructor [Param ''unsigned int'' ''v'' []] [],
     Add_constructor [Param ''long unsigned int'' ''v'' []] [],
     Add_constructor [Param ''long long unsigned int'' ''v'' []] [],
     Add_constructor [Param ''int64_t'' ''hi'' [], Param ''uint64_t'' ''lo'' []] [],
     Add_constructor [Param ''ns3::int64x64_t const &'' ''o'' []] [],
     Add_method ''GetDouble'' ''double'' [] [(''is_const'', CBool True)],
     Add_method ''GetHigh'' ''int64_t'' [] [(''is_const'', CBool True)],
     Add_method ''GetLow'' ''uint64_t'' [] [(''is_const'', CBool True)],
     Add_method ''Invert'' ''ns3::int64x64_t'' [Param ''uint64_t'' ''v'' []] [(''is_static'', CBool True)],
     Add_method ''MulByInvert'' ''void'' [Param ''ns3::int64x64_t const &'' ''o'' []] [],
     Add_static_attribute ''implementation'' ''ns3::int64x64_t::impl_type const'' [(''is_const'', CBool True)]]"

definition register_Ns3DeviceNameTag_methods :: "class_call list" where
  "register_Ns3DeviceNameTag_methods = [
     Add_constructor [Param ''ns3::DeviceNameTag const &'' ''arg0'' []] [],
     Add_constructor [] [],
     Add_method ''Deserialize'' ''void'' [Param ''ns3::TagBuffer'' ''i'' []] [(''is_virtual'', CBool True)],
     Add_method ''GetDeviceName'' ''std::string'' [] [(''is_const'', CBool True)],
     Add_method ''GetInstanceTypeId'' ''ns3::TypeId'' [] [(''is_const'', CBool True),
       (''is_virtual'', CBool True)],
     Add_method ''GetSerializedSize'' ''uint32_t'' [] [(''is_const'', CBool True),
       (''is_virtual'', CBool True)],
     Add_method ''GetTypeId'' ''ns3::TypeId'' [] [(''is_static'', CBool True)],
     Add_method ''Print'' ''void'' [Param ''std::ostream &'' ''os'' []] [(''is_const'', CBool True),
       (''is_virtual'', CBool True)],
     Add_method ''Serialize'' ''void'' [Param ''ns3::TagBuffer'' ''i'' []] [(''is_const'', CBool True),
       (''is_virtual'', CBool True)],
     Add_method ''SetDeviceName'' ''void'' [Param ''std::string'' ''n'' []] []]"

definition register_Ns3FlowIdTag_methods :: "class_call list" where
  "register_Ns3FlowIdTag_methods = [
     Add_constructor [Param ''ns3::FlowIdTag const &'' ''arg0'' []] [],
     Add_constructor [] [],
     Add_constructor [Param ''uint32_t'' ''flowId'' []] [],
     Add_method ''AllocateFlowId'' ''uint32_t'' [] [(''is_static'', CBool True)],
     Add_method ''Deserialize'' ''void'' [Param ''ns3::TagBuffer'' ''buf'' []] [(''is_virtual'', CBool True)],
     Add_method ''GetFlowId'' ''uint32_t'' [] [(''is_const'', CBool True)],
     Add_method ''GetInstanceTypeId'' ''ns3::TypeId'' [] [(''is_const'', CBool True),
       (''is_virtual'', CBool True)],
     Add_method ''GetSerializedSize'' ''uint32_t'' [] [(''is_const'', CBool True),
       (''is_virtual'', CBool True)],
     Add_method ''GetTypeId'' ''ns3::TypeId'' [] [(''is_static'', CBool True)],
     Add_method ''Print'' ''void'' [Param ''std::ostream &'' ''os'' []] [(''is_const'', CBool True),
       (''is_virtual'', CBool True)],
     Add_method ''Serialize'' ''void'' [Param ''ns3::TagBuffer'' ''buf'' []] [(''is_const'', CBool True),
       (''is_virtual'', CBool True)],
     Add_method ''SetFlowId'' ''void'' [Param ''uint32_t'' ''flowId'' []] []]"

text \<open>The functions of this part.\<close>

definition net_members_2 :: "class_call list list" where
  "net_members_2 = [
     register_Ns3NodeList_methods,
     register_Ns3NonCopyable_methods,
     register_Ns3PacketSocketAddress_methods,
     register_Ns3PacketSocketHelper_methods,
     register_Ns3PbbAddressTlvBlock_methods,
     register_Ns3PbbTlvBlock_methods,
     register_Ns3PcapFile_methods,
     register_Ns3PcapHelper_methods,
     register_Ns3PcapHelperForDevice_methods,
     register_Ns3SequenceNumber32_methods,
     register_Ns3SequenceNumber16_methods,
     register_Ns3SimpleNetDeviceHelper_methods,
     register_Ns3StatisticalSummary_methods,
     register_Ns3SystemWallClockMs_methods,
     net_register_Ns3TypeId_methods,
     net_register_Ns3Int64x64_t_methods,
     register_Ns3DeviceNameTag_methods,
     register_Ns3FlowIdTag_methods]"

end
