(* ===== verification/Network_Methods_3.thy ===== *)
theory Network_Methods_3
  imports Pybindgen
begin

text \<open>
  Part 3 of the functions that register the members of the classes of the network module,
  from \<open>register_Ns3LlcSnapHeader_methods\<close> to \<open>register_Ns3SocketIpTosTag_methods\<close> of
  \<open>network/bindings/modulegen__gcc_LP64.py\<close>, without those that the traffic-control script
  has as well: the calls on \<open>cls\<close> in the order of the source.
\<close>

definition register_Ns3LlcSnapHeader_methods :: "class_call list" where
  "register_Ns3LlcSnapHeader_methods = [
     Add_constructor [Param ''ns3::LlcSnapHeader const &'' ''arg0'' []] [],
     Add_constructor [] [],
     Add_method ''Deserialize'' ''uint32_t'' [Param ''ns3::Buffer::Iterator'' ''start'' []] [(''is_virtual'', CBool True)],
     Add_method ''GetInstanceTypeId'' ''ns3::TypeId'' [] [(''is_const'', CBool True),
       (''is_virtual'', CBool True)],
     Add_method ''GetSerializedSize'' ''uint32_t'' [] [(''is_const'', CBool True),
       (''is_virtual'', CBool True)],
     Add_method ''GetType'' ''uint16_t'' [] [],
     Add_method ''GetTypeId'' ''ns3::TypeId'' [] [(''is_static'', CBool True)],
     Add_method ''Print'' ''void'' [Param ''std::ostream &'' ''os'' []] [(''is_const'', CBool True),
       (''is_virtual'', CBool True)],
     Add_method ''Serialize'' ''void'' [Param ''ns3::Buffer::Iterator'' ''start'' []] [(''is_const'', CBool True), (''is_virtual'', CBool True)],
     Add_method ''SetType'' ''void'' [Param ''uint16_t'' ''type'' []] []]"

definition register_Ns3PacketBurst_methods :: "class_call list" where
  "register_Ns3PacketBurst_methods = [
     Add_constructor [Param ''ns3::PacketBurst const &'' ''arg0'' []] [],
     Add_constructor [] [],
     Add_method ''AddPacket'' ''void'' [Param ''ns3::Ptr< ns3::Packet >'' ''packet'' []] [],
     Add_method ''Begin'' ''std::_List_const_iterator< ns3::Ptr< ns3::Packet > >'' [] [(''is_const'', CBool True)],
     Add_method ''Copy'' ''ns3::Ptr< ns3::PacketBurst >'' [] [(''is_const'', CBool True)],
     Add_method ''End'' ''std::_List_const_iterator< ns3::Ptr< ns3::Packet > >'' [] [(''is_const'', CBool True)],
     Add_method ''GetNPackets'' ''uint32_t'' [] [(''is_const'', CBool True)],
     Add_method ''GetPackets'' ''std::list< ns3::Ptr< ns3::Packet > >'' [] [(''is_const'', CBool True)],
     Add_method ''GetSize'' ''uint32_t'' [] [(''is_const'', CBool True)],
     Add_method ''GetTypeId'' ''ns3::TypeId'' [] [(''is_static'', CBool True)],
     Add_method ''DoDispose'' ''void'' [] [(''visibility'', CStr ''private''), (''is_virtual'', CBool True)]]"

definition register_Ns3PacketSocketTag_methods :: "class_call list" where
  "register_Ns3PacketSocketTag_methods = [
     Add_constructor [Param ''ns3::PacketSocketTag const &'' ''arg0'' []] [],
     Add_constructor [] [],
     Add_method ''Deserialize'' ''void'' [Param ''ns3::TagBuffer'' ''i'' []] [(''is_virtual'', CBool True)],
     Add_method ''GetDestAddress'' ''ns3::Address'' [] [(''is_const'', CBool True)],
     Add_method ''GetInstanceTypeId'' ''ns3::TypeId'' [] [(''is_const'', CBool True),
       (''is_virtual'', CBool True)],
     Add_method ''GetPacketType'' ''ns3::NetDevice::PacketType'' [] [(''is_const'', CBool True)],
     Add_method ''GetSerializedSize'' ''uint32_t'' [] [(''is_const'', CBool True),
       (''is_virtual'', CBool True)],
     Add_method ''GetTypeId'' ''ns3::TypeId'' [] [(''is_static'', CBool True)],
     Add_method ''Print'' ''void'' [Param ''std::ostream &'' ''os'' []] [(''is_const'', CBool True),
       (''is_virtual'', CBool True)],
     Add_method ''Serialize'' ''void'' [Param ''ns3::TagBuffer'' ''i'' []] [(''is_const'', CBool True),
       (''is_virtual'', CBool True)],
     Add_method ''SetDestAddress'' ''void'' [Param ''ns3::Address'' ''a'' []] [],
     Add_method ''SetPacketType'' ''void'' [Param ''ns3::NetDevice::PacketType'' ''t'' []] []]"

definition register_Ns3PcapFileWrapper_methods :: "class_call list" where
  "register_Ns3PcapFileWrapper_methods = [
     Add_method ''GetTypeId'' ''ns3::TypeId'' [] [(''is_static'', CBool True)],
     Add_constructor [] [],
     Add_method ''Fail'' ''bool'' [] [(''is_const'', CBool True)],
     Add_method ''Eof'' ''bool'' [] [(''is_const'', CBool True)],
     Add_method ''Clear'' ''void'' [] [],
     Add_method ''Open'' ''void'' [Param ''std::string const &'' ''filename'' [],
       Param ''std::_Ios_Openmode'' ''mode'' []] [],
     Add_method ''Close'' ''void'' [] [],
     Add_method ''Init'' ''void'' [Param ''uint32_t'' ''dataLinkType'' [],
       Param ''uint32_t'' ''snapLen'' [(''default_value'', CStr ''std::numeric_limits<unsigned int>::max()'')], Param ''int32_t'' ''tzCorrection'' [(''default_value'', CStr ''ns3::PcapFile::ZONE_DEFAULT'')]] [],
     Add_method ''Write'' ''void'' [Param ''ns3::Time'' ''t'' [],
       Param ''ns3::Ptr< ns3::Packet const >'' ''p'' []] [],
     Add_method ''Write'' ''void'' [Param ''ns3::Time'' ''t'' [], Param ''ns3::Header const &'' ''header'' [],
       Param ''ns3::Ptr< ns3::Packet const >'' ''p'' []] [],
     Add_method ''Write'' ''void'' [Param ''ns3::Time'' ''t'' [], Param ''uint8_t const *'' ''buffer'' [],
       Param ''uint32_t'' ''length'' []] [],
     Add_method ''Read'' ''ns3::Ptr< ns3::Packet >'' [Param ''ns3::Time &'' ''t'' []] [],
     Add_method ''GetMagic'' ''uint32_t'' [] [],
     Add_method ''GetVersionMajor'' ''uint16_t'' [] [],
     Add_method ''GetVersionMinor'' ''uint16_t'' [] [],
     Add_method ''GetTimeZoneOffset'' ''int32_t'' [] [],
     Add_method ''GetSigFigs'' ''uint32_t'' [] [],
     Add_method ''GetSnapLen'' ''uint32_t'' [] [],
     Add_method ''GetDataLinkType'' ''uint32_t'' [] []]"

definition register_Ns3QueueLimits_methods :: "class_call list" where
  "register_Ns3QueueLimits_methods = [
     Add_constructor [] [],
     Add_constructor [Param ''ns3::QueueLimits const &'' ''arg0'' []] [],
     Add_method ''Available'' ''int32_t'' [] [(''is_pure_virtual'', CBool True), (''is_const'', CBool True),
       (''is_virtual'', CBool True)],
     Add_method ''Completed'' ''void'' [Param ''uint32_t'' ''count'' []] [(''is_pure_virtual'', CBool True),
       (''is_virtual'', CBool True)],
     Add_method ''GetTypeId'' ''ns3::TypeId'' [] [(''is_static'', CBool True)],
     Add_method ''Queued'' ''void'' [Param ''uint32_t'' ''count'' []] [(''is_pure_virtual'', CBool True),
       (''is_virtual'', CBool True)],
     Add_method ''Reset'' ''void'' [] [(''is_pure_virtual'', CBool True), (''is_virtual'', CBool True)]]"

definition register_Ns3RadiotapHeader_methods :: "class_call list" where
  "register_Ns3RadiotapHeader_methods = [
     Add_constructor [Param ''ns3::RadiotapHeader const &'' ''arg0'' []] [],
     Add_constructor [] [],
     Add_method ''Deserialize'' ''uint32_t'' [Param ''ns3::Buffer::Iterator'' ''start'' []] [(''is_virtual'', CBool True)],
     Add_method ''GetAmpduStatusFlags'' ''uint16_t'' [] [(''is_const'', CBool True)],
     Add_method ''GetAmpduStatusRef'' ''uint32_t'' [] [(''is_const'', CBool True)],
     Add_method ''GetAntennaNoisePower'' ''uint8_t'' [] [(''is_const'', CBool True)],
     Add_method ''GetAntennaSignalPower'' ''uint8_t'' [] [(''is_const'', CBool True)],
     Add_method ''GetChannelFlags'' ''uint16_t'' [] [(''is_const'', CBool True)],
     Add_method ''GetChannelFrequency'' ''uint16_t'' [] [(''is_const'', CBool True)],
     Add_method ''GetFrameFlags'' ''uint8_t'' [] [(''is_const'', CBool True)],
     Add_method ''GetInstanceTypeId'' ''ns3::TypeId'' [] [(''is_const'', CBool True),
       (''is_virtual'', CBool True)],
     Add_method ''GetMcsFlags'' ''uint8_t'' [] [(''is_const'', CBool True)],
     Add_method ''GetMcsKnown'' ''uint8_t'' [] [(''is_const'', CBool True)],
     Add_method ''GetMcsRate'' ''uint8_t'' [] [(''is_const'', CBool True)],
     Add_method ''GetRate'' ''uint8_t'' [] [(''is_const'', CBool True)],
     Add_method ''GetSerializedSize'' ''uint32_t'' [] [(''is_const'', CBool True),
       (''is_virtual'', CBool True)],
     Add_method ''GetTsft'' ''uint64_t'' [] [(''is_const'', CBool True)],
     Add_method ''GetTypeId'' ''ns3::TypeId'' [] [(''is_static'', CBool True)],
     Add_method ''GetVhtBandwidth'' ''uint8_t'' [] [(''is_const'', CBool True)],
     Add_method ''GetVhtCoding'' ''uint8_t'' [] [(''is_const'', CBool True)],
     Add_method ''GetVhtFlags'' ''uint8_t'' [] [(''is_const'', CBool True)],
     Add_method ''GetVhtGroupId'' ''uint8_t'' [] [(''is_const'', CBool True)],
     Add_method ''GetVhtKnown'' ''uint16_t'' [] [(''is_const'', CBool True)],
     Add_method ''GetVhtMcsNssUser1'' ''uint8_t'' [] [(''is_const'', CBool True)],
     Add_method ''GetVhtMcsNssUser2'' ''uint8_t'' [] [(''is_const'', CBool True)],
     Add_method ''GetVhtMcsNssUser3'' ''uint8_t'' [] [(''is_const'', CBool True)],
     Add_method ''GetVhtMcsNssUser4'' ''uint8_t'' [] [(''is_const'', CBool True)],
     Add_method ''GetVhtPartialAid'' ''uint8_t'' [] [(''is_const'', CBool True)],
     Add_method ''Print'' ''void'' [Param ''std::ostream &'' ''os'' []] [(''is_const'', CBool True),
       (''is_virtual'', CBool True)],
     Add_method ''Serialize'' ''void'' [Param ''ns3::Buffer::Iterator'' ''start'' []] [(''is_const'', CBool True), (''is_virtual'', CBool True)],
     Add_method ''SetAmpduStatus'' ''void'' [Param ''uint32_t'' ''referenceNumber'' [],
       Param ''uint16_t'' ''flags'' [], Param ''uint8_t'' ''crc'' []] [],
     Add_method ''SetAntennaNoisePower'' ''void'' [Param ''double'' ''noise'' []] [],
     Add_method ''SetAntennaSignalPower'' ''void'' [Param ''double'' ''signal'' []] [],
     Add_method ''SetChannelFrequencyAndFlags'' ''void'' [Param ''uint16_t'' ''frequency'' [],
       Param ''uint16_t'' ''flags'' []] [],
     Add_method ''SetFrameFlags'' ''void'' [Param ''uint8_t'' ''flags'' []] [],
     Add_method ''SetMcsFields'' ''void'' [Param ''uint8_t'' ''known'' [], Param ''uint8_t'' ''flags'' [],
       Param ''uint8_t'' ''mcs'' []] [],
     Add_method ''SetRate'' ''void'' [Param ''uint8_t'' ''rate'' []] [],
     Add_method ''SetTsft'' ''void'' [Param ''uint64_t'' ''tsft'' []] [],
     Add_method ''SetVhtFields'' ''void'' [Param ''uint16_t'' ''known'' [], Param ''uint8_t'' ''flags'' [],
       Param ''uint8_t'' ''bandwidth'' [], Param ''uint8_t *'' ''mcs_nss'' [],
       Param ''uint8_t'' ''coding'' [], Param ''uint8_t'' ''group_id'' [],
       Param ''uint16_t'' ''partial_aid'' []] []]"

definition register_Ns3SimpleRefCount__Ns3OutputStreamWrapper_Ns3Empty_Ns3DefaultDeleter__lt__ns3OutputStreamWrapper__gt___methods :: "class_call list" where
  "register_Ns3SimpleRefCount__Ns3OutputStreamWrapper_Ns3Empty_Ns3DefaultDeleter__lt__ns3OutputStreamWrapper__gt___methods = [
     Add_constructor [] [],
     Add_constructor [Param ''ns3::SimpleRefCount< ns3::OutputStreamWrapper, ns3::empty, ns3::DefaultDeleter< ns3::OutputStreamWrapper > > const &'' ''o'' []] [],
     Add_method ''Cleanup'' ''void'' [] [(''is_static'', CBool True)]]"

definition register_Ns3SimpleRefCount__Ns3PbbAddressBlock_Ns3Empty_Ns3DefaultDeleter__lt__ns3PbbAddressBlock__gt___methods :: "class_call list" where
  "register_Ns3SimpleRefCount__Ns3PbbAddressBlock_Ns3Empty_Ns3DefaultDeleter__lt__ns3PbbAddressBlock__gt___methods = [
     Add_constructor [] [],
     Add_constructor [Param ''ns3::SimpleRefCount< ns3::PbbAddressBlock, ns3::empty, ns3::DefaultDeleter< ns3::PbbAddressBlock > > const &'' ''o'' []] [],
     Add_method ''Cleanup'' ''void'' [] [(''is_static'', CBool True)]]"

definition register_Ns3SimpleRefCount__Ns3PbbMessage_Ns3Empty_Ns3DefaultDeleter__lt__ns3PbbMessage__gt___methods :: "class_call list" where
  "register_Ns3SimpleRefCount__Ns3PbbMessage_Ns3Empty_Ns3DefaultDeleter__lt__ns3PbbMessage__gt___methods = [
     Add_constructor [] [],
     Add_constructor [Param ''ns3::SimpleRefCount< ns3::PbbMessage, ns3::empty, ns3::DefaultDeleter< ns3::PbbMessage > > const &'' ''o'' []] [],
     Add_method ''Cleanup'' ''void'' [] [(''is_static'', CBool True)]]"

definition register_Ns3SimpleRefCount__Ns3PbbPacket_Ns3Header_Ns3DefaultDeleter__lt__ns3PbbPacket__gt___methods :: "class_call list" where
  "register_Ns3SimpleRefCount__Ns3PbbPacket_Ns3Header_Ns3DefaultDeleter__lt__ns3PbbPacket__gt___methods = [
     Add_constructor [] [],
     Add_constructor [Param ''ns3::SimpleRefCount< ns3::PbbPacket, ns3::Header, ns3::DefaultDeleter< ns3::PbbPacket > > const &'' ''o'' []] [],
     Add_method ''Cleanup'' ''void'' [] [(''is_static'', CBool True)]]"

definition register_Ns3SimpleRefCount__Ns3PbbTlv_Ns3Empty_Ns3DefaultDeleter__lt__ns3PbbTlv__gt___methods :: "class_call list" where
  "register_Ns3SimpleRefCount__Ns3PbbTlv_Ns3Empty_Ns3DefaultDeleter__lt__ns3PbbTlv__gt___methods = [
     Add_constructor [] [],
     Add_constructor [Param ''ns3::SimpleRefCount< ns3::PbbTlv, ns3::empty, ns3::DefaultDeleter< ns3::PbbTlv > > const &'' ''o'' []] [],
     Add_method ''Cleanup'' ''void'' [] [(''is_static'', CBool True)]]"

definition register_Ns3SllHeader_methods :: "class_call list" where
  "register_Ns3SllHeader_methods = [
     Add_constructor [Param ''ns3::SllHeader const &'' ''arg0'' []] [],
     Add_constructor [] [],
     Add_method ''Deserialize'' ''uint32_t'' [Param ''ns3::Buffer::Iterator'' ''start'' []] [(''is_virtual'', CBool True)],
     Add_method ''GetArpType'' ''uint16_t'' [] [(''is_const'', CBool True)],
     Add_method ''GetInstanceTypeId'' ''ns3::TypeId'' [] [(''is_const'', CBool True),
       (''is_virtual'', CBool True)],
     Add_method ''GetPacketType'' ''ns3::SllHeader::PacketType'' [] [(''is_const'', CBool True)],
     Add_method ''GetSerializedSize'' ''uint32_t'' [] [(''is_const'', CBool True),
       (''is_virtual'', CBool True)],
     Add_method ''GetTypeId'' ''ns3::TypeId'' [] [(''is_static'', CBool True)],
     Add_method ''Print'' ''void'' [Param ''std::ostream &'' ''os'' []] [(''is_const'', CBool True),
       (''is_virtual'', CBool True)],
     Add_method ''Serialize'' ''void'' [Param ''ns3::Buffer::Iterator'' ''start'' []] [(''is_const'', CBool True), (''is_virtual'', CBool True)],
     Add_method ''SetArpType'' ''void'' [Param ''uint16_t'' ''arphdType'' []] [],
     Add_method ''SetPacketType'' ''void'' [Param ''ns3::SllHeader::PacketType'' ''type'' []] []]"

definition register_Ns3Socket_methods :: "class_call list" where
  "register_Ns3Socket_methods = [
     Add_constructor [Param ''ns3::Socket const &'' ''arg0'' []] [],
     Add_constructor [] [],
     Add_method ''Bind'' ''int'' [Param ''ns3::Address const &'' ''address'' []] [(''is_pure_virtual'', CBool True), (''is_virtual'', CBool True)],
     Add_method ''Bind'' ''int'' [] [(''is_pure_virtual'', CBool True), (''is_virtual'', CBool True)],
     Add_method ''Bind6'' ''int'' [] [(''is_pure_virtual'', CBool True), (''is_virtual'', CBool True)],
     Add_method ''BindToNetDevice'' ''void'' [Param ''ns3::Ptr< ns3::NetDevice >'' ''netdevice'' []] [(''is_virtual'', CBool True)],
     Add_method ''Close'' ''int'' [] [(''is_pure_virtual'', CBool True), (''is_virtual'', CBool True)],
     Add_method ''Connect'' ''int'' [Param ''ns3::Address const &'' ''address'' []] [(''is_pure_virtual'', CBool True), (''is_virtual'', CBool True)],
     Add_method ''CreateSocket'' ''ns3::Ptr< ns3::Socket >'' [Param ''ns3::Ptr< ns3::Node >'' ''node'' [],
       Param ''ns3::TypeId'' ''tid'' []] [(''is_static'', CBool True)],
     Add_method ''GetAllowBroadcast'' ''bool'' [] [(''is_pure_virtual'', CBool True),
       (''is_const'', CBool True), (''is_virtual'', CBool True)],
     Add_method ''GetBoundNetDevice'' ''ns3::Ptr< ns3::NetDevice >'' [] [],
     Add_method ''GetErrno'' ''ns3::Socket::SocketErrno'' [] [(''is_pure_virtual'', CBool True),
       (''is_const'', CBool True), (''is_virtual'', CBool True)],
     Add_method ''GetIpTos'' ''uint8_t'' [] [(''is_const'', CBool True)],
     Add_method ''GetIpTtl'' ''uint8_t'' [] [(''is_const'', CBool True), (''is_virtual'', CBool True)],
     Add_method ''GetIpv6HopLimit'' ''uint8_t'' [] [(''is_const'', CBool True), (''is_virtual'', CBool True)],
     Add_method ''GetIpv6Tclass'' ''uint8_t'' [] [(''is_const'', CBool True)],
     Add_method ''GetNode'' ''ns3::Ptr< ns3::Node >'' [] [(''is_pure_virtual'', CBool True),
       (''is_const'', CBool True), (''is_virtual'', CBool True)],
     Add_method ''GetPeerName'' ''int'' [Param ''ns3::Address &'' ''address'' []] [(''is_pure_virtual'', CBool True), (''is_const'', CBool True), (''is_virtual'', CBool True)],
     Add_method ''GetPriority'' ''uint8_t'' [] [(''is_const'', CBool True)],
     Add_method ''GetRxAvailable'' ''uint32_t'' [] [(''is_pure_virtual'', CBool True),
       (''is_const'', CBool True), (''is_virtual'', CBool True)],
     Add_method ''GetSockName'' ''int'' [Param ''ns3::Address &'' ''address'' []] [(''is_pure_virtual'', CBool True), (''is_const'', CBool True), (''is_virtual'', CBool True)],
     Add_method ''GetSocketType'' ''ns3::Socket::SocketType'' [] [(''is_pure_virtual'', CBool True),
       (''is_const'', CBool True), (''is_virtual'', CBool True)],
     Add_method ''GetTxAvailable'' ''uint32_t'' [] [(''is_pure_virtual'', CBool True),
       (''is_const'', CBool True), (''is_virtual'', CBool True)],
     Add_method ''GetTypeId'' ''ns3::TypeId'' [] [(''is_static'', CBool True)],
     Add_method ''IpTos2Priority'' ''uint8_t'' [Param ''uint8_t'' ''ipTos'' []] [(''is_static'', CBool True)],
     Add_method ''Ipv6JoinGroup'' ''void'' [Param ''ns3::Ipv6Address'' ''address'' [],
       Param ''ns3::Socket::Ipv6MulticastFilterMode'' ''filterMode'' [],
       Param ''std::vector< ns3::Ipv6Address >'' ''sourceAddresses'' []] [(''is_virtual'', CBool True)],
     Add_method ''Ipv6JoinGroup'' ''void'' [Param ''ns3::Ipv6Address'' ''address'' []] [(''is_virtual'', CBool True)],
     Add_method ''Ipv6LeaveGroup'' ''void'' [] [(''is_virtual'', CBool True)],
     Add_method ''IsIpRecvTos'' ''bool'' [] [(''is_const'', CBool True)],
     Add_method ''IsIpRecvTtl'' ''bool'' [] [(''is_const'', CBool True)],
     Add_method ''IsIpv6RecvHopLimit'' ''bool'' [] [(''is_const'', CBool True)],
     Add_method ''IsIpv6RecvTclass'' ''bool'' [] [(''is_const'', CBool True)],
     Add_method ''IsRecvPktInfo'' ''bool'' [] [(''is_const'', CBool True)],
     Add_method ''Listen'' ''int'' [] [(''is_pure_virtual'', CBool True), (''is_virtual'', CBool True)],
     Add_method ''Recv'' ''ns3::Ptr< ns3::Packet >'' [Param ''uint32_t'' ''maxSize'' [],
       Param ''uint32_t'' ''flags'' []] [(''is_pure_virtual'', CBool True), (''is_virtual'', CBool True)],
     Add_method ''Recv'' ''ns3::Ptr< ns3::Packet >'' [] [],
     Add_method ''Recv'' ''int'' [Param ''uint8_t *'' ''buf'' [], Param ''uint32_t'' ''size'' [],
       Param ''uint32_t'' ''flags'' []] [],
     Add_method ''RecvFrom'' ''ns3::Ptr< ns3::Packet >'' [Param ''uint32_t'' ''maxSize'' [],
       Param ''uint32_t'' ''flags'' [],
       Param ''ns3::Address &'' ''fromAddress'' []] [(''is_pure_virtual'', CBool True),
       (''is_virtual'', CBool True)],
     Add_method ''RecvFrom'' ''ns3::Ptr< ns3::Packet >'' [Param ''ns3::Address &'' ''fromAddress'' []] [],
     Add_method ''RecvFrom'' ''int'' [Param ''uint8_t *'' ''buf'' [], Param ''uint32_t'' ''size'' [],
       Param ''uint32_t'' ''flags'' [], Param ''ns3::Address &'' ''fromAddress'' []] [],
     Add_method ''Send'' ''int'' [Param ''ns3::Ptr< ns3::Packet >'' ''p'' [],
       Param ''uint32_t'' ''flags'' []] [(''is_pure_virtual'', CBool True), (''is_virtual'', CBool True)],
     Add_method ''Send'' ''int'' [Param ''ns3::Ptr< ns3::Packet >'' ''p'' []] [],
     Add_method ''Send'' ''int'' [Param ''uint8_t const *'' ''buf'' [], Param ''uint32_t'' ''size'' [],
       Param ''uint32_t'' ''flags'' []] [],
     Add_method ''SendTo'' ''int'' [Param ''ns3::Ptr< ns3::Packet >'' ''p'' [],
       Param ''uint32_t'' ''flags'' [],
       Param ''ns3::Address const &'' ''toAddress'' []] [(''is_pure_virtual'', CBool True),
       (''is_virtual'', CBool True)],
     Add_method ''SendTo'' ''int'' [Param ''uint8_t const *'' ''buf'' [], Param ''uint32_t'' ''size'' [],
       Param ''uint32_t'' ''flags'' [], Param ''ns3::Address const &'' ''address'' []] [],
     Add_method ''SetAcceptCallback'' ''void'' [Param ''ns3::Callback< bool, ns3::Ptr< ns3::Socket >, ns3::Address const &, ns3::empty, ns3::empty, ns3::empty, ns3::empty, ns3::empty, ns3::empty, ns3::empty >'' ''connectionRequest'' [], Param ''ns3::Callback< void, ns3::Ptr< ns3::Socket >, ns3::Address const &, ns3::empty, ns3::empty, ns3::empty, ns3::empty, ns3::empty, ns3::empty, ns3::empty >'' ''newConnectionCreated'' []] [],
     Add_method ''SetAllowBroadcast'' ''bool'' [Param ''bool'' ''allowBroadcast'' []] [(''is_pure_virtual'', CBool True), (''is_virtual'', CBool True)],
     Add_method ''SetCloseCallbacks'' ''void'' [Param ''ns3::Callback< void, ns3::Ptr< ns3::Socket >, ns3::empty, ns3::empty, ns3::empty, ns3::empty, ns3::empty, ns3::empty, ns3::empty, ns3::empty >'' ''normalClose'' [], Param ''ns3::Callback< void, ns3::Ptr< ns3::Socket >, ns3::empty, ns3::empty, ns3::empty, ns3::empty, ns3::empty, ns3::empty, ns3::empty, ns3::empty >'' ''errorClose'' []] [],
     Add_method ''SetConnectCallback'' ''void'' [Param ''ns3::Callback< void, ns3::Ptr< ns3::Socket >, ns3::empty, ns3::empty, ns3::empty, ns3::empty, ns3::empty, ns3::empty, ns3::empty, ns3::empty >'' ''connectionSucceeded'' [], Param ''ns3::Callback< void, ns3::Ptr< ns3::Socket >, ns3::empty, ns3::empty, ns3::empty, ns3::empty, ns3::empty, ns3::empty, ns3::empty, ns3::empty >'' ''connectionFailed'' []] [],
     Add_method ''SetDataSentCallback'' ''void'' [Param ''ns3::Callback< void, ns3::Ptr< ns3::Socket >, unsigned int, ns3::empty, ns3::empty, ns3::empty, ns3::empty, ns3::empty, ns3::empty, ns3::empty >'' ''dataSent'' []] [],
     Add_method ''SetIpRecvTos'' ''void'' [Param ''bool'' ''ipv4RecvTos'' []] [],
     Add_method ''SetIpRecvTtl'' ''void'' [Param ''bool'' ''ipv4RecvTtl'' []] [],
     Add_method ''SetIpTos'' ''void'' [Param ''uint8_t'' ''ipTos'' []] [],
     Add_method ''SetIpTtl'' ''void'' [Param ''uint8_t'' ''ipTtl'' []] [(''is_virtual'', CBool True)],
     Add_method ''SetIpv6HopLimit'' ''void'' [Param ''uint8_t'' ''ipHopLimit'' []] [(''is_virtual'', CBool True)],
     Add_method ''SetIpv6RecvHopLimit'' ''void'' [Param ''bool'' ''ipv6RecvHopLimit'' []] [],
     Add_method ''SetIpv6RecvTclass'' ''void'' [Param ''bool'' ''ipv6RecvTclass'' []] [],
     Add_method ''SetIpv6Tclass'' ''void'' [Param ''int'' ''ipTclass'' []] [],
     Add_method ''SetPriority'' ''void'' [Param ''uint8_t'' ''priority'' []] [],
     Add_method ''SetRecvCallback'' ''void'' [Param ''ns3::Callback< void, ns3::Ptr< ns3::Socket >, ns3::empty, ns3::empty, ns3::empty, ns3::empty, ns3::empty, ns3::empty, ns3::empty, ns3::empty >'' ''arg0'' []] [],
     Add_method ''SetRecvPktInfo'' ''void'' [Param ''bool'' ''flag'' []] [],
     Add_method ''SetSendCallback'' ''void'' [Param ''ns3::Callback< void, ns3::Ptr< ns3::Socket >, unsigned int, ns3::empty, ns3::empty, ns3::empty, ns3::empty, ns3::empty, ns3::empty, ns3::empty >'' ''sendCb'' []] [],
     Add_method ''ShutdownRecv'' ''int'' [] [(''is_pure_virtual'', CBool True), (''is_virtual'', CBool True)],
     Add_method ''ShutdownSend'' ''int'' [] [(''is_pure_virtual'', CBool True), (''is_virtual'', CBool True)],
     Add_method ''DoDispose'' ''void'' [] [(''visibility'', CStr ''protected''),
       (''is_virtual'', CBool True)],
     Add_method ''IsManualIpTtl'' ''bool'' [] [(''is_const'', CBool True),
       (''visibility'', CStr ''protected'')],
     Add_method ''IsManualIpv6HopLimit'' ''bool'' [] [(''is_const'', CBool True),
       (''visibility'', CStr ''protected'')],
     Add_method ''IsManualIpv6Tclass'' ''bool'' [] [(''is_const'', CBool True),
       (''visibility'', CStr ''protected'')],
     Add_method ''NotifyConnectionFailed'' ''void'' [] [(''visibility'', CStr ''protected'')],
     Add_method ''NotifyConnectionRequest'' ''bool'' [Param ''ns3::Address const &'' ''from'' []] [(''visibility'', CStr ''protected'')],
     Add_method ''NotifyConnectionSucceeded'' ''void'' [] [(''visibility'', CStr ''protected'')],
     Add_method ''NotifyDataRecv'' ''void'' [] [(''visibility'', CStr ''protected'')],
     Add_method ''NotifyDataSent'' ''void'' [Param ''uint32_t'' ''size'' []] [(''visibility'', CStr ''protected'')],
     Add_method ''NotifyErrorClose'' ''void'' [] [(''visibility'', CStr ''protected'')],
     Add_method ''NotifyNewConnectionCreated'' ''void'' [Param ''ns3::Ptr< ns3::Socket >'' ''socket'' [],
       Param ''ns3::Address const &'' ''from'' []] [(''visibility'', CStr ''protected'')],
     Add_method ''NotifyNormalClose'' ''void'' [] [(''visibility'', CStr ''protected'')],
     Add_method ''NotifySend'' ''void'' [Param ''uint32_t'' ''spaceAvailable'' []] [(''visibility'', CStr ''protected'')]]"

definition register_Ns3SocketFactory_methods :: "class_call list" where
  "register_Ns3SocketFactory_methods = [
     Add_constructor [Param ''ns3::SocketFactory const &'' ''arg0'' []] [],
     Add_constructor [] [],
     Add_method ''CreateSocket'' ''ns3::Ptr< ns3::Socket >'' [] [(''is_pure_virtual'', CBool True),
       (''is_virtual'', CBool True)],
     Add_method ''GetTypeId'' ''ns3::TypeId'' [] [(''is_static'', CBool True)]]"

definition register_Ns3SocketIpTosTag_methods :: "class_call list" where
  "register_Ns3SocketIpTosTag_methods = [
     Add_constructor [Param ''ns3::SocketIpTosTag const &'' ''arg0'' []] [],
     Add_constructor [] [],
     Add_method ''Deserialize'' ''void'' [Param ''ns3::TagBuffer'' ''i'' []] [(''is_virtual'', CBool True)],
     Add_method ''GetInstanceTypeId'' ''ns3::TypeId'' [] [(''is_const'', CBool True),
       (''is_virtual'', CBool True)],
     Add_method ''GetSerializedSize'' ''uint32_t'' [] [(''is_const'', CBool True),
       (''is_virtual'', CBool True)],
     Add_method ''GetTos'' ''uint8_t'' [] [(''is_const'', CBool True)],
     Add_method ''GetTypeId'' ''ns3::TypeId'' [] [(''is_static'', CBool True)],
     Add_method ''Print'' ''void'' [Param ''std::ostream &'' ''os'' []] [(''is_const'', CBool True),
       (''is_virtual'', CBool True)],
     Add_method ''Serialize'' ''void'' [Param ''ns3::TagBuffer'' ''i'' []] [(''is_const'', CBool True),
       (''is_virtual'', CBool True)],
     Add_method ''SetTos'' ''void'' [Param ''uint8_t'' ''tos'' []] []]"

text \<open>The functions of this part.\<close>

definition net_members_3 :: "class_call list list" where
  "net_members_3 = [
     register_Ns3LlcSnapHeader_methods,
     register_Ns3PacketBurst_methods,
     register_Ns3PacketSocketTag_methods,
     register_Ns3PcapFileWrapper_methods,
     register_Ns3QueueLimits_methods,
     register_Ns3RadiotapHeader_methods,
     register_Ns3SimpleRefCount__Ns3OutputStreamWrapper_Ns3Empty_Ns3DefaultDeleter__lt__ns3OutputStreamWrapper__gt___methods,
     register_Ns3SimpleRefCount__Ns3PbbAddressBlock_Ns3Empty_Ns3DefaultDeleter__lt__ns3PbbAddressBlock__gt___methods,
     register_Ns3SimpleRefCount__Ns3PbbMessage_Ns3Empty_Ns3DefaultDeleter__lt__ns3PbbMessage__gt___methods,
     register_Ns3SimpleRefCount__Ns3PbbPacket_Ns3Header_Ns3DefaultDeleter__lt__ns3PbbPacket__gt___methods,
     register_Ns3SimpleRefCount__Ns3PbbTlv_Ns3Empty_Ns3DefaultDeleter__lt__ns3PbbTlv__gt___methods,
     register_Ns3SllHeader_methods,
     register_Ns3Socket_methods,
     register_Ns3SocketFactory_methods,
     register_Ns3SocketIpTosTag_methods]"

end
