(* ===== verification/Network_Methods_4.thy ===== *)
theory Network_Methods_4
  imports Pybindgen
begin

text \<open>
  Part 4 of the functions that register the members of the classes of the network module,
  from \<open>register_Ns3SocketIpTtlTag_methods\<close> to \<open>register_Ns3Mac64AddressValue_methods\<close> of
  \<open>network/bindings/modulegen__gcc_LP64.py\<close>, without those that the traffic-control script
  has as well: the calls on \<open>cls\<close> in the order of the source.
\<close>

definition register_Ns3SocketIpTtlTag_methods :: "class_call list" where
  "register_Ns3SocketIpTtlTag_methods = [
     Add_constructor [Param ''ns3::SocketIpTtlTag const &'' ''arg0'' []] [],
     Add_constructor [] [],
     Add_method ''Deserialize'' ''void'' [Param ''ns3::TagBuffer'' ''i'' []] [(''is_virtual'', CBool True)],
     Add_method ''GetInstanceTypeId'' ''ns3::TypeId'' [] [(''is_const'', CBool True),
       (''is_virtual'', CBool True)],
     Add_method ''GetSerializedSize'' ''uint32_t'' [] [(''is_const'', CBool True),
       (''is_virtual'', CBool True)],
     Add_method ''GetTtl'' ''uint8_t'' [] [(''is_const'', CBool True)],
     Add_method ''GetTypeId'' ''ns3::TypeId'' [] [(''is_static'', CBool True)],
     Add_method ''Print'' ''void'' [Param ''std::ostream &'' ''os'' []] [(''is_const'', CBool True),
       (''is_virtual'', CBool True)],
     Add_method ''Serialize'' ''void'' [Param ''ns3::TagBuffer'' ''i'' []] [(''is_const'', CBool True),
       (''is_virtual'', CBool True)],
     Add_method ''SetTtl'' ''void'' [Param ''uint8_t'' ''ttl'' []] []]"

definition register_Ns3SocketIpv6HopLimitTag_methods :: "class_call list" where
  "register_Ns3SocketIpv6HopLimitTag_methods = [
     Add_constructor [Param ''ns3::SocketIpv6HopLimitTag const &'' ''arg0'' []] [],
     Add_constructor [] [],
     Add_method ''Deserialize'' ''void'' [Param ''ns3::TagBuffer'' ''i'' []] [(''is_virtual'', CBool True)],
     Add_method ''GetHopLimit'' ''uint8_t'' [] [(''is_const'', CBool True)],
     Add_method ''GetInstanceTypeId'' ''ns3::TypeId'' [] [(''is_const'', CBool True),
       (''is_virtual'', CBool True)],
     Add_method ''GetSerializedSize'' ''uint32_t'' [] [(''is_const'', CBool True),
       (''is_virtual'', CBool True)],
     Add_method ''GetTypeId'' ''ns3::TypeId'' [] [(''is_static'', CBool True)],
     Add_method ''Print'' ''void'' [Param ''std::ostream &'' ''os'' []] [(''is_const'', CBool True),
       (''is_virtual'', CBool True)],
     Add_method ''Serialize'' ''void'' [Param ''ns3::TagBuffer'' ''i'' []] [(''is_const'', CBool True),
       (''is_virtual'', CBool True)],
     Add_method ''SetHopLimit'' ''void'' [Param ''uint8_t'' ''hopLimit'' []] []]"

definition register_Ns3SocketIpv6TclassTag_methods :: "class_call list" where
  "register_Ns3SocketIpv6TclassTag_methods = [
     Add_constructor [Param ''ns3::SocketIpv6TclassTag const &'' ''arg0'' []] [],
     Add_constructor [] [],
     Add_method ''Deserialize'' ''void'' [Param ''ns3::TagBuffer'' ''i'' []] [(''is_virtual'', CBool True)],
     Add_method ''GetInstanceTypeId'' ''ns3::TypeId'' [] [(''is_const'', CBool True),
       (''is_virtual'', CBool True)],
     Add_method ''GetSerializedSize'' ''uint32_t'' [] [(''is_const'', CBool True),
       (''is_virtual'', CBool True)],
     Add_method ''GetTclass'' ''uint8_t'' [] [(''is_const'', CBool True)],
     Add_method ''GetTypeId'' ''ns3::TypeId'' [] [(''is_static'', CBool True)],
     Add_method ''Print'' ''void'' [Param ''std::ostream &'' ''os'' []] [(''is_const'', CBool True),
       (''is_virtual'', CBool True)],
     Add_method ''Serialize'' ''void'' [Param ''ns3::TagBuffer'' ''i'' []] [(''is_const'', CBool True),
       (''is_virtual'', CBool True)],
     Add_method ''SetTclass'' ''void'' [Param ''uint8_t'' ''tclass'' []] []]"

definition register_Ns3SocketPriorityTag_methods :: "class_call list" where
  "register_Ns3SocketPriorityTag_methods = [
     Add_constructor [Param ''ns3::SocketPriorityTag const &'' ''arg0'' []] [],
     Add_constructor [] [],
     Add_method ''Deserialize'' ''void'' [Param ''ns3::TagBuffer'' ''i'' []] [(''is_virtual'', CBool True)],
     Add_method ''GetInstanceTypeId'' ''ns3::TypeId'' [] [(''is_const'', CBool True),
       (''is_virtual'', CBool True)],
     Add_method ''GetPriority'' ''uint8_t'' [] [(''is_const'', CBool True)],
     Add_method ''GetSerializedSize'' ''uint32_t'' [] [(''is_const'', CBool True),
       (''is_virtual'', CBool True)],
     Add_method ''GetTypeId'' ''ns3::TypeId'' [] [(''is_static'', CBool True)],
     Add_method ''Print'' ''void'' [Param ''std::ostream &'' ''os'' []] [(''is_const'', CBool True),
       (''is_virtual'', CBool True)],
     Add_method ''Serialize'' ''void'' [Param ''ns3::TagBuffer'' ''i'' []] [(''is_const'', CBool True),
       (''is_virtual'', CBool True)],
     Add_method ''SetPriority'' ''void'' [Param ''uint8_t'' ''priority'' []] []]"

definition register_Ns3SocketSetDontFragmentTag_methods :: "class_call list" where
  "register_Ns3SocketSetDontFragmentTag_methods = [
     Add_constructor [Param ''ns3::SocketSetDontFragmentTag const &'' ''arg0'' []] [],
     Add_constructor [] [],
     Add_method ''Deserialize'' ''void'' [Param ''ns3::TagBuffer'' ''i'' []] [(''is_virtual'', CBool True)],
     Add_method ''Disable'' ''void'' [] [],
     Add_method ''Enable'' ''void'' [] [],
     Add_method ''GetInstanceTypeId'' ''ns3::TypeId'' [] [(''is_const'', CBool True),
       (''is_virtual'', CBool True)],
     Add_method ''GetSerializedSize'' ''uint32_t'' [] [(''is_const'', CBool True),
       (''is_virtual'', CBool True)],
     Add_method ''GetTypeId'' ''ns3::TypeId'' [] [(''is_static'', CBool True)],
     Add_method ''IsEnabled'' ''bool'' [] [(''is_const'', CBool True)],
     Add_method ''Print'' ''void'' [Param ''std::ostream &'' ''os'' []] [(''is_const'', CBool True),
       (''is_virtual'', CBool True)],
     Add_method ''Serialize'' ''void'' [Param ''ns3::TagBuffer'' ''i'' []] [(''is_const'', CBool True),
       (''is_virtual'', CBool True)]]"

definition net_register_Ns3Time_methods :: "class_call list" where
  "net_register_Ns3Time_methods = [
     Add_binary_comparison_operator ''<='',
     Add_binary_comparison_operator ''!='',
     Add_inplace_numeric_operator ''+='' (Param ''ns3::Time const &'' ''right'' []),
     Add_binary_numeric_operator ''*'' ''ns3::Time'' ''ns3::Time'' (Param ''int64_t const &'' ''right'' []),
     Add_binary_numeric_operator ''+'' ''ns3::Time'' ''ns3::Time'' (Param ''ns3::Time const &'' ''right'' []),
     Add_binary_numeric_operator ''-'' ''ns3::Time'' ''ns3::Time'' (Param ''ns3::Time const &'' ''right'' []),
     Add_binary_numeric_operator ''/'' ''ns3::Time'' ''ns3::Time'' (Param ''int64_t const &'' ''right'' []),
     Add_binary_comparison_operator ''<'',
     Add_binary_comparison_operator ''>'',
     Add_inplace_numeric_operator ''-='' (Param ''ns3::Time const &'' ''right'' []),
     Add_output_stream_operator,
     Add_binary_comparison_operator ''=='',
     Add_binary_comparison_operator ''>='',
     Add_constructor [] [],
     Add_constructor [Param ''ns3::Time const &'' ''o'' []] [],
     Add_constructor [Param ''double'' ''v'' []] [],
     Add_constructor [Param ''int'' ''v'' []] [],
     Add_constructor [Param ''long int'' ''v'' []] [],
     Add_constructor [Param ''long long int'' ''v'' []] [],
     Add_constructor [Param ''unsigned int'' ''v'' []] [],
     Add_constructor [Param ''long unsigned int'' ''v'' []] [],
     Add_constructor [Param ''long long unsigned int'' ''v'' []] [],
     Add_constructor [Param ''ns3::int64x64_t const &'' ''v'' []] [],
     Add_constructor [Param ''std::string const &'' ''s'' []] [],
     Add_method ''As'' ''ns3::TimeWithUnit'' [Param ''ns3::Time::Unit const'' ''unit'' []] [(''is_const'', CBool True)],
     Add_method ''Compare'' ''int'' [Param ''ns3::Time const &'' ''o'' []] [(''is_const'', CBool True)],
     Add_method ''From'' ''ns3::Time'' [Param ''ns3::int64x64_t const &'' ''value'' []] [(''is_static'', CBool True)],
     Add_method ''From'' ''ns3::Time'' [Param ''ns3::int64x64_t const &'' ''value'' [],
       Param ''ns3::Time::Unit'' ''unit'' []] [(''is_static'', CBool True)],
     Add_method ''FromDouble'' ''ns3::Time'' [Param ''double'' ''value'' [],
       Param ''ns3::Time::Unit'' ''unit'' []] [(''is_static'', CBool True)],
     Add_method ''FromInteger'' ''ns3::Time'' [Param ''uint64_t'' ''value'' [],
       Param ''ns3::Time::Unit'' ''unit'' []] [(''is_static'', CBool True)],
     Add_method ''GetDays'' ''double'' [] [(''is_const'', CBool True)],
     Add_method ''GetDouble'' ''double'' [] [(''is_const'', CBool True)],
     Add_method ''GetFemtoSeconds'' ''int64_t'' [] [(''is_const'', CBool True)],
     Add_method ''GetHours'' ''double'' [] [(''is_const'', CBool True)],
     Add_method ''GetInteger'' ''int64_t'' [] [(''is_const'', CBool True)],
     Add_method ''GetMicroSeconds'' ''int64_t'' [] [(''is_const'', CBool True)],
     Add_method ''GetMilliSeconds'' ''int64_t'' [] [(''is_const'', CBool True)],
     Add_method ''GetMinutes'' ''double'' [] [(''is_const'', CBool True)],
     Add_method ''GetNanoSeconds'' ''int64_t'' [] [(''is_const'', CBool True)],
     Add_method ''GetPicoSeconds'' ''int64_t'' [] [(''is_const'', CBool True)],
     Add_method ''GetResolution'' ''ns3::Time::Unit'' [] [(''is_static'', CBool True)],
     Add_method ''GetSeconds'' ''double'' [] [(''is_const'', CBool True)],
     Add_method ''GetTimeStep'' ''int64_t'' [] [(''is_const'', CBool True)],
     Add_method ''GetYears'' ''double'' [] [(''is_const'', CBool True)],
     Add_method ''IsNegative'' ''bool'' [] [(''is_const'', CBool True)],
     Add_method ''IsPositive'' ''bool'' [] [(''is_const'', CBool True)],
     Add_method ''IsStrictlyNegative'' ''bool'' [] [(''is_const'', CBool True)],
     Add_method ''IsStrictlyPositive'' ''bool'' [] [(''is_const'', CBool True)],
     Add_method ''IsZero'' ''bool'' [] [(''is_const'', CBool True)],
     Add_method ''Max'' ''ns3::Time'' [] [(''is_static'', CBool True)],
     Add_method ''Min'' ''ns3::Time'' [] [(''is_static'', CBool True)],
     Add_method ''SetResolution'' ''void'' [Param ''ns3::Time::Unit'' ''resolution'' []] [(''is_static'', CBool True)],
     Add_method ''StaticInit'' ''bool'' [] [(''is_static'', CBool True)],
     Add_method ''To'' ''ns3::int64x64_t'' [Param ''ns3::Time::Unit'' ''unit'' []] [(''is_const'', CBool True)],
     Add_method ''ToDouble'' ''double'' [Param ''ns3::Time::Unit'' ''unit'' []] [(''is_const'', CBool True)],
     Add_method ''ToInteger'' ''int64_t'' [Param ''ns3::Time::Unit'' ''unit'' []] [(''is_const'', CBool True)]]"

definition register_Ns3Application_methods :: "class_call list" where
  "register_Ns3Application_methods = [
     Add_constructor [Param ''ns3::Application const &'' ''arg0'' []] [],
     Add_constructor [] [],
     Add_method ''GetNode'' ''ns3::Ptr< ns3::Node >'' [] [(''is_const'', CBool True)],
     Add_method ''GetTypeId'' ''ns3::TypeId'' [] [(''is_static'', CBool True)],
     Add_method ''SetNode'' ''void'' [Param ''ns3::Ptr< ns3::Node >'' ''node'' []] [],
     Add_method ''SetStartTime'' ''void'' [Param ''ns3::Time'' ''start'' []] [],
     Add_method ''SetStopTime'' ''void'' [Param ''ns3::Time'' ''stop'' []] [],
     Add_method ''DoDispose'' ''void'' [] [(''visibility'', CStr ''protected''),
       (''is_virtual'', CBool True)],
     Add_method ''DoInitialize'' ''void'' [] [(''visibility'', CStr ''protected''),
       (''is_virtual'', CBool True)],
     Add_method ''StartApplication'' ''void'' [] [(''visibility'', CStr ''private''),
       (''is_virtual'', CBool True)],
     Add_method ''StopApplication'' ''void'' [] [(''visibility'', CStr ''private''),
       (''is_virtual'', CBool True)]]"

definition register_Ns3Channel_methods :: "class_call list" where
  "register_Ns3Channel_methods = [
     Add_constructor [Param ''ns3::Channel const &'' ''arg0'' []] [],
     Add_constructor [] [],
     Add_method ''GetDevice'' ''ns3::Ptr< ns3::NetDevice >'' [Param ''uint32_t'' ''i'' []] [(''is_pure_virtual'', CBool True), (''is_const'', CBool True), (''is_virtual'', CBool True)],
     Add_method ''GetId'' ''uint32_t'' [] [(''is_const'', CBool True)],
     Add_method ''GetNDevices'' ''uint32_t'' [] [(''is_pure_virtual'', CBool True),
       (''is_const'', CBool True), (''is_virtual'', CBool True)],
     Add_method ''GetTypeId'' ''ns3::TypeId'' [] [(''is_static'', CBool True)]]"

definition register_Ns3DataCalculator_methods :: "class_call list" where
  "register_Ns3DataCalculator_methods = [
     Add_constructor [Param ''ns3::DataCalculator const &'' ''arg0'' []] [],
     Add_constructor [] [],
     Add_method ''Disable'' ''void'' [] [],
     Add_method ''Enable'' ''void'' [] [],
     Add_method ''GetContext'' ''std::string'' [] [(''is_const'', CBool True)],
     Add_method ''GetEnabled'' ''bool'' [] [(''is_const'', CBool True)],
     Add_method ''GetKey'' ''std::string'' [] [(''is_const'', CBool True)],
     Add_method ''GetTypeId'' ''ns3::TypeId'' [] [(''is_static'', CBool True)],
     Add_method ''Output'' ''void'' [Param ''ns3::DataOutputCallback &'' ''callback'' []] [(''is_pure_virtual'', CBool True), (''is_const'', CBool True), (''is_virtual'', CBool True)],
     Add_method ''SetContext'' ''void'' [Param ''std::string const'' ''context'' []] [],
     Add_method ''SetKey'' ''void'' [Param ''std::string const'' ''key'' []] [],
     Add_method ''Start'' ''void'' [Param ''ns3::Time const &'' ''startTime'' []] [(''is_virtual'', CBool True)],
     Add_method ''Stop'' ''void'' [Param ''ns3::Time const &'' ''stopTime'' []] [(''is_virtual'', CBool True)],
     Add_method ''DoDispose'' ''void'' [] [(''visibility'', CStr ''protected''),
       (''is_virtual'', CBool True)]]"

definition register_Ns3DataCollectionObject_methods :: "class_call list" where
  "register_Ns3DataCollectionObject_methods = [
     Add_constructor [Param ''ns3::DataCollectionObject const &'' ''arg0'' []] [],
     Add_constructor [] [],
     Add_method ''Disable'' ''void'' [] [],
     Add_method ''Enable'' ''void'' [] [],
     Add_method ''GetName'' ''std::string'' [] [(''is_const'', CBool True)],
     Add_method ''GetTypeId'' ''ns3::TypeId'' [] [(''is_static'', CBool True)],
     Add_method ''IsEnabled'' ''bool'' [] [(''is_const'', CBool True), (''is_virtual'', CBool True)],
     Add_method ''SetName'' ''void'' [Param ''std::string'' ''name'' []] []]"

definition register_Ns3DataOutputInterface_methods :: "class_call list" where
  "register_Ns3DataOutputInterface_methods = [
     Add_constructor [Param ''ns3::DataOutputInterface const &'' ''arg0'' []] [],
     Add_constructor [] [],
     Add_method ''GetFilePrefix'' ''std::string'' [] [(''is_const'', CBool True)],
     Add_method ''GetTypeId'' ''ns3::TypeId'' [] [(''is_static'', CBool True)],
     Add_method ''Output'' ''void'' [Param ''ns3::DataCollector &'' ''dc'' []] [(''is_pure_virtual'', CBool True), (''is_virtual'', CBool True)],
     Add_method ''SetFilePrefix'' ''void'' [Param ''std::string const'' ''prefix'' []] [],
     Add_method ''DoDispose'' ''void'' [] [(''visibility'', CStr ''protected''),
       (''is_virtual'', CBool True)]]"

definition register_Ns3DropTailQueue_methods :: "class_call list" where
  "register_Ns3DropTailQueue_methods = [
     Add_constructor [Param ''ns3::DropTailQueue const &'' ''arg0'' []] [],
     Add_constructor [] [],
     Add_method ''GetTypeId'' ''ns3::TypeId'' [] [(''is_static'', CBool True)],
     Add_method ''DoDequeue'' ''ns3::Ptr< ns3::QueueItem >'' [] [(''visibility'', CStr ''private''),
       (''is_virtual'', CBool True)],
     Add_method ''DoEnqueue'' ''bool'' [Param ''ns3::Ptr< ns3::QueueItem >'' ''item'' []] [(''visibility'', CStr ''private''), (''is_virtual'', CBool True)],
     Add_method ''DoPeek'' ''ns3::Ptr< ns3::QueueItem const >'' [] [(''is_const'', CBool True),
       (''visibility'', CStr ''private''), (''is_virtual'', CBool True)],
     Add_method ''DoRemove'' ''ns3::Ptr< ns3::QueueItem >'' [] [(''visibility'', CStr ''private''),
       (''is_virtual'', CBool True)]]"

definition register_Ns3DynamicQueueLimits_methods :: "class_call list" where
  "register_Ns3DynamicQueueLimits_methods = [
     Add_constructor [Param ''ns3::DynamicQueueLimits const &'' ''arg0'' []] [],
     Add_constructor [] [],
     Add_method ''Available'' ''int32_t'' [] [(''is_const'', CBool True), (''is_virtual'', CBool True)],
     Add_method ''Completed'' ''void'' [Param ''uint32_t'' ''count'' []] [(''is_virtual'', CBool True)],
     Add_method ''GetTypeId'' ''ns3::TypeId'' [] [(''is_static'', CBool True)],
     Add_method ''Queued'' ''void'' [Param ''uint32_t'' ''count'' []] [(''is_virtual'', CBool True)],
     Add_method ''Reset'' ''void'' [] [(''is_virtual'', CBool True)]]"

definition register_Ns3ErrorModel_methods :: "class_call list" where
  "register_Ns3ErrorModel_methods = [
     Add_constructor [Param ''ns3::ErrorModel const &'' ''arg0'' []] [],
     Add_constructor [] [],
     Add_method ''Disable'' ''void'' [] [],
     Add_method ''Enable'' ''void'' [] [],
     Add_method ''GetTypeId'' ''ns3::TypeId'' [] [(''is_static'', CBool True)],
     Add_method ''IsCorrupt'' ''bool'' [Param ''ns3::Ptr< ns3::Packet >'' ''pkt'' []] [],
     Add_method ''IsEnabled'' ''bool'' [] [(''is_const'', CBool True)],
     Add_method ''Reset'' ''void'' [] [],
     Add_method ''DoCorrupt'' ''bool'' [Param ''ns3::Ptr< ns3::Packet >'' ''p'' []] [(''is_pure_virtual'', CBool True), (''visibility'', CStr ''private''), (''is_virtual'', CBool True)],
     Add_method ''DoReset'' ''void'' [] [(''is_pure_virtual'', CBool True),
       (''visibility'', CStr ''private''), (''is_virtual'', CBool True)]]"

definition register_Ns3EthernetHeader_methods :: "class_call list" where
  "register_Ns3EthernetHeader_methods = [
     Add_constructor [Param ''ns3::EthernetHeader const &'' ''arg0'' []] [],
     Add_constructor [Param ''bool'' ''hasPreamble'' []] [],
     Add_constructor [] [],
     Add_method ''Deserialize'' ''uint32_t'' [Param ''ns3::Buffer::Iterator'' ''start'' []] [(''is_virtual'', CBool True)],
     Add_method ''GetDestination'' ''ns3::Mac48Address'' [] [(''is_const'', CBool True)],
     Add_method ''GetHeaderSize'' ''uint32_t'' [] [(''is_const'', CBool True)],
     Add_method ''GetInstanceTypeId'' ''ns3::TypeId'' [] [(''is_const'', CBool True),
       (''is_virtual'', CBool True)],
     Add_method ''GetLengthType'' ''uint16_t'' [] [(''is_const'', CBool True)],
     Add_method ''GetPacketType'' ''ns3::ethernet_header_t'' [] [(''is_const'', CBool True)],
     Add_method ''GetPreambleSfd'' ''uint64_t'' [] [(''is_const'', CBool True)],
     Add_method ''GetSerializedSize'' ''uint32_t'' [] [(''is_const'', CBool True),
       (''is_virtual'', CBool True)],
     Add_method ''GetSource'' ''ns3::Mac48Address'' [] [(''is_const'', CBool True)],
     Add_method ''GetTypeId'' ''ns3::TypeId'' [] [(''is_static'', CBool True)],
     Add_method ''Print'' ''void'' [Param ''std::ostream &'' ''os'' []] [(''is_const'', CBool True),
       (''is_virtual'', CBool True)],
     Add_method ''Serialize'' ''void'' [Param ''ns3::Buffer::Iterator'' ''start'' []] [(''is_const'', CBool True), (''is_virtual'', CBool True)],
     Add_method ''SetDestination'' ''void'' [Param ''ns3::Mac48Address'' ''destination'' []] [],
     Add_method ''SetLengthType'' ''void'' [Param ''uint16_t'' ''size'' []] [],
     Add_method ''SetPreambleSfd'' ''void'' [Param ''uint64_t'' ''preambleSfd'' []] [],
     Add_method ''SetSource'' ''void'' [Param ''ns3::Mac48Address'' ''source'' []] []]"

definition register_Ns3EthernetTrailer_methods :: "class_call list" where
  "register_Ns3EthernetTrailer_methods = [
     Add_constructor [Param ''ns3::EthernetTrailer const &'' ''arg0'' []] [],
     Add_constructor [] [],
     Add_method ''CalcFcs'' ''void'' [Param ''ns3::Ptr< ns3::Packet const >'' ''p'' []] [],
     Add_method ''CheckFcs'' ''bool'' [Param ''ns3::Ptr< ns3::Packet const >'' ''p'' []] [(''is_const'', CBool True)],
     Add_method ''Deserialize'' ''uint32_t'' [Param ''ns3::Buffer::Iterator'' ''end'' []] [(''is_virtual'', CBool True)],
     Add_method ''EnableFcs'' ''void'' [Param ''bool'' ''enable'' []] [],
     Add_method ''GetFcs'' ''uint32_t'' [] [],
     Add_method ''GetInstanceTypeId'' ''ns3::TypeId'' [] [(''is_const'', CBool True),
       (''is_virtual'', CBool True)],
     Add_method ''GetSerializedSize'' ''uint32_t'' [] [(''is_const'', CBool True),
       (''is_virtual'', CBool True)],
     Add_method ''GetTrailerSize'' ''uint32_t'' [] [(''is_const'', CBool True)],
     Add_method ''GetTypeId'' ''ns3::TypeId'' [] [(''is_static'', CBool True)],
     Add_method ''Print'' ''void'' [Param ''std::ostream &'' ''os'' []] [(''is_const'', CBool True),
       (''is_virtual'', CBool True)],
     Add_method ''Serialize'' ''void'' [Param ''ns3::Buffer::Iterator'' ''end'' []] [(''is_const'', CBool True), (''is_virtual'', CBool True)],
     Add_method ''SetFcs'' ''void'' [Param ''uint32_t'' ''fcs'' []] []]"

definition register_Ns3ListErrorModel_methods :: "class_call list" where
  "register_Ns3ListErrorModel_methods = [
     Add_constructor [Param ''ns3::ListErrorModel const &'' ''arg0'' []] [],
     Add_constructor [] [],
     Add_method ''GetList'' ''std::list< unsigned int >'' [] [(''is_const'', CBool True)],
     Add_method ''GetTypeId'' ''ns3::TypeId'' [] [(''is_static'', CBool True)],
     Add_method ''SetList'' ''void'' [Param ''std::list< unsigned int > const &'' ''packetlist'' []] [],
     Add_method ''DoCorrupt'' ''bool'' [Param ''ns3::Ptr< ns3::Packet >'' ''p'' []] [(''visibility'', CStr ''private''), (''is_virtual'', CBool True)],
     Add_method ''DoReset'' ''void'' [] [(''visibility'', CStr ''private''), (''is_virtual'', CBool True)]]"

definition register_Ns3Mac16AddressChecker_methods :: "class_call list" where
  "register_Ns3Mac16AddressChecker_methods = [
     Add_constructor [] [],
     Add_constructor [Param ''ns3::Mac16AddressChecker const &'' ''arg0'' []] []]"

definition register_Ns3Mac16AddressValue_methods :: "class_call list" where
  "register_Ns3Mac16AddressValue_methods = [
     Add_constructor [] [],
     Add_constructor [Param ''ns3::Mac16AddressValue const &'' ''arg0'' []] [],
     Add_constructor [Param ''ns3::Mac16Address const &'' ''value'' []] [],
     Add_method ''Copy'' ''ns3::Ptr< ns3::AttributeValue >'' [] [(''is_const'', CBool True),
       (''is_virtual'', CBool True)],
     Add_method ''DeserializeFromString'' ''bool'' [Param ''std::string'' ''value'' [],
       Param ''ns3::Ptr< ns3::AttributeChecker const >'' ''checker'' []] [(''is_virtual'', CBool True)],
     Add_method ''Get'' ''ns3::Mac16Address'' [] [(''is_const'', CBool True)],
     Add_method ''SerializeToString'' ''std::string'' [Param ''ns3::Ptr< ns3::AttributeChecker const >'' ''checker'' []] [(''is_const'', CBool True), (''is_virtual'', CBool True)],
     Add_method ''Set'' ''void'' [Param ''ns3::Mac16Address const &'' ''value'' []] []]"

definition register_Ns3Mac64AddressChecker_methods :: "class_call list" where
  "register_Ns3Mac64AddressChecker_methods = [
     Add_constructor [] [],
     Add_constructor [Param ''ns3::Mac64AddressChecker const &'' ''arg0'' []] []]"

definition register_Ns3Mac64AddressValue_methods :: "class_call list" where
  "register_Ns3Mac64AddressValue_methods = [
     Add_constructor [] [],
     Add_constructor [Param ''ns3::Mac64AddressValue const &'' ''arg0'' []] [],
     Add_constructor [Param ''ns3::Mac64Address const &'' ''value'' []] [],
     Add_method ''Copy'' ''ns3::Ptr< ns3::AttributeValue >'' [] [(''is_const'', CBool True),
       (''is_virtual'', CBool True)],
     Add_method ''DeserializeFromString'' ''bool'' [Param ''std::string'' ''value'' [],
       Param ''ns3::Ptr< ns3::AttributeChecker const >'' ''checker'' []] [(''is_virtual'', CBool True)],
     Add_method ''Get'' ''ns3::Mac64Address'' [] [(''is_const'', CBool True)],
     Add_method ''SerializeToString'' ''std::string'' [Param ''ns3::Ptr< ns3::AttributeChecker const >'' ''checker'' []] [(''is_const'', CBool True), (''is_virtual'', CBool True)],
     Add_method ''Set'' ''void'' [Param ''ns3::Mac64Address const &'' ''value'' []] []]"

text \<open>The functions of this part.\<close>

definition net_members_4 :: "class_call list list" where
  "net_members_4 = [
     register_Ns3SocketIpTtlTag_methods,
     register_Ns3SocketIpv6HopLimitTag_methods,
     register_Ns3SocketIpv6TclassTag_methods,
     register_Ns3SocketPriorityTag_methods,
     register_Ns3SocketSetDontFragmentTag_methods,
     net_register_Ns3Time_methods,
     register_Ns3Application_methods,
     register_Ns3Channel_methods,
     register_Ns3DataCalculator_methods,
     register_Ns3DataCollectionObject_methods,
     register_Ns3DataOutputInterface_methods,
     register_Ns3DropTailQueue_methods,
     register_Ns3DynamicQueueLimits_methods,
     register_Ns3ErrorModel_methods,
     register_Ns3EthernetHeader_methods,
     register_Ns3EthernetTrailer_methods,
     register_Ns3ListErrorModel_methods,
     register_Ns3Mac16AddressChecker_methods,
     register_Ns3Mac16AddressValue_methods,
     register_Ns3Mac64AddressChecker_methods,
     register_Ns3Mac64AddressValue_methods]"

end
