(* ===== verification/Network_Methods_5.thy ===== *)
theory Network_Methods_5
  imports Pybindgen
begin

text \<open>
  Part 5 of the functions that register the members of the classes of the network module,
  from \<open>register_Ns3MinMaxAvgTotalCalculator__Unsigned_int_methods\<close> to \<open>register_Ns3PbbMessage_methods\<close> of
  \<open>network/bindings/modulegen__gcc_LP64.py\<close>, without those that the traffic-control script
  has as well: the calls on \<open>cls\<close> in the order of the source.
\<close>

definition register_Ns3MinMaxAvgTotalCalculator__Unsigned_int_methods :: "class_call list" where
  "register_Ns3MinMaxAvgTotalCalculator__Unsigned_int_methods = [
     Add_constructor [Param ''ns3::MinMaxAvgTotalCalculator< unsigned int > const &'' ''arg0'' []] [],
     Add_constructor [] [],
     Add_method ''GetTypeId'' ''ns3::TypeId'' [] [(''is_static'', CBool True)],
     Add_method ''Output'' ''void'' [Param ''ns3::DataOutputCallback &'' ''callback'' []] [(''is_const'', CBool True), (''is_virtual'', CBool True)],
     Add_method ''Reset'' ''void'' [] [],
     Add_method ''Update'' ''void'' [Param ''unsigned int const'' ''i'' []] [],
     Add_method ''getCount'' ''long int'' [] [(''is_const'', CBool True), (''is_virtual'', CBool True)],
     Add_method ''getMax'' ''double'' [] [(''is_const'', CBool True), (''is_virtual'', CBool True)],
     Add_method ''getMean'' ''double'' [] [(''is_const'', CBool True), (''is_virtual'', CBool True)],
     Add_method ''getMin'' ''double'' [] [(''is_const'', CBool True), (''is_virtual'', CBool True)],
     Add_method ''getSqrSum'' ''double'' [] [(''is_const'', CBool True), (''is_virtual'', CBool True)],
     Add_method ''getStddev'' ''double'' [] [(''is_const'', CBool True), (''is_virtual'', CBool True)],
     Add_method ''getSum'' ''double'' [] [(''is_const'', CBool True), (''is_virtual'', CBool True)],
     Add_method ''getVariance'' ''double'' [] [(''is_const'', CBool True), (''is_virtual'', CBool True)],
     Add_method ''DoDispose'' ''void'' [] [(''visibility'', CStr ''protected''),
       (''is_virtual'', CBool True)]]"

definition net_register_Ns3NetDevice_methods :: "class_call list" where
  "net_register_Ns3NetDevice_methods = [
     Add_constructor [] [],
     Add_constructor [Param ''ns3::NetDevice const &'' ''arg0'' []] [],
     Add_method ''AddLinkChangeCallback'' ''void'' [Param ''ns3::Callback< void, ns3::empty, ns3::empty, ns3::empty, ns3::empty, ns3::empty, ns3::empty, ns3::empty, ns3::empty, ns3::empty >'' ''callback'' []] [(''is_pure_virtual'', CBool True), (''is_virtual'', CBool True)],
     Add_method ''GetAddress'' ''ns3::Address'' [] [(''is_pure_virtual'', CBool True),
       (''is_const'', CBool True), (''is_virtual'', CBool True)],
     Add_method ''GetBroadcast'' ''ns3::Address'' [] [(''is_pure_virtual'', CBool True),
       (''is_const'', CBool True), (''is_virtual'', CBool True)],
     Add_method ''GetChannel'' ''ns3::Ptr< ns3::Channel >'' [] [(''is_pure_virtual'', CBool True),
       (''is_const'', CBool True), (''is_virtual'', CBool True)],
     Add_method ''GetIfIndex'' ''uint32_t'' [] [(''is_pure_virtual'', CBool True), (''is_const'', CBool True),
       (''is_virtual'', CBool True)],
     Add_method ''GetMtu'' ''uint16_t'' [] [(''is_pure_virtual'', CBool True), (''is_const'', CBool True),
       (''is_virtual'', CBool True)],
     Add_method ''GetMulticast'' ''ns3::Address'' [Param ''ns3::Ipv4Address'' ''multicastGroup'' []] [(''is_pure_virtual'', CBool True), (''is_const'', CBool True), (''is_virtual'', CBool True)],
     Add_method ''GetMulticast'' ''ns3::Address'' [Param ''ns3::Ipv6Address'' ''addr'' []] [(''is_pure_virtual'', CBool True), (''is_const'', CBool True), (''is_virtual'', CBool True)],
     Add_method ''GetNode'' ''ns3::Ptr< ns3::Node >'' [] [(''is_pure_virtual'', CBool True),
       (''is_const'', CBool True), (''is_virtual'', CBool True)],
     Add_method ''GetTypeId'' ''ns3::TypeId'' [] [(''is_static'', CBool True)],
     Add_method ''IsBridge'' ''bool'' [] [(''is_pure_virtual'', CBool True), (''is_const'', CBool True),
       (''is_virtual'', CBool True)],
     Add_method ''IsBroadcast'' ''bool'' [] [(''is_pure_virtual'', CBool True), (''is_const'', CBool True),
       (''is_virtual'', CBool True)],
     Add_method ''IsLinkUp'' ''bool'' [] [(''is_pure_virtual'', CBool True), (''is_const'', CBool True),
       (''is_virtual'', CBool True)],
     Add_method ''IsMulticast'' ''bool'' [] [(''is_pure_virtual'', CBool True), (''is_const'', CBool True),
       (''is_virtual'', CBool True)],
     Add_method ''IsPointToPoint'' ''bool'' [] [(''is_pure_virtual'', CBool True), (''is_const'', CBool True),
       (''is_virtual'', CBool True)],
     Add_method ''NeedsArp'' ''bool'' [] [(''is_pure_virtual'', CBool True), (''is_const'', CBool True),
       (''is_virtual'', CBool True)],
     Add_method ''Send'' ''bool'' [Param ''ns3::Ptr< ns3::Packet >'' ''packet'' [],
       Param ''ns3::Address const &'' ''dest'' [],
       Param ''uint16_t'' ''protocolNumber'' []] [(''is_pure_virtual'', CBool True),
       (''is_virtual'', CBool True)],
     Add_method ''SendFrom'' ''bool'' [Param ''ns3::Ptr< ns3::Packet >'' ''packet'' [],
       Param ''ns3::Address const &'' ''source'' [], Param ''ns3::Address const &'' ''dest'' [],
       Param ''uint16_t'' ''protocolNumber'' []] [(''is_pure_virtual'', CBool True),
       (''is_virtual'', CBool True)],
     Add_method ''SetAddress'' ''void'' [Param ''ns3::Address'' ''address'' []] [(''is_pure_virtual'', CBool True), (''is_virtual'', CBool True)],
     Add_method ''SetIfIndex'' ''void'' [Param ''uint32_t const'' ''index'' []] [(''is_pure_virtual'', CBool True), (''is_virtual'', CBool True)],
     Add_method ''SetMtu'' ''bool'' [Param ''uint16_t const'' ''mtu'' []] [(''is_pure_virtual'', CBool True),
       (''is_virtual'', CBool True)],
     Add_method ''SetNode'' ''void'' [Param ''ns3::Ptr< ns3::Node >'' ''node'' []] [(''is_pure_virtual'', CBool True), (''is_virtual'', CBool True)],
     Add_method ''SetPromiscReceiveCallback'' ''void'' [Param ''ns3::Callback< bool, ns3::Ptr< ns3::NetDevice >, ns3::Ptr< ns3::Packet const >, unsigned short, ns3::Address const &, ns3::Address const &, ns3::NetDevice::PacketType, ns3::empty, ns3::empty, ns3::empty >'' ''cb'' []] [(''is_pure_virtual'', CBool True), (''is_virtual'', CBool True)],
     Add_method ''SetReceiveCallback'' ''void'' [Param ''ns3::Callback< bool, ns3::Ptr< ns3::NetDevice >, ns3::Ptr< ns3::Packet const >, unsigned short, ns3::Address const &, ns3::empty, ns3::empty, ns3::empty, ns3::empty, ns3::empty >'' ''cb'' []] [(''is_pure_virtual'', CBool True), (''is_virtual'', CBool True)],
     Add_method ''SupportsSendFrom'' ''bool'' [] [(''is_pure_virtual'', CBool True),
       (''is_const'', CBool True), (''is_virtual'', CBool True)]]"

definition register_Ns3OutputStreamWrapper_methods :: "class_call list" where
  "register_Ns3OutputStreamWrapper_methods = [
     Add_constructor [Param ''ns3::OutputStreamWrapper const &'' ''arg0'' []] [],
     Add_constructor [Param ''std::string'' ''filename'' [], Param ''std::_Ios_Openmode'' ''filemode'' []] [],
     Add_constructor [Param ''std::ostream *'' ''os'' []] [],
     Add_method ''GetStream'' ''std::ostream *'' [] []]"

definition register_Ns3PacketSizeMinMaxAvgTotalCalculator_methods :: "class_call list" where
  "register_Ns3PacketSizeMinMaxAvgTotalCalculator_methods = [
     Add_constructor [Param ''ns3::PacketSizeMinMaxAvgTotalCalculator const &'' ''arg0'' []] [],
     Add_constructor [] [],
     Add_method ''FrameUpdate'' ''void'' [Param ''std::string'' ''path'' [],
       Param ''ns3::Ptr< ns3::Packet const >'' ''packet'' [], Param ''ns3::Mac48Address'' ''realto'' []] [],
     Add_method ''GetTypeId'' ''ns3::TypeId'' [] [(''is_static'', CBool True)],
     Add_method ''PacketUpdate'' ''void'' [Param ''std::string'' ''path'' [],
       Param ''ns3::Ptr< ns3::Packet const >'' ''packet'' []] [],
     Add_method ''DoDispose'' ''void'' [] [(''visibility'', CStr ''protected''),
       (''is_virtual'', CBool True)]]"

definition register_Ns3PacketSocket_methods :: "class_call list" where
  "register_Ns3PacketSocket_methods = [
     Add_constructor [Param ''ns3::PacketSocket const &'' ''arg0'' []] [],
     Add_constructor [] [],
     Add_method ''Bind'' ''int'' [] [(''is_virtual'', CBool True)],
     Add_method ''Bind'' ''int'' [Param ''ns3::Address const &'' ''address'' []] [(''is_virtual'', CBool True)],
     Add_method ''Bind6'' ''int'' [] [(''is_virtual'', CBool True)],
     Add_method ''Close'' ''int'' [] [(''is_virtual'', CBool True)],
     Add_method ''Connect'' ''int'' [Param ''ns3::Address const &'' ''address'' []] [(''is_virtual'', CBool True)],
     Add_method ''GetAllowBroadcast'' ''bool'' [] [(''is_const'', CBool True), (''is_virtual'', CBool True)],
     Add_method ''GetErrno'' ''ns3::Socket::SocketErrno'' [] [(''is_const'', CBool True),
       (''is_virtual'', CBool True)],
     Add_method ''GetNode'' ''ns3::Ptr< ns3::Node >'' [] [(''is_const'', CBool True),
       (''is_virtual'', CBool True)],
     Add_method ''GetPeerName'' ''int'' [Param ''ns3::Address &'' ''address'' []] [(''is_const'', CBool True),
       (''is_virtual'', CBool True)],
     Add_method ''GetRxAvailable'' ''uint32_t'' [] [(''is_const'', CBool True), (''is_virtual'', CBool True)],
     Add_method ''GetSockName'' ''int'' [Param ''ns3::Address &'' ''address'' []] [(''is_const'', CBool True),
       (''is_virtual'', CBool True)],
     Add_method ''GetSocketType'' ''ns3::Socket::SocketType'' [] [(''is_const'', CBool True),
       (''is_virtual'', CBool True)],
     Add_method ''GetTxAvailable'' ''uint32_t'' [] [(''is_const'', CBool True), (''is_virtual'', CBool True)],
     Add_method ''GetTypeId'' ''ns3::TypeId'' [] [(''is_static'', CBool True)],
     Add_method ''Listen'' ''int'' [] [(''is_virtual'', CBool True)],
     Add_method ''Recv'' ''ns3::Ptr< ns3::Packet >'' [Param ''uint32_t'' ''maxSize'' [],
       Param ''uint32_t'' ''flags'' []] [(''is_virtual'', CBool True)],
     Add_method ''RecvFrom'' ''ns3::Ptr< ns3::Packet >'' [Param ''uint32_t'' ''maxSize'' [],
       Param ''uint32_t'' ''flags'' [],
       Param ''ns3::Address &'' ''fromAddress'' []] [(''is_virtual'', CBool True)],
     Add_method ''Send'' ''int'' [Param ''ns3::Ptr< ns3::Packet >'' ''p'' [],
       Param ''uint32_t'' ''flags'' []] [(''is_virtual'', CBool True)],
     Add_method ''SendTo'' ''int'' [Param ''ns3::Ptr< ns3::Packet >'' ''p'' [],
       Param ''uint32_t'' ''flags'' [],
       Param ''ns3::Address const &'' ''toAddress'' []] [(''is_virtual'', CBool True)],
     Add_method ''SetAllowBroadcast'' ''bool'' [Param ''bool'' ''allowBroadcast'' []] [(''is_virtual'', CBool True)],
     Add_method ''SetNode'' ''void'' [Param ''ns3::Ptr< ns3::Node >'' ''node'' []] [],
     Add_method ''ShutdownRecv'' ''int'' [] [(''is_virtual'', CBool True)],
     Add_method ''ShutdownSend'' ''int'' [] [(''is_virtual'', CBool True)],
     Add_method ''DoDispose'' ''void'' [] [(''visibility'', CStr ''private''), (''is_virtual'', CBool True)]]"

definition register_Ns3PacketSocketClient_methods :: "class_call list" where
  "register_Ns3PacketSocketClient_methods = [
     Add_constructor [Param ''ns3::PacketSocketClient const &'' ''arg0'' []] [],
     Add_constructor [] [],
     Add_method ''GetPriority'' ''uint8_t'' [] [(''is_const'', CBool True)],
     Add_method ''GetTypeId'' ''ns3::TypeId'' [] [(''is_static'', CBool True)],
     Add_method ''SetRemote'' ''void'' [Param ''ns3::PacketSocketAddress'' ''addr'' []] [],
     Add_method ''DoDispose'' ''void'' [] [(''visibility'', CStr ''protected''),
       (''is_virtual'', CBool True)],
     Add_method ''StartApplication'' ''void'' [] [(''visibility'', CStr ''private''),
       (''is_virtual'', CBool True)],
     Add_method ''StopApplication'' ''void'' [] [(''visibility'', CStr ''private''),
       (''is_virtual'', CBool True)]]"

definition register_Ns3PacketSocketFactory_methods :: "class_call list" where
  "register_Ns3PacketSocketFactory_methods = [
     Add_constructor [Param ''ns3::PacketSocketFactory const &'' ''arg0'' []] [],
     Add_constructor [] [],
     Add_method ''CreateSocket'' ''ns3::Ptr< ns3::Socket >'' [] [(''is_virtual'', CBool True)],
     Add_method ''GetTypeId'' ''ns3::TypeId'' [] [(''is_static'', CBool True)]]"

definition register_Ns3PacketSocketServer_methods :: "class_call list" where
  "register_Ns3PacketSocketServer_methods = [
     Add_constructor [Param ''ns3::PacketSocketServer const &'' ''arg0'' []] [],
     Add_constructor [] [],
     Add_method ''GetTypeId'' ''ns3::TypeId'' [] [(''is_static'', CBool True)],
     Add_method ''SetLocal'' ''void'' [Param ''ns3::PacketSocketAddress'' ''addr'' []] [],
     Add_method ''DoDispose'' ''void'' [] [(''visibility'', CStr ''protected''),
       (''is_virtual'', CBool True)],
     Add_method ''StartApplication'' ''void'' [] [(''visibility'', CStr ''private''),
       (''is_virtual'', CBool True)],
     Add_method ''StopApplication'' ''void'' [] [(''visibility'', CStr ''private''),
       (''is_virtual'', CBool True)]]"

definition register_Ns3PbbAddressBlock_methods :: "class_call list" where
  "register_Ns3PbbAddressBlock_methods = [
     Add_binary_comparison_operator ''=='',
     Add_binary_comparison_operator ''!='',
     Add_constructor [Param ''ns3::PbbAddressBlock const &'' ''arg0'' []] [],
     Add_constructor [] [],
     Add_method ''AddressBack'' ''ns3::Address'' [] [(''is_const'', CBool True)],
     Add_method ''AddressBegin'' ''std::_List_iterator< ns3::Address >'' [] [],
     Add_method ''AddressBegin'' ''std::_List_const_iterator< ns3::Address >'' [] [(''is_const'', CBool True)],
     Add_method ''AddressClear'' ''void'' [] [],
     Add_method ''AddressEmpty'' ''bool'' [] [(''is_const'', CBool True)],
     Add_method ''AddressEnd'' ''std::_List_iterator< ns3::Address >'' [] [],
     Add_method ''AddressEnd'' ''std::_List_const_iterator< ns3::Address >'' [] [(''is_const'', CBool True)],
     Add_method ''AddressErase'' ''std::_List_iterator< ns3::Address >'' [Param ''std::_List_iterator< ns3::Address >'' ''position'' []] [],
     Add_method ''AddressErase'' ''std::_List_iterator< ns3::Address >'' [Param ''std::_List_iterator< ns3::Address >'' ''first'' [], Param ''std::_List_iterator< ns3::Address >'' ''last'' []] [],
     Add_method ''AddressFront'' ''ns3::Address'' [] [(''is_const'', CBool True)],
     Add_method ''AddressInsert'' ''std::_List_iterator< ns3::Address >'' [Param ''std::_List_iterator< ns3::Address >'' ''position'' [], Param ''ns3::Address const'' ''value'' []] [],
     Add_method ''AddressPopBack'' ''void'' [] [],
     Add_method ''AddressPopFront'' ''void'' [] [],
     Add_method ''AddressPushBack'' ''void'' [Param ''ns3::Address'' ''address'' []] [],
     Add_method ''AddressPushFront'' ''void'' [Param ''ns3::Address'' ''address'' []] [],
     Add_method ''AddressSize'' ''int'' [] [(''is_const'', CBool True)],
     Add_method ''Deserialize'' ''void'' [Param ''ns3::Buffer::Iterator &'' ''start'' []] [],
     Add_method ''GetSerializedSize'' ''uint32_t'' [] [(''is_const'', CBool True)],
     Add_method ''PrefixBack'' ''uint8_t'' [] [(''is_const'', CBool True)],
     Add_method ''PrefixBegin'' ''std::_List_iterator< unsigned char >'' [] [],
     Add_method ''PrefixBegin'' ''std::_List_const_iterator< unsigned char >'' [] [(''is_const'', CBool True)],
     Add_method ''PrefixClear'' ''void'' [] [],
     Add_method ''PrefixEmpty'' ''bool'' [] [(''is_const'', CBool True)],
     Add_method ''PrefixEnd'' ''std::_List_iterator< unsigned char >'' [] [],
     Add_method ''PrefixEnd'' ''std::_List_const_iterator< unsigned char >'' [] [(''is_const'', CBool True)],
     Add_method ''PrefixErase'' ''std::_List_iterator< unsigned char >'' [Param ''std::_List_iterator< unsigned char >'' ''position'' []] [],
     Add_method ''PrefixErase'' ''std::_List_iterator< unsigned char >'' [Param ''std::_List_iterator< unsigned char >'' ''first'' [], Param ''std::_List_iterator< unsigned char >'' ''last'' []] [],
     Add_method ''PrefixFront'' ''uint8_t'' [] [(''is_const'', CBool True)],
     Add_method ''PrefixInsert'' ''std::_List_iterator< unsigned char >'' [Param ''std::_List_iterator< unsigned char >'' ''position'' [], Param ''uint8_t const'' ''value'' []] [],
     Add_method ''PrefixPopBack'' ''void'' [] [],
     Add_method ''PrefixPopFront'' ''void'' [] [],
     Add_method ''PrefixPushBack'' ''void'' [Param ''uint8_t'' ''prefix'' []] [],
     Add_method ''PrefixPushFront'' ''void'' [Param ''uint8_t'' ''prefix'' []] [],
     Add_method ''PrefixSize'' ''int'' [] [(''is_const'', CBool True)],
     Add_method ''Print'' ''void'' [Param ''std::ostream &'' ''os'' []] [(''is_const'', CBool True)],
     Add_method ''Print'' ''void'' [Param ''std::ostream &'' ''os'' [],
       Param ''int'' ''level'' []] [(''is_const'', CBool True)],
     Add_method ''Serialize'' ''void'' [Param ''ns3::Buffer::Iterator &'' ''start'' []] [(''is_const'', CBool True)],
     Add_method ''TlvBack'' ''ns3::Ptr< ns3::PbbAddressTlv >'' [] [],
     Add_method ''TlvBack'' ''ns3::Ptr< ns3::PbbAddressTlv > const'' [] [(''is_const'', CBool True)],
     Add_method ''TlvBegin'' ''std::_List_iterator< ns3::Ptr< ns3::PbbAddressTlv > >'' [] [],
     Add_method ''TlvBegin'' ''std::_List_const_iterator< ns3::Ptr< ns3::PbbAddressTlv > >'' [] [(''is_const'', CBool True)],
     Add_method ''TlvClear'' ''void'' [] [],
     Add_method ''TlvEmpty'' ''bool'' [] [(''is_const'', CBool True)],
     Add_method ''TlvEnd'' ''std::_List_iterator< ns3::Ptr< ns3::PbbAddressTlv > >'' [] [],
     Add_method ''TlvEnd'' ''std::_List_const_iterator< ns3::Ptr< ns3::PbbAddressTlv > >'' [] [(''is_const'', CBool True)],
     Add_method ''TlvErase'' ''std::_List_iterator< ns3::Ptr< ns3::PbbAddressTlv > >'' [Param ''std::_List_iterator< ns3::Ptr< ns3::PbbAddressTlv > >'' ''position'' []] [],
     Add_method ''TlvErase'' ''std::_List_iterator< ns3::Ptr< ns3::PbbAddressTlv > >'' [Param ''std::_List_iterator< ns3::Ptr< ns3::PbbAddressTlv > >'' ''first'' [], Param ''std::_List_iterator< ns3::Ptr< ns3::PbbAddressTlv > >'' ''last'' []] [],
     Add_method ''TlvFront'' ''ns3::Ptr< ns3::PbbAddressTlv >'' [] [],
     Add_method ''TlvFront'' ''ns3::Ptr< ns3::PbbAddressTlv > const'' [] [(''is_const'', CBool True)],
     Add_method ''TlvInsert'' ''std::_List_iterator< ns3::Ptr< ns3::PbbAddressTlv > >'' [Param ''std::_List_iterator< ns3::Ptr< ns3::PbbAddressTlv > >'' ''position'' [], Param ''ns3::Ptr< ns3::PbbTlv > const'' ''value'' []] [],
     Add_method ''TlvPopBack'' ''void'' [] [],
     Add_method ''TlvPopFront'' ''void'' [] [],
     Add_method ''TlvPushBack'' ''void'' [Param ''ns3::Ptr< ns3::PbbAddressTlv >'' ''address'' []] [],
     Add_method ''TlvPushFront'' ''void'' [Param ''ns3::Ptr< ns3::PbbAddressTlv >'' ''address'' []] [],
     Add_method ''TlvSize'' ''int'' [] [(''is_const'', CBool True)],
     Add_method ''DeserializeAddress'' ''ns3::Address'' [Param ''uint8_t *'' ''buffer'' []] [(''is_pure_virtual'', CBool True), (''is_const'', CBool True), (''visibility'', CStr ''protected''), (''is_virtual'', CBool True)],
     Add_method ''GetAddressLength'' ''uint8_t'' [] [(''is_pure_virtual'', CBool True),
       (''is_const'', CBool True), (''visibility'', CStr ''protected''), (''is_virtual'', CBool True)],
     Add_method ''PrintAddress'' ''void'' [Param ''std::ostream &'' ''os'' [],
       Param ''std::_List_const_iterator< ns3::Address >'' ''iter'' []] [(''is_pure_virtual'', CBool True),
       (''is_const'', CBool True), (''visibility'', CStr ''protected''), (''is_virtual'', CBool True)],
     Add_method ''SerializeAddress'' ''void'' [Param ''uint8_t *'' ''buffer'' [],
       Param ''std::_List_const_iterator< ns3::Address >'' ''iter'' []] [(''is_pure_virtual'', CBool True),
       (''is_const'', CBool True), (''visibility'', CStr ''protected''), (''is_virtual'', CBool True)]]"

definition register_Ns3PbbAddressBlockIpv4_methods :: "class_call list" where
  "register_Ns3PbbAddressBlockIpv4_methods = [
     Add_constructor [Param ''ns3::PbbAddressBlockIpv4 const &'' ''arg0'' []] [],
     Add_constructor [] [],
     Add_method ''DeserializeAddress'' ''ns3::Address'' [Param ''uint8_t *'' ''buffer'' []] [(''is_const'', CBool True), (''visibility'', CStr ''protected''), (''is_virtual'', CBool True)],
     Add_method ''GetAddressLength'' ''uint8_t'' [] [(''is_const'', CBool True),
       (''visibility'', CStr ''protected''), (''is_virtual'', CBool True)],
     Add_method ''PrintAddress'' ''void'' [Param ''std::ostream &'' ''os'' [],
       Param ''std::_List_const_iterator< ns3::Address >'' ''iter'' []] [(''is_const'', CBool True),
       (''visibility'', CStr ''protected''), (''is_virtual'', CBool True)],
     Add_method ''SerializeAddress'' ''void'' [Param ''uint8_t *'' ''buffer'' [],
       Param ''std::_List_const_iterator< ns3::Address >'' ''iter'' []] [(''is_const'', CBool True),
       (''visibility'', CStr ''protected''), (''is_virtual'', CBool True)]]"

definition register_Ns3PbbAddressBlockIpv6_methods :: "class_call list" where
  "register_Ns3PbbAddressBlockIpv6_methods = [
     Add_constructor [Param ''ns3::PbbAddressBlockIpv6 const &'' ''arg0'' []] [],
     Add_constructor [] [],
     Add_method ''DeserializeAddress'' ''ns3::Address'' [Param ''uint8_t *'' ''buffer'' []] [(''is_const'', CBool True), (''visibility'', CStr ''protected''), (''is_virtual'', CBool True)],
     Add_method ''GetAddressLength'' ''uint8_t'' [] [(''is_const'', CBool True),
       (''visibility'', CStr ''protected''), (''is_virtual'', CBool True)],
     Add_method ''PrintAddress'' ''void'' [Param ''std::ostream &'' ''os'' [],
       Param ''std::_List_const_iterator< ns3::Address >'' ''iter'' []] [(''is_const'', CBool True),
       (''visibility'', CStr ''protected''), (''is_virtual'', CBool True)],
     Add_method ''SerializeAddress'' ''void'' [Param ''uint8_t *'' ''buffer'' [],
       Param ''std::_List_const_iterator< ns3::Address >'' ''iter'' []] [(''is_const'', CBool True),
       (''visibility'', CStr ''protected''), (''is_virtual'', CBool True)]]"

definition register_Ns3PbbMessage_methods :: "class_call list" where
  "register_Ns3PbbMessage_methods = [
     Add_binary_comparison_operator ''=='',
     Add_binary_comparison_operator ''!='',
     Add_constructor [Param ''ns3::PbbMessage const &'' ''arg0'' []] [],
     Add_constructor [] [],
     Add_method ''AddressBlockBack'' ''ns3::Ptr< ns3::PbbAddressBlock >'' [] [],
     Add_method ''AddressBlockBack'' ''ns3::Ptr< ns3::PbbAddressBlock > const'' [] [(''is_const'', CBool True)],
     Add_method ''AddressBlockBegin'' ''std::_List_iterator< ns3::Ptr< ns3::PbbAddressBlock > >'' [] [],
     Add_method ''AddressBlockBegin'' ''std::_List_const_iterator< ns3::Ptr< ns3::PbbAddressBlock > >'' [] [(''is_const'', CBool True)],
     Add_method ''AddressBlockClear'' ''void'' [] [],
     Add_method ''AddressBlockEmpty'' ''bool'' [] [(''is_const'', CBool True)],
     Add_method ''AddressBlockEnd'' ''std::_List_iterator< ns3::Ptr< ns3::PbbAddressBlock > >'' [] [],
     Add_method ''AddressBlockEnd'' ''std::_List_const_iterator< ns3::Ptr< ns3::PbbAddressBlock > >'' [] [(''is_const'', CBool True)],
     Add_method ''AddressBlockErase'' ''std::_List_iterator< ns3::Ptr< ns3::PbbAddressBlock > >'' [Param ''std::_List_iterator< ns3::Ptr< ns3::PbbAddressBlock > >'' ''position'' []] [],
     Add_method ''AddressBlockErase'' ''std::_List_iterator< ns3::Ptr< ns3::PbbAddressBlock > >'' [Param ''std::_List_iterator< ns3::Ptr< ns3::PbbAddressBlock > >'' ''first'' [], Param ''std::_List_iterator< ns3::Ptr< ns3::PbbAddressBlock > >'' ''last'' []] [],
     Add_method ''AddressBlockFront'' ''ns3::Ptr< ns3::PbbAddressBlock >'' [] [],
     Add_method ''AddressBlockFront'' ''ns3::Ptr< ns3::PbbAddressBlock > const'' [] [(''is_const'', CBool True)],
     Add_method ''AddressBlockPopBack'' ''void'' [] [],
     Add_method ''AddressBlockPopFront'' ''void'' [] [],
     Add_method ''AddressBlockPushBack'' ''void'' [Param ''ns3::Ptr< ns3::PbbAddressBlock >'' ''block'' []] [],
     Add_method ''AddressBlockPushFront'' ''void'' [Param ''ns3::Ptr< ns3::PbbAddressBlock >'' ''block'' []] [],
     Add_method ''AddressBlockSize'' ''int'' [] [(''is_const'', CBool True)],
     Add_method ''Deserialize'' ''void'' [Param ''ns3::Buffer::Iterator &'' ''start'' []] [],
     Add_method ''DeserializeMessage'' ''ns3::Ptr< ns3::PbbMessage >'' [Param ''ns3::Buffer::Iterator &'' ''start'' []] [(''is_static'', CBool True)],
     Add_method ''GetHopCount'' ''uint8_t'' [] [(''is_const'', CBool True)],
     Add_method ''GetHopLimit'' ''uint8_t'' [] [(''is_const'', CBool True)],
     Add_method ''GetOriginatorAddress'' ''ns3::Address'' [] [(''is_const'', CBool True)],
     Add_method ''GetSequenceNumber'' ''uint16_t'' [] [(''is_const'', CBool True)],
     Add_method ''GetSerializedSize'' ''uint32_t'' [] [(''is_const'', CBool True)],
     Add_method ''GetType'' ''uint8_t'' [] [(''is_const'', CBool True)],
     Add_method ''HasHopCount'' ''bool'' [] [(''is_const'', CBool True)],
     Add_method ''HasHopLimit'' ''bool'' [] [(''is_const'', CBool True)],
     Add_method ''HasOriginatorAddress'' ''bool'' [] [(''is_const'', CBool True)],
     Add_method ''HasSequenceNumber'' ''bool'' [] [(''is_const'', CBool True)],
     Add_method ''Print'' ''void'' [Param ''std::ostream &'' ''os'' []] [(''is_const'', CBool True)],
     Add_method ''Print'' ''void'' [Param ''std::ostream &'' ''os'' [],
       Param ''int'' ''level'' []] [(''is_const'', CBool True)],
     Add_method ''Serialize'' ''void'' [Param ''ns3::Buffer::Iterator &'' ''start'' []] [(''is_const'', CBool True)],
     Add_method ''SetHopCount'' ''void'' [Param ''uint8_t'' ''hopcount'' []] [],
     Add_method ''SetHopLimit'' ''void'' [Param ''uint8_t'' ''hoplimit'' []] [],
     Add_method ''SetOriginatorAddress'' ''void'' [Param ''ns3::Address'' ''address'' []] [],
     Add_method ''SetSequenceNumber'' ''void'' [Param ''uint16_t'' ''seqnum'' []] [],
     Add_method ''SetType'' ''void'' [Param ''uint8_t'' ''type'' []] [],
     Add_method ''TlvBack'' ''ns3::Ptr< ns3::PbbTlv >'' [] [],
     Add_method ''TlvBack'' ''ns3::Ptr< ns3::PbbTlv > const'' [] [(''is_const'', CBool True)],
     Add_method ''TlvBegin'' ''std::_List_iterator< ns3::Ptr< ns3::PbbTlv > >'' [] [],
     Add_method ''TlvBegin'' ''std::_List_const_iterator< ns3::Ptr< ns3::PbbTlv > >'' [] [(''is_const'', CBool True)],
     Add_method ''TlvClear'' ''void'' [] [],
     Add_method ''TlvEmpty'' ''bool'' [] [(''is_const'', CBool True)],
     Add_method ''TlvEnd'' ''std::_List_iterator< ns3::Ptr< ns3::PbbTlv > >'' [] [],
     Add_method ''TlvEnd'' ''std::_List_const_iterator< ns3::Ptr< ns3::PbbTlv > >'' [] [(''is_const'', CBool True)],
     Add_method ''TlvErase'' ''std::_List_iterator< ns3::Ptr< ns3::PbbTlv > >'' [Param ''std::_List_iterator< ns3::Ptr< ns3::PbbTlv > >'' ''position'' []] [],
     Add_method ''TlvErase'' ''std::_List_iterator< ns3::Ptr< ns3::PbbTlv > >'' [Param ''std::_List_iterator< ns3::Ptr< ns3::PbbTlv > >'' ''first'' [], Param ''std::_List_iterator< ns3::Ptr< ns3::PbbTlv > >'' ''last'' []] [],
     Add_method ''TlvFront'' ''ns3::Ptr< ns3::PbbTlv >'' [] [],
     Add_method ''TlvFront'' ''ns3::Ptr< ns3::PbbTlv > const'' [] [(''is_const'', CBool True)],
     Add_method ''TlvPopBack'' ''void'' [] [],
     Add_method ''TlvPopFront'' ''void'' [] [],
     Add_method ''TlvPushBack'' ''void'' [Param ''ns3::Ptr< ns3::PbbTlv >'' ''tlv'' []] [],
     Add_method ''TlvPushFront'' ''void'' [Param ''ns3::Ptr< ns3::PbbTlv >'' ''tlv'' []] [],
     Add_method ''TlvSize'' ''int'' [] [(''is_const'', CBool True)],
     Add_method ''AddressBlockDeserialize'' ''ns3::Ptr< ns3::PbbAddressBlock >'' [Param ''ns3::Buffer::Iterator &'' ''start'' []] [(''is_pure_virtual'', CBool True), (''is_const'', CBool True), (''visibility'', CStr ''protected''), (''is_virtual'', CBool True)],
     Add_method ''DeserializeOriginatorAddress'' ''ns3::Address'' [Param ''ns3::Buffer::Iterator &'' ''start'' []] [(''is_pure_virtual'', CBool True), (''is_const'', CBool True), (''visibility'', CStr ''protected''), (''is_virtual'', CBool True)],
     Add_method ''GetAddressLength'' ''ns3::PbbAddressLength'' [] [(''is_pure_virtual'', CBool True),
       (''is_const'', CBool True), (''visibility'', CStr ''protected''), (''is_virtual'', CBool True)],
     Add_method ''PrintOriginatorAddress'' ''void'' [Param ''std::ostream &'' ''os'' []] [(''is_pure_virtual'', CBool True), (''is_const'', CBool True), (''visibility'', CStr ''protected''), (''is_virtual'', CBool True)],
     Add_method ''SerializeOriginatorAddress'' ''void'' [Param ''ns3::Buffer::Iterator &'' ''start'' []] [(''is_pure_virtual'', CBool True), (''is_const'', CBool True), (''visibility'', CStr ''protected''), (''is_virtual'', CBool True)]]"

text \<open>The functions of this part.\<close>

definition net_members_5 :: "class_call list list" where
  "net_members_5 = [
     register_Ns3MinMaxAvgTotalCalculator__Unsigned_int_methods,
     net_register_Ns3NetDevice_methods,
     register_Ns3OutputStreamWrapper_methods,
     register_Ns3PacketSizeMinMaxAvgTotalCalculator_methods,
     register_Ns3PacketSocket_methods,
     register_Ns3PacketSocketClient_methods,
     register_Ns3PacketSocketFactory_methods,
     register_Ns3PacketSocketServer_methods,
     register_Ns3PbbAddressBlock_methods,
     register_Ns3PbbAddressBlockIpv4_methods,
     register_Ns3PbbAddressBlockIpv6_methods,
     register_Ns3PbbMessage_methods]"

end
