(* ===== verification/Network_Methods_6.thy ===== *)
theory Network_Methods_6
  imports Pybindgen
begin

text \<open>
  Part 6 of the functions that register the members of the classes of the network module,
  from \<open>register_Ns3PbbMessageIpv4_methods\<close> to \<open>register_Ns3PbbAddressTlv_methods\<close> of
  \<open>network/bindings/modulegen__gcc_LP64.py\<close>, without those that the traffic-control script
  has as well: the calls on \<open>cls\<close> in the order of the source.
\<close>

definition register_Ns3PbbMessageIpv4_methods :: "class_call list" where
  "register_Ns3PbbMessageIpv4_methods = [
     Add_constructor [Param ''ns3::PbbMessageIpv4 const &'' ''arg0'' []] [],
     Add_constructor [] [],
     Add_method ''AddressBlockDeserialize'' ''ns3::Ptr< ns3::PbbAddressBlock >'' [Param ''ns3::Buffer::Iterator &'' ''start'' []] [(''is_const'', CBool True), (''visibility'', CStr ''protected''), (''is_virtual'', CBool True)],
     Add_method ''DeserializeOriginatorAddress'' ''ns3::Address'' [Param ''ns3::Buffer::Iterator &'' ''start'' []] [(''is_const'', CBool True), (''visibility'', CStr ''protected''), (''is_virtual'', CBool True)],
     Add_method ''GetAddressLength'' ''ns3::PbbAddressLength'' [] [(''is_const'', CBool True),
       (''visibility'', CStr ''protected''), (''is_virtual'', CBool True)],
     Add_method ''PrintOriginatorAddress'' ''void'' [Param ''std::ostream &'' ''os'' []] [(''is_const'', CBool True), (''visibility'', CStr ''protected''), (''is_virtual'', CBool True)],
     Add_method ''SerializeOriginatorAddress'' ''void'' [Param ''ns3::Buffer::Iterator &'' ''start'' []] [(''is_const'', CBool True), (''visibility'', CStr ''protected''), (''is_virtual'', CBool True)]]"

definition register_Ns3PbbMessageIpv6_methods :: "class_call list" where
  "register_Ns3PbbMessageIpv6_methods = [
     Add_constructor [Param ''ns3::PbbMessageIpv6 const &'' ''arg0'' []] [],
     Add_constructor [] [],
     Add_method ''AddressBlockDeserialize'' ''ns3::Ptr< ns3::PbbAddressBlock >'' [Param ''ns3::Buffer::Iterator &'' ''start'' []] [(''is_const'', CBool True), (''visibility'', CStr ''protected''), (''is_virtual'', CBool True)],
     Add_method ''DeserializeOriginatorAddress'' ''ns3::Address'' [Param ''ns3::Buffer::Iterator &'' ''start'' []] [(''is_const'', CBool True), (''visibility'', CStr ''protected''), (''is_virtual'', CBool True)],
     Add_method ''GetAddressLength'' ''ns3::PbbAddressLength'' [] [(''is_const'', CBool True),
       (''visibility'', CStr ''protected''), (''is_virtual'', CBool True)],
     Add_method ''PrintOriginatorAddress'' ''void'' [Param ''std::ostream &'' ''os'' []] [(''is_const'', CBool True), (''visibility'', CStr ''protected''), (''is_virtual'', CBool True)],
     Add_method ''SerializeOriginatorAddress'' ''void'' [Param ''ns3::Buffer::Iterator &'' ''start'' []] [(''is_const'', CBool True), (''visibility'', CStr ''protected''), (''is_virtual'', CBool True)]]"

definition register_Ns3PbbPacket_methods :: "class_call list" where
  "register_Ns3PbbPacket_methods = [
     Add_binary_comparison_operator ''=='',
     Add_binary_comparison_operator ''!='',
     Add_constructor [Param ''ns3::PbbPacket const &'' ''arg0'' []] [],
     Add_constructor [] [],
     Add_method ''Deserialize'' ''uint32_t'' [Param ''ns3::Buffer::Iterator'' ''start'' []] [(''is_virtual'', CBool True)],
     Add_method ''Erase'' ''std::_List_iterator< ns3::Ptr< ns3::PbbTlv > >'' [Param ''std::_List_iterator< ns3::Ptr< ns3::PbbTlv > >'' ''position'' []] [],
     Add_method ''Erase'' ''std::_List_iterator< ns3::Ptr< ns3::PbbTlv > >'' [Param ''std::_List_iterator< ns3::Ptr< ns3::PbbTlv > >'' ''first'' [], Param ''std::_List_iterator< ns3::Ptr< ns3::PbbTlv > >'' ''last'' []] [],
     Add_method ''Erase'' ''std::_List_iterator< ns3::Ptr< ns3::PbbMessage > >'' [Param ''std::_List_iterator< ns3::Ptr< ns3::PbbMessage > >'' ''position'' []] [],
     Add_method ''Erase'' ''std::_List_iterator< ns3::Ptr< ns3::PbbMessage > >'' [Param ''std::_List_iterator< ns3::Ptr< ns3::PbbMessage > >'' ''first'' [], Param ''std::_List_iterator< ns3::Ptr< ns3::PbbMessage > >'' ''last'' []] [],
     Add_method ''GetInstanceTypeId'' ''ns3::TypeId'' [] [(''is_const'', CBool True),
       (''is_virtual'', CBool True)],
     Add_method ''GetSequenceNumber'' ''uint16_t'' [] [(''is_const'', CBool True)],
     Add_method ''GetSerializedSize'' ''uint32_t'' [] [(''is_const'', CBool True),
       (''is_virtual'', CBool True)],
     Add_method ''GetTypeId'' ''ns3::TypeId'' [] [(''is_static'', CBool True)],
     Add_method ''GetVersion'' ''uint8_t'' [] [(''is_const'', CBool True)],
     Add_method ''HasSequenceNumber'' ''bool'' [] [(''is_const'', CBool True)],
     Add_method ''MessageBack'' ''ns3::Ptr< ns3::PbbMessage >'' [] [],
     Add_method ''MessageBack'' ''ns3::Ptr< ns3::PbbMessage > const'' [] [(''is_const'', CBool True)],
     Add_method ''MessageBegin'' ''std::_List_iterator< ns3::Ptr< ns3::PbbMessage > >'' [] [],
     Add_method ''MessageBegin'' ''std::_List_const_iterator< ns3::Ptr< ns3::PbbMessage > >'' [] [(''is_const'', CBool True)],
     Add_method ''MessageClear'' ''void'' [] [],
     Add_method ''MessageEmpty'' ''bool'' [] [(''is_const'', CBool True)],
     Add_method ''MessageEnd'' ''std::_List_iterator< ns3::Ptr< ns3::PbbMessage > >'' [] [],
     Add_method ''MessageEnd'' ''std::_List_const_iterator< ns3::Ptr< ns3::PbbMessage > >'' [] [(''is_const'', CBool True)],
     Add_method ''MessageFront'' ''ns3::Ptr< ns3::PbbMessage >'' [] [],
     Add_method ''MessageFront'' ''ns3::Ptr< ns3::PbbMessage > const'' [] [(''is_const'', CBool True)],
     Add_method ''MessagePopBack'' ''void'' [] [],
     Add_method ''MessagePopFront'' ''void'' [] [],
     Add_method ''MessagePushBack'' ''void'' [Param ''ns3::Ptr< ns3::PbbMessage >'' ''message'' []] [],
     Add_method ''MessagePushFront'' ''void'' [Param ''ns3::Ptr< ns3::PbbMessage >'' ''message'' []] [],
     Add_method ''MessageSize'' ''int'' [] [(''is_const'', CBool True)],
     Add_method ''Print'' ''void'' [Param ''std::ostream &'' ''os'' []] [(''is_const'', CBool True),
       (''is_virtual'', CBool True)],
     Add_method ''Serialize'' ''void'' [Param ''ns3::Buffer::Iterator'' ''start'' []] [(''is_const'', CBool True), (''is_virtual'', CBool True)],
     Add_method ''SetSequenceNumber'' ''void'' [Param ''uint16_t'' ''number'' []] [],
     Add_method ''TlvBack'' ''ns3::Ptr< ns3::PbbTlv >'' [] [],
     Add_method ''TlvBack'' ''ns3::Ptr< ns3::PbbTlv > const'' [] [(''is_const'', CBool True)],
     Add_method ''TlvBegin'' ''std::_List_iterator< ns3::Ptr< ns3::PbbTlv > >'' [] [],
     Add_method ''TlvBegin'' ''std::_List_const_iterator< ns3::Ptr< ns3::PbbTlv > >'' [] [(''is_const'', CBool True)],
     Add_method ''TlvClear'' ''void'' [] [],
     Add_method ''TlvEmpty'' ''bool'' [] [(''is_const'', CBool True)],
     Add_method ''TlvEnd'' ''std::_List_iterator< ns3::Ptr< ns3::PbbTlv > >'' [] [],
     Add_method ''TlvEnd'' ''std::_List_const_iterator< ns3::Ptr< ns3::PbbTlv > >'' [] [(''is_const'', CBool True)],
     Add_method ''TlvFront'' ''ns3::Ptr< ns3::PbbTlv >'' [] [],
     Add_method ''TlvFront'' ''ns3::Ptr< ns3::PbbTlv > const'' [] [(''is_const'', CBool True)],
     Add_method ''TlvPopBack'' ''void'' [] [],
     Add_method ''TlvPopFront'' ''void'' [] [],
     Add_method ''TlvPushBack'' ''void'' [Param ''ns3::Ptr< ns3::PbbTlv >'' ''tlv'' []] [],
     Add_method ''TlvPushFront'' ''void'' [Param ''ns3::Ptr< ns3::PbbTlv >'' ''tlv'' []] [],
     Add_method ''TlvSize'' ''int'' [] [(''is_const'', CBool True)]]"

definition register_Ns3PbbTlv_methods :: "class_call list" where
  "register_Ns3PbbTlv_methods = [
     Add_binary_comparison_operator ''=='',
     Add_binary_comparison_operator ''!='',
     Add_constructor [Param ''ns3::PbbTlv const &'' ''arg0'' []] [],
     Add_constructor [] [],
     Add_method ''Deserialize'' ''void'' [Param ''ns3::Buffer::Iterator &'' ''start'' []] [],
     Add_method ''GetSerializedSize'' ''uint32_t'' [] [(''is_const'', CBool True)],
     Add_method ''GetType'' ''uint8_t'' [] [(''is_const'', CBool True)],
     Add_method ''GetTypeExt'' ''uint8_t'' [] [(''is_const'', CBool True)],
     Add_method ''GetValue'' ''ns3::Buffer'' [] [(''is_const'', CBool True)],
     Add_method ''HasTypeExt'' ''bool'' [] [(''is_const'', CBool True)],
     Add_method ''HasValue'' ''bool'' [] [(''is_const'', CBool True)],
     Add_method ''Print'' ''void'' [Param ''std::ostream &'' ''os'' []] [(''is_const'', CBool True)],
     Add_method ''Print'' ''void'' [Param ''std::ostream &'' ''os'' [],
       Param ''int'' ''level'' []] [(''is_const'', CBool True)],
     Add_method ''Serialize'' ''void'' [Param ''ns3::Buffer::Iterator &'' ''start'' []] [(''is_const'', CBool True)],
     Add_method ''SetType'' ''void'' [Param ''uint8_t'' ''type'' []] [],
     Add_method ''SetTypeExt'' ''void'' [Param ''uint8_t'' ''type'' []] [],
     Add_method ''SetValue'' ''void'' [Param ''ns3::Buffer'' ''start'' []] [],
     Add_method ''SetValue'' ''void'' [Param ''uint8_t const *'' ''buffer'' [],
       Param ''uint32_t'' ''size'' []] [],
     Add_method ''GetIndexStart'' ''uint8_t'' [] [(''is_const'', CBool True),
       (''visibility'', CStr ''protected'')],
     Add_method ''GetIndexStop'' ''uint8_t'' [] [(''is_const'', CBool True),
       (''visibility'', CStr ''protected'')],
     Add_method ''HasIndexStart'' ''bool'' [] [(''is_const'', CBool True),
       (''visibility'', CStr ''protected'')],
     Add_method ''HasIndexStop'' ''bool'' [] [(''is_const'', CBool True),
       (''visibility'', CStr ''protected'')],
     Add_method ''IsMultivalue'' ''bool'' [] [(''is_const'', CBool True),
       (''visibility'', CStr ''protected'')],
     Add_method ''SetIndexStart'' ''void'' [Param ''uint8_t'' ''index'' []] [(''visibility'', CStr ''protected'')],
     Add_method ''SetIndexStop'' ''void'' [Param ''uint8_t'' ''index'' []] [(''visibility'', CStr ''protected'')],
     Add_method ''SetMultivalue'' ''void'' [Param ''bool'' ''isMultivalue'' []] [(''visibility'', CStr ''protected'')]]"

definition register_Ns3Probe_methods :: "class_call list" where
  "register_Ns3Probe_methods = [
     Add_constructor [Param ''ns3::Probe const &'' ''arg0'' []] [],
     Add_constructor [] [],
     Add_method ''ConnectByObject'' ''bool'' [Param ''std::string'' ''traceSource'' [],
       Param ''ns3::Ptr< ns3::Object >'' ''obj'' []] [(''is_pure_virtual'', CBool True),
       (''is_virtual'', CBool True)],
     Add_method ''ConnectByPath'' ''void'' [Param ''std::string'' ''path'' []] [(''is_pure_virtual'', CBool True), (''is_virtual'', CBool True)],
     Add_method ''GetTypeId'' ''ns3::TypeId'' [] [(''is_static'', CBool True)],
     Add_method ''IsEnabled'' ''bool'' [] [(''is_const'', CBool True), (''is_virtual'', CBool True)]]"

definition register_Ns3RateErrorModel_methods :: "class_call list" where
  "register_Ns3RateErrorModel_methods = [
     Add_constructor [Param ''ns3::RateErrorModel const &'' ''arg0'' []] [],
     Add_constructor [] [],
     Add_method ''AssignStreams'' ''int64_t'' [Param ''int64_t'' ''stream'' []] [],
     Add_method ''GetRate'' ''double'' [] [(''is_const'', CBool True)],
     Add_method ''GetTypeId'' ''ns3::TypeId'' [] [(''is_static'', CBool True)],
     Add_method ''GetUnit'' ''ns3::RateErrorModel::ErrorUnit'' [] [(''is_const'', CBool True)],
     Add_method ''SetRandomVariable'' ''void'' [Param ''ns3::Ptr< ns3::RandomVariableStream >'' ''arg0'' []] [],
     Add_method ''SetRate'' ''void'' [Param ''double'' ''rate'' []] [],
     Add_method ''SetUnit'' ''void'' [Param ''ns3::RateErrorModel::ErrorUnit'' ''error_unit'' []] [],
     Add_method ''DoCorrupt'' ''bool'' [Param ''ns3::Ptr< ns3::Packet >'' ''p'' []] [(''visibility'', CStr ''private''), (''is_virtual'', CBool True)],
     Add_method ''DoCorruptBit'' ''bool'' [Param ''ns3::Ptr< ns3::Packet >'' ''p'' []] [(''visibility'', CStr ''private''), (''is_virtual'', CBool True)],
     Add_method ''DoCorruptByte'' ''bool'' [Param ''ns3::Ptr< ns3::Packet >'' ''p'' []] [(''visibility'', CStr ''private''), (''is_virtual'', CBool True)],
     Add_method ''DoCorruptPkt'' ''bool'' [Param ''ns3::Ptr< ns3::Packet >'' ''p'' []] [(''visibility'', CStr ''private''), (''is_virtual'', CBool True)],
     Add_method ''DoReset'' ''void'' [] [(''visibility'', CStr ''private''), (''is_virtual'', CBool True)]]"

definition register_Ns3ReceiveListErrorModel_methods :: "class_call list" where
  "register_Ns3ReceiveListErrorModel_methods = [
     Add_constructor [Param ''ns3::ReceiveListErrorModel const &'' ''arg0'' []] [],
     Add_constructor [] [],
     Add_method ''GetList'' ''std::list< unsigned int >'' [] [(''is_const'', CBool True)],
     Add_method ''GetTypeId'' ''ns3::TypeId'' [] [(''is_static'', CBool True)],
     Add_method ''SetList'' ''void'' [Param ''std::list< unsigned int > const &'' ''packetlist'' []] [],
     Add_method ''DoCorrupt'' ''bool'' [Param ''ns3::Ptr< ns3::Packet >'' ''p'' []] [(''visibility'', CStr ''private''), (''is_virtual'', CBool True)],
     Add_method ''DoReset'' ''void'' [] [(''visibility'', CStr ''private''), (''is_virtual'', CBool True)]]"

definition register_Ns3SimpleChannel_methods :: "class_call list" where
  "register_Ns3SimpleChannel_methods = [
     Add_constructor [Param ''ns3::SimpleChannel const &'' ''arg0'' []] [],
     Add_constructor [] [],
     Add_method ''Add'' ''void'' [Param ''ns3::Ptr< ns3::SimpleNetDevice >'' ''device'' []] [(''is_virtual'', CBool True)],
     Add_method ''BlackList'' ''void'' [Param ''ns3::Ptr< ns3::SimpleNetDevice >'' ''from'' [],
       Param ''ns3::Ptr< ns3::SimpleNetDevice >'' ''to'' []] [(''is_virtual'', CBool True)],
     Add_method ''GetDevice'' ''ns3::Ptr< ns3::NetDevice >'' [Param ''uint32_t'' ''i'' []] [(''is_const'', CBool True), (''is_virtual'', CBool True)],
     Add_method ''GetNDevices'' ''uint32_t'' [] [(''is_const'', CBool True), (''is_virtual'', CBool True)],
     Add_method ''GetTypeId'' ''ns3::TypeId'' [] [(''is_static'', CBool True)],
     Add_method ''Send'' ''void'' [Param ''ns3::Ptr< ns3::Packet >'' ''p'' [],
       Param ''uint16_t'' ''protocol'' [], Param ''ns3::Mac48Address'' ''to'' [],
       Param ''ns3::Mac48Address'' ''from'' [],
       Param ''ns3::Ptr< ns3::SimpleNetDevice >'' ''sender'' []] [(''is_virtual'', CBool True)],
     Add_method ''UnBlackList'' ''void'' [Param ''ns3::Ptr< ns3::SimpleNetDevice >'' ''from'' [],
       Param ''ns3::Ptr< ns3::SimpleNetDevice >'' ''to'' []] [(''is_virtual'', CBool True)]]"

definition register_Ns3SimpleNetDevice_methods :: "class_call list" where
  "register_Ns3SimpleNetDevice_methods = [
     Add_constructor [Param ''ns3::SimpleNetDevice const &'' ''arg0'' []] [],
     Add_constructor [] [],
     Add_method ''AddLinkChangeCallback'' ''void'' [Param ''ns3::Callback< void, ns3::empty, ns3::empty, ns3::empty, ns3::empty, ns3::empty, ns3::empty, ns3::empty, ns3::empty, ns3::empty >'' ''callback'' []] [(''is_virtual'', CBool True)],
     Add_method ''GetAddress'' ''ns3::Address'' [] [(''is_const'', CBool True), (''is_virtual'', CBool True)],
     Add_method ''GetBroadcast'' ''ns3::Address'' [] [(''is_const'', CBool True),
       (''is_virtual'', CBool True)],
     Add_method ''GetChannel'' ''ns3::Ptr< ns3::Channel >'' [] [(''is_const'', CBool True),
       (''is_virtual'', CBool True)],
     Add_method ''GetIfIndex'' ''uint32_t'' [] [(''is_const'', CBool True), (''is_virtual'', CBool True)],
     Add_method ''GetMtu'' ''uint16_t'' [] [(''is_const'', CBool True), (''is_virtual'', CBool True)],
     Add_method ''GetMulticast'' ''ns3::Address'' [Param ''ns3::Ipv4Address'' ''multicastGroup'' []] [(''is_const'', CBool True), (''is_virtual'', CBool True)],
     Add_method ''GetMulticast'' ''ns3::Address'' [Param ''ns3::Ipv6Address'' ''addr'' []] [(''is_const'', CBool True), (''is_virtual'', CBool True)],
     Add_method ''GetNode'' ''ns3::Ptr< ns3::Node >'' [] [(''is_const'', CBool True),
       (''is_virtual'', CBool True)],
     Add_method ''GetQueue'' ''ns3::Ptr< ns3::Queue >'' [] [(''is_const'', CBool True)],
     Add_method ''GetTypeId'' ''ns3::TypeId'' [] [(''is_static'', CBool True)],
     Add_method ''IsBridge'' ''bool'' [] [(''is_const'', CBool True), (''is_virtual'', CBool True)],
     Add_method ''IsBroadcast'' ''bool'' [] [(''is_const'', CBool True), (''is_virtual'', CBool True)],
     Add_method ''IsLinkUp'' ''bool'' [] [(''is_const'', CBool True), (''is_virtual'', CBool True)],
     Add_method ''IsMulticast'' ''bool'' [] [(''is_const'', CBool True), (''is_virtual'', CBool True)],
     Add_method ''IsPointToPoint'' ''bool'' [] [(''is_const'', CBool True), (''is_virtual'', CBool True)],
     Add_method ''NeedsArp'' ''bool'' [] [(''is_const'', CBool True), (''is_virtual'', CBool True)],
     Add_method ''Receive'' ''void'' [Param ''ns3::Ptr< ns3::Packet >'' ''packet'' [],
       Param ''uint16_t'' ''protocol'' [], Param ''ns3::Mac48Address'' ''to'' [],
       Param ''ns3::Mac48Address'' ''from'' []] [],
     Add_method ''Send'' ''bool'' [Param ''ns3::Ptr< ns3::Packet >'' ''packet'' [],
       Param ''ns3::Address const &'' ''dest'' [],
       Param ''uint16_t'' ''protocolNumber'' []] [(''is_virtual'', CBool True)],
     Add_method ''SendFrom'' ''bool'' [Param ''ns3::Ptr< ns3::Packet >'' ''packet'' [],
       Param ''ns3::Address const &'' ''source'' [], Param ''ns3::Address const &'' ''dest'' [],
       Param ''uint16_t'' ''protocolNumber'' []] [(''is_virtual'', CBool True)],
     Add_method ''SetAddress'' ''void'' [Param ''ns3::Address'' ''address'' []] [(''is_virtual'', CBool True)],
     Add_method ''SetChannel'' ''void'' [Param ''ns3::Ptr< ns3::SimpleChannel >'' ''channel'' []] [],
     Add_method ''SetIfIndex'' ''void'' [Param ''uint32_t const'' ''index'' []] [(''is_virtual'', CBool True)],
     Add_method ''SetMtu'' ''bool'' [Param ''uint16_t const'' ''mtu'' []] [(''is_virtual'', CBool True)],
     Add_method ''SetNode'' ''void'' [Param ''ns3::Ptr< ns3::Node >'' ''node'' []] [(''is_virtual'', CBool True)],
     Add_method ''SetPromiscReceiveCallback'' ''void'' [Param ''ns3::Callback< bool, ns3::Ptr< ns3::NetDevice >, ns3::Ptr< ns3::Packet const >, unsigned short, ns3::Address const &, ns3::Address const &, ns3::NetDevice::PacketType, ns3::empty, ns3::empty, ns3::empty >'' ''cb'' []] [(''is_virtual'', CBool True)],
     Add_method ''SetQueue'' ''void'' [Param ''ns3::Ptr< ns3::Queue >'' ''queue'' []] [],
     Add_method ''SetReceiveCallback'' ''void'' [Param ''ns3::Callback< bool, ns3::Ptr< ns3::NetDevice >, ns3::Ptr< ns3::Packet const >, unsigned short, ns3::Address const &, ns3::empty, ns3::empty, ns3::empty, ns3::empty, ns3::empty >'' ''cb'' []] [(''is_virtual'', CBool True)],
     Add_method ''SetReceiveErrorModel'' ''void'' [Param ''ns3::Ptr< ns3::ErrorModel >'' ''em'' []] [],
     Add_method ''SupportsSendFrom'' ''bool'' [] [(''is_const'', CBool True), (''is_virtual'', CBool True)],
     Add_method ''DoDispose'' ''void'' [] [(''visibility'', CStr ''protected''),
       (''is_virtual'', CBool True)]]"

definition register_Ns3BurstErrorModel_methods :: "class_call list" where
  "register_Ns3BurstErrorModel_methods = [
     Add_constructor [Param ''ns3::BurstErrorModel const &'' ''arg0'' []] [],
     Add_constructor [] [],
     Add_method ''AssignStreams'' ''int64_t'' [Param ''int64_t'' ''stream'' []] [],
     Add_method ''GetBurstRate'' ''double'' [] [(''is_const'', CBool True)],
     Add_method ''GetTypeId'' ''ns3::TypeId'' [] [(''is_static'', CBool True)],
     Add_method ''SetBurstRate'' ''void'' [Param ''double'' ''rate'' []] [],
     Add_method ''SetRandomBurstSize'' ''void'' [Param ''ns3::Ptr< ns3::RandomVariableStream >'' ''burstSz'' []] [],
     Add_method ''SetRandomVariable'' ''void'' [Param ''ns3::Ptr< ns3::RandomVariableStream >'' ''ranVar'' []] [],
     Add_method ''DoCorrupt'' ''bool'' [Param ''ns3::Ptr< ns3::Packet >'' ''p'' []] [(''visibility'', CStr ''private''), (''is_virtual'', CBool True)],
     Add_method ''DoReset'' ''void'' [] [(''visibility'', CStr ''private''), (''is_virtual'', CBool True)]]"

definition register_Ns3CounterCalculator__Unsigned_int_methods :: "class_call list" where
  "register_Ns3CounterCalculator__Unsigned_int_methods = [
     Add_constructor [Param ''ns3::CounterCalculator< unsigned int > const &'' ''arg0'' []] [],
     Add_constructor [] [],
     Add_method ''GetCount'' ''unsigned int'' [] [(''is_const'', CBool True)],
     Add_method ''GetTypeId'' ''ns3::TypeId'' [] [(''is_static'', CBool True)],
     Add_method ''Output'' ''void'' [Param ''ns3::DataOutputCallback &'' ''callback'' []] [(''is_const'', CBool True), (''is_virtual'', CBool True)],
     Add_method ''Update'' ''void'' [] [],
     Add_method ''Update'' ''void'' [Param ''unsigned int const'' ''i'' []] [],
     Add_method ''DoDispose'' ''void'' [] [(''visibility'', CStr ''protected''),
       (''is_virtual'', CBool True)]]"

definition register_Ns3PacketCounterCalculator_methods :: "class_call list" where
  "register_Ns3PacketCounterCalculator_methods = [
     Add_constructor [Param ''ns3::PacketCounterCalculator const &'' ''arg0'' []] [],
     Add_constructor [] [],
     Add_method ''FrameUpdate'' ''void'' [Param ''std::string'' ''path'' [],
       Param ''ns3::Ptr< ns3::Packet const >'' ''packet'' [], Param ''ns3::Mac48Address'' ''realto'' []] [],
     Add_method ''GetTypeId'' ''ns3::TypeId'' [] [(''is_static'', CBool True)],
     Add_method ''PacketUpdate'' ''void'' [Param ''std::string'' ''path'' [],
       Param ''ns3::Ptr< ns3::Packet const >'' ''packet'' []] [],
     Add_method ''DoDispose'' ''void'' [] [(''visibility'', CStr ''protected''),
       (''is_virtual'', CBool True)]]"

definition register_Ns3PacketProbe_methods :: "class_call list" where
  "register_Ns3PacketProbe_methods = [
     Add_constructor [Param ''ns3::PacketProbe const &'' ''arg0'' []] [],
     Add_constructor [] [],
     Add_method ''ConnectByObject'' ''bool'' [Param ''std::string'' ''traceSource'' [],
       Param ''ns3::Ptr< ns3::Object >'' ''obj'' []] [(''is_virtual'', CBool True)],
     Add_method ''ConnectByPath'' ''void'' [Param ''std::string'' ''path'' []] [(''is_virtual'', CBool True)],
     Add_method ''GetTypeId'' ''ns3::TypeId'' [] [(''is_static'', CBool True)],
     Add_method ''SetValue'' ''void'' [Param ''ns3::Ptr< ns3::Packet const >'' ''packet'' []] [],
     Add_method ''SetValueByPath'' ''void'' [Param ''std::string'' ''path'' [],
       Param ''ns3::Ptr< ns3::Packet const >'' ''packet'' []] [(''is_static'', CBool True)]]"

definition register_Ns3PbbAddressTlv_methods :: "class_call list" where
  "register_Ns3PbbAddressTlv_methods = [
     Add_constructor [] [],
     Add_constructor [Param ''ns3::PbbAddressTlv const &'' ''arg0'' []] [],
     Add_method ''GetIndexStart'' ''uint8_t'' [] [(''is_const'', CBool True)],
     Add_method ''GetIndexStop'' ''uint8_t'' [] [(''is_const'', CBool True)],
     Add_method ''HasIndexStart'' ''bool'' [] [(''is_const'', CBool True)],
     Add_method ''HasIndexStop'' ''bool'' [] [(''is_const'', CBool True)],
     Add_method ''IsMultivalue'' ''bool'' [] [(''is_const'', CBool True)],
     Add_method ''SetIndexStart'' ''void'' [Param ''uint8_t'' ''index'' []] [],
     Add_method ''SetIndexStop'' ''void'' [Param ''uint8_t'' ''index'' []] [],
     Add_method ''SetMultivalue'' ''void'' [Param ''bool'' ''isMultivalue'' []] []]"

text \<open>The functions of this part.\<close>

definition net_members_6 :: "class_call list list" where
  "net_members_6 = [
     register_Ns3PbbMessageIpv4_methods,
     register_Ns3PbbMessageIpv6_methods,
     register_Ns3PbbPacket_methods,
     register_Ns3PbbTlv_methods,
     register_Ns3Probe_methods,
     register_Ns3RateErrorModel_methods,
     register_Ns3ReceiveListErrorModel_methods,
     register_Ns3SimpleChannel_methods,
     register_Ns3SimpleNetDevice_methods,
     register_Ns3BurstErrorModel_methods,
     register_Ns3CounterCalculator__Unsigned_int_methods,
     register_Ns3PacketCounterCalculator_methods,
     register_Ns3PacketProbe_methods,
     register_Ns3PbbAddressTlv_methods]"

end
