(* ===== verification/Network_Script.thy ===== *)
theory Network_Script
  imports Network_Types Bindings_Script
    Network_Methods_1 Network_Methods_2 Network_Methods_3
    Network_Methods_4 Network_Methods_5 Network_Methods_6
begin

text \<open>
  The rest of \<open>network/bindings/modulegen__gcc_LP64.py\<close>: the table of \<open>register_methods\<close>, the
  free functions, and \<open>main\<close>.
\<close>

definition net_register_methods :: "(string \<times> class_call list) list" where
  "net_register_methods = [
     (''ns3::Address'', net_register_Ns3Address_methods),
     (''ns3::ApplicationContainer'', register_Ns3ApplicationContainer_methods),
     (''ns3::AsciiFile'', register_Ns3AsciiFile_methods),
     (''ns3::AsciiTraceHelper'', register_Ns3AsciiTraceHelper_methods),
     (''ns3::AsciiTraceHelperForDevice'', register_Ns3AsciiTraceHelperForDevice_methods),
     (''ns3::AttributeConstructionList'', register_Ns3AttributeConstructionList_methods),
     (''ns3::AttributeConstructionList::Item'', register_Ns3AttributeConstructionListItem_methods),
     (''ns3::Buffer'', register_Ns3Buffer_methods),
     (''ns3::Buffer::Iterator'', register_Ns3BufferIterator_methods),
     (''ns3::ByteTagIterator'', register_Ns3ByteTagIterator_methods),
     (''ns3::ByteTagIterator::Item'', register_Ns3ByteTagIteratorItem_methods),
     (''ns3::ByteTagList'', register_Ns3ByteTagList_methods),
     (''ns3::ByteTagList::Iterator'', register_Ns3ByteTagListIterator_methods),
     (''ns3::ByteTagList::Iterator::Item'', register_Ns3ByteTagListIteratorItem_methods),
     (''ns3::CallbackBase'', register_Ns3CallbackBase_methods),
     (''ns3::ChannelList'', register_Ns3ChannelList_methods),
     (''ns3::DataOutputCallback'', register_Ns3DataOutputCallback_methods),
     (''ns3::DataRate'', register_Ns3DataRate_methods),
     (''ns3::DelayJitterEstimation'', register_Ns3DelayJitterEstimation_methods),
     (''ns3::EventId'', register_Ns3EventId_methods),
     (''ns3::Hasher'', register_Ns3Hasher_methods),
     (''ns3::Inet6SocketAddress'', register_Ns3Inet6SocketAddress_methods),
     (''ns3::InetSocketAddress'', register_Ns3InetSocketAddress_methods),
     (''ns3::Ipv4Address'', net_register_Ns3Ipv4Address_methods),
     (''ns3::Ipv4Mask'', register_Ns3Ipv4Mask_methods),
     (''ns3::Ipv6Address'', net_register_Ns3Ipv6Address_methods),
     (''ns3::Ipv6Prefix'', register_Ns3Ipv6Prefix_methods),
     (''ns3::Mac16Address'', register_Ns3Mac16Address_methods),
     (''ns3::Mac48Address'', net_register_Ns3Mac48Address_methods),
     (''ns3::Mac64Address'', register_Ns3Mac64Address_methods),
     (''ns3::NetDeviceContainer'', register_Ns3NetDeviceContainer_methods),
     (''ns3::NodeContainer'', register_Ns3NodeContainer_methods),
     (''ns3::NodeList'', register_Ns3NodeList_methods),
     (''ns3::NonCopyable'', register_Ns3NonCopyable_methods),
     (''ns3::ObjectBase'', register_Ns3ObjectBase_methods),
     (''ns3::ObjectDeleter'', register_Ns3ObjectDeleter_methods),
     (''ns3::ObjectFactory'', register_Ns3ObjectFactory_methods),
     (''ns3::PacketMetadata'', register_Ns3PacketMetadata_methods),
     (''ns3::PacketMetadata::Item'', register_Ns3PacketMetadataItem_methods),
     (''ns3::PacketMetadata::ItemIterator'', register_Ns3PacketMetadataItemIterator_methods),
     (''ns3::PacketSocketAddress'', register_Ns3PacketSocketAddress_methods),
     (''ns3::PacketSocketHelper'', register_Ns3PacketSocketHelper_methods),
     (''ns3::PacketTagIterator'', register_Ns3PacketTagIterator_methods),
     (''ns3::PacketTagIterator::Item'', register_Ns3PacketTagIteratorItem_methods),
     (''ns3::PacketTagList'', register_Ns3PacketTagList_methods),
     (''ns3::PacketTagList::TagData'', register_Ns3PacketTagListTagData_methods),
     (''ns3::PbbAddressTlvBlock'', register_Ns3PbbAddressTlvBlock_methods),
     (''ns3::PbbTlvBlock'', register_Ns3PbbTlvBlock_methods),
     (''ns3::PcapFile'', register_Ns3PcapFile_methods),
     (''ns3::PcapHelper'', register_Ns3PcapHelper_methods),
     (''ns3::PcapHelperForDevice'', register_Ns3PcapHelperForDevice_methods),
     (''ns3::SequenceNumber32'', register_Ns3SequenceNumber32_methods),
     (''ns3::SequenceNumber16'', register_Ns3SequenceNumber16_methods),
     (''ns3::SimpleNetDeviceHelper'', register_Ns3SimpleNetDeviceHelper_methods),
     (''ns3::SimpleRefCount< ns3::Object, ns3::ObjectBase, ns3::ObjectDeleter >'', register_Ns3SimpleRefCount__Ns3Object_Ns3ObjectBase_Ns3ObjectDeleter_methods),
     (''ns3::Simulator'', register_Ns3Simulator_methods),
     (''ns3::StatisticalSummary'', register_Ns3StatisticalSummary_methods),
     (''ns3::SystemWallClockMs'', register_Ns3SystemWallClockMs_methods),
     (''ns3::Tag'', register_Ns3Tag_methods),
     (''ns3::TagBuffer'', register_Ns3TagBuffer_methods),
     (''ns3::TimeWithUnit'', register_Ns3TimeWithUnit_methods),
     (''ns3::TracedValue< unsigned int >'', register_Ns3TracedValue__Unsigned_int_methods),
     (''ns3::TypeId'', net_register_Ns3TypeId_methods),
     (''ns3::TypeId::AttributeInformation'', register_Ns3TypeIdAttributeInformation_methods),
     (''ns3::TypeId::TraceSourceInformation'', register_Ns3TypeIdTraceSourceInformation_methods),
     (''ns3::empty'', register_Ns3Empty_methods),
     (''ns3::int64x64_t'', net_register_Ns3Int64x64_t_methods),
     (''ns3::Chunk'', register_Ns3Chunk_methods),
     (''ns3::DeviceNameTag'', register_Ns3DeviceNameTag_methods),
     (''ns3::FlowIdTag'', register_Ns3FlowIdTag_methods),
     (''ns3::Header'', register_Ns3Header_methods),
     (''ns3::LlcSnapHeader'', register_Ns3LlcSnapHeader_methods),
     (''ns3::Object'', register_Ns3Object_methods),
     (''ns3::Object::AggregateIterator'', register_Ns3ObjectAggregateIterator_methods),
     (''ns3::PacketBurst'', register_Ns3PacketBurst_methods),
     (''ns3::PacketSocketTag'', register_Ns3PacketSocketTag_methods),
     (''ns3::PcapFileWrapper'', register_Ns3PcapFileWrapper_methods),
     (''ns3::Queue'', register_Ns3Queue_methods),
     (''ns3::QueueLimits'', register_Ns3QueueLimits_methods),
     (''ns3::RadiotapHeader'', register_Ns3RadiotapHeader_methods),
     (''ns3::RandomVariableStream'', register_Ns3RandomVariableStream_methods),
     (''ns3::SequentialRandomVariable'', register_Ns3SequentialRandomVariable_methods),
     (''ns3::SimpleRefCount< ns3::AttributeAccessor, ns3::empty, ns3::DefaultDeleter<ns3::AttributeAccessor> >'', register_Ns3SimpleRefCount__Ns3AttributeAccessor_Ns3Empty_Ns3DefaultDeleter__lt__ns3AttributeAccessor__gt___methods),
     (''ns3::SimpleRefCount< ns3::AttributeChecker, ns3::empty, ns3::DefaultDeleter<ns3::AttributeChecker> >'', register_Ns3SimpleRefCount__Ns3AttributeChecker_Ns3Empty_Ns3DefaultDeleter__lt__ns3AttributeChecker__gt___methods),
     (''ns3::SimpleRefCount< ns3::AttributeValue, ns3::empty, ns3::DefaultDeleter<ns3::AttributeValue> >'', register_Ns3SimpleRefCount__Ns3AttributeValue_Ns3Empty_Ns3DefaultDeleter__lt__ns3AttributeValue__gt___methods),
     (''ns3::SimpleRefCount< ns3::CallbackImplBase, ns3::empty, ns3::DefaultDeleter<ns3::CallbackImplBase> >'', register_Ns3SimpleRefCount__Ns3CallbackImplBase_Ns3Empty_Ns3DefaultDeleter__lt__ns3CallbackImplBase__gt___methods),
     (''ns3::SimpleRefCount< ns3::EventImpl, ns3::empty, ns3::DefaultDeleter<ns3::EventImpl> >'', register_Ns3SimpleRefCount__Ns3EventImpl_Ns3Empty_Ns3DefaultDeleter__lt__ns3EventImpl__gt___methods),
     (''ns3::SimpleRefCount< ns3::Hash::Implementation, ns3::empty, ns3::DefaultDeleter<ns3::Hash::Implementation> >'', register_Ns3SimpleRefCount__Ns3HashImplementation_Ns3Empty_Ns3DefaultDeleter__lt__ns3HashImplementation__gt___methods),
     (''ns3::SimpleRefCount< ns3::NetDeviceQueue, ns3::empty, ns3::DefaultDeleter<ns3::NetDeviceQueue> >'', register_Ns3SimpleRefCount__Ns3NetDeviceQueue_Ns3Empty_Ns3DefaultDeleter__lt__ns3NetDeviceQueue__gt___methods),
     (''ns3::SimpleRefCount< ns3::NixVector, ns3::empty, ns3::DefaultDeleter<ns3::NixVector> >'', register_Ns3SimpleRefCount__Ns3NixVector_Ns3Empty_Ns3DefaultDeleter__lt__ns3NixVector__gt___methods),
     (''ns3::SimpleRefCount< ns3::OutputStreamWrapper, ns3::empty, ns3::DefaultDeleter<ns3::OutputStreamWrapper> >'', register_Ns3SimpleRefCount__Ns3OutputStreamWrapper_Ns3Empty_Ns3DefaultDeleter__lt__ns3OutputStreamWrapper__gt___methods),
     (''ns3::SimpleRefCount< ns3::Packet, ns3::empty, ns3::DefaultDeleter<ns3::Packet> >'', register_Ns3SimpleRefCount__Ns3Packet_Ns3Empty_Ns3DefaultDeleter__lt__ns3Packet__gt___methods),
     (''ns3::SimpleRefCount< ns3::PbbAddressBlock, ns3::empty, ns3::DefaultDeleter<ns3::PbbAddressBlock> >'', register_Ns3SimpleRefCount__Ns3PbbAddressBlock_Ns3Empty_Ns3DefaultDeleter__lt__ns3PbbAddressBlock__gt___methods),
     (''ns3::SimpleRefCount< ns3::PbbMessage, ns3::empty, ns3::DefaultDeleter<ns3::PbbMessage> >'', register_Ns3SimpleRefCount__Ns3PbbMessage_Ns3Empty_Ns3DefaultDeleter__lt__ns3PbbMessage__gt___methods),
     (''ns3::SimpleRefCount< ns3::PbbPacket, ns3::Header, ns3::DefaultDeleter<ns3::PbbPacket> >'', register_Ns3SimpleRefCount__Ns3PbbPacket_Ns3Header_Ns3DefaultDeleter__lt__ns3PbbPacket__gt___methods),
     (''ns3::SimpleRefCount< ns3::PbbTlv, ns3::empty, ns3::DefaultDeleter<ns3::PbbTlv> >'', register_Ns3SimpleRefCount__Ns3PbbTlv_Ns3Empty_Ns3DefaultDeleter__lt__ns3PbbTlv__gt___methods),
     (''ns3::SimpleRefCount< ns3::QueueItem, ns3::empty, ns3::DefaultDeleter<ns3::QueueItem> >'', register_Ns3SimpleRefCount__Ns3QueueItem_Ns3Empty_Ns3DefaultDeleter__lt__ns3QueueItem__gt___methods),
     (''ns3::SimpleRefCount< ns3::TraceSourceAccessor, ns3::empty, ns3::DefaultDeleter<ns3::TraceSourceAccessor> >'', register_Ns3SimpleRefCount__Ns3TraceSourceAccessor_Ns3Empty_Ns3DefaultDeleter__lt__ns3TraceSourceAccessor__gt___methods),
     (''ns3::SllHeader'', register_Ns3SllHeader_methods),
     (''ns3::Socket'', register_Ns3Socket_methods),
     (''ns3::SocketFactory'', register_Ns3SocketFactory_methods),
     (''ns3::SocketIpTosTag'', register_Ns3SocketIpTosTag_methods),
     (''ns3::SocketIpTtlTag'', register_Ns3SocketIpTtlTag_methods),
     (''ns3::SocketIpv6HopLimitTag'', register_Ns3SocketIpv6HopLimitTag_methods),
     (''ns3::SocketIpv6TclassTag'', register_Ns3SocketIpv6TclassTag_methods),
     (''ns3::SocketPriorityTag'', register_Ns3SocketPriorityTag_methods),
     (''ns3::SocketSetDontFragmentTag'', register_Ns3SocketSetDontFragmentTag_methods),
     (''ns3::Time'', net_register_Ns3Time_methods),
     (''ns3::TraceSourceAccessor'', register_Ns3TraceSourceAccessor_methods),
     (''ns3::Trailer'', register_Ns3Trailer_methods),
     (''ns3::TriangularRandomVariable'', register_Ns3TriangularRandomVariable_methods),
     (''ns3::UniformRandomVariable'', register_Ns3UniformRandomVariable_methods),
     (''ns3::WeibullRandomVariable'', register_Ns3WeibullRandomVariable_methods),
     (''ns3::ZetaRandomVariable'', register_Ns3ZetaRandomVariable_methods),
     (''ns3::ZipfRandomVariable'', register_Ns3ZipfRandomVariable_methods),
     (''ns3::Application'', register_Ns3Application_methods),
     (''ns3::AttributeAccessor'', register_Ns3AttributeAccessor_methods),
     (''ns3::AttributeChecker'', register_Ns3AttributeChecker_methods),
     (''ns3::AttributeValue'', register_Ns3AttributeValue_methods),
     (''ns3::BooleanChecker'', register_Ns3BooleanChecker_methods),
     (''ns3::BooleanValue'', register_Ns3BooleanValue_methods),
     (''ns3::CallbackChecker'', register_Ns3CallbackChecker_methods),
     (''ns3::CallbackImplBase'', register_Ns3CallbackImplBase_methods),
     (''ns3::CallbackValue'', register_Ns3CallbackValue_methods),
     (''ns3::Channel'', register_Ns3Channel_methods),
     (''ns3::ConstantRandomVariable'', register_Ns3ConstantRandomVariable_methods),
     (''ns3::DataCalculator'', register_Ns3DataCalculator_methods),
     (''ns3::DataCollectionObject'', register_Ns3DataCollectionObject_methods),
     (''ns3::DataOutputInterface'', register_Ns3DataOutputInterface_methods),
     (''ns3::DataRateChecker'', register_Ns3DataRateChecker_methods),
     (''ns3::DataRateValue'', register_Ns3DataRateValue_methods),
     (''ns3::DeterministicRandomVariable'', register_Ns3DeterministicRandomVariable_methods),
     (''ns3::DoubleValue'', register_Ns3DoubleValue_methods),
     (''ns3::DropTailQueue'', register_Ns3DropTailQueue_methods),
     (''ns3::DynamicQueueLimits'', register_Ns3DynamicQueueLimits_methods),
     (''ns3::EmpiricalRandomVariable'', register_Ns3EmpiricalRandomVariable_methods),
     (''ns3::EmptyAttributeAccessor'', register_Ns3EmptyAttributeAccessor_methods),
     (''ns3::EmptyAttributeChecker'', register_Ns3EmptyAttributeChecker_methods),
     (''ns3::EmptyAttributeValue'', register_Ns3EmptyAttributeValue_methods),
     (''ns3::EnumChecker'', register_Ns3EnumChecker_methods),
     (''ns3::EnumValue'', register_Ns3EnumValue_methods),
     (''ns3::ErlangRandomVariable'', register_Ns3ErlangRandomVariable_methods),
     (''ns3::ErrorModel'', register_Ns3ErrorModel_methods),
     (''ns3::EthernetHeader'', register_Ns3EthernetHeader_methods),
     (''ns3::EthernetTrailer'', register_Ns3EthernetTrailer_methods),
     (''ns3::EventImpl'', register_Ns3EventImpl_methods),
     (''ns3::ExponentialRandomVariable'', register_Ns3ExponentialRandomVariable_methods),
     (''ns3::GammaRandomVariable'', register_Ns3GammaRandomVariable_methods),
     (''ns3::IntegerValue'', register_Ns3IntegerValue_methods),
     (''ns3::Ipv4AddressChecker'', register_Ns3Ipv4AddressChecker_methods),
     (''ns3::Ipv4AddressValue'', register_Ns3Ipv4AddressValue_methods),
     (''ns3::Ipv4MaskChecker'', register_Ns3Ipv4MaskChecker_methods),
     (''ns3::Ipv4MaskValue'', register_Ns3Ipv4MaskValue_methods),
     (''ns3::Ipv6AddressChecker'', register_Ns3Ipv6AddressChecker_methods),
     (''ns3::Ipv6AddressValue'', register_Ns3Ipv6AddressValue_methods),
     (''ns3::Ipv6PrefixChecker'', register_Ns3Ipv6PrefixChecker_methods),
     (''ns3::Ipv6PrefixValue'', register_Ns3Ipv6PrefixValue_methods),
     (''ns3::ListErrorModel'', register_Ns3ListErrorModel_methods),
     (''ns3::LogNormalRandomVariable'', register_Ns3LogNormalRandomVariable_methods),
     (''ns3::Mac16AddressChecker'', register_Ns3Mac16AddressChecker_methods),
     (''ns3::Mac16AddressValue'', register_Ns3Mac16AddressValue_methods),
     (''ns3::Mac48AddressChecker'', register_Ns3Mac48AddressChecker_methods),
     (''ns3::Mac48AddressValue'', register_Ns3Mac48AddressValue_methods),
     (''ns3::Mac64AddressChecker'', register_Ns3Mac64AddressChecker_methods),
     (''ns3::Mac64AddressValue'', register_Ns3Mac64AddressValue_methods),
     (''ns3::MinMaxAvgTotalCalculator< unsigned int >'', register_Ns3MinMaxAvgTotalCalculator__Unsigned_int_methods),
     (''ns3::NetDevice'', net_register_Ns3NetDevice_methods),
     (''ns3::NetDeviceQueue'', register_Ns3NetDeviceQueue_methods),
     (''ns3::NetDeviceQueueInterface'', register_Ns3NetDeviceQueueInterface_methods),
     (''ns3::NixVector'', register_Ns3NixVector_methods),
     (''ns3::Node'', register_Ns3Node_methods),
     (''ns3::NormalRandomVariable'', register_Ns3NormalRandomVariable_methods),
     (''ns3::ObjectFactoryChecker'', register_Ns3ObjectFactoryChecker_methods),
     (''ns3::ObjectFactoryValue'', register_Ns3ObjectFactoryValue_methods),
     (''ns3::OutputStreamWrapper'', register_Ns3OutputStreamWrapper_methods),
     (''ns3::Packet'', register_Ns3Packet_methods),
     (''ns3::PacketSizeMinMaxAvgTotalCalculator'', register_Ns3PacketSizeMinMaxAvgTotalCalculator_methods),
     (''ns3::PacketSocket'', register_Ns3PacketSocket_methods),
     (''ns3::PacketSocketClient'', register_Ns3PacketSocketClient_methods),
     (''ns3::PacketSocketFactory'', register_Ns3PacketSocketFactory_methods),
     (''ns3::PacketSocketServer'', register_Ns3PacketSocketServer_methods),
     (''ns3::ParetoRandomVariable'', register_Ns3ParetoRandomVariable_methods),
     (''ns3::PbbAddressBlock'', register_Ns3PbbAddressBlock_methods),
     (''ns3::PbbAddressBlockIpv4'', register_Ns3PbbAddressBlockIpv4_methods),
     (''ns3::PbbAddressBlockIpv6'', register_Ns3PbbAddressBlockIpv6_methods),
     (''ns3::PbbMessage'', register_Ns3PbbMessage_methods),
     (''ns3::PbbMessageIpv4'', register_Ns3PbbMessageIpv4_methods),
     (''ns3::PbbMessageIpv6'', register_Ns3PbbMessageIpv6_methods),
     (''ns3::PbbPacket'', register_Ns3PbbPacket_methods),
     (''ns3::PbbTlv'', register_Ns3PbbTlv_methods),
     (''ns3::Probe'', register_Ns3Probe_methods),
     (''ns3::QueueItem'', register_Ns3QueueItem_methods),
     (''ns3::RateErrorModel'', register_Ns3RateErrorModel_methods),
     (''ns3::ReceiveListErrorModel'', register_Ns3ReceiveListErrorModel_methods),
     (''ns3::SimpleChannel'', register_Ns3SimpleChannel_methods),
     (''ns3::SimpleNetDevice'', register_Ns3SimpleNetDevice_methods),
     (''ns3::TimeValue'', register_Ns3TimeValue_methods),
     (''ns3::TypeIdChecker'', register_Ns3TypeIdChecker_methods),
     (''ns3::TypeIdValue'', register_Ns3TypeIdValue_methods),
     (''ns3::UintegerValue'', register_Ns3UintegerValue_methods),
     (''ns3::AddressChecker'', register_Ns3AddressChecker_methods),
     (''ns3::AddressValue'', register_Ns3AddressValue_methods),
     (''ns3::BurstErrorModel'', register_Ns3BurstErrorModel_methods),
     (''ns3::CounterCalculator< unsigned int >'', register_Ns3CounterCalculator__Unsigned_int_methods),
     (''ns3::PacketCounterCalculator'', register_Ns3PacketCounterCalculator_methods),
     (''ns3::PacketProbe'', register_Ns3PacketProbe_methods),
     (''ns3::PbbAddressTlv'', register_Ns3PbbAddressTlv_methods),
     (''ns3::Hash::Implementation'', register_Ns3HashImplementation_methods),
     (''ns3::Hash::Function::Fnv1a'', register_Ns3HashFunctionFnv1a_methods),
     (''ns3::Hash::Function::Hash32'', register_Ns3HashFunctionHash32_methods),
     (''ns3::Hash::Function::Hash64'', register_Ns3HashFunctionHash64_methods),
     (''ns3::Hash::Function::Murmur3'', register_Ns3HashFunctionMurmur3_methods)]"

definition register_functions_ns3_addressUtils :: "function_call list" where
  "register_functions_ns3_addressUtils = [
     Add_function ''IsMulticast'' ''bool'' [Param ''ns3::Address const &'' ''ad'' []] []]"

definition net_register_functions :: "function_call list" where
  "net_register_functions = [
     Add_function ''CRC32Calculate'' ''uint32_t'' [Param ''uint8_t const *'' ''data'' [],
       Param ''int'' ''length'' []] [],
     Add_function ''MakeAddressChecker'' ''ns3::Ptr< ns3::AttributeChecker const >'' [] [],
     Add_function ''MakeDataRateChecker'' ''ns3::Ptr< ns3::AttributeChecker const >'' [] [],
     Add_function ''MakeIpv4AddressChecker'' ''ns3::Ptr< ns3::AttributeChecker const >'' [] [],
     Add_function ''MakeIpv4MaskChecker'' ''ns3::Ptr< ns3::AttributeChecker const >'' [] [],
     Add_function ''MakeIpv6AddressChecker'' ''ns3::Ptr< ns3::AttributeChecker const >'' [] [],
     Add_function ''MakeIpv6PrefixChecker'' ''ns3::Ptr< ns3::AttributeChecker const >'' [] [],
     Add_function ''MakeMac16AddressChecker'' ''ns3::Ptr< ns3::AttributeChecker const >'' [] [],
     Add_function ''MakeMac48AddressChecker'' ''ns3::Ptr< ns3::AttributeChecker const >'' [] [],
     Add_function ''MakeMac64AddressChecker'' ''ns3::Ptr< ns3::AttributeChecker const >'' [] [],
     Add_function ''ReadFrom'' ''void'' [Param ''ns3::Buffer::Iterator &'' ''i'' [],
       Param ''ns3::Address &'' ''ad'' [], Param ''uint32_t'' ''len'' []] [],
     Add_function ''ReadFrom'' ''void'' [Param ''ns3::Buffer::Iterator &'' ''i'' [],
       Param ''ns3::Ipv4Address &'' ''ad'' []] [],
     Add_function ''ReadFrom'' ''void'' [Param ''ns3::Buffer::Iterator &'' ''i'' [],
       Param ''ns3::Ipv6Address &'' ''ad'' []] [],
     Add_function ''ReadFrom'' ''void'' [Param ''ns3::Buffer::Iterator &'' ''i'' [],
       Param ''ns3::Mac16Address &'' ''ad'' []] [],
     Add_function ''ReadFrom'' ''void'' [Param ''ns3::Buffer::Iterator &'' ''i'' [],
       Param ''ns3::Mac48Address &'' ''ad'' []] [],
     Add_function ''ReadFrom'' ''void'' [Param ''ns3::Buffer::Iterator &'' ''i'' [],
       Param ''ns3::Mac64Address &'' ''ad'' []] [],
     Add_function ''WriteTo'' ''void'' [Param ''ns3::Buffer::Iterator &'' ''i'' [],
       Param ''ns3::Address const &'' ''ad'' []] [],
     Add_function ''WriteTo'' ''void'' [Param ''ns3::Buffer::Iterator &'' ''i'' [],
       Param ''ns3::Ipv4Address'' ''ad'' []] [],
     Add_function ''WriteTo'' ''void'' [Param ''ns3::Buffer::Iterator &'' ''i'' [],
       Param ''ns3::Ipv6Address'' ''ad'' []] [],
     Add_function ''WriteTo'' ''void'' [Param ''ns3::Buffer::Iterator &'' ''i'' [],
       Param ''ns3::Mac16Address'' ''ad'' []] [],
     Add_function ''WriteTo'' ''void'' [Param ''ns3::Buffer::Iterator &'' ''i'' [],
       Param ''ns3::Mac48Address'' ''ad'' []] [],
     Add_function ''WriteTo'' ''void'' [Param ''ns3::Buffer::Iterator &'' ''i'' [],
       Param ''ns3::Mac64Address'' ''ad'' []] [],
     Submodule ''FatalImpl'' register_functions_ns3_FatalImpl,
     Submodule ''Hash'' register_functions_ns3_Hash,
     Submodule ''TracedValueCallback'' register_functions_ns3_TracedValueCallback,
     Submodule ''addressUtils'' register_functions_ns3_addressUtils,
     Submodule ''internal'' register_functions_ns3_internal]"

definition net_module_init :: "('s, 'm, 'c) pybindgen \<Rightarrow> 's \<times> 'm" where
  "net_module_init pbg = Module pbg ''ns.network'' ''::ns3''"

definition net_main :: "('s, 'm, 'c) pybindgen \<Rightarrow> string py" where
  "net_main pbg =
     (case net_module_init pbg of
        (s, root_module) \<Rightarrow>
          bind_py (run_types pbg s root_module net_register_types) (\<lambda>s1.
          bind_py (run_methods pbg s1 net_register_methods) (\<lambda>s2.
          bind_py (run_functions pbg s2 root_module net_register_functions) (\<lambda>s3.
          Inr (generate pbg s3)))))"

end
