(* ===== verification/Network_Names.thy ===== *)
theory Network_Names
  imports Network_Types Pybindgen_Laws
begin

text \<open>
  The types of the network module, run part by part on the registry of names: for each part of
  \<open>register_types\<close> the earlier classes it refers to and the classes it adds, the newest first.
\<close>

definition net_uses_1 :: "string list" where
  "net_uses_1 =
    []"

definition net_adds_1 :: "string list" where
  "net_adds_1 =
    [''ns3::CallbackBase'',
     ''ns3::ByteTagList::Iterator::Item'',
     ''ns3::ByteTagList::Iterator'',
     ''ns3::ByteTagList'',
     ''ns3::ByteTagIterator::Item'',
     ''ns3::ByteTagIterator'',
     ''ns3::Buffer::Iterator'',
     ''ns3::Buffer'',
     ''ns3::AttributeConstructionList::Item'',
     ''ns3::AttributeConstructionList'',
     ''ns3::AsciiTraceHelperForDevice'',
     ''ns3::AsciiTraceHelper'',
     ''ns3::AsciiFile'',
     ''ns3::ApplicationContainer'',
     ''ns3::Address'']"

lemma net_run_part_1:
  "run_types name_registry (net_uses_1, []) ns3 net_register_types_1 = Inr (net_adds_1 @ net_uses_1, [])"
  by code_simp

definition net_uses_2 :: "string list" where
  "net_uses_2 =
    [''ns3::Address'']"

definition net_adds_2 :: "string list" where
  "net_adds_2 =
    [''ns3::Mac48Address'',
     ''ns3::Mac16Address'',
     ''ns3::Ipv6Prefix'',
     ''ns3::Ipv6Address'',
     ''ns3::Ipv4Mask'',
     ''ns3::Ipv4Address'',
     ''ns3::InetSocketAddress'',
     ''ns3::Inet6SocketAddress'',
     ''ns3::Hasher'',
     ''ns3::EventId'',
     ''ns3::DelayJitterEstimation'',
     ''ns3::DataRate'',
     ''ns3::DataOutputCallback'',
     ''ns3::ChannelList'']"

lemma net_run_part_2:
  "run_types name_registry (net_uses_2, []) ns3 net_register_types_2 = Inr (net_adds_2 @ net_uses_2, [])"
  by code_simp

definition net_uses_3 :: "string list" where
  "net_uses_3 =
    [''ns3::Address'']"

definition net_adds_3 :: "string list" where
  "net_adds_3 =
    [''ns3::PacketTagList::TagData'',
     ''ns3::PacketTagList'',
     ''ns3::PacketTagIterator::Item'',
     ''ns3::PacketTagIterator'',
     ''ns3::PacketSocketHelper'',
     ''ns3::PacketSocketAddress'',
     ''ns3::PacketMetadata::ItemIterator'',
     ''ns3::PacketMetadata::Item'',
     ''ns3::PacketMetadata'',
     ''ns3::ObjectFactory'',
     ''ns3::ObjectDeleter'',
     ''ns3::ObjectBase'',
     ''ns3::NonCopyable'',
     ''ns3::NodeList'',
     ''ns3::NodeContainer'',
     ''ns3::NetDeviceContainer'',
     ''ns3::Mac64Address'']"

lemma net_run_part_3:
  "run_types name_registry (net_uses_3, []) ns3 net_register_types_3 = Inr (net_adds_3 @ net_uses_3, [])"
  by code_simp

definition net_uses_4 :: "string list" where
  "net_uses_4 =
    [''ns3::PacketTagList::TagData'',
     ''ns3::ObjectBase'']"

definition net_adds_4 :: "string list" where
  "net_adds_4 =
    [''ns3::TypeId'',
     ''ns3::TracedValue< unsigned int >'',
     ''ns3::TimeWithUnit'',
     ''ns3::TagBuffer'',
     ''ns3::Tag'',
     ''ns3::SystemWallClockMs'',
     ''ns3::StatisticalSummary'',
     ''ns3::Simulator'',
     ''ns3::SimpleRefCount< ns3::Object, ns3::ObjectBase, ns3::ObjectDeleter >'',
     ''ns3::SimpleNetDeviceHelper'',
     ''ns3::SequenceNumber16'',
     ''ns3::SequenceNumber32'',
     ''ns3::PcapHelperForDevice'',
     ''ns3::PcapHelper'',
     ''ns3::PcapFile'',
     ''ns3::PbbTlvBlock'',
     ''ns3::PbbAddressTlvBlock'']"

lemma net_run_part_4:
  "run_types name_registry (net_uses_4, []) ns3 net_register_types_4 = Inr (net_adds_4 @ net_uses_4, [])"
  by code_simp

definition net_uses_5 :: "string list" where
  "net_uses_5 =
    [''ns3::TypeId'',
     ''ns3::ObjectBase'',
     ''ns3::Tag'',
     ''ns3::SimpleRefCount< ns3::Object, ns3::ObjectBase, ns3::ObjectDeleter >'']"

definition net_adds_5 :: "string list" where
  "net_adds_5 =
    [''ns3::QueueLimits'',
     ''ns3::Queue'',
     ''ns3::PcapFileWrapper'',
     ''ns3::PacketSocketTag'',
     ''ns3::PacketBurst'',
     ''ns3::Object::AggregateIterator'',
     ''ns3::Object'',
     ''ns3::LlcSnapHeader'',
     ''ns3::Header'',
     ''ns3::FlowIdTag'',
     ''ns3::DeviceNameTag'',
     ''ns3::Chunk'',
     ''ns3::int64x64_t'',
     ''ns3::empty'',
     ''ns3::TypeId::TraceSourceInformation'',
     ''ns3::TypeId::AttributeInformation'']"

lemma net_run_part_5:
  "run_types name_registry (net_uses_5, []) ns3 net_register_types_5 = Inr (net_adds_5 @ net_uses_5, [])"
  by code_simp

definition net_uses_6 :: "string list" where
  "net_uses_6 =
    [''ns3::Header'',
     ''ns3::Object'',
     ''ns3::empty'']"

definition net_adds_6 :: "string list" where
  "net_adds_6 =
    [''ns3::SimpleRefCount< ns3::Packet, ns3::empty, ns3::DefaultDeleter<ns3::Packet> >'',
     ''ns3::SimpleRefCount< ns3::OutputStreamWrapper, ns3::empty, ns3::DefaultDeleter<ns3::OutputStreamWrapper> >'',
     ''ns3::SimpleRefCount< ns3::NixVector, ns3::empty, ns3::DefaultDeleter<ns3::NixVector> >'',
     ''ns3::SimpleRefCount< ns3::NetDeviceQueue, ns3::empty, ns3::DefaultDeleter<ns3::NetDeviceQueue> >'',
     ''ns3::SimpleRefCount< ns3::Hash::Implementation, ns3::empty, ns3::DefaultDeleter<ns3::Hash::Implementation> >'',
     ''ns3::SimpleRefCount< ns3::EventImpl, ns3::empty, ns3::DefaultDeleter<ns3::EventImpl> >'',
     ''ns3::SimpleRefCount< ns3::CallbackImplBase, ns3::empty, ns3::DefaultDeleter<ns3::CallbackImplBase> >'',
     ''ns3::SimpleRefCount< ns3::AttributeValue, ns3::empty, ns3::DefaultDeleter<ns3::AttributeValue> >'',
     ''ns3::SimpleRefCount< ns3::AttributeChecker, ns3::empty, ns3::DefaultDeleter<ns3::AttributeChecker> >'',
     ''ns3::SimpleRefCount< ns3::AttributeAccessor, ns3::empty, ns3::DefaultDeleter<ns3::AttributeAccessor> >'',
     ''ns3::SequentialRandomVariable'',
     ''ns3::RandomVariableStream'',
     ''ns3::RadiotapHeader'']"

lemma net_run_part_6:
  "run_types name_registry (net_uses_6, []) ns3 net_register_types_6 = Inr (net_adds_6 @ net_uses_6, [])"
  by code_simp

definition net_uses_7 :: "string list" where
  "net_uses_7 =
    [''ns3::empty'',
     ''ns3::Header'',
     ''ns3::Object'',
     ''ns3::Tag'']"

definition net_adds_7 :: "string list" where
  "net_adds_7 =
    [''ns3::SocketSetDontFragmentTag'',
     ''ns3::SocketPriorityTag'',
     ''ns3::SocketIpv6TclassTag'',
     ''ns3::SocketIpv6HopLimitTag'',
     ''ns3::SocketIpTtlTag'',
     ''ns3::SocketIpTosTag'',
     ''ns3::SocketFactory'',
     ''ns3::Socket'',
     ''ns3::SllHeader'',
     ''ns3::SimpleRefCount< ns3::TraceSourceAccessor, ns3::empty, ns3::DefaultDeleter<ns3::TraceSourceAccessor> >'',
     ''ns3::SimpleRefCount< ns3::QueueItem, ns3::empty, ns3::DefaultDeleter<ns3::QueueItem> >'',
     ''ns3::SimpleRefCount< ns3::PbbTlv, ns3::empty, ns3::DefaultDeleter<ns3::PbbTlv> >'',
     ''ns3::SimpleRefCount< ns3::PbbPacket, ns3::Header, ns3::DefaultDeleter<ns3::PbbPacket> >'',
     ''ns3::SimpleRefCount< ns3::PbbMessage, ns3::empty, ns3::DefaultDeleter<ns3::PbbMessage> >'',
     ''ns3::SimpleRefCount< ns3::PbbAddressBlock, ns3::empty, ns3::DefaultDeleter<ns3::PbbAddressBlock> >'']"

lemma net_run_part_7:
  "run_types name_registry (net_uses_7, []) ns3 net_register_types_7 = Inr (net_adds_7 @ net_uses_7, [])"
  by code_simp

definition net_uses_8 :: "string list" where
  "net_uses_8 =
    [''ns3::int64x64_t'',
     ''ns3::SimpleRefCount< ns3::TraceSourceAccessor, ns3::empty, ns3::DefaultDeleter<ns3::TraceSourceAccessor> >'',
     ''ns3::Chunk'',
     ''ns3::RandomVariableStream'',
     ''ns3::Object'',
     ''ns3::SimpleRefCount< ns3::AttributeAccessor, ns3::empty, ns3::DefaultDeleter<ns3::AttributeAccessor> >'',
     ''ns3::SimpleRefCount< ns3::AttributeChecker, ns3::empty, ns3::DefaultDeleter<ns3::AttributeChecker> >'',
     ''ns3::SimpleRefCount< ns3::AttributeValue, ns3::empty, ns3::DefaultDeleter<ns3::AttributeValue> >'',
     ''ns3::SimpleRefCount< ns3::CallbackImplBase, ns3::empty, ns3::DefaultDeleter<ns3::CallbackImplBase> >'']"

definition net_adds_8 :: "string list" where
  "net_adds_8 =
    [''ns3::Channel'',
     ''ns3::CallbackValue'',
     ''ns3::CallbackImplBase'',
     ''ns3::CallbackChecker'',
     ''ns3::BooleanValue'',
     ''ns3::BooleanChecker'',
     ''ns3::AttributeValue'',
     ''ns3::AttributeChecker'',
     ''ns3::AttributeAccessor'',
     ''ns3::Application'',
     ''ns3::ZipfRandomVariable'',
     ''ns3::ZetaRandomVariable'',
     ''ns3::WeibullRandomVariable'',
     ''ns3::UniformRandomVariable'',
     ''ns3::TriangularRandomVariable'',
     ''ns3::Trailer'',
     ''ns3::TraceSourceAccessor'',
     ''ns3::Time'']"

lemma net_run_part_8:
  "run_types name_registry (net_uses_8, []) ns3 net_register_types_8 = Inr (net_adds_8 @ net_uses_8, [])"
  by code_simp

definition net_uses_9 :: "string list" where
  "net_uses_9 =
    [''ns3::RandomVariableStream'',
     ''ns3::Object'',
     ''ns3::AttributeChecker'',
     ''ns3::AttributeValue'',
     ''ns3::Queue'',
     ''ns3::QueueLimits'',
     ''ns3::AttributeAccessor'',
     ''ns3::Header'',
     ''ns3::Trailer'']"

definition net_adds_9 :: "string list" where
  "net_adds_9 =
    [''ns3::EthernetTrailer'',
     ''ns3::EthernetHeader'',
     ''ns3::ErrorModel'',
     ''ns3::ErlangRandomVariable'',
     ''ns3::EnumValue'',
     ''ns3::EnumChecker'',
     ''ns3::EmptyAttributeValue'',
     ''ns3::EmptyAttributeChecker'',
     ''ns3::EmptyAttributeAccessor'',
     ''ns3::EmpiricalRandomVariable'',
     ''ns3::DynamicQueueLimits'',
     ''ns3::DropTailQueue'',
     ''ns3::DoubleValue'',
     ''ns3::DeterministicRandomVariable'',
     ''ns3::DataRateValue'',
     ''ns3::DataRateChecker'',
     ''ns3::DataOutputInterface'',
     ''ns3::DataCollectionObject'',
     ''ns3::DataCalculator'',
     ''ns3::ConstantRandomVariable'']"

lemma net_run_part_9:
  "run_types name_registry (net_uses_9, []) ns3 net_register_types_9 = Inr (net_adds_9 @ net_uses_9, [])"
  by code_simp

definition net_uses_10 :: "string list" where
  "net_uses_10 =
    [''ns3::SimpleRefCount< ns3::EventImpl, ns3::empty, ns3::DefaultDeleter<ns3::EventImpl> >'',
     ''ns3::RandomVariableStream'',
     ''ns3::AttributeValue'',
     ''ns3::AttributeChecker'',
     ''ns3::ErrorModel'']"

definition net_adds_10 :: "string list" where
  "net_adds_10 =
    [''ns3::Mac64AddressValue'',
     ''ns3::Mac64AddressChecker'',
     ''ns3::Mac48AddressValue'',
     ''ns3::Mac48AddressChecker'',
     ''ns3::Mac16AddressValue'',
     ''ns3::Mac16AddressChecker'',
     ''ns3::LogNormalRandomVariable'',
     ''ns3::ListErrorModel'',
     ''ns3::Ipv6PrefixValue'',
     ''ns3::Ipv6PrefixChecker'',
     ''ns3::Ipv6AddressValue'',
     ''ns3::Ipv6AddressChecker'',
     ''ns3::Ipv4MaskValue'',
     ''ns3::Ipv4MaskChecker'',
     ''ns3::Ipv4AddressValue'',
     ''ns3::Ipv4AddressChecker'',
     ''ns3::IntegerValue'',
     ''ns3::GammaRandomVariable'',
     ''ns3::ExponentialRandomVariable'',
     ''ns3::EventImpl'']"

lemma net_run_part_10:
  "run_types name_registry (net_uses_10, []) ns3 net_register_types_10 = Inr (net_adds_10 @ net_uses_10, [])"
  by code_simp

definition net_uses_11 :: "string list" where
  "net_uses_11 =
    [''ns3::DataCalculator'',
     ''ns3::StatisticalSummary'',
     ''ns3::Object'',
     ''ns3::SimpleRefCount< ns3::NetDeviceQueue, ns3::empty, ns3::DefaultDeleter<ns3::NetDeviceQueue> >'',
     ''ns3::SimpleRefCount< ns3::NixVector, ns3::empty, ns3::DefaultDeleter<ns3::NixVector> >'',
     ''ns3::RandomVariableStream'',
     ''ns3::AttributeChecker'',
     ''ns3::AttributeValue'',
     ''ns3::SimpleRefCount< ns3::OutputStreamWrapper, ns3::empty, ns3::DefaultDeleter<ns3::OutputStreamWrapper> >'',
     ''ns3::SimpleRefCount< ns3::Packet, ns3::empty, ns3::DefaultDeleter<ns3::Packet> >'',
     ''ns3::Socket'',
     ''ns3::Application'',
     ''ns3::SocketFactory'',
     ''ns3::SimpleRefCount< ns3::PbbAddressBlock, ns3::empty, ns3::DefaultDeleter<ns3::PbbAddressBlock> >'']"

definition net_adds_11 :: "string list" where
  "net_adds_11 =
    [''ns3::PbbAddressBlockIpv4'',
     ''ns3::PbbAddressBlock'',
     ''ns3::ParetoRandomVariable'',
     ''ns3::PacketSocketServer'',
     ''ns3::PacketSocketFactory'',
     ''ns3::PacketSocketClient'',
     ''ns3::PacketSocket'',
     ''ns3::PacketSizeMinMaxAvgTotalCalculator'',
     ''ns3::Packet'',
     ''ns3::OutputStreamWrapper'',
     ''ns3::ObjectFactoryValue'',
     ''ns3::ObjectFactoryChecker'',
     ''ns3::NormalRandomVariable'',
     ''ns3::Node'',
     ''ns3::NixVector'',
     ''ns3::NetDeviceQueueInterface'',
     ''ns3::NetDeviceQueue'',
     ''ns3::NetDevice'',
     ''ns3::MinMaxAvgTotalCalculator< unsigned int >'']"

lemma net_run_part_11:
  "run_types name_registry (net_uses_11, []) ns3 net_register_types_11 = Inr (net_adds_11 @ net_uses_11, [])"
  by code_simp

definition net_uses_12 :: "string list" where
  "net_uses_12 =
    [''ns3::PbbAddressBlock'',
     ''ns3::SimpleRefCount< ns3::PbbMessage, ns3::empty, ns3::DefaultDeleter<ns3::PbbMessage> >'',
     ''ns3::SimpleRefCount< ns3::PbbPacket, ns3::Header, ns3::DefaultDeleter<ns3::PbbPacket> >'',
     ''ns3::SimpleRefCount< ns3::PbbTlv, ns3::empty, ns3::DefaultDeleter<ns3::PbbTlv> >'',
     ''ns3::DataCollectionObject'',
     ''ns3::SimpleRefCount< ns3::QueueItem, ns3::empty, ns3::DefaultDeleter<ns3::QueueItem> >'',
     ''ns3::ErrorModel'',
     ''ns3::Channel'',
     ''ns3::NetDevice'',
     ''ns3::AttributeValue'',
     ''ns3::AttributeChecker'']"

definition net_adds_12 :: "string list" where
  "net_adds_12 =
    [''ns3::AddressValue'',
     ''ns3::AddressChecker'',
     ''ns3::UintegerValue'',
     ''ns3::TypeIdValue'',
     ''ns3::TypeIdChecker'',
     ''ns3::TimeValue'',
     ''ns3::SimpleNetDevice'',
     ''ns3::SimpleChannel'',
     ''ns3::ReceiveListErrorModel'',
     ''ns3::RateErrorModel'',
     ''ns3::QueueItem'',
     ''ns3::Probe'',
     ''ns3::PbbTlv'',
     ''ns3::PbbPacket'',
     ''ns3::PbbMessageIpv6'',
     ''ns3::PbbMessageIpv4'',
     ''ns3::PbbMessage'',
     ''ns3::PbbAddressBlockIpv6'']"

lemma net_run_part_12:
  "run_types name_registry (net_uses_12, []) ns3 net_register_types_12 = Inr (net_adds_12 @ net_uses_12, [])"
  by code_simp

definition net_uses_13 :: "string list" where
  "net_uses_13 =
    [''ns3::ErrorModel'',
     ''ns3::DataCalculator'',
     ''ns3::Probe'',
     ''ns3::PbbTlv'']"

definition net_adds_13 :: "string list" where
  "net_adds_13 =
    [''ns3::PbbAddressTlv'',
     ''ns3::PacketProbe'',
     ''ns3::PacketCounterCalculator'',
     ''ns3::CounterCalculator< unsigned int >'',
     ''ns3::BurstErrorModel'']"

lemma net_run_part_13:
  "run_types name_registry (net_uses_13, []) ns3 net_register_types_13 = Inr (net_adds_13 @ net_uses_13, [])"
  by code_simp

definition net_uses_14 :: "string list" where
  "net_uses_14 =
    [''ns3::SimpleRefCount< ns3::Hash::Implementation, ns3::empty, ns3::DefaultDeleter<ns3::Hash::Implementation> >'']"

definition net_adds_14 :: "string list" where
  "net_adds_14 =
    [''ns3::Hash::Function::Murmur3'',
     ''ns3::Hash::Function::Hash64'',
     ''ns3::Hash::Function::Hash32'',
     ''ns3::Hash::Function::Fnv1a'',
     ''ns3::Hash::Implementation'']"

lemma net_run_part_14:
  "run_types name_registry (net_uses_14, []) ns3 net_register_types_14 = Inr (net_adds_14 @ net_uses_14, [(''ns3'', [''internal'']), (''ns3'', [''addressUtils'']), (''ns3'', [''TracedValueCallback'']), (''ns3'', [''Hash'', ''Function'']), (''ns3'', [''Hash'']), (''ns3'', [''FatalImpl''])])"
  by code_simp

section \<open>The parts in sequence\<close>

lemmas net_adds_defs =
  net_adds_1_def net_adds_2_def net_adds_3_def net_adds_4_def net_adds_5_def net_adds_6_def net_adds_7_def net_adds_8_def net_adds_9_def net_adds_10_def net_adds_11_def net_adds_12_def net_adds_13_def net_adds_14_def

text \<open>All classes after each part, the newest first.\<close>

definition net_known_1 :: "string list" where
  "net_known_1 = net_adds_1"

definition net_known_2 :: "string list" where
  "net_known_2 = net_adds_2 @ net_known_1"

definition net_known_3 :: "string list" where
  "net_known_3 = net_adds_3 @ net_known_2"

definition net_known_4 :: "string list" where
  "net_known_4 = net_adds_4 @ net_known_3"

definition net_known_5 :: "string list" where
  "net_known_5 = net_adds_5 @ net_known_4"

definition net_known_6 :: "string list" where
  "net_known_6 = net_adds_6 @ net_known_5"

definition net_known_7 :: "string list" where
  "net_known_7 = net_adds_7 @ net_known_6"

definition net_known_8 :: "string list" where
  "net_known_8 = net_adds_8 @ net_known_7"

definition net_known_9 :: "string list" where
  "net_known_9 = net_adds_9 @ net_known_8"

definition net_known_10 :: "string list" where
  "net_known_10 = net_adds_10 @ net_known_9"

definition net_known_11 :: "string list" where
  "net_known_11 = net_adds_11 @ net_known_10"

definition net_known_12 :: "string list" where
  "net_known_12 = net_adds_12 @ net_known_11"

definition net_known_13 :: "string list" where
  "net_known_13 = net_adds_13 @ net_known_12"

definition net_known_14 :: "string list" where
  "net_known_14 = net_adds_14 @ net_known_13"

lemmas net_known_defs =
  net_known_1_def net_known_2_def net_known_3_def net_known_4_def net_known_5_def net_known_6_def net_known_7_def net_known_8_def net_known_9_def net_known_10_def net_known_11_def net_known_12_def net_known_13_def net_known_14_def

lemma net_uses_known_2:
  "set net_uses_2 \<subseteq> set net_known_1"
  by (simp only: net_uses_2_def net_known_defs net_adds_defs subset_simps)

lemma net_uses_known_3:
  "set net_uses_3 \<subseteq> set net_known_2"
  by (simp only: net_uses_3_def net_known_defs net_adds_defs subset_simps)

lemma net_uses_known_4:
  "set net_uses_4 \<subseteq> set net_known_3"
  by (simp only: net_uses_4_def net_known_defs net_adds_defs subset_simps)

lemma net_uses_known_5:
  "set net_uses_5 \<subseteq> set net_known_4"
  by (simp only: net_uses_5_def net_known_defs net_adds_defs subset_simps)

lemma net_uses_known_6:
  "set net_uses_6 \<subseteq> set net_known_5"
  by (simp only: net_uses_6_def net_known_defs net_adds_defs subset_simps)

lemma net_uses_known_7:
  "set net_uses_7 \<subseteq> set net_known_6"
  by (simp only: net_uses_7_def net_known_defs net_adds_defs subset_simps)

lemma net_uses_known_8:
  "set net_uses_8 \<subseteq> set net_known_7"
  by (simp only: net_uses_8_def net_known_defs net_adds_defs subset_simps)

lemma net_uses_known_9:
  "set net_uses_9 \<subseteq> set net_known_8"
  by (simp only: net_uses_9_def net_known_defs net_adds_defs subset_simps)

lemma net_uses_known_10:
  "set net_uses_10 \<subseteq> set net_known_9"
  by (simp only: net_uses_10_def net_known_defs net_adds_defs subset_simps)

lemma net_uses_known_11:
  "set net_uses_11 \<subseteq> set net_known_10"
  by (simp only: net_uses_11_def net_known_defs net_adds_defs subset_simps)

lemma net_uses_known_12:
  "set net_uses_12 \<subseteq> set net_known_11"
  by (simp only: net_uses_12_def net_known_defs net_adds_defs subset_simps)

lemma net_uses_known_13:
  "set net_uses_13 \<subseteq> set net_known_12"
  by (simp only: net_uses_13_def net_known_defs net_adds_defs subset_simps)

lemma net_uses_known_14:
  "set net_uses_14 \<subseteq> set net_known_13"
  by (simp only: net_uses_14_def net_known_defs net_adds_defs subset_simps)

definition net_all_nested :: "module_path list" where
  "net_all_nested = [(''ns3'', [''internal'']), (''ns3'', [''addressUtils'']), (''ns3'', [''TracedValueCallback'']), (''ns3'', [''Hash'', ''Function'']), (''ns3'', [''Hash'']), (''ns3'', [''FatalImpl''])]"

lemma net_run_register_types:
  "run_types name_registry ([], []) ns3 net_register_types = Inr (net_known_14, net_all_nested)"
proof -
  note run = net_run_part_1 [unfolded net_uses_1_def append_Nil2, folded net_known_1_def]
  note run = run_types_seq [OF run net_run_part_2 net_uses_known_2, folded net_known_2_def]
  note run = run_types_seq [OF run net_run_part_3 net_uses_known_3, folded net_known_3_def]
  note run = run_types_seq [OF run net_run_part_4 net_uses_known_4, folded net_known_4_def]
  note run = run_types_seq [OF run net_run_part_5 net_uses_known_5, folded net_known_5_def]
  note run = run_types_seq [OF run net_run_part_6 net_uses_known_6, folded net_known_6_def]
  note run = run_types_seq [OF run net_run_part_7 net_uses_known_7, folded net_known_7_def]
  note run = run_types_seq [OF run net_run_part_8 net_uses_known_8, folded net_known_8_def]
  note run = run_types_seq [OF run net_run_part_9 net_uses_known_9, folded net_known_9_def]
  note run = run_types_seq [OF run net_run_part_10 net_uses_known_10, folded net_known_10_def]
  note run = run_types_seq [OF run net_run_part_11 net_uses_known_11, folded net_known_11_def]
  note run = run_types_seq [OF run net_run_part_12 net_uses_known_12, folded net_known_12_def]
  note run = run_types_seq [OF run net_run_part_13 net_uses_known_13, folded net_known_13_def]
  note run = run_types_seq [OF run net_run_part_14 net_uses_known_14, folded net_known_14_def]
  show ?thesis
    using run by (simp only: net_register_types_def net_all_nested_def append_assoc append_Nil2 append.simps)
qed

end
