(* ===== verification/Network_Members.thy ===== *)
theory Network_Members
  imports Bindings_Members Network_Methods_1 Network_Methods_2 Network_Methods_3
    Network_Methods_4 Network_Methods_5 Network_Methods_6
begin

text \<open>
  The checks of \<open>Bindings_Members\<close> on the members that only the network script registers, part by
  part; the members that both scripts register were checked there.
\<close>

definition net_operands :: "string list" where
  "net_operands = [''ns3::int64x64_t'', ''ns3::Time'', ''ns3::SequenceNumber32'', ''ns3::SequenceNumber16'']"

lemma net_members_ok_1: "list_all (members_ok net_operands) net_members_1"
  by code_simp

lemma net_members_ok_2: "list_all (members_ok net_operands) net_members_2"
  by code_simp

lemma net_members_ok_3: "list_all (members_ok net_operands) net_members_3"
  by code_simp

lemma net_members_ok_4: "list_all (members_ok net_operands) net_members_4"
  by code_simp

lemma net_members_ok_5: "list_all (members_ok net_operands) net_members_5"
  by code_simp

lemma net_members_ok_6: "list_all (members_ok net_operands) net_members_6"
  by code_simp

lemma shared_members_ok:
  assumes "list_all (members_ok operands) xs"
  shows "list_all (members_ok net_operands) xs"
proof -
  have "set operands \<subseteq> set net_operands" by (simp add: operands_def net_operands_def)
  with assms show ?thesis by (auto simp: list_all_iff intro: members_ok_mono)
qed

end
