(* ===== verification/Network.thy ===== *)
theory Network
  imports Network_Script Network_Names Network_Members
begin

text \<open>
  The properties of \<open>network/bindings/modulegen__gcc_LP64.py\<close>: its \<open>main\<close> reaches the generation
  of the code with every library that has the laws of \<open>pybindgen_laws\<close>, each class it adds gets
  its members exactly once and in the same order, and the members are consistent.
\<close>

section \<open>Members and classes\<close>

lemma net_members_listed:
  "set (map snd net_register_methods) \<subseteq>
     set (members_1 @ members_2 @ members_3 @ members_4 @ members_5 @ members_6 @
       net_members_1 @ net_members_2 @ net_members_3 @ net_members_4 @ net_members_5 @ net_members_6)"
  by (simp only: net_register_methods_def members_1_def members_2_def members_3_def members_4_def
      members_5_def members_6_def net_members_1_def net_members_2_def net_members_3_def
      net_members_4_def net_members_5_def net_members_6_def list.map snd_conv subset_simps)

lemma net_all_members_ok: "list_all (members_ok net_operands) (map snd net_register_methods)"
proof -
  note shared = members_ok_1 members_ok_2 members_ok_3 members_ok_4 members_ok_5 members_ok_6
  have "list_all (members_ok net_operands)
    (members_1 @ members_2 @ members_3 @ members_4 @ members_5 @ members_6 @
      net_members_1 @ net_members_2 @ net_members_3 @ net_members_4 @ net_members_5 @ net_members_6)"
    by (simp only: list_all_append shared [THEN shared_members_ok] net_members_ok_1 net_members_ok_2
        net_members_ok_3 net_members_ok_4 net_members_ok_5 net_members_ok_6 simp_thms)
  then show ?thesis using net_members_listed unfolding list_all_iff by blast
qed

lemma net_methods_classes: "map fst net_register_methods = rev net_known_14"
  by (simp only: net_register_methods_def net_known_defs net_adds_defs list.map fst_conv rev_append rev.simps
      append_assoc append.simps)

lemma net_distinct_classes: "distinct (map fst net_register_methods)"
proof -
  have "distinct_by 3 (map name_number net_known_14)" by code_simp
  then show ?thesis unfolding net_methods_classes distinct_rev by (rule distinct_by_number)
qed

lemma net_operands_known: "set net_operands \<subseteq> set net_known_14"
  by (simp only: net_operands_def net_known_defs net_adds_defs subset_simps)

section \<open>Running the script on the registry of names\<close>

lemma net_run_register_methods:
  "run_methods name_registry (net_known_14, ms) net_register_methods = Inr (net_known_14, ms)"
proof (rule run_methods_names)
  show "set (map fst net_register_methods) \<subseteq> set net_known_14"
    by (simp only: net_methods_classes set_rev order_refl)
qed (rule members_ok_operands [OF net_all_members_ok net_operands_known])

lemma net_run_register_functions:
  "run_functions name_registry (ks, net_all_nested) ns3 net_register_functions = Inr (ks, net_all_nested)"
  by (simp add: net_register_functions_def register_functions_ns3_FatalImpl_def register_functions_ns3_Hash_def
      register_functions_ns3_Hash_Function_def register_functions_ns3_TracedValueCallback_def
      register_functions_ns3_addressUtils_def register_functions_ns3_internal_def net_all_nested_def sub_path_def)

context pybindgen_laws
begin

lemma net_main_generates: "\<exists>s. net_main pbg = Inr (generate pbg s)"
proof -
  obtain s0 root where m: "net_module_init pbg = (s0, root)" by (cases "net_module_init pbg")
  then have "Module pbg ''ns.network'' (''::'' @ ''ns3'') = (s0, root)" by (simp add: net_module_init_def)
  from script_runs [OF this net_run_register_types net_run_register_methods net_run_register_functions] m
  show ?thesis by (auto simp: net_main_def)
qed

end

section \<open>Properties\<close>



text \<open>\<open>register_methods\<close> of the network script registers members for exactly the classes that its
  \<open>register_types\<close> adds, once each and in the order in which they were added.\<close>

theorem network_methods_cover_types:
  "(\<exists>nested. run_types name_registry (fst (net_module_init name_registry)) (snd (net_module_init name_registry))
      net_register_types = Inr (rev (map fst net_register_methods), nested)) \<and>
   distinct (map fst net_register_methods)"
  using net_run_register_types net_distinct_classes by (simp add: net_module_init_def net_methods_classes)

text \<open>The members the network script registers are consistent C++ declarations: a pure virtual
  function is virtual, a static one is neither virtual nor \<open>const\<close>, the visibility is public,
  protected or private, the parameters with a default value come last, and no class registers
  two members with the same name, parameter types and constness.\<close>

theorem network_members_consistent:
  "list_all (\<lambda>(key, calls).
     list_all (\<lambda>c. modifiers_ok c \<and> defaults_last c) calls \<and> distinct (concat (map signature calls)))
   net_register_methods"
  by (rule members_ok_consistent [OF net_all_members_ok])

end
