(* ===== verification/Module_Imports.thy ===== *)
theory Module_Imports
  imports Network_Types Pybindgen_Laws "HOL-Library.AList"
begin

text \<open>
  The two binding scripts together: \<open>import_from_module\<close> marks a class or an enumeration that
  another module generates, and the wrapper that is generated for it is the one of that module.
  The declarations of a script are its \<open>add_class\<close> and \<open>add_enum\<close> calls, with the namespace of
  the module they are made on.
\<close>

section \<open>Declarations, imported and own\<close>

fun declarations :: "string \<Rightarrow> type_call list \<Rightarrow> (string \<times> type_call) list" where
  "declarations ns [] = []"
| "declarations ns (Nested n body # cs) = declarations (ns @ ''::'' @ n) body @ declarations ns cs"
| "declarations ns (Add_class n kw # cs) = (ns, Add_class n kw) # declarations ns cs"
| "declarations ns (Add_enum n vs kw # cs) = (ns, Add_enum n vs kw) # declarations ns cs"
| "declarations ns (_ # cs) = declarations ns cs"

lemma declarations_append: "declarations ns (xs @ ys) = declarations ns xs @ declarations ns ys"
  by (induction ns xs rule: declarations.induct) simp_all

fun import_of :: "type_call \<Rightarrow> string arg option" where
  "import_of (Add_class n kw) = map_of kw ''import_from_module''"
| "import_of (Add_enum n vs kw) = map_of kw ''import_from_module''"
| "import_of _ = None"

fun without_import :: "type_call \<Rightarrow> type_call" where
  "without_import (Add_class n kw) = Add_class n (AList.delete ''import_from_module'' kw)"
| "without_import (Add_enum n vs kw) = Add_enum n vs (AList.delete ''import_from_module'' kw)"
| "without_import c = c"

text \<open>What a list of declarations takes from the module \<open>m\<close>, as \<open>m\<close> would declare it, and what
  it declares itself.\<close>

definition imports_from :: "string \<Rightarrow> (string \<times> type_call) list \<Rightarrow> (string \<times> type_call) list" where
  "imports_from m ds =
     map (\<lambda>(ns, d). (ns, without_import d)) (filter (\<lambda>(ns, d). import_of d = Some (Const (CStr m))) ds)"

definition own :: "(string \<times> type_call) list \<Rightarrow> (string \<times> type_call) list" where
  "own ds = filter (\<lambda>(ns, d). import_of d = None) ds"

section \<open>What the traffic-control module takes from the network module\<close>

definition network_imports :: "(string \<times> type_call) list" where
  "network_imports = [
     (''ns3'', Add_class ''Address'' []),
     (''ns3'', Add_enum ''MaxSize_e'' [''MAX_SIZE''] [(''outer_class'', Class ''ns3::Address'')]),
     (''ns3'', Add_class ''Buffer'' []),
     (''ns3'', Add_class ''Iterator'' [(''outer_class'', Class ''ns3::Buffer'')]),
     (''ns3'', Add_class ''ByteTagIterator'' []),
     (''ns3'', Add_class ''Item'' [(''outer_class'', Class ''ns3::ByteTagIterator'')]),
     (''ns3'', Add_class ''ByteTagList'' []),
     (''ns3'', Add_class ''Iterator'' [(''outer_class'', Class ''ns3::ByteTagList'')]),
     (''ns3'', Add_class ''Item'' [(''outer_class'', Class ''ns3::ByteTagList::Iterator'')]),
     (''ns3'', Add_class ''DataRate'' []),
     (''ns3'', Add_class ''Ipv4Address'' []),
     (''ns3'', Add_class ''Ipv4Mask'' []),
     (''ns3'', Add_class ''Ipv6Address'' []),
     (''ns3'', Add_class ''Ipv6Prefix'' []),
     (''ns3'', Add_class ''Mac48Address'' []),
     (''ns3'', Add_class ''NetDeviceContainer'' []),
     (''ns3'', Add_class ''PacketMetadata'' []),
     (''ns3'', Add_class ''Item'' [(''outer_class'', Class ''ns3::PacketMetadata'')]),
     (''ns3'', Add_enum '''' [''PAYLOAD'', ''HEADER'', ''TRAILER''] [(''outer_class'', Class ''ns3::PacketMetadata::Item'')]),
     (''ns3'', Add_class ''ItemIterator'' [(''outer_class'', Class ''ns3::PacketMetadata'')]),
     (''ns3'', Add_class ''PacketTagIterator'' []),
     (''ns3'', Add_class ''Item'' [(''outer_class'', Class ''ns3::PacketTagIterator'')]),
     (''ns3'', Add_class ''PacketTagList'' []),
     (''ns3'', Add_class ''TagData'' [(''outer_class'', Class ''ns3::PacketTagList'')]),
     (''ns3'', Add_enum ''TagData_e'' [''MAX_SIZE''] [(''outer_class'', Class ''ns3::PacketTagList::TagData'')]),
     (''ns3'', Add_class ''Tag'' [(''parent'', Class ''ns3::ObjectBase'')]),
     (''ns3'', Add_class ''TagBuffer'' []),
     (''ns3'', Add_class ''Chunk'' [(''parent'', Class ''ns3::ObjectBase'')]),
     (''ns3'', Add_class ''Header'' [(''parent'', Class ''ns3::Chunk'')]),
     (''ns3'', Add_class ''Queue'' [(''parent'', Class ''ns3::Object'')]),
     (''ns3'', Add_enum ''QueueMode'' [''QUEUE_MODE_PACKETS'', ''QUEUE_MODE_BYTES''] [(''outer_class'', Class ''ns3::Queue'')]),
     (''ns3'', Add_class ''Trailer'' [(''parent'', Class ''ns3::Chunk'')]),
     (''ns3'', Add_class ''DataRateChecker'' [(''parent'', Class ''ns3::AttributeChecker'')]),
     (''ns3'', Add_class ''DataRateValue'' [(''parent'', Class ''ns3::AttributeValue'')]),
     (''ns3'', Add_class ''Ipv4AddressChecker'' [(''parent'', Class ''ns3::AttributeChecker'')]),
     (''ns3'', Add_class ''Ipv4AddressValue'' [(''parent'', Class ''ns3::AttributeValue'')]),
     (''ns3'', Add_class ''Ipv4MaskChecker'' [(''parent'', Class ''ns3::AttributeChecker'')]),
     (''ns3'', Add_class ''Ipv4MaskValue'' [(''parent'', Class ''ns3::AttributeValue'')]),
     (''ns3'', Add_class ''Ipv6AddressChecker'' [(''parent'', Class ''ns3::AttributeChecker'')]),
     (''ns3'', Add_class ''Ipv6AddressValue'' [(''parent'', Class ''ns3::AttributeValue'')]),
     (''ns3'', Add_class ''Ipv6PrefixChecker'' [(''parent'', Class ''ns3::AttributeChecker'')]),
     (''ns3'', Add_class ''Ipv6PrefixValue'' [(''parent'', Class ''ns3::AttributeValue'')]),
     (''ns3'', Add_class ''Mac48AddressChecker'' [(''parent'', Class ''ns3::AttributeChecker'')]),
     (''ns3'', Add_class ''Mac48AddressValue'' [(''parent'', Class ''ns3::AttributeValue'')]),
     (''ns3'', Add_class ''NetDevice'' [(''parent'', Class ''ns3::Object'')]),
     (''ns3'', Add_enum ''PacketType'' [''PACKET_HOST'', ''NS3_PACKET_HOST'', ''PACKET_BROADCAST'', ''NS3_PACKET_BROADCAST'', ''PACKET_MULTICAST'', ''NS3_PACKET_MULTICAST'', ''PACKET_OTHERHOST'', ''NS3_PACKET_OTHERHOST''] [(''outer_class'', Class ''ns3::NetDevice'')]),
     (''ns3'', Add_class ''NetDeviceQueue'' [(''parent'', Class ''ns3::SimpleRefCount< ns3::NetDeviceQueue, ns3::empty, ns3::DefaultDeleter<ns3::NetDeviceQueue> >'')]),
     (''ns3'', Add_class ''NetDeviceQueueInterface'' [(''parent'', Class ''ns3::Object'')]),
     (''ns3'', Add_class ''NixVector'' [(''parent'', Class ''ns3::SimpleRefCount< ns3::NixVector, ns3::empty, ns3::DefaultDeleter<ns3::NixVector> >'')]),
     (''ns3'', Add_class ''Node'' [(''parent'', Class ''ns3::Object'')]),
     (''ns3'', Add_class ''Packet'' [(''parent'', Class ''ns3::SimpleRefCount< ns3::Packet, ns3::empty, ns3::DefaultDeleter<ns3::Packet> >'')]),
     (''ns3'', Add_class ''QueueItem'' [(''parent'', Class ''ns3::SimpleRefCount< ns3::QueueItem, ns3::empty, ns3::DefaultDeleter<ns3::QueueItem> >'')]),
     (''ns3'', Add_enum ''Uint8Values'' [''IP_DSFIELD''] [(''outer_class'', Class ''ns3::QueueItem'')]),
     (''ns3'', Add_class ''AddressChecker'' [(''parent'', Class ''ns3::AttributeChecker'')]),
     (''ns3'', Add_class ''AddressValue'' [(''parent'', Class ''ns3::AttributeValue'')])]"

lemma traffic_control_imports:
  "imports_from ''ns.network'' (declarations ''ns3'' register_types) = network_imports"
  by code_simp

lemma network_imports_own: "list_all (\<lambda>(ns, d). import_of d = None) network_imports"
  by code_simp

lemmas net_type_defs =
  net_register_types_1_def net_register_types_2_def net_register_types_3_def net_register_types_4_def net_register_types_5_def net_register_types_6_def net_register_types_7_def net_register_types_8_def net_register_types_9_def net_register_types_10_def net_register_types_11_def net_register_types_12_def net_register_types_13_def net_register_types_14_def
  register_types_ns3_FatalImpl_def register_types_ns3_Hash_Function_def register_types_ns3_Hash_def net_register_types_ns3_TracedValueCallback_def register_types_ns3_addressUtils_def register_types_ns3_internal_def

lemma network_imports_declared: "set network_imports \<subseteq> set (declarations ''ns3'' net_register_types)"
  by (simp only: network_imports_def net_register_types_def net_type_defs declarations_append
      declarations.simps append.simps subset_simps)

text \<open>C29. Every class and enumeration that the traffic-control module imports from \<open>ns.network\<close>, 55 in
  all, is declared by the network script itself, not imported there in turn, and with the same
  declaration: the same namespace and outer class, bases, template arguments, memory policy and
  values.\<close>

theorem network_imports_provided:
  "set (imports_from ''ns.network'' (declarations ''ns3'' register_types))
     \<subseteq> set (own (declarations ''ns3'' net_register_types)) \<and>
   length (imports_from ''ns.network'' (declarations ''ns3'' register_types)) = 55"
proof
  show "set (imports_from ''ns.network'' (declarations ''ns3'' register_types))
      \<subseteq> set (own (declarations ''ns3'' net_register_types))"
    using network_imports_declared network_imports_own
    by (auto simp: traffic_control_imports own_def list_all_iff)
qed (simp add: traffic_control_imports network_imports_def)

end
