(* ===== verification/Packet_Id.thy ===== *)
theory Packet_Id
  imports Cpp_Double "HOL-Library.Word"
begin

text \<open>
  Packets of a capture as the compiler sees them (\<open>compiler/util.cpp\<close>, \<open>util.h\<close>): the flow a packet
  belongs to and the clock cycle at which it arrives. A packet is its header and the captured
  bytes; reading past them is undefined. \<open>pcap\<close>, the library that reads capture files, is a
  parameter: it gives the packets of a file in order, and whether the loop over them ended
  without an error, or cannot open the file.
\<close>

section \<open>Data\<close>

record pkthdr =
  tv_sec :: int
  tv_usec :: int
  len :: "32 word"

type_synonym packet = "pkthdr \<times> 8 word list"

type_synonym pcap = "string \<Rightarrow> (packet list \<times> bool) option"

section \<open>Operations\<close>

definition IP_OFFSET :: nat where "IP_OFFSET = 2"

definition byte_at :: "8 word list \<Rightarrow> nat \<Rightarrow> int cpp" where
  "byte_at packet i = (if i < length packet then Inr (uint (packet ! i)) else Inl Undefined)"

text \<open>\<open>inet_ntop(AF_INET, ...)\<close> of the four bytes from \<open>i\<close>, \<open>ntohs\<close> of the two bytes from \<open>i\<close>.\<close>

definition inet_ntop :: "8 word list \<Rightarrow> nat \<Rightarrow> string cpp" where
  "inet_ntop packet i =
     bind_cpp (byte_at packet i) (\<lambda>a. bind_cpp (byte_at packet (i + 1)) (\<lambda>b.
     bind_cpp (byte_at packet (i + 2)) (\<lambda>c. bind_cpp (byte_at packet (i + 3)) (\<lambda>d.
       Inr (join_sep ''.'' (map py_str [a, b, c, d]))))))"

definition ntohs :: "8 word list \<Rightarrow> nat \<Rightarrow> int cpp" where
  "ntohs packet i = bind_cpp (byte_at packet i) (\<lambda>a. bind_cpp (byte_at packet (i + 1)) (\<lambda>b. Inr (256 * a + b)))"

definition append_ports :: "8 word list \<Rightarrow> nat \<Rightarrow> string \<Rightarrow> string \<Rightarrow> string cpp" where
  "append_ports packet i proto result =
     bind_cpp (ntohs packet i) (\<lambda>src_port. bind_cpp (ntohs packet (i + 2)) (\<lambda>dst_port.
       Inr (result @ py_str src_port @ '', '' @ py_str dst_port @ '', '' @ proto)))"

definition getFlowId :: "packet \<Rightarrow> string cpp" where
  "getFlowId p =
     (let packet = snd p
      in bind_cpp (byte_at packet (IP_OFFSET + 9)) (\<lambda>protocol.
         bind_cpp (inet_ntop packet (IP_OFFSET + 12)) (\<lambda>src_ip_str.
         bind_cpp (inet_ntop packet (IP_OFFSET + 16)) (\<lambda>dst_ip_str.
           let result = src_ip_str @ '', '' @ dst_ip_str @ '', ''
           in if protocol = 6 \<or> protocol = 17 then
                bind_cpp (byte_at packet IP_OFFSET) (\<lambda>b.
                  append_ports packet (IP_OFFSET + nat (b mod 16) * 4) (if protocol = 6 then ''TCP'' else ''UDP'') result)
              else Inr (result @ ''Unsupported protocol'')))))"

definition FREQUENCY :: double where "FREQUENCY = Fin 200000000"

definition tsToCycle :: "pkthdr \<Rightarrow> int cpp" where
  "tsToCycle h =
     to_int 64 (dadd (dmul (of_ll (tv_sec h)) FREQUENCY) (dmul (of_ll (tv_usec h)) (ddiv FREQUENCY (Fin 1000000))))"

text \<open>\<open>extractFlowId\<close> with its handler: the set of flows seen so far is a static variable.\<close>

definition extractFlowIdHandler :: "packet \<Rightarrow> string set \<times> string list \<Rightarrow> (string set \<times> string list) cpp" where
  "extractFlowIdHandler p = (\<lambda>(flowIdSet, out).
     bind_cpp (getFlowId p) (\<lambda>flowId.
       Inr (if flowId \<in> flowIdSet then (flowIdSet, out) else (insert flowId flowIdSet, out @ [flowId]))))"

text \<open>\<open>pcap_loop\<close>: the handler on each packet in turn.\<close>

fun pcap_loop :: "('p \<Rightarrow> 's \<Rightarrow> 's cpp) \<Rightarrow> 'p list \<Rightarrow> 's \<Rightarrow> 's cpp" where
  "pcap_loop handler [] s = Inr s"
| "pcap_loop handler (p # ps) s = bind_cpp (handler p s) (pcap_loop handler ps)"

definition extractFlowId :: "pcap \<Rightarrow> string \<Rightarrow> string \<Rightarrow> string set \<Rightarrow> files \<Rightarrow> (string set \<times> files) cpp" where
  "extractFlowId pcap pcap_file flowId_file flowIdSet fs =
     (case pcap pcap_file of
        None \<Rightarrow> Inr (flowIdSet, fs)
      | Some (ps, ok) \<Rightarrow>
          bind_cpp (pcap_loop extractFlowIdHandler ps (flowIdSet, [])) (\<lambda>(seen, out).
            Inr (seen, fs(flowId_file \<mapsto> unlines out))))"

text \<open>\<open>getSrcIP\<close>, and the program \<open>compiler/getFlowId.cpp\<close>.\<close>

definition getSrcIP :: "packet \<Rightarrow> string cpp" where
  "getSrcIP p = bind_cpp (byte_at (snd p) (IP_OFFSET + 9)) (\<lambda>protocol. inet_ntop (snd p) (IP_OFFSET + 12))"

definition getPcapFileName :: "int \<Rightarrow> int \<Rightarrow> string" where
  "getPcapFileName id1 id2 = ''../trace-udp/PcapTrace-'' @ py_str id1 @ ''-'' @ py_str id2 @ ''.pcap''"

definition getFlowIdFileName :: "int \<Rightarrow> int \<Rightarrow> string" where
  "getFlowIdFileName id1 id2 = ''../compiler_test/PcapTrace-'' @ py_str id1 @ ''-'' @ py_str id2 @ ''.flowId''"

definition getFlowId_main :: "pcap \<Rightarrow> files \<Rightarrow> files cpp" where
  "getFlowId_main pcap fs =
     bind_cpp (extractFlowId pcap (getPcapFileName 6 3) (getFlowIdFileName 6 3) {} fs) (\<lambda>(seen, fs'). Inr fs')"

text \<open>It prints each flow of the capture once.\<close>

lemma extract_flows:
  "pcap_loop extractFlowIdHandler ps (seen, out) = Inr (seen', out') \<Longrightarrow> seen = set out \<Longrightarrow> distinct out \<Longrightarrow>
   seen' = set out' \<and> distinct out' \<and> seen' = seen \<union> {f. \<exists>p \<in> set ps. getFlowId p = Inr f}"
proof (induction ps arbitrary: seen out)
  case (Cons p ps)
  obtain f where f: "getFlowId p = Inr f" using Cons.prems(1) by (cases "getFlowId p") (simp_all add: extractFlowIdHandler_def)
  let ?s = "if f \<in> seen then (seen, out) else (insert f seen, out @ [f])"
  have "extractFlowIdHandler p (seen, out) = Inr ?s" using f by (simp add: extractFlowIdHandler_def)
  then have "pcap_loop extractFlowIdHandler ps ?s = Inr (seen', out')" using Cons.prems(1) by simp
  then show ?case using Cons.IH [of "fst ?s" "snd ?s"] Cons.prems(2,3) f by (auto split: if_splits)
qed auto

section \<open>Cycles\<close>

lemma to_int_mono:
  assumes "to_int w (Fin q) = Inr m" and "to_int w (Fin r) = Inr n" and "q \<le> r"
  shows "m \<le> n"
proof -
  have "rat_trunc q \<le> rat_trunc r"
    using assms(3) ceiling_mono [of q r] floor_mono [of q r]
    by (auto simp: rat_trunc_def) (metis ceiling_mono ceiling_zero floor_mono floor_zero less_imp_le not_le order_trans)
  with assms show ?thesis by (auto simp: Let_def split: if_splits)
qed

text \<open>Time stamps of the next two centuries are converted exactly up to the last rounding, so
  that the order of the packets is kept.\<close>

definition stamp_ok :: "pkthdr \<Rightarrow> bool" where
  "stamp_ok h \<longleftrightarrow> 0 \<le> tv_sec h \<and> tv_sec h < 2 ^ 33 \<and> 0 \<le> tv_usec h \<and> tv_usec h < 1000000"

definition stamp_cycles :: "pkthdr \<Rightarrow> rat" where
  "stamp_cycles h = of_int (tv_sec h * 200000000 + tv_usec h * 200)"

lemma tsToCycle_round:
  assumes "stamp_ok h"
  shows "tsToCycle h = to_int 64 (Fin (dround (stamp_cycles h)))" and "0 \<le> dround (stamp_cycles h)" "dround (stamp_cycles h) \<le> 2 ^ 62"
proof -
  let ?s = "tv_sec h" and ?u = "tv_usec h"
  have lim: "(2 :: rat) ^ 62 < double_limit" unfolding double_limit_def by (rule power_strict_increasing) simp_all
  have fin: "fin q = Fin (dround q)" if "0 \<le> q" "q \<le> 2 ^ 62" for q
  proof -
    have "dround q \<le> dround (2 ^ 62)" using that(2) by (rule dround_mono)
    also have "dround (2 ^ 62) = (2 ^ 62 :: rat)" using dround_exact [of 1 62] by (simp add: power_int_def)
    finally have "dround q \<le> 2 ^ 62" .
    then show ?thesis using lim dround_nonneg [OF that(1)] double_limit(2) by (auto simp: fin_def Let_def)
  qed
  have s: "0 \<le> ?s" "?s < 2 ^ 33" and u: "0 \<le> ?u" "?u < 1000000" using assms by (simp_all add: stamp_ok_def)
  have sec: "dmul (of_ll ?s) FREQUENCY = Fin (of_int (?s * 200000000))"
  proof -
    have "of_int (?s * 200000000) = (of_int (?s * 390625) * 2 powi 9 :: rat)" by (simp add: power_int_def)
    then have "dround (of_int (?s * 200000000)) = of_int (?s * 200000000)"
      using dround_exact [of "?s * 390625" 9] s by (simp add: mult.commute)
    moreover have "(of_int (?s * 200000000) :: rat) \<le> of_int (2 ^ 62)" using s by (simp only: of_int_le_iff) simp
    ultimately have "fin (of_int (?s * 200000000)) = Fin (of_int (?s * 200000000))"
      using fin [of "of_int (?s * 200000000)"] s(1) by simp
    then show ?thesis using of_ll_exact [of ?s] s by (simp add: FREQUENCY_def)
  qed
  have k: "ddiv FREQUENCY (Fin 1000000) = Fin 200"
  proof -
    have "fin 200 = Fin 200" using of_ll_exact [of 200] by (simp add: of_ll_def)
    then show ?thesis by (simp add: FREQUENCY_def)
  qed
  have "fin (of_int (?u * 200)) = Fin (of_int (?u * 200))" using of_ll_exact [of "?u * 200"] u by (simp add: of_ll_def)
  then have usec: "dmul (of_ll ?u) (Fin 200) = Fin (of_int (?u * 200))" using of_ll_exact [of ?u] u by simp
  have "0 \<le> ?s * 200000000 + ?u * 200" "?s * 200000000 + ?u * 200 \<le> 2 ^ 62" using s u by auto
  then have le: "0 \<le> stamp_cycles h" "stamp_cycles h \<le> of_int (2 ^ 62)"
    unfolding stamp_cycles_def by (simp_all only: of_int_0_le_iff of_int_le_iff)
  then have le: "0 \<le> stamp_cycles h" "stamp_cycles h \<le> 2 ^ 62" by simp_all
  have "fin (stamp_cycles h) = Fin (dround (stamp_cycles h))" using fin [OF le] .
  then show "tsToCycle h = to_int 64 (Fin (dround (stamp_cycles h)))"
    by (simp add: tsToCycle_def sec k usec stamp_cycles_def)
  show "0 \<le> dround (stamp_cycles h)" using le(1) by (rule dround_nonneg)
  show "dround (stamp_cycles h) \<le> 2 ^ 62" using dround_mono [OF le(2)] dround_exact [of 1 62] by (simp add: power_int_def)
qed

lemma tsToCycle_returns:
  assumes "stamp_ok h"
  obtains n where "tsToCycle h = Inr n" "0 \<le> n" "n < 2 ^ 63"
proof -
  define n where "n = rat_trunc (dround (stamp_cycles h))"
  note r = tsToCycle_round [OF assms]
  have "n = \<lfloor>dround (stamp_cycles h)\<rfloor>" using r(2) by (simp add: n_def rat_trunc_def)
  then have "0 \<le> n" "n \<le> 2 ^ 62" using r(2,3) by (simp_all add: le_floor_iff floor_le_iff)
  with r(1) show thesis by (intro that [of n]) (simp_all add: Let_def n_def)
qed

text \<open>A packet that was captured later never arrives in an earlier cycle.\<close>

lemma tsToCycle_mono:
  assumes "stamp_ok h" and "stamp_ok h'" and "stamp_cycles h \<le> stamp_cycles h'"
    and "tsToCycle h = Inr m" and "tsToCycle h' = Inr n"
  shows "m \<le> n"
  using assms(4,5) unfolding tsToCycle_round(1) [OF assms(1)] tsToCycle_round(1) [OF assms(2)]
  by (rule to_int_mono) (rule dround_mono [OF assms(3)])


section \<open>Flows\<close>

text \<open>Two fields with a separator between them are found again if the first has no character of
  the separator.\<close>

lemma sep_inject:
  assumes "c \<notin> set a" and "c \<notin> set b"
  shows "a @ c # s = b @ c # t \<longleftrightarrow> a = b \<and> s = t"
proof
  assume eq: "a @ c # s = b @ c # t"
  have "takeWhile (\<lambda>x. x \<noteq> c) (a @ c # s) = a" "takeWhile (\<lambda>x. x \<noteq> c) (b @ c # t) = b"
    using assms by (auto simp: takeWhile_append takeWhile_eq_all_conv)
  with eq show "a = b \<and> s = t" by auto
qed auto

lemma py_str_inject: "py_str m = py_str n \<longleftrightarrow> m = n"
  using py_int_str by (metis sum.inject(2))

lemma py_str_no_dot: "CHR ''.'' \<notin> set (py_str n)"
  using py_str_chars [of "CHR ''.''" n] by (auto simp: is_digit_def char_code_def)

text \<open>The fields of the IP and transport headers that make a flow: the addresses, the ports and
  the protocol.\<close>

definition field :: "8 word list \<Rightarrow> nat \<Rightarrow> int" where
  "field packet i = uint (packet ! (IP_OFFSET + i))"

definition address :: "8 word list \<Rightarrow> nat \<Rightarrow> int list" where
  "address packet i = map (\<lambda>k. field packet (i + k)) [0, 1, 2, 3]"

definition port :: "8 word list \<Rightarrow> nat \<Rightarrow> int" where
  "port packet i = (let j = nat (field packet 0 mod 16) * 4 + i in 256 * field packet j + field packet (j + 1))"

definition five_tuple :: "8 word list \<Rightarrow> int list \<times> int list \<times> int \<times> int \<times> int" where
  "five_tuple packet = (address packet 12, address packet 16, port packet 0, port packet 2, field packet 9)"

definition dotted :: "int list \<Rightarrow> string" where
  "dotted a = join_sep ''.'' (map py_str a)"

definition flow_text :: "int list \<times> int list \<times> int \<times> int \<times> int \<Rightarrow> string" where
  "flow_text = (\<lambda>(src, dst, sp, dp, proto). dotted src @ '', '' @ dotted dst @ '', '' @
     (if proto = 6 \<or> proto = 17
      then py_str sp @ '', '' @ py_str dp @ '', '' @ (if proto = 6 then ''TCP'' else ''UDP'')
      else ''Unsupported protocol''))"

lemma byte_at_field:
  "byte_at packet (IP_OFFSET + i) = Inr x \<Longrightarrow> x = field packet i"
  "byte_at packet (Suc (IP_OFFSET + i)) = Inr x \<Longrightarrow> x = field packet (Suc i)"
  "byte_at packet (Suc (Suc (IP_OFFSET + i))) = Inr x \<Longrightarrow> x = field packet (Suc (Suc i))"
  by (auto simp: byte_at_def field_def split: if_splits)

lemma inet_ntop_address: "inet_ntop packet (IP_OFFSET + i) = Inr s \<Longrightarrow> s = dotted (address packet i)"
  by (auto simp: inet_ntop_def bind_cpp_Inr address_def dotted_def add.assoc dest!: byte_at_field)

lemma ntohs_port: "ntohs packet (IP_OFFSET + i) = Inr n \<Longrightarrow> n = 256 * field packet i + field packet (i + 1)"
  by (auto simp: ntohs_def bind_cpp_Inr add.assoc dest!: byte_at_field)

lemma getFlowId_text:
  assumes "getFlowId p = Inr f"
  shows "f = flow_text (five_tuple (snd p))"
proof -
  let ?k = "snd p"
  obtain proto src dst where r: "byte_at ?k (IP_OFFSET + 9) = Inr proto" "inet_ntop ?k (IP_OFFSET + 12) = Inr src"
    "inet_ntop ?k (IP_OFFSET + 16) = Inr dst"
    and rest: "(let result = src @ '', '' @ dst @ '', ''
       in if proto = 6 \<or> proto = 17 then
            bind_cpp (byte_at ?k IP_OFFSET) (\<lambda>b.
              append_ports ?k (IP_OFFSET + nat (b mod 16) * 4) (if proto = 6 then ''TCP'' else ''UDP'') result)
          else Inr (result @ ''Unsupported protocol'')) = Inr f"
    using assms by (auto simp: getFlowId_def Let_def bind_cpp_Inr)
  have proto: "proto = field ?k 9" using byte_at_field(1) [OF r(1)] .
  show ?thesis
  proof (cases "proto = 6 \<or> proto = 17")
    case True
    then obtain b sp dp where b: "byte_at ?k (IP_OFFSET + 0) = Inr b"
      and sp: "ntohs ?k (IP_OFFSET + nat (b mod 16) * 4) = Inr sp"
      and dp: "ntohs ?k (IP_OFFSET + (nat (b mod 16) * 4 + 2)) = Inr dp"
      and f: "f = (src @ '', '' @ dst @ '', '') @ py_str sp @ '', '' @ py_str dp @ '', '' @ (if proto = 6 then ''TCP'' else ''UDP'')"
      using rest by (auto simp: append_ports_def bind_cpp_Inr Let_def add.assoc)
    have "sp = port ?k 0" "dp = port ?k 2"
      using ntohs_port [OF sp] ntohs_port [OF dp] byte_at_field(1) [OF b] by (simp_all add: port_def Let_def)
    with True show ?thesis
      unfolding f by (simp add: flow_text_def five_tuple_def inet_ntop_address [OF r(2)] inet_ntop_address [OF r(3)] proto)
  next
    case False
    with rest show ?thesis
      by (auto simp: flow_text_def five_tuple_def inet_ntop_address [OF r(2)] inet_ntop_address [OF r(3)] proto)
  qed
qed

lemma dotted_4: "dotted [a, b, c, d] = py_str a @ CHR ''.'' # py_str b @ CHR ''.'' # py_str c @ CHR ''.'' # py_str d"
  by (simp add: dotted_def)

lemma dotted_inject: "length x = 4 \<Longrightarrow> length y = 4 \<Longrightarrow> dotted x = dotted y \<longleftrightarrow> x = y"
  by (auto simp: dotted_4 length_Suc_conv numeral_eq_Suc sep_inject py_str_no_dot py_str_inject)

lemma dotted_no_comma: "length x = 4 \<Longrightarrow> CHR '','' \<notin> set (dotted x)"
  by (auto simp: dotted_4 length_Suc_conv numeral_eq_Suc)

lemma length_address [simp]: "length (address packet i) = 4"
  by (simp add: address_def)

text \<open>C19. The name of a flow identifies it: two packets that are TCP or UDP get the same name exactly
  when their addresses, their ports and their protocol are the same, wherever the transport
  header starts.\<close>

theorem flow_id_identifies:
  assumes "getFlowId p = Inr f" and "getFlowId q = Inr g"
    and "field (snd p) 9 \<in> {6, 17}" and "field (snd q) 9 \<in> {6, 17}"
  shows "f = g \<longleftrightarrow> five_tuple (snd p) = five_tuple (snd q)"
proof -
  have "flow_text (five_tuple (snd p)) = flow_text (five_tuple (snd q)) \<longleftrightarrow> five_tuple (snd p) = five_tuple (snd q)"
    using assms(3,4) by (auto simp: flow_text_def five_tuple_def sep_inject dotted_no_comma dotted_inject py_str_inject)
  with getFlowId_text [OF assms(1)] getFlowId_text [OF assms(2)] show ?thesis by simp
qed

text \<open>Evaluation of printed numbers.\<close>

lemma digit_chars:
  "digit_char 0 = CHR ''0''" "digit_char (Suc 0) = CHR ''1''" "digit_char 2 = CHR ''2''" "digit_char 3 = CHR ''3''"
  "digit_char 4 = CHR ''4''" "digit_char 5 = CHR ''5''" "digit_char 6 = CHR ''6''" "digit_char 7 = CHR ''7''"
  "digit_char 8 = CHR ''8''" "digit_char 9 = CHR ''9''"
  by code_simp+

lemmas py_str_eval = py_str_def dec_digits.simps digit_chars

definition udp_packet :: "8 word \<Rightarrow> 8 word list" where
  "udp_packet x = [0, 33, 0x45, 0, 0, 28, 0, 0, 0, 0, 64, 17, 0, 0, 10, 1, 1, 1, 10, 1, 4, 2, 192, x, 31, 144, 0, 8, 0, 0]"

lemma udp_flow_ids:
  "getFlowId (h, udp_packet 1) = Inr ''10.1.1.1, 10.1.4.2, 49153, 8080, UDP''"
  "getFlowId (h, udp_packet 2) = Inr ''10.1.1.1, 10.1.4.2, 49154, 8080, UDP''"
proof -
  note defs = udp_packet_def IP_OFFSET_def byte_at_def field_def port_def
  have ips: "inet_ntop (udp_packet x) (IP_OFFSET + 12) = Inr ''10.1.1.1''" "inet_ntop (udp_packet x) (IP_OFFSET + 16) = Inr ''10.1.4.2''" for x
  proof -
    have "py_str 10 = ''10''" "py_str 1 = ''1''" "py_str 4 = ''4''" "py_str 2 = ''2''" by code_simp+
    then show "inet_ntop (udp_packet x) (IP_OFFSET + 12) = Inr ''10.1.1.1''" "inet_ntop (udp_packet x) (IP_OFFSET + 16) = Inr ''10.1.4.2''"
      by (simp_all add: inet_ntop_def defs)
  qed
  have strs: "py_str 49153 = ''49153''" "py_str 49154 = ''49154''" "py_str 8080 = ''8080''"
    by (simp_all add: py_str_eval)
  show "getFlowId (h, udp_packet 1) = Inr ''10.1.1.1, 10.1.4.2, 49153, 8080, UDP''"
    using ips [of 1] strs by (simp add: getFlowId_def append_ports_def ntohs_def Let_def defs)
  show "getFlowId (h, udp_packet 2) = Inr ''10.1.1.1, 10.1.4.2, 49154, 8080, UDP''"
    using ips [of 2] strs by (simp add: getFlowId_def append_ports_def ntohs_def Let_def defs)
qed

theorem flow_id_identifies_witness:
  "\<exists>f g. getFlowId (\<lparr>tv_sec = 1, tv_usec = 0, len = 30\<rparr>, udp_packet 1) = Inr f \<and>
     getFlowId (\<lparr>tv_sec = 2, tv_usec = 5, len = 30\<rparr>, udp_packet 2) = Inr g \<and>
     f = ''10.1.1.1, 10.1.4.2, 49153, 8080, UDP'' \<and> f \<noteq> g"
proof -
  let ?p = "(\<lparr>tv_sec = 1, tv_usec = 0, len = 30\<rparr>, udp_packet 1)" and ?q = "(\<lparr>tv_sec = 2, tv_usec = 5, len = 30\<rparr>, udp_packet 2)"
  note defs = udp_packet_def IP_OFFSET_def byte_at_def field_def port_def
  note f = udp_flow_ids(1) [of "fst ?p", simplified] and g = udp_flow_ids(2) [of "fst ?q", simplified]
  have "field (snd ?p) 9 = 17" "field (snd ?q) 9 = 17" "port (udp_packet 1) 0 \<noteq> port (udp_packet 2) 0"
    by (simp_all add: defs Let_def)
  then have "field (snd ?p) 9 \<in> {6, 17}" "field (snd ?q) 9 \<in> {6, 17}" "five_tuple (snd ?p) \<noteq> five_tuple (snd ?q)"
    by (simp_all add: five_tuple_def)
  with flow_id_identifies [OF f g] f g show ?thesis by blast
qed

end
