(* ===== verification/Path_Table.thy ===== *)
theory Path_Table
  imports Py_Prelude
begin

text \<open>
  \<open>compiler/draw_path_table.py\<close>: reads the paths from the leaves to the root that
  \<open>printPushConvertTable\<close> of \<open>compiler/PIFOTree.cpp\<close> prints, one \<open>leaf: path\<close> line each, and
  writes them as a table.

  \<open>pandas\<close> and \<open>prettytable\<close> are parameters: \<open>itertuples\<close> gives the rows of the data frame with
  the two columns, \<open>str_table\<close> the text of the table with the given header and rows.
\<close>

record table_lib =
  itertuples :: "string list \<Rightarrow> string list \<Rightarrow> (string \<times> string) list"
  str_table :: "string list \<Rightarrow> (string \<times> string) list \<Rightarrow> string"

text \<open>The dictionary \<open>data\<close> with its two lists.\<close>

record path_data =
  leafNodeId :: "string list"
  path :: "string list"

fun read_paths :: "path_data \<Rightarrow> string list \<Rightarrow> path_data py" where
  "read_paths data [] = Inr data"
| "read_paths data (line # lines) =
     (let parts = py_split_on (py_strip line) CHR '':'' '' ''
      in bind_py (py_index parts 0) (\<lambda>part0.
         bind_py (py_index parts 1) (\<lambda>part1.
         read_paths (data\<lparr> leafNodeId := leafNodeId data @ [py_strip part0],
                           path := path data @ [py_strip part1] \<rparr>) lines)))"

definition draw_path_table :: "table_lib \<Rightarrow> string \<Rightarrow> string \<Rightarrow> files \<Rightarrow> run" where
  "draw_path_table lib input_file_path output_file_path fs =
     (case bind_py (read_file fs input_file_path) (\<lambda>content.
             read_paths \<lparr>leafNodeId = [], path = []\<rparr> (readlines content)) of
        Inl e \<Rightarrow> (fs, Some e)
      | Inr data \<Rightarrow>
          (fs(output_file_path \<mapsto>
             str_table lib [''leafNodeId'', ''path''] (itertuples lib (leafNodeId data) (path data))), None))"

text \<open>The line \<open>printPushConvertTable\<close> prints for a leaf and the nodes on its path, without
  its newline.\<close>

definition path_line :: "int \<times> int list \<Rightarrow> string" where
  "path_line lp = py_str (fst lp) @ '': '' @ join_sep ''->'' (map py_str (snd lp))"

text \<open>What \<open>pandas\<close> documents: a frame of two columns of equal length has one row per index.\<close>

definition rows_of_columns :: "table_lib \<Rightarrow> bool" where
  "rows_of_columns lib \<longleftrightarrow> (\<forall>xs ys. length xs = length ys \<longrightarrow> itertuples lib xs ys = zip xs ys)"

section \<open>Reading one line\<close>

definition path_row :: "string \<Rightarrow> (string \<times> string) py" where
  "path_row line =
     (let parts = py_split_on (py_strip line) CHR '':'' '' ''
      in bind_py (py_index parts 0) (\<lambda>part0.
         bind_py (py_index parts 1) (\<lambda>part1. Inr (py_strip part0, py_strip part1))))"

lemma read_paths_step:
  "read_paths data (line # lines) = bind_py (path_row line) (\<lambda>(l, p).
     read_paths (data\<lparr> leafNodeId := leafNodeId data @ [l], path := path data @ [p] \<rparr>) lines)"
  by (cases "py_index (py_split_on (py_strip line) CHR '':'' '' '') 0";
      cases "py_index (py_split_on (py_strip line) CHR '':'' '' '') 1")
    (simp_all add: path_row_def Let_def)

lemma read_paths_map:
  "read_paths data lines = bind_py (map_py path_row lines) (\<lambda>rows.
     Inr (data\<lparr> leafNodeId := leafNodeId data @ map fst rows, path := path data @ map snd rows \<rparr>))"
proof (induction lines arbitrary: data)
  case Nil
  show ?case by simp
next
  case (Cons line lines)
  show ?case
    by (cases "path_row line"; cases "map_py path_row lines")
      (auto simp: read_paths_step Cons.IH simp del: read_paths.simps(2) split: prod.split)
qed

lemma path_row_error:
  "path_row line = Inl e \<longleftrightarrow> e = IndexError \<and> find_sub '': '' (py_strip line) = None"
proof -
  let ?parts = "py_split_on (py_strip line) CHR '':'' '' ''"
  have "?parts \<noteq> []" by simp
  then show ?thesis
    using split_acc_one_field [of "CHR '':''" "'' ''" "[]" "py_strip line"]
    by (cases ?parts; cases "tl ?parts") (auto simp: path_row_def py_index_def Let_def)
qed

lemma join_arrow:
  assumes "nodes \<noteq> []"
  shows "CHR '':'' \<notin> set (join_sep ''->'' (map py_str nodes))"
    and "join_sep ''->'' (map py_str nodes) \<noteq> []"
    and "\<not> is_space (hd (join_sep ''->'' (map py_str nodes)))"
    and "\<not> is_space (last (join_sep ''->'' (map py_str nodes)))"
    and "newline \<notin> set (join_sep ''->'' (map py_str nodes))"
proof -
  let ?j = "\<lambda>nodes. join_sep ''->'' (map py_str nodes)"
  have ne: "?j nodes \<noteq> []" if "nodes \<noteq> []" for nodes
    using that by (cases nodes rule: remdups_adj.cases) auto
  have "x \<in> {CHR ''-'', CHR ''>''} \<union> \<Union> (set ` set (map py_str nodes))" if "x \<in> set (?j nodes)" for x
    using that by (induction nodes rule: remdups_adj.induct) auto
  then have chars: "x \<noteq> CHR '':'' \<and> \<not> is_space x" if "x \<in> set (?j nodes)" for x
    using that py_str_not_space py_str_chars by (fastforce simp: is_space_def char_code_def)
  from ne [OF assms] chars show "CHR '':'' \<notin> set (?j nodes)" "?j nodes \<noteq> []"
    "\<not> is_space (hd (?j nodes))" "\<not> is_space (last (?j nodes))"
    by (blast, blast, meson hd_in_set, meson last_in_set)
  show "newline \<notin> set (?j nodes)"
    using chars [of newline] by (auto simp: is_space_def char_code_def)
qed

lemma strip_id: "s \<noteq> [] \<Longrightarrow> \<not> is_space (hd s) \<Longrightarrow> \<not> is_space (last s) \<Longrightarrow> py_strip s = s"
  using strip_pad [of "[]" "[]" s] by simp

lemma path_row_line:
  assumes "snd lp \<noteq> []"
  shows "path_row (path_line lp @ [newline]) = Inr (py_str (fst lp), join_sep ''->'' (map py_str (snd lp)))"
proof -
  let ?j = "join_sep ''->'' (map py_str (snd lp))"
  note j = join_arrow [OF assms]
  have id: "\<not> is_space (hd (py_str (fst lp)))" "\<not> is_space (last (py_str (fst lp)))" "py_str (fst lp) \<noteq> []"
    using py_str_not_space [of _ "fst lp"] by simp_all
  have "py_strip (path_line lp @ [newline]) = path_line lp"
    using strip_pad [of "[]" "[newline]" "path_line lp"] id j
    by (simp add: path_line_def is_space_def char_code_def)
  moreover have "py_split_on (path_line lp) CHR '':'' '' '' = [py_str (fst lp), ?j]"
    using j by (simp add: path_line_def split_acc_field2 split_acc_plain)
  ultimately show ?thesis
    using strip_id [OF id(3,1,2)] strip_id [OF j(2,3,4)] by (simp add: path_row_def)
qed

lemma newline_path_line: "snd lp \<noteq> [] \<Longrightarrow> newline \<notin> set (path_line lp)"
  using join_arrow(5) [of "snd lp"] by (simp add: path_line_def)

lemma path_table_run:
  assumes "rows_of_columns lib" and "\<forall>lp \<in> set lps. snd lp \<noteq> []"
    and "fs inp = Some (unlines (map path_line lps))"
  shows "draw_path_table lib inp out fs =
    (fs(out \<mapsto> str_table lib [''leafNodeId'', ''path'']
       (map (\<lambda>lp. (py_str (fst lp), join_sep ''->'' (map py_str (snd lp)))) lps)), None)"
proof -
  let ?rows = "map (\<lambda>lp. (py_str (fst lp), join_sep ''->'' (map py_str (snd lp)))) lps"
  have "map_py path_row (map (\<lambda>l. l @ [newline]) (map path_line lps)) = Inr ?rows"
    using assms(2) by (induction lps) (simp_all add: path_row_line)
  moreover have "readlines (unlines (map path_line lps)) = map (\<lambda>l. l @ [newline]) (map path_line lps)"
    using assms(2) newline_path_line by (intro readlines_unlines) auto
  moreover have "itertuples lib (map fst ?rows) (map snd ?rows) = zip (map fst ?rows) (map snd ?rows)"
    using assms(1) by (simp add: rows_of_columns_def)
  ultimately show ?thesis
    using assms(3) by (simp add: draw_path_table_def read_paths_map zip_map_fst_snd zip_map1 zip_map2 zip_same_conv_map comp_def)
qed

section \<open>Properties\<close>

text \<open>On the lines the compiler prints for leaves with non-empty paths the script succeeds:
  the table has a row for each line, in the order of the lines, with the leaf and its whole
  path as printed, and only the output file changes.\<close>

theorem path_table_rows:
  assumes "rows_of_columns lib" and "\<forall>lp \<in> set lps. snd lp \<noteq> []"
    and "fs inp = Some (unlines (map path_line lps))"
  shows "draw_path_table lib inp out fs =
    (fs(out \<mapsto> str_table lib [''leafNodeId'', ''path'']
       (map (\<lambda>lp. (py_str (fst lp), join_sep ''->'' (map py_str (snd lp)))) lps)), None)"
  using assms by (rule path_table_run)

text \<open>Once its input file is found, the script fails exactly when some line, without the
  white space around it, does not hold a colon followed by a blank (a blank line, or a leaf
  with no path), always with an index error; and then no file changes.\<close>

theorem path_table_error:
  assumes "fs inp = Some content"
  shows "(snd (draw_path_table lib inp out fs) = Some e \<longleftrightarrow>
      e = IndexError \<and> list_ex (\<lambda>line. find_sub '': '' (py_strip line) = None) (readlines content)) \<and>
    (snd (draw_path_table lib inp out fs) \<noteq> None \<longrightarrow> fst (draw_path_table lib inp out fs) = fs)"
proof (cases "map_py path_row (readlines content)")
  case (Inl e')
  then obtain line where "line \<in> set (readlines content)" "path_row line = Inl e'"
    using map_py_Inl by blast
  then have "e' = IndexError" "list_ex (\<lambda>line. find_sub '': '' (py_strip line) = None) (readlines content)"
    by (auto simp: path_row_error list_ex_iff)
  with Inl assms show ?thesis by (auto simp: draw_path_table_def read_paths_map)
next
  case (Inr rows)
  then have "\<not> list_ex (\<lambda>line. find_sub '': '' (py_strip line) = None) (readlines content)"
    using map_py_error_iff [of path_row "readlines content"] by (auto simp: list_ex_iff path_row_error)
  with Inr assms show ?thesis by (simp add: draw_path_table_def read_paths_map)
qed

definition sample_lib :: table_lib where
  "sample_lib = \<lparr>itertuples = zip, str_table = (\<lambda>header rows. unlines (map (\<lambda>(l, p). l @ ''|'' @ p) rows))\<rparr>"

theorem path_table_rows_witness:
  "unlines (map path_line [(3, [3, 1]), (4, [4])]) = ''3: 3->1'' @ [newline] @ ''4: 4'' @ [newline] \<and>
   draw_path_table sample_lib ''in'' ''out'' [''in'' \<mapsto> unlines (map path_line [(3, [3, 1]), (4, [4])])]
     = ([''in'' \<mapsto> unlines (map path_line [(3, [3, 1]), (4, [4])]),
         ''out'' \<mapsto> str_table sample_lib [''leafNodeId'', ''path''] [(''3'', ''3->1''), (''4'', ''4'')]], None)"
proof
  show "unlines (map path_line [(3, [3, 1]), (4, [4])]) = ''3: 3->1'' @ [newline] @ ''4: 4'' @ [newline]"
    by code_simp
  have "map (\<lambda>lp. (py_str (fst lp), join_sep ''->'' (map py_str (snd lp)))) [(3, [3, 1]), (4, [4])]
      = [(''3'', ''3->1''), (''4'', ''4'')]" by code_simp
  moreover have "rows_of_columns sample_lib" by (simp add: rows_of_columns_def sample_lib_def)
  ultimately show "draw_path_table sample_lib ''in'' ''out'' [''in'' \<mapsto> unlines (map path_line [(3, [3, 1]), (4, [4])])]
     = ([''in'' \<mapsto> unlines (map path_line [(3, [3, 1]), (4, [4])]),
         ''out'' \<mapsto> str_table sample_lib [''leafNodeId'', ''path''] [(''3'', ''3->1''), (''4'', ''4'')]], None)"
    using path_table_rows [of sample_lib "[(3, [3, 1]), (4, [4])]"
        "[''in'' \<mapsto> unlines (map path_line [(3, [3, 1]), (4, [4])])]" "''in''" "''out''"]
    by (simp only:) simp
qed

theorem path_table_error_witness:
  "draw_path_table sample_lib ''in'' ''out'' [''in'' \<mapsto> ''3:''] = ([''in'' \<mapsto> ''3:''], Some IndexError)"
proof -
  have "list_ex (\<lambda>line. find_sub '': '' (py_strip line) = None) (readlines ''3:'')" by code_simp
  then show ?thesis
    using path_table_error [of "[''in'' \<mapsto> ''3:'']" "''in''" "''3:''" sample_lib "''out''" IndexError]
    by (auto intro: prod_eqI)
qed

end
