(* ===== verification/PIFO_Tree.thy ===== *)
theory PIFO_Tree
  imports Packet_Id Path_Table
begin

text \<open>
  The policy of the compiler: \<open>compiler/PIFOTree.cpp\<close> with \<open>PerfInfo.cpp\<close> and the strategy objects of
  \<open>SchedStrategy.cpp\<close>, \<open>SP.cpp\<close>, \<open>WFQ.cpp\<close> and \<open>PFabric.cpp\<close>. A pointer is an address or \<open>None\<close>; the
  objects of each class are in a heap of their own, and addresses are taken from one counter. The
  record \<open>compiler\<close> holds the heaps and the global variables of all files.
\<close>

section \<open>Objects\<close>

datatype SchedStrategy = UNKNOWNTYPE | PFABRICTYPE nat | SPTYPE nat | WFQTYPE nat

record wfq =
  weightTable :: "string \<Rightarrow> double option"
  curWeightSum :: double
  virTime :: double
  realTime :: int
  lastVirFinishTime :: "string \<Rightarrow> double option"
  outQueue :: "(double \<times> double) list"

record TreeNode =
  nodeId :: int
  strategy :: "nat option"
  minPerf :: "nat option"
  actualPerf :: "nat option"
  father :: "nat option"
  children :: "nat list"

text \<open>The bandwidth of a new \<open>PerfInfo_\<close> that was not set is indeterminate: \<open>None\<close>.\<close>

record compiler =
  node_heap :: "nat \<Rightarrow> TreeNode option"
  strategy_heap :: "nat \<Rightarrow> SchedStrategy option"
  sp_heap :: "nat \<Rightarrow> (string \<Rightarrow> int option) option"
  wfq_heap :: "nat \<Rightarrow> wfq option"
  perf_heap :: "nat \<Rightarrow> double option option"
  next_addr :: nat
  next_nodeId :: int
  flowNodeMap :: "string \<Rightarrow> nat option"
  FidMap :: "string \<Rightarrow> int option"
  FlowRemainingSizeTable :: "string \<Rightarrow> 32 word option"
  curCycle :: int
  pktId :: int
  idle_cycle_cnt :: int

definition compiler_start :: compiler where
  "compiler_start =
     \<lparr>node_heap = Map.empty, strategy_heap = Map.empty, sp_heap = Map.empty, wfq_heap = Map.empty,
      perf_heap = Map.empty, next_addr = 0, next_nodeId = 0, flowNodeMap = Map.empty, FidMap = Map.empty,
      FlowRemainingSizeTable = Map.empty, curCycle = 0, pktId = 0, idle_cycle_cnt = 0\<rparr>"

text \<open>A pointer that may be null.\<close>

definition deref_ptr :: "(nat \<Rightarrow> 'b option) \<Rightarrow> nat option \<Rightarrow> 'b cpp" where
  "deref_ptr h p = (case p of None \<Rightarrow> Inl Undefined | Some a \<Rightarrow> deref h a)"

section \<open>Bandwidths\<close>

definition createPerfInfo :: "int \<Rightarrow> compiler \<Rightarrow> nat \<times> compiler" where
  "createPerfInfo bandWidth c =
     (next_addr c, c\<lparr> perf_heap := (perf_heap c)(next_addr c \<mapsto> Some (of_ll bandWidth)), next_addr := next_addr c + 1 \<rparr>)"

text \<open>An operation on an indeterminate number gives an indeterminate one.\<close>

definition ind_op :: "(double \<Rightarrow> double \<Rightarrow> double) \<Rightarrow> double option \<Rightarrow> double option \<Rightarrow> double option" where
  "ind_op f x y = Option.bind x (\<lambda>a. map_option (f a) y)"

definition sumPerfInfo :: "nat option \<Rightarrow> nat option \<Rightarrow> compiler \<Rightarrow> compiler cpp" where
  "sumPerfInfo perfInfo perfInfoSum c =
     (case perfInfoSum of
        None \<Rightarrow> Inl Aborts
      | Some s \<Rightarrow>
          (case perfInfo of
             None \<Rightarrow> Inr c
           | Some p \<Rightarrow>
               bind_cpp (deref (perf_heap c) s) (\<lambda>total. bind_cpp (deref (perf_heap c) p) (\<lambda>bw.
                 Inr (c\<lparr> perf_heap := (perf_heap c)(s \<mapsto> ind_op dadd total bw) \<rparr>)))))"

definition checkPerfInfoMeet :: "nat option \<Rightarrow> nat option \<Rightarrow> compiler \<Rightarrow> bool cpp" where
  "checkPerfInfoMeet actual minimum c =
     (case actual of
        None \<Rightarrow> Inl Aborts
      | Some a \<Rightarrow>
          (case minimum of
             None \<Rightarrow> Inr True
           | Some m \<Rightarrow>
               bind_cpp (deref (perf_heap c) m) (\<lambda>x. bind_cpp (deref (perf_heap c) a) (\<lambda>y.
                 case (x, y) of (Some b, Some b') \<Rightarrow> Inr (dle b b') | _ \<Rightarrow> Inl Undefined))))"

definition copyPerfInfo :: "nat option \<Rightarrow> nat option \<Rightarrow> compiler \<Rightarrow> compiler cpp" where
  "copyPerfInfo perfInfoSrc perfInfoDst c =
     (case (perfInfoSrc, perfInfoDst) of
        (Some s, Some d) \<Rightarrow>
          bind_cpp (deref (perf_heap c) s) (\<lambda>bw. bind_cpp (deref (perf_heap c) d) (\<lambda>_.
            Inr (c\<lparr> perf_heap := (perf_heap c)(d \<mapsto> bw) \<rparr>)))
      | _ \<Rightarrow> Inl Aborts)"

definition getMarginPerf :: "nat option \<Rightarrow> nat option \<Rightarrow> nat option \<Rightarrow> compiler \<Rightarrow> compiler cpp" where
  "getMarginPerf actual minimum margin c =
     (case (actual, margin) of
        (Some a, Some d) \<Rightarrow>
          (case minimum of
             None \<Rightarrow> copyPerfInfo actual margin c
           | Some m \<Rightarrow>
               bind_cpp (deref (perf_heap c) a) (\<lambda>x. bind_cpp (deref (perf_heap c) m) (\<lambda>y. bind_cpp (deref (perf_heap c) d) (\<lambda>_.
                 Inr (c\<lparr> perf_heap := (perf_heap c)(d \<mapsto> ind_op dsub x y) \<rparr>)))))
      | _ \<Rightarrow> Inl Aborts)"

definition dividePerfEqually :: "nat option \<Rightarrow> int \<Rightarrow> nat option \<Rightarrow> compiler \<Rightarrow> compiler cpp" where
  "dividePerfEqually perfInfo num divided c =
     (case (perfInfo, divided) of
        (Some p, Some d) \<Rightarrow>
          bind_cpp (assert_cpp (num > 0)) (\<lambda>_. bind_cpp (deref (perf_heap c) p) (\<lambda>bw. bind_cpp (deref (perf_heap c) d) (\<lambda>_.
            Inr (c\<lparr> perf_heap := (perf_heap c)(d \<mapsto> ind_op ddiv bw (Some (of_ll num))) \<rparr>))))
      | _ \<Rightarrow> Inl Aborts)"

section \<open>Strategies\<close>

definition new_strategy :: "SchedStrategy \<Rightarrow> compiler \<Rightarrow> nat \<times> compiler" where
  "new_strategy s c =
     (next_addr c, c\<lparr> strategy_heap := (strategy_heap c)(next_addr c \<mapsto> s), next_addr := next_addr c + 1 \<rparr>)"

definition SchedStrategyUnknown :: "compiler \<Rightarrow> nat \<times> compiler" where
  "SchedStrategyUnknown c = new_strategy UNKNOWNTYPE c"

text \<open>\<open>SchedStrategySP(SchedStrategySP())\<close> and the like: a new table, and a strategy that points to it.\<close>

definition StrategySP :: "compiler \<Rightarrow> nat \<times> compiler" where
  "StrategySP c =
     (next_addr c, c\<lparr> sp_heap := (sp_heap c)(next_addr c \<mapsto> Map.empty), next_addr := next_addr c + 1 \<rparr>)"

definition SchedStrategySP :: "nat \<Rightarrow> compiler \<Rightarrow> nat \<times> compiler" where
  "SchedStrategySP SP c = new_strategy (SPTYPE SP) c"

definition StrategyWFQ :: "compiler \<Rightarrow> nat \<times> compiler" where
  "StrategyWFQ c =
     (next_addr c, c\<lparr> wfq_heap := (wfq_heap c)(next_addr c \<mapsto>
        \<lparr>weightTable = Map.empty, curWeightSum = Fin 0, virTime = Fin 0, realTime = 0,
         lastVirFinishTime = Map.empty, outQueue = []\<rparr>), next_addr := next_addr c + 1 \<rparr>)"

definition SchedStrategyWFQ :: "nat \<Rightarrow> compiler \<Rightarrow> nat \<times> compiler" where
  "SchedStrategyWFQ WFQ c = new_strategy (WFQTYPE WFQ) c"

text \<open>A \<open>StrategyPFabric_\<close> holds a place-holder only.\<close>

definition StrategyPFabric :: "compiler \<Rightarrow> nat \<times> compiler" where
  "StrategyPFabric c = (next_addr c, c\<lparr> next_addr := next_addr c + 1 \<rparr>)"

definition SchedStrategyPFabric :: "nat \<Rightarrow> compiler \<Rightarrow> nat \<times> compiler" where
  "SchedStrategyPFabric pFabric c = new_strategy (PFABRICTYPE pFabric) c"

section \<open>Building the tree\<close>

definition createTreeRoot :: "nat option \<Rightarrow> nat option \<Rightarrow> nat option \<Rightarrow> compiler \<Rightarrow> nat \<times> compiler" where
  "createTreeRoot strat actual minimum c =
     (next_addr c, c\<lparr> node_heap := (node_heap c)(next_addr c \<mapsto>
        \<lparr>nodeId = next_nodeId c, strategy = strat, minPerf = minimum, actualPerf = actual, father = None, children = []\<rparr>),
      next_addr := next_addr c + 1, next_nodeId := next_nodeId c + 10 \<rparr>)"

definition createTreeNode :: "nat option \<Rightarrow> nat option \<Rightarrow> compiler \<Rightarrow> nat \<times> compiler" where
  "createTreeNode strat minimum c =
     (let p = next_addr c;
          c1 = c\<lparr> perf_heap := (perf_heap c)(p \<mapsto> None), next_addr := p + 1 \<rparr>
      in createTreeRoot strat (Some p) minimum c1)"

definition strategy_of :: "nat \<Rightarrow> compiler \<Rightarrow> SchedStrategy cpp" where
  "strategy_of n c = bind_cpp (deref (node_heap c) n) (\<lambda>nd. deref_ptr (strategy_heap c) (strategy nd))"

text \<open>What the three versions of \<open>attachFlow\<close> and of \<open>attachNode\<close> do with the strategy of the father:
  the version without a number, with a priority, and with a weight; \<open>key\<close> is the flow or the
  printed identifier of the node.\<close>

definition attach_plain :: "nat \<Rightarrow> compiler \<Rightarrow> compiler cpp" where
  "attach_plain f c =
     bind_cpp (strategy_of f c) (\<lambda>s.
       case s of UNKNOWNTYPE \<Rightarrow> Inr c | PFABRICTYPE _ \<Rightarrow> Inr c | _ \<Rightarrow> Inl Aborts)"

definition attach_priority :: "nat \<Rightarrow> string \<Rightarrow> int \<Rightarrow> compiler \<Rightarrow> compiler cpp" where
  "attach_priority f key priority c =
     bind_cpp (strategy_of f c) (\<lambda>s.
       case s of
         SPTYPE a \<Rightarrow> bind_cpp (deref (sp_heap c) a) (\<lambda>t. Inr (c\<lparr> sp_heap := (sp_heap c)(a \<mapsto> t(key \<mapsto> priority)) \<rparr>))
       | _ \<Rightarrow> Inl Aborts)"

definition attach_weight :: "nat \<Rightarrow> string \<Rightarrow> double \<Rightarrow> compiler \<Rightarrow> compiler cpp" where
  "attach_weight f key weight c =
     bind_cpp (strategy_of f c) (\<lambda>s.
       case s of
         WFQTYPE a \<Rightarrow> bind_cpp (deref (wfq_heap c) a) (\<lambda>w.
           Inr (c\<lparr> wfq_heap := (wfq_heap c)(a \<mapsto> w\<lparr> weightTable := (weightTable w)(key \<mapsto> weight) \<rparr>) \<rparr>))
       | _ \<Rightarrow> Inl Aborts)"

datatype share = No_share | Priority int | Weight double

definition attach_share :: "nat \<Rightarrow> string \<Rightarrow> share \<Rightarrow> compiler \<Rightarrow> compiler cpp" where
  "attach_share f key sh c =
     (case sh of
        No_share \<Rightarrow> attach_plain f c
      | Priority p \<Rightarrow> attach_priority f key p c
      | Weight w \<Rightarrow> attach_weight f key w c)"

definition attachFlow :: "string \<Rightarrow> nat option \<Rightarrow> share \<Rightarrow> compiler \<Rightarrow> compiler cpp" where
  "attachFlow flowId fa sh c =
     (case fa of
        None \<Rightarrow> Inr c
      | Some f \<Rightarrow> attach_share f flowId sh (c\<lparr> flowNodeMap := (flowNodeMap c)(flowId \<mapsto> f) \<rparr>))"

definition link_node :: "nat \<Rightarrow> nat \<Rightarrow> compiler \<Rightarrow> (int \<times> compiler) cpp" where
  "link_node n f c =
     bind_cpp (deref (node_heap c) n) (\<lambda>nd.
     let c1 = c\<lparr> node_heap := (node_heap c)(n \<mapsto> nd\<lparr> father := Some f \<rparr>) \<rparr>
     in bind_cpp (deref (node_heap c1) f) (\<lambda>fd.
          Inr (nodeId nd, c1\<lparr> node_heap := (node_heap c1)(f \<mapsto> fd\<lparr> children := children fd @ [n] \<rparr>) \<rparr>)))"

definition attachNode :: "nat \<Rightarrow> nat option \<Rightarrow> share \<Rightarrow> compiler \<Rightarrow> compiler cpp" where
  "attachNode n fa sh c =
     (case fa of
        None \<Rightarrow> Inr c
      | Some f \<Rightarrow> bind_cpp (link_node n f c) (\<lambda>(i, c1). attach_share f (py_str i) sh c1))"

section \<open>Walking the tree\<close>

fun collectLeafNode :: "nat \<Rightarrow> compiler \<Rightarrow> nat list \<Rightarrow> nat \<Rightarrow> nat list cpp"
  and collect_children :: "nat \<Rightarrow> compiler \<Rightarrow> nat list \<Rightarrow> nat list \<Rightarrow> nat list cpp" where
  "collectLeafNode 0 c leafNodes n = Inl No_end"
| "collectLeafNode (Suc fuel) c leafNodes n =
     bind_cpp (deref (node_heap c) n) (\<lambda>nd.
       collect_children fuel c (if children nd = [] then leafNodes @ [n] else leafNodes) (children nd))"
| "collect_children fuel c leafNodes [] = Inr leafNodes"
| "collect_children fuel c leafNodes (m # ms) =
     bind_cpp (collectLeafNode fuel c leafNodes m) (\<lambda>l. collect_children fuel c l ms)"

text \<open>The loop of \<open>upDeliverMinPerfToRoot\<close>; \<open>root_id\<close> is \<open>root->nodeId\<close>.\<close>

fun deliver :: "nat \<Rightarrow> int \<Rightarrow> nat \<Rightarrow> compiler \<Rightarrow> compiler cpp" where
  "deliver 0 root_id n c = Inl No_end"
| "deliver (Suc fuel) root_id n c =
     bind_cpp (deref (node_heap c) n) (\<lambda>nd.
       case father nd of
         None \<Rightarrow> Inr c
       | Some f \<Rightarrow>
           if nodeId nd = root_id then Inr c
           else bind_cpp (deref (node_heap c) f) (\<lambda>fd.
             let (m, c1) =
               (case minPerf fd of
                  Some m \<Rightarrow> (m, c)
                | None \<Rightarrow>
                    (next_addr c, c\<lparr> perf_heap := (perf_heap c)(next_addr c \<mapsto> None),
                       node_heap := (node_heap c)(f \<mapsto> fd\<lparr> minPerf := Some (next_addr c) \<rparr>),
                       next_addr := next_addr c + 1 \<rparr>))
             in bind_cpp (sumPerfInfo (minPerf nd) (Some m) c1) (deliver fuel root_id f)))"

definition upDeliverMinPerfToRoot :: "nat \<Rightarrow> nat \<Rightarrow> nat \<Rightarrow> compiler \<Rightarrow> compiler cpp" where
  "upDeliverMinPerfToRoot fuel leaf rt c =
     bind_cpp (deref (node_heap c) leaf) (\<lambda>nd.
       if minPerf nd = None then Inr c
       else bind_cpp (deref (node_heap c) rt) (\<lambda>rd. deliver fuel (nodeId rd) leaf c))"

fun deliver_all :: "nat \<Rightarrow> nat \<Rightarrow> nat list \<Rightarrow> compiler \<Rightarrow> compiler cpp" where
  "deliver_all fuel rt [] c = Inr c"
| "deliver_all fuel rt (n # ns) c = bind_cpp (upDeliverMinPerfToRoot fuel n rt c) (deliver_all fuel rt ns)"

fun any_pFabric :: "nat list \<Rightarrow> bool \<Rightarrow> compiler \<Rightarrow> bool cpp" where
  "any_pFabric [] b c = Inr b"
| "any_pFabric (n # ns) b c =
     bind_cpp (strategy_of n c) (\<lambda>s. any_pFabric ns (case s of PFABRICTYPE _ \<Rightarrow> True | _ \<Rightarrow> b) c)"

text \<open>\<open>checkMakeTree\<close> gives whether the requirement is met, \<open>hasPFabric\<close>, and the new state. Nodes and
  leaves are as many as addresses at most, which is the fuel.\<close>

definition checkMakeTree :: "nat \<Rightarrow> compiler \<Rightarrow> (bool \<times> bool \<times> compiler) cpp" where
  "checkMakeTree rt c =
     (let fuel = next_addr c + 1
      in bind_cpp (collectLeafNode fuel c [] rt) (\<lambda>leafNodes.
         bind_cpp (deliver_all fuel rt leafNodes c) (\<lambda>c1.
         bind_cpp (deref (node_heap c1) rt) (\<lambda>rd.
         bind_cpp (checkPerfInfoMeet (actualPerf rd) (minPerf rd) c1) (\<lambda>met.
         bind_cpp (any_pFabric leafNodes False c1) (\<lambda>hasPFabric. Inr (met, hasPFabric, c1)))))))"

text \<open>The loop of \<open>getUpPath\<close>: the nodes from a leaf to the top.\<close>

fun up_path :: "nat \<Rightarrow> compiler \<Rightarrow> nat option \<Rightarrow> int list cpp" where
  "up_path 0 c p = Inl No_end"
| "up_path (Suc fuel) c None = Inr []"
| "up_path (Suc fuel) c (Some n) =
     bind_cpp (deref (node_heap c) n) (\<lambda>nd.
     bind_cpp (up_path fuel c (father nd)) (\<lambda>ids. Inr (nodeId nd # ids)))"

text \<open>\<open>leafNodePathMap[k].emplace_back\<close> for each node of a path, in a map that is ordered by its keys.\<close>

fun extend_path :: "int \<Rightarrow> int list \<Rightarrow> (int \<times> int list) list \<Rightarrow> (int \<times> int list) list" where
  "extend_path k ids [] = [(k, ids)]"
| "extend_path k ids ((j, js) # ps) =
     (if k < j then (k, ids) # (j, js) # ps
      else if k = j then (j, js @ ids) # ps
      else (j, js) # extend_path k ids ps)"

definition getUpPath :: "nat \<Rightarrow> compiler \<Rightarrow> nat \<Rightarrow> (int \<times> int list) list \<Rightarrow> (int \<times> int list) list cpp" where
  "getUpPath fuel c leaf paths =
     bind_cpp (deref (node_heap c) leaf) (\<lambda>nd.
     bind_cpp (up_path fuel c (Some leaf)) (\<lambda>ids. Inr (extend_path (nodeId nd) ids paths)))"

fun all_paths :: "nat \<Rightarrow> compiler \<Rightarrow> nat list \<Rightarrow> (int \<times> int list) list \<Rightarrow> (int \<times> int list) list cpp" where
  "all_paths fuel c [] paths = Inr paths"
| "all_paths fuel c (n # ns) paths = bind_cpp (getUpPath fuel c n paths) (all_paths fuel c ns)"

definition printPushConvertTable :: "nat \<Rightarrow> compiler \<Rightarrow> string cpp" where
  "printPushConvertTable rt c =
     (let fuel = next_addr c + 1
      in bind_cpp (collectLeafNode fuel c [] rt) (\<lambda>leafNodes.
         bind_cpp (all_paths fuel c leafNodes []) (\<lambda>paths. Inr (unlines (map path_line paths)))))"

end
