(* ===== verification/Perf_Check.thy ===== *)
theory Perf_Check
  imports PIFO_Tree
begin

text \<open>
  The check of bandwidths in \<open>checkMakeTree\<close> on a tree of three levels.
\<close>

text \<open>The nodes: a root of capacity 25, a node below it, two leaves below that with a requirement of 10
  each. With \<open>zeros\<close> the root and the node have requirements of 0 of their own.\<close>

definition deep_policy :: "bool \<Rightarrow> (nat \<times> compiler) cpp" where
  "deep_policy zeros =
     (let (s, c0) = SchedStrategyUnknown compiler_start;
          (cap, c1) = createPerfInfo 25 c0; (z0, c2) = createPerfInfo 0 c1; (z1, c3) = createPerfInfo 0 c2;
          (r1, c4) = createPerfInfo 10 c3; (r2, c5) = createPerfInfo 10 c4;
          (rt, c6) = createTreeRoot (Some s) (Some cap) (if zeros then Some z0 else None) c5;
          (n, c7) = createTreeNode (Some s) (if zeros then Some z1 else None) c6;
          (l1, c8) = createTreeNode (Some s) (Some r1) c7; (l2, c9) = createTreeNode (Some s) (Some r2) c8
      in bind_cpp (attachNode n (Some rt) No_share c9) (\<lambda>c. bind_cpp (attachNode l1 (Some n) No_share c) (\<lambda>c.
         bind_cpp (attachNode l2 (Some n) No_share c) (\<lambda>c. Inr (rt, c)))))"

lemma of_ll_small: "of_ll 25 = Fin 25" "of_ll 10 = Fin 10" "of_ll 0 = Fin 0"
  using of_ll_exact [of 25] of_ll_exact [of 10] of_ll_exact [of 0] by simp_all

lemma small_sums: "dadd (Fin 0) (Fin 10) = Fin 10" "dadd (Fin 10) (Fin 10) = Fin 20" "dadd (Fin 10) (Fin 20) = Fin 30" 
proof -
  have "fin 10 = Fin 10" "fin 20 = Fin 20" "fin 30 = Fin 30"
    using of_ll_exact [of 10] of_ll_exact [of 20] of_ll_exact [of 30] by (simp_all add: of_ll_def)
  then show "dadd (Fin 0) (Fin 10) = Fin 10" "dadd (Fin 10) (Fin 10) = Fin 20" "dadd (Fin 10) (Fin 20) = Fin 30" by simp_all
qed

lemmas deep_policy_defs = deep_policy_def SchedStrategyUnknown_def new_strategy_def
  createPerfInfo_def createTreeRoot_def createTreeNode_def compiler_start_def attachNode_def link_node_def
  attach_share_def attach_plain_def strategy_of_def deref_ptr_def deref_def

lemma deep_policy_nodes:
  "\<exists>c. deep_policy zeros = Inr (6, c) \<and> next_addr c = 13 \<and>
     node_heap c =
       [6 \<mapsto> \<lparr>nodeId = 0, strategy = Some 0, minPerf = (if zeros then Some 2 else None), actualPerf = Some 1, father = None, children = [8]\<rparr>,
        8 \<mapsto> \<lparr>nodeId = 10, strategy = Some 0, minPerf = (if zeros then Some 3 else None), actualPerf = Some 7, father = Some 6, children = [10, 12]\<rparr>,
        10 \<mapsto> \<lparr>nodeId = 20, strategy = Some 0, minPerf = Some 4, actualPerf = Some 9, father = Some 8, children = []\<rparr>,
        12 \<mapsto> \<lparr>nodeId = 30, strategy = Some 0, minPerf = Some 5, actualPerf = Some 11, father = Some 8, children = []\<rparr>] \<and>
     strategy_heap c = [0 \<mapsto> UNKNOWNTYPE] \<and>
     perf_heap c = [1 \<mapsto> Some (Fin 25), 2 \<mapsto> Some (Fin 0), 3 \<mapsto> Some (Fin 0), 4 \<mapsto> Some (Fin 10), 5 \<mapsto> Some (Fin 10), 7 \<mapsto> None,
       9 \<mapsto> None, 11 \<mapsto> None]"
  by (simp add: deep_policy_defs of_ll_small fun_upd_twist eval_nat_numeral)


end
