(* ===== verification/WFQ.thy ===== *)
theory WFQ
  imports PIFO_Tree
begin

text \<open>
  Weighted fair queueing in the compiler: \<open>compiler/WFQ.cpp\<close> and \<open>WFQ.h\<close>. A packet gets its virtual start
  time as its priority; the virtual time moves when a packet of the imagined fluid system departs.
  \<open>outQueue\<close> is a \<open>std::priority_queue\<close> with the earliest departure on top; here it is a sorted list in
  which equal departures stay in the order they were pushed.
\<close>

section \<open>Operations\<close>

definition getNextVirTime :: "int \<Rightarrow> double \<Rightarrow> int \<Rightarrow> double \<Rightarrow> double" where
  "getNextVirTime curRealTime curVirTime nextRealTime weightSum =
     dadd curVirTime (ddiv (of_ll (nextRealTime - curRealTime)) weightSum)"

text \<open>The parameter \<open>nextVirTime\<close> is a \<open>long long\<close>, and so is the variable that takes the result.\<close>

definition getNextRealTime :: "int \<Rightarrow> double \<Rightarrow> double \<Rightarrow> double \<Rightarrow> int cpp" where
  "getNextRealTime curRealTime curVirTime nextVirTime weightSum =
     bind_cpp (to_int 64 nextVirTime) (\<lambda>v.
       to_int 64 (dadd (of_ll curRealTime) (dmul (dsub (of_ll v) curVirTime) weightSum)))"

fun out_push :: "double \<times> double \<Rightarrow> (double \<times> double) list \<Rightarrow> (double \<times> double) list" where
  "out_push x [] = [x]"
| "out_push x (y # q) = (if dless (fst x) (fst y) then x # y # q else y # out_push x q)"

text \<open>The loop of \<open>updateVirTimeTo\<close>: it ends because every turn takes a packet off the queue.\<close>

function depart :: "int \<Rightarrow> wfq \<Rightarrow> wfq cpp" where
  "depart nextRealTime w =
     (case outQueue w of
        [] \<Rightarrow> Inr w
      | (virDepartTime, flowWeight) # q \<Rightarrow>
          if dle virDepartTime (getNextVirTime (realTime w) (virTime w) nextRealTime (curWeightSum w)) then
            bind_cpp (getNextRealTime (realTime w) (virTime w) virDepartTime (curWeightSum w)) (\<lambda>t.
              depart nextRealTime (w\<lparr> outQueue := q, realTime := t, curWeightSum := dsub (curWeightSum w) flowWeight,
                virTime := virDepartTime \<rparr>))
          else Inr w)"
  by pat_completeness auto
termination by (relation "measure (\<lambda>(t, w). length (outQueue w))") auto

declare depart.simps [simp del]

definition updateVirTimeTo :: "int \<Rightarrow> double \<Rightarrow> wfq \<Rightarrow> wfq cpp" where
  "updateVirTimeTo nextRealTime newFlowWeight w =
     bind_cpp (depart nextRealTime w) (\<lambda>w1.
       let w2 = w1\<lparr> realTime := nextRealTime \<rparr>;
           w3 = w2\<lparr> curWeightSum := dadd (curWeightSum w2) newFlowWeight \<rparr>
       in Inr (w3\<lparr> virTime := getNextVirTime (realTime w3) (virTime w3) nextRealTime (curWeightSum w3) \<rparr>))"

text \<open>The common part of \<open>calWFQLeafPriority\<close> and \<open>calWFQNonLeafPriority\<close>: \<open>key\<close> is the flow of the packet
  or the identifier of the node.\<close>

definition cal_WFQ :: "string \<Rightarrow> pkthdr \<Rightarrow> wfq \<Rightarrow> (int \<times> wfq) cpp" where
  "cal_WFQ key h w =
     (case weightTable w key of
        None \<Rightarrow> Inl Aborts
      | Some weight \<Rightarrow>
          bind_cpp (tsToCycle h) (\<lambda>t.
          bind_cpp (updateVirTimeTo t weight w) (\<lambda>w1.
            let virStartTime = (case lastVirFinishTime w1 key of None \<Rightarrow> virTime w1 | Some l \<Rightarrow> dmax (virTime w1) l);
                finish = dadd virStartTime (ddiv (of_ll (uint (len h))) weight)
            in bind_cpp (to_int 32 virStartTime) (\<lambda>priority.
                 Inr (priority, w1\<lparr> lastVirFinishTime := (lastVirFinishTime w1)(key \<mapsto> finish),
                   outQueue := out_push (finish, weight) (outQueue w1) \<rparr>)))))"

definition calWFQLeafPriority :: "packet \<Rightarrow> wfq \<Rightarrow> (int \<times> wfq) cpp" where
  "calWFQLeafPriority p w = bind_cpp (getFlowId p) (\<lambda>flowId. cal_WFQ flowId (fst p) w)"

definition calWFQNonLeafPriority :: "int \<Rightarrow> pkthdr \<Rightarrow> wfq \<Rightarrow> (int \<times> wfq) cpp" where
  "calWFQNonLeafPriority i h w = cal_WFQ (py_str i) h w"

section \<open>The virtual clock\<close>

text \<open>What every call keeps: no number is \<open>NaN\<close>, the weights are positive, and nothing in the queue
  and no flow that was served finishes before the present virtual time or the start 0.\<close>

definition weight_ok :: "double \<Rightarrow> bool" where
  "weight_ok x \<longleftrightarrow> (\<exists>q. x = Fin q \<and> 0 < q \<and> is_double x)"

definition wfq_ok :: "wfq \<Rightarrow> bool" where
  "wfq_ok w \<longleftrightarrow> is_double (virTime w) \<and> dle (Fin 0) (virTime w) \<and>
     sorted_wrt (\<lambda>x y. dle (fst x) (fst y)) (outQueue w) \<and>
     (\<forall>x \<in> set (outQueue w). is_double (fst x) \<and> dle (virTime w) (fst x)) \<and>
     (\<forall>k l. lastVirFinishTime w k = Some l \<longrightarrow> is_double l \<and> dle (Fin 0) l) \<and>
     (\<forall>k x. weightTable w k = Some x \<longrightarrow> weight_ok x)"

lemma depart_ok:
  "wfq_ok w \<Longrightarrow> depart t w = Inr w' \<Longrightarrow>
   wfq_ok w' \<and> dle (virTime w) (virTime w') \<and> virTime w' \<in> insert (virTime w) (fst ` set (outQueue w)) \<and>
   lastVirFinishTime w' = lastVirFinishTime w \<and> weightTable w' = weightTable w"
proof (induction t w rule: depart.induct)
  case (1 t w)
  note ok = 1(2) and run = 1(3)
  have refl: "dle (virTime w) (virTime w)" using ok dle_not_NaN dle_refl by (auto simp: wfq_ok_def)
  show ?case
  proof (cases "outQueue w")
    case Nil
    then show ?thesis using ok run refl by (simp add: depart.simps)
  next
    case (Cons x q)
    obtain d wt where x: "x = (d, wt)" by force
    show ?thesis
    proof (cases "dle d (getNextVirTime (realTime w) (virTime w) t (curWeightSum w))")
      case True
      then obtain r where r: "getNextRealTime (realTime w) (virTime w) d (curWeightSum w) = Inr r"
        and run': "depart t (w\<lparr> outQueue := q, realTime := r, curWeightSum := dsub (curWeightSum w) wt, virTime := d \<rparr>) = Inr w'"
        using run Cons x by (auto simp: depart.simps [of t w] bind_cpp_Inr)
      let ?w = "w\<lparr> outQueue := q, realTime := r, curWeightSum := dsub (curWeightSum w) wt, virTime := d \<rparr>"
      have d: "dle (virTime w) d" "is_double d" using ok Cons x by (auto simp: wfq_ok_def)
      then have "dle (Fin 0) d" using ok dle_trans by (auto simp: wfq_ok_def)
      then have "wfq_ok ?w" using ok Cons x d by (auto simp: wfq_ok_def)
      from 1(1) [OF Cons x [symmetric] True this run'] d Cons x show ?thesis by (auto intro: dle_trans)
    next
      case False
      then show ?thesis using ok run refl Cons x by (simp add: depart.simps)
    qed
  qed
qed


text \<open>After the loop the real time is set before the virtual time is computed from it, so that the last
  step adds nothing.\<close>

lemma getNextVirTime_now: "is_double v \<Longrightarrow> s \<notin> {Fin 0, NaN} \<Longrightarrow> getNextVirTime t v t s = v"
  using of_ll_exact [of 0] by (simp add: getNextVirTime_def ddiv_0 dadd_0)

lemma updateVirTimeTo_ok:
  assumes "wfq_ok w" and "updateVirTimeTo t x w = Inr w'" and "curWeightSum w' \<notin> {Fin 0, NaN}"
  shows "wfq_ok w' \<and> dle (virTime w) (virTime w') \<and> virTime w' \<in> insert (virTime w) (fst ` set (outQueue w)) \<and>
    lastVirFinishTime w' = lastVirFinishTime w \<and> weightTable w' = weightTable w"
proof -
  obtain w1 where w1: "depart t w = Inr w1"
    and w': "w' = w1\<lparr> realTime := t, curWeightSum := dadd (curWeightSum w1) x,
      virTime := getNextVirTime t (virTime w1) t (dadd (curWeightSum w1) x) \<rparr>"
    using assms(2) by (auto simp: updateVirTimeTo_def bind_cpp_Inr Let_def)
  note d = depart_ok [OF assms(1) w1]
  have "virTime w' = virTime w1"
    using assms(3) d by (simp add: w' getNextVirTime_now wfq_ok_def)
  then show ?thesis using d by (simp add: w' wfq_ok_def)
qed

lemma out_push_set [simp]: "set (out_push x q) = insert x (set q)"
  by (induction x q rule: out_push.induct) auto

lemma out_push_sorted:
  assumes "sorted_wrt (\<lambda>x y. dle (fst x) (fst y)) q" and "fst x \<noteq> NaN" and "\<forall>y \<in> set q. fst y \<noteq> NaN"
  shows "sorted_wrt (\<lambda>x y. dle (fst x) (fst y)) (out_push x q)"
  using assms
proof (induction x q rule: out_push.induct)
  case (2 x y q)
  show ?case
  proof (cases "dless (fst x) (fst y)")
    case True
    then show ?thesis using 2 by (auto simp: dless_def intro: dle_trans)
  next
    case False
    then have "dle (fst y) (fst x)" using 2 dle_linear dle_refl by (auto simp: dless_def)
    with False 2 show ?thesis by auto
  qed
qed simp

text \<open>The virtual start time of a packet.\<close>

definition start_time :: "string \<Rightarrow> wfq \<Rightarrow> double" where
  "start_time key w = (case lastVirFinishTime w key of None \<Rightarrow> virTime w | Some l \<Rightarrow> dmax (virTime w) l)"

lemma start_time_ok:
  assumes "wfq_ok w"
  shows "is_double (start_time key w) \<and> dle (virTime w) (start_time key w) \<and> dle (Fin 0) (start_time key w) \<and>
    (\<forall>l. lastVirFinishTime w key = Some l \<longrightarrow> dle l (start_time key w))"
proof -
  have v: "is_double (virTime w)" "dle (Fin 0) (virTime w)" "virTime w \<noteq> NaN" using assms dle_not_NaN by (auto simp: wfq_ok_def)
  show ?thesis
  proof (cases "lastVirFinishTime w key")
    case None
    then show ?thesis using v dle_refl by (simp add: start_time_def)
  next
    case (Some l)
    then have l: "is_double l" "dle (Fin 0) l" using assms by (auto simp: wfq_ok_def)
    then have "l \<noteq> NaN" using dle_not_NaN by blast
    note m = dmax [OF v(3) this]
    then have "dle (Fin 0) (dmax (virTime w) l)" using dle_trans [OF v(2)] by blast
    moreover have "is_double (dmax (virTime w) l)" using m l(1) v(1) by auto
    ultimately show ?thesis using Some m by (simp add: start_time_def)
  qed
qed

lemma to_int_nonneg: "dle (Fin 0) x \<Longrightarrow> to_int k x = Inr n \<Longrightarrow> \<exists>q. x = Fin q \<and> 0 \<le> n \<and> n = \<lfloor>q\<rfloor>"
  by (cases x) (auto simp: Let_def rat_trunc_def split: if_splits)

lemma finish_ok:
  assumes "is_double x" and "x = Fin q" and "weight_ok y"
  shows "is_double (dadd x (ddiv (of_ll (uint (l :: 32 word))) y)) \<and> dle x (dadd x (ddiv (of_ll (uint l)) y))"
proof -
  obtain r where r: "y = Fin r" "0 < r" using assms(3) by (auto simp: weight_ok_def)
  have "uint l < 2 ^ 32" using uint_lt2p [of l] by simp
  then have "of_ll (uint l) = Fin (of_int (uint l))" by (intro of_ll_exact) simp
  moreover have "0 \<le> (of_int (uint l) :: rat)" unfolding of_int_0_le_iff by simp
  ultimately have "dle (Fin 0) (ddiv (of_ll (uint l)) y)" using ddiv_nonneg r by metis
  moreover have "dadd x z \<noteq> NaN" if "dle (Fin 0) z" for z using that assms(2) by (cases z) (simp_all add: fin_def Let_def)
  ultimately show ?thesis using dle_add [of x "ddiv (of_ll (uint l)) y"] assms(1,2) by simp
qed

text \<open>A weight sum that has cancelled out makes the clock \<open>NaN\<close>, which is no priority.\<close>

lemma clock_NaN:
  assumes "updateVirTimeTo t x w = Inr w'" and "to_int k (start_time key w') = Inr p"
  shows "curWeightSum w' \<notin> {Fin 0, NaN}"
proof
  assume bad: "curWeightSum w' \<in> {Fin 0, NaN}"
  have "ddiv (of_ll 0) s = NaN" if "s \<in> {Fin 0, NaN}" for s
    using that of_ll_exact [of 0] by (auto simp: signed_inf_def)
  moreover have "dadd v NaN = NaN" for v by (cases v) simp_all
  ultimately have "virTime w' = NaN"
    using assms(1) bad by (auto simp: updateVirTimeTo_def bind_cpp_Inr Let_def getNextVirTime_def)
  then have "start_time key w' = NaN" by (simp add: start_time_def dmax_def dless_def split: option.split)
  with assms(2) show False by simp
qed

lemma cal_WFQ_ok:
  assumes "wfq_ok w" and "cal_WFQ key h w = Inr (p, w')"
  shows "wfq_ok w' \<and> weightTable w' = weightTable w \<and> dle (virTime w) (virTime w') \<and>
    virTime w' \<in> insert (virTime w) (fst ` set (outQueue w)) \<and>
    (\<exists>s f. Fin s = (case lastVirFinishTime w key of None \<Rightarrow> virTime w' | Some l \<Rightarrow> dmax (virTime w') l) \<and>
      p = \<lfloor>s\<rfloor> \<and> 0 \<le> p \<and> p < 2 ^ 31 \<and> (\<forall>l. lastVirFinishTime w key = Some l \<longrightarrow> dle l (Fin s)) \<and>
      lastVirFinishTime w' = (lastVirFinishTime w)(key \<mapsto> f) \<and> dle (Fin s) f)"
proof -
  obtain x t w1 where x: "weightTable w key = Some x" and t: "tsToCycle h = Inr t" and w1: "updateVirTimeTo t x w = Inr w1"
    and p: "to_int 32 (start_time key w1) = Inr p"
    and w': "w' = w1\<lparr> lastVirFinishTime := (lastVirFinishTime w1)(key \<mapsto> dadd (start_time key w1) (ddiv (of_ll (uint (len h))) x)),
        outQueue := out_push (dadd (start_time key w1) (ddiv (of_ll (uint (len h))) x), x) (outQueue w1) \<rparr>"
    using assms(2) unfolding cal_WFQ_def start_time_def [symmetric]
    by (auto simp: bind_cpp_Inr Let_def split: option.splits)
  have u: "wfq_ok w1" "dle (virTime w) (virTime w1)" "virTime w1 \<in> insert (virTime w) (fst ` set (outQueue w))"
    "lastVirFinishTime w1 = lastVirFinishTime w" "weightTable w1 = weightTable w"
    using updateVirTimeTo_ok [OF assms(1) w1 clock_NaN [OF w1 p]] by auto
  note s = start_time_ok [OF u(1), of key]
  obtain q where q: "start_time key w1 = Fin q" "0 \<le> p" "p = \<lfloor>q\<rfloor>" using to_int_nonneg [OF _ p] s by blast
  have p31: "p < 2 ^ 31" using p q(1) by (auto simp: Let_def split: if_splits)
  have x_ok: "weight_ok x" using assms(1) x by (auto simp: wfq_ok_def)
  let ?f = "dadd (Fin q) (ddiv (of_ll (uint (len h))) x)"
  have f: "is_double ?f" "dle (Fin q) ?f" using finish_ok [OF _ q(1) x_ok, of "len h"] s q(1) by auto
  have late: "dle (virTime w1) ?f" "dle (Fin 0) ?f" using f(2) s q(1) dle_trans by metis+
  have "sorted_wrt (\<lambda>x y. dle (fst x) (fst y)) (out_push (?f, x) (outQueue w1))"
    using u(1) dle_not_NaN f(2) by (intro out_push_sorted) (auto simp: wfq_ok_def)
  then have "wfq_ok w'" using u(1) f(1) late by (simp add: w' wfq_ok_def q(1))
  moreover have "weightTable w' = weightTable w" "dle (virTime w) (virTime w')"
    "virTime w' \<in> insert (virTime w) (fst ` set (outQueue w))" using u(2,3) by (simp_all add: w' u(5))
  moreover have "lastVirFinishTime w' = (lastVirFinishTime w)(key \<mapsto> ?f)" by (simp add: w' u(4) q(1))
  moreover have "Fin q = (case lastVirFinishTime w key of None \<Rightarrow> virTime w' | Some l \<Rightarrow> dmax (virTime w') l)"
    using q(1) by (simp add: start_time_def u(4) w' split: option.splits)
  moreover have "\<forall>l. lastVirFinishTime w key = Some l \<longrightarrow> dle l (Fin q)" using s q(1) by (simp add: u(4))
  ultimately show ?thesis using q(2,3) p31 f(2) by blast
qed


section \<open>Properties\<close>

text \<open>C16. Weighted fair queueing in the compiler: when a packet has been given its priority, the virtual
  clock has not gone back, the priority is the virtual start time of the packet, rounded down,
  not before the clock nor before the last finish of its flow, and finishes follow starts. But
  the clock only ever takes the value it had or the departure time of a packet that was waiting:
  it does not move with the real time, whatever the time stamps say. Without packets under way
  the priority is always found, unless the sum of the weights has cancelled out.\<close>

theorem wfq_virtual_clock:
  assumes "wfq_ok w" and "weightTable w key = Some x" and "stamp_ok h"
  shows "(\<forall>p w'. cal_WFQ key h w = Inr (p, w') \<longrightarrow>
      wfq_ok w' \<and> dle (virTime w) (virTime w') \<and> virTime w' \<in> insert (virTime w) (fst ` set (outQueue w)) \<and>
      (\<exists>s f. Fin s = (case lastVirFinishTime w key of None \<Rightarrow> virTime w' | Some l \<Rightarrow> dmax (virTime w') l) \<and>
        p = \<lfloor>s\<rfloor> \<and> 0 \<le> p \<and> p < 2 ^ 31 \<and> (\<forall>l. lastVirFinishTime w key = Some l \<longrightarrow> dle l (Fin s)) \<and>
        lastVirFinishTime w' = (lastVirFinishTime w)(key \<mapsto> f) \<and> dle (Fin s) f)) \<and>
    (\<forall>s. outQueue w = [] \<and> dadd (curWeightSum w) x \<notin> {Fin 0, NaN} \<and> start_time key w = Fin s \<and> s < 2 ^ 31 \<longrightarrow>
      (\<exists>w'. cal_WFQ key h w = Inr (\<lfloor>s\<rfloor>, w')))"
proof (intro conjI allI impI)
  fix p w' assume "cal_WFQ key h w = Inr (p, w')"
  from cal_WFQ_ok [OF assms(1) this]
  show "wfq_ok w'" "dle (virTime w) (virTime w')" "virTime w' \<in> insert (virTime w) (fst ` set (outQueue w))"
    "\<exists>s f. Fin s = (case lastVirFinishTime w key of None \<Rightarrow> virTime w' | Some l \<Rightarrow> dmax (virTime w') l) \<and>
        p = \<lfloor>s\<rfloor> \<and> 0 \<le> p \<and> p < 2 ^ 31 \<and> (\<forall>l. lastVirFinishTime w key = Some l \<longrightarrow> dle l (Fin s)) \<and>
        lastVirFinishTime w' = (lastVirFinishTime w)(key \<mapsto> f) \<and> dle (Fin s) f"
    by blast+
next
  fix s assume s: "outQueue w = [] \<and> dadd (curWeightSum w) x \<notin> {Fin 0, NaN} \<and> start_time key w = Fin s \<and> s < 2 ^ 31"
  obtain t where t: "tsToCycle h = Inr t" using tsToCycle_returns [OF assms(3)] by blast
  let ?w = "w\<lparr> realTime := t, curWeightSum := dadd (curWeightSum w) x \<rparr>"
  have "updateVirTimeTo t x w = Inr ?w"
    using s assms(1) by (simp add: updateVirTimeTo_def depart.simps getNextVirTime_now wfq_ok_def)
  moreover have "start_time key ?w = Fin s" using s by (auto simp: start_time_def split: option.splits)
  moreover have "0 \<le> s" using start_time_ok [OF assms(1), of key] s by simp
  then have "to_int 32 (Fin s) = Inr \<lfloor>s\<rfloor>" using s by (simp add: rat_trunc_def floor_less_iff)
  ultimately show "\<exists>w'. cal_WFQ key h w = Inr (\<lfloor>s\<rfloor>, w')"
    unfolding cal_WFQ_def start_time_def [symmetric] using assms(2) t by (simp add: Let_def)
qed

text \<open>A fresh scheduler with one flow of weight 1: its first packet starts at 0, at any time.\<close>

definition one_flow :: wfq where
  "one_flow = \<lparr>weightTable = [''f'' \<mapsto> Fin 1], curWeightSum = Fin 0, virTime = Fin 0, realTime = 0,
     lastVirFinishTime = Map.empty, outQueue = []\<rparr>"

theorem wfq_virtual_clock_witness:
  "wfq_ok one_flow \<and> (\<exists>w'. cal_WFQ ''f'' \<lparr>tv_sec = 1700000000, tv_usec = 5, len = 1500\<rparr> one_flow = Inr (0, w'))"
proof -
  have one: "fin 1 = Fin 1" using of_ll_exact [of 1] by (simp add: of_ll_def)
  then have "is_double (Fin 1)" by (metis is_double_fin)
  then have ok: "wfq_ok one_flow" by (simp add: wfq_ok_def one_flow_def weight_ok_def double_limit)
  have "weightTable one_flow ''f'' = Some (Fin 1)" by (simp add: one_flow_def)
  moreover have "stamp_ok \<lparr>tv_sec = 1700000000, tv_usec = 5, len = 1500\<rparr>" by (simp add: stamp_ok_def)
  moreover have "outQueue one_flow = []" "dadd (curWeightSum one_flow) (Fin 1) \<notin> {Fin 0, NaN}" "start_time ''f'' one_flow = Fin 0"
    using one by (simp_all add: one_flow_def start_time_def)
  ultimately have "\<exists>w'. cal_WFQ ''f'' \<lparr>tv_sec = 1700000000, tv_usec = 5, len = 1500\<rparr> one_flow = Inr (\<lfloor>0 :: rat\<rfloor>, w')"
    using wfq_virtual_clock [OF ok, of "''f''" "Fin 1" "\<lparr>tv_sec = 1700000000, tv_usec = 5, len = 1500\<rparr>"]
    by (metis (no_types, lifting) zero_less_numeral zero_less_power)
  with ok show ?thesis by simp
qed

end
