(* ===== verification/Draw.thy ===== *)
theory Draw
  imports File_Names Sim_Log
begin

text \<open>
  \<open>compiler/draw.py\<close>: the arrival and departure order of the packets of every flow. The
  script reads the map from packets to flows and the log of a run, groups the recorded cycles
  by flow, draws one figure with all flows, and writes a second figure and a text file in
  which the flows are in order and named after their tenant.

  \<open>matplotlib\<close> is a parameter: \<open>scatter\<close> accepts two series or raises, a figure is the list of
  the calls that depend on the data, and \<open>savefig\<close> turns it into the contents of a file.
  Calls with constant arguments (labels, legend, layout) are left out.
\<close>

section \<open>Reading the two files\<close>

definition colon_int :: "string \<Rightarrow> int py" where
  "colon_int part = bind_py (py_index (py_split_on part CHR '':'' []) 1) py_int"

definition line_parts :: "string \<Rightarrow> string list" where
  "line_parts line = py_split_on (py_strip line) CHR '','' '' ''"

fun read_pfmap :: "(int \<times> int) list \<Rightarrow> string list \<Rightarrow> (int \<times> int) list py" where
  "read_pfmap pfmap [] = Inr pfmap"
| "read_pfmap pfmap (line # lines) =
     (let parts = line_parts line
      in bind_py (bind_py (py_index parts 0) colon_int) (\<lambda>meta_value.
         bind_py (bind_py (py_index parts 1) colon_int) (\<lambda>flow_value.
         read_pfmap (dict_set pfmap meta_value flow_value) lines)))"

text \<open>The two dictionaries \<open>draw_fig\<close> fills: the last cycle of each packet, and the cycle at
  which it was pushed.\<close>

record cycles =
  diff_cyc :: "(int \<times> int) list"
  push_cyc :: "(int \<times> int) list"

definition record_cycle :: "cycles \<Rightarrow> int \<Rightarrow> string \<Rightarrow> int \<Rightarrow> cycles py" where
  "record_cycle st meta_value cyc_type cyc_value =
     (if cyc_type = ''push_cyc'' then
        Inr (st\<lparr> diff_cyc := dict_set (diff_cyc st) meta_value cyc_value,
                 push_cyc := dict_set (push_cyc st) meta_value cyc_value \<rparr>)
      else if cyc_type = ''pop_cyc'' then
        Inr (st\<lparr> diff_cyc := dict_set (diff_cyc st) meta_value cyc_value \<rparr>)
      else Inl (AssertionError []))"

text \<open>\<open>cyc_type, cyc_value = parts[1].split(':')\<close> raises unless there are two fields.\<close>

definition unpack2 :: "string list \<Rightarrow> (string \<times> string) py" where
  "unpack2 xs = (case xs of [a, b] \<Rightarrow> Inr (a, b) | _ \<Rightarrow> Inl ValueError)"

definition read_cycle_line :: "cycles \<Rightarrow> string \<Rightarrow> cycles py" where
  "read_cycle_line st line =
     (let parts = line_parts line
      in bind_py (bind_py (py_index parts 0) colon_int) (\<lambda>meta_value.
         bind_py (bind_py (py_index parts 1) (\<lambda>p. unpack2 (py_split_on p CHR '':'' []))) (\<lambda>(cyc_type, text_value).
         bind_py (py_int text_value) (\<lambda>cyc_value.
         record_cycle st meta_value cyc_type cyc_value))))"

fun read_cycles :: "cycles \<Rightarrow> string list \<Rightarrow> cycles py" where
  "read_cycles st [] = Inr st"
| "read_cycles st (line # lines) = bind_py (read_cycle_line st line) (\<lambda>st'. read_cycles st' lines)"

section \<open>Grouping by flow\<close>

text \<open>\<open>pfmap.get(meta_value)\<close> is \<open>None\<close> for a packet that is not in the map.\<close>

type_synonym flow_lists = "(int option \<times> int list) list"

definition add_to_flow :: "(int \<times> int) list \<Rightarrow> flow_lists \<Rightarrow> int \<times> int \<Rightarrow> flow_lists" where
  "add_to_flow pfmap fl item =
     (case item of (meta_value, v) \<Rightarrow>
        let flow_value = dict_get pfmap meta_value;
            fl' = (if dict_get fl flow_value = None then dict_set fl flow_value [] else fl)
        in case dict_get fl' flow_value of
             None \<Rightarrow> fl'
           | Some l \<Rightarrow> dict_set fl' flow_value (l @ [v]))"

definition flow_cyc_lists :: "(int \<times> int) list \<Rightarrow> (int \<times> int) list \<Rightarrow> flow_lists" where
  "flow_cyc_lists pfmap d = foldl (add_to_flow pfmap) [] d"

section \<open>The figures and the raw data\<close>

datatype plot_call =
    Scatter "int list" "int list" "string option" "string option" string
  | Annotate string

record matplotlib =
  scatter :: "int list \<Rightarrow> int list \<Rightarrow> py_error option"
  savefig :: "plot_call list \<Rightarrow> string"

definition flow_color_dict :: "(int \<times> string) list" where
  "flow_color_dict =
     [(0, ''#11009E''), (1, ''#2D31FA''), (2, ''#5D8BF4''), (3, ''#B70404''), (4, ''#F94C10''), (5, ''#FF9B50'')]"

definition show_flow :: "int option \<Rightarrow> string" where
  "show_flow f = (case f of None \<Rightarrow> ''None'' | Some n \<Rightarrow> py_str n)"

definition show_list :: "int list \<Rightarrow> string" where
  "show_list l = ''['' @ join_sep '', '' (map py_str l) @ '']''"

text \<open>The first figure: one series for each flow that has both lists.\<close>

fun overview_calls :: "matplotlib \<Rightarrow> flow_lists \<Rightarrow> flow_lists \<Rightarrow> plot_call list \<Rightarrow> int option list \<Rightarrow>
    plot_call list py" where
  "overview_calls plt diffs pushes calls [] = Inr calls"
| "overview_calls plt diffs pushes calls (f # fs) =
     (case (dict_get pushes f, dict_get diffs f) of
        (Some p, Some d) \<Rightarrow>
          (case scatter plt p d of
             Some e \<Rightarrow> Inl e
           | None \<Rightarrow> overview_calls plt diffs pushes
               (calls @ [Scatter p d None None (''Flow '' @ show_flow f)]) fs)
      | _ \<Rightarrow> overview_calls plt diffs pushes calls fs)"

text \<open>\<open>sorted\<close> compares \<open>None\<close> with an integer as soon as there are two keys.\<close>

definition sorted_keys :: "int option list \<Rightarrow> int option list py" where
  "sorted_keys ks =
     (if length ks \<le> 1 then Inr ks
      else if None \<in> set ks then Inl TypeError
      else Inr (map Some (sort (map the ks))))"

definition tenant_label :: "int \<Rightarrow> string" where
  "tenant_label f = (if f < 3 then ''Tenant A Flow '' else ''Tenant B Flow '') @ py_str f"

definition raw_block :: "int \<Rightarrow> int list \<Rightarrow> int list \<Rightarrow> string" where
  "raw_block f p d =
     unlines [tenant_label f, ''Arrival Order'', show_list p, ''Departure Order'', show_list d, []]"

text \<open>The loop that draws the second figure and writes the raw data: the colour is looked up
  before anything of the flow is written.\<close>

fun flow_loop :: "matplotlib \<Rightarrow> flow_lists \<Rightarrow> flow_lists \<Rightarrow> plot_call list \<Rightarrow> string \<Rightarrow> int option list \<Rightarrow>
    (plot_call list \<times> string) \<times> py_error option" where
  "flow_loop plt diffs pushes calls out [] = ((calls, out), None)"
| "flow_loop plt diffs pushes calls out (f # fs) =
     (case (dict_get pushes f, dict_get diffs f) of
        (Some p, Some d) \<Rightarrow>
          (case f of
             None \<Rightarrow> ((calls, out), Some TypeError)
           | Some n \<Rightarrow>
               (case dict_get flow_color_dict n of
                  None \<Rightarrow> ((calls, out), Some KeyError)
                | Some c \<Rightarrow>
                    (case scatter plt p d of
                       Some e \<Rightarrow> ((calls, out), Some e)
                     | None \<Rightarrow> flow_loop plt diffs pushes
                         (calls @ [Scatter p d (Some c) (Some (if n < 3 then ''^'' else ''s'')) (tenant_label n)])
                         (out @ raw_block n p d) fs)))
      | _ \<Rightarrow> flow_loop plt diffs pushes calls out fs)"

definition annotations :: "string \<Rightarrow> plot_call list" where
  "annotations fig_file_path =
     (if fig_file_path = ''../compiler_test/test2_2.ref.png'' then [Annotate ''inflection point''] else [])"

definition draw_fig :: "matplotlib \<Rightarrow> (int \<times> int) list \<Rightarrow>
    string \<Rightarrow> string \<Rightarrow> string \<Rightarrow> files \<Rightarrow> run" where
  "draw_fig plt pfmap output_file_path fig_file_path rawdata_file_path fs =
     (case bind_py (read_file fs output_file_path) (\<lambda>content.
             read_cycles \<lparr>diff_cyc = [], push_cyc = []\<rparr> (readlines content)) of
        Inl e \<Rightarrow> (fs, Some e)
      | Inr st \<Rightarrow>
          (let diffs = flow_cyc_lists pfmap (diff_cyc st);
               pushes = flow_cyc_lists pfmap (push_cyc st)
           in case overview_calls plt diffs pushes [] (dict_keys diffs) of
                Inl e \<Rightarrow> (fs, Some e)
              | Inr calls0 \<Rightarrow>
                  (let fs1 = fs(fig_file_path \<mapsto> savefig plt calls0)
                   in case sorted_keys (dict_keys diffs) of
                        Inl e \<Rightarrow> (fs1, Some e)
                      | Inr ks \<Rightarrow>
                          (case flow_loop plt diffs pushes [] [] ks of
                             ((calls, out), Some e) \<Rightarrow> (fs1(rawdata_file_path \<mapsto> out), Some e)
                           | ((calls, out), None) \<Rightarrow>
                               (fs1(rawdata_file_path \<mapsto> out,
                                    fig_file_path @ ''.start.png'' \<mapsto> savefig plt (calls @ annotations fig_file_path)),
                                None)))))"

definition draw :: "matplotlib \<Rightarrow> string \<Rightarrow> files \<Rightarrow> run" where
  "draw plt input_file_path fs =
     (case bind_py (get_pfmap_file_name input_file_path) (\<lambda>pfmap_file_path.
           bind_py (get_refoutput_file_name input_file_path) (\<lambda>refoutput_file_path.
           bind_py (get_fig_file_name input_file_path) (\<lambda>fig_file_path.
           bind_py (get_reffig_file_name input_file_path) (\<lambda>reffig_file_path.
           bind_py (get_rawdata_file_name input_file_path) (\<lambda>rawdata_file_path.
           bind_py (read_file fs pfmap_file_path) (\<lambda>content.
           bind_py (read_pfmap [] (readlines content)) (\<lambda>pfmap.
           Inr (pfmap, refoutput_file_path, reffig_file_path, rawdata_file_path)))))))) of
        Inl e \<Rightarrow> (fs, Some e)
      | Inr (pfmap, refoutput, reffig, rawdata) \<Rightarrow> draw_fig plt pfmap refoutput reffig rawdata fs)"

section \<open>What grouping computes\<close>

text \<open>The packets of a flow, in the order of the dictionary.\<close>

definition flow_packets :: "(int \<times> int) list \<Rightarrow> (int \<times> int) list \<Rightarrow> int option \<Rightarrow> (int \<times> int) list" where
  "flow_packets pfmap d f = filter (\<lambda>(m, v). dict_get pfmap m = f) d"

lemma add_to_flow_get:
  "dict_get (add_to_flow pfmap fl (m, v)) f =
     (if dict_get pfmap m = f then Some ((case dict_get fl f of None \<Rightarrow> [] | Some l \<Rightarrow> l) @ [v])
      else dict_get fl f)"
  by (auto simp: add_to_flow_def Let_def dict_get_set split: option.splits)

lemma add_to_flow_keys:
  "dict_keys (add_to_flow pfmap fl (m, v)) =
     (if dict_get pfmap m \<in> set (dict_keys fl) then dict_keys fl else dict_keys fl @ [dict_get pfmap m])"
  using dict_get_keys [of fl "dict_get pfmap m"]
  by (auto simp: add_to_flow_def Let_def dict_get_set dict_keys_set split: option.splits)

lemma flow_cyc_lists_get:
  "dict_get (flow_cyc_lists pfmap d) f =
     (if flow_packets pfmap d f = [] then None else Some (map snd (flow_packets pfmap d f)))"
proof (induction d rule: rev_induct)
  case Nil
  show ?case by (simp add: flow_cyc_lists_def flow_packets_def dict_get_def)
next
  case (snoc item d)
  obtain m v where item: "item = (m, v)" by (cases item)
  have "flow_cyc_lists pfmap (d @ [item]) = add_to_flow pfmap (flow_cyc_lists pfmap d) (m, v)"
    by (simp add: flow_cyc_lists_def item)
  then show ?case
    using snoc by (auto simp: add_to_flow_get item flow_packets_def)
qed

lemma flow_cyc_lists_keys:
  "dict_keys (flow_cyc_lists pfmap d) = firsts (map (\<lambda>(m, v). dict_get pfmap m) d)"
proof (induction d rule: rev_induct)
  case Nil
  show ?case by (simp add: flow_cyc_lists_def dict_keys_def)
next
  case (snoc item d)
  obtain m v where item: "item = (m, v)" by (cases item)
  have "flow_cyc_lists pfmap (d @ [item]) = add_to_flow pfmap (flow_cyc_lists pfmap d) (m, v)"
    by (simp add: flow_cyc_lists_def item)
  then show ?case
    using snoc by (simp add: add_to_flow_keys item firsts_snoc)
qed

lemma flow_cyc_lists_key_mem:
  "f \<in> set (dict_keys (flow_cyc_lists pfmap d)) \<longleftrightarrow> flow_packets pfmap d f \<noteq> []"
  by (auto simp: flow_cyc_lists_keys flow_packets_def filter_empty_conv)

section \<open>Reading a log\<close>

fun log_step :: "cycles \<Rightarrow> log_event \<Rightarrow> cycles" where
  "log_step st (Push_cyc m c) =
     st\<lparr> diff_cyc := dict_set (diff_cyc st) m c, push_cyc := dict_set (push_cyc st) m c \<rparr>"
| "log_step st (Pop_cyc m c) = st\<lparr> diff_cyc := dict_set (diff_cyc st) m c \<rparr>"

lemma event_line_parts:
  "line_parts (event_line (Push_cyc m c) @ [newline]) = [''meta:'' @ py_str m, ''push_cyc:'' @ py_str c]"
  "line_parts (event_line (Pop_cyc m c) @ [newline]) = [''meta:'' @ py_str m, ''pop_cyc:'' @ py_str c]"
proof -
  have sp: "\<forall>x \<in> set [newline]. is_space x" by (simp add: is_space_def char_code_def)
  have m: "\<not> is_space CHR ''m''" by (simp add: is_space_def char_code_def)
  have last: "\<not> is_space (last (py_str c))" using py_str_not_space [of _ c] by simp
  have strip: "py_strip (event_line e @ [newline]) = event_line e"
    if "e = Push_cyc m c \<or> e = Pop_cyc m c" for e
    using that strip_pad [of "[]" "[newline]" "event_line e"] sp m last
    by (auto simp: write_push_line_def write_pop_line_def)
  show "line_parts (event_line (Push_cyc m c) @ [newline]) = [''meta:'' @ py_str m, ''push_cyc:'' @ py_str c]"
    "line_parts (event_line (Pop_cyc m c) @ [newline]) = [''meta:'' @ py_str m, ''pop_cyc:'' @ py_str c]"
    unfolding line_parts_def by (simp_all only: strip simp_thms)
      (simp_all add: write_push_line_def write_pop_line_def split_acc_field2 split_acc_plain)
qed

lemma colon_int_str: "CHR '':'' \<notin> set u \<Longrightarrow> colon_int (u @ CHR '':'' # py_str n) = Inr n"
  using split_acc_field1 [of "CHR '':''" u "[]" "py_str n"]
  by (simp add: colon_int_def split_acc_plain py_int_str)

lemma read_cycle_event: "read_cycle_line st (event_line e @ [newline]) = Inr (log_step st e)"
proof -
  have "colon_int (''meta:'' @ py_str m) = Inr m" for m
    using colon_int_str [of "''meta''" m] by simp
  moreover have "py_split_on (''push_cyc:'' @ py_str c) CHR '':'' [] = [''push_cyc'', py_str c]"
    "py_split_on (''pop_cyc:'' @ py_str c) CHR '':'' [] = [''pop_cyc'', py_str c]" for c
    by (simp_all add: split_acc_plain)
  ultimately show ?thesis
    unfolding read_cycle_line_def
    by (cases e) (simp_all add: event_line_parts unpack2_def py_int_str record_cycle_def
        del: append_Cons event_line.simps)
qed

lemma read_cycles_log:
  "read_cycles st (readlines (unlines (map event_line es))) = Inr (foldl log_step st es)"
proof -
  have "read_cycles st (map (\<lambda>l. l @ [newline]) (map event_line es)) = Inr (foldl log_step st es)"
    by (induction es arbitrary: st) (simp_all add: read_cycle_event del: event_line.simps)
  then show ?thesis by (simp add: readlines_unlines newline_event_line)
qed

definition empty_cycles :: cycles where
  "empty_cycles = \<lparr>diff_cyc = [], push_cyc = []\<rparr>"

lemma log_cycles:
  "diff_cyc (foldl log_step empty_cycles es) = foldl (\<lambda>d (k, v). dict_set d k v) [] (map event_pair es)"
  "push_cyc (foldl log_step empty_cycles es) = foldl (\<lambda>d (k, v). dict_set d k v) [] (push_pairs es)"
proof (induction es rule: rev_induct)
  case Nil
  show "diff_cyc (foldl log_step empty_cycles []) = foldl (\<lambda>d (k, v). dict_set d k v) [] (map event_pair [])"
    "push_cyc (foldl log_step empty_cycles []) = foldl (\<lambda>d (k, v). dict_set d k v) [] (push_pairs [])"
    by (simp_all add: empty_cycles_def push_pairs_def)
next
  case (snoc e es)
  then show "diff_cyc (foldl log_step empty_cycles (es @ [e]))
      = foldl (\<lambda>d (k, v). dict_set d k v) [] (map event_pair (es @ [e]))"
    "push_cyc (foldl log_step empty_cycles (es @ [e]))
      = foldl (\<lambda>d (k, v). dict_set d k v) [] (push_pairs (es @ [e]))"
    by (cases e; simp add: push_pairs_def)+
qed

lemma flow_packets_dict:
  assumes "distinct (dict_keys d)"
  shows "map snd (flow_packets pfmap d f)
    = map (\<lambda>m. the (dict_get d m)) (filter (\<lambda>m. dict_get pfmap m = f) (dict_keys d))"
proof -
  have "snd x = the (dict_get d (fst x))" if "x \<in> set (flow_packets pfmap d f)" for x
    using that dict_items_get [OF assms, of "fst x" "snd x"] by (auto simp: flow_packets_def)
  then have "map snd (flow_packets pfmap d f)
      = map (\<lambda>m. the (dict_get d m)) (map fst (flow_packets pfmap d f))" by simp
  also have "map fst (flow_packets pfmap d f) = filter (\<lambda>m. dict_get pfmap m = f) (dict_keys d)"
    by (simp add: flow_packets_def dict_keys_def filter_map comp_def case_prod_beta')
  finally show ?thesis .
qed

text \<open>The packets of flow \<open>f\<close> in a log, and their recorded cycles.\<close>

definition flow_arrivals :: "(int \<Rightarrow> int option) \<Rightarrow> log_event list \<Rightarrow> int option \<Rightarrow> int list" where
  "flow_arrivals flow_of es f = filter (\<lambda>m. flow_of m = f) (arrivals es)"

definition pushed :: "(int \<Rightarrow> int option) \<Rightarrow> log_event list \<Rightarrow> int option \<Rightarrow> int list" where
  "pushed flow_of es f = map (push_time es) (flow_arrivals flow_of es f)"

definition departed :: "(int \<Rightarrow> int option) \<Rightarrow> log_event list \<Rightarrow> int option \<Rightarrow> int list" where
  "departed flow_of es f = map (last_time es) (flow_arrivals flow_of es f)"

lemma log_flow_lists:
  assumes "log_proper {} es"
  shows "dict_get (flow_cyc_lists pfmap (push_cyc (foldl log_step empty_cycles es))) f =
      (if flow_arrivals (dict_get pfmap) es f = [] then None else Some (map (push_time es) (flow_arrivals (dict_get pfmap) es f)))"
    and "dict_get (flow_cyc_lists pfmap (diff_cyc (foldl log_step empty_cycles es))) f =
      (if flow_arrivals (dict_get pfmap) es f = [] then None else Some (map (last_time es) (flow_arrivals (dict_get pfmap) es f)))"
    and "dict_keys (flow_cyc_lists pfmap (diff_cyc (foldl log_step empty_cycles es)))
      = firsts (map (dict_get pfmap) (arrivals es))"
proof -
  let ?st = "foldl log_step empty_cycles es"
  have keys: "dict_keys (push_cyc ?st) = arrivals es" "dict_keys (diff_cyc ?st) = arrivals es"
    using proper_firsts [OF assms]
    by (simp_all add: log_cycles alist_dict.keys_fold arrivals_def)
  have dist: "distinct (arrivals es)" by (simp add: arrivals_def)
  have "map snd (flow_packets pfmap (push_cyc ?st) f) = map (push_time es) (flow_arrivals (dict_get pfmap) es f)"
    using flow_packets_dict [of "push_cyc ?st"] keys dist
    by (simp add: log_cycles alist_dict.get_fold push_time_def flow_arrivals_def)
  moreover have "map snd (flow_packets pfmap (diff_cyc ?st) f) = map (last_time es) (flow_arrivals (dict_get pfmap) es f)"
    using flow_packets_dict [of "diff_cyc ?st"] keys dist
    by (simp add: log_cycles alist_dict.get_fold last_time_def flow_arrivals_def)
  ultimately show "dict_get (flow_cyc_lists pfmap (push_cyc ?st)) f =
      (if flow_arrivals (dict_get pfmap) es f = [] then None else Some (map (push_time es) (flow_arrivals (dict_get pfmap) es f)))"
    "dict_get (flow_cyc_lists pfmap (diff_cyc ?st)) f =
      (if flow_arrivals (dict_get pfmap) es f = [] then None else Some (map (last_time es) (flow_arrivals (dict_get pfmap) es f)))"
    unfolding flow_cyc_lists_get by (metis list.map_disc_iff)+
  have "map (\<lambda>(m, v). dict_get pfmap m) (diff_cyc ?st) = map (dict_get pfmap) (dict_keys (diff_cyc ?st))"
    by (simp add: dict_keys_def case_prod_beta')
  then show "dict_keys (flow_cyc_lists pfmap (diff_cyc ?st)) = firsts (map (dict_get pfmap) (arrivals es))"
    by (simp only: flow_cyc_lists_keys keys)
qed

section \<open>The packet-to-flow map\<close>

text \<open>The line \<open>printPFMapHandler\<close> of \<open>compiler/SchedStrategy.cpp\<close> prints for a packet, without
  its newline, and the dictionary the script reads from such lines.\<close>

definition pfmap_line :: "int \<times> int \<Rightarrow> string" where
  "pfmap_line kv = ''meta:'' @ py_str (fst kv) @ '', flow:'' @ py_str (snd kv)"

definition pfmap_of :: "(int \<times> int) list \<Rightarrow> (int \<times> int) list" where
  "pfmap_of kvs = foldl (\<lambda>d (k, v). dict_set d k v) [] kvs"

lemma pfmap_line_parts:
  "line_parts (pfmap_line (m, f) @ [newline]) = [''meta:'' @ py_str m, ''flow:'' @ py_str f]"
proof -
  have "py_strip (pfmap_line (m, f) @ [newline]) = pfmap_line (m, f)"
    using strip_pad [of "[]" "[newline]" "pfmap_line (m, f)"] py_str_not_space [of _ f]
    by (simp add: pfmap_line_def is_space_def char_code_def)
  then show ?thesis
    unfolding line_parts_def by (simp add: pfmap_line_def split_acc_field2 split_acc_plain)
qed

lemma newline_pfmap_line: "newline \<notin> set (pfmap_line kv)"
  by (simp add: pfmap_line_def)

lemma read_pfmap_lines: "read_pfmap [] (readlines (unlines (map pfmap_line kvs))) = Inr (pfmap_of kvs)"
proof -
  have step: "read_pfmap d ((pfmap_line (m, f) @ [newline]) # lines) = read_pfmap (dict_set d m f) lines" for d m f lines
    using colon_int_str [of "''meta''" m] colon_int_str [of "''flow''" f]
    by (simp add: pfmap_line_parts)
  have "read_pfmap d (map (\<lambda>l. l @ [newline]) (map pfmap_line kvs)) = Inr (foldl (\<lambda>d (k, v). dict_set d k v) d kvs)" for d
    by (induction kvs arbitrary: d) (auto simp: step simp del: read_pfmap.simps(2))
  then show ?thesis by (simp add: readlines_unlines newline_pfmap_line pfmap_of_def)
qed

section \<open>The two loops on aligned series\<close>

text \<open>What \<open>matplotlib\<close> documents of \<open>scatter\<close>: series of equal length are accepted.\<close>

definition accepts_aligned :: "matplotlib \<Rightarrow> bool" where
  "accepts_aligned plt \<longleftrightarrow> (\<forall>p d. length p = length d \<longrightarrow> scatter plt p d = None)"

definition series_call :: "(int option \<Rightarrow> int list) \<Rightarrow> (int option \<Rightarrow> int list) \<Rightarrow> int option \<Rightarrow> plot_call" where
  "series_call p d f = Scatter (p f) (d f) None None (''Flow '' @ show_flow f)"

definition tenant_call :: "(int option \<Rightarrow> int list) \<Rightarrow> (int option \<Rightarrow> int list) \<Rightarrow> int \<Rightarrow> plot_call" where
  "tenant_call p d n = Scatter (p (Some n)) (d (Some n)) (dict_get flow_color_dict n)
     (Some (if n < 3 then ''^'' else ''s'')) (tenant_label n)"

definition tenant_blocks :: "(int option \<Rightarrow> int list) \<Rightarrow> (int option \<Rightarrow> int list) \<Rightarrow> int list \<Rightarrow> string" where
  "tenant_blocks p d ns = concat (map (\<lambda>n. raw_block n (p (Some n)) (d (Some n))) ns)"

definition has_colour :: "int \<Rightarrow> bool" where
  "has_colour n \<longleftrightarrow> 0 \<le> n \<and> n \<le> 5"

lemma colour_iff: "dict_get flow_color_dict n = None \<longleftrightarrow> \<not> has_colour n"
  by (auto simp: flow_color_dict_def dict_get_def has_colour_def)

lemma overview_aligned:
  assumes "accepts_aligned plt"
    and "\<forall>f \<in> set ks. dict_get pushes f = Some (p f) \<and> dict_get diffs f = Some (d f) \<and> length (p f) = length (d f)"
  shows "overview_calls plt diffs pushes calls ks = Inr (calls @ map (series_call p d) ks)"
  using assms
  by (induction ks arbitrary: calls) (simp_all add: accepts_aligned_def series_call_def)

lemma flow_loop_aligned:
  assumes "accepts_aligned plt"
    and "\<forall>n \<in> set ns. dict_get pushes (Some n) = Some (p (Some n)) \<and> dict_get diffs (Some n) = Some (d (Some n)) \<and>
      length (p (Some n)) = length (d (Some n))"
  shows "flow_loop plt diffs pushes calls out (map Some ns) =
    ((calls @ map (tenant_call p d) (takeWhile has_colour ns), out @ tenant_blocks p d (takeWhile has_colour ns)),
     if list_all has_colour ns then None else Some KeyError)"
  using assms
proof (induction ns arbitrary: calls out)
  case Nil
  then show ?case by (simp add: tenant_blocks_def)
next
  case (Cons n ns)
  show ?case
  proof (cases "dict_get flow_color_dict n")
    case None
    then have "\<not> has_colour n" by (simp add: colour_iff)
    with Cons.prems None show ?thesis by (simp add: tenant_blocks_def)
  next
    case (Some c)
    then have "has_colour n" using colour_iff [of n] by simp
    with Cons.prems Some
      Cons.IH [of "calls @ [tenant_call p d n]" "out @ raw_block n (p (Some n)) (d (Some n))"]
    show ?thesis by (simp add: accepts_aligned_def tenant_blocks_def tenant_call_def)
  qed
qed

section \<open>A run on a proper log\<close>

definition flows_seen :: "(int \<Rightarrow> int option) \<Rightarrow> log_event list \<Rightarrow> int option list" where
  "flows_seen flow_of es = firsts (map flow_of (arrivals es))"

lemma pfmap_of_get: "dict_get (pfmap_of kvs) = map_of (rev kvs)"
  by (rule ext) (simp add: pfmap_of_def alist_dict.get_fold)

lemma flows_seen_arrivals: "f \<in> set (flows_seen flow_of es) \<longleftrightarrow> flow_arrivals flow_of es f \<noteq> []"
  by (auto simp: flows_seen_def flow_arrivals_def filter_empty_conv)

text \<open>The setting the properties share: the two input files hold the lines of a map and of a
  proper log.\<close>

definition draw_input :: "string \<Rightarrow> files \<Rightarrow> (int \<times> int) list \<Rightarrow> log_event list \<Rightarrow> string \<Rightarrow> string \<Rightarrow> bool" where
  "draw_input inp fs kvs es fig raw \<longleftrightarrow>
     log_proper {} es \<and>
     get_reffig_file_name inp = Inr fig \<and> get_rawdata_file_name inp = Inr raw \<and>
     bind_py (get_pfmap_file_name inp) (read_file fs) = Inr (unlines (map pfmap_line kvs)) \<and>
     bind_py (get_refoutput_file_name inp) (read_file fs) = Inr (unlines (map event_line es))"

lemma draw_input_names:
  assumes "draw_input inp fs kvs es fig raw"
  obtains pf ref png where "get_pfmap_file_name inp = Inr pf" "get_refoutput_file_name inp = Inr ref"
    "get_fig_file_name inp = Inr png" "raw \<noteq> fig @ ''.start.png''" "raw \<noteq> fig"
proof -
  obtain a b where c: "cut_output inp = Some (a, b)"
    using assms by (cases "cut_output inp") (auto simp: draw_input_def reffig_name.name_eq)
  have eqs: "fig = a @ ''.ref.png'' @ b" "raw = a @ ''.rawdata.txt'' @ b"
    using assms reffig_name.name_ok [OF c] rawdata_name.name_ok [OF c]
    by (simp_all add: draw_input_def)
  show thesis
    using that [OF pfmap_name.name_ok [OF c] refoutput_name.name_ok [OF c] fig_name.name_ok [OF c]]
    by (simp add: eqs)
qed

definition after_loop :: "matplotlib \<Rightarrow> string \<Rightarrow> string \<Rightarrow> files \<Rightarrow>
    (plot_call list \<times> string) \<times> py_error option \<Rightarrow> run" where
  "after_loop plt fig raw fs1 res =
     (case res of
        ((calls, out), Some e) \<Rightarrow> (fs1(raw \<mapsto> out), Some e)
      | ((calls, out), None) \<Rightarrow>
          (fs1(raw \<mapsto> out, fig @ ''.start.png'' \<mapsto> savefig plt (calls @ annotations fig)), None))"

definition overview_fig :: "matplotlib \<Rightarrow> (int \<Rightarrow> int option) \<Rightarrow> log_event list \<Rightarrow> string" where
  "overview_fig plt flow_of es =
     savefig plt (map (series_call (pushed flow_of es) (departed flow_of es)) (flows_seen flow_of es))"

lemma draw_on_log:
  assumes "accepts_aligned plt" and input: "draw_input inp fs kvs es fig raw"
  defines "flow_of \<equiv> map_of (rev kvs)"
  obtains diffs pushes where
    "draw plt inp fs =
      (case sorted_keys (flows_seen flow_of es) of
         Inl e \<Rightarrow> (fs(fig \<mapsto> overview_fig plt flow_of es), Some e)
       | Inr ks \<Rightarrow> after_loop plt fig raw (fs(fig \<mapsto> overview_fig plt flow_of es))
           (flow_loop plt diffs pushes [] [] ks))"
    "\<forall>f \<in> set (flows_seen flow_of es). dict_get pushes f = Some (pushed flow_of es f) \<and>
      dict_get diffs f = Some (departed flow_of es f) \<and> length (pushed flow_of es f) = length (departed flow_of es f)"
proof -
  let ?st = "foldl log_step empty_cycles es"
  let ?diffs = "flow_cyc_lists (pfmap_of kvs) (diff_cyc ?st)"
  let ?pushes = "flow_cyc_lists (pfmap_of kvs) (push_cyc ?st)"
  have proper: "log_proper {} es" using input by (simp add: draw_input_def)
  have lists: "\<forall>f \<in> set (flows_seen flow_of es). dict_get ?pushes f = Some (pushed flow_of es f) \<and>
      dict_get ?diffs f = Some (departed flow_of es f) \<and> length (pushed flow_of es f) = length (departed flow_of es f)"
    using log_flow_lists [OF proper, of "pfmap_of kvs"]
    by (simp add: flows_seen_arrivals pushed_def departed_def pfmap_of_get flow_of_def)
  have keys: "dict_keys ?diffs = flows_seen flow_of es"
    using log_flow_lists(3) [OF proper, of "pfmap_of kvs"]
    by (simp add: flows_seen_def pfmap_of_get flow_of_def)
  obtain pf ref png where names: "get_pfmap_file_name inp = Inr pf" "get_refoutput_file_name inp = Inr ref"
    "get_fig_file_name inp = Inr png"
    using draw_input_names [OF input] by metis
  have over: "overview_calls plt ?diffs ?pushes [] (flows_seen flow_of es)
      = Inr (map (series_call (pushed flow_of es) (departed flow_of es)) (flows_seen flow_of es))"
    using overview_aligned [OF assms(1) lists] by simp
  have "draw plt inp fs = draw_fig plt (pfmap_of kvs) ref fig raw fs"
    using input names by (simp add: draw_input_def draw_def read_pfmap_lines)
  moreover have "read_cycles \<lparr>diff_cyc = [], push_cyc = []\<rparr> (readlines (unlines (map event_line es))) = Inr ?st"
    using read_cycles_log [of empty_cycles] by (simp add: empty_cycles_def)
  ultimately have "draw plt inp fs =
      (case sorted_keys (flows_seen flow_of es) of
         Inl e \<Rightarrow> (fs(fig \<mapsto> overview_fig plt flow_of es), Some e)
       | Inr ks \<Rightarrow> after_loop plt fig raw (fs(fig \<mapsto> overview_fig plt flow_of es))
           (flow_loop plt ?diffs ?pushes [] [] ks))"
    using input names over
    by (simp add: draw_fig_def draw_input_def keys Let_def after_loop_def overview_fig_def
        split: sum.split prod.split option.split)
  then show thesis using lists by (rule that)
qed

lemma sorted_keys_mapped:
  assumes "None \<notin> set (flows_seen flow_of es)"
  shows "sorted_keys (flows_seen flow_of es)
    = Inr (map Some (sort (remdups (map (\<lambda>m. the (flow_of m)) (arrivals es)))))"
proof -
  let ?ks = "flows_seen flow_of es"
  have some: "map Some (map the ?ks) = ?ks"
    using assms by (auto intro!: map_idI) (metis option.collapse)
  have "distinct (map the ?ks)"
    using some distinct_firsts [of "map flow_of (arrivals es)"]
    unfolding flows_seen_def by (metis distinct_map)
  then have "sort (map the ?ks) = sort (remdups (map (\<lambda>m. the (flow_of m)) (arrivals es)))"
    by (intro sorted_distinct_set_unique) (auto simp: flows_seen_def)
  moreover have "sorted_keys ?ks = Inr (map Some (sort (map the ?ks)))"
  proof (cases "length ?ks \<le> 1")
    case True
    then have "sort (map the ?ks) = map the ?ks" by (cases ?ks) auto
    with True some show ?thesis by (simp add: sorted_keys_def)
  qed (use assms in \<open>simp add: sorted_keys_def\<close>)
  ultimately show ?thesis by simp
qed

lemma draw_mapped:
  assumes "accepts_aligned plt" and "draw_input inp fs kvs es fig raw"
    and mapped: "\<forall>m \<in> set (arrivals es). map_of (rev kvs) m \<noteq> None"
  defines "flow_of \<equiv> map_of (rev kvs)"
  defines "ns \<equiv> sort (remdups (map (\<lambda>m. the (flow_of m)) (arrivals es)))"
  shows "draw plt inp fs = after_loop plt fig raw (fs(fig \<mapsto> overview_fig plt flow_of es))
    ((map (tenant_call (pushed flow_of es) (departed flow_of es)) (takeWhile has_colour ns),
      tenant_blocks (pushed flow_of es) (departed flow_of es) (takeWhile has_colour ns)),
     if list_all has_colour ns then None else Some KeyError)"
proof (rule draw_on_log [OF assms(1,2)], fold flow_of_def)
  fix diffs pushes
  assume run: "draw plt inp fs =
      (case sorted_keys (flows_seen flow_of es) of
         Inl e \<Rightarrow> (fs(fig \<mapsto> overview_fig plt flow_of es), Some e)
       | Inr ks \<Rightarrow> after_loop plt fig raw (fs(fig \<mapsto> overview_fig plt flow_of es))
           (flow_loop plt diffs pushes [] [] ks))"
    and lists: "\<forall>f \<in> set (flows_seen flow_of es). dict_get pushes f = Some (pushed flow_of es f) \<and>
      dict_get diffs f = Some (departed flow_of es f) \<and> length (pushed flow_of es f) = length (departed flow_of es f)"
  have none: "None \<notin> set (flows_seen flow_of es)"
    using mapped by (auto simp: flows_seen_def flow_of_def)
  have "Some n \<in> set (flows_seen flow_of es)" if "n \<in> set ns" for n
    using that mapped by (auto simp: ns_def flow_of_def flows_seen_def)
  with lists have "flow_loop plt diffs pushes [] [] (map Some ns) =
    ((map (tenant_call (pushed flow_of es) (departed flow_of es)) (takeWhile has_colour ns),
      tenant_blocks (pushed flow_of es) (departed flow_of es) (takeWhile has_colour ns)),
     if list_all has_colour ns then None else Some KeyError)"
    using flow_loop_aligned [OF assms(1), of ns pushes "pushed flow_of es" diffs "departed flow_of es" "[]" "[]"]
    by simp
  with sorted_keys_mapped [OF none] show ?thesis by (simp add: run ns_def)
qed

lemma draw_unmapped_run:
  assumes "accepts_aligned plt" and "draw_input inp fs kvs es fig raw"
    and unmapped: "None \<in> set (flows_seen (map_of (rev kvs)) es)"
  defines "fs1 \<equiv> fs(fig \<mapsto> overview_fig plt (map_of (rev kvs)) es)"
  shows "draw plt inp fs =
    (if length (flows_seen (map_of (rev kvs)) es) = 1 then (fs1(raw \<mapsto> []), Some TypeError)
     else (fs1, Some TypeError))"
proof (rule draw_on_log [OF assms(1,2)])
  fix diffs pushes
  let ?ks = "flows_seen (map_of (rev kvs)) es"
  assume run: "draw plt inp fs =
      (case sorted_keys ?ks of
         Inl e \<Rightarrow> (fs(fig \<mapsto> overview_fig plt (map_of (rev kvs)) es), Some e)
       | Inr ks \<Rightarrow> after_loop plt fig raw (fs(fig \<mapsto> overview_fig plt (map_of (rev kvs)) es))
           (flow_loop plt diffs pushes [] [] ks))"
    and lists: "\<forall>f \<in> set ?ks. dict_get pushes f = Some (pushed (map_of (rev kvs)) es f) \<and>
      dict_get diffs f = Some (departed (map_of (rev kvs)) es f) \<and>
      length (pushed (map_of (rev kvs)) es f) = length (departed (map_of (rev kvs)) es f)"
  show ?thesis
  proof (cases "length ?ks = 1")
    case True
    then have "?ks = [None]" using unmapped by (auto simp: length_Suc_conv)
    with lists show ?thesis by (simp add: run sorted_keys_def after_loop_def fs1_def)
  next
    case False
    then have "\<not> length ?ks \<le> 1" using unmapped by (cases ?ks) auto
    with unmapped False show ?thesis by (simp add: run sorted_keys_def fs1_def)
  qed
qed

section \<open>Properties\<close>


text \<open>The input files the examples run on.\<close>

definition sample_plt :: matplotlib where
  "sample_plt = \<lparr>scatter = (\<lambda>p d. if length p = length d then None else Some ValueError),
     savefig = (\<lambda>calls. py_str (int (length calls)))\<rparr>"

definition sample_files :: "(int \<times> int) list \<Rightarrow> log_event list \<Rightarrow> files" where
  "sample_files kvs es = [''t.pfmap'' \<mapsto> unlines (map pfmap_line kvs), ''t.ref'' \<mapsto> unlines (map event_line es)]"

lemma sample_accepts: "accepts_aligned sample_plt"
  by (simp add: accepts_aligned_def sample_plt_def)

lemma sample_input:
  "log_proper {} es \<Longrightarrow> draw_input ''t.output'' (sample_files kvs es) kvs es ''t.ref.png'' ''t.rawdata.txt''"
  by (simp add: draw_input_def sample_files_def file_name_defs py_find_def)


text \<open>A log with a packet of a flow other than 0 to 5 makes the script end with a key
  error: the colour table has no entry. The raw data file is left with the blocks of the
  flows below the first such flow, and the second figure is not written.\<close>

theorem draw_unknown_flow:
  assumes "accepts_aligned plt" and "draw_input inp fs kvs es fig raw"
    and "\<forall>m \<in> set (arrivals es). map_of (rev kvs) m \<noteq> None"
    and "m \<in> set (arrivals es)" and "map_of (rev kvs) m = Some n" and "\<not> has_colour n"
  defines "flow_of \<equiv> map_of (rev kvs)"
  shows "draw plt inp fs =
    (fs(fig \<mapsto> overview_fig plt flow_of es,
        raw \<mapsto> tenant_blocks (pushed flow_of es) (departed flow_of es)
          (takeWhile has_colour (sort (remdups (map (\<lambda>m. the (flow_of m)) (arrivals es)))))),
     Some KeyError)"
proof -
  have "n \<in> set (sort (remdups (map (\<lambda>m. the (flow_of m)) (arrivals es))))"
    using assms(4,5) by (force simp: flow_of_def)
  with assms(6) have "\<not> list_all has_colour (sort (remdups (map (\<lambda>m. the (flow_of m)) (arrivals es))))"
    unfolding list_all_iff by blast
  with draw_mapped [OF assms(1-3)] show ?thesis
    unfolding flow_of_def by (simp add: after_loop_def)
qed

theorem draw_unknown_flow_witness:
  "snd (draw sample_plt ''t.output'' (sample_files [(7, 6), (8, 0)] [Push_cyc 7 0, Push_cyc 8 1])) = Some KeyError \<and>
   fst (draw sample_plt ''t.output'' (sample_files [(7, 6), (8, 0)] [Push_cyc 7 0, Push_cyc 8 1])) ''t.rawdata.txt''
     = Some (raw_block 0 [1] [1])"
proof -
  have 1: "\<forall>m \<in> set (arrivals [Push_cyc 7 0, Push_cyc 8 1]). map_of (rev [(7, 6), (8, 0)]) m \<noteq> (None :: int option)"
    "7 \<in> set (arrivals [Push_cyc 7 0, Push_cyc 8 1])" "map_of (rev [(7 :: int, 6), (8, 0)]) 7 = Some (6 :: int)" "\<not> has_colour 6"
    by (simp_all add: arrivals_def push_pairs_def firsts_def has_colour_def)
  have 2: "tenant_blocks (pushed (map_of (rev [(7, 6), (8, 0)])) [Push_cyc 7 0, Push_cyc 8 1])
      (departed (map_of (rev [(7, 6), (8, 0)])) [Push_cyc 7 0, Push_cyc 8 1])
      (takeWhile has_colour (sort (remdups (map (\<lambda>m. the (map_of (rev [(7, 6), (8, 0)]) m))
        (arrivals [Push_cyc 7 0, Push_cyc 8 1]))))) = raw_block 0 [1] [1]"
    by (simp add: tenant_blocks_def pushed_def departed_def flow_arrivals_def arrivals_def push_pairs_def
        firsts_def push_time_def last_time_def has_colour_def)
  show ?thesis
    using draw_unknown_flow [OF sample_accepts sample_input 1] 2 by simp
qed

text \<open>A packet that is missing in the packet-to-flow map makes the script end with a type
  error, after the first figure was written: \<open>None\<close> cannot be compared with a number. The
  second figure is not written, and the raw data file is emptied when no packet is in the
  map and left as it was otherwise.\<close>

theorem draw_unmapped_packet:
  assumes "accepts_aligned plt" and "draw_input inp fs kvs es fig raw"
    and "m \<in> set (arrivals es)" and "map_of (rev kvs) m = None"
  shows "snd (draw plt inp fs) = Some TypeError \<and>
    fst (draw plt inp fs) fig = Some (overview_fig plt (map_of (rev kvs)) es) \<and>
    fst (draw plt inp fs) (fig @ ''.start.png'') = fs (fig @ ''.start.png'') \<and>
    fst (draw plt inp fs) raw =
      (if \<exists>k \<in> set (arrivals es). map_of (rev kvs) k \<noteq> None then fs raw else Some [])"
proof -
  let ?ks = "flows_seen (map_of (rev kvs)) es"
  have none: "None \<in> set ?ks" using assms(3,4) by (force simp: flows_seen_def)
  have "raw \<noteq> fig @ ''.start.png'' \<and> raw \<noteq> fig"
    using draw_input_names [OF assms(2)] by metis
  moreover have "distinct ?ks" by (simp add: flows_seen_def)
  then have "length ?ks = 1 \<longleftrightarrow> set ?ks = {None}"
    using none by (cases ?ks; cases "tl ?ks") auto
  then have "length ?ks = 1 \<longleftrightarrow> \<not> (\<exists>k \<in> set (arrivals es). map_of (rev kvs) k \<noteq> None)"
    using none by (auto simp: flows_seen_def)
  ultimately show ?thesis
    using draw_unmapped_run [OF assms(1,2) none] by auto
qed

theorem draw_unmapped_packet_witness:
  "snd (draw sample_plt ''t.output'' (sample_files [(7, 3)] [Push_cyc 7 0, Push_cyc 8 1])) = Some TypeError \<and>
   fst (draw sample_plt ''t.output'' (sample_files [(7, 3)] [Push_cyc 7 0, Push_cyc 8 1])) ''t.rawdata.txt'' = None"
proof -
  have "8 \<in> set (arrivals [Push_cyc 7 0, Push_cyc 8 1])" "map_of (rev [(7 :: int, 3)]) 8 = (None :: int option)"
    "\<exists>k \<in> set (arrivals [Push_cyc 7 0, Push_cyc 8 1]). map_of (rev [(7, 3 :: int)]) k \<noteq> None"
    by (simp_all add: arrivals_def push_pairs_def firsts_def)
  then show ?thesis
    using draw_unmapped_packet [OF sample_accepts sample_input, of "[Push_cyc 7 0, Push_cyc 8 1]" 8 "[(7, 3)]"]
    by (simp add: sample_files_def)
qed

end
