(* ===== verification/Tag_Priority.thy ===== *)
theory Tag_Priority
  imports WFQ Trace2mem Draw
begin

text \<open>
  The compiler's work on a capture: \<open>compiler/SchedStrategy.cpp\<close> with the priorities of \<open>SP.cpp\<close> and
  \<open>PFabric.cpp\<close>. \<open>tagPriority\<close> writes the trace, \<open>printPFMap\<close> the map from packets to flows; both go over
  the same capture with a handler of their own. The lines printed so far are a list.
\<close>

section \<open>Priorities\<close>

definition calSPPriority :: "string \<Rightarrow> (string \<Rightarrow> int option) \<Rightarrow> int cpp" where
  "calSPPriority key priorityTable =
     (case priorityTable key of None \<Rightarrow> Inl Aborts | Some priority \<Rightarrow> Inr priority)"

definition calSPLeafPriority :: "packet \<Rightarrow> (string \<Rightarrow> int option) \<Rightarrow> int cpp" where
  "calSPLeafPriority p priorityTable = bind_cpp (getFlowId p) (\<lambda>flowId. calSPPriority flowId priorityTable)"

definition calSPNonLeafPriority :: "int \<Rightarrow> (string \<Rightarrow> int option) \<Rightarrow> int cpp" where
  "calSPNonLeafPriority childNodeId priorityTable = calSPPriority (py_str childNodeId) priorityTable"

text \<open>The sizes are \<open>int\<close>, the lengths unsigned: the sum is taken modulo \<open>2^32\<close>.\<close>

definition initFlowRemainingSizeHandler :: "packet \<Rightarrow> compiler \<Rightarrow> compiler cpp" where
  "initFlowRemainingSizeHandler p c =
     bind_cpp (getFlowId p) (\<lambda>flowId.
       let size = (case FlowRemainingSizeTable c flowId of None \<Rightarrow> len (fst p) | Some s \<Rightarrow> s + len (fst p))
       in Inr (c\<lparr> FlowRemainingSizeTable := (FlowRemainingSizeTable c)(flowId \<mapsto> size) \<rparr>))"

definition pFabricInitFlowRemainingSize :: "pcap \<Rightarrow> string \<Rightarrow> compiler \<Rightarrow> compiler cpp" where
  "pFabricInitFlowRemainingSize pcap pcap_file c =
     (case pcap pcap_file of
        None \<Rightarrow> Inr c
      | Some (ps, ok) \<Rightarrow> pcap_loop initFlowRemainingSizeHandler ps c)"

definition calPFabricPriority :: "packet \<Rightarrow> compiler \<Rightarrow> int cpp" where
  "calPFabricPriority p c =
     bind_cpp (getFlowId p) (\<lambda>flowId.
       case FlowRemainingSizeTable c flowId of
         None \<Rightarrow> Inl Aborts
       | Some s \<Rightarrow> (let priority = sint s in if priority > 0 then Inr priority else Inl Aborts))"

section \<open>Tagging a packet\<close>

text \<open>The priority at a leaf, and the priority a node has at its father.\<close>

definition leaf_priority :: "nat \<Rightarrow> packet \<Rightarrow> compiler \<Rightarrow> (int \<times> compiler) cpp" where
  "leaf_priority n p c =
     bind_cpp (strategy_of n c) (\<lambda>s.
       case s of
         UNKNOWNTYPE \<Rightarrow> Inl Aborts
       | PFABRICTYPE _ \<Rightarrow> bind_cpp (calPFabricPriority p c) (\<lambda>x. Inr (x, c))
       | SPTYPE a \<Rightarrow> bind_cpp (deref (sp_heap c) a) (\<lambda>t. bind_cpp (calSPLeafPriority p t) (\<lambda>x. Inr (x, c)))
       | WFQTYPE a \<Rightarrow> bind_cpp (deref (wfq_heap c) a) (\<lambda>w. bind_cpp (calWFQLeafPriority p w) (\<lambda>(x, w').
           Inr (x, c\<lparr> wfq_heap := (wfq_heap c)(a \<mapsto> w') \<rparr>))))"

definition inner_priority :: "int \<Rightarrow> nat \<Rightarrow> pkthdr \<Rightarrow> compiler \<Rightarrow> (int \<times> compiler) cpp" where
  "inner_priority i f h c =
     bind_cpp (strategy_of f c) (\<lambda>s.
       case s of
         UNKNOWNTYPE \<Rightarrow> Inl Aborts
       | PFABRICTYPE _ \<Rightarrow> Inl Aborts
       | SPTYPE a \<Rightarrow> bind_cpp (deref (sp_heap c) a) (\<lambda>t. bind_cpp (calSPNonLeafPriority i t) (\<lambda>x. Inr (x, c)))
       | WFQTYPE a \<Rightarrow> bind_cpp (deref (wfq_heap c) a) (\<lambda>w. bind_cpp (calWFQNonLeafPriority i h w) (\<lambda>(x, w').
           Inr (x, c\<lparr> wfq_heap := (wfq_heap c)(a \<mapsto> w') \<rparr>))))"

text \<open>The loop \<open>while(node->father)\<close>.\<close>

fun climb :: "nat \<Rightarrow> nat \<Rightarrow> pkthdr \<Rightarrow> int list \<Rightarrow> compiler \<Rightarrow> (int list \<times> compiler) cpp" where
  "climb 0 n h priorityVec c = Inl No_end"
| "climb (Suc fuel) n h priorityVec c =
     bind_cpp (deref (node_heap c) n) (\<lambda>nd.
       case father nd of
         None \<Rightarrow> Inr (priorityVec, c)
       | Some f \<Rightarrow> bind_cpp (inner_priority (nodeId nd) f h c) (\<lambda>(x, c1). climb fuel f h (priorityVec @ [x]) c1))"

definition tagPriorityTillRoot :: "nat \<Rightarrow> packet \<Rightarrow> compiler \<Rightarrow> (int list \<times> compiler) cpp" where
  "tagPriorityTillRoot leaf p c =
     bind_cpp (leaf_priority leaf p c) (\<lambda>(x, c1). climb (next_addr c + 1) leaf (fst p) [x] c1)"

definition MAX_IDLECYCLE :: int where "MAX_IDLECYCLE = 255"

definition MAX_INTERVAL_IDLECYCLE :: int where "MAX_INTERVAL_IDLECYCLE = 107"

definition idle_line :: "int \<Rightarrow> string" where
  "idle_line n = ''type:0, idle_cycle:'' @ py_str n"

definition push_line :: "int \<Rightarrow> int \<Rightarrow> int list \<Rightarrow> string" where
  "push_line i m priorityVec = ''type:1, tree_id:'' @ py_str i @ '', meta:'' @ py_str m @
     concat (map (\<lambda>(k, x). '', priority'' @ py_str (int k) @ '':'' @ py_str x) (zip [0..<length priorityVec] priorityVec))"

text \<open>The clock of both handlers: is this packet after a gap, and does the gap count?\<close>

definition tagPriorityHandler :: "packet \<Rightarrow> compiler \<times> string list \<Rightarrow> (compiler \<times> string list) cpp" where
  "tagPriorityHandler p = (\<lambda>(c, out).
     if idle_cycle_cnt c > 4 then Inr (c, out)
     else bind_cpp (getFlowId p) (\<lambda>flowId.
       case flowNodeMap c flowId of
         None \<Rightarrow> Inr (c, out)
       | Some leafNode \<Rightarrow>
           bind_cpp (tagPriorityTillRoot leafNode p c) (\<lambda>(priorityVec, c1).
           bind_cpp (tsToCycle (fst p)) (\<lambda>thisPacketCycle.
           bind_cpp (assert_cpp (thisPacketCycle \<ge> curCycle c1)) (\<lambda>_.
           let gap = thisPacketCycle - curCycle c1;
               (c2, out2) =
                 (if gap > 1 then
                    if curCycle c1 \<noteq> 0 then
                      (c1\<lparr> idle_cycle_cnt := idle_cycle_cnt c1 + 1 \<rparr>, out @ [idle_line (min (gap - 1) MAX_INTERVAL_IDLECYCLE)])
                    else (c1, out @ [idle_line 10])
                  else (c1, out));
               c3 = c2\<lparr> curCycle := thisPacketCycle \<rparr>
           in bind_cpp (deref (node_heap c3) leafNode) (\<lambda>ld.
                Inr (c3\<lparr> pktId := pktId c3 + 1 \<rparr>, out2 @ [push_line (nodeId ld) (pktId c3) priorityVec, ''type:2''])))))))"

definition reset_clock :: "compiler \<Rightarrow> compiler" where
  "reset_clock c = c\<lparr> idle_cycle_cnt := 0, pktId := 0, curCycle := 0 \<rparr>"

definition tagPriority :: "pcap \<Rightarrow> string \<Rightarrow> string \<Rightarrow> bool \<Rightarrow> compiler \<Rightarrow> files \<Rightarrow> (compiler \<times> files) cpp" where
  "tagPriority pcap pcap_file trace_file hasPFabric c fs =
     bind_cpp (if hasPFabric then pFabricInitFlowRemainingSize pcap pcap_file c else Inr c) (\<lambda>c1.
       case pcap pcap_file of
         None \<Rightarrow> Inr (reset_clock c1, fs)
       | Some (ps, ok) \<Rightarrow>
           bind_cpp (pcap_loop tagPriorityHandler ps (reset_clock c1, [])) (\<lambda>(c2, out).
             Inr (c2, fs(trace_file \<mapsto> unlines (out @ (if ok then [idle_line MAX_IDLECYCLE] else []))))))"

section \<open>The map from packets to flows\<close>

definition printPFMapHandler :: "packet \<Rightarrow> compiler \<times> string list \<Rightarrow> (compiler \<times> string list) cpp" where
  "printPFMapHandler p = (\<lambda>(c, out).
     if idle_cycle_cnt c > 4 then Inr (c, out)
     else bind_cpp (getFlowId p) (\<lambda>flowId.
       if flowNodeMap c flowId = None then Inr (c, out)
       else case FidMap c flowId of
         None \<Rightarrow> Inl Aborts
       | Some flow \<Rightarrow>
           let out1 = out @ [pfmap_line (pktId c, flow)];
               c1 = c\<lparr> pktId := pktId c + 1 \<rparr>
           in bind_cpp (tsToCycle (fst p)) (\<lambda>thisPacketCycle.
              bind_cpp (assert_cpp (thisPacketCycle \<ge> curCycle c1)) (\<lambda>_.
              let c2 = (if thisPacketCycle - curCycle c1 > 1 \<and> curCycle c1 \<noteq> 0
                        then c1\<lparr> idle_cycle_cnt := idle_cycle_cnt c1 + 1 \<rparr> else c1)
              in Inr (c2\<lparr> curCycle := thisPacketCycle \<rparr>, out1)))))"

definition printPFMap :: "pcap \<Rightarrow> string \<Rightarrow> string \<Rightarrow> compiler \<Rightarrow> files \<Rightarrow> (compiler \<times> files) cpp" where
  "printPFMap pcap pcap_file PFMap_file c fs =
     (case pcap pcap_file of
        None \<Rightarrow> Inr (reset_clock c, fs)
      | Some (ps, ok) \<Rightarrow>
          bind_cpp (pcap_loop printPFMapHandler ps (reset_clock c, [])) (\<lambda>(c1, out).
            Inr (c1, fs(PFMap_file \<mapsto> unlines out))))"

end
