(* ===== verification/Tag_Laws.thy ===== *)
theory Tag_Laws
  imports Tag_Priority
begin

text \<open>
  The two passes of the compiler over a capture agree. A handler of packets is one that follows a
  common clock (interface \<open>packet_handler\<close>): it skips the same packets, numbers the others in the
  same way, and logs them. Both handlers of \<open>SchedStrategy.cpp\<close> are such handlers, so that every
  packet of the trace has its flow in the map, and the trace is one the simulator is made for.
\<close>

section \<open>The common clock\<close>

text \<open>Gaps counted so far, the number of the next packet, the cycle of the last one, and the packets
  that were handled, with their flows.\<close>

type_synonym clock = "int \<times> int \<times> int \<times> (int \<times> string) list"

definition tick :: "(string \<Rightarrow> bool) \<Rightarrow> packet \<Rightarrow> clock \<Rightarrow> clock" where
  "tick attached p = (\<lambda>(cnt, pid, cyc, acc).
     if cnt > 4 then (cnt, pid, cyc, acc)
     else case (getFlowId p, tsToCycle (fst p)) of
       (Inr f, Inr t) \<Rightarrow>
         if attached f then (if t - cyc > 1 \<and> cyc \<noteq> 0 then cnt + 1 else cnt, pid + 1, t, acc @ [(pid, f)])
         else (cnt, pid, cyc, acc)
     | _ \<Rightarrow> (cnt, pid, cyc, acc))"

definition handled :: "(string \<Rightarrow> bool) \<Rightarrow> packet list \<Rightarrow> (int \<times> string) list" where
  "handled attached ps = snd (snd (snd (fold (tick attached) ps (0, 0, 0, []))))"

definition clock_of :: "compiler \<Rightarrow> (int \<times> string) list \<Rightarrow> clock" where
  "clock_of c acc = (idle_cycle_cnt c, pktId c, curCycle c, acc)"

definition attached :: "compiler \<Rightarrow> string \<Rightarrow> bool" where
  "attached c f \<longleftrightarrow> flowNodeMap c f \<noteq> None"

text \<open>What a handler promises: \<open>logged s acc\<close> says that in state \<open>s\<close> the packets \<open>acc\<close> are logged.\<close>

locale packet_handler =
  fixes handler :: "packet \<Rightarrow> compiler \<times> string list \<Rightarrow> (compiler \<times> string list) cpp"
    and logged :: "(string \<Rightarrow> bool) \<Rightarrow> compiler \<times> string list \<Rightarrow> (int \<times> string) list \<Rightarrow> bool"
  assumes step: "logged A s acc \<Longrightarrow> handler p s = Inr s' \<Longrightarrow>
    \<exists>acc'. tick A p (clock_of (fst s) acc) = clock_of (fst s') acc' \<and> logged A s' acc'"
begin

lemma run:
  "logged A s acc \<Longrightarrow> pcap_loop handler ps s = Inr s' \<Longrightarrow>
   \<exists>acc'. fold (tick A) ps (clock_of (fst s) acc) = clock_of (fst s') acc' \<and> logged A s' acc'"
proof (induction ps arbitrary: s acc)
  case (Cons p ps)
  obtain s1 where s1: "handler p s = Inr s1" "pcap_loop handler ps s1 = Inr s'"
    using Cons.prems(2) by (auto simp: bind_cpp_Inr)
  from step [OF Cons.prems(1) s1(1)] obtain acc1 where a: "tick A p (clock_of (fst s) acc) = clock_of (fst s1) acc1" "logged A s1 acc1"
    by blast
  with Cons.IH [OF a(2) s1(2)] show ?case by simp
qed auto

lemma run_handled:
  assumes "logged A s []" and "clock_of (fst s) [] = (0, 0, 0, [])" and "pcap_loop handler ps s = Inr s'"
  shows "logged A s' (handled A ps)"
  using run [OF assms(1,3)] assms(2) by (auto simp: handled_def clock_of_def)

end

lemma tick_cases:
  assumes "getFlowId p = Inr f" and "tsToCycle (fst p) = Inr t" and "\<not> cnt > 4" and "A f"
  shows "tick A p (cnt, pid, cyc, acc) = (if t - cyc > 1 \<and> cyc \<noteq> 0 then cnt + 1 else cnt, pid + 1, t, acc @ [(pid, f)])"
  using assms by (simp add: tick_def)

lemma tick_skip:
  "cnt > 4 \<Longrightarrow> tick A p (cnt, pid, cyc, acc) = (cnt, pid, cyc, acc)"
  "getFlowId p = Inr f \<Longrightarrow> \<not> A f \<Longrightarrow> tick A p (cnt, pid, cyc, acc) = (cnt, pid, cyc, acc)"
  by (auto simp: tick_def split: sum.split)

text \<open>The packets that are handled are numbered from 0.\<close>

lemma tick_numbers:
  assumes "snd (snd (snd s)) = acc" and "map fst acc = [0..fst (snd s) - 1]" and "0 \<le> fst (snd s)"
  shows "map fst (snd (snd (snd (tick A p s)))) = [0..fst (snd (tick A p s)) - 1] \<and> 0 \<le> fst (snd (tick A p s))"
  using assms by (auto simp: tick_def upto_rec2 split: prod.split sum.split)

lemma handled_numbers: "map fst (handled A ps) = [0..int (length (handled A ps)) - 1]"
proof -
  have "map fst (snd (snd (snd (fold (tick A) ps s)))) = [0..fst (snd (fold (tick A) ps s)) - 1] \<and> 0 \<le> fst (snd (fold (tick A) ps s))"
    if "map fst (snd (snd (snd s))) = [0..fst (snd s) - 1]" "0 \<le> fst (snd s)" for s :: clock
    using that
  proof (induction ps arbitrary: s)
    case (Cons p ps)
    from Cons.IH [of "tick A p s"] tick_numbers [OF refl Cons.prems] show ?case by simp
  qed simp
  from this [of "(0, 0, 0, [])"] have h: "map fst (handled A ps) = [0..fst (snd (fold (tick A) ps (0, 0, 0, []))) - 1]"
    "0 \<le> fst (snd (fold (tick A) ps (0, 0, 0, [])))" by (simp_all add: handled_def)
  have "length (map fst (handled A ps)) = nat (fst (snd (fold (tick A) ps (0, 0, 0, []))))"
    unfolding h(1) by simp
  then have "int (length (handled A ps)) = fst (snd (fold (tick A) ps (0, 0, 0, [])))" using h(2) by simp
  then show ?thesis unfolding h(1) by simp
qed

section \<open>The map of flows\<close>

definition pfmap_logged :: "(string \<Rightarrow> bool) \<Rightarrow> compiler \<times> string list \<Rightarrow> (int \<times> string) list \<Rightarrow> bool" where
  "pfmap_logged A s acc \<longleftrightarrow> A = attached (fst s) \<and> (\<forall>(i, f) \<in> set acc. FidMap (fst s) f \<noteq> None) \<and>
     snd s = map (\<lambda>(i, f). pfmap_line (i, the (FidMap (fst s) f))) acc"

text \<open>The state after a packet that was handled.\<close>

definition after_packet :: "int \<Rightarrow> compiler \<Rightarrow> compiler" where
  "after_packet t c = c\<lparr> idle_cycle_cnt := (if t - curCycle c > 1 \<and> curCycle c \<noteq> 0 then idle_cycle_cnt c + 1 else idle_cycle_cnt c),
     curCycle := t, pktId := pktId c + 1 \<rparr>"

lemma printPFMapHandler_run:
  assumes "printPFMapHandler p (c, out) = Inr s'"
  obtains (skip) "s' = (c, out)" "idle_cycle_cnt c > 4 \<or> (\<exists>f. getFlowId p = Inr f \<and> \<not> attached c f)"
  | (print) f i t where "\<not> idle_cycle_cnt c > 4" "getFlowId p = Inr f" "attached c f" "FidMap c f = Some i" "tsToCycle (fst p) = Inr t"
      "s' = (after_packet t c, out @ [pfmap_line (pktId c, i)])"
proof (cases "idle_cycle_cnt c > 4 \<or> (\<exists>f. getFlowId p = Inr f \<and> \<not> attached c f)")
  case True
  then have "s' = (c, out)" using assms by (auto simp: printPFMapHandler_def attached_def split: if_splits)
  with True show thesis by (rule skip [rotated])
next
  case False
  then have go: "\<not> idle_cycle_cnt c > 4" by blast
  obtain f where f: "getFlowId p = Inr f" using assms go by (cases "getFlowId p") (simp_all add: printPFMapHandler_def)
  then obtain l where l: "flowNodeMap c f = Some l" using False by (auto simp: attached_def)
  obtain i where i: "FidMap c f = Some i" using assms go f l by (cases "FidMap c f") (simp_all add: printPFMapHandler_def)
  obtain t where t: "tsToCycle (fst p) = Inr t"
    using assms go f l i by (cases "tsToCycle (fst p)") (simp_all add: printPFMapHandler_def)
  have "s' = (after_packet t c, out @ [pfmap_line (pktId c, i)])"
    using assms go f l i t by (auto simp: printPFMapHandler_def bind_cpp_Inr Let_def after_packet_def)
  with go f l i t show thesis by (intro print) (simp_all add: attached_def)
qed

interpretation pfmap: packet_handler printPFMapHandler pfmap_logged
proof
  fix A s acc p s'
  assume log: "pfmap_logged A s acc" and run: "printPFMapHandler p s = Inr s'"
  obtain c out where s: "s = (c, out)" by force
  have A: "A = attached c" using log by (simp add: pfmap_logged_def s)
  from run [unfolded s] show "\<exists>acc'. tick A p (clock_of (fst s) acc) = clock_of (fst s') acc' \<and> pfmap_logged A s' acc'"
  proof (cases rule: printPFMapHandler_run)
    case skip
    with log show ?thesis by (auto simp: clock_of_def s tick_skip A)
  next
    case (print f i t)
    then have "tick A p (clock_of c acc) = clock_of (fst s') (acc @ [(pktId c, f)])"
      using tick_cases [OF print(2,5,1), of A "pktId c" "curCycle c" acc] by (simp add: clock_of_def after_packet_def A)
    moreover have "pfmap_logged A s' (acc @ [(pktId c, f)])"
      using log print by (simp add: pfmap_logged_def s after_packet_def attached_def [abs_def])
    ultimately show ?thesis by (auto simp: s)
  qed
qed

end
