(* ===== verification/Tag_Trace.thy ===== *)
theory Tag_Trace
  imports Tag_Laws
begin

text \<open>
  The trace that \<open>tagPriority\<close> writes, for policies of two levels: the pass over the capture is a
  \<open>packet_handler\<close>, and the lines it prints are entries of a trace with two priorities in range.
\<close>

section \<open>Policies of two levels\<close>

definition in_range :: "int \<Rightarrow> bool" where
  "in_range x \<longleftrightarrow> 0 \<le> x \<and> x < 2 ^ 31"

text \<open>Every flow is at a leaf below the root, and the identifiers are those of users of the simulator.\<close>

definition shape_ok :: "compiler \<Rightarrow> bool" where
  "shape_ok c \<longleftrightarrow> (\<forall>flow leaf. flowNodeMap c flow = Some leaf \<longrightarrow>
     (\<exists>ld f fd. node_heap c leaf = Some ld \<and> father ld = Some f \<and> node_heap c f = Some fd \<and> father fd = None \<and>
        0 < nodeId ld \<and> nodeId ld < 40))"

definition tables_ok :: "compiler \<Rightarrow> bool" where
  "tables_ok c \<longleftrightarrow> (\<forall>a t k x. sp_heap c a = Some t \<longrightarrow> t k = Some x \<longrightarrow> in_range x) \<and>
     (\<forall>a w. wfq_heap c a = Some w \<longrightarrow> wfq_ok w)"

definition policy_ok :: "compiler \<Rightarrow> bool" where
  "policy_ok c \<longleftrightarrow> shape_ok c \<and> tables_ok c \<and> 0 < next_addr c"

text \<open>What tagging a packet changes: the state of the fair queues.\<close>

definition retagged :: "compiler \<Rightarrow> compiler \<Rightarrow> bool" where
  "retagged c c' \<longleftrightarrow> (\<exists>h. c' = c\<lparr> wfq_heap := h \<rparr>)"

lemma retagged_trans: "retagged c c' \<Longrightarrow> retagged c' c'' \<Longrightarrow> retagged c c''"
  by (auto simp: retagged_def)

lemma retagged_shape: "retagged c c' \<Longrightarrow> shape_ok c \<Longrightarrow> shape_ok c'"
  by (auto simp: retagged_def shape_ok_def)

lemma tables_wfq: "tables_ok c \<Longrightarrow> wfq_ok w \<Longrightarrow> tables_ok (c\<lparr> wfq_heap := (wfq_heap c)(a \<mapsto> w) \<rparr>)"
  by (auto simp: tables_ok_def)

lemma strategy_priority:
  assumes "tables_ok c"
  shows "deref (sp_heap c) a = Inr t \<Longrightarrow> calSPPriority k t = Inr x \<Longrightarrow> in_range x"
    and "deref (wfq_heap c) a = Inr w \<Longrightarrow> cal_WFQ k h w = Inr (x, w') \<Longrightarrow> in_range x \<and> wfq_ok w'"
    and "calPFabricPriority p c = Inr x \<Longrightarrow> in_range x"
proof -
  show "deref (sp_heap c) a = Inr t \<Longrightarrow> calSPPriority k t = Inr x \<Longrightarrow> in_range x"
    using assms by (auto simp: deref_Inr calSPPriority_def tables_ok_def split: option.splits)
  show "deref (wfq_heap c) a = Inr w \<Longrightarrow> cal_WFQ k h w = Inr (x, w') \<Longrightarrow> in_range x \<and> wfq_ok w'"
    using assms cal_WFQ_ok [of w k h x w'] unfolding deref_Inr tables_ok_def in_range_def by blast
  show "calPFabricPriority p c = Inr x \<Longrightarrow> in_range x"
  proof -
    have "sint s < 2 ^ 31" for s :: "32 word" using sint_lt [of s] by simp
    then show "calPFabricPriority p c = Inr x \<Longrightarrow> in_range x"
      by (auto simp: calPFabricPriority_def bind_cpp_Inr Let_def in_range_def split: option.splits if_splits)
  qed
qed

lemma leaf_priority_ok:
  assumes "tables_ok c" and "leaf_priority n p c = Inr (x, c')"
  shows "in_range x \<and> retagged c c' \<and> tables_ok c'"
proof -
  obtain s where s: "strategy_of n c = Inr s" using assms(2) by (auto simp: leaf_priority_def bind_cpp_Inr)
  have same: "retagged c c" unfolding retagged_def by (rule exI [of _ "wfq_heap c"]) simp
  show ?thesis
  proof (cases s)
    case (SPTYPE a)
    then obtain t k where "deref (sp_heap c) a = Inr t" "calSPPriority k t = Inr x" "c' = c"
      using assms(2) s by (auto simp: leaf_priority_def calSPLeafPriority_def bind_cpp_Inr)
    then show ?thesis using strategy_priority(1) [OF assms(1)] assms(1) same by blast
  next
    case (WFQTYPE a)
    then obtain w k w' where w: "deref (wfq_heap c) a = Inr w" "cal_WFQ k (fst p) w = Inr (x, w')"
      "c' = c\<lparr> wfq_heap := (wfq_heap c)(a \<mapsto> w') \<rparr>"
      using assms(2) s by (auto simp: leaf_priority_def calWFQLeafPriority_def bind_cpp_Inr)
    then show ?thesis
      using strategy_priority(2) [OF assms(1) w(1,2)] tables_wfq [OF assms(1)] by (auto simp: retagged_def)
  qed (use assms s same strategy_priority(3) [OF assms(1), of p] in \<open>auto simp: leaf_priority_def bind_cpp_Inr\<close>)
qed

lemma inner_priority_ok:
  assumes "tables_ok c" and "inner_priority i n h c = Inr (x, c')"
  shows "in_range x \<and> retagged c c' \<and> tables_ok c'"
proof -
  obtain s where s: "strategy_of n c = Inr s" using assms(2) by (auto simp: inner_priority_def bind_cpp_Inr)
  have same: "retagged c c" unfolding retagged_def by (rule exI [of _ "wfq_heap c"]) simp
  show ?thesis
  proof (cases s)
    case (SPTYPE a)
    then obtain t k where "deref (sp_heap c) a = Inr t" "calSPPriority k t = Inr x" "c' = c"
      using assms(2) s by (auto simp: inner_priority_def calSPNonLeafPriority_def bind_cpp_Inr)
    then show ?thesis using strategy_priority(1) [OF assms(1)] assms(1) same by blast
  next
    case (WFQTYPE a)
    then obtain w k w' where w: "deref (wfq_heap c) a = Inr w" "cal_WFQ k h w = Inr (x, w')"
      "c' = c\<lparr> wfq_heap := (wfq_heap c)(a \<mapsto> w') \<rparr>"
      using assms(2) s by (auto simp: inner_priority_def calWFQNonLeafPriority_def bind_cpp_Inr)
    then show ?thesis
      using strategy_priority(2) [OF assms(1) w(1,2)] tables_wfq [OF assms(1)] by (auto simp: retagged_def)
  qed (use assms s in \<open>auto simp: inner_priority_def\<close>)
qed

lemma tagPriorityTillRoot_ok:
  assumes "policy_ok c" and "flowNodeMap c flow = Some leaf" and "tagPriorityTillRoot leaf p c = Inr (pv, c')"
  shows "\<exists>q0 q1. pv = [q0, q1] \<and> in_range q0 \<and> in_range q1 \<and> retagged c c' \<and> policy_ok c'"
proof -
  have ok: "shape_ok c" "tables_ok c" "0 < next_addr c" using assms(1) by (simp_all add: policy_ok_def)
  obtain ld f fd where ld: "node_heap c leaf = Some ld" "father ld = Some f" and fd: "node_heap c f = Some fd" "father fd = None"
    using ok(1) assms(2) unfolding shape_ok_def by blast
  obtain q0 c1 where q0: "leaf_priority leaf p c = Inr (q0, c1)" and cl: "climb (next_addr c + 1) leaf (fst p) [q0] c1 = Inr (pv, c')"
    using assms(3) by (auto simp: tagPriorityTillRoot_def bind_cpp_Inr)
  note l = leaf_priority_ok [OF ok(2) q0]
  have nodes: "node_heap c1 = node_heap c" using l by (auto simp: retagged_def)
  obtain k where k: "next_addr c = Suc k" using ok(3) by (cases "next_addr c") auto
  have one: "climb (Suc k) f (fst p) v c2 = Inr (v, c2)" if "node_heap c2 = node_heap c" for v c2
    using that fd by (simp add: deref_def)
  obtain q1 c2 where q1: "inner_priority (nodeId ld) f (fst p) c1 = Inr (q1, c2)" and rest: "climb (Suc k) f (fst p) ([q0] @ [q1]) c2 = Inr (pv, c')"
    using cl ld nodes by (auto simp: k climb.simps(2) [of "Suc k"] deref_def bind_cpp_Inr simp del: climb.simps(2))
  have i: "in_range q1" "retagged c1 c2" "tables_ok c2" using inner_priority_ok [OF _ q1] l by auto
  then have "node_heap c2 = node_heap c" using nodes by (auto simp: retagged_def)
  then have fin: "pv = [q0, q1]" "c' = c2" using rest one by auto
  have "retagged c c2" using l i retagged_trans by blast
  then have "policy_ok c2" using ok i(3) retagged_shape by (auto simp: policy_ok_def retagged_def)
  with fin l i \<open>retagged c c2\<close> show ?thesis by blast
qed


section \<open>The lines of the trace\<close>

lemma idle_line_entry: "idle_line n = trace_line (Idle n)"
  by (simp add: idle_line_def)

lemma push_line_entry: "push_line t m [q0, q1] = trace_line (Push t m q0 q1)"
proof -
  have "py_str 0 = ''0''" "py_str 1 = ''1''" by (simp_all add: py_str_eval)
  then show ?thesis by (simp add: push_line_def upt_rec)
qed

text \<open>The entries \<open>tagPriority\<close> prints, and the packets in them with their trees.\<close>

fun tag_entry :: "trace_entry \<Rightarrow> bool" where
  "tag_entry (Idle n) \<longleftrightarrow> 0 \<le> n \<and> n \<le> MAX_IDLECYCLE"
| "tag_entry (Push t m q0 q1) \<longleftrightarrow> 0 < t \<and> t < 40 \<and> in_range q0 \<and> in_range q1"
| "tag_entry Pop \<longleftrightarrow> True"

fun packets_in :: "trace_entry list \<Rightarrow> (int \<times> int) list" where
  "packets_in [] = []"
| "packets_in (Push t m q0 q1 # es) = (m, t) # packets_in es"
| "packets_in (_ # es) = packets_in es"

lemma packets_in_append [simp]: "packets_in (es @ fs) = packets_in es @ packets_in fs"
  by (induction es rule: packets_in.induct) simp_all

text \<open>The tree of a flow: the identifier of its leaf.\<close>

definition tree_of :: "compiler \<Rightarrow> string \<Rightarrow> int" where
  "tree_of c f = nodeId (the (node_heap c (the (flowNodeMap c f))))"

definition trace_logged :: "(string \<Rightarrow> bool) \<Rightarrow> compiler \<times> string list \<Rightarrow> (int \<times> string) list \<Rightarrow> bool" where
  "trace_logged A s acc \<longleftrightarrow> A = attached (fst s) \<and> policy_ok (fst s) \<and>
     (\<exists>es. snd s = map trace_line es \<and> list_all tag_entry es \<and> packets_in es = map (\<lambda>(i, f). (i, tree_of (fst s) f)) acc \<and>
        count_list es Pop = length acc)"

definition gap_entries :: "int \<Rightarrow> compiler \<Rightarrow> trace_entry list" where
  "gap_entries t c = (if t - curCycle c > 1 then [Idle (if curCycle c \<noteq> 0 then min (t - curCycle c - 1) MAX_INTERVAL_IDLECYCLE else 10)] else [])"

lemma tagPriorityHandler_run:
  assumes "policy_ok c" and "tagPriorityHandler p (c, out) = Inr s'" and "\<not> idle_cycle_cnt c > 4"
    and "getFlowId p = Inr f" and "flowNodeMap c f = Some leaf"
  obtains t q0 q1 c1 where "tsToCycle (fst p) = Inr t" "retagged c c1" "policy_ok c1" "in_range q0" "in_range q1"
    "s' = (after_packet t c1, out @ map trace_line (gap_entries t c @ [Push (tree_of c f) (pktId c) q0 q1, Pop]))"
proof -
  obtain pv c1 where pv: "tagPriorityTillRoot leaf p c = Inr (pv, c1)"
    using assms(2-5) by (cases "tagPriorityTillRoot leaf p c") (auto simp: tagPriorityHandler_def)
  obtain q0 q1 where q: "pv = [q0, q1]" "in_range q0" "in_range q1" "retagged c c1" "policy_ok c1"
    using tagPriorityTillRoot_ok [OF assms(1,5) pv] by blast
  obtain t where t: "tsToCycle (fst p) = Inr t"
    using assms(2-5) pv by (cases "tsToCycle (fst p)") (auto simp: tagPriorityHandler_def)
  obtain ld where ld: "node_heap c leaf = Some ld" using assms(1,5) unfolding policy_ok_def shape_ok_def by blast
  have same: "node_heap c1 = node_heap c" "curCycle c1 = curCycle c" "pktId c1 = pktId c" using q(4) by (auto simp: retagged_def)
  have "push_line (nodeId ld) (pktId c) pv = trace_line (Push (tree_of c f) (pktId c) q0 q1)"
    using ld assms(5) by (simp add: q(1) push_line_entry tree_of_def)
  moreover have "t \<ge> curCycle c"
    using assms(2-5) pv t same by (auto simp: tagPriorityHandler_def assert_cpp_def split: if_splits)
  ultimately have "s' = (after_packet t c1, out @ map trace_line (gap_entries t c @ [Push (tree_of c f) (pktId c) q0 q1, Pop]))"
    using assms(2-5) pv t ld same
    by (auto simp: tagPriorityHandler_def after_packet_def gap_entries_def deref_def Let_def idle_line_entry)
  with t q that show thesis by blast
qed

lemma gap_entries_ok: "list_all tag_entry (gap_entries t c) \<and> packets_in (gap_entries t c) = [] \<and> count_list (gap_entries t c) Pop = 0"
  by (simp add: gap_entries_def MAX_IDLECYCLE_def MAX_INTERVAL_IDLECYCLE_def min_def)

lemma after_packet_same:
  assumes "retagged c c1"
  shows "attached (after_packet t c1) = attached c" "tree_of (after_packet t c1) = tree_of c"
    "policy_ok c1 \<Longrightarrow> policy_ok (after_packet t c1)"
  using assms
  by (auto simp: retagged_def after_packet_def attached_def [abs_def] tree_of_def [abs_def] policy_ok_def shape_ok_def tables_ok_def)

interpretation trace: packet_handler tagPriorityHandler trace_logged
proof
  fix A s acc p s'
  assume log: "trace_logged A s acc" and run: "tagPriorityHandler p s = Inr s'"
  obtain c out where s: "s = (c, out)" by force
  have A: "A f \<longleftrightarrow> flowNodeMap c f \<noteq> None" for f using log by (simp add: trace_logged_def s attached_def)
  show "\<exists>acc'. tick A p (clock_of (fst s) acc) = clock_of (fst s') acc' \<and> trace_logged A s' acc'"
  proof (cases "idle_cycle_cnt c > 4 \<or> (\<exists>f. getFlowId p = Inr f \<and> \<not> A f)")
    case True
    then have "s' = s" using run A by (auto simp: tagPriorityHandler_def s split: if_splits)
    with True log show ?thesis by (auto simp: clock_of_def s tick_skip)
  next
    case False
    then have go: "\<not> idle_cycle_cnt c > 4" by blast
    obtain f where f: "getFlowId p = Inr f" "A f"
      using run False go by (cases "getFlowId p") (simp_all add: tagPriorityHandler_def s)
    obtain leaf where leaf: "flowNodeMap c f = Some leaf" using f(2) A by blast
    have ok: "policy_ok c" using log by (simp add: trace_logged_def s)
    obtain t q0 q1 c1 where t: "tsToCycle (fst p) = Inr t" and c1: "retagged c c1" "policy_ok c1" "in_range q0" "in_range q1"
      and s': "s' = (after_packet t c1, out @ map trace_line (gap_entries t c @ [Push (tree_of c f) (pktId c) q0 q1, Pop]))"
      by (rule tagPriorityHandler_run [OF ok run [unfolded s] go f(1) leaf])
    have "tick A p (clock_of c acc) = clock_of (fst s') (acc @ [(pktId c, f)])"
      using tick_cases [OF f(1) t, of "idle_cycle_cnt c" A "pktId c" "curCycle c" acc] go f(2) c1(1)
      by (auto simp: clock_of_def s' after_packet_def retagged_def)
    moreover have "trace_logged A s' (acc @ [(pktId c, f)])"
    proof -
      obtain es where es: "out = map trace_line es" "list_all tag_entry es" "packets_in es = map (\<lambda>(i, f). (i, tree_of c f)) acc"
        "count_list es Pop = length acc"
        using log by (auto simp: trace_logged_def s)
      have tree: "0 < tree_of c f \<and> tree_of c f < 40" using ok leaf unfolding policy_ok_def shape_ok_def tree_of_def by fastforce
      let ?es = "es @ gap_entries t c @ [Push (tree_of c f) (pktId c) q0 q1, Pop]"
      have "snd s' = map trace_line ?es" "list_all tag_entry ?es" "count_list ?es Pop = length (acc @ [(pktId c, f)])"
        "packets_in ?es = map (\<lambda>(i, f). (i, tree_of c f)) (acc @ [(pktId c, f)])"
        using es gap_entries_ok [of t c] tree c1 by (simp_all add: s')
      moreover have "A = attached (fst s')" "policy_ok (fst s')" and tree': "tree_of (fst s') = tree_of c"
        using log after_packet_same [OF c1(1)] c1(2) by (simp_all add: s' s trace_logged_def)
      ultimately show ?thesis unfolding trace_logged_def tree' by (intro conjI exI [of _ ?es])
    qed
    ultimately show ?thesis by (auto simp: s)
  qed
qed

end
