(* ===== verification/Compile.thy ===== *)
theory Compile
  imports Tag_Trace
begin

text \<open>
  The compiler as a whole on a capture: \<open>tagPriority\<close> and then \<open>printPFMap\<close>, as the policy files under
  \<open>compiler_test\<close> call them. The trace and the map it writes agree; for a policy of strict priorities
  it always succeeds on a capture that is in order.
\<close>

section \<open>The two passes\<close>

definition compile :: "pcap \<Rightarrow> string \<Rightarrow> string \<Rightarrow> string \<Rightarrow> bool \<Rightarrow> compiler \<Rightarrow> files \<Rightarrow> (compiler \<times> files) cpp" where
  "compile pcap pcap_file trace_file PFMap_file hasPFabric c fs =
     bind_cpp (tagPriority pcap pcap_file trace_file hasPFabric c fs) (\<lambda>(c1, fs1).
       printPFMap pcap pcap_file PFMap_file c1 fs1)"

lemma pcap_loop_inv:
  assumes "\<And>p s s'. p \<in> set ps \<Longrightarrow> I s \<Longrightarrow> handler p s = Inr s' \<Longrightarrow> I s'" and "I s" and "pcap_loop handler ps s = Inr s'"
  shows "I s'"
  using assms
proof (induction ps arbitrary: s)
  case (Cons p ps)
  obtain s1 where s1: "handler p s = Inr s1" "pcap_loop handler ps s1 = Inr s'"
    using Cons.prems(3) by (auto simp: bind_cpp_Inr)
  have s1_ok: "I s1" by (rule Cons.prems(1) [OF _ Cons.prems(2) s1(1)]) simp
  show ?case by (rule Cons.IH [OF _ s1_ok s1(2)]) (rule Cons.prems(1), simp_all)
qed simp

text \<open>What \<open>pFabricInitFlowRemainingSize\<close> changes.\<close>

definition resized :: "compiler \<Rightarrow> compiler \<Rightarrow> bool" where
  "resized c c' \<longleftrightarrow> (\<exists>h. c' = c\<lparr> FlowRemainingSizeTable := h \<rparr>)"

lemma pFabricInit_resized:
  assumes "pFabricInitFlowRemainingSize pcap file c = Inr c'"
  shows "resized c c'"
proof -
  have same: "resized c c" unfolding resized_def by (rule exI [of _ "FlowRemainingSizeTable c"]) simp
  have step: "resized c s'" if "resized c s" "initFlowRemainingSizeHandler p s = Inr s'" for p s s'
    using that by (auto simp: resized_def initFlowRemainingSizeHandler_def bind_cpp_Inr Let_def)
  show ?thesis
    using assms same pcap_loop_inv [of _ "resized c" initFlowRemainingSizeHandler, OF step same]
    by (auto simp: pFabricInitFlowRemainingSize_def split: option.splits)
qed

lemma resized_same:
  "resized c c' \<Longrightarrow> attached c' = attached c \<and> tree_of c' = tree_of c \<and> FidMap c' = FidMap c \<and> (policy_ok c' \<longleftrightarrow> policy_ok c)"
  by (auto simp: resized_def attached_def [abs_def] tree_of_def [abs_def] policy_ok_def shape_ok_def tables_ok_def)

lemma reset_clock_same [simp]:
  "attached (reset_clock c) = attached c" "tree_of (reset_clock c) = tree_of c" "FidMap (reset_clock c) = FidMap c"
  "policy_ok (reset_clock c) \<longleftrightarrow> policy_ok c" "clock_of (reset_clock c) [] = (0, 0, 0, [])"
  by (auto simp: reset_clock_def attached_def [abs_def] tree_of_def [abs_def] policy_ok_def shape_ok_def tables_ok_def clock_of_def)

text \<open>The policy stays as it is while packets are tagged.\<close>

lemma tagPriorityHandler_keeps:
  assumes "policy_ok c" and "tagPriorityHandler p (c, out) = Inr (c', out')"
  shows "policy_ok c' \<and> attached c' = attached c \<and> tree_of c' = tree_of c \<and> FidMap c' = FidMap c"
proof (cases "\<exists>f leaf. \<not> idle_cycle_cnt c > 4 \<and> getFlowId p = Inr f \<and> flowNodeMap c f = Some leaf")
  case True
  then obtain f leaf where f: "\<not> idle_cycle_cnt c > 4" "getFlowId p = Inr f" "flowNodeMap c f = Some leaf" by blast
  obtain t q0 q1 c1 where c1: "retagged c c1" "policy_ok c1" "c' = after_packet t c1"
    by (rule tagPriorityHandler_run [OF assms f]) blast
  moreover have "FidMap c' = FidMap c" using c1 by (auto simp: retagged_def after_packet_def)
  ultimately show ?thesis using after_packet_same [OF c1(1)] by simp
next
  case False
  then have "c' = c"
    using assms(2) by (cases "getFlowId p") (auto simp: tagPriorityHandler_def split: if_splits option.splits)
  with assms(1) show ?thesis by simp
qed

lemma tagging_keeps:
  assumes "policy_ok c" and "pcap_loop tagPriorityHandler ps (c, out) = Inr (c', out')"
  shows "policy_ok c' \<and> attached c' = attached c \<and> tree_of c' = tree_of c \<and> FidMap c' = FidMap c"
proof -
  let ?I = "\<lambda>s. policy_ok (fst s) \<and> attached (fst s) = attached c \<and> tree_of (fst s) = tree_of c \<and> FidMap (fst s) = FidMap c"
  have "?I s'" if "?I s" "tagPriorityHandler p s = Inr s'" for p s s'
    using that tagPriorityHandler_keeps [of "fst s" p "snd s" "fst s'" "snd s'"] by simp
  from pcap_loop_inv [of ps ?I tagPriorityHandler, OF this _ assms(2)] assms(1) show ?thesis by simp
qed

text \<open>What the two files hold, packet by packet.\<close>

definition agree :: "compiler \<Rightarrow> (int \<times> string) list \<Rightarrow> trace_entry list \<Rightarrow> (int \<times> int) list \<Rightarrow> bool" where
  "agree c hs es kvs \<longleftrightarrow> list_all tag_entry es \<and> count_list es Pop = length hs \<and>
     packets_in es = map (\<lambda>(i, f). (i, tree_of c f)) hs \<and> kvs = map (\<lambda>(i, f). (i, the (FidMap c f))) hs \<and>
     (\<forall>(i, f) \<in> set hs. FidMap c f \<noteq> None) \<and> map fst hs = [0..int (length hs) - 1]"

lemma compile_agree:
  assumes "policy_ok c" and "pcap file = Some (ps, ok)" and "tf \<noteq> mf" and "compile pcap file tf mf pf c fs = Inr (c', fs')"
  shows "\<exists>es kvs. fs' = fs(tf \<mapsto> unlines (map trace_line es), mf \<mapsto> unlines (map pfmap_line kvs)) \<and>
    agree c (handled (attached c) ps) es kvs"
proof -
  obtain c0 c1 out c2 mout where c0: "(if pf then pFabricInitFlowRemainingSize pcap file c else Inr c) = Inr c0"
    and run1: "pcap_loop tagPriorityHandler ps (reset_clock c0, []) = Inr (c1, out)"
    and run2: "pcap_loop printPFMapHandler ps (reset_clock c1, []) = Inr (c2, mout)"
    and fs': "fs' = fs(tf \<mapsto> unlines (out @ (if ok then [idle_line MAX_IDLECYCLE] else [])), mf \<mapsto> unlines mout)"
    using assms(2,4) by (auto simp: compile_def tagPriority_def printPFMap_def bind_cpp_Inr)
  have same: "resized c c0"
    using c0 pFabricInit_resized by (cases pf) (auto simp: resized_def intro: exI [of _ "FlowRemainingSizeTable c"])
  note r = resized_same [OF same]
  have "trace_logged (attached c) (reset_clock c0, []) []" using r assms(1) by (simp add: trace_logged_def)
  from trace.run_handled [OF this _ run1] obtain es where es: "out = map trace_line es" "list_all tag_entry es"
    "packets_in es = map (\<lambda>(i, f). (i, tree_of c1 f)) (handled (attached c) ps)" "count_list es Pop = length (handled (attached c) ps)"
    by (auto simp: trace_logged_def)
  have k: "attached c1 = attached c" "tree_of c1 = tree_of c" "FidMap c1 = FidMap c"
    using tagging_keeps [OF _ run1] r assms(1) by auto
  have "pfmap_logged (attached c) (reset_clock c1, []) []" by (simp add: pfmap_logged_def k)
  from pfmap.run_handled [OF this _ run2] have m: "\<forall>(i, f) \<in> set (handled (attached c) ps). FidMap c2 f \<noteq> None"
    "mout = map (\<lambda>(i, f). pfmap_line (i, the (FidMap c2 f))) (handled (attached c) ps)"
    by (auto simp: pfmap_logged_def)
  have "FidMap (fst s') = F" if "FidMap (fst s) = F" "printPFMapHandler p s = Inr s'" for p s s' F
  proof -
    obtain d o' where d: "s = (d, o')" by force
    from that(2) [unfolded d] show ?thesis
      using that(1) d by (cases rule: printPFMapHandler_run) (simp_all add: after_packet_def)
  qed
  from pcap_loop_inv [of ps "\<lambda>s. FidMap (fst s) = FidMap c" printPFMapHandler, OF this _ run2] k(3)
  have F: "FidMap c2 = FidMap c" by simp
  let ?es = "es @ (if ok then [Idle MAX_IDLECYCLE] else [])" and ?kvs = "map (\<lambda>(i, f). (i, the (FidMap c f))) (handled (attached c) ps)"
  have "out @ (if ok then [idle_line MAX_IDLECYCLE] else []) = map trace_line ?es" by (simp add: es(1) idle_line_entry)
  moreover have "mout = map pfmap_line ?kvs" by (simp add: m(2) F case_prod_unfold)
  moreover have "agree c (handled (attached c) ps) ?es ?kvs"
    using es(2-4) m(1) handled_numbers by (simp add: agree_def k(2) F MAX_IDLECYCLE_def)
  ultimately show ?thesis unfolding fs' by metis
qed


section \<open>Policies of strict priority\<close>

text \<open>A flow is ready when its leaf and the father of the leaf are strict priority schedulers that know the
  flow and the leaf, and the flow has a number.\<close>

definition ranks :: "compiler \<Rightarrow> TreeNode \<Rightarrow> string \<Rightarrow> bool" where
  "ranks c nd key \<longleftrightarrow> (\<exists>s a t. strategy nd = Some s \<and> strategy_heap c s = Some (SPTYPE a) \<and> sp_heap c a = Some t \<and> t key \<noteq> None)"

definition sp_ready :: "compiler \<Rightarrow> bool" where
  "sp_ready c \<longleftrightarrow> (\<forall>flow leaf. flowNodeMap c flow = Some leaf \<longrightarrow> FidMap c flow \<noteq> None \<and>
     (\<exists>ld f fd. node_heap c leaf = Some ld \<and> father ld = Some f \<and> node_heap c f = Some fd \<and>
        ranks c ld flow \<and> ranks c fd (py_str (nodeId ld))))"

lemma ranks_priority:
  assumes "ranks c nd key" and "node_heap c n = Some nd"
  obtains a t x where "strategy_of n c = Inr (SPTYPE a)" "sp_heap c a = Some t" "calSPPriority key t = Inr x"
  using assms by (fastforce simp: ranks_def strategy_of_def deref_def deref_ptr_def calSPPriority_def)

lemma sp_tillRoot:
  assumes "policy_ok c" and "sp_ready c" and "flowNodeMap c flow = Some leaf" and "getFlowId p = Inr flow"
  shows "\<exists>pv. tagPriorityTillRoot leaf p c = Inr (pv, c)"
proof -
  obtain ld f fd where ld: "node_heap c leaf = Some ld" "father ld = Some f" and fd: "node_heap c f = Some fd"
    and k: "ranks c ld flow" "ranks c fd (py_str (nodeId ld))"
    using assms(2,3) unfolding sp_ready_def by blast
  have top: "father fd = None" using assms(1,3) ld fd unfolding policy_ok_def shape_ok_def by fastforce
  obtain m where m: "next_addr c = Suc m" using assms(1) by (cases "next_addr c") (auto simp: policy_ok_def)
  obtain a t x where x: "strategy_of leaf c = Inr (SPTYPE a)" "sp_heap c a = Some t" "calSPPriority flow t = Inr x"
    using ranks_priority [OF k(1) ld(1)] .
  obtain a' t' y where y: "strategy_of f c = Inr (SPTYPE a')" "sp_heap c a' = Some t'" "calSPPriority (py_str (nodeId ld)) t' = Inr y"
    using ranks_priority [OF k(2) fd] .
  have "leaf_priority leaf p c = Inr (x, c)" using x assms(4) by (simp add: leaf_priority_def deref_def calSPLeafPriority_def)
  moreover have "inner_priority (nodeId ld) f (fst p) c = Inr (y, c)"
    using y by (simp add: inner_priority_def deref_def calSPNonLeafPriority_def)
  ultimately show ?thesis using ld fd top by (simp add: tagPriorityTillRoot_def m deref_def)
qed

text \<open>A capture that is in order: every packet can be read, and no packet is earlier than the one before it.\<close>

definition readable :: "packet \<Rightarrow> bool" where
  "readable p \<longleftrightarrow> (\<exists>f. getFlowId p = Inr f) \<and> stamp_ok (fst p)"

fun in_order :: "packet list \<Rightarrow> bool" where
  "in_order [] \<longleftrightarrow> True"
| "in_order (p # ps) \<longleftrightarrow> readable p \<and> (\<forall>q \<in> set ps. stamp_cycles (fst p) \<le> stamp_cycles (fst q)) \<and> in_order ps"

text \<open>A handler that never stops on packets in order.\<close>

locale total_handler =
  fixes handler :: "packet \<Rightarrow> compiler \<times> string list \<Rightarrow> (compiler \<times> string list) cpp"
    and ready :: "compiler \<Rightarrow> bool"
  assumes returns: "ready (fst s) \<Longrightarrow> readable p \<Longrightarrow> tsToCycle (fst p) = Inr t \<Longrightarrow> curCycle (fst s) \<le> t \<Longrightarrow>
    \<exists>s'. handler p s = Inr s' \<and> ready (fst s') \<and> curCycle (fst s') \<le> t"
begin

lemma run_returns:
  assumes "ready (fst s)" and "in_order ps" and "\<forall>p \<in> set ps. \<forall>t. tsToCycle (fst p) = Inr t \<longrightarrow> curCycle (fst s) \<le> t"
  shows "\<exists>s'. pcap_loop handler ps s = Inr s' \<and> ready (fst s')"
  using assms
proof (induction ps arbitrary: s)
  case (Cons p ps)
  have p: "readable p" "stamp_ok (fst p)" using Cons.prems(2) by (simp_all add: readable_def)
  obtain t where t: "tsToCycle (fst p) = Inr t" using tsToCycle_returns [OF p(2)] by blast
  obtain s1 where s1: "handler p s = Inr s1" "ready (fst s1)" "curCycle (fst s1) \<le> t"
    using returns [OF Cons.prems(1) p(1) t] Cons.prems(3) t by auto
  have "\<forall>q \<in> set ps. \<forall>u. tsToCycle (fst q) = Inr u \<longrightarrow> curCycle (fst s1) \<le> u"
  proof (intro ballI allI impI)
    fix q u assume q: "q \<in> set ps" "tsToCycle (fst q) = Inr u"
    have "readable q" using Cons.prems(2) q(1) by (induction ps) auto
    then have "t \<le> u" using tsToCycle_mono [OF p(2) _ _ t q(2)] Cons.prems(2) q(1) by (simp add: readable_def)
    then show "curCycle (fst s1) \<le> u" using s1(3) by linarith
  qed
  with Cons.IH [OF s1(2)] Cons.prems(2) s1(1) show ?case by simp
qed simp

end

lemma after_packet_sp_ready: "sp_ready c \<Longrightarrow> sp_ready (after_packet t c)"
  by (simp add: sp_ready_def ranks_def after_packet_def)

lemma retagged_refl: "retagged c c"
  unfolding retagged_def by (rule exI [of _ "wfq_heap c"]) simp

interpretation sp_trace: total_handler tagPriorityHandler "\<lambda>c. policy_ok c \<and> sp_ready c"
proof
  fix s :: "compiler \<times> string list" and p t
  assume ok: "policy_ok (fst s) \<and> sp_ready (fst s)" and p: "readable p" and t: "tsToCycle (fst p) = Inr t" "curCycle (fst s) \<le> t"
  obtain c out where s: "s = (c, out)" by force
  obtain f where f: "getFlowId p = Inr f" using p by (auto simp: readable_def)
  show "\<exists>s'. tagPriorityHandler p s = Inr s' \<and> (policy_ok (fst s') \<and> sp_ready (fst s')) \<and> curCycle (fst s') \<le> t"
  proof (cases "\<not> idle_cycle_cnt c > 4 \<and> flowNodeMap c f \<noteq> None")
    case False
    then have "tagPriorityHandler p s = Inr s" using f by (auto simp: tagPriorityHandler_def s)
    with ok t(2) show ?thesis by blast
  next
    case True
    then obtain leaf where leaf: "flowNodeMap c f = Some leaf" by blast
    obtain pv where pv: "tagPriorityTillRoot leaf p c = Inr (pv, c)" using sp_tillRoot [OF _ _ leaf f] ok s by auto
    obtain ld where ld: "node_heap c leaf = Some ld" using ok leaf s unfolding sp_ready_def by auto
    have "\<exists>out'. tagPriorityHandler p s = Inr (after_packet t c, out')"
      using True f leaf pv t ld by (auto simp: tagPriorityHandler_def s Let_def deref_def after_packet_def)
    then show ?thesis
      using ok s after_packet_same(3) [OF retagged_refl] after_packet_sp_ready by (force simp: after_packet_def)
  qed
qed

interpretation sp_pfmap: total_handler printPFMapHandler sp_ready
proof
  fix s :: "compiler \<times> string list" and p t
  assume ok: "sp_ready (fst s)" and p: "readable p" and t: "tsToCycle (fst p) = Inr t" "curCycle (fst s) \<le> t"
  obtain c out where s: "s = (c, out)" by force
  obtain f where f: "getFlowId p = Inr f" using p by (auto simp: readable_def)
  show "\<exists>s'. printPFMapHandler p s = Inr s' \<and> sp_ready (fst s') \<and> curCycle (fst s') \<le> t"
  proof (cases "\<not> idle_cycle_cnt c > 4 \<and> flowNodeMap c f \<noteq> None")
    case False
    then have "printPFMapHandler p s = Inr s" using f by (auto simp: printPFMapHandler_def s)
    with ok t(2) show ?thesis by blast
  next
    case True
    then obtain leaf where l: "flowNodeMap c f = Some leaf" by blast
    have "sp_ready c" using ok s by simp
    then have "FidMap c f \<noteq> None" using l unfolding sp_ready_def by blast
    then obtain i where leaf: "flowNodeMap c f = Some leaf" "FidMap c f = Some i" using l by blast
    then have "printPFMapHandler p s = Inr (after_packet t c, out @ [pfmap_line (pktId c, i)])"
      using True f t by (auto simp: printPFMapHandler_def s Let_def after_packet_def)
    with ok s after_packet_sp_ready show ?thesis by (force simp: after_packet_def)
  qed
qed

lemma reset_clock_sp_ready [simp]: "sp_ready (reset_clock c) \<longleftrightarrow> sp_ready c"
  by (simp add: sp_ready_def ranks_def reset_clock_def)

lemma in_order_readable: "in_order ps \<Longrightarrow> p \<in> set ps \<Longrightarrow> readable p"
  by (induction ps) auto

lemma start_before:
  assumes "in_order ps"
  shows "\<forall>p \<in> set ps. \<forall>t. tsToCycle (fst p) = Inr t \<longrightarrow> curCycle (fst (reset_clock c, out)) \<le> t"
proof (intro ballI allI impI)
  fix p t assume p: "p \<in> set ps" "tsToCycle (fst p) = Inr t"
  have "stamp_ok (fst p)" using in_order_readable [OF assms p(1)] by (simp add: readable_def)
  then obtain n where "tsToCycle (fst p) = Inr n" "0 \<le> n" by (rule tsToCycle_returns)
  with p(2) show "curCycle (fst (reset_clock c, out)) \<le> t" by (simp add: reset_clock_def)
qed

lemma sp_compile_returns:
  assumes "policy_ok c" and "sp_ready c" and "pcap file = Some (ps, ok)" and "in_order ps"
  shows "\<exists>c' fs'. compile pcap file tf mf False c fs = Inr (c', fs')"
proof -
  obtain c1 out where c1: "pcap_loop tagPriorityHandler ps (reset_clock c, []) = Inr (c1, out)" "sp_ready c1"
    using sp_trace.run_returns [of "(reset_clock c, [])", OF _ assms(4) start_before [OF assms(4)]] assms(1,2) by auto
  obtain c2 out2 where "pcap_loop printPFMapHandler ps (reset_clock c1, []) = Inr (c2, out2)"
    using sp_pfmap.run_returns [of "(reset_clock c1, [])", OF _ assms(4) start_before [OF assms(4)]] c1(2) by auto
  with c1 assms(3) show ?thesis by (simp add: compile_def tagPriority_def printPFMap_def)
qed

end
