(* ===== verification/PFabric_Size.thy ===== *)
theory PFabric_Size
  imports Compile
begin

text \<open>
  pFabric in the compiler (\<open>compiler/PFabric.cpp\<close>): the table of sizes that \<open>pFabricInitFlowRemainingSize\<close>
  fills, and the priorities that come from it.
\<close>

text \<open>The bytes of a flow in a capture, as an \<open>int\<close> adds them up.\<close>

definition flow_bytes :: "string \<Rightarrow> packet list \<Rightarrow> 32 word" where
  "flow_bytes f ps = sum_list (map (\<lambda>p. len (fst p)) (filter (\<lambda>p. getFlowId p = Inr f) ps))"

definition flow_seen :: "string \<Rightarrow> packet list \<Rightarrow> bool" where
  "flow_seen f ps \<longleftrightarrow> (\<exists>p \<in> set ps. getFlowId p = Inr f)"

lemma init_sizes:
  assumes "pcap_loop initFlowRemainingSizeHandler ps c = Inr c'"
  shows "FlowRemainingSizeTable c' f =
    (case FlowRemainingSizeTable c f of
       None \<Rightarrow> if flow_seen f ps then Some (flow_bytes f ps) else None
     | Some s \<Rightarrow> Some (s + flow_bytes f ps))"
  using assms
proof (induction ps arbitrary: c)
  case Nil
  then show ?case by (simp add: flow_seen_def flow_bytes_def split: option.split)
next
  case (Cons p ps)
  obtain c1 where c1: "initFlowRemainingSizeHandler p c = Inr c1" "pcap_loop initFlowRemainingSizeHandler ps c1 = Inr c'"
    using Cons.prems by (auto simp: bind_cpp_Inr)
  obtain g where g: "getFlowId p = Inr g" using c1(1) by (auto simp: initFlowRemainingSizeHandler_def bind_cpp_Inr)
  then have t: "FlowRemainingSizeTable c1 = (FlowRemainingSizeTable c)(g \<mapsto>
      (case FlowRemainingSizeTable c g of None \<Rightarrow> len (fst p) | Some s \<Rightarrow> s + len (fst p)))"
    using c1(1) by (auto simp: initFlowRemainingSizeHandler_def Let_def)
  have "flow_bytes f (p # ps) = (if f = g then len (fst p) + flow_bytes f ps else flow_bytes f ps)"
    "flow_seen f (p # ps) \<longleftrightarrow> f = g \<or> flow_seen f ps"
    using g by (auto simp: flow_bytes_def flow_seen_def)
  then show ?case using Cons.IH [OF c1(2)] t by (auto simp: add.assoc split: option.split)
qed

lemma sint_32: "sint w = (if uint w < 2 ^ 31 then uint w else uint w - 2 ^ 32)" for w :: "32 word"
proof -
  have b: "0 \<le> uint w" "uint w < 4294967296" using uint_bounded [of w] by simp_all
  have "sint w = (uint w + 2147483648) mod 4294967296 - 2147483648"
    by (simp add: sint_uint signed_take_bit_eq_take_bit_shift take_bit_eq_mod)
  moreover have "(uint w + 2147483648) mod 4294967296 = (if uint w < 2147483648 then uint w + 2147483648 else uint w - 2147483648)"
    using b by (auto simp: mod_pos_pos_trivial mod_pos_geq)
  ultimately show ?thesis by simp
qed



end
