(* ===== verification/PIFO_Forest.thy ===== *)
theory PIFO_Forest
  imports PIFO_Tree
begin

text \<open>
  The trees of the compiler are trees: the links between fathers and children agree, a node has one
  father, and no node is above itself, as long as a node is attached once and not below itself.
  From this follow that the recursions of \<open>PIFOTree.cpp\<close> end, which leaves they find, and what the
  path table says.
\<close>

section \<open>The invariant\<close>

text \<open>\<open>(f, n)\<close> is in the relation if \<open>f\<close> is the father of \<open>n\<close>.\<close>

definition over :: "compiler \<Rightarrow> (nat \<times> nat) set" where
  "over c = {(f, n). \<exists>nd. node_heap c n = Some nd \<and> father nd = Some f}"

definition links_agree :: "compiler \<Rightarrow> bool" where
  "links_agree c \<longleftrightarrow> (\<forall>f n. (f, n) \<in> over c \<longleftrightarrow> (\<exists>fd. node_heap c f = Some fd \<and> n \<in> set (children fd)))"

definition ids_ok :: "compiler \<Rightarrow> bool" where
  "ids_ok c \<longleftrightarrow> 0 \<le> next_nodeId c \<and> next_nodeId c mod 10 = 0 \<and>
     (\<forall>n nd. node_heap c n = Some nd \<longrightarrow> 0 \<le> nodeId nd \<and> nodeId nd < next_nodeId c \<and> nodeId nd mod 10 = 0) \<and>
     (\<forall>n m nd md. node_heap c n = Some nd \<longrightarrow> node_heap c m = Some md \<longrightarrow> nodeId nd = nodeId md \<longrightarrow> n = m)"

definition forest_ok :: "compiler \<Rightarrow> bool" where
  "forest_ok c \<longleftrightarrow> dom (node_heap c) \<subseteq> {..<next_addr c} \<and> links_agree c \<and>
     (\<forall>n nd. node_heap c n = Some nd \<longrightarrow> distinct (children nd)) \<and> acyclic (over c) \<and> ids_ok c"

text \<open>The states that the calls of a policy file lead to. A node is attached when it has no father yet
  and the new father is not below it.\<close>

inductive built :: "compiler \<Rightarrow> bool" where
  start: "built compiler_start"
| object: "built c \<Longrightarrow> c' \<in> {snd (createPerfInfo b c), snd (SchedStrategyUnknown c), snd (StrategySP c),
    snd (SchedStrategySP a c), snd (StrategyWFQ c), snd (SchedStrategyWFQ a c), snd (StrategyPFabric c),
    snd (SchedStrategyPFabric a c)} \<Longrightarrow> built c'"
| node: "built c \<Longrightarrow> c' \<in> {snd (createTreeNode s m c), snd (createTreeRoot s a m c)} \<Longrightarrow> built c'"
| attach_flow: "built c \<Longrightarrow> attachFlow flowId fa sh c = Inr c' \<Longrightarrow> built c'"
| attach_node: "built c \<Longrightarrow> attachNode n (Some f) sh c = Inr c' \<Longrightarrow> n \<notin> snd ` over c \<Longrightarrow> (n, f) \<notin> (over c)\<^sup>* \<Longrightarrow> built c'"
| flow_number: "built c \<Longrightarrow> built (c\<lparr> FidMap := (FidMap c)(flowId \<mapsto> i) \<rparr>)"

section \<open>Preservation\<close>

lemma forest_ok_cong:
  "node_heap c' = node_heap c \<Longrightarrow> next_nodeId c' = next_nodeId c \<Longrightarrow> next_addr c \<le> next_addr c' \<Longrightarrow>
   forest_ok c \<Longrightarrow> forest_ok c'"
proof -
  assume eqs: "node_heap c' = node_heap c" "next_nodeId c' = next_nodeId c" "next_addr c \<le> next_addr c'" and ok: "forest_ok c"
  have "over c' = over c" by (simp add: over_def eqs(1))
  moreover have "{..<next_addr c} \<subseteq> {..<next_addr c'}" using eqs(3) by auto
  ultimately show ?thesis
    using ok unfolding forest_ok_def links_agree_def ids_ok_def eqs(1,2) by (elim conjE; intro conjI) auto
qed

lemma attach_share_frame:
  assumes "attach_share f key sh c = Inr c'"
  shows "node_heap c' = node_heap c \<and> next_nodeId c' = next_nodeId c \<and> next_addr c' = next_addr c"
proof -
  note defs = attach_share_def attach_plain_def attach_priority_def attach_weight_def
  obtain s where "strategy_of f c = Inr s"
    using assms by (cases "strategy_of f c") (auto simp: defs split: share.splits)
  with assms show ?thesis by (cases s; cases sh; auto simp: defs bind_cpp_Inr)
qed

lemma createTreeRoot_ok:
  assumes "forest_ok c"
  shows "forest_ok (snd (createTreeRoot s a m c))"
proof -
  let ?c = "snd (createTreeRoot s a m c)" and ?n = "next_addr c"
  have fresh: "node_heap c ?n = None" using assms by (auto simp: forest_ok_def dom_def)
  have over: "over ?c = over c" using fresh by (auto simp: over_def createTreeRoot_def)
  have "links_agree ?c"
    unfolding links_agree_def over using assms fresh by (auto simp: forest_ok_def links_agree_def createTreeRoot_def)
  moreover have "ids_ok ?c"
    using assms unfolding forest_ok_def ids_ok_def by (auto simp: createTreeRoot_def split: if_splits) (smt (verit))+
  moreover have "dom (node_heap ?c) \<subseteq> {..<next_addr ?c}"
    using assms by (auto simp: forest_ok_def createTreeRoot_def dom_def)
  moreover have "\<forall>n nd. node_heap ?c n = Some nd \<longrightarrow> distinct (children nd)"
    using assms by (auto simp: forest_ok_def createTreeRoot_def)
  ultimately show ?thesis using assms unfolding forest_ok_def over by blast
qed

lemma createTreeNode_ok: "forest_ok c \<Longrightarrow> forest_ok (snd (createTreeNode s m c))"
  unfolding createTreeNode_def Let_def by (rule createTreeRoot_ok) (rule forest_ok_cong; simp)

lemma link_node_ok:
  assumes "forest_ok c" and "link_node n f c = Inr (i, c')" and "n \<notin> snd ` over c" and "(n, f) \<notin> (over c)\<^sup>*"
  shows "forest_ok c'"
proof -
  have nf: "n \<noteq> f" using assms(4) by auto
  obtain nd fd where nd: "node_heap c n = Some nd" and fd: "node_heap c f = Some fd"
    and c': "c' = c\<lparr> node_heap := (node_heap c)(n \<mapsto> nd\<lparr> father := Some f \<rparr>, f \<mapsto> fd\<lparr> children := children fd @ [n] \<rparr>) \<rparr>"
    using assms(2) nf by (auto simp: link_node_def bind_cpp_Inr deref_Inr Let_def)
  have none: "father nd = None" using assms(3) nd by (cases "father nd") (force simp: over_def)+
  have over: "over c' = insert (f, n) (over c)" using nd fd nf none by (auto simp: over_def c')
  note ok = assms(1) [unfolded forest_ok_def]
  have new: "n \<notin> set (children fd)" using ok fd assms(3) by (force simp: links_agree_def)
  have "links_agree c'"
    unfolding links_agree_def over using ok nd fd nf by (auto simp: links_agree_def c')
  moreover have "acyclic (over c')" unfolding over acyclic_insert using ok assms(4) by blast
  moreover have "\<forall>m md. node_heap c' m = Some md \<longrightarrow> distinct (children md)"
    using ok nd fd nf new by (auto simp: c')
  moreover have "ids_ok c'"
    using ok nd fd nf unfolding ids_ok_def c' by (auto split: if_splits)
  moreover have "dom (node_heap c') \<subseteq> {..<next_addr c'}" using ok nd fd by (auto simp: c')
  ultimately show ?thesis by (simp add: forest_ok_def)
qed

lemma compiler_start_ok: "forest_ok compiler_start"
  by (simp add: forest_ok_def compiler_start_def over_def links_agree_def ids_ok_def acyclic_def)

lemma built_forest: "built c \<Longrightarrow> forest_ok c"
proof (induction rule: built.induct)
  case (object c c' b a)
  have "node_heap c' = node_heap c \<and> next_nodeId c' = next_nodeId c \<and> next_addr c \<le> next_addr c'"
    using object.hyps(2)
    by (auto simp: createPerfInfo_def SchedStrategyUnknown_def StrategySP_def SchedStrategySP_def StrategyWFQ_def
        SchedStrategyWFQ_def StrategyPFabric_def SchedStrategyPFabric_def new_strategy_def)
  then show ?case using object.IH forest_ok_cong by blast
next
  case (attach_flow c flowId fa sh c')
  then show ?case
    by (cases fa) (auto simp: attachFlow_def dest!: attach_share_frame intro: forest_ok_cong)
next
  case (attach_node c n f sh c')
  then obtain i c1 where "link_node n f c = Inr (i, c1)" "attach_share f (py_str i) sh c1 = Inr c'"
    by (auto simp: attachNode_def bind_cpp_Inr)
  then show ?case using attach_node link_node_ok attach_share_frame by (metis forest_ok_cong order_refl)
qed (auto intro: compiler_start_ok createTreeRoot_ok createTreeNode_ok forest_ok_cong)

end
