(* ===== verification/PIFO_Paths.thy ===== *)
theory PIFO_Paths
  imports PIFO_Forest
begin

text \<open>
  The recursions of \<open>PIFOTree.cpp\<close> on the trees of \<open>PIFO_Forest\<close>: which leaves \<open>collectLeafNode\<close> finds,
  which path \<open>getUpPath\<close> follows, and the table that \<open>printPushConvertTable\<close> prints, which is the
  input of \<open>draw_path_table.py\<close>.
\<close>

section \<open>Descendants\<close>

definition below :: "compiler \<Rightarrow> nat \<Rightarrow> nat set" where
  "below c n = {m. (n, m) \<in> (over c)\<^sup>*}"

definition is_leaf :: "compiler \<Rightarrow> nat \<Rightarrow> bool" where
  "is_leaf c n \<longleftrightarrow> (\<exists>nd. node_heap c n = Some nd \<and> children nd = [])"

lemma over_dom: "forest_ok c \<Longrightarrow> (f, n) \<in> over c \<Longrightarrow> f \<in> dom (node_heap c) \<and> n \<in> dom (node_heap c)"
proof -
  assume a: "forest_ok c" "(f, n) \<in> over c"
  then have "\<exists>fd. node_heap c f = Some fd" unfolding forest_ok_def links_agree_def by blast
  moreover have "\<exists>nd. node_heap c n = Some nd" using a(2) unfolding over_def by blast
  ultimately show ?thesis by blast
qed

lemma over_child:
  assumes "forest_ok c" and "node_heap c n = Some nd"
  shows "(n, m) \<in> over c \<longleftrightarrow> m \<in> set (children nd)"
  using assms by (auto simp: forest_ok_def links_agree_def)

lemma over_finite: "forest_ok c \<Longrightarrow> finite (over c)"
proof -
  assume ok: "forest_ok c"
  have "over c \<subseteq> {..<next_addr c} \<times> {..<next_addr c}"
    using over_dom [OF ok] ok by (auto simp: forest_ok_def)
  then show ?thesis by (rule finite_subset) simp
qed

lemma below_dom: "forest_ok c \<Longrightarrow> n \<in> dom (node_heap c) \<Longrightarrow> below c n \<subseteq> dom (node_heap c)"
proof
  fix m assume n: "forest_ok c" "n \<in> dom (node_heap c)" and "m \<in> below c n"
  then have "(n, m) \<in> (over c)\<^sup>*" by (simp add: below_def)
  then show "m \<in> dom (node_heap c)" by cases (use n over_dom in blast)+
qed

lemma below_card:
  assumes "forest_ok c" and "n \<in> dom (node_heap c)"
  shows "finite (below c n)" and "card (below c n) \<le> next_addr c"
proof -
  have sub: "below c n \<subseteq> {..<next_addr c}" using below_dom [OF assms] assms(1) by (auto simp: forest_ok_def)
  then show "finite (below c n)" by (rule finite_subset) simp
  show "card (below c n) \<le> next_addr c" using card_mono [OF _ sub] by simp
qed

lemma below_step:
  assumes "forest_ok c" and "node_heap c n = Some nd"
  shows "below c n = insert n (\<Union>m \<in> set (children nd). below c m)"
proof -
  have "below c n = insert n (\<Union>m \<in> {m. (n, m) \<in> over c}. below c m)"
    by (auto simp: below_def elim: converse_rtranclE intro: converse_rtrancl_into_rtrancl)
  also have "{m. (n, m) \<in> over c} = set (children nd)" using over_child [OF assms] by auto
  finally show ?thesis .
qed

lemma below_child:
  assumes "forest_ok c" and "(n, m) \<in> over c"
  shows "below c m \<subset> below c n"
proof -
  have "n \<notin> below c m"
    using assms by (auto simp: below_def forest_ok_def acyclic_def dest: rtrancl_into_trancl2)
  moreover have "below c m \<subseteq> below c n" using assms(2) by (auto simp: below_def intro: converse_rtrancl_into_rtrancl)
  moreover have "n \<in> below c n" by (simp add: below_def)
  ultimately show ?thesis by blast
qed

lemma siblings_disjoint:
  assumes "forest_ok c" and "(n, m) \<in> over c" and "(n, k) \<in> over c" and "m \<noteq> k"
  shows "below c m \<inter> below c k = {}"
proof -
  have up: "single_valued ((over c)\<inverse>)" by (auto simp: single_valued_def over_def)
  have no: "(x, y) \<notin> (over c)\<^sup>*" if "(n, x) \<in> over c" "(n, y) \<in> over c" "x \<noteq> y" for x y
  proof
    assume "(x, y) \<in> (over c)\<^sup>*"
    with that(3) obtain z where "(x, z) \<in> (over c)\<^sup>*" "(z, y) \<in> over c" by (auto elim: rtranclE)
    moreover have "z = n" using calculation(2) that(2) by (auto simp: over_def)
    ultimately have "(n, n) \<in> (over c)\<^sup>+" using that(1) by (auto intro: rtrancl_into_trancl2)
    then show False using assms(1) by (auto simp: forest_ok_def acyclic_def)
  qed
  show ?thesis
  proof (rule ccontr)
    assume "below c m \<inter> below c k \<noteq> {}"
    then obtain b where "(b, m) \<in> ((over c)\<inverse>)\<^sup>*" "(b, k) \<in> ((over c)\<inverse>)\<^sup>*"
      by (auto simp: below_def rtrancl_converse)
    then have "(m, k) \<in> ((over c)\<inverse>)\<^sup>* \<or> (k, m) \<in> ((over c)\<inverse>)\<^sup>*" by (rule single_valued_confluent [OF up])
    then show False using no [OF assms(2,3,4)] no [OF assms(3,2)] assms(4) by (auto simp: rtrancl_converse)
  qed
qed

section \<open>Leaves\<close>

definition leaves :: "compiler \<Rightarrow> nat \<Rightarrow> nat set" where
  "leaves c n = {m \<in> below c n. is_leaf c m}"

lemma leaves_step:
  assumes "forest_ok c" and "node_heap c n = Some nd"
  shows "leaves c n = (if children nd = [] then {n} else \<Union>m \<in> set (children nd). leaves c m)"
  using below_step [OF assms] assms(2) by (auto simp: leaves_def is_leaf_def)

lemma collect_leaves:
  assumes "forest_ok c"
  shows "n \<in> dom (node_heap c) \<Longrightarrow> card (below c n) \<le> fuel \<Longrightarrow>
    \<exists>ls. collectLeafNode fuel c acc n = Inr (acc @ ls) \<and> set ls = leaves c n \<and> distinct ls"
proof (induction fuel arbitrary: n acc)
  case 0
  have "n \<in> below c n" by (simp add: below_def)
  then show ?case using 0 below_card [OF assms] by (auto simp: card_eq_0_iff)
next
  case (Suc fuel)
  obtain nd where nd: "node_heap c n = Some nd" using Suc.prems(1) by blast
  have small: "m \<in> dom (node_heap c) \<and> card (below c m) \<le> fuel" if "m \<in> set (children nd)" for m
  proof -
    have nm: "(n, m) \<in> over c" using over_child [OF assms nd] that by simp
    then have "card (below c m) < card (below c n)"
      using below_child [OF assms nm] below_card(1) [OF assms Suc.prems(1)] by (intro psubset_card_mono)
    then show ?thesis using Suc.prems(2) over_dom [OF assms nm] by simp
  qed
  have dis: "below c m \<inter> below c k = {}" if "m \<in> set (children nd)" "k \<in> set (children nd)" "m \<noteq> k" for m k
    using siblings_disjoint [OF assms, of n m k] over_child [OF assms nd] that by blast
  have list: "\<exists>ls. collect_children fuel c acc ms = Inr (acc @ ls) \<and> set ls = (\<Union>m \<in> set ms. leaves c m) \<and> distinct ls"
    if "set ms \<subseteq> set (children nd)" "distinct ms" for ms acc
    using that
  proof (induction ms arbitrary: acc)
    case (Cons m ms)
    obtain l1 where l1: "collectLeafNode fuel c acc m = Inr (acc @ l1)" "set l1 = leaves c m" "distinct l1"
      using Suc.IH [of m acc] small [of m] Cons.prems(1) by auto
    obtain l2 where l2: "collect_children fuel c (acc @ l1) ms = Inr ((acc @ l1) @ l2)"
      "set l2 = (\<Union>m \<in> set ms. leaves c m)" "distinct l2"
      using Cons.IH [of "acc @ l1"] Cons.prems by auto
    have "set l1 \<inter> set l2 = {}" unfolding l1(2) l2(2) using dis Cons.prems by (fastforce simp: leaves_def)
    with l1 l2 show ?case by (intro exI [of _ "l1 @ l2"]) simp
  qed simp
  have "distinct (children nd)" using assms nd by (simp add: forest_ok_def)
  from list [OF order_refl this] show ?case
    using leaves_step [OF assms nd] nd by (cases "children nd = []") (auto simp: deref_def)
qed

corollary collectLeafNode_ends:
  assumes "forest_ok c" and "n \<in> dom (node_heap c)"
  shows "\<exists>ls. collectLeafNode (next_addr c + 1) c [] n = Inr ls \<and> set ls = leaves c n \<and> distinct ls"
  using collect_leaves [OF assms, of "next_addr c + 1" "[]"] below_card(2) [OF assms] by simp

section \<open>Paths\<close>

text \<open>The identifiers on the way from a node to the top.\<close>

fun chain :: "compiler \<Rightarrow> nat option \<Rightarrow> int list \<Rightarrow> bool" where
  "chain c None is \<longleftrightarrow> is = []"
| "chain c (Some n) [] \<longleftrightarrow> False"
| "chain c (Some n) (i # is) \<longleftrightarrow> (\<exists>nd. node_heap c n = Some nd \<and> i = nodeId nd \<and> chain c (father nd) is)"

definition ancestors :: "compiler \<Rightarrow> nat \<Rightarrow> nat set" where
  "ancestors c n = {m. (m, n) \<in> (over c)\<^sup>*}"

lemma ancestors_card:
  assumes "forest_ok c" and "n \<in> dom (node_heap c)"
  shows "finite (ancestors c n)" and "card (ancestors c n) \<le> next_addr c"
proof -
  have "m \<in> dom (node_heap c)" if "(m, n) \<in> (over c)\<^sup>*" for m
    using that by (cases rule: converse_rtranclE) (use assms over_dom in blast)+
  then have "ancestors c n \<subseteq> dom (node_heap c)" by (auto simp: ancestors_def)
  then have sub: "ancestors c n \<subseteq> {..<next_addr c}" using assms(1) by (auto simp: forest_ok_def)
  then show "finite (ancestors c n)" by (rule finite_subset) simp
  show "card (ancestors c n) \<le> next_addr c" using card_mono [OF _ sub] by simp
qed

lemma ancestors_father:
  assumes "forest_ok c" and "(f, n) \<in> over c"
  shows "ancestors c f \<subset> ancestors c n"
proof -
  have "n \<notin> ancestors c f" using assms by (auto simp: ancestors_def forest_ok_def acyclic_def dest: rtrancl_into_trancl1)
  moreover have "ancestors c f \<subseteq> ancestors c n" using assms(2) by (auto simp: ancestors_def)
  moreover have "n \<in> ancestors c n" by (simp add: ancestors_def)
  ultimately show ?thesis by blast
qed

lemma up_path_chain:
  assumes "forest_ok c"
  shows "n \<in> dom (node_heap c) \<Longrightarrow> card (ancestors c n) < fuel \<Longrightarrow> \<exists>ids. up_path fuel c (Some n) = Inr ids \<and> chain c (Some n) ids"
proof (induction fuel arbitrary: n)
  case (Suc fuel)
  obtain nd where nd: "node_heap c n = Some nd" using Suc.prems(1) by blast
  have pos: "0 < card (ancestors c n)" using ancestors_card [OF assms Suc.prems(1)] by (auto simp: card_gt_0_iff ancestors_def)
  have "\<exists>ids. up_path fuel c (father nd) = Inr ids \<and> chain c (father nd) ids"
  proof (cases "father nd")
    case None
    then show ?thesis using pos Suc.prems(2) by (cases fuel) simp_all
  next
    case (Some f)
    then have fn: "(f, n) \<in> over c" using nd by (simp add: over_def)
    have "card (ancestors c f) < card (ancestors c n)"
      using ancestors_father [OF assms fn] ancestors_card(1) [OF assms Suc.prems(1)] by (intro psubset_card_mono)
    then show ?thesis using Suc.IH [of f] Suc.prems(2) over_dom [OF assms fn] Some by simp
  qed
  with nd show ?case by (auto simp: deref_def)
qed simp

lemma chain_unique: "chain c p is \<Longrightarrow> chain c p js \<Longrightarrow> is = js"
proof (induction c p "is" arbitrary: js rule: chain.induct)
  case (3 c n i "is")
  then show ?case by (cases js) auto
qed auto

lemma extend_path_fresh:
  assumes "k \<notin> fst ` set ps" and "sorted_wrt (<) (map fst ps)"
  shows "sorted_wrt (<) (map fst (extend_path k ids ps)) \<and> set (extend_path k ids ps) = insert (k, ids) (set ps)"
  using assms
proof (induction k ids ps rule: extend_path.induct)
  case (2 k ids j js ps)
  then show ?case by (cases k j rule: linorder_cases) force+
qed simp

text \<open>The lines of the table: a leaf and the nodes on its path.\<close>

definition path_rows :: "compiler \<Rightarrow> nat set \<Rightarrow> (int \<times> int list) set" where
  "path_rows c ls = {(nodeId nd, ids) |n nd ids. n \<in> ls \<and> node_heap c n = Some nd \<and> chain c (Some n) ids}"

lemma all_paths_rows:
  assumes "forest_ok c"
  shows "set ns \<subseteq> dom (node_heap c) \<Longrightarrow> distinct ns \<Longrightarrow> sorted_wrt (<) (map fst ps) \<Longrightarrow>
    \<forall>n \<in> set ns. \<forall>nd. node_heap c n = Some nd \<longrightarrow> nodeId nd \<notin> fst ` set ps \<Longrightarrow>
    \<exists>ps'. all_paths (next_addr c + 1) c ns ps = Inr ps' \<and> sorted_wrt (<) (map fst ps') \<and>
      set ps' = set ps \<union> path_rows c (set ns)"
proof (induction ns arbitrary: ps)
  case Nil
  then show ?case by (simp add: path_rows_def)
next
  case (Cons n ns)
  obtain nd where nd: "node_heap c n = Some nd" using Cons.prems(1) by auto
  then have dom: "n \<in> dom (node_heap c)" by blast
  obtain ids where ids: "up_path (next_addr c + 1) c (Some n) = Inr ids" "chain c (Some n) ids"
    using up_path_chain [OF assms dom, of "next_addr c + 1"] ancestors_card(2) [OF assms dom] by fastforce
  let ?ps = "extend_path (nodeId nd) ids ps"
  have fresh: "nodeId nd \<notin> fst ` set ps" using Cons.prems(4) nd by auto
  note ext = extend_path_fresh [OF fresh Cons.prems(3), of ids]
  have new: "\<forall>m \<in> set ns. \<forall>md. node_heap c m = Some md \<longrightarrow> nodeId md \<notin> fst ` set ?ps"
  proof (intro ballI allI impI)
    fix m md assume m: "m \<in> set ns" "node_heap c m = Some md"
    then have "nodeId md \<noteq> nodeId nd" using assms nd Cons.prems(2) unfolding forest_ok_def ids_ok_def by (metis distinct.simps(2))
    then show "nodeId md \<notin> fst ` set ?ps" using ext m Cons.prems(4) by auto
  qed
  obtain ps' where ps': "all_paths (next_addr c + 1) c ns ?ps = Inr ps'" "sorted_wrt (<) (map fst ps')"
    "set ps' = set ?ps \<union> path_rows c (set ns)"
    using Cons.IH [of ?ps] Cons.prems ext new by auto
  have "path_rows c (set (n # ns)) = insert (nodeId nd, ids) (path_rows c (set ns))"
    using nd ids(2) chain_unique by (auto simp: path_rows_def)
  with ps' ext ids(1) nd show ?case by (auto simp: getUpPath_def deref_def)
qed

lemma printed_table:
  assumes "forest_ok c" and "n \<in> dom (node_heap c)"
  shows "\<exists>ps. printPushConvertTable n c = Inr (unlines (map path_line ps)) \<and> sorted_wrt (<) (map fst ps) \<and>
    set ps = path_rows c (leaves c n)"
proof -
  obtain ls where ls: "collectLeafNode (next_addr c + 1) c [] n = Inr ls" "set ls = leaves c n" "distinct ls"
    using collectLeafNode_ends [OF assms] by blast
  have "set ls \<subseteq> dom (node_heap c)" using ls(2) by (auto simp: leaves_def is_leaf_def)
  then obtain ps where "all_paths (next_addr c + 1) c ls [] = Inr ps" "sorted_wrt (<) (map fst ps)"
    "set ps = path_rows c (set ls)"
    using all_paths_rows [OF assms(1), of ls "[]"] ls(3) by auto
  with ls show ?thesis by (auto simp: printPushConvertTable_def)
qed


section \<open>Properties\<close>

text \<open>C15. The calls that build a policy keep its trees in order: as long as a node is attached once and
  not below itself, fathers and children agree, no node is above itself, identifiers are different
  multiples of 10, and the search for the leaves ends with each leaf of the tree once.\<close>

theorem policy_trees_ok:
  assumes "built c" and "n \<in> dom (node_heap c)"
  shows "links_agree c \<and> acyclic (over c) \<and> ids_ok c \<and>
    (\<exists>ls. collectLeafNode (next_addr c + 1) c [] n = Inr ls \<and> set ls = leaves c n \<and> distinct ls)"
  using built_forest [OF assms(1)] collectLeafNode_ends [OF built_forest [OF assms(1)] assms(2)]
  by (simp add: forest_ok_def)

text \<open>C18. The compiler prints the path table that \<open>draw_path_table.py\<close> expects: of a policy it prints one
  line per leaf, by increasing identifier, with the identifiers on the way from the leaf to the
  top, and the script makes of them a table with exactly these rows.\<close>

theorem path_table_of_policy:
  assumes "built c" and "n \<in> dom (node_heap c)" and "rows_of_columns lib"
  shows "\<exists>ps text. printPushConvertTable n c = Inr text \<and> sorted_wrt (<) (map fst ps) \<and>
    set ps = path_rows c (leaves c n) \<and>
    draw_path_table lib inp out [inp \<mapsto> text] =
      ([inp \<mapsto> text, out \<mapsto> str_table lib [''leafNodeId'', ''path'']
         (map (\<lambda>(i, ids). (py_str i, join_sep ''->'' (map py_str ids))) ps)], None)"
proof -
  obtain ps where ps: "printPushConvertTable n c = Inr (unlines (map path_line ps))" "sorted_wrt (<) (map fst ps)"
    "set ps = path_rows c (leaves c n)"
    using printed_table [OF built_forest [OF assms(1)] assms(2)] by blast
  have "\<forall>lp \<in> set ps. snd lp \<noteq> []" unfolding ps(3) by (auto simp: path_rows_def)
  from path_table_run [OF assms(3) this, of "[inp \<mapsto> unlines (map path_line ps)]" inp out] ps show ?thesis
    by (auto simp: case_prod_unfold)
qed

text \<open>A root of strict priority with one leaf below it.\<close>

definition small_nodes :: compiler where
  "small_nodes = snd (createTreeNode (Some 1) None (snd (createTreeRoot (Some 1) None None
     (snd (SchedStrategySP 0 (snd (StrategySP compiler_start)))))))"

definition small_policy :: "compiler cpp" where
  "small_policy = attachNode 4 (Some 2) (Priority 7) small_nodes"

lemmas small_policy_defs = small_nodes_def StrategySP_def SchedStrategySP_def new_strategy_def createTreeRoot_def
  createTreeNode_def compiler_start_def

lemma small_nodes_built: "built small_nodes"
proof -
  have "built (snd (StrategySP compiler_start))" using built.object [OF built.start] by blast
  then have "built (snd (SchedStrategySP 0 (snd (StrategySP compiler_start))))" using built.object by blast
  then have "built (snd (createTreeRoot (Some 1) None None (snd (SchedStrategySP 0 (snd (StrategySP compiler_start))))))"
    using built.node by blast
  then show ?thesis unfolding small_nodes_def using built.node by blast
qed

lemma small_policy_built: "\<exists>c nd fd. small_policy = Inr c \<and> built c \<and> node_heap c 4 = Some nd \<and> nodeId nd = 10 \<and>
  father nd = Some 2 \<and> node_heap c 2 = Some fd \<and> children fd = [4] \<and> nodeId fd = 0 \<and> father fd = None \<and> children nd = []"
proof -
  have over: "over small_nodes = {}" by (simp add: over_def small_policy_defs)
  obtain c where c: "small_policy = Inr c"
    by (simp add: small_policy_def small_policy_defs attachNode_def link_node_def attach_share_def attach_priority_def
        strategy_of_def deref_def deref_ptr_def)
  then have "built c" unfolding small_policy_def by (rule built.attach_node [OF small_nodes_built]) (simp_all add: over)
  moreover have "\<exists>nd fd. node_heap c 4 = Some nd \<and> nodeId nd = 10 \<and> father nd = Some 2 \<and> node_heap c 2 = Some fd \<and>
      children fd = [4] \<and> nodeId fd = 0 \<and> father fd = None \<and> children nd = []"
    using c
    by (auto simp: small_policy_def small_policy_defs attachNode_def link_node_def attach_share_def attach_priority_def
        strategy_of_def deref_def deref_ptr_def)
  ultimately show ?thesis using c by blast
qed

theorem policy_trees_ok_witness:
  "\<exists>c ls. small_policy = Inr c \<and> collectLeafNode (next_addr c + 1) c [] 2 = Inr ls \<and> set ls = leaves c 2"
proof -
  obtain c fd where c: "small_policy = Inr c" "built c" "node_heap c 2 = Some fd" using small_policy_built by blast
  then have "2 \<in> dom (node_heap c)" by blast
  from policy_trees_ok [OF c(2) this] c(1) show ?thesis by blast
qed

theorem path_table_of_policy_witness:
  "\<exists>c ps text. small_policy = Inr c \<and> printPushConvertTable 2 c = Inr text \<and>
    snd (draw_path_table sample_lib ''in'' ''out'' [''in'' \<mapsto> text]) = None"
proof -
  obtain c fd where c: "small_policy = Inr c" "built c" "node_heap c 2 = Some fd" using small_policy_built by blast
  then have "2 \<in> dom (node_heap c)" by blast
  moreover have "rows_of_columns sample_lib" by (simp add: rows_of_columns_def sample_lib_def)
  ultimately show ?thesis using path_table_of_policy [OF c(2), of 2 sample_lib "''in''" "''out''"] c(1) by fastforce
qed

end
