(* ===== verification/BMW_Tree.thy ===== *)
theory BMW_Tree
  imports "HOL-Library.Multiset" "HOL-Library.Product_Lexorder"
begin

text \<open>
  The balanced multi-way (BMW) trees of the simulator \<open>compiler/vPIFO_trace.cpp\<close>: \<open>struct Tree\<close>,
  \<open>get_son\<close>, \<open>push\<close>, \<open>pop\<close> and \<open>top\<close> on the global array \<open>node\<close> and the counter \<open>tot\<close>. A node
  has two slots; a slot holds a pair of priority and value, the priority \<open>inf\<close> when it is
  empty, a count and the address of a son, 0 when there is none. The slots are indexed by
  \<open>bool\<close>, \<open>False\<close> for 0. The array is a function from addresses; the recursion of \<open>push\<close> and
  \<open>pop\<close> follows the addresses in it and takes fuel.
\<close>

section \<open>The store and its operations\<close>

definition inf_val :: int where "inf_val = 1000000007"

record Tree =
  min_val :: "bool \<Rightarrow> int \<times> int"
  num :: "bool \<Rightarrow> int"
  son :: "bool \<Rightarrow> nat"

definition empty_Tree :: Tree where
  "empty_Tree = \<lparr>min_val = (\<lambda>d. (inf_val, 0)), num = (\<lambda>d. 0), son = (\<lambda>d. 0)\<rparr>"

record store =
  node :: "nat \<Rightarrow> Tree"
  tot :: nat

definition set_min :: "nat \<Rightarrow> bool \<Rightarrow> int \<times> int \<Rightarrow> store \<Rightarrow> store" where
  "set_min a d v st = st\<lparr> node := (node st)(a := (node st a)\<lparr> min_val := (min_val (node st a))(d := v) \<rparr>) \<rparr>"

definition add_num :: "nat \<Rightarrow> bool \<Rightarrow> int \<Rightarrow> store \<Rightarrow> store" where
  "add_num a d k st = st\<lparr> node := (node st)(a := (node st a)\<lparr> num := (num (node st a))(d := num (node st a) d + k) \<rparr>) \<rparr>"

definition set_son :: "nat \<Rightarrow> bool \<Rightarrow> nat \<Rightarrow> store \<Rightarrow> store" where
  "set_son a d s st = st\<lparr> node := (node st)(a := (node st a)\<lparr> son := (son (node st a))(d := s) \<rparr>) \<rparr>"

definition get_son :: "nat \<Rightarrow> bool \<Rightarrow> store \<Rightarrow> nat \<times> store" where
  "get_son root d st =
     (if son (node st root) d \<noteq> 0 then (son (node st root) d, st)
      else (tot st + 1, set_son root d (tot st + 1) (st\<lparr> tot := tot st + 1 \<rparr>)))"

fun push :: "nat \<Rightarrow> store \<Rightarrow> nat \<Rightarrow> int \<times> int \<Rightarrow> store option" where
  "push 0 st root v = None"
| "push (Suc fuel) st root v =
     (if fst (min_val (node st root) False) = inf_val then Some (set_min root False v st)
      else if fst (min_val (node st root) True) = inf_val then Some (set_min root True v st)
      else
        let go_down = (num (node st root) False > num (node st root) True);
            m = min_val (node st root) go_down;
            (s, st1) = get_son root go_down st
        in case (if v < m then map_option (set_min root go_down v) (push fuel st1 s m)
                 else push fuel st1 s v) of
             None \<Rightarrow> None
           | Some st2 \<Rightarrow> Some (add_num root go_down 1 st2))"

fun pop :: "nat \<Rightarrow> store \<Rightarrow> nat \<Rightarrow> ((int \<times> int) \<times> store) option" where
  "pop 0 st root = None"
| "pop (Suc fuel) st root =
     (let go_down = (min_val (node st root) False > min_val (node st root) True);
          ret = min_val (node st root) go_down;
          st1 = set_min root go_down (inf_val, snd ret) st
      in if son (node st1 root) go_down \<noteq> 0 then
           (case pop fuel st1 (son (node st1 root) go_down) of
              None \<Rightarrow> None
            | Some (p, st2) \<Rightarrow> Some (ret, add_num root go_down (- 1) (set_min root go_down p st2)))
         else Some (ret, st1))"

definition top_val :: "store \<Rightarrow> nat \<Rightarrow> int \<times> int" where
  "top_val st root =
     min_val (node st root) (min_val (node st root) False > min_val (node st root) True)"

section \<open>Trees as values\<close>

datatype bmw = NoNode | Node "bool \<Rightarrow> int \<times> int" "bool \<Rightarrow> int" "bool \<Rightarrow> bmw"

primrec elems :: "bmw \<Rightarrow> (int \<times> int) multiset" where
  "elems NoNode = {#}"
| "elems (Node m n c) =
     (if fst (m False) = inf_val then {#} else {#m False#}) + (elems \<circ> c) False +
     (if fst (m True) = inf_val then {#} else {#m True#}) + (elems \<circ> c) True"

text \<open>The order: an empty slot has nothing below it, and what a slot holds is not above what is
  below it.\<close>

primrec ordered :: "bmw \<Rightarrow> bool" where
  "ordered NoNode \<longleftrightarrow> True"
| "ordered (Node m n c) \<longleftrightarrow>
     (\<forall>d. (ordered \<circ> c) d \<and> fst (m d) \<le> inf_val \<and> (fst (m d) = inf_val \<longrightarrow> elems (c d) = {#}) \<and>
       (\<forall>x \<in># elems (c d). m d \<le> x))"

primrec tree_push :: "bmw \<Rightarrow> int \<times> int \<Rightarrow> bmw" where
  "tree_push NoNode v = Node ((\<lambda>d. (inf_val, 0))(False := v)) (\<lambda>d. 0) (\<lambda>d. NoNode)"
| "tree_push (Node m n c) v =
     (if fst (m False) = inf_val then Node (m(False := v)) n c
      else if fst (m True) = inf_val then Node (m(True := v)) n c
      else
        let d = (n False > n True)
        in if v < m d then Node (m(d := v)) (n(d := n d + 1)) (c(d := (tree_push \<circ> c) d (m d)))
           else Node m (n(d := n d + 1)) (c(d := (tree_push \<circ> c) d v)))"

primrec tree_pop :: "bmw \<Rightarrow> (int \<times> int) \<times> bmw" where
  "tree_pop NoNode = ((inf_val, 0), NoNode)"
| "tree_pop (Node m n c) =
     (let d = (m False > m True)
      in if c d = NoNode then (m d, Node (m(d := (inf_val, snd (m d)))) n c)
         else (m d, Node (m(d := fst ((tree_pop \<circ> c) d))) (n(d := n d - 1)) (c(d := snd ((tree_pop \<circ> c) d)))))"

lemma elems_slot:
  "elems (Node m n c) =
     (if fst (m d) = inf_val then {#} else {#m d#}) + elems (c d) +
     (if fst (m (\<not> d)) = inf_val then {#} else {#m (\<not> d)#}) + elems (c (\<not> d))"
  by (cases d) auto

lemma elems_priority: "ordered t \<Longrightarrow> x \<in># elems t \<Longrightarrow> fst x < inf_val"
proof (induction t)
  case NoNode
  then show ?case by simp
next
  case (Node m n c)
  have m: "fst (m d) < inf_val" if "fst (m d) \<noteq> inf_val" for d
    using Node.prems(1) that by (auto simp: order_less_le)
  have c: "fst x < inf_val" if "x \<in># elems (c d)" for d
    using Node.IH [OF rangeI] Node.prems(1) that by auto
  from Node.prems(2) show ?case using m c by (auto split: if_splits)
qed

lemma elems_push: "fst v \<noteq> inf_val \<Longrightarrow> elems (tree_push t v) = add_mset v (elems t)"
proof (induction t arbitrary: v)
  case NoNode
  then show ?case by simp
next
  case (Node m n c)
  have IH: "elems (tree_push (c d) w) = add_mset w (elems (c d))" if "fst w \<noteq> inf_val" for d w
    using Node.IH [OF rangeI that] .
  show ?case
  proof (cases "fst (m False) = inf_val \<or> fst (m True) = inf_val")
    case True
    with Node.prems show ?thesis by auto
  next
    case False
    with Node.prems IH show ?thesis
      by (cases "n False > n True") (auto simp: Let_def)
  qed
qed

lemma ordered_push:
  assumes "ordered t" and "fst v < inf_val"
  shows "ordered (tree_push t v)"
  using assms
proof (induction t arbitrary: v)
  case NoNode
  then show ?case by auto
next
  case (Node m n c)
  have IH: "ordered (tree_push (c d) w)" if "fst w < inf_val" for d w
    using Node.IH [OF rangeI _ that] Node.prems(1) by simp
  have slot: "ordered (c d)" "fst (m d) \<le> inf_val" "fst (m d) = inf_val \<Longrightarrow> elems (c d) = {#}"
    "x \<in># elems (c d) \<Longrightarrow> m d \<le> x" for d x
    using Node.prems(1) by auto
  show ?case
  proof (cases "fst (m False) = inf_val \<or> fst (m True) = inf_val")
    case True
    with Node.prems slot show ?thesis by (auto simp: Let_def)
  next
    case False
    define d where "d = (n False > n True)"
    have md: "fst (m d) < inf_val" using False slot(2) [of d] by (cases d) auto
    have ele: "elems (tree_push (c d) w) = add_mset w (elems (c d))" if "fst w < inf_val" for w
      using elems_push that by simp
    show ?thesis
    proof (cases "v < m d")
      case True
      have "tree_push (Node m n c) v = Node (m(d := v)) (n(d := n d + 1)) (c(d := tree_push (c d) (m d)))"
        using False True by (simp add: d_def Let_def)
      moreover have "v \<le> x" if "x \<in># elems (c d)" for x using slot(4) [OF that] True by simp
      ultimately show ?thesis
        using IH [OF md, of d] ele [OF md] Node.prems(2) slot True by auto
    next
      case notless: False
      have "tree_push (Node m n c) v = Node m (n(d := n d + 1)) (c(d := tree_push (c d) v))"
        using False notless by (simp add: d_def Let_def)
      then show ?thesis
        using IH [OF Node.prems(2), of d] ele [OF Node.prems(2)] slot notless md by auto
    qed
  qed
qed

text \<open>What popping gives: with nothing stored a pair of priority \<open>inf\<close>, otherwise the least pair,
  which is removed.\<close>

definition pop_ok :: "bmw \<Rightarrow> (int \<times> int) \<times> bmw \<Rightarrow> bool" where
  "pop_ok t r \<longleftrightarrow> ordered (snd r) \<and>
     (if elems t = {#} then fst (fst r) = inf_val \<and> elems (snd r) = {#}
      else elems t = add_mset (fst r) (elems (snd r)) \<and> (\<forall>x \<in># elems t. fst r \<le> x))"

lemma least_slot:
  assumes "ordered (Node m n c)" and "d = (m False > m True)" and "x \<in># elems (Node m n c)"
  shows "m d \<le> x"
proof -
  have le: "m d \<le> m d'" for d' using assms(2) by (cases d'; cases d) auto
  have "m d' \<le> x" if "x \<in># elems (c d')" for d' using assms(1) that by auto
  with le assms(3) show ?thesis by (auto split: if_splits intro: order_trans)
qed

lemma ordered_slot:
  assumes "ordered (Node m n c)" and "ordered t" and "fst v \<le> inf_val"
    and "fst v = inf_val \<longrightarrow> elems t = {#}" and "\<forall>x \<in># elems t. v \<le> x"
  shows "ordered (Node (m(d := v)) n' (c(d := t)))"
  using assms by auto

lemma tree_pop_ok: "ordered t \<Longrightarrow> pop_ok t (tree_pop t)"
proof (induction t)
  case NoNode
  then show ?case by (simp add: pop_ok_def)
next
  case (Node m n c)
  define d where "d = (m False > m True)"
  have IH: "pop_ok (c d) (tree_pop (c d))" using Node.IH [OF rangeI] Node.prems by simp
  have slot: "ordered (c e)" "fst (m e) \<le> inf_val" "fst (m e) = inf_val \<Longrightarrow> elems (c e) = {#}" for e
    using Node.prems by auto
  define p where "p = (if c d = NoNode then (inf_val, snd (m d)) else fst (tree_pop (c d)))"
  define t' where "t' = snd (tree_pop (c d))"
  have pop: "fst (tree_pop (Node m n c)) = m d"
    "\<exists>n'. snd (tree_pop (Node m n c)) = Node (m(d := p)) n' (c(d := t'))"
    by (auto simp: d_def [symmetric] p_def t'_def Let_def)
  have sub: "elems (c d) = (if fst p = inf_val then {#} else {#p#}) + elems t'" "ordered t'" "fst p \<le> inf_val"
    "fst p = inf_val \<longrightarrow> elems t' = {#}" "\<forall>x \<in># elems t'. p \<le> x"
    using IH elems_priority [OF slot(1) [of d], of p]
    by (auto simp: pop_ok_def p_def t'_def split: if_splits)
  then have ord: "ordered (snd (tree_pop (Node m n c)))"
    using pop(2) ordered_slot [OF Node.prems sub(2,3,4,5), of d] by auto
  have rest: "elems (snd (tree_pop (Node m n c))) =
      elems (c d) + (if fst (m (\<not> d)) = inf_val then {#} else {#m (\<not> d)#}) + elems (c (\<not> d))"
    using pop(2) sub(1) by (auto simp: elems_slot [of _ _ _ d] simp del: elems.simps tree_pop.simps)
  show ?case
  proof (cases "fst (m d) = inf_val")
    case True
    have "m d \<le> m (\<not> d)" by (cases d) (auto simp: d_def)
    with True slot(2) [of "\<not> d"] have "fst (m (\<not> d)) = inf_val" by (auto simp: less_eq_prod_def)
    with True slot(3) have "elems (Node m n c) = {#}" by (simp add: elems_slot [of m n c d] del: elems.simps)
    with ord rest True slot(3) \<open>fst (m (\<not> d)) = inf_val\<close> pop(1) show ?thesis
      by (simp add: pop_ok_def del: elems.simps tree_pop.simps)
  next
    case False
    then have "elems (Node m n c) = add_mset (m d) (elems (snd (tree_pop (Node m n c))))"
      by (simp add: rest elems_slot [of m n c d] del: elems.simps tree_pop.simps)
    with ord pop(1) least_slot [OF Node.prems d_def] show ?thesis
      by (simp add: pop_ok_def del: elems.simps tree_pop.simps ordered.simps)
  qed
qed

end
