(* ===== verification/BMW_Store.thy ===== *)
theory BMW_Store
  imports BMW_Tree
begin

text \<open>
  The trees in the array: \<open>rep t st a A\<close> says that the store \<open>st\<close> holds the tree \<open>t\<close> at address \<open>a\<close>
  on exactly the addresses \<open>A\<close>. \<open>push\<close> and \<open>pop\<close> on the array do what \<open>tree_push\<close> and \<open>tree_pop\<close> do
  on the tree, return with fuel above its height, and leave every other address alone.
\<close>

section \<open>Trees in the store\<close>

primrec rep :: "bmw \<Rightarrow> store \<Rightarrow> nat \<Rightarrow> nat set \<Rightarrow> bool" where
  "rep NoNode st a A \<longleftrightarrow> a = 0 \<and> A = {}"
| "rep (Node m n c) st a A \<longleftrightarrow>
     a \<noteq> 0 \<and> min_val (node st a) = m \<and> num (node st a) = n \<and>
     (\<exists>B. (\<forall>d. (rep \<circ> c) d st (son (node st a) d) (B d)) \<and>
       B False \<inter> B True = {} \<and> a \<notin> B False \<union> B True \<and> A = insert a (B False \<union> B True))"

primrec height :: "bmw \<Rightarrow> nat" where
  "height NoNode = 0"
| "height (Node m n c) = Suc (max ((height \<circ> c) False) ((height \<circ> c) True))"

text \<open>Addresses above the counter hold nodes as the constructor leaves them.\<close>

definition fresh :: "store \<Rightarrow> bool" where
  "fresh st \<longleftrightarrow> (\<forall>x > tot st. node st x = empty_Tree)"

lemma rep_NodeI:
  assumes "a \<noteq> 0" "min_val (node st a) = m" "num (node st a) = n"
    "rep (c d) st (son (node st a) d) C" "rep (c (\<not> d)) st (son (node st a) (\<not> d)) C'"
    "C \<inter> C' = {}" "a \<notin> C \<union> C'"
  shows "rep (Node m n c) st a (insert a (C \<union> C'))"
proof -
  define B where "B e = (if e = d then C else C')" for e
  have "rep (c e) st (son (node st a) e) (B e)" for e
    using assms(4,5) by (cases e; cases d) (auto simp: B_def)
  moreover have "B False \<inter> B True = {}" "a \<notin> B False \<union> B True"
    "insert a (C \<union> C') = insert a (B False \<union> B True)"
    using assms(6,7) by (cases d; auto simp: B_def)+
  ultimately show ?thesis using assms(1-3) by auto
qed

lemma rep_NodeE:
  assumes "rep (Node m n c) st a A"
  obtains C C' where "a \<noteq> 0" "min_val (node st a) = m" "num (node st a) = n"
    "rep (c d) st (son (node st a) d) C" "rep (c (\<not> d)) st (son (node st a) (\<not> d)) C'"
    "C \<inter> C' = {}" "a \<notin> C \<union> C'" "A = insert a (C \<union> C')"
proof -
  obtain B where "\<forall>d. rep (c d) st (son (node st a) d) (B d)" "B False \<inter> B True = {}"
    "a \<notin> B False \<union> B True" "A = insert a (B False \<union> B True)" "a \<noteq> 0"
    "min_val (node st a) = m" "num (node st a) = n"
    using assms by auto
  then show thesis using that [of "B d" "B (\<not> d)"] by (cases d) auto
qed

lemma rep_children:
  "rep (Node m n c) st a A \<Longrightarrow> \<exists>C C'. a \<noteq> 0 \<and> rep (c False) st (son (node st a) False) C \<and>
     rep (c True) st (son (node st a) True) C' \<and> C \<inter> C' = {} \<and> a \<notin> C \<union> C' \<and> A = insert a (C \<union> C')"
  by auto

lemma rep_frame: "rep t st a A \<Longrightarrow> (\<And>x. x \<in> A \<Longrightarrow> node st' x = node st x) \<Longrightarrow> rep t st' a A"
proof (induction t arbitrary: a A)
  case NoNode
  then show ?case by simp
next
  case (Node m n c)
  obtain C C' where c: "a \<noteq> 0" "min_val (node st a) = m" "num (node st a) = n"
    "rep (c False) st (son (node st a) False) C" "rep (c True) st (son (node st a) True) C'"
    "C \<inter> C' = {}" "a \<notin> C \<union> C'" "A = insert a (C \<union> C')"
    using rep_NodeE [OF Node.prems(1), of False] by auto
  have "rep (c False) st' (son (node st a) False) C" "rep (c True) st' (son (node st a) True) C'"
    using Node.IH [OF rangeI c(4)] Node.IH [OF rangeI c(5)] Node.prems(2) c(8) by auto
  with c Node.prems(2) [of a] show ?case
    using rep_NodeI [of a st' m n c False C C'] by simp
qed

lemma rep_nonzero: "rep t st a A \<Longrightarrow> a \<noteq> 0 \<longleftrightarrow> t \<noteq> NoNode"
  by (cases t) auto

lemma rep_root: "rep t st a A \<Longrightarrow> t \<noteq> NoNode \<Longrightarrow> a \<in> A"
  by (cases t) auto

lemma store_simps [simp]:
  "node (set_min a d v st) x =
     (if x = a then (node st a)\<lparr> min_val := (min_val (node st a))(d := v) \<rparr> else node st x)"
  "node (add_num a d k st) x =
     (if x = a then (node st a)\<lparr> num := (num (node st a))(d := num (node st a) d + k) \<rparr> else node st x)"
  "node (set_son a d s st) x =
     (if x = a then (node st a)\<lparr> son := (son (node st a))(d := s) \<rparr> else node st x)"
  "tot (set_min a d v st) = tot st" "tot (add_num a d k st) = tot st" "tot (set_son a d s st) = tot st"
  by (simp_all add: set_min_def add_num_def set_son_def)

section \<open>Pop\<close>

lemma pop_refines:
  assumes "rep t st a A" and "t \<noteq> NoNode" and "height t \<le> fuel"
  shows "\<exists>st'. pop fuel st a = Some (fst (tree_pop t), st') \<and> rep (snd (tree_pop t)) st' a A \<and>
    tot st' = tot st \<and> (\<forall>x. x \<notin> A \<longrightarrow> node st' x = node st x)"
  using assms
proof (induction t arbitrary: fuel st a A)
  case NoNode
  then show ?case by simp
next
  case (Node m n c)
  define d where "d = (m False > m True)"
  obtain f where f: "fuel = Suc f" "height (c d) \<le> f"
    using Node.prems(3) by (cases fuel; cases d) auto
  obtain C C' where c: "a \<noteq> 0" "min_val (node st a) = m" "num (node st a) = n"
    "rep (c d) st (son (node st a) d) C" "rep (c (\<not> d)) st (son (node st a) (\<not> d)) C'"
    "C \<inter> C' = {}" "a \<notin> C \<union> C'" "A = insert a (C \<union> C')"
    using rep_NodeE [OF Node.prems(1)] by blast
  let ?st1 = "set_min a d (inf_val, snd (m d)) st"
  have c1: "rep (c d) ?st1 (son (node st a) d) C" by (rule rep_frame [OF c(4)]) (use c(7) in auto)
  show ?case
  proof (cases "c d = NoNode")
    case True
    then have s0: "son (node st a) d = 0" using c(4) by simp
    have "rep (c (\<not> d)) ?st1 (son (node st a) (\<not> d)) C'" by (rule rep_frame [OF c(5)]) (use c(7) in auto)
    then have "rep (Node (m(d := (inf_val, snd (m d)))) n c) ?st1 a A"
      unfolding c(8) using c c1 by (intro rep_NodeI [where d = d]) auto
    with s0 True f c(2,8) show ?thesis by (simp add: d_def [symmetric] Let_def)
  next
    case False
    then have s: "son (node st a) d \<noteq> 0" using rep_nonzero [OF c(4)] by simp
    obtain st2 where st2: "pop f ?st1 (son (node st a) d) = Some (fst (tree_pop (c d)), st2)"
      "rep (snd (tree_pop (c d))) st2 (son (node st a) d) C" "tot st2 = tot st"
      "\<And>x. x \<notin> C \<Longrightarrow> node st2 x = node ?st1 x"
      using Node.IH [OF rangeI c1 False f(2)] by auto
    let ?st' = "add_num a d (- 1) (set_min a d (fst (tree_pop (c d))) st2)"
    have na: "node st2 a = node ?st1 a" using st2(4) c(7) by simp
    have "rep (snd (tree_pop (c d))) ?st' (son (node st a) d) C"
      by (rule rep_frame [OF st2(2)]) (use c(7) in auto)
    moreover have "rep (c (\<not> d)) ?st' (son (node st a) (\<not> d)) C'"
    proof (rule rep_frame [OF c(5)])
      fix x assume "x \<in> C'"
      then have "x \<notin> C" "x \<noteq> a" using c(6,7) by auto
      with st2(4) [of x] show "node ?st' x = node st x" by simp
    qed
    ultimately have "rep (Node (m(d := fst (tree_pop (c d)))) (n(d := n d - 1)) (c(d := snd (tree_pop (c d))))) ?st' a A"
      unfolding c(8) using c na by (intro rep_NodeI [where d = d]) auto
    with s False f st2 c(2,8) show ?thesis by (simp add: d_def [symmetric] Let_def)
  qed
qed

section \<open>Push\<close>

text \<open>One level of \<open>push\<close>: when pushing into the son of a slot worked, the node with the new
  contents of the slot is in the store.\<close>

lemma rep_push_slot:
  assumes node: "a \<noteq> 0" "min_val (node st a) = m" "num (node st a) = n"
    and other: "rep (c (\<not> d)) st (son (node st a) (\<not> d)) C'" "C \<inter> C' = {}" "a \<notin> C \<union> C'"
    and sub: "rep t' st2 s C" "node st2 a = (node st a)\<lparr> son := (son (node st a))(d := s) \<rparr>"
      "\<And>x. x \<noteq> a \<Longrightarrow> x \<notin> C \<Longrightarrow> node st2 x = node st x"
  shows "rep (Node (m(d := v)) (n(d := n d + 1)) (c(d := t'))) (add_num a d 1 (set_min a d v st2)) a (insert a (C \<union> C'))"
    and "rep (Node m (n(d := n d + 1)) (c(d := t'))) (add_num a d 1 st2) a (insert a (C \<union> C'))"
proof -
  have "rep t' (add_num a d 1 (set_min a d v st2)) s C" "rep t' (add_num a d 1 st2) s C"
    by (rule rep_frame [OF sub(1)]; use other(3) in auto)+
  moreover have "rep (c (\<not> d)) (add_num a d 1 (set_min a d v st2)) (son (node st a) (\<not> d)) C'"
    "rep (c (\<not> d)) (add_num a d 1 st2) (son (node st a) (\<not> d)) C'"
    by (rule rep_frame [OF other(1)]; use other(2,3) sub(3) in \<open>auto simp: disjoint_iff\<close>)+
  ultimately show "rep (Node (m(d := v)) (n(d := n d + 1)) (c(d := t'))) (add_num a d 1 (set_min a d v st2)) a (insert a (C \<union> C'))"
    and "rep (Node m (n(d := n d + 1)) (c(d := t'))) (add_num a d 1 st2) a (insert a (C \<union> C'))"
    using node other(2,3) sub(2) by (intro rep_NodeI [where d = d]; auto)+
qed

lemma rep_set_min:
  assumes "rep (Node m n c) st a A"
  shows "rep (Node (m(e := v)) n c) (set_min a e v st) a A"
proof -
  obtain C C' where c: "a \<noteq> 0" "min_val (node st a) = m" "num (node st a) = n"
    "rep (c e) st (son (node st a) e) C" "rep (c (\<not> e)) st (son (node st a) (\<not> e)) C'"
    "C \<inter> C' = {}" "a \<notin> C \<union> C'" "A = insert a (C \<union> C')"
    using rep_NodeE [OF assms] by blast
  have "rep (c e) (set_min a e v st) (son (node st a) e) C"
    "rep (c (\<not> e)) (set_min a e v st) (son (node st a) (\<not> e)) C'"
    by (rule rep_frame [OF c(4)] rep_frame [OF c(5)]; use c(7) in auto)+
  then show ?thesis
    unfolding c(8) using c by (intro rep_NodeI [where d = e]) auto
qed

text \<open>What a push keeps: it adds at most one address, the next free one.\<close>

definition pushed_at :: "store \<Rightarrow> nat set \<Rightarrow> store \<Rightarrow> nat set \<Rightarrow> bool" where
  "pushed_at st A st' A' \<longleftrightarrow> fresh st' \<and>
     (tot st' = tot st \<and> A' = A \<or> tot st' = tot st + 1 \<and> A' = insert (tot st + 1) A) \<and>
     (\<forall>x. x \<notin> A' \<longrightarrow> node st' x = node st x)"

lemma push_fresh:
  assumes "node st s = empty_Tree" and "s \<noteq> 0" and "0 < f"
  shows "push f st s w = Some (set_min s False w st) \<and> rep (tree_push NoNode w) (set_min s False w st) s {s}"
  using assms by (cases f) (auto simp: empty_Tree_def intro!: exI [of _ "\<lambda>d. {}"])

lemma push_refines:
  assumes "rep t st a A" and "t \<noteq> NoNode" and "height t < fuel" and "fresh st" and "\<forall>x \<in> A. x \<le> tot st"
  shows "\<exists>st' A'. push fuel st a v = Some st' \<and> rep (tree_push t v) st' a A' \<and> pushed_at st A st' A'"
  using assms
proof (induction t arbitrary: fuel st a A v)
  case NoNode
  then show ?case by simp
next
  case (Node m n c)
  define d where "d = (n False > n True)"
  obtain f where f: "fuel = Suc f" "height (c d) < f"
    using Node.prems(3) by (cases fuel; cases d) auto
  obtain C C' where c: "a \<noteq> 0" "min_val (node st a) = m" "num (node st a) = n"
    "rep (c d) st (son (node st a) d) C" "rep (c (\<not> d)) st (son (node st a) (\<not> d)) C'"
    "C \<inter> C' = {}" "a \<notin> C \<union> C'" "A = insert a (C \<union> C')"
    using rep_NodeE [OF Node.prems(1)] by blast
  have le: "a \<le> tot st" "\<forall>x \<in> C. x \<le> tot st" "\<forall>x \<in> C'. x \<le> tot st"
    using Node.prems(5) c(8) by auto
  show ?case
  proof (cases "fst (m False) = inf_val \<or> fst (m True) = inf_val")
    case True
    define e where "e = (fst (m False) \<noteq> inf_val)"
    have "push fuel st a v = Some (set_min a e v st)" "tree_push (Node m n c) v = Node (m(e := v)) n c"
      using True f c(2) by (auto simp: e_def)
    moreover have "pushed_at st A (set_min a e v st) A"
      using Node.prems(4) le(1) c(8) by (auto simp: pushed_at_def fresh_def)
    ultimately show ?thesis using rep_set_min [OF Node.prems(1), of e v] by metis
  next
    case False
    define w where "w = (if v < m d then m d else v)"
    obtain s st1 st2 D where sub: "get_son a d st = (s, st1)" "push f st1 s w = Some st2"
      "rep (tree_push (c d) w) st2 s D" "node st2 a = (node st a)\<lparr> son := (son (node st a))(d := s) \<rparr>"
      "\<And>x. x \<noteq> a \<Longrightarrow> x \<notin> D \<Longrightarrow> node st2 x = node st x" "fresh st2"
      "tot st2 = tot st \<and> D = C \<or> tot st2 = tot st + 1 \<and> D = insert (tot st + 1) C"
    proof (cases "c d = NoNode")
      case True
      let ?s = "tot st + 1" and ?st1 = "set_son a d (tot st + 1) (st\<lparr> tot := tot st + 1 \<rparr>)"
      have C: "C = {}" "son (node st a) d = 0" using True c(4) by auto
      have "node ?st1 ?s = empty_Tree" using Node.prems(4) le(1) by (auto simp: fresh_def)
      from push_fresh [OF this, of f w] f(2) have "push f ?st1 ?s w = Some (set_min ?s False w ?st1)"
        "rep (tree_push NoNode w) (set_min ?s False w ?st1) ?s {?s}" by auto
      then show thesis
        using that [of ?s ?st1 "set_min ?s False w ?st1" "{?s}"] True C le(1) Node.prems(4)
        by (auto simp: get_son_def fresh_def)
    next
      case notNil: False
      let ?s = "son (node st a) d"
      have s: "get_son a d st = (?s, st)" using rep_nonzero [OF c(4)] notNil by (simp add: get_son_def)
      obtain st2 D where 2: "push f st ?s w = Some st2" "rep (tree_push (c d) w) st2 ?s D" "pushed_at st C st2 D"
        using Node.IH [OF rangeI c(4) notNil f(2) Node.prems(4) le(2)] by blast
      then have "a \<notin> D" using c(7) le(1) by (auto simp: pushed_at_def)
      with that [OF s 2(1,2)] 2(3) show thesis by (auto simp: pushed_at_def)
    qed
    have D: "D \<inter> C' = {}" "a \<notin> D \<union> C'" using sub(7) c(6,7) le by auto
    note slot = rep_push_slot(1) [where d = d and c = c, OF c(1,2,3,5) D sub(3,4,5), of v]
      rep_push_slot(2) [where d = d and c = c, OF c(1,2,3,5) D sub(3,4,5)]
    define st' where "st' = add_num a d 1 (if v < m d then set_min a d v st2 else st2)"
    have "push fuel st a v = Some st'"
      using False f c(2,3) sub(1,2) by (auto simp: d_def [symmetric] w_def st'_def Let_def)
    moreover have "rep (tree_push (Node m n c) v) st' a (insert a (D \<union> C'))"
      using slot False by (auto simp: d_def [symmetric] w_def st'_def Let_def simp del: rep.simps)
    moreover have "pushed_at st A st' (insert a (D \<union> C'))"
      using sub(5,6,7) le(1) c(8) by (auto simp: pushed_at_def st'_def fresh_def)
    ultimately show ?thesis by blast
  qed
qed

section \<open>Enough fuel\<close>

lemma rep_positive: "rep t st a A \<Longrightarrow> 0 \<notin> A \<and> finite A"
proof (induction t arbitrary: a A)
  case (Node m n c)
  obtain C C' where c: "a \<noteq> 0" "rep (c False) st (son (node st a) False) C"
    "rep (c True) st (son (node st a) True) C'" "A = insert a (C \<union> C')"
    using rep_children [OF Node.prems] by blast
  with Node.IH [OF rangeI c(2)] Node.IH [OF rangeI c(3)] show ?case by simp
qed simp

lemma height_card: "rep t st a A \<Longrightarrow> height t \<le> card A"
proof (induction t arbitrary: a A)
  case (Node m n c)
  obtain C C' where c: "a \<notin> C \<union> C'" "rep (c False) st (son (node st a) False) C"
    "rep (c True) st (son (node st a) True) C'" "A = insert a (C \<union> C')" "C \<inter> C' = {}"
    using rep_children [OF Node.prems] by blast
  have "finite C" "finite C'" using rep_positive c(2,3) by auto
  then have "card A = Suc (card C + card C')" using c(1,4,5) by (simp add: card_Un_disjoint)
  moreover have "height (c False) \<le> card C" "height (c True) \<le> card C'"
    using Node.IH [OF rangeI c(2)] Node.IH [OF rangeI c(3)] .
  ultimately show ?case by simp
qed simp

lemma height_tot:
  assumes "rep t st a A" and "\<forall>x \<in> A. x \<le> tot st"
  shows "height t \<le> tot st"
proof -
  have "A \<subseteq> {1..tot st}"
  proof
    fix x assume "x \<in> A"
    then have "x \<noteq> 0" "x \<le> tot st" using rep_positive [OF assms(1)] assms(2) by metis+
    then show "x \<in> {1..tot st}" by simp
  qed
  then have "card A \<le> tot st" using card_mono [of "{1..tot st}" A] by simp
  with height_card [OF assms(1)] show ?thesis by simp
qed

end
