(* ===== verification/BMW_Queue.thy ===== *)
theory BMW_Queue
  imports BMW_Store
begin

text \<open>
  The trees of the simulator as priority queues: the interface \<open>priority_queue\<close>, its client
  lemma that what is pushed comes out in order, and its interpretation on the array of
  \<open>compiler/vPIFO_trace.cpp\<close>. Several queues live in one array; an operation on one of them does
  not touch the others.
\<close>

section \<open>The interface\<close>

fun ins_all :: "('s \<Rightarrow> 'x \<Rightarrow> 's option) \<Rightarrow> 's \<Rightarrow> 'x list \<Rightarrow> 's option" where
  "ins_all ins s [] = Some s"
| "ins_all ins s (x # xs) = (case ins s x of None \<Rightarrow> None | Some s' \<Rightarrow> ins_all ins s' xs)"

fun del_all :: "('s \<Rightarrow> ('x \<times> 's) option) \<Rightarrow> nat \<Rightarrow> 's \<Rightarrow> ('x list \<times> 's) option" where
  "del_all del 0 s = Some ([], s)"
| "del_all del (Suc k) s =
     (case del s of
        None \<Rightarrow> None
      | Some (x, s') \<Rightarrow> map_option (\<lambda>(xs, s''). (x # xs, s'')) (del_all del k s'))"

locale priority_queue =
  fixes holds :: "'s \<Rightarrow> ('x :: linorder) multiset \<Rightarrow> bool"
    and ok :: "'x \<Rightarrow> bool"
    and ins :: "'s \<Rightarrow> 'x \<Rightarrow> 's option"
    and del :: "'s \<Rightarrow> ('x \<times> 's) option"
  assumes ins_holds: "holds s M \<Longrightarrow> ok x \<Longrightarrow> \<exists>s'. ins s x = Some s' \<and> holds s' (add_mset x M)"
    and del_holds: "holds s (add_mset y M) \<Longrightarrow>
      \<exists>x s' M'. del s = Some (x, s') \<and> holds s' M' \<and> add_mset y M = add_mset x M' \<and> (\<forall>z \<in># M'. x \<le> z)"
begin

lemma ins_all_holds:
  "holds s M \<Longrightarrow> list_all ok xs \<Longrightarrow> \<exists>s'. ins_all ins s xs = Some s' \<and> holds s' (mset xs + M)"
proof (induction xs arbitrary: s M)
  case (Cons x xs)
  then obtain s' where "ins s x = Some s'" "holds s' (add_mset x M)" using ins_holds by force
  with Cons.IH [of s' "add_mset x M"] Cons.prems(2) show ?case by simp
qed simp

lemma del_all_sorts:
  "holds s M \<Longrightarrow> \<exists>s'. del_all del (size M) s = Some (sorted_list_of_multiset M, s') \<and> holds s' {#}"
proof (induction "size M" arbitrary: s M)
  case 0
  then show ?case by simp
next
  case (Suc k)
  then obtain y N where M: "M = add_mset y N" by (cases M) auto
  obtain x s' M' where d: "del s = Some (x, s')" "holds s' M'" "M = add_mset x M'" "\<forall>z \<in># M'. x \<le> z"
    using del_holds [of s y N] Suc.prems M by auto
  obtain s'' where "del_all del (size M') s' = Some (sorted_list_of_multiset M', s'')" "holds s'' {#}"
    using Suc.hyps(1) [of M' s'] Suc.hyps(2) d by auto
  moreover have "sorted_list_of_multiset M = x # sorted_list_of_multiset M'"
    using d(3,4) by (simp add: insort_is_Cons)
  ultimately show ?case using d by simp
qed

lemma push_pop_sorts:
  assumes "holds s {#}" and "list_all ok xs"
  shows "\<exists>s1 s2. ins_all ins s xs = Some s1 \<and> del_all del (length xs) s1 = Some (sort xs, s2) \<and> holds s2 {#}"
proof -
  obtain s1 where s1: "ins_all ins s xs = Some s1" "holds s1 (mset xs)" using ins_all_holds [OF assms] by auto
  with del_all_sorts [OF s1(2)] show ?thesis by auto
qed

end

section \<open>A queue in the array\<close>

definition queue_at :: "nat \<Rightarrow> nat set \<Rightarrow> store \<Rightarrow> (int \<times> int) multiset \<Rightarrow> bool" where
  "queue_at a A st M \<longleftrightarrow>
     (\<exists>t. rep t st a A \<and> t \<noteq> NoNode \<and> ordered t \<and> elems t = M \<and> (\<forall>x \<in> A. x \<le> tot st))"

text \<open>The recursion of a call is at most as deep as there are nodes.\<close>

definition push_call :: "nat \<Rightarrow> store \<Rightarrow> int \<times> int \<Rightarrow> store option" where
  "push_call a st v = push (tot st + 1) st a v"

definition pop_call :: "nat \<Rightarrow> store \<Rightarrow> ((int \<times> int) \<times> store) option" where
  "pop_call a st = pop (tot st) st a"

lemma queue_at_frame:
  assumes "queue_at b B st N" and "\<And>x. x \<in> B \<Longrightarrow> node st' x = node st x" and "tot st \<le> tot st'"
  shows "queue_at b B st' N"
proof -
  obtain t where t: "rep t st b B" "t \<noteq> NoNode" "ordered t" "elems t = N" "\<forall>x \<in> B. x \<le> tot st"
    using assms(1) by (auto simp: queue_at_def)
  have "rep t st' b B" using t(1) assms(2) by (rule rep_frame)
  moreover have "\<forall>x \<in> B. x \<le> tot st'" using t(5) assms(3) by auto
  ultimately show ?thesis using t(2-4) unfolding queue_at_def by blast
qed

lemma push_call_queue:
  assumes "queue_at a A st M" and "fresh st" and "fst v < inf_val"
  shows "\<exists>st' A'. push_call a st v = Some st' \<and> queue_at a A' st' (add_mset v M) \<and> pushed_at st A st' A'"
proof -
  obtain t where t: "rep t st a A" "t \<noteq> NoNode" "ordered t" "elems t = M" "\<forall>x \<in> A. x \<le> tot st"
    using assms(1) by (auto simp: queue_at_def)
  have "height t < tot st + 1" using height_tot [OF t(1,5)] by simp
  then obtain st' A' where p: "push (tot st + 1) st a v = Some st'" "rep (tree_push t v) st' a A'" "pushed_at st A st' A'"
    using push_refines [OF t(1,2) _ assms(2) t(5)] by blast
  moreover have "\<forall>x \<in> A'. x \<le> tot st'" using p(3) t(5) by (auto simp: pushed_at_def)
  moreover have "tree_push t v \<noteq> NoNode" by (cases t) (auto simp: Let_def)
  ultimately show ?thesis
    using ordered_push [OF t(3) assms(3)] elems_push [of v t] assms(3) t(4)
    unfolding queue_at_def push_call_def by (metis order_less_irrefl)
qed

lemma pop_call_queue:
  assumes "queue_at a A st M"
  shows "\<exists>x st' M'. pop_call a st = Some (x, st') \<and> queue_at a A st' M' \<and> x = top_val st a \<and>
    (if M = {#} then fst x = inf_val \<and> M' = {#} else M = add_mset x M' \<and> (\<forall>z \<in># M. x \<le> z)) \<and>
    tot st' = tot st \<and> (\<forall>y. y \<notin> A \<longrightarrow> node st' y = node st y)"
proof -
  obtain t where t: "rep t st a A" "t \<noteq> NoNode" "ordered t" "elems t = M" "\<forall>x \<in> A. x \<le> tot st"
    using assms(1) by (auto simp: queue_at_def)
  obtain st' where p: "pop (tot st) st a = Some (fst (tree_pop t), st')" "rep (snd (tree_pop t)) st' a A"
    "tot st' = tot st" "\<forall>x. x \<notin> A \<longrightarrow> node st' x = node st x"
    using pop_refines [OF t(1,2) height_tot [OF t(1,5)]] by blast
  have ok: "pop_ok t (tree_pop t)" using tree_pop_ok [OF t(3)] .
  have "snd (tree_pop t) \<noteq> NoNode" "fst (tree_pop t) = top_val st a"
    using t(1,2) by (cases t; auto simp: Let_def top_val_def)+
  then have "queue_at a A st' (elems (snd (tree_pop t)))"
    using p t(5) ok by (auto simp: queue_at_def pop_ok_def)
  with p ok t(4) \<open>fst (tree_pop t) = top_val st a\<close> show ?thesis
    unfolding pop_call_def pop_ok_def by (intro exI [of _ "fst (tree_pop t)"] exI [of _ st'] exI [of _ "elems (snd (tree_pop t))"]) auto
qed

lemma pop_call_fresh:
  assumes "queue_at a A st M" and "fresh st" and "tot st' = tot st" and "\<forall>y. y \<notin> A \<longrightarrow> node st' y = node st y"
  shows "fresh st'"
proof -
  have "\<forall>x \<in> A. x \<le> tot st" using assms(1) by (auto simp: queue_at_def)
  then show ?thesis using assms(2-4) unfolding fresh_def by (metis linorder_not_less)
qed

interpretation bmw_queue: priority_queue "\<lambda>st M. \<exists>A. queue_at a A st M \<and> fresh st" "\<lambda>v. fst v < inf_val"
  "push_call a" "pop_call a" for a
proof
  show "\<exists>s'. push_call a st v = Some s' \<and> (\<exists>A. queue_at a A s' (add_mset v M) \<and> fresh s')"
    if "\<exists>A. queue_at a A st M \<and> fresh st" "fst v < inf_val" for st v M
    using that push_call_queue by (metis pushed_at_def)
  show "\<exists>x s' M'. pop_call a st = Some (x, s') \<and> (\<exists>A. queue_at a A s' M' \<and> fresh s') \<and>
      add_mset y M = add_mset x M' \<and> (\<forall>z \<in># M'. x \<le> z)"
    if q: "\<exists>A. queue_at a A st (add_mset y M) \<and> fresh st" for st y M
  proof -
    obtain A where A: "queue_at a A st (add_mset y M)" "fresh st" using q by blast
    have ne: "add_mset y M \<noteq> {#}" by simp
    obtain x st' M' where p: "pop_call a st = Some (x, st')" "queue_at a A st' M'"
      "add_mset y M = add_mset x M'" "\<forall>z \<in># add_mset y M. x \<le> z" "tot st' = tot st"
      "\<forall>y. y \<notin> A \<longrightarrow> node st' y = node st y"
      using pop_call_queue [OF A(1)] unfolding if_not_P [OF ne] by blast
    have "\<forall>z \<in># M'. x \<le> z" using p(3,4) by simp
    with p(1,2,3) pop_call_fresh [OF A p(5,6)] show ?thesis by blast
  qed
qed

text \<open>\<open>main\<close> takes the roots of the \<open>M = 40\<close> trees from the array, in which all nodes are empty.\<close>

definition M_TREES :: nat where "M_TREES = 40"

definition global_store :: store where
  "global_store = \<lparr>node = (\<lambda>a. empty_Tree), tot = 0\<rparr>"

fun init_trees :: "nat \<Rightarrow> store \<Rightarrow> nat list \<times> store" where
  "init_trees 0 st = ([], st)"
| "init_trees (Suc k) st =
     (let st1 = st\<lparr> tot := tot st + 1 \<rparr>; (roots, st2) = init_trees k st1 in (tot st1 # roots, st2))"

definition tree :: "nat \<Rightarrow> nat" where
  "tree i = fst (init_trees M_TREES global_store) ! i"

definition init_store :: store where
  "init_store = snd (init_trees M_TREES global_store)"

lemma init_trees_eq: "init_trees k st = (map (\<lambda>i. tot st + i + 1) [0..<k], st\<lparr> tot := tot st + k \<rparr>)"
proof (induction k arbitrary: st)
  case (Suc k)
  have "[0..<Suc k] = 0 # map Suc [0..<k]" by (simp add: upt_conv_Cons map_Suc_upt del: upt_Suc)
  then show ?case using Suc by (simp add: comp_def del: upt_Suc)
qed simp

lemma init_store_eq: "init_store = \<lparr>node = (\<lambda>a. empty_Tree), tot = M_TREES\<rparr>"
  by (simp add: init_store_def init_trees_eq global_store_def)

lemma tree_eq: "i < M_TREES \<Longrightarrow> tree i = i + 1"
  by (simp add: tree_def init_trees_eq global_store_def)

lemma init_queue: "i < M_TREES \<Longrightarrow> queue_at (tree i) {tree i} init_store {#}"
  by (auto simp: queue_at_def init_store_eq tree_eq M_TREES_def empty_Tree_def
      intro!: exI [of _ "Node (\<lambda>d. (inf_val, 0)) (\<lambda>d. 0) (\<lambda>d. NoNode)"] exI [of _ "\<lambda>d. {}"])

lemma init_fresh: "fresh init_store"
  by (simp add: fresh_def init_store_eq)

section \<open>More fuel changes nothing\<close>

lemma push_more_fuel: "push f st a v = Some st' \<Longrightarrow> f \<le> f' \<Longrightarrow> push f' st a v = Some st'"
proof (induction f arbitrary: f' st a v st')
  case (Suc f)
  then obtain g where g: "f' = Suc g" "f \<le> g" by (cases f') auto
  define d where "d = (num (node st a) False > num (node st a) True)"
  obtain s st1 where son: "get_son a d st = (s, st1)" by (cases "get_son a d st")
  have IH: "push g st1 s w = push f st1 s w" if some: "push f st1 s w \<noteq> None" for w
  proof -
    obtain y where y: "push f st1 s w = Some y" using some by blast
    show ?thesis using Suc.IH [OF y g(2)] y by simp
  qed
  have "push f st1 s (if v < min_val (node st a) d then min_val (node st a) d else v) \<noteq> None"
    if "fst (min_val (node st a) False) \<noteq> inf_val" "fst (min_val (node st a) True) \<noteq> inf_val"
    using Suc.prems(1) that son by (auto simp: Let_def d_def [symmetric] split: if_splits option.splits)
  with Suc.prems(1) son IH g(1) show ?case
    by (auto simp: Let_def d_def [symmetric] split: if_splits)
qed simp

lemma pop_more_fuel: "pop f st a = Some r \<Longrightarrow> f \<le> f' \<Longrightarrow> pop f' st a = Some r"
proof (induction f arbitrary: f' st a r)
  case (Suc f)
  then obtain g where g: "f' = Suc g" "f \<le> g" by (cases f') auto
  have IH: "pop g st1 s = Some q" if "pop f st1 s = Some q" for st1 s q
    using Suc.IH [OF that g(2)] .
  from Suc.prems(1) g(1) show ?case
    by (auto simp: Let_def dest!: IH split: if_splits option.splits)
qed simp

section \<open>Properties\<close>

text \<open>C11. A push into a queue in the array returns, adds exactly the pushed pair to the queue,
  takes at most one new node, and leaves every queue on other nodes as it was.\<close>

theorem bmw_push_queue:
  assumes "queue_at a A st M" and "fresh st" and "fst v < inf_val"
  shows "\<exists>st' A'. push_call a st v = Some st' \<and> queue_at a A' st' (add_mset v M) \<and> fresh st' \<and>
    tot st' \<le> tot st + 1 \<and>
    (queue_at b B st N \<and> A \<inter> B = {} \<longrightarrow> queue_at b B st' N \<and> A' \<inter> B = {})"
proof -
  obtain st' A' where p: "push_call a st v = Some st'" "queue_at a A' st' (add_mset v M)" "pushed_at st A st' A'"
    using push_call_queue [OF assms] by blast
  have "queue_at b B st' N \<and> A' \<inter> B = {}" if q: "queue_at b B st N" "A \<inter> B = {}"
  proof
    have "\<forall>x \<in> B. x \<le> tot st" using q(1) by (auto simp: queue_at_def)
    then show dis: "A' \<inter> B = {}" using p(3) q(2) by (auto simp: pushed_at_def)
    show "queue_at b B st' N"
      by (rule queue_at_frame [OF q(1)]) (use p(3) dis in \<open>auto simp: pushed_at_def\<close>)
  qed
  with p show ?thesis by (auto simp: pushed_at_def)
qed

text \<open>C10. A pop returns what \<open>top\<close> shows: the least pair of the queue, which it removes, or a pair
  of priority \<open>inf\<close> when the queue is empty. It takes no node and leaves every queue on other
  nodes as it was.\<close>

theorem bmw_pop_queue:
  assumes "queue_at a A st M" and "fresh st"
  shows "\<exists>x st' M'. pop_call a st = Some (x, st') \<and> x = top_val st a \<and> queue_at a A st' M' \<and> fresh st' \<and>
    (if M = {#} then fst x = inf_val \<and> M' = {#} else M = add_mset x M' \<and> (\<forall>z \<in># M. x \<le> z)) \<and>
    tot st' = tot st \<and> (queue_at b B st N \<and> A \<inter> B = {} \<longrightarrow> queue_at b B st' N)"
proof -
  obtain x st' M' where p: "pop_call a st = Some (x, st')" "queue_at a A st' M'" "x = top_val st a"
    "if M = {#} then fst x = inf_val \<and> M' = {#} else M = add_mset x M' \<and> (\<forall>z \<in># M. x \<le> z)"
    "tot st' = tot st" "\<forall>y. y \<notin> A \<longrightarrow> node st' y = node st y"
    using pop_call_queue [OF assms(1)] by blast
  have "queue_at b B st' N" if "queue_at b B st N" "A \<inter> B = {}"
    by (rule queue_at_frame [OF that(1)]) (use p(5,6) that(2) in auto)
  with p pop_call_fresh [OF assms p(5,6)] show ?thesis by blast
qed

text \<open>C32. The recursions end: on a queue in the array \<open>push\<close> and \<open>pop\<close> return for every fuel above
  the number of nodes in use, and always with the same result.\<close>

theorem bmw_recursion_ends:
  assumes "queue_at a A st M" and "fresh st" and "fst v < inf_val" and "tot st < fuel"
  shows "push fuel st a v \<noteq> None \<and> push fuel st a v = push_call a st v \<and>
    pop fuel st a \<noteq> None \<and> pop fuel st a = pop_call a st"
proof -
  obtain st' where "push (tot st + 1) st a v = Some st'"
    using push_call_queue [OF assms(1-3)] by (auto simp: push_call_def)
  moreover obtain r where "pop (tot st) st a = Some r"
    using pop_call_queue [OF assms(1)] by (auto simp: pop_call_def)
  ultimately show ?thesis
    using assms(4) push_more_fuel [of "tot st + 1" st a v st' fuel] pop_more_fuel [of "tot st" st a r fuel]
    by (simp add: push_call_def pop_call_def)
qed


theorem bmw_push_queue_witness:
  "queue_at (tree 3) {tree 3} init_store {#} \<and>
   (\<exists>st' A'. push_call (tree 3) init_store (7, 1) = Some st' \<and> queue_at (tree 3) A' st' {#(7, 1)#} \<and>
     queue_at (tree 4) {tree 4} st' {#})"
proof
  show q: "queue_at (tree 3) {tree 3} init_store {#}" by (rule init_queue) (simp add: M_TREES_def)
  have "queue_at (tree 4) {tree 4} init_store {#}" "{tree 3} \<inter> {tree 4} = {}"
    by (rule init_queue) (simp_all add: tree_eq M_TREES_def)
  then show "\<exists>st' A'. push_call (tree 3) init_store (7, 1) = Some st' \<and> queue_at (tree 3) A' st' {#(7, 1)#} \<and>
     queue_at (tree 4) {tree 4} st' {#}"
    using bmw_push_queue [OF q init_fresh, of "(7, 1)" "tree 4" "{tree 4}" "{#}"] by (auto simp: inf_val_def)
qed

theorem bmw_pop_queue_witness:
  "\<exists>x st'. pop_call (tree 3) init_store = Some (x, st') \<and> fst x = inf_val"
  using bmw_pop_queue [OF init_queue [of 3] init_fresh, of "tree 4" "{tree 4}" "{#}"]
  by (auto simp: M_TREES_def)

theorem bmw_recursion_ends_witness:
  "queue_at (tree 3) {tree 3} init_store {#} \<and> push 41 init_store (tree 3) (7, 1) \<noteq> None"
proof
  show q: "queue_at (tree 3) {tree 3} init_store {#}" by (rule init_queue) (simp add: M_TREES_def)
  have "tot init_store < 41" "fst (7 :: int, 1 :: int) < inf_val"
    by (simp_all add: init_store_eq M_TREES_def inf_val_def)
  then show "push 41 init_store (tree 3) (7, 1) \<noteq> None"
    using bmw_recursion_ends [OF q init_fresh] by blast
qed


text \<open>The counts do not stay the sizes of the subtrees: popping a slot whose son is empty still
  takes one off the count. After three pushes and three pops the root of a tree has a
  negative count, although nothing is stored.\<close>

theorem bmw_count_negative:
  "map_option (\<lambda>r. num (node (snd r) (tree 0)) False)
     (Option.bind (ins_all (push_call (tree 0)) init_store [(1, 0), (2, 0), (3, 0)])
       (del_all (pop_call (tree 0)) 3)) = Some (- 1)"
  by code_simp

end
