(* ===== verification/Sim_Loop.thy ===== *)
theory Sim_Loop
  imports Sim_Log BMW_Queue
begin

text \<open>
  The scheduling loop of the simulator \<open>compiler/vPIFO_trace.cpp\<close>: per-flow queues of packets,
  task lists, a ring of units (\<open>RPU\<close>) that work on tasks, and the BMW trees. The global variables
  are the fields of the record \<open>sim\<close>, an array is a function from its index; \<open>run_cycle\<close> is one
  turn of the loop in \<open>main\<close>. What is printed is the list of events \<open>log_out\<close>. An operation that
  calls \<open>push\<close> or \<open>pop\<close> of a tree, or a loop that might not end, gives an option.
\<close>

section \<open>Data\<close>

definition L_CYCLES :: int where "L_CYCLES = 8"

definition N_RPU :: int where "N_RPU = 40"

definition S_WAIT :: int where "S_WAIT = 1000000007"

definition FLOW_NUM :: int where "FLOW_NUM = 6"

datatype Type = Push_task | Pop_task | WriteBack | Locked | Empty

record Task =
  task_type :: Type
  root :: int
  TTL :: int
  rank :: int
  val :: int

text \<open>The three constructors; a member that a constructor leaves out is 0.\<close>

definition no_task :: Task where
  "no_task = \<lparr>task_type = Empty, root = 0, TTL = 0, rank = 0, val = 0\<rparr>"

definition task2 :: "Type \<Rightarrow> int \<Rightarrow> Task" where
  "task2 t r = \<lparr>task_type = t, root = r, TTL = L_CYCLES, rank = 0, val = 0\<rparr>"

definition task4 :: "Type \<Rightarrow> int \<Rightarrow> int \<Rightarrow> int \<Rightarrow> Task" where
  "task4 t r rk v = \<lparr>task_type = t, root = r, TTL = L_CYCLES, rank = rk, val = v\<rparr>"

record A_Push =
  treeid :: int
  meta :: int
  p0 :: int
  p1 :: int

record sim =
  trees :: store
  RPU :: "int \<Rightarrow> Task"
  task_list :: "int \<Rightarrow> Task list"
  perFlowPushQueue :: "int \<Rightarrow> A_Push list"
  perFlowPopQueue :: "int \<Rightarrow> int"
  PFMap :: "int \<Rightarrow> int option"
  log_out :: "log_event list"
  push_cnt :: int
  pop_cnt :: int
  cycle :: int
  skipping_flag :: int
  task_list_empty_cnt :: int
  wait_time :: "int \<Rightarrow> int"
  locked :: "int \<Rightarrow> bool"
  beggar :: int
  task_num :: "int \<Rightarrow> int"
  send_count :: "int \<Rightarrow> int"
  push_num :: "int \<Rightarrow> int"
  pop_num :: "int \<Rightarrow> int"
  push_sum :: int
  pop_sum :: int
  use_num :: int
  starve_count :: int
  hungry_count :: int
  hungry_delay :: int

abbreviation incr :: "int \<Rightarrow> int \<Rightarrow> (int \<Rightarrow> int) \<Rightarrow> int \<Rightarrow> int" where
  "incr i k a \<equiv> a(i := a i + k)"

text \<open>\<open>for (int i = 0; i < n; ++i)\<close> over a body that may fail.\<close>

fun for_each :: "(int \<Rightarrow> 's \<Rightarrow> 's option) \<Rightarrow> int list \<Rightarrow> 's \<Rightarrow> 's option" where
  "for_each f [] s = Some s"
| "for_each f (i # is) s = Option.bind (f i s) (for_each f is)"

section \<open>Task lists\<close>

definition push_task :: "int \<Rightarrow> Task \<Rightarrow> sim \<Rightarrow> sim" where
  "push_task i t s =
     (let s1 = (if task_list s i = [] then s\<lparr> wait_time := (wait_time s)(i := 0) \<rparr> else s)
      in s1\<lparr> task_list := (task_list s1)(i := task_list s1 i @ [t]) \<rparr>)"

definition pop_task :: "int \<Rightarrow> sim \<Rightarrow> sim" where
  "pop_task i s =
     (let s1 = s\<lparr> task_list := (task_list s)(i := tl (task_list s i)) \<rparr>;
          s2 = (if wait_time s1 i > S_WAIT then
                  let s' = s1\<lparr> hungry_count := hungry_count s1 + 1,
                               hungry_delay := hungry_delay s1 + (wait_time s1 i - S_WAIT) \<rparr>
                  in if beggar s' = i then s'\<lparr> beggar := - 1, locked := (\<lambda>_. False) \<rparr> else s'
                else s1)
      in s2\<lparr> wait_time := (wait_time s2)(i := (if task_list s2 i = [] then - inf_val else 0)) \<rparr>)"

definition check_task_list_empty :: "sim \<Rightarrow> sim" where
  "check_task_list_empty s =
     (if list_all (\<lambda>i. task_list s i = []) [0..N_RPU - 1]
      then s\<lparr> task_list_empty_cnt := task_list_empty_cnt s - 1 \<rparr> else s)"

section \<open>Output and per-flow queues\<close>

definition write_push :: "int \<Rightarrow> sim \<Rightarrow> sim" where
  "write_push m s = s\<lparr> log_out := log_out s @ [Push_cyc m (push_cnt s)], push_cnt := push_cnt s + 1 \<rparr>"

definition write_pop :: "int \<Rightarrow> sim \<Rightarrow> sim" where
  "write_pop m s = s\<lparr> log_out := log_out s @ [Pop_cyc m (pop_cnt s)], pop_cnt := pop_cnt s + 1 \<rparr>"

definition noPop :: "sim \<Rightarrow> bool" where
  "noPop s \<longleftrightarrow> list_all (\<lambda>i. \<not> perFlowPopQueue s i > 0) [0..FLOW_NUM - 1]"

definition noPush :: "sim \<Rightarrow> bool" where
  "noPush s \<longleftrightarrow> list_all (\<lambda>i. perFlowPushQueue s i = []) [0..FLOW_NUM - 1]"

definition push_flow :: "int \<Rightarrow> sim \<Rightarrow> sim" where
  "push_flow cur s =
     (case perFlowPushQueue s cur of
        [] \<Rightarrow> s
      | a # q \<Rightarrow>
          (let s1 = s\<lparr> perFlowPushQueue := (perFlowPushQueue s)(cur := q) \<rparr>;
               s2 = push_task (treeid a mod N_RPU) (task4 Push_task (treeid a) (p0 a) (meta a)) s1;
               s3 = write_push (meta a) s2;
               s4 = push_task 0 (task4 Push_task 0 (p1 a) (treeid a)) s3
           in s4\<lparr> task_num := incr (treeid a) 1 (incr 0 1 (task_num s4)) \<rparr>))"

definition try_push_push_task :: "sim \<Rightarrow> sim" where
  "try_push_push_task s = fold push_flow [0..FLOW_NUM - 1] s"

text \<open>\<open>top(tree[i])\<close>; \<open>PFMap[m]\<close> enters a flow 0 for a packet that is not in the map.\<close>

definition top_of :: "sim \<Rightarrow> int \<Rightarrow> int \<times> int" where
  "top_of s i = top_val (trees s) (tree (nat i))"

definition try_push_pop_task :: "sim \<Rightarrow> sim" where
  "try_push_pop_task s =
     (if fst (top_of s 0) \<noteq> inf_val \<and> fst (top_of s (snd (top_of s 0))) \<noteq> inf_val then
        let pop_meta = snd (top_of s (snd (top_of s 0)));
            cur_flow = (case PFMap s pop_meta of None \<Rightarrow> 0 | Some f \<Rightarrow> f);
            s1 = s\<lparr> PFMap := (PFMap s)(pop_meta \<mapsto> cur_flow) \<rparr>
        in if perFlowPopQueue s1 cur_flow > 0 then
             let s2 = s1\<lparr> perFlowPopQueue := incr cur_flow (- 1) (perFlowPopQueue s1) \<rparr>;
                 s3 = push_task 0 (task2 Pop_task 0) s2
             in s3\<lparr> task_num := incr 0 (- 1) (task_num s3) \<rparr>
           else s1
      else s)"

section \<open>One cycle\<close>

text \<open>Statistics before updating status: a task that was sent in the last cycle takes effect.\<close>

definition stat_unit :: "int \<Rightarrow> sim \<Rightarrow> sim option" where
  "stat_unit i s =
     (let t = RPU s i;
          s1 = (if task_type t \<in> {Push_task, Pop_task, WriteBack} then s\<lparr> use_num := use_num s + 1 \<rparr> else s)
      in if TTL t = L_CYCLES then
           if task_type t = Pop_task then
             Option.bind (pop_call (tree (nat (root t))) (trees s1)) (\<lambda>(pa, st).
               let s2 = s1\<lparr> trees := st \<rparr>
               in if root t = 0 then
                    let s3 = push_task (snd pa mod N_RPU) (task2 Pop_task (snd pa)) s2
                    in Some (s3\<lparr> task_num := incr (snd pa) (- 1) (task_num s3) \<rparr>)
                  else Some (write_pop (snd pa)
                    (s2\<lparr> pop_sum := pop_sum s2 + 1, pop_num := incr (root t) 1 (pop_num s2) \<rparr>)))
           else if root t \<noteq> 0 then
             Some (s1\<lparr> push_sum := push_sum s1 + 1, push_num := incr (root t) 1 (push_num s1) \<rparr>)
           else Some s1
         else Some s1)"

text \<open>Pass down the existing tasks: \<open>nt\<close> is the scrolling array of two tasks.\<close>

definition aged :: "Task \<Rightarrow> Task" where
  "aged t = t\<lparr> TTL := TTL t - 1 \<rparr>"

definition pass_unit :: "int \<Rightarrow> (int \<Rightarrow> Task) \<times> (int \<Rightarrow> Task) \<Rightarrow> (int \<Rightarrow> Task) \<times> (int \<Rightarrow> Task)" where
  "pass_unit i = (\<lambda>(rpu, nt).
     let j = i mod 2;
         nt1 = nt(j := aged (rpu i))
     in if task_type (rpu i) = Pop_task then (rpu(i := (rpu i)\<lparr> task_type := WriteBack \<rparr>), nt1)
        else if TTL (nt1 (1 - j)) > 0 then (rpu(i := nt1 (1 - j)), nt1)
        else (rpu(i := (rpu i)\<lparr> task_type := Empty, TTL := 0 \<rparr>), nt1))"

definition pass_down :: "sim \<Rightarrow> sim" where
  "pass_down s =
     s\<lparr> RPU := fst (fold pass_unit [0..N_RPU - 1] (RPU s, (\<lambda>_. no_task)(1 := aged (RPU s (N_RPU - 1))))) \<rparr>"

text \<open>Send new tasks to the units that are free.\<close>

definition send_unit :: "int \<Rightarrow> sim \<Rightarrow> sim option" where
  "send_unit i s =
     (let s1 = s\<lparr> wait_time := incr i 1 (wait_time s) \<rparr>
      in if task_type (RPU s1 i) = Empty \<and> \<not> locked s1 i then
           case task_list s1 i of
             [] \<Rightarrow> Some s1
           | t # _ \<Rightarrow>
               (let s2 = s1\<lparr> send_count := incr i 1 (send_count s1) \<rparr>
                in if task_type t = Push_task then
                     Option.bind (push_call (tree (nat (root t))) (trees s2) (rank t, val t)) (\<lambda>st.
                       Some (pop_task i (s2\<lparr> RPU := (RPU s2)(i := t), trees := st \<rparr>)))
                   else
                     let j = (i - 1 + N_RPU) mod N_RPU
                     in if TTL (RPU s2 j) \<le> 1 then
                          let s3 = pop_task i (s2\<lparr> RPU := (RPU s2)(i := t) \<rparr>);
                              r = RPU s3 j;
                              r1 = (if task_type r = Empty then r\<lparr> task_type := Locked \<rparr> else r)
                          in Some (s3\<lparr> RPU := (RPU s3)(j := r1\<lparr> TTL := 1 \<rparr>) \<rparr>)
                        else Some s2)
         else Some s1)"

text \<open>Anti-starvation. The condition that looks for a place is written as the compiler reads it,
  with the comparison and the disjunction before the conditional operator, and its value is
  a number that is not zero.\<close>

definition place_free :: "sim \<Rightarrow> int \<Rightarrow> bool" where
  "place_free s j \<longleftrightarrow>
     (if locked s j \<or> TTL (RPU s j) \<le> (if j < beggar s then 1 else 0) then beggar s - j
      else beggar s + N_RPU - j) \<noteq> 0"

fun find_place :: "nat \<Rightarrow> sim \<Rightarrow> int \<Rightarrow> int \<Rightarrow> int \<Rightarrow> bool \<Rightarrow> (int \<times> sim) option" where
  "find_place 0 s need_pos j k flag_last = None"
| "find_place (Suc fuel) s need_pos j k flag_last =
     (let flag_nt = place_free s j
      in if of_bool flag_nt + of_bool flag_last = need_pos then
           let s1 = s\<lparr> locked := (locked s)(j := True) \<rparr>
           in Some (0, if need_pos = 2 then s1\<lparr> locked := (locked s1)(k := True) \<rparr> else s1)
         else if j = beggar s then Some (need_pos, s)
         else find_place fuel s need_pos ((if j = 0 then N_RPU else j) - 1) j flag_nt)"

fun lock_units :: "int list \<Rightarrow> int \<times> (int \<Rightarrow> bool) \<Rightarrow> int \<times> (int \<Rightarrow> bool)" where
  "lock_units [] r = r"
| "lock_units (j # js) (need_pos, lk) =
     (if need_pos = 0 then (need_pos, lk)
      else lock_units js (if \<not> lk j then (need_pos - 1, lk(j := True)) else (need_pos, lk)))"

definition anti_starvation :: "sim \<Rightarrow> sim option" where
  "anti_starvation s =
     (let s1 = (if beggar s = - 1 then
                  case find (\<lambda>i. wait_time s i > S_WAIT) [0..N_RPU - 1] of
                    None \<Rightarrow> s
                  | Some i \<Rightarrow> s\<lparr> beggar := i \<rparr>
                else s)
      in if beggar s1 = - 1 then Some s1
         else
           let b = beggar s1;
               pos = (case task_list s1 b of t # _ \<Rightarrow> if task_type t = Pop_task then 2 else 1 | [] \<Rightarrow> 1)
           in Option.bind (find_place (nat N_RPU) s1 pos (b - 1) 0 False) (\<lambda>(need_pos, s2).
             if need_pos = 0 then Some s2
             else
               let (np, lk) = lock_units [b + 1..N_RPU - 1] (wait_time s2 b - S_WAIT, locked s2);
                   (np', lk') = lock_units [0..b - 1] (np, lk)
               in Some (s2\<lparr> starve_count := starve_count s2 + 1, locked := lk' \<rparr>)))"

definition skip_idle :: "sim \<Rightarrow> sim" where
  "skip_idle s =
     (if skipping_flag s \<noteq> 0 \<and> list_all (\<lambda>i. task_type (RPU s i) = Empty) [0..N_RPU - 1]
      then s\<lparr> cycle := skipping_flag s, skipping_flag := 0 \<rparr> else s)"

text \<open>The parts of a turn before and after the statistics.\<close>

definition enter_tasks :: "sim \<Rightarrow> sim" where
  "enter_tasks s =
     (let s1 = try_push_push_task (check_task_list_empty s);
          s2 = (if cycle s1 > 50 then try_push_pop_task s1 else s1);
          s3 = s2\<lparr> cycle := cycle s2 + 1 \<rparr>
      in if cycle s3 > skipping_flag s3 then s3\<lparr> skipping_flag := 0 \<rparr> else s3)"

definition run_cycle :: "sim \<Rightarrow> sim option" where
  "run_cycle s =
     Option.bind (for_each stat_unit [0..N_RPU - 1] (enter_tasks s)) (\<lambda>s1.
     Option.bind (for_each send_unit [0..N_RPU - 1] (pass_down s1)) (\<lambda>s2.
     Option.bind (anti_starvation s2) (\<lambda>s3. Some (skip_idle s3))))"

definition finished :: "sim \<Rightarrow> bool" where
  "finished s \<longleftrightarrow> noPush s \<and> noPop s \<and> task_list_empty_cnt s \<le> 0"

text \<open>At most \<open>k\<close> turns of the loop.\<close>

fun sim_run :: "nat \<Rightarrow> sim \<Rightarrow> sim option" where
  "sim_run 0 s = Some s"
| "sim_run (Suc k) s = (if finished s then Some s else Option.bind (run_cycle s) (sim_run k))"

text \<open>The state at the start of the loop: \<open>memset\<close> sets every byte of \<open>wait_time\<close> to \<open>0xC1\<close>.\<close>

definition sim_start :: "(int \<Rightarrow> int option) \<Rightarrow> (int \<Rightarrow> A_Push list) \<Rightarrow> (int \<Rightarrow> int) \<Rightarrow> sim" where
  "sim_start pfmap pushes pops =
     \<lparr>trees = init_store, RPU = (\<lambda>_. no_task), task_list = (\<lambda>_. []), perFlowPushQueue = pushes,
      perFlowPopQueue = pops, PFMap = pfmap, log_out = [], push_cnt = 0, pop_cnt = 0, cycle = 1,
      skipping_flag = 0, task_list_empty_cnt = 100, wait_time = (\<lambda>_. - 1044266559),
      locked = (\<lambda>_. False), beggar = - 1, task_num = (\<lambda>_. 0), send_count = (\<lambda>_. 0),
      push_num = (\<lambda>_. 0), pop_num = (\<lambda>_. 0), push_sum = 0, pop_sum = 0, use_num = 0,
      starve_count = 0, hungry_count = 0, hungry_delay = 0\<rparr>"

end
