(* ===== verification/BMW_Forest.thy ===== *)
theory BMW_Forest
  imports BMW_Queue
begin

text \<open>
  All trees of the simulator in one array: \<open>forest st T A\<close> says that the array holds the tree \<open>T i\<close>
  at the root of user \<open>i\<close>, on addresses \<open>A i\<close> that no other tree uses. \<open>vals\<close> are the values in the
  slots of a tree, also those that a pop left behind in a slot it emptied.
\<close>

section \<open>Values in the slots\<close>

primrec vals :: "bmw \<Rightarrow> int set" where
  "vals NoNode = {}"
| "vals (Node m n c) = {snd (m False), snd (m True)} \<union> (vals \<circ> c) False \<union> (vals \<circ> c) True"

lemma vals_slot: "vals (Node m n c) = {snd (m d), snd (m (\<not> d))} \<union> vals (c d) \<union> vals (c (\<not> d))"
  by (cases d) auto

lemma vals_push: "vals (tree_push t v) \<subseteq> insert 0 (insert (snd v) (vals t))"
proof (induction t arbitrary: v)
  case (Node m n c)
  have IH: "vals (tree_push (c d) w) \<subseteq> insert 0 (insert (snd w) (vals (c d)))" for d w
    using Node.IH [OF rangeI] .
  show ?case
  proof (cases "fst (m False) = inf_val \<or> fst (m True) = inf_val")
    case False
    define d where "d = (n False > n True)"
    show ?thesis
    proof (cases "v < m d")
      case True
      have "tree_push (Node m n c) v = Node (m(d := v)) (n(d := n d + 1)) (c(d := tree_push (c d) (m d)))"
        using False True by (simp add: d_def Let_def)
      then show ?thesis using IH [of d "m d"] by (simp add: vals_slot [of _ _ _ d] del: vals.simps) auto
    next
      case notless: False
      have "tree_push (Node m n c) v = Node m (n(d := n d + 1)) (c(d := tree_push (c d) v))"
        using False notless by (simp add: d_def Let_def)
      then show ?thesis using IH [of d v] by (simp add: vals_slot [of _ _ _ d] del: vals.simps) auto
    qed
  qed auto
qed simp

lemma vals_pop: "t \<noteq> NoNode \<Longrightarrow> snd (fst (tree_pop t)) \<in> vals t \<and> vals (snd (tree_pop t)) \<subseteq> vals t"
proof (induction t)
  case (Node m n c)
  define d where "d = (m False > m True)"
  show ?case
  proof (cases "c d = NoNode")
    case True
    then have "tree_pop (Node m n c) = (m d, Node (m(d := (inf_val, snd (m d)))) n c)"
      by (simp add: d_def Let_def)
    then show ?thesis by (simp add: vals_slot [of _ _ _ d] del: vals.simps)
  next
    case False
    then have "tree_pop (Node m n c) =
        (m d, Node (m(d := fst (tree_pop (c d)))) (n(d := n d - 1)) (c(d := snd (tree_pop (c d)))))"
      by (simp add: d_def Let_def)
    with Node.IH [OF rangeI False] show ?thesis by (simp add: vals_slot [of _ _ _ d] del: vals.simps) auto
  qed
qed simp

section \<open>The forest\<close>

definition forest :: "store \<Rightarrow> (nat \<Rightarrow> bmw) \<Rightarrow> (nat \<Rightarrow> nat set) \<Rightarrow> bool" where
  "forest st T A \<longleftrightarrow> fresh st \<and>
     (\<forall>i < M_TREES. rep (T i) st (tree i) (A i) \<and> T i \<noteq> NoNode \<and> (\<forall>x \<in> A i. x \<le> tot st)) \<and>
     (\<forall>i < M_TREES. \<forall>j < M_TREES. i \<noteq> j \<longrightarrow> A i \<inter> A j = {})"

lemma forest_tree:
  assumes "forest st T A" and "i < M_TREES"
  shows "rep (T i) st (tree i) (A i)" "T i \<noteq> NoNode" "\<forall>x \<in> A i. x \<le> tot st" "fresh st"
  using assms by (auto simp: forest_def)

lemma forest_update:
  assumes "forest st T A" and "i < M_TREES" and "rep t st' (tree i) B" and "t \<noteq> NoNode" and "fresh st'"
    and "tot st \<le> tot st'" and "\<forall>x \<in> B. x \<le> tot st'" and "\<forall>x \<in> B. x \<in> A i \<or> tot st < x"
    and "\<And>x. x \<notin> A i \<Longrightarrow> x \<le> tot st \<Longrightarrow> node st' x = node st x"
  shows "forest st' (T(i := t)) (A(i := B))"
proof -
  have other: "rep (T j) st' (tree j) (A j)" "\<forall>x \<in> A j. x \<le> tot st'" "A j \<inter> B = {}" if "j < M_TREES" "j \<noteq> i" for j
  proof -
    have "A j \<inter> A i = {}" using assms(1,2) that by (auto simp: forest_def)
    with assms(9) forest_tree(3) [OF assms(1) that(1)] have "\<And>x. x \<in> A j \<Longrightarrow> node st' x = node st x" by blast
    with forest_tree(1) [OF assms(1) that(1)] show "rep (T j) st' (tree j) (A j)" by (rule rep_frame)
    show "\<forall>x \<in> A j. x \<le> tot st'" using forest_tree(3) [OF assms(1) that(1)] assms(6) by auto
    show "A j \<inter> B = {}"
      using \<open>A j \<inter> A i = {}\<close> assms(8) forest_tree(3) [OF assms(1) that(1)] by fastforce
  qed
  then show ?thesis
    using assms(1,3,4,5,7) unfolding forest_def by (auto simp: Int_commute)
qed

lemma forest_push:
  assumes "forest st T A" and "i < M_TREES"
  shows "\<exists>st' A'. push_call (tree i) st v = Some st' \<and> forest st' (T(i := tree_push (T i) v)) A'"
proof -
  note t = forest_tree [OF assms]
  have "height (T i) < tot st + 1" using height_tot [OF t(1,3)] by simp
  then obtain st' B where p: "push (tot st + 1) st (tree i) v = Some st'" "rep (tree_push (T i) v) st' (tree i) B"
    "pushed_at st (A i) st' B"
    using push_refines [OF t(1,2) _ t(4,3)] by blast
  have ne: "tree_push (T i) v \<noteq> NoNode" by (cases "T i") (auto simp: Let_def)
  have "fresh st'" "tot st \<le> tot st'" "\<forall>x \<in> B. x \<le> tot st'" "\<forall>x \<in> B. x \<in> A i \<or> tot st < x"
    "\<And>x. x \<notin> A i \<Longrightarrow> x \<le> tot st \<Longrightarrow> node st' x = node st x"
    using p(3) t(3) by (auto simp: pushed_at_def)
  from forest_update [OF assms p(2) ne this] p(1) show ?thesis unfolding push_call_def by blast
qed

lemma forest_pop:
  assumes "forest st T A" and "i < M_TREES"
  shows "\<exists>st'. pop_call (tree i) st = Some (fst (tree_pop (T i)), st') \<and> forest st' (T(i := snd (tree_pop (T i)))) A"
proof -
  note t = forest_tree [OF assms]
  obtain st' where p: "pop (tot st) st (tree i) = Some (fst (tree_pop (T i)), st')"
    "rep (snd (tree_pop (T i))) st' (tree i) (A i)" "tot st' = tot st" "\<forall>x. x \<notin> A i \<longrightarrow> node st' x = node st x"
    using pop_refines [OF t(1,2) height_tot [OF t(1,3)]] by blast
  have "snd (tree_pop (T i)) \<noteq> NoNode" using t(2) by (cases "T i") (auto simp: Let_def)
  moreover have "fresh st'" using t(3,4) p(3,4) unfolding fresh_def by (metis linorder_not_less)
  ultimately have "forest st' (T(i := snd (tree_pop (T i)))) (A(i := A i))"
    using forest_update [OF assms p(2)] t(3) p(3,4) by auto
  then show ?thesis using p(1) by (simp add: pop_call_def)
qed

definition empty_node :: bmw where
  "empty_node = Node (\<lambda>d. (inf_val, 0)) (\<lambda>d. 0) (\<lambda>d. NoNode)"

lemma forest_init: "forest init_store (\<lambda>_. empty_node) (\<lambda>i. {tree i})"
proof -
  have "rep empty_node init_store (tree i) {tree i}" if "i < M_TREES" for i
    using that by (auto simp: empty_node_def init_store_eq tree_eq empty_Tree_def intro!: exI [of _ "\<lambda>d. {}"])
  then show ?thesis
    using init_fresh by (auto simp: forest_def tree_eq init_store_eq empty_node_def)
qed

lemma vals_empty: "vals empty_node = {0}"
  by (simp add: empty_node_def)

end
