(* ===== verification/Sim_Invariant.thy ===== *)
theory Sim_Invariant
  imports Sim_Loop BMW_Forest "HOL-Library.Sublist"
begin

text \<open>
  The invariant of the scheduling loop and its preservation by each part of a cycle: the trees are
  in the array side by side, tasks name trees that exist, and every packet in a tree or in a task
  was logged when it entered. Every part of a cycle returns.
\<close>

section \<open>The invariant\<close>

definition entered :: "sim \<Rightarrow> int set" where
  "entered s = fst ` set (push_pairs (log_out s))"

definition user :: "int \<Rightarrow> bool" where
  "user r \<longleftrightarrow> 0 \<le> r \<and> r < int M_TREES"

definition task_ok :: "int set \<Rightarrow> Task \<Rightarrow> bool" where
  "task_ok P t \<longleftrightarrow> TTL t = L_CYCLES \<and>
     (task_type t = Push_task \<longrightarrow> user (root t) \<and> (if root t = 0 then user (val t) else val t \<in> P)) \<and>
     (task_type t = Pop_task \<longrightarrow> user (root t))"

definition unit_ok :: "Task \<Rightarrow> bool" where
  "unit_ok t \<longleftrightarrow> TTL t \<le> L_CYCLES \<and> (task_type t = Pop_task \<longrightarrow> user (root t))"

definition packet_ok :: "int set \<Rightarrow> A_Push \<Rightarrow> bool" where
  "packet_ok D a \<longleftrightarrow> 0 < treeid a \<and> treeid a < int M_TREES \<and> meta a \<in> D"

text \<open>The values in the trees: trees in the root, packets that were logged (or 0, the value of a
  slot that was never used) in the others.\<close>

definition trees_ok :: "int set \<Rightarrow> store \<Rightarrow> bool" where
  "trees_ok P st \<longleftrightarrow> (\<exists>T A. forest st T A \<and>
     (\<forall>i < M_TREES. vals (T i) \<subseteq> (if i = 0 then Collect user else insert 0 P)))"

text \<open>The lines of each kind are numbered from 0.\<close>

definition pop_pairs :: "log_event list \<Rightarrow> (int \<times> int) list" where
  "pop_pairs es = map event_pair (filter (\<lambda>e. \<not> is_push e) es)"

definition numbered :: "log_event list \<Rightarrow> int \<Rightarrow> int \<Rightarrow> bool" where
  "numbered es p q \<longleftrightarrow>
     p = int (length (push_pairs es)) \<and> map snd (push_pairs es) = map int [0..<length (push_pairs es)] \<and>
     q = int (length (pop_pairs es)) \<and> map snd (pop_pairs es) = map int [0..<length (pop_pairs es)]"

definition sim_inv :: "int set \<Rightarrow> log_event list \<Rightarrow> sim \<Rightarrow> bool" where
  "sim_inv D es s \<longleftrightarrow>
     trees_ok (entered s) (trees s) \<and> (\<forall>i. list_all (task_ok (entered s)) (task_list s i)) \<and>
     (\<forall>i. unit_ok (RPU s i)) \<and> (\<forall>f. list_all (packet_ok D) (perFlowPushQueue s f)) \<and>
     entered s \<subseteq> D \<and> log_proper {0} (log_out s) \<and> numbered (log_out s) (push_cnt s) (pop_cnt s) \<and> prefix es (log_out s)"

lemma user_0: "user 0"
  by (simp add: user_def M_TREES_def)

lemma nat_user: "user r \<Longrightarrow> nat r < M_TREES"
  by (simp add: user_def nat_less_iff)

lemma task_ok_mono: "task_ok P t \<Longrightarrow> P \<subseteq> Q \<Longrightarrow> task_ok Q t"
  by (auto simp: task_ok_def)

lemma trees_ok_mono: "trees_ok P st \<Longrightarrow> P \<subseteq> Q \<Longrightarrow> trees_ok Q st"
  unfolding trees_ok_def by (smt (verit) insert_mono subset_trans)

section \<open>Trees\<close>

lemma trees_ok_push:
  assumes "trees_ok P st" and "user r" and "if r = 0 then user (snd v) else snd v \<in> P"
  shows "\<exists>st'. push_call (tree (nat r)) st v = Some st' \<and> trees_ok P st'"
proof -
  obtain T A where f: "forest st T A"
    and vals: "\<And>i. i < M_TREES \<Longrightarrow> vals (T i) \<subseteq> (if i = 0 then Collect user else insert 0 P)"
    using assms(1) by (auto simp: trees_ok_def)
  obtain st' A' where p: "push_call (tree (nat r)) st v = Some st'"
    "forest st' (T(nat r := tree_push (T (nat r)) v)) A'"
    using forest_push [OF f nat_user [OF assms(2)]] by blast
  have "vals (tree_push (T (nat r)) v) \<subseteq> (if nat r = 0 then Collect user else insert 0 P)"
  proof (rule subset_trans [OF vals_push])
    show "insert 0 (insert (snd v) (vals (T (nat r)))) \<subseteq> (if nat r = 0 then Collect user else insert 0 P)"
      using vals [OF nat_user [OF assms(2)]] assms(2,3) user_0 by (auto simp: user_def split: if_splits)
  qed
  with p vals show ?thesis unfolding trees_ok_def by (metis fun_upd_apply)
qed

lemma trees_ok_pop:
  assumes "trees_ok P st" and "user r"
  shows "\<exists>x st'. pop_call (tree (nat r)) st = Some (x, st') \<and> trees_ok P st' \<and>
    (if r = 0 then user (snd x) else snd x \<in> insert 0 P)"
proof -
  obtain T A where f: "forest st T A"
    and vals: "\<And>i. i < M_TREES \<Longrightarrow> vals (T i) \<subseteq> (if i = 0 then Collect user else insert 0 P)"
    using assms(1) by (auto simp: trees_ok_def)
  let ?t = "T (nat r)"
  obtain st' where p: "pop_call (tree (nat r)) st = Some (fst (tree_pop ?t), st')"
    "forest st' (T(nat r := snd (tree_pop ?t))) A"
    using forest_pop [OF f nat_user [OF assms(2)]] by blast
  have v: "snd (fst (tree_pop ?t)) \<in> vals ?t" "vals (snd (tree_pop ?t)) \<subseteq> vals ?t"
    using vals_pop forest_tree(2) [OF f nat_user [OF assms(2)]] by blast+
  then have "trees_ok P st'"
    using p(2) vals nat_user [OF assms(2)] unfolding trees_ok_def by (metis fun_upd_apply subset_trans)
  moreover have "if r = 0 then user (snd (fst (tree_pop ?t))) else snd (fst (tree_pop ?t)) \<in> insert 0 P"
    using v(1) vals [OF nat_user [OF assms(2)]] assms(2) by (auto simp: user_def split: if_splits)
  ultimately show ?thesis using p(1) by blast
qed

section \<open>Parts of a cycle\<close>

lemma for_each_inv:
  assumes "I s" and "\<And>i s. I s \<Longrightarrow> \<exists>s'. f i s = Some s' \<and> I s'"
  shows "\<exists>s'. for_each f is s = Some s' \<and> I s'"
  using assms(1)
proof (induction "is" arbitrary: s)
  case (Cons i "is")
  from assms(2) [OF Cons.prems, of i] Cons.IH show ?case by auto
qed simp

lemma fold_inv: "I s \<Longrightarrow> (\<And>i s. I s \<Longrightarrow> I (f i s)) \<Longrightarrow> I (fold f is s)"
  by (induction "is" arbitrary: s) simp_all

text \<open>What the invariant depends on.\<close>

definition core :: "sim \<Rightarrow> store \<times> (int \<Rightarrow> Task) \<times> (int \<Rightarrow> Task list) \<times> (int \<Rightarrow> A_Push list) \<times>
    (int \<Rightarrow> int) \<times> log_event list \<times> int \<times> int" where
  "core s = (trees s, RPU s, task_list s, perFlowPushQueue s, perFlowPopQueue s, log_out s, push_cnt s, pop_cnt s)"

lemma sim_inv_core: "core s' = core s \<Longrightarrow> sim_inv D es s' \<longleftrightarrow> sim_inv D es s"
  by (simp add: core_def sim_inv_def entered_def)

lemma core_updates [simp]:
  "core (s\<lparr> task_num := x \<rparr>) = core s" "core (s\<lparr> cycle := c \<rparr>) = core s"
  "core (s\<lparr> skipping_flag := c \<rparr>) = core s" "core (s\<lparr> PFMap := m \<rparr>) = core s"
  "core (s\<lparr> use_num := c \<rparr>) = core s" "core (s\<lparr> task_list_empty_cnt := c \<rparr>) = core s"
  "core (s\<lparr> locked := l \<rparr>) = core s" "core (s\<lparr> beggar := c \<rparr>) = core s"
  "core (s\<lparr> starve_count := c \<rparr>) = core s" "core (s\<lparr> wait_time := x \<rparr>) = core s"
  "core (s\<lparr> send_count := x \<rparr>) = core s" "core (s\<lparr> push_num := x \<rparr>) = core s"
  "core (s\<lparr> push_sum := c \<rparr>) = core s"
  by (simp_all add: core_def)

lemmas sim_inv_updates [simp] = core_updates [THEN sim_inv_core]

lemma push_task_fields [simp]:
  "trees (push_task i t s) = trees s" "RPU (push_task i t s) = RPU s"
  "task_list (push_task i t s) = (task_list s)(i := task_list s i @ [t])"
  "perFlowPushQueue (push_task i t s) = perFlowPushQueue s"
  "perFlowPopQueue (push_task i t s) = perFlowPopQueue s" "PFMap (push_task i t s) = PFMap s"
  "log_out (push_task i t s) = log_out s"
  "push_cnt (push_task i t s) = push_cnt s" "pop_cnt (push_task i t s) = pop_cnt s"
  "cycle (push_task i t s) = cycle s" "task_num (push_task i t s) = task_num s"
  by (simp_all add: push_task_def Let_def)

lemma pop_task_fields [simp]:
  "trees (pop_task i s) = trees s" "RPU (pop_task i s) = RPU s"
  "task_list (pop_task i s) = (task_list s)(i := tl (task_list s i))"
  "perFlowPushQueue (pop_task i s) = perFlowPushQueue s"
  "perFlowPopQueue (pop_task i s) = perFlowPopQueue s" "PFMap (pop_task i s) = PFMap s"
  "log_out (pop_task i s) = log_out s"
  "push_cnt (pop_task i s) = push_cnt s" "pop_cnt (pop_task i s) = pop_cnt s"
  by (simp_all add: pop_task_def Let_def)

lemma push_task_inv: "sim_inv D es s \<Longrightarrow> task_ok (entered s) t \<Longrightarrow> sim_inv D es (push_task i t s)"
  by (auto simp: sim_inv_def entered_def)

lemma entered_write_push: "entered (write_push m s) = insert m (entered s)"
  by (auto simp: entered_def write_push_def push_pairs_def)

lemma write_push_inv:
  assumes "sim_inv D es s" and "m \<in> D"
  shows "sim_inv D es (write_push m s)"
proof -
  have sub: "entered s \<subseteq> entered (write_push m s)" by (auto simp: entered_write_push)
  have "log_proper {0} (log_out s @ [Push_cyc m (push_cnt s)])"
    using assms by (simp add: sim_inv_def log_proper_snoc)
  moreover have "numbered (log_out s @ [Push_cyc m (push_cnt s)]) (push_cnt s + 1) (pop_cnt s)"
    using assms by (simp add: sim_inv_def numbered_def push_pairs_def pop_pairs_def)
  moreover have "list_all (task_ok (entered (write_push m s))) (task_list s i)" for i
    using assms task_ok_mono [OF _ sub] by (auto simp: sim_inv_def list_all_iff)
  moreover have "trees_ok (entered (write_push m s)) (trees s)"
    using assms trees_ok_mono [OF _ sub] by (simp add: sim_inv_def)
  moreover have "prefix es (log_out s @ [Push_cyc m (push_cnt s)])" "entered (write_push m s) \<subseteq> D"
    using assms by (simp_all add: sim_inv_def entered_write_push)
  ultimately show ?thesis using assms by (simp add: sim_inv_def) (simp add: write_push_def)
qed

lemma write_pop_inv:
  assumes "sim_inv D es s" and "m \<in> insert 0 (entered s)"
  shows "sim_inv D es (write_pop m s)"
proof -
  have "entered (write_pop m s) = entered s" by (simp add: entered_def write_pop_def push_pairs_def)
  moreover have "log_proper {0} (log_out s @ [Pop_cyc m (pop_cnt s)])"
    using assms by (auto simp: sim_inv_def log_proper_snoc entered_def)
  moreover have "numbered (log_out s @ [Pop_cyc m (pop_cnt s)]) (push_cnt s) (pop_cnt s + 1)"
    using assms by (simp add: sim_inv_def numbered_def push_pairs_def pop_pairs_def)
  ultimately show ?thesis using assms(1) by (simp add: sim_inv_def) (simp add: write_pop_def)
qed

lemma write_push_task: "write_push m (push_task i t s) = push_task i t (write_push m s)"
  by (simp add: write_push_def push_task_def Let_def)

lemma push_flow_inv:
  assumes "sim_inv D es s"
  shows "sim_inv D es (push_flow cur s)"
proof (cases "perFlowPushQueue s cur")
  case Nil
  with assms show ?thesis by (simp add: push_flow_def)
next
  case (Cons a q)
  then have a: "packet_ok D a" and q: "list_all (packet_ok D) q"
    using assms by (auto simp: sim_inv_def dest!: spec [of _ cur])
  let ?s1 = "write_push (meta a) (s\<lparr> perFlowPushQueue := (perFlowPushQueue s)(cur := q) \<rparr>)"
  have "sim_inv D es (s\<lparr> perFlowPushQueue := (perFlowPushQueue s)(cur := q) \<rparr>)"
    using assms q by (simp add: sim_inv_def entered_def)
  then have s1: "sim_inv D es ?s1" using a by (intro write_push_inv) (simp_all add: packet_ok_def)
  have "meta a \<in> entered ?s1" by (simp add: entered_write_push)
  with a have "task_ok (entered ?s1) (task4 Push_task (treeid a) (p0 a) (meta a))"
    by (auto simp: task_ok_def task4_def packet_ok_def user_def)
  note s2 = push_task_inv [OF s1 this, of "treeid a mod N_RPU"]
  have "task_ok P (task4 Push_task 0 (p1 a) (treeid a))" for P
    using a by (simp add: task_ok_def task4_def packet_ok_def user_def M_TREES_def)
  from push_task_inv [OF s2 this, of 0]
  show ?thesis
    by (simp add: push_flow_def Cons Let_def write_push_task)
qed

lemma try_push_pop_task_inv: "sim_inv D es s \<Longrightarrow> sim_inv D es (try_push_pop_task s)"
  by (auto simp: try_push_pop_task_def Let_def sim_inv_def entered_def task_ok_def task2_def user_0)

lemma enter_tasks_inv:
  assumes "sim_inv D es s"
  shows "sim_inv D es (enter_tasks s)"
proof -
  have "sim_inv D es (check_task_list_empty s)"
    using assms by (simp add: check_task_list_empty_def)
  then have "sim_inv D es (try_push_push_task (check_task_list_empty s))"
    unfolding try_push_push_task_def by (rule fold_inv) (rule push_flow_inv)
  from this try_push_pop_task_inv [OF this] show ?thesis
    by (simp add: enter_tasks_def Let_def)
qed

lemma stat_unit_inv:
  assumes "sim_inv D es s"
  shows "\<exists>s'. stat_unit i s = Some s' \<and> sim_inv D es s'"
proof -
  define t where "t = RPU s i"
  define s1 where "s1 = (if task_type t \<in> {Push_task, Pop_task, WriteBack} then s\<lparr> use_num := use_num s + 1 \<rparr> else s)"
  have s1: "sim_inv D es s1" using assms by (simp add: s1_def sim_inv_def entered_def)
  show ?thesis
  proof (cases "TTL t = L_CYCLES \<and> task_type t = Pop_task")
    case True
    then have r: "user (root t)" using assms by (auto simp: sim_inv_def unit_ok_def t_def)
    obtain x st where p: "pop_call (tree (nat (root t))) (trees s1) = Some (x, st)" "trees_ok (entered s1) st"
      "if root t = 0 then user (snd x) else snd x \<in> insert 0 (entered s1)"
      using trees_ok_pop [OF _ r] s1 unfolding sim_inv_def by blast
    have s2: "sim_inv D es (s1\<lparr> trees := st \<rparr>)" using s1 p(2) by (simp add: sim_inv_def entered_def)
    show ?thesis
    proof (cases "root t = 0")
      case root: True
      have "sim_inv D es (push_task (snd x mod N_RPU) (task2 Pop_task (snd x)) (s1\<lparr> trees := st \<rparr>))"
        using push_task_inv [OF s2] p(3) root by (simp add: task_ok_def task2_def)
      then show ?thesis
        using True p(1) root unfolding stat_unit_def Let_def t_def [symmetric] s1_def [symmetric]
        by (simp add: sim_inv_def entered_def)
    next
      case False
      let ?s = "s1\<lparr> trees := st, pop_sum := pop_sum s1 + 1, pop_num := incr (root t) 1 (pop_num s1) \<rparr>"
      have "sim_inv D es ?s" using s2 by (simp add: sim_inv_def entered_def)
      then have "sim_inv D es (write_pop (snd x) ?s)"
        using p(3) False by (intro write_pop_inv) (simp_all add: entered_def)
      then show ?thesis
        using True p(1) False unfolding stat_unit_def Let_def t_def [symmetric] s1_def [symmetric] by simp
    qed
  next
    case False
    then show ?thesis
      using s1 unfolding stat_unit_def Let_def t_def [symmetric] s1_def [symmetric]
      by (auto simp: sim_inv_def entered_def)
  qed
qed

lemma unit_ok_aged: "unit_ok t \<Longrightarrow> unit_ok (aged t)"
  by (auto simp: unit_ok_def aged_def)

lemma unit_ok_no_task: "unit_ok no_task"
  by (simp add: unit_ok_def no_task_def L_CYCLES_def)

lemma pass_down_inv:
  assumes "sim_inv D es s"
  shows "sim_inv D es (pass_down s)"
proof -
  define I where "I r \<longleftrightarrow> (\<forall>i. unit_ok (fst r i)) \<and> (\<forall>i. unit_ok (snd r i))" for r :: "(int \<Rightarrow> Task) \<times> (int \<Rightarrow> Task)"
  have units: "unit_ok (RPU s i)" for i using assms by (simp add: sim_inv_def)
  have "I (RPU s, (\<lambda>_. no_task)(1 := aged (RPU s (N_RPU - 1))))"
    using units by (simp add: I_def unit_ok_aged unit_ok_no_task)
  moreover have "I (pass_unit i r)" if "I r" for i r
  proof -
    obtain rpu nt where r: "r = (rpu, nt)" by (cases r)
    have ok: "unit_ok (rpu i)" "unit_ok (nt i)" for i using that r by (simp_all add: I_def)
    have "unit_ok (aged (rpu i))" using ok(1) by (rule unit_ok_aged)
    moreover have "unit_ok ((rpu i)\<lparr> task_type := WriteBack \<rparr>)" "unit_ok ((rpu i)\<lparr> task_type := Empty, TTL := 0 \<rparr>)"
      using ok(1) [of i] by (simp_all add: unit_ok_def L_CYCLES_def)
    ultimately show ?thesis using ok by (simp add: r pass_unit_def I_def Let_def)
  qed
  ultimately have "I (fold pass_unit [0..N_RPU - 1] (RPU s, (\<lambda>_. no_task)(1 := aged (RPU s (N_RPU - 1)))))"
    by (rule fold_inv)
  then show ?thesis using assms by (simp add: pass_down_def I_def sim_inv_def entered_def)
qed

lemma send_unit_inv:
  assumes "sim_inv D es s"
  shows "\<exists>s'. send_unit i s = Some s' \<and> sim_inv D es s'"
proof (cases "task_list s i")
  case Nil
  then show ?thesis using assms by (simp add: send_unit_def Let_def sim_inv_def entered_def)
next
  case (Cons t ts)
  then have t: "task_ok (entered s) t" and ts: "list_all (task_ok (entered s)) ts"
    using assms by (auto simp: sim_inv_def dest!: spec [of _ i])
  have unit: "unit_ok t" using t by (simp add: task_ok_def unit_ok_def)
  have rest: "\<forall>i'. list_all (task_ok (entered s)) (((task_list s)(i := ts)) i')"
    using assms ts by (simp add: sim_inv_def)
  show ?thesis
  proof (cases "task_type (RPU s i) = Empty \<and> \<not> locked s i \<and> task_type t = Push_task")
    case True
    then have "user (root t)" "if root t = 0 then user (snd (rank t, val t)) else snd (rank t, val t) \<in> entered s"
      using t by (simp_all add: task_ok_def)
    from trees_ok_push [OF _ this] assms obtain st where
      "push_call (tree (nat (root t))) (trees s) (rank t, val t) = Some st" "trees_ok (entered s) st"
      unfolding sim_inv_def by blast
    with True Cons show ?thesis
      using assms rest unit by (simp add: send_unit_def Let_def sim_inv_def entered_def)
  next
    case False
    have r: "unit_ok (r\<lparr> TTL := 1 \<rparr>)" "unit_ok (r\<lparr> task_type := Locked, TTL := 1 \<rparr>)" if "unit_ok r" for r
      using that by (simp_all add: unit_ok_def L_CYCLES_def)
    from False Cons show ?thesis
      using assms rest unit r by (auto simp: send_unit_def Let_def sim_inv_def entered_def)
  qed
qed

text \<open>The search for a place always ends within two turns with a place, whatever the units do, as
  the value of the condition is not zero there; no unit starves.\<close>

lemma place_free_before: "place_free s (beggar s - 1)" "place_free s ((if beggar s = 1 then N_RPU else beggar s - 1) - 1)"
  by (auto simp: place_free_def N_RPU_def)

lemma find_place_found:
  assumes "n = 1 \<or> n = 2"
  shows "\<exists>s'. find_place (Suc (Suc fuel)) s n (beggar s - 1) 0 False = Some (0, s') \<and> core s' = core s \<and>
    PFMap s' = PFMap s"
  using assms place_free_before [of s] by (auto simp: Let_def)

lemma anti_starvation_core: "\<exists>s'. anti_starvation s = Some s' \<and> core s' = core s \<and> PFMap s' = PFMap s"
proof -
  define s1 where "s1 = (if beggar s = - 1 then
      case find (\<lambda>i. wait_time s i > S_WAIT) [0..N_RPU - 1] of None \<Rightarrow> s | Some i \<Rightarrow> s\<lparr> beggar := i \<rparr> else s)"
  define n :: int where "n = (case task_list s1 (beggar s1) of t # _ \<Rightarrow> if task_type t = Pop_task then 2 else 1 | [] \<Rightarrow> 1)"
  have "core s1 = core s" "PFMap s1 = PFMap s" by (simp_all add: s1_def split: option.split)
  moreover have "n = 1 \<or> n = 2" by (simp add: n_def split: list.split)
  then obtain s2 where "find_place (nat N_RPU) s1 n (beggar s1 - 1) 0 False = Some (0, s2)" "core s2 = core s1"
    "PFMap s2 = PFMap s1"
    using find_place_found [of n 38 s1] by (auto simp: N_RPU_def numeral_eq_Suc)
  ultimately show ?thesis
    unfolding anti_starvation_def s1_def [symmetric] n_def [symmetric] Let_def by simp
qed

lemma finish_cycle:
  "\<exists>s'. Option.bind (anti_starvation s) (\<lambda>s3. Some (skip_idle s3)) = Some s' \<and> core s' = core s \<and> PFMap s' = PFMap s"
proof -
  obtain s3 where "anti_starvation s = Some s3" "core s3 = core s" "PFMap s3 = PFMap s"
    using anti_starvation_core by blast
  then show ?thesis by (simp add: skip_idle_def core_def)
qed

section \<open>A cycle\<close>

lemma run_cycle_parts:
  assumes "sim_inv D es (enter_tasks s)"
  obtains s1 s2 s3 where "for_each stat_unit [0..N_RPU - 1] (enter_tasks s) = Some s1" "sim_inv D es s1"
    "for_each send_unit [0..N_RPU - 1] (pass_down s1) = Some s2" "sim_inv D es s2"
    "run_cycle s = Some s3" "core s3 = core s2" "PFMap s3 = PFMap s2" "sim_inv D es s3"
proof -
  obtain s1 where s1: "for_each stat_unit [0..N_RPU - 1] (enter_tasks s) = Some s1" "sim_inv D es s1"
    using for_each_inv [of "sim_inv D es", OF assms] stat_unit_inv by blast
  obtain s2 where s2: "for_each send_unit [0..N_RPU - 1] (pass_down s1) = Some s2" "sim_inv D es s2"
    using for_each_inv [of "sim_inv D es", OF pass_down_inv [OF s1(2)]] send_unit_inv by blast
  obtain s3 where s3: "Option.bind (anti_starvation s2) (\<lambda>s3. Some (skip_idle s3)) = Some s3"
    "core s3 = core s2" "PFMap s3 = PFMap s2" using finish_cycle by blast
  moreover have "run_cycle s = Some s3" using s1(1) s2(1) s3(1) by (simp add: run_cycle_def)
  ultimately show thesis using that s1 s2 sim_inv_core by blast
qed

end
