(* ===== verification/Sim_Budget.thy ===== *)
theory Sim_Budget
  imports Sim_Invariant
begin

text \<open>
  Departures are neither lost nor invented: the departures that may still be asked for, the pop
  tasks that wait or start, and the departures that were logged always add up to the same number.
\<close>

definition pops_in :: "Task list \<Rightarrow> int" where
  "pops_in ts = int (length (filter (\<lambda>t. task_type t = Pop_task) ts))"

definition starts :: "Task \<Rightarrow> bool" where
  "starts t \<longleftrightarrow> task_type t = Pop_task \<and> TTL t = L_CYCLES"

definition budget :: "int set \<Rightarrow> sim \<Rightarrow> int" where
  "budget I s =
     (\<Sum>f \<in> {0..<FLOW_NUM}. perFlowPopQueue s f) + (\<Sum>i \<in> {0..<N_RPU}. pops_in (task_list s i)) +
     (\<Sum>i \<in> I. of_bool (starts (RPU s i))) + pop_cnt s"

definition flows_ok :: "sim \<Rightarrow> bool" where
  "flows_ok s \<longleftrightarrow> ran (PFMap s) \<subseteq> {0..<FLOW_NUM} \<and> (\<forall>f. 0 \<le> perFlowPopQueue s f)"

lemma sum_fun_upd:
  fixes g :: "'b \<Rightarrow> int"
  assumes "finite A" and "i \<in> A"
  shows "(\<Sum>x \<in> A. g ((f(i := v)) x)) = (\<Sum>x \<in> A. g (f x)) - g (f i) + g v"
proof -
  have "(\<Sum>x \<in> A - {i}. g ((f(i := v)) x)) = (\<Sum>x \<in> A - {i}. g (f x))" by (rule sum.cong) auto
  then show ?thesis using sum.remove [OF assms, of "\<lambda>x. g ((f(i := v)) x)"] sum.remove [OF assms, of "\<lambda>x. g (f x)"] by simp
qed

lemma pops_in_simps [simp]:
  "pops_in [] = 0" "pops_in (t # ts) = of_bool (task_type t = Pop_task) + pops_in ts"
  "pops_in (ts @ us) = pops_in ts + pops_in us"
  by (simp_all add: pops_in_def)

lemma pops_in_nonneg: "0 \<le> pops_in ts"
  by (simp add: pops_in_def)

lemma unit_index: "x mod N_RPU \<in> {0..<N_RPU}"
  by (simp add: N_RPU_def)

lemma budget_core: "core s' = core s \<Longrightarrow> budget I s' = budget I s"
  by (simp add: core_def budget_def)

lemmas budget_updates [simp] = core_updates [THEN budget_core]

lemma budget_push_task:
  assumes "i \<in> {0..<N_RPU}"
  shows "budget I (push_task i t s) = budget I s + of_bool (task_type t = Pop_task)"
  using sum_fun_upd [OF _ assms, of pops_in "task_list s" "task_list s i @ [t]"]
  by (simp add: budget_def del: fun_upd_apply)

section \<open>Entering tasks\<close>

lemma budget_push_flow: "budget I (push_flow cur s) = budget I s"
proof (cases "perFlowPushQueue s cur")
  case (Cons a q)
  have w: "budget I (write_push m s) = budget I s" for m s by (simp add: budget_def write_push_def)
  have q: "budget I (s\<lparr> perFlowPushQueue := x \<rparr>) = budget I s" for x by (simp add: budget_def)
  have "0 \<in> {0..<N_RPU}" by (simp add: N_RPU_def)
  with unit_index [of "treeid a"] show ?thesis
    by (simp add: push_flow_def Cons Let_def budget_push_task w q task4_def del: atLeastLessThan_iff)
qed (simp add: push_flow_def)

lemma push_flow_flows: "flows_ok (push_flow cur s) = flows_ok s"
  by (simp add: push_flow_def Let_def flows_ok_def write_push_def split: list.split)

lemma budget_try_push_pop_task:
  assumes "flows_ok s"
  shows "budget I (try_push_pop_task s) = budget I s \<and> flows_ok (try_push_pop_task s)"
proof (cases "fst (top_of s 0) \<noteq> inf_val \<and> fst (top_of s (snd (top_of s 0))) \<noteq> inf_val")
  case True
  define m where "m = snd (top_of s (snd (top_of s 0)))"
  define f where "f = (case PFMap s m of None \<Rightarrow> 0 | Some f \<Rightarrow> f)"
  have f: "f \<in> {0..<FLOW_NUM}"
    using assms by (auto simp: f_def flows_ok_def FLOW_NUM_def ran_def split: option.splits)
  have ran: "ran ((PFMap s)(m \<mapsto> f)) \<subseteq> {0..<FLOW_NUM}"
    using assms f by (auto simp: flows_ok_def ran_def)
  let ?s2 = "s\<lparr> PFMap := (PFMap s)(m \<mapsto> f), perFlowPopQueue := incr f (- 1) (perFlowPopQueue s) \<rparr>"
  have b: "budget I ?s2 = budget I s - 1"
    using sum_fun_upd [of "{0..<FLOW_NUM}" f "\<lambda>x. x" "perFlowPopQueue s" "perFlowPopQueue s f - 1"] f
    by (simp add: budget_def del: fun_upd_apply)
  have "0 \<in> {0..<N_RPU}" by (simp add: N_RPU_def)
  from budget_push_task [OF this, of I "task2 Pop_task 0" ?s2] b
  have "budget I (push_task 0 (task2 Pop_task 0) ?s2) = budget I s" by (simp add: task2_def)
  then show ?thesis
    using True ran assms unfolding try_push_pop_task_def m_def [symmetric] Let_def f_def [symmetric]
    by (simp add: flows_ok_def)
qed (use assms in \<open>auto simp: try_push_pop_task_def\<close>)

lemma budget_enter_tasks:
  assumes "flows_ok s"
  shows "budget I (enter_tasks s) = budget I s \<and> flows_ok (enter_tasks s)"
proof -
  define J where "J s' \<longleftrightarrow> budget I s' = budget I s \<and> flows_ok s'" for s'
  have "J (check_task_list_empty s)" using assms by (simp add: J_def check_task_list_empty_def flows_ok_def)
  then have "J (try_push_push_task (check_task_list_empty s))"
    unfolding try_push_push_task_def by (rule fold_inv) (simp add: J_def budget_push_flow push_flow_flows)
  with budget_try_push_pop_task show ?thesis
    by (auto simp: J_def enter_tasks_def Let_def flows_ok_def)
qed

section \<open>The units\<close>

lemma stat_unit_fields:
  "stat_unit i s = Some s' \<Longrightarrow> RPU s' = RPU s \<and> PFMap s' = PFMap s \<and> perFlowPopQueue s' = perFlowPopQueue s"
  by (auto simp: stat_unit_def Let_def write_pop_def split: if_splits bind_splits)

lemma units_set: "set [0..N_RPU - 1] = {0..<N_RPU}"
  by auto

lemma budget_stat_unit:
  assumes "stat_unit i s = Some s'" and "finite I" and "i \<notin> I" and "flows_ok s"
  shows "budget I s' = budget (insert i I) s" and "flows_ok s'"
proof -
  have ins: "budget (insert i I) s = of_bool (starts (RPU s i)) + budget I s" for s
    using assms(2,3) by (simp add: budget_def)
  have tr: "budget I (s\<lparr> trees := st \<rparr>) = budget I s" for s st by (simp add: budget_def)
  have ps: "budget I (write_pop m (s\<lparr> pop_sum := a, pop_num := b \<rparr>)) = budget I s + 1" for m s a b
    by (simp add: budget_def write_pop_def)
  show "budget I s' = budget (insert i I) s"
    using assms(1) unit_index
    by (auto simp: ins stat_unit_def Let_def starts_def tr ps budget_push_task task2_def
        split: if_splits bind_splits simp del: atLeastLessThan_iff)
  show "flows_ok s'"
    using stat_unit_fields [OF assms(1)] assms(4) by (simp add: flows_ok_def)
qed

lemma budget_stats:
  "for_each stat_unit is s = Some s' \<Longrightarrow> distinct is \<Longrightarrow> flows_ok s \<Longrightarrow>
   budget {} s' = budget (set is) s \<and> flows_ok s'"
proof (induction "is" arbitrary: s)
  case (Cons i "is")
  then obtain s1 where s1: "stat_unit i s = Some s1" "for_each stat_unit is s1 = Some s'"
    by (auto simp: bind_eq_Some_conv)
  with Cons.IH [OF s1(2)] Cons.prems budget_stat_unit [OF s1(1), of "set is"] show ?case by simp
qed simp

lemma pass_units_started:
  assumes "\<forall>i. TTL (rpu i) \<le> L_CYCLES" and "\<forall>j. TTL (nt j) < L_CYCLES" and "\<forall>i \<in> P. \<not> starts (rpu i)"
  shows "\<forall>i \<in> P \<union> set is. \<not> starts (fst (fold pass_unit is (rpu, nt)) i)"
  using assms
proof (induction "is" arbitrary: rpu nt P)
  case (Cons i "is")
  obtain rpu' nt' where r: "pass_unit i (rpu, nt) = (rpu', nt')" by (cases "pass_unit i (rpu, nt)")
  have aged: "TTL (aged (rpu k)) < L_CYCLES" for k
    using Cons.prems(1) [rule_format, of k] by (simp add: aged_def)
  have nt': "\<forall>j. TTL (nt' j) < L_CYCLES"
    using r Cons.prems(2) aged by (auto simp: pass_unit_def Let_def split: if_splits)
  have i: "rpu' i = (rpu i)\<lparr> task_type := WriteBack \<rparr> \<or> rpu' i = nt' (1 - i mod 2) \<or>
      rpu' i = (rpu i)\<lparr> task_type := Empty, TTL := 0 \<rparr>"
    using r by (auto simp: pass_unit_def Let_def split: if_splits)
  have other: "rpu' k = rpu k" if "k \<noteq> i" for k
    using r that by (auto simp: pass_unit_def Let_def split: if_splits)
  have "TTL (rpu' i) \<le> L_CYCLES"
    using i nt' Cons.prems(1) by (auto simp: L_CYCLES_def intro: order_less_imp_le)
  then have le: "\<forall>k. TTL (rpu' k) \<le> L_CYCLES" using other Cons.prems(1) by metis
  have "\<not> starts (nt' j)" for j using nt' [rule_format, of j] by (simp add: starts_def)
  with i have "\<not> starts (rpu' i)" by (auto simp: starts_def)
  with other Cons.prems(3) have "\<forall>k \<in> insert i P. \<not> starts (rpu' k)" by (metis insert_iff)
  from Cons.IH [OF le nt' this] r show ?case by simp
qed simp

lemma budget_pass_down:
  assumes "sim_inv D es s"
  shows "budget {0..<N_RPU} (pass_down s) = budget {} s" and "flows_ok (pass_down s) = flows_ok s"
proof -
  have t: "\<forall>i. TTL (RPU s i) \<le> L_CYCLES" using assms by (simp add: sim_inv_def unit_ok_def)
  then have "TTL (RPU s (N_RPU - 1)) \<le> L_CYCLES" by blast
  then have nt: "\<forall>j. TTL (((\<lambda>_. no_task)(1 := aged (RPU s (N_RPU - 1)))) j) < L_CYCLES"
    by (simp add: no_task_def aged_def L_CYCLES_def)
  have "RPU (pass_down s) = fst (fold pass_unit [0..N_RPU - 1] (RPU s, (\<lambda>_. no_task)(1 := aged (RPU s (N_RPU - 1)))))"
    by (simp add: pass_down_def)
  then have "\<forall>i \<in> {} \<union> set [0..N_RPU - 1]. \<not> starts (RPU (pass_down s) i)"
    using pass_units_started [OF t nt, of "{}" "[0..N_RPU - 1]"] by (simp only: True_implies_equals ball_empty)
  then have "\<forall>i \<in> {0..<N_RPU}. \<not> starts (RPU (pass_down s) i)" by (simp only: units_set Un_empty_left)
  then have "(\<Sum>i \<in> {0..<N_RPU}. of_bool (starts (RPU (pass_down s) i)) :: int) = 0" by simp
  then show "budget {0..<N_RPU} (pass_down s) = budget {} s"
    by (simp add: budget_def) (simp add: pass_down_def)
  show "flows_ok (pass_down s) = flows_ok s" by (simp add: pass_down_def flows_ok_def)
qed

text \<open>The unit before a unit is another one.\<close>

lemma unit_before: "i \<in> {0..<N_RPU} \<Longrightarrow> (i - 1 + N_RPU) mod N_RPU \<noteq> i"
  unfolding N_RPU_def atLeastLessThan_iff by presburger

lemma budget_send_pop:
  assumes "i \<in> {0..<N_RPU}" and "j \<in> {0..<N_RPU}" and "j \<noteq> i" and "task_type (RPU s i) = Empty" and "task_list s i = t # ts"
    and "TTL t = L_CYCLES" and "TTL (RPU s j) \<le> 1" and "TTL r \<le> 1" and "RPU s' = (RPU s)(i := t, j := r)"
    and "task_list s' = (task_list s)(i := ts)" and "perFlowPopQueue s' = perFlowPopQueue s" and "pop_cnt s' = pop_cnt s"
  shows "budget {0..<N_RPU} s' = budget {0..<N_RPU} s"
proof -
  let ?g = "\<lambda>t. of_bool (starts t) :: int"
  have "\<not> starts r" "\<not> starts (RPU s j)" "\<not> starts (RPU s i)" "starts t \<longleftrightarrow> task_type t = Pop_task"
    using assms by (auto simp: starts_def L_CYCLES_def)
  then have "(\<Sum>x \<in> {0..<N_RPU}. ?g (RPU s' x)) = (\<Sum>x \<in> {0..<N_RPU}. ?g (RPU s x)) + of_bool (task_type t = Pop_task)"
    using assms(3) sum_fun_upd [OF _ assms(2), of ?g "(RPU s)(i := t)" r] sum_fun_upd [OF _ assms(1), of ?g "RPU s" t]
    unfolding assms(9) by simp
  moreover have "(\<Sum>x \<in> {0..<N_RPU}. pops_in (task_list s' x)) =
      (\<Sum>x \<in> {0..<N_RPU}. pops_in (task_list s x)) - of_bool (task_type t = Pop_task)"
    using sum_fun_upd [OF _ assms(1), of pops_in "task_list s" ts] assms(5) unfolding assms(10) by simp
  ultimately show ?thesis using assms(11,12) by (simp add: budget_def)
qed

lemma budget_send_push:
  assumes "i \<in> {0..<N_RPU}" and "task_type (RPU s i) = Empty" and "task_list s i = t # ts" and "task_type t = Push_task"
    and "RPU s' = (RPU s)(i := t)" and "task_list s' = (task_list s)(i := ts)"
    and "perFlowPopQueue s' = perFlowPopQueue s" and "pop_cnt s' = pop_cnt s"
  shows "budget {0..<N_RPU} s' = budget {0..<N_RPU} s"
proof -
  let ?g = "\<lambda>t. of_bool (starts t) :: int"
  have "\<not> starts (RPU s i)" "\<not> starts t" using assms by (auto simp: starts_def)
  then have "(\<Sum>x \<in> {0..<N_RPU}. ?g (RPU s' x)) = (\<Sum>x \<in> {0..<N_RPU}. ?g (RPU s x))"
    using sum_fun_upd [OF _ assms(1), of ?g "RPU s" t] unfolding assms(5) by simp
  moreover have "(\<Sum>x \<in> {0..<N_RPU}. pops_in (task_list s' x)) = (\<Sum>x \<in> {0..<N_RPU}. pops_in (task_list s x))"
    using sum_fun_upd [OF _ assms(1), of pops_in "task_list s" ts] assms(3,4) unfolding assms(6) by simp
  ultimately show ?thesis using assms(7,8) by (simp add: budget_def)
qed

lemma budget_send_unit:
  assumes "send_unit i s = Some s'" and "sim_inv D es s" and "i \<in> {0..<N_RPU}"
  shows "budget {0..<N_RPU} s' = budget {0..<N_RPU} s \<and> (flows_ok s \<longrightarrow> flows_ok s')"
proof (cases "task_type (RPU s i) = Empty \<and> \<not> locked s i \<and> task_list s i \<noteq> []")
  case False
  then have "s' = s\<lparr> wait_time := incr i 1 (wait_time s) \<rparr>"
    using assms(1) by (auto simp: send_unit_def Let_def split: list.splits if_splits)
  then show ?thesis by (simp add: flows_ok_def)
next
  case True
  then obtain t ts where q: "task_list s i = t # ts" by (cases "task_list s i") auto
  then have ttl: "TTL t = L_CYCLES" using assms(2) by (auto simp: sim_inv_def task_ok_def dest!: spec [of _ i])
  show ?thesis
  proof (cases "task_type t = Push_task")
    case push: True
    with True q assms(1) have "RPU s' = (RPU s)(i := t)" "task_list s' = (task_list s)(i := ts)"
      "perFlowPopQueue s' = perFlowPopQueue s" "pop_cnt s' = pop_cnt s" "PFMap s' = PFMap s"
      by (auto simp: send_unit_def Let_def bind_eq_Some_conv)
    with budget_send_push [OF assms(3) _ q push] True show ?thesis by (simp add: flows_ok_def)
  next
    case False
    let ?j = "(i - 1 + N_RPU) mod N_RPU"
    note j = unit_index [of "i - 1 + N_RPU"] unit_before [OF assms(3)]
    show ?thesis
    proof (cases "TTL (RPU s ?j) \<le> 1")
      case le: True
      define r where "r = (if task_type (RPU s ?j) = Empty then (RPU s ?j)\<lparr> task_type := Locked \<rparr> else RPU s ?j)\<lparr> TTL := 1 \<rparr>"
      have "TTL r \<le> 1" by (simp add: r_def)
      moreover have "RPU s' = (RPU s)(i := t, ?j := r)" "task_list s' = (task_list s)(i := ts)"
        "perFlowPopQueue s' = perFlowPopQueue s" "pop_cnt s' = pop_cnt s" "PFMap s' = PFMap s"
        using le True False q j(2) assms(1) by (auto simp: send_unit_def Let_def r_def split: if_splits)
      ultimately show ?thesis
        using budget_send_pop [OF assms(3) j _ q ttl le, of r s'] True by (simp add: flows_ok_def)
    next
      case not_le: False
      with True False q assms(1) have "s' = s\<lparr> wait_time := incr i 1 (wait_time s), send_count := incr i 1 (send_count s) \<rparr>"
        by (auto simp: send_unit_def Let_def)
      then show ?thesis by (simp add: flows_ok_def)
    qed
  qed
qed

lemma budget_sends:
  "for_each send_unit is s = Some s' \<Longrightarrow> sim_inv D es s \<Longrightarrow> set is \<subseteq> {0..<N_RPU} \<Longrightarrow>
   budget {0..<N_RPU} s' = budget {0..<N_RPU} s \<and> (flows_ok s \<longrightarrow> flows_ok s')"
proof (induction "is" arbitrary: s)
  case (Cons i "is")
  then obtain s1 where s1: "send_unit i s = Some s1" "for_each send_unit is s1 = Some s'"
    by (auto simp: bind_eq_Some_conv)
  moreover have "sim_inv D es s1" using send_unit_inv [OF Cons.prems(2), of i] s1(1) by simp
  ultimately show ?case using Cons.IH [OF s1(2)] Cons.prems budget_send_unit [OF s1(1) Cons.prems(2)] by simp
qed simp

section \<open>A cycle\<close>

lemma run_cycle_budget:
  assumes "sim_inv D es (enter_tasks s)" and "flows_ok s"
  shows "\<exists>s'. run_cycle s = Some s' \<and> sim_inv D es s' \<and> flows_ok s' \<and>
    budget {0..<N_RPU} s' = budget {0..<N_RPU} s"
proof -
  obtain s1 s2 s3 where s: "for_each stat_unit [0..N_RPU - 1] (enter_tasks s) = Some s1" "sim_inv D es s1"
    "for_each send_unit [0..N_RPU - 1] (pass_down s1) = Some s2" "sim_inv D es s2"
    "run_cycle s = Some s3" "core s3 = core s2" "PFMap s3 = PFMap s2" "sim_inv D es s3"
    using run_cycle_parts [OF assms(1)] .
  have 1: "budget {} s1 = budget {0..<N_RPU} s" "flows_ok s1"
    using budget_stats [OF s(1)] budget_enter_tasks [OF assms(2)] unfolding units_set by simp_all
  have 2: "budget {0..<N_RPU} s2 = budget {0..<N_RPU} (pass_down s1)" "flows_ok (pass_down s1) \<longrightarrow> flows_ok s2"
    using budget_sends [OF s(3) pass_down_inv [OF s(2)]] unfolding units_set by simp_all
  have "flows_ok s3"
    using 1 2 budget_pass_down [OF s(2)] s(6,7) by (simp add: flows_ok_def core_def)
  with 1 2 s(5,8) budget_pass_down [OF s(2)] budget_core [OF s(6)] show ?thesis by simp
qed

end
