(* ===== verification/Sim_Input.thy ===== *)
theory Sim_Input
  imports Trace2mem Sim_Loop
begin

text \<open>
  How the simulator reads the trace: \<open>get_number\<close> and \<open>read_line\<close> of \<open>compiler/vPIFO_trace.cpp\<close>. The
  whole trace is read before the loop starts; packets go to the queue of their flow, a departure
  is charged to the flow of the packet that was read last.
\<close>

section \<open>Reading\<close>

text \<open>\<open>cin >> s\<close>: the words of the input, one after the other. White space is that of \<open>isspace\<close>.\<close>

function cin_words :: "string \<Rightarrow> string list" where
  "cin_words s =
     (case dropWhile is_int_space s of
        [] \<Rightarrow> []
      | c # cs \<Rightarrow> (c # takeWhile (\<lambda>d. \<not> is_int_space d) cs) # cin_words (dropWhile (\<lambda>d. \<not> is_int_space d) cs))"
  by pat_completeness auto
termination
proof (relation "measure length")
  fix s :: string and c cs
  assume "dropWhile is_int_space s = c # cs"
  then have "length (c # cs) \<le> length s" by (metis length_dropWhile_le)
  then show "(dropWhile (\<lambda>d. \<not> is_int_space d) cs, s) \<in> measure length"
    using length_dropWhile_le [of "\<lambda>d. \<not> is_int_space d" cs] by simp
qed simp

declare cin_words.simps [simp del]

text \<open>The digits of a word as one number, without the first \<open>skip_num\<close> of them.\<close>

fun number_acc :: "int \<Rightarrow> nat \<Rightarrow> string \<Rightarrow> int" where
  "number_acc ret skip [] = ret"
| "number_acc ret skip (c # cs) =
     (if is_digit c then
        case skip of 0 \<Rightarrow> number_acc (ret * 10 + int (digit_val c)) 0 cs | Suc k \<Rightarrow> number_acc ret k cs
      else number_acc ret skip cs)"

definition get_number :: "string \<Rightarrow> nat \<Rightarrow> int" where
  "get_number s skip_num = number_acc 0 skip_num s"

text \<open>The variables \<open>read_line\<close> sets, and its outcome: a line was read, the input is at its end,
  an assertion failed, or the input ends inside a line.\<close>

record input =
  in_meta :: int
  in_pushes :: "int \<Rightarrow> A_Push list"
  in_pops :: "int \<Rightarrow> int"
  in_skip :: int

datatype read = Line "string list" input | Eof | Assert_fails | Cut

definition read_push :: "(int \<Rightarrow> int option) \<Rightarrow> string \<Rightarrow> string \<Rightarrow> string \<Rightarrow> string \<Rightarrow> string list \<Rightarrow> input \<Rightarrow> read" where
  "read_push pfmap treeid_s meta_s p0_s p1_s rest r =
     (let m = get_number meta_s 0;
          a = \<lparr>treeid = get_number treeid_s 0, meta = m, p0 = get_number p0_s 1, p1 = get_number p1_s 1\<rparr>
      in case pfmap m of
           None \<Rightarrow> Assert_fails
         | Some f \<Rightarrow> Line rest (r\<lparr> in_meta := m, in_pushes := (in_pushes r)(f := in_pushes r f @ [a]) \<rparr>))"

definition read_line :: "(int \<Rightarrow> int option) \<Rightarrow> string list \<Rightarrow> input \<Rightarrow> read" where
  "read_line pfmap words r =
     (case words of
        [] \<Rightarrow> Eof
      | type_s # rest \<Rightarrow>
          (let type = get_number type_s 0
           in if type = 2 then
                case pfmap (in_meta r) of
                  None \<Rightarrow> Assert_fails
                | Some f \<Rightarrow> Line rest (r\<lparr> in_pops := incr f 1 (in_pops r) \<rparr>)
              else if type = 1 then
                case rest of
                  treeid_s # meta_s # p0_s # p1_s # rest' \<Rightarrow> read_push pfmap treeid_s meta_s p0_s p1_s rest' r
                | _ \<Rightarrow> Cut
              else if type = 0 then
                case rest of
                  idle_s # rest' \<Rightarrow> Line rest' (r\<lparr> in_skip := 1 + get_number idle_s 0 \<rparr>)
                | [] \<Rightarrow> Cut
              else Line rest r))"

lemma read_line_shorter: "read_line pfmap ws r = Line ws' r' \<Longrightarrow> length ws' < length ws"
  by (auto simp: read_line_def read_push_def Let_def split: list.splits if_splits option.splits)

text \<open>\<open>while (read_line());\<close>\<close>

function read_all :: "(int \<Rightarrow> int option) \<Rightarrow> string list \<Rightarrow> input \<Rightarrow> input option" where
  "read_all pfmap ws r =
     (case read_line pfmap ws r of
        Line ws' r' \<Rightarrow> read_all pfmap ws' r'
      | Eof \<Rightarrow> Some r
      | Assert_fails \<Rightarrow> None
      | Cut \<Rightarrow> None)"
  by pat_completeness auto
termination
  by (relation "measure (\<lambda>(pfmap, ws, r). length ws)") (auto dest: read_line_shorter)

declare read_all.simps [simp del]

definition input_start :: input where
  "input_start = \<lparr>in_meta = 0, in_pushes = (\<lambda>_. []), in_pops = (\<lambda>_. 0), in_skip = 0\<rparr>"

text \<open>\<open>main\<close> on the text of a trace, with at most \<open>k\<close> turns of the loop.\<close>

definition simulate :: "(int \<Rightarrow> int option) \<Rightarrow> string \<Rightarrow> nat \<Rightarrow> sim option" where
  "simulate pfmap trace k =
     Option.bind (read_all pfmap (cin_words trace) input_start) (\<lambda>r.
       sim_run k (sim_start pfmap (in_pushes r) (in_pops r)))"

section \<open>The words of a trace\<close>

lemma cin_words_space: "is_int_space c \<Longrightarrow> cin_words (c # s) = cin_words s"
  by (subst (1 2) cin_words.simps) simp

lemma cin_words_Nil [simp]: "cin_words [] = []"
  by (subst cin_words.simps) simp

lemma cin_words_word:
  assumes "w \<noteq> []" and "\<forall>c \<in> set w. \<not> is_int_space c" and "is_int_space c"
  shows "cin_words (w @ c # s) = w # cin_words s"
proof -
  obtain d ds where w: "w = d # ds" using assms(1) by (cases w) auto
  have "dropWhile is_int_space (w @ c # s) = d # ds @ c # s" using assms(2) w by simp
  moreover have "takeWhile (\<lambda>d. \<not> is_int_space d) (ds @ c # s) = ds" "dropWhile (\<lambda>d. \<not> is_int_space d) (ds @ c # s) = c # s"
    using assms(2,3) w by (simp_all add: takeWhile_append dropWhile_append)
  ultimately show ?thesis
    by (subst cin_words.simps) (simp add: w cin_words_space [OF assms(3)])
qed

fun entry_words :: "trace_entry \<Rightarrow> string list" where
  "entry_words (Idle n) = [''type:0,'', ''idle_cycle:'' @ py_str n]"
| "entry_words (Push t m q0 q1) =
     [''type:1,'', ''tree_id:'' @ py_str t @ '','', ''meta:'' @ py_str m @ '','', ''priority0:'' @ py_str q0 @ '','',
      ''priority1:'' @ py_str q1]"
| "entry_words Pop = [''type:2'']"

lemma trace_line_words: "trace_line x = join_sep '' '' (entry_words x)"
  by (cases x) simp_all

lemma cin_words_join:
  assumes "\<forall>w \<in> set ws. w \<noteq> [] \<and> (\<forall>c \<in> set w. \<not> is_int_space c)"
  shows "cin_words (join_sep '' '' ws @ newline # s) = ws @ cin_words s"
  using assms
proof (induction ws rule: induct_list012)
  case 1
  show ?case by (simp add: cin_words_space is_int_space_def char_code_def)
next
  case (2 w)
  then show ?case using cin_words_word [of w newline s] by (simp add: is_int_space_def char_code_def)
next
  case (3 v w ws)
  have "is_int_space CHR '' ''" by (simp add: is_int_space_def char_code_def)
  with 3 cin_words_word [of v "CHR '' ''" "join_sep '' '' (w # ws) @ newline # s"] show ?case by simp
qed

lemma py_str_not_int_space: "c \<in> set (py_str n) \<Longrightarrow> \<not> is_int_space c"
  using py_str_not_space [of c n] by (auto simp: is_int_space_def is_space_def Let_def)

lemma entry_words_plain: "w \<in> set (entry_words x) \<Longrightarrow> w \<noteq> [] \<and> (\<forall>c \<in> set w. \<not> is_int_space c)"
  using py_str_not_int_space by (cases x) (auto simp: is_int_space_def char_code_def)

lemma cin_words_trace: "cin_words (unlines (map trace_line es)) = concat (map entry_words es)"
proof (induction es)
  case (Cons x es)
  have "cin_words (trace_line x @ newline # unlines (map trace_line es)) =
      entry_words x @ cin_words (unlines (map trace_line es))"
    unfolding trace_line_words by (rule cin_words_join) (use entry_words_plain in blast)
  with Cons show ?case by simp
qed simp

text \<open>Numbers in the words.\<close>

lemma number_acc_skip: "\<forall>c \<in> set s. \<not> is_digit c \<Longrightarrow> number_acc ret k (s @ t) = number_acc ret k t"
  by (induction s) simp_all

lemma number_acc_digits: "\<forall>c \<in> set s. is_digit c \<Longrightarrow> number_acc ret 0 (s @ t) = number_acc (number_acc ret 0 s) 0 t"
  by (induction s arbitrary: ret) simp_all

lemma number_dec_digits: "number_acc 0 0 (dec_digits n) = int n"
proof (induction n rule: dec_digits.induct)
  case (1 n)
  show ?case
  proof (cases "n < 10")
    case True
    then show ?thesis by (simp add: dec_digits.simps [of n] digit_val_def)
  next
    case False
    have "int (n div 10) * 10 + int (n mod 10) = int n" by presburger
    with False show ?thesis
      using 1 number_acc_digits [of "dec_digits (n div 10)" 0 "[digit_char (n mod 10)]"] dec_digits_digits
      by (simp add: dec_digits.simps [of n] digit_val_def)
  qed
qed

lemma get_number_word:
  assumes "\<forall>c \<in> set a. \<not> is_digit c" and "\<forall>c \<in> set b. \<not> is_digit c" and "0 \<le> n"
  shows "get_number (a @ py_str n @ b) 0 = n" and "is_digit d \<Longrightarrow> get_number (a @ d # CHR '':'' # py_str n @ b) 1 = n"
proof -
  have "py_str n = dec_digits (nat n)" using assms(3) by (simp add: py_str_def)
  moreover have "number_acc 0 0 (dec_digits (nat n) @ b) = n"
    using number_acc_digits [of "dec_digits (nat n)" 0 b] number_acc_skip [of b _ 0 "[]"] assms(2,3) dec_digits_digits
    by (simp add: number_dec_digits)
  ultimately have n: "number_acc 0 0 (py_str n @ b) = n" by simp
  then show "get_number (a @ py_str n @ b) 0 = n" using number_acc_skip [OF assms(1)] by (simp add: get_number_def)
  have "\<not> is_digit CHR '':''" by (simp add: is_digit_def char_code_def)
  with n show "get_number (a @ d # CHR '':'' # py_str n @ b) 1 = n" if "is_digit d"
    using number_acc_skip [OF assms(1)] that by (simp add: get_number_def)
qed

section \<open>What is read\<close>

text \<open>The entries a simulator trace has: identifiers, priorities and idle cycles without a sign,
  and packets of a known flow.\<close>

fun entry_known :: "(int \<Rightarrow> int option) \<Rightarrow> trace_entry \<Rightarrow> bool" where
  "entry_known pfmap (Idle n) \<longleftrightarrow> 0 \<le> n"
| "entry_known pfmap (Push t m q0 q1) \<longleftrightarrow> 0 \<le> t \<and> 0 \<le> m \<and> 0 \<le> q0 \<and> 0 \<le> q1 \<and> pfmap m \<noteq> None"
| "entry_known pfmap Pop \<longleftrightarrow> True"

fun enter :: "(int \<Rightarrow> int option) \<Rightarrow> trace_entry \<Rightarrow> input \<Rightarrow> input" where
  "enter pfmap (Idle n) r = r\<lparr> in_skip := 1 + n \<rparr>"
| "enter pfmap (Push t m q0 q1) r =
     r\<lparr> in_meta := m, in_pushes := (in_pushes r)(the (pfmap m) := in_pushes r (the (pfmap m)) @
       [\<lparr>treeid = t, meta = m, p0 = q0, p1 = q1\<rparr>]) \<rparr>"
| "enter pfmap Pop r = r\<lparr> in_pops := incr (the (pfmap (in_meta r))) 1 (in_pops r) \<rparr>"

lemma get_number_types: "get_number ''type:0,'' 0 = 0" "get_number ''type:1,'' 0 = 1" "get_number ''type:2'' 0 = 2"
  by code_simp+

lemma no_digits:
  "\<forall>c \<in> set ''idle_cycle:''. \<not> is_digit c" "\<forall>c \<in> set ''tree_id:''. \<not> is_digit c" "\<forall>c \<in> set ''meta:''. \<not> is_digit c"
  "\<forall>c \<in> set ''priority''. \<not> is_digit c" "\<forall>c \<in> set '',''. \<not> is_digit c" "\<forall>c \<in> set []. \<not> is_digit c"
  "is_digit CHR ''0''" "is_digit CHR ''1''"
  by (simp_all add: is_digit_def char_code_def)

lemma get_number_fields:
  assumes "0 \<le> n"
  shows "get_number (''idle_cycle:'' @ py_str n) 0 = n" "get_number (''tree_id:'' @ py_str n @ '','') 0 = n"
    "get_number (''meta:'' @ py_str n @ '','') 0 = n" "get_number (''priority0:'' @ py_str n @ '','') 1 = n"
    "get_number (''priority1:'' @ py_str n) 1 = n"
  using get_number_word(1) [OF no_digits(1,6) assms] get_number_word(1) [OF no_digits(2,5) assms]
    get_number_word(1) [OF no_digits(3,5) assms] get_number_word(2) [OF no_digits(4,5) assms no_digits(7)]
    get_number_word(2) [OF no_digits(4,6) assms no_digits(8)]
  by simp_all

lemma read_entry:
  assumes "entry_known pfmap x" and "pfmap (in_meta r) \<noteq> None"
  shows "read_all pfmap (entry_words x @ ws) r = read_all pfmap ws (enter pfmap x r)"
proof (cases x)
  case (Idle n)
  with assms(1) show ?thesis
    using get_number_types(1) get_number_fields(1) [of n]
    by (subst read_all.simps) (simp add: read_line_def Let_def)
next
  case (Push t m q0 q1)
  then obtain f where "pfmap m = Some f" "0 \<le> t" "0 \<le> m" "0 \<le> q0" "0 \<le> q1" using assms(1) by auto
  then show ?thesis
    using get_number_types(2) get_number_fields(2) [of t] get_number_fields(3) [of m] get_number_fields(4) [of q0]
      get_number_fields(5) [of q1]
    by (subst read_all.simps) (simp add: Push read_line_def read_push_def Let_def)
next
  case Pop
  obtain f where "pfmap (in_meta r) = Some f" using assms(2) by blast
  then show ?thesis
    using get_number_types(3) by (subst read_all.simps) (simp add: Pop read_line_def Let_def)
qed

lemma read_entries:
  "list_all (entry_known pfmap) es \<Longrightarrow> pfmap (in_meta r) \<noteq> None \<Longrightarrow>
   read_all pfmap (concat (map entry_words es)) r = Some (fold (enter pfmap) es r)"
proof (induction es arbitrary: r)
  case Nil
  show ?case by (subst read_all.simps) (simp add: read_line_def)
next
  case (Cons x es)
  have "pfmap (in_meta (enter pfmap x r)) \<noteq> None" using Cons.prems by (cases x) auto
  with Cons read_entry [of pfmap x r] show ?case by simp
qed

text \<open>The packets of a flow in the order of the trace, and the departures charged to it.\<close>

fun trace_packets :: "(int \<Rightarrow> int option) \<Rightarrow> int \<Rightarrow> trace_entry list \<Rightarrow> A_Push list" where
  "trace_packets pfmap f [] = []"
| "trace_packets pfmap f (Push t m q0 q1 # es) =
     (if pfmap m = Some f then [\<lparr>treeid = t, meta = m, p0 = q0, p1 = q1\<rparr>] else []) @ trace_packets pfmap f es"
| "trace_packets pfmap f (_ # es) = trace_packets pfmap f es"

fun trace_pops :: "(int \<Rightarrow> int option) \<Rightarrow> int \<Rightarrow> int \<Rightarrow> trace_entry list \<Rightarrow> nat" where
  "trace_pops pfmap f prev [] = 0"
| "trace_pops pfmap f prev (Push t m q0 q1 # es) = trace_pops pfmap f m es"
| "trace_pops pfmap f prev (Pop # es) = (if pfmap prev = Some f then 1 else 0) + trace_pops pfmap f prev es"
| "trace_pops pfmap f prev (Idle n # es) = trace_pops pfmap f prev es"

lemma enter_queues:
  "list_all (entry_known pfmap) es \<Longrightarrow> pfmap (in_meta r) \<noteq> None \<Longrightarrow>
   in_pushes (fold (enter pfmap) es r) f = in_pushes r f @ trace_packets pfmap f es \<and>
   in_pops (fold (enter pfmap) es r) f = in_pops r f + int (trace_pops pfmap f (in_meta r) es)"
proof (induction es arbitrary: r)
  case (Cons x es)
  have "pfmap (in_meta (enter pfmap x r)) \<noteq> None" using Cons.prems by (cases x) auto
  with Cons.IH [of "enter pfmap x r"] Cons.prems show ?case by (cases x) auto
qed simp

lemma read_trace:
  assumes "list_all (entry_known pfmap) es" and "pfmap 0 \<noteq> None"
  shows "\<exists>r. read_all pfmap (cin_words (unlines (map trace_line es))) input_start = Some r \<and>
    in_pushes r = (\<lambda>f. trace_packets pfmap f es) \<and> in_pops r = (\<lambda>f. int (trace_pops pfmap f 0 es))"
  using read_entries [OF assms(1), of input_start] enter_queues [OF assms(1), of input_start] assms(2)
  by (auto simp: cin_words_trace input_start_def)

text \<open>Every departure is charged to one flow.\<close>

lemma sum_trace_pops:
  assumes "list_all (entry_known pfmap) es" and "ran pfmap \<subseteq> {0..<FLOW_NUM}" and "pfmap prev \<noteq> None"
  shows "(\<Sum>f \<in> {0..<FLOW_NUM}. int (trace_pops pfmap f prev es)) = int (count_list es Pop)"
  using assms(1,3)
proof (induction es arbitrary: prev)
  case (Cons x es)
  show ?case
  proof (cases x)
    case Pop
    obtain g where g: "pfmap prev = Some g" "g \<in> {0..<FLOW_NUM}"
      using Cons.prems(2) assms(2) by (auto simp: ran_def)
    have "(\<Sum>f \<in> {0..<FLOW_NUM}. int (if pfmap prev = Some f then 1 else 0)) = 1"
      using g by (simp add: sum.delta' if_distrib [of int] cong: if_cong)
    with Cons.IH [of prev] Cons.prems Pop show ?thesis by (simp add: sum.distrib)
  qed (use Cons in auto)
qed simp

end
