(* ===== verification/Sim_Main.thy ===== *)
theory Sim_Main
  imports Sim_Budget Sim_Input
begin

text \<open>
  Whole runs of the simulator from its start: the loop never gets stuck in a cycle, its log is one
  that \<open>draw.py\<close> can read, and there are at most as many departures as the trace asks for. The
  loop itself need not end.
\<close>

section \<open>Runs\<close>

lemma sim_run_inv:
  assumes "sim_inv D es s" and "flows_ok s"
  shows "\<exists>s'. sim_run k s = Some s' \<and> sim_inv D es s' \<and> flows_ok s' \<and> budget {0..<N_RPU} s' = budget {0..<N_RPU} s"
  using assms
proof (induction k arbitrary: s)
  case (Suc k)
  show ?case
  proof (cases "finished s")
    case False
    obtain s1 where s1: "run_cycle s = Some s1" "sim_inv D es s1" "flows_ok s1"
      "budget {0..<N_RPU} s1 = budget {0..<N_RPU} s"
      using run_cycle_budget [OF enter_tasks_inv [OF Suc.prems(1)] Suc.prems(2)] by blast
    with Suc.IH [OF s1(2,3)] False show ?thesis by simp
  qed (use Suc.prems in simp)
qed simp

lemma sim_start_inv:
  assumes "\<forall>f. list_all (packet_ok D) (pushes f)"
  shows "sim_inv D [] (sim_start pfmap pushes pops)"
proof -
  have "\<forall>i < M_TREES. vals empty_node \<subseteq> (if i = 0 then Collect user else insert 0 {})"
    by (simp add: vals_empty user_0)
  then have "trees_ok {} init_store" unfolding trees_ok_def using forest_init by blast
  then show ?thesis
    using assms unit_ok_no_task
    by (simp add: sim_inv_def sim_start_def entered_def push_pairs_def pop_pairs_def numbered_def)
qed

section \<open>The first packet\<close>

lemma log_push_flow:
  "log_out (push_flow c s) = log_out s @ (case perFlowPushQueue s c of [] \<Rightarrow> [] | a # _ \<Rightarrow> [Push_cyc (meta a) (push_cnt s)])"
  "c \<noteq> f \<Longrightarrow> perFlowPushQueue (push_flow c s) f = perFlowPushQueue s f"
  by (simp_all add: push_flow_def Let_def write_push_def split: list.split)

lemma log_push_flows:
  "\<exists>new. log_out (fold push_flow is s) = log_out s @ new \<and> list_all is_push new"
proof (induction "is" arbitrary: s)
  case (Cons i "is")
  from Cons [of "push_flow i s"] show ?case by (force simp: log_push_flow split: list.splits)
qed simp

lemma log_push_heads:
  "distinct is \<Longrightarrow> f \<in> set is \<Longrightarrow> perFlowPushQueue s f = a # q \<Longrightarrow>
   meta a \<in> fst ` event_pair ` set (log_out (fold push_flow is s))"
proof (induction "is" arbitrary: s)
  case (Cons i "is")
  obtain new where new: "log_out (fold push_flow is (push_flow i s)) = log_out (push_flow i s) @ new"
    using log_push_flows by blast
  show ?case
  proof (cases "i = f")
    case True
    with Cons.prems(3) new show ?thesis by (force simp: log_push_flow)
  next
    case False
    with Cons log_push_flow(2) [OF False, of s] show ?thesis by simp
  qed
qed simp

lemma log_proper_pushes:
  "list_all is_push es \<Longrightarrow> log_proper P (es @ rest) \<longleftrightarrow> log_proper (P \<union> fst ` event_pair ` set es) rest"
proof (induction es arbitrary: P)
  case (Cons e es)
  then show ?case by (cases e) simp_all
qed simp

lemma log_first_cycle:
  fixes pfmap pops
  assumes "f \<in> {0..<FLOW_NUM}" and "pushes f = a # q" and "meta a = 0"
  defines "es \<equiv> log_out (enter_tasks (sim_start pfmap pushes pops))"
  shows "list_all is_push es" and "0 \<in> fst ` event_pair ` set es"
proof -
  let ?s = "check_task_list_empty (sim_start pfmap pushes pops)"
  have s: "log_out ?s = []" "cycle ?s = 1" "perFlowPushQueue ?s f = a # q"
    using assms(2) by (simp_all add: check_task_list_empty_def sim_start_def)
  have c: "cycle (push_flow c s) = cycle s" for c s
    by (simp add: push_flow_def Let_def write_push_def split: list.split)
  have "cycle (fold push_flow is s) = cycle s" for "is" s
    by (induction "is" arbitrary: s) (simp_all add: c)
  then have es: "es = log_out (fold push_flow [0..FLOW_NUM - 1] ?s)"
    using s(2) by (simp add: es_def enter_tasks_def Let_def try_push_push_task_def)
  show "list_all is_push es" using log_push_flows [of "[0..FLOW_NUM - 1]" ?s] s(1) by (auto simp: es)
  show "0 \<in> fst ` event_pair ` set es"
    using log_push_heads [of "[0..FLOW_NUM - 1]" f ?s a q] assms(1,3) s(3) by (simp add: es)
qed

lemma first_cycle_inv:
  fixes pfmap pops
  assumes "\<forall>f. list_all (packet_ok D) (pushes f)"
  defines "s \<equiv> enter_tasks (sim_start pfmap pushes pops)"
  shows "sim_inv D (log_out s) s"
  using enter_tasks_inv [OF sim_start_inv [OF assms(1)], of pfmap pops] by (simp add: s_def sim_inv_def)

lemma sim_run_proper:
  assumes "\<forall>f. list_all (packet_ok D) (pushes f)" and "ran pfmap \<subseteq> {0..<FLOW_NUM}" and "\<forall>f. 0 \<le> pops f"
    and "f \<in> {0..<FLOW_NUM}" and "pushes f = a # q" and "meta a = 0"
  shows "\<exists>s. sim_run k (sim_start pfmap pushes pops) = Some s \<and> log_proper {} (log_out s) \<and>
    map snd (push_pairs (log_out s)) = map int [0..<length (push_pairs (log_out s))] \<and>
    map snd (pop_pairs (log_out s)) = map int [0..<length (pop_pairs (log_out s))] \<and>
    int (length (pop_pairs (log_out s))) \<le> (\<Sum>f \<in> {0..<FLOW_NUM}. pops f) \<and> entered s \<subseteq> D"
proof -
  let ?s0 = "sim_start pfmap pushes pops"
  let ?es = "log_out (enter_tasks ?s0)"
  have flows: "flows_ok ?s0" using assms(2,3) by (simp add: flows_ok_def sim_start_def)
  have b0: "budget {0..<N_RPU} ?s0 = (\<Sum>f \<in> {0..<FLOW_NUM}. pops f)"
    by (simp add: budget_def sim_start_def starts_def no_task_def)
  have bound: "pop_cnt s \<le> budget {0..<N_RPU} s" if "flows_ok s" for s
    using that by (simp add: budget_def flows_ok_def add_nonneg_nonneg sum_nonneg pops_in_nonneg)
  note first = log_first_cycle [of f pushes a q pfmap pops, OF assms(4-6)]
  have ok: "log_proper {} (log_out s) \<and>
      map snd (push_pairs (log_out s)) = map int [0..<length (push_pairs (log_out s))] \<and>
      map snd (pop_pairs (log_out s)) = map int [0..<length (pop_pairs (log_out s))] \<and>
      int (length (pop_pairs (log_out s))) \<le> (\<Sum>f \<in> {0..<FLOW_NUM}. pops f) \<and> entered s \<subseteq> D"
    if inv: "sim_inv D ?es s" "flows_ok s" "budget {0..<N_RPU} s = budget {0..<N_RPU} ?s0" for s
  proof -
    obtain rest where rest: "log_out s = ?es @ rest" using inv(1) unfolding sim_inv_def prefix_def by blast
    have "log_proper {0} (?es @ rest)" using inv(1) rest by (simp add: sim_inv_def)
    then have "log_proper {} (log_out s)"
      unfolding rest log_proper_pushes [OF first(1)] using first(2) by (simp add: insert_absorb)
    with inv bound [OF inv(2)] b0 show ?thesis by (simp add: sim_inv_def numbered_def)
  qed
  show ?thesis
  proof (cases "k = 0 \<or> finished ?s0")
    case True
    then have "sim_run k ?s0 = Some ?s0" by (cases k) simp_all
    moreover have "log_out ?s0 = []" by (simp add: sim_start_def)
    ultimately show ?thesis using assms(3) by (simp add: entered_def push_pairs_def pop_pairs_def sum_nonneg)
  next
    case False
    then obtain n where n: "k = Suc n" by (cases k) auto
    obtain s1 where s1: "run_cycle ?s0 = Some s1" "sim_inv D ?es s1" "flows_ok s1"
      "budget {0..<N_RPU} s1 = budget {0..<N_RPU} ?s0"
      using run_cycle_budget [OF first_cycle_inv [OF assms(1)] flows] by blast
    obtain s where s: "sim_run n s1 = Some s" "sim_inv D ?es s" "flows_ok s"
      "budget {0..<N_RPU} s = budget {0..<N_RPU} s1"
      using sim_run_inv [OF s1(2,3)] by blast
    have "sim_run k ?s0 = Some s" using False s1(1) s(1) by (simp add: n)
    with ok [OF s(2,3)] s(4) s1(4) show ?thesis by simp
  qed
qed

section \<open>From the trace to the log\<close>

text \<open>The entries the simulator is made for: users 1 to 39, packets of a known flow, numbers that
  fit an \<open>int\<close>.\<close>

fun sim_entry :: "(int \<Rightarrow> int option) \<Rightarrow> trace_entry \<Rightarrow> bool" where
  "sim_entry pfmap (Push t m q0 q1) \<longleftrightarrow> entry_known pfmap (Push t m q0 q1) \<and> 0 < t \<and> t < int M_TREES \<and>
     m < 2 ^ 31 \<and> q0 < 2 ^ 31 \<and> q1 < 2 ^ 31"
| "sim_entry pfmap (Idle n) \<longleftrightarrow> entry_known pfmap (Idle n) \<and> n < 2 ^ 31 - 1"
| "sim_entry pfmap Pop \<longleftrightarrow> True"

fun packet_ids :: "trace_entry list \<Rightarrow> int list" where
  "packet_ids [] = []"
| "packet_ids (Push t m q0 q1 # es) = m # packet_ids es"
| "packet_ids (_ # es) = packet_ids es"

lemma sim_entry_known: "list_all (sim_entry pfmap) es \<Longrightarrow> list_all (entry_known pfmap) es"
proof (induction es)
  case (Cons x es)
  then show ?case by (cases x) simp_all
qed simp

lemma trace_packets_ok:
  "list_all (sim_entry pfmap) es \<Longrightarrow> set (packet_ids es) \<subseteq> D \<Longrightarrow> list_all (packet_ok D) (trace_packets pfmap f es)"
  by (induction pfmap f es rule: trace_packets.induct) (simp_all add: packet_ok_def)

lemma trace_packets_first:
  "list_all (sim_entry pfmap) es \<Longrightarrow> packet_ids es = m # ms \<Longrightarrow>
   \<exists>f a q. pfmap m = Some f \<and> trace_packets pfmap f es = a # q \<and> meta a = m"
  by (induction es rule: packet_ids.induct) auto

lemma simulate_log:
  assumes "list_all (sim_entry pfmap) es" and "ran pfmap \<subseteq> {0..<FLOW_NUM}" and "packet_ids es = 0 # ms"
  shows "\<exists>s. simulate pfmap (unlines (map trace_line es)) k = Some s \<and> log_proper {} (log_out s) \<and>
    map snd (push_pairs (log_out s)) = map int [0..<length (push_pairs (log_out s))] \<and>
    map snd (pop_pairs (log_out s)) = map int [0..<length (pop_pairs (log_out s))] \<and>
    length (pop_pairs (log_out s)) \<le> count_list es Pop \<and> fst ` set (push_pairs (log_out s)) \<subseteq> set (packet_ids es)"
proof -
  note known = sim_entry_known [OF assms(1)]
  obtain f a q where f: "pfmap 0 = Some f" "trace_packets pfmap f es = a # q" "meta a = 0"
    using trace_packets_first [OF assms(1,3)] by blast
  obtain r where r: "read_all pfmap (cin_words (unlines (map trace_line es))) input_start = Some r"
    "in_pushes r = (\<lambda>f. trace_packets pfmap f es)" "in_pops r = (\<lambda>f. int (trace_pops pfmap f 0 es))"
    using read_trace [OF known] f(1) by blast
  have "f \<in> {0..<FLOW_NUM}" using f(1) assms(2) by (auto simp: ran_def)
  from sim_run_proper [of "set (packet_ids es)" "in_pushes r" pfmap "in_pops r" f a q k, OF _ assms(2) _ this] f
    trace_packets_ok [OF assms(1) order_refl]
  have "\<exists>s. sim_run k (sim_start pfmap (in_pushes r) (in_pops r)) = Some s \<and> log_proper {} (log_out s) \<and>
    map snd (push_pairs (log_out s)) = map int [0..<length (push_pairs (log_out s))] \<and>
    map snd (pop_pairs (log_out s)) = map int [0..<length (pop_pairs (log_out s))] \<and>
    int (length (pop_pairs (log_out s))) \<le> int (count_list es Pop) \<and> entered s \<subseteq> set (packet_ids es)"
    using sum_trace_pops [OF known assms(2), of 0] by (simp add: r(2,3))
  then show ?thesis by (simp add: simulate_def r(1) entered_def)
qed



section \<open>The loop need not end\<close>

text \<open>Nothing is under way, a flow may still send, but the packet on top is of another flow.\<close>

definition starved :: "sim \<Rightarrow> bool" where
  "starved s \<longleftrightarrow> noPush s \<and> \<not> noPop s \<and> (\<forall>i. task_list s i = []) \<and>
     (\<forall>i. task_type (RPU s i) = Empty \<and> TTL (RPU s i) = 0) \<and>
     (fst (top_of s 0) = inf_val \<or> fst (top_of s (snd (top_of s 0))) = inf_val \<or>
      (\<exists>f. PFMap s (snd (top_of s (snd (top_of s 0)))) = Some f \<and> perFlowPopQueue s f \<le> 0))"

lemma starved_core: "core s' = core s \<Longrightarrow> PFMap s' = PFMap s \<Longrightarrow> starved s' \<longleftrightarrow> starved s"
  by (simp add: starved_def core_def noPush_def noPop_def top_of_def)

lemma starved_enter:
  assumes "starved s"
  shows "core (enter_tasks s) = core s \<and> PFMap (enter_tasks s) = PFMap s"
proof -
  let ?s = "check_task_list_empty s"
  have s: "core ?s = core s" "PFMap ?s = PFMap s" by (simp_all add: check_task_list_empty_def)
  then have st: "starved ?s" using assms starved_core by blast
  have "fold push_flow is ?s = ?s" if "list_all (\<lambda>i. perFlowPushQueue ?s i = []) is" for "is"
    using that by (induction "is") (simp_all add: push_flow_def)
  then have "try_push_push_task ?s = ?s" using st by (simp add: try_push_push_task_def starved_def noPush_def)
  moreover have "core (try_push_pop_task ?s) = core ?s \<and> PFMap (try_push_pop_task ?s) = PFMap ?s"
    using st by (auto simp: try_push_pop_task_def starved_def Let_def fun_upd_idem)
  ultimately show ?thesis using s by (simp add: enter_tasks_def Let_def)
qed

lemma starved_stats: "starved s \<Longrightarrow> for_each stat_unit is s = Some s"
  by (induction "is") (simp_all add: stat_unit_def Let_def starved_def L_CYCLES_def)

lemma starved_pass_down:
  assumes "starved s"
  shows "pass_down s = s"
proof -
  have unit: "task_type (RPU s i) = Empty" "TTL (RPU s i) = 0" for i using assms by (simp_all add: starved_def)
  then have same: "(RPU s i)\<lparr> task_type := Empty, TTL := 0 \<rparr> = RPU s i" for i by (cases "RPU s i") (metis Task.simps)
  have "fst (fold pass_unit is (RPU s, nt)) = RPU s" if "\<forall>j. TTL (nt j) \<le> 0" for "is" nt
    using that
  proof (induction "is" arbitrary: nt)
    case (Cons i "is")
    define nt1 where "nt1 = nt(i mod 2 := aged (RPU s i))"
    have nt1: "\<forall>j. TTL (nt1 j) \<le> 0" using Cons.prems unit(2) by (simp add: nt1_def aged_def)
    then have "\<not> 0 < TTL (nt1 (1 - i mod 2))" by (simp add: linorder_not_less)
    then have "pass_unit i (RPU s, nt) = (RPU s, nt1)"
      unfolding pass_unit_def prod.case Let_def nt1_def [symmetric] using unit(1) [of i] by (simp add: same)
    with Cons.IH [OF nt1] show ?case by simp
  qed simp
  from this [of "(\<lambda>_. no_task)(1 := aged (RPU s (N_RPU - 1)))"] unit(2) show ?thesis
    by (simp add: pass_down_def no_task_def aged_def)
qed

lemma starved_send:
  assumes "starved s"
  shows "\<exists>s'. for_each send_unit is s = Some s' \<and> core s' = core s \<and> PFMap s' = PFMap s"
proof (rule for_each_inv [of "\<lambda>s'. core s' = core s \<and> PFMap s' = PFMap s"])
  fix i s' assume I: "core s' = core s \<and> PFMap s' = PFMap s"
  then have "task_list s' i = []" using assms by (simp add: core_def starved_def)
  then have "send_unit i s' = Some (s'\<lparr> wait_time := incr i 1 (wait_time s') \<rparr>)" by (simp add: send_unit_def Let_def)
  with I show "\<exists>s''. send_unit i s' = Some s'' \<and> core s'' = core s \<and> PFMap s'' = PFMap s" by simp
qed simp

lemma starved_cycle:
  assumes "starved s"
  shows "\<exists>s'. run_cycle s = Some s' \<and> core s' = core s \<and> PFMap s' = PFMap s"
proof -
  let ?s1 = "enter_tasks s"
  have s1: "core ?s1 = core s" "PFMap ?s1 = PFMap s" using starved_enter [OF assms] by auto
  then have st: "starved ?s1" using assms starved_core by blast
  obtain s2 where s2: "for_each send_unit [0..N_RPU - 1] ?s1 = Some s2" "core s2 = core ?s1" "PFMap s2 = PFMap ?s1"
    using starved_send [OF st] by blast
  with starved_stats [OF st] starved_pass_down [OF st] finish_cycle [of s2] s1 show ?thesis
    by (auto simp: run_cycle_def)
qed


text \<open>Packet 5 of flow 1 waits in the tree of user 1, but only flow 0 may send.\<close>

definition starved_trees :: store where
  "starved_trees = the (Option.bind (push_call (tree 1) init_store (3, 5)) (\<lambda>st. push_call (tree 0) st (2, 1)))"

definition starved_state :: sim where
  "starved_state = (sim_start [5 \<mapsto> 1] (\<lambda>_. []) ((\<lambda>_. 0)(0 := 1)))\<lparr> trees := starved_trees \<rparr>"

lemma starved_tops: "top_val starved_trees (tree 0) = (2, 1)" "top_val starved_trees (tree 1) = (3, 5)"
  by code_simp+


end
