(* ===== verification/Sim_Files.thy ===== *)
theory Sim_Files
  imports Draw Sim_Main
begin

text \<open>
  The program \<open>compiler/vPIFO_trace.cpp\<close> as a whole: the names of its files (\<open>compiler/util.cpp\<close>), the
  map from packets to flows it reads (\<open>readPFMap\<close>), and the log it leaves in a file. A failed
  assertion or an exception that ends the program is \<open>None\<close>.
\<close>

section \<open>File names\<close>

definition getTraceFileName :: "string \<Rightarrow> string option" where
  "getTraceFileName s =
     map_option (\<lambda>dotPos. take dotPos s @ ''.trace'' @ drop (dotPos + 7) s) (find_sub ''.output'' s)"

definition getRefFileName :: "string \<Rightarrow> string option" where
  "getRefFileName s =
     map_option (\<lambda>dotPos. take dotPos s @ ''.ref'' @ drop (dotPos + 7) s) (find_sub ''.output'' s)"

definition getPFMapFileName :: "string \<Rightarrow> string option" where
  "getPFMapFileName s =
     map_option (\<lambda>dotPos. take dotPos s @ ''.pfmap'' @ drop (dotPos + 7) s) (find_sub ''.output'' s)"

text \<open>The names are those of the scripts.\<close>

lemma sim_file_names:
  "cut_output s = Some (a, b) \<Longrightarrow>
   getTraceFileName s = Some (a @ ''.trace'' @ b) \<and> getRefFileName s = Some (a @ ''.ref'' @ b) \<and>
   getPFMapFileName s = Some (a @ ''.pfmap'' @ b)"
  by (auto simp: cut_output_def getTraceFileName_def getRefFileName_def getPFMapFileName_def)

section \<open>The map from packets to flows\<close>

text \<open>\<open>std::stoi\<close>: white space, a sign, digits; it throws without a digit or out of the range of \<open>int\<close>.\<close>

fun signed :: "string \<Rightarrow> bool \<times> string" where
  "signed [] = (False, [])"
| "signed (c # cs) = (if c = CHR ''-'' then (True, cs) else if c = CHR ''+'' then (False, cs) else (False, c # cs))"

definition stoi :: "string \<Rightarrow> int option" where
  "stoi s =
     (let (neg, u) = signed (dropWhile is_int_space s);
          ds = takeWhile is_digit u;
          v = (if neg then - get_number ds 0 else get_number ds 0)
      in if ds = [] \<or> v < - (2 ^ 31) \<or> 2 ^ 31 \<le> v then None else Some v)"

text \<open>The number after the first colon of a part, 0 when there is no colon.\<close>

definition part_value :: "string \<Rightarrow> int option" where
  "part_value part =
     (case dropWhile (\<lambda>c. c \<noteq> CHR '':'') part of [] \<Rightarrow> Some 0 | _ # valueStr \<Rightarrow> stoi valueStr)"

text \<open>The two calls of \<open>getline(iss, part, ',')\<close>: after a line without a comma the stream is at its
  end, and the second call leaves \<open>part\<close> as it is.\<close>

definition first_part :: "string \<Rightarrow> string" where
  "first_part line = takeWhile (\<lambda>c. c \<noteq> CHR '','') line"

definition second_part :: "string \<Rightarrow> string" where
  "second_part line =
     (case dropWhile (\<lambda>c. c \<noteq> CHR '','') line of
        [] \<Rightarrow> first_part line
      | _ # rest \<Rightarrow> takeWhile (\<lambda>c. c \<noteq> CHR '','') rest)"

fun readPFMap_lines :: "(int \<Rightarrow> int option) \<Rightarrow> string list \<Rightarrow> (int \<Rightarrow> int option) option" where
  "readPFMap_lines pfmap [] = Some pfmap"
| "readPFMap_lines pfmap (line # lines) =
     Option.bind (part_value (first_part line)) (\<lambda>m.
     Option.bind (part_value (second_part line)) (\<lambda>flowId.
       readPFMap_lines (pfmap(m \<mapsto> flowId)) lines))"

text \<open>\<open>getline(file, line)\<close>: lines without their newline. A file that is missing leaves the map empty.\<close>

definition readPFMap :: "files \<Rightarrow> string \<Rightarrow> (int \<Rightarrow> int option) option" where
  "readPFMap fs name =
     (case fs name of
        None \<Rightarrow> Some Map.empty
      | Some text \<Rightarrow> readPFMap_lines Map.empty (map (takeWhile (\<lambda>c. c \<noteq> newline)) (readlines text)))"

section \<open>The program\<close>

text \<open>\<open>main\<close>, stopped after at most \<open>k\<close> turns of its loop: its variables and the files, with the log
  printed so far. A trace that cannot be opened is not modelled.\<close>

definition vPIFO_trace :: "string \<Rightarrow> files \<Rightarrow> nat \<Rightarrow> (sim \<times> files) option" where
  "vPIFO_trace inputFileName fs k =
     Option.bind (getRefFileName inputFileName) (\<lambda>outputFileName.
     Option.bind (getPFMapFileName inputFileName) (\<lambda>PFMapFileName.
     Option.bind (getTraceFileName inputFileName) (\<lambda>traceFileName.
     Option.bind (readPFMap fs PFMapFileName) (\<lambda>pfmap.
     Option.bind (fs traceFileName) (\<lambda>trace.
     Option.bind (simulate pfmap trace k) (\<lambda>s.
       Some (s, fs(outputFileName \<mapsto> unlines (map event_line (log_out s))))))))))"

section \<open>Reading what the compiler printed\<close>

definition fits_int :: "int \<Rightarrow> bool" where
  "fits_int n \<longleftrightarrow> - (2 ^ 31) \<le> n \<and> n < 2 ^ 31"

lemma dec_digits_take: "takeWhile is_digit (dec_digits n) = dec_digits n"
  using dec_digits_digits by (simp add: takeWhile_eq_all_conv)

lemma dec_digits_signed: "signed (dec_digits n) = (False, dec_digits n)"
proof (cases "dec_digits n")
  case (Cons c cs)
  then have "is_digit c" using dec_digits_digits [of c n] by simp
  then have "c \<noteq> CHR ''-''" "c \<noteq> CHR ''+''" by (auto simp: is_digit_def char_code_def)
  with Cons show ?thesis by simp
qed simp

lemma stoi_py_str: "fits_int n \<Longrightarrow> stoi (py_str n) = Some n"
proof -
  assume n: "fits_int n"
  have skip: "dropWhile is_int_space (py_str n) = py_str n"
    using py_str_not_int_space [of _ n] by (cases "py_str n") auto
  have ne: "dec_digits k \<noteq> []" for k by (subst dec_digits.simps) simp
  show ?thesis
  proof (cases "n < 0")
    case True
    then have "py_str n = CHR ''-'' # dec_digits (nat (- n))" by (simp add: py_str_def)
    with n skip True ne show ?thesis
      by (simp add: stoi_def dec_digits_take get_number_def number_dec_digits fits_int_def)
  next
    case False
    then have "py_str n = dec_digits (nat n)" by (simp add: py_str_def)
    with n skip False ne show ?thesis
      by (simp add: stoi_def dec_digits_signed dec_digits_take get_number_def number_dec_digits fits_int_def)
  qed
qed

lemma pfmap_line_values:
  assumes "fits_int m" and "fits_int f"
  shows "part_value (first_part (pfmap_line (m, f))) = Some m" and "part_value (second_part (pfmap_line (m, f))) = Some f"
proof -
  let ?not = "\<lambda>c. c \<noteq> CHR '',''"
  have no: "\<forall>c \<in> set (''meta:'' @ py_str m). c \<noteq> CHR '',''" "\<forall>c \<in> set ('' flow:'' @ py_str f). c \<noteq> CHR '',''"
    by auto
  have line: "pfmap_line (m, f) = (''meta:'' @ py_str m) @ CHR '','' # '' flow:'' @ py_str f"
    by (simp add: pfmap_line_def)
  have first: "first_part (pfmap_line (m, f)) = ''meta:'' @ py_str m"
    unfolding first_part_def line using no(1) by (subst takeWhile_append2) auto
  have "dropWhile ?not (pfmap_line (m, f)) = CHR '','' # '' flow:'' @ py_str f"
    unfolding line using no(1) by (subst dropWhile_append2) auto
  then have second: "second_part (pfmap_line (m, f)) = '' flow:'' @ py_str f"
    using no(2) by (simp add: second_part_def takeWhile_eq_all_conv)
  show "part_value (first_part (pfmap_line (m, f))) = Some m"
    using stoi_py_str [OF assms(1)] by (simp add: first part_value_def)
  show "part_value (second_part (pfmap_line (m, f))) = Some f"
    using stoi_py_str [OF assms(2)] by (simp add: second part_value_def)
qed

lemma readPFMap_printed:
  assumes "\<forall>(m, f) \<in> set kvs. fits_int m \<and> fits_int f" and "fs name = Some (unlines (map pfmap_line kvs))"
  shows "readPFMap fs name = Some (map_of (rev kvs))"
proof -
  have strip: "takeWhile (\<lambda>c. c \<noteq> newline) (pfmap_line kv @ [newline]) = pfmap_line kv" for kv
    using newline_pfmap_line [of kv] by (auto simp: takeWhile_append takeWhile_eq_all_conv)
  have "readPFMap_lines d (map pfmap_line kvs) = Some (d ++ map_of (rev kvs))" for d
    using assms(1)
  proof (induction kvs arbitrary: d)
    case (Cons kv kvs)
    obtain m f where kv: "kv = (m, f)" by force
    with Cons pfmap_line_values [of m f] show ?case by simp
  qed simp
  from this [of Map.empty] show ?thesis
    by (simp add: readPFMap_def assms(2) readlines_unlines newline_pfmap_line strip comp_def)
qed

end
