(* ===== verification/Policies.thy ===== *)
theory Policies
  imports Compile PIFO_Paths Sim_Files
begin

text \<open>
  The policy files \<open>compiler_test/test2_1.cpp\<close> to \<open>test2_3.cpp\<close>: a root with two users, strict
  priorities, fair queueing, and pFabric below fair queueing. Each is a program that builds its
  tree, checks it, prints the path table and compiles a capture. The policies are in the range the
  rest of the tool chain expects.
\<close>

section \<open>Attaching flows\<close>

text \<open>The calls of \<open>attachFlow\<close> in a policy file, in order.\<close>

fun attach_all :: "(string \<times> nat \<times> share) list \<Rightarrow> compiler \<Rightarrow> compiler cpp" where
  "attach_all [] c = Inr c"
| "attach_all ((flowId, n, sh) # xs) c = bind_cpp (attachFlow flowId (Some n) sh c) (attach_all xs)"

text \<open>A user: a node below a root, with an identifier that is one of the simulator.\<close>

definition is_user :: "compiler \<Rightarrow> nat \<Rightarrow> bool" where
  "is_user c n \<longleftrightarrow> (\<exists>nd f fd. node_heap c n = Some nd \<and> father nd = Some f \<and> node_heap c f = Some fd \<and> father fd = None \<and>
     0 < nodeId nd \<and> nodeId nd < 40)"

text \<open>The share that goes with the strategy of a node.\<close>

fun share_fits :: "compiler \<Rightarrow> SchedStrategy \<Rightarrow> share \<Rightarrow> bool" where
  "share_fits c (SPTYPE a) (Priority p) \<longleftrightarrow> sp_heap c a \<noteq> None \<and> in_range p"
| "share_fits c (WFQTYPE a) (Weight w) \<longleftrightarrow> wfq_heap c a \<noteq> None \<and> weight_ok w"
| "share_fits c (PFABRICTYPE a) No_share \<longleftrightarrow> True"
| "share_fits c _ _ \<longleftrightarrow> False"

definition fits :: "compiler \<Rightarrow> nat \<Rightarrow> share \<Rightarrow> bool" where
  "fits c n sh \<longleftrightarrow> (\<exists>s. strategy_of n c = Inr s \<and> share_fits c s sh)"

text \<open>What attaching a flow leaves alone; tables only grow.\<close>

definition grown :: "compiler \<Rightarrow> compiler \<Rightarrow> bool" where
  "grown c c' \<longleftrightarrow> node_heap c' = node_heap c \<and> strategy_heap c' = strategy_heap c \<and> perf_heap c' = perf_heap c \<and>
     next_addr c' = next_addr c \<and> next_nodeId c' = next_nodeId c \<and> FidMap c' = FidMap c \<and>
     dom (wfq_heap c) \<subseteq> dom (wfq_heap c') \<and>
     (\<forall>a t. sp_heap c a = Some t \<longrightarrow> (\<exists>t'. sp_heap c' a = Some t' \<and> dom t \<subseteq> dom t'))"

lemma grown_refl: "grown c c"
  by (simp add: grown_def)

lemma grown_trans: "grown c c' \<Longrightarrow> grown c' c'' \<Longrightarrow> grown c c''"
  unfolding grown_def by (elim conjE) (intro conjI; simp?; metis subset_trans)

lemma grown_same:
  assumes "grown c c'"
  shows "strategy_of n c' = strategy_of n c" "is_user c' n \<longleftrightarrow> is_user c n" "fits c n sh \<Longrightarrow> fits c' n sh" "ranks c nd key \<Longrightarrow> ranks c' nd key"
proof -
  show st: "strategy_of n c' = strategy_of n c" and "is_user c' n \<longleftrightarrow> is_user c n"
    using assms by (simp_all add: grown_def strategy_of_def is_user_def)
  have tabs: "sp_heap c a = Some t \<Longrightarrow> \<exists>t'. sp_heap c' a = Some t'" "wfq_heap c a = Some w \<Longrightarrow> \<exists>w'. wfq_heap c' a = Some w'" for a t w
    using assms unfolding grown_def by blast+
  have "share_fits c s sh \<Longrightarrow> share_fits c' s sh" for s
    using tabs by (cases "(c, s, sh)" rule: share_fits.cases) auto
  then show "fits c n sh \<Longrightarrow> fits c' n sh" unfolding fits_def st by blast
  show "ranks c nd key \<Longrightarrow> ranks c' nd key"
    using assms unfolding grown_def ranks_def by (elim conjE) (metis domIff subsetD)
qed

lemma attachFlow_returns:
  assumes "fits c n sh" and "policy_ok c" and "is_user c n"
  shows "\<exists>c'. attachFlow fl (Some n) sh c = Inr c' \<and> policy_ok c' \<and> grown c c' \<and> flowNodeMap c' = (flowNodeMap c)(fl \<mapsto> n) \<and>
    (\<forall>p nd. sh = Priority p \<longrightarrow> node_heap c n = Some nd \<longrightarrow> ranks c' nd fl)"
proof -
  obtain s where s: "strategy_of n c = Inr s" "share_fits c s sh" using assms(1) by (auto simp: fits_def)
  let ?c = "c\<lparr> flowNodeMap := (flowNodeMap c)(fl \<mapsto> n) \<rparr>"
  have s': "strategy_of n ?c = Inr s" using s(1) by (simp add: strategy_of_def)
  have shape: "shape_ok (?c\<lparr> sp_heap := h, wfq_heap := g \<rparr>)" for h g
    using assms(2,3) by (auto simp: policy_ok_def shape_ok_def is_user_def)
  show ?thesis
    using s(2)
  proof (cases "(c, s, sh)" rule: share_fits.cases)
    case (1 c0 a p)
    then obtain t where t: "sp_heap c a = Some t" "in_range p" using s(2) by auto
    let ?c' = "?c\<lparr> sp_heap := (sp_heap c)(a \<mapsto> t(fl \<mapsto> p)) \<rparr>"
    have "attachFlow fl (Some n) sh c = Inr ?c'"
      using 1 s' t by (simp add: attachFlow_def attach_share_def attach_priority_def deref_def)
    moreover have "policy_ok ?c'"
      using assms(2) t shape [where h = "(sp_heap c)(a \<mapsto> t(fl \<mapsto> p))" and g = "wfq_heap c"] by (auto simp: policy_ok_def tables_ok_def)
    moreover have "grown c ?c'" using t by (auto simp: grown_def)
    moreover have "ranks ?c' nd fl" if "node_heap c n = Some nd" for nd
      using that s(1) 1 t by (auto simp: ranks_def strategy_of_def deref_ptr_def deref_def split: option.splits)
    ultimately show ?thesis by auto
  next
    case (2 c0 a w)
    then obtain q where q: "wfq_heap c a = Some q" "weight_ok w" using s(2) by auto
    let ?q = "q\<lparr> weightTable := (weightTable q)(fl \<mapsto> w) \<rparr>"
    have "attachFlow fl (Some n) sh c = Inr (?c\<lparr> wfq_heap := (wfq_heap c)(a \<mapsto> ?q) \<rparr>)"
      using 2 s' q by (simp add: attachFlow_def attach_share_def attach_weight_def deref_def)
    moreover have "wfq_ok q" using assms(2) q(1) by (auto simp: policy_ok_def tables_ok_def)
    then have "wfq_ok ?q" using q(2) by (auto simp: wfq_ok_def)
    then have "policy_ok (?c\<lparr> wfq_heap := (wfq_heap c)(a \<mapsto> ?q) \<rparr>)"
      using assms(2) shape [where h = "sp_heap c" and g = "(wfq_heap c)(a \<mapsto> ?q)"] by (auto simp: policy_ok_def tables_ok_def)
    ultimately show ?thesis using 2 q by (auto simp: grown_def)
  next
    case (3 c0 a)
    then have "attachFlow fl (Some n) sh c = Inr ?c"
      using s' by (simp add: attachFlow_def attach_share_def attach_plain_def)
    moreover have "policy_ok ?c"
      using assms(2) shape [where h = "sp_heap c" and g = "wfq_heap c"] by (auto simp: policy_ok_def tables_ok_def)
    ultimately show ?thesis using 3 by (auto simp: grown_def)
  qed simp_all
qed

lemma attach_all_returns:
  assumes "policy_ok c" and "\<forall>(fl, n, sh) \<in> set xs. is_user c n \<and> fits c n sh"
  shows "\<exists>c'. attach_all xs c = Inr c' \<and> policy_ok c' \<and> grown c c' \<and>
    (\<forall>fl n. flowNodeMap c' fl = Some n \<longrightarrow> flowNodeMap c fl = Some n \<or> (\<exists>sh. (fl, n, sh) \<in> set xs)) \<and>
    dom (flowNodeMap c') = dom (flowNodeMap c) \<union> fst ` set xs \<and>
    (\<forall>fl n p nd. (fl, n, Priority p) \<in> set xs \<longrightarrow> node_heap c n = Some nd \<longrightarrow> ranks c' nd fl)"
  using assms
proof (induction xs arbitrary: c)
  case Nil
  then show ?case by (simp add: grown_refl)
next
  case (Cons x xs)
  obtain fl n sh where x: "x = (fl, n, sh)" by (cases x)
  obtain c1 where c1: "attachFlow fl (Some n) sh c = Inr c1" "policy_ok c1" "grown c c1" "flowNodeMap c1 = (flowNodeMap c)(fl \<mapsto> n)"
    "\<forall>p nd. sh = Priority p \<longrightarrow> node_heap c n = Some nd \<longrightarrow> ranks c1 nd fl"
    using attachFlow_returns [of c n sh fl] Cons.prems x by auto
  have "\<forall>(fl, n, sh) \<in> set xs. is_user c1 n \<and> fits c1 n sh" using Cons.prems(2) grown_same [OF c1(3)] by auto
  from Cons.IH [OF c1(2) this] obtain c2 where c2: "attach_all xs c1 = Inr c2" "policy_ok c2" "grown c1 c2"
    "\<forall>fl n. flowNodeMap c2 fl = Some n \<longrightarrow> flowNodeMap c1 fl = Some n \<or> (\<exists>sh. (fl, n, sh) \<in> set xs)"
    "dom (flowNodeMap c2) = dom (flowNodeMap c1) \<union> fst ` set xs"
    "\<forall>fl n p nd. (fl, n, Priority p) \<in> set xs \<longrightarrow> node_heap c1 n = Some nd \<longrightarrow> ranks c2 nd fl"
    by (elim exE conjE) (rule that)
  have "node_heap c1 = node_heap c" using c1(3) by (simp add: grown_def)
  then have "\<forall>fl n p nd. (fl, n, Priority p) \<in> set (x # xs) \<longrightarrow> node_heap c n = Some nd \<longrightarrow> ranks c2 nd fl"
    using c2(6) c1(5) grown_same(4) [OF c2(3)] x by auto
  moreover have "\<forall>fl n. flowNodeMap c2 fl = Some n \<longrightarrow> flowNodeMap c fl = Some n \<or> (\<exists>sh. (fl, n, sh) \<in> set (x # xs))"
  proof (intro allI impI)
    fix g m assume "flowNodeMap c2 g = Some m"
    with c2(4) have "flowNodeMap c1 g = Some m \<or> (\<exists>sh. (g, m, sh) \<in> set xs)" by blast
    then show "flowNodeMap c g = Some m \<or> (\<exists>sh. (g, m, sh) \<in> set (x # xs))"
      using c1(4) x by (cases "g = fl") auto
  qed
  moreover have "dom (flowNodeMap c2) = dom (flowNodeMap c) \<union> fst ` set (x # xs)" using c2(5) c1(4) x by auto
  ultimately show ?case using c1(1) c2(1,2) grown_trans [OF c1(3) c2(3)] x by (intro exI [of _ c2]) simp
qed

section \<open>The programs\<close>

text \<open>\<open>SchedStrategySP(SchedStrategySP())\<close> and its variants.\<close>

definition new_SP :: "compiler \<Rightarrow> nat \<times> compiler" where
  "new_SP c = (let (a, c1) = StrategySP c in SchedStrategySP a c1)"

definition new_WFQ :: "compiler \<Rightarrow> nat \<times> compiler" where
  "new_WFQ c = (let (a, c1) = StrategyWFQ c in SchedStrategyWFQ a c1)"

definition new_PFabric :: "compiler \<Rightarrow> nat \<times> compiler" where
  "new_PFabric c = (let (a, c1) = StrategyPFabric c in SchedStrategyPFabric a c1)"

text \<open>The root and the nodes \<open>vvip_user\<close> and \<open>vip_user\<close>, with the strategies of root and users and the
  shares of the users.\<close>

definition two_users :: "(compiler \<Rightarrow> nat \<times> compiler) \<Rightarrow> (compiler \<Rightarrow> nat \<times> compiler) \<Rightarrow> share \<Rightarrow> share \<Rightarrow>
    (nat \<times> nat \<times> nat \<times> compiler) cpp" where
  "two_users root_strategy user_strategy sh1 sh2 =
     (let (s0, c1) = root_strategy compiler_start; (perf, c2) = createPerfInfo 100 c1;
          (rt, c3) = createTreeRoot (Some s0) (Some perf) None c2;
          (s1, c4) = user_strategy c3; (vvip_user, c5) = createTreeNode (Some s1) None c4;
          (s2, c6) = user_strategy c5; (vip_user, c7) = createTreeNode (Some s2) None c6
      in bind_cpp (attachNode vvip_user (Some rt) sh1 c7) (\<lambda>c8.
         bind_cpp (attachNode vip_user (Some rt) sh2 c8) (\<lambda>c9.
         Inr (rt, vvip_user, vip_user, c9))))"

text \<open>The flows that the files attach, for each of the users, and the numbers they give them.\<close>

definition vvip_flows :: "string list" where
  "vvip_flows = [''10.1.1.1, 10.1.4.2, 49153, 8080, UDP'', ''10.1.1.1, 10.1.4.2, 49154, 8080, UDP'',
     ''10.1.1.1, 10.1.4.2, 49155, 8080, UDP'', ''10.1.4.2, 10.1.1.1, 8080, 49153, UDP'',
     ''10.1.4.2, 10.1.1.1, 8080, 49154, UDP'', ''10.1.4.2, 10.1.1.1, 8080, 49155, UDP'']"

definition vip_flows :: "string list" where
  "vip_flows = [''10.1.2.1, 10.1.5.2, 49153, 8080, UDP'', ''10.1.2.1, 10.1.5.2, 49154, 8080, UDP'',
     ''10.1.2.1, 10.1.5.2, 49155, 8080, UDP'', ''10.1.5.2, 10.1.2.1, 8080, 49153, UDP'',
     ''10.1.5.2, 10.1.2.1, 8080, 49154, UDP'', ''10.1.5.2, 10.1.2.1, 8080, 49155, UDP'']"

text \<open>The calls of \<open>attachFlow\<close>, which alternate between the users, with the shares of the six flows of each.\<close>

definition flow_calls :: "nat \<Rightarrow> nat \<Rightarrow> share list \<Rightarrow> share list \<Rightarrow> (string \<times> nat \<times> share) list" where
  "flow_calls vvip_user vip_user sh1 sh2 =
     concat (map (\<lambda>((f, s), (g, t)). [(f, vvip_user, s), (g, vip_user, t)])
       (zip (zip vvip_flows sh1) (zip vip_flows sh2)))"

definition number_flows :: "compiler \<Rightarrow> compiler" where
  "number_flows c = c\<lparr> FidMap := fold (\<lambda>(f, i) m. m(f \<mapsto> i))
     (zip (take 3 vvip_flows @ take 3 vip_flows @ drop 3 vvip_flows @ drop 3 vip_flows) [0, 1, 2, 3, 4, 5, 0, 1, 2, 3, 4, 5])
     (FidMap c) \<rparr>"

definition pcap_name :: string where
  "pcap_name = ''../trace-udp/PcapTrace-6-3.pcap''"

text \<open>The rest of \<open>main\<close>. The name \<open>argv[1]\<close> is that of the path table; a name without \<open>.output\<close> ends the
  program when the name of the trace is asked for.\<close>

definition run_policy :: "pcap \<Rightarrow> string \<Rightarrow> nat \<Rightarrow> compiler \<Rightarrow> files \<Rightarrow> (compiler \<times> files) cpp" where
  "run_policy pcap inputFileName rt c fs =
     bind_cpp (checkMakeTree rt c) (\<lambda>(met, hasPFabric, c1).
     bind_cpp (printPushConvertTable rt c1) (\<lambda>text.
     case (getTraceFileName inputFileName, getPFMapFileName inputFileName) of
       (Some trace_file, Some PFMap_file) \<Rightarrow>
         compile pcap pcap_name trace_file PFMap_file hasPFabric c1 (fs(inputFileName \<mapsto> text))
     | _ \<Rightarrow> Inl Aborts))"

definition policy_main :: "(compiler \<Rightarrow> nat \<times> compiler) \<Rightarrow> (compiler \<Rightarrow> nat \<times> compiler) \<Rightarrow> share \<Rightarrow> share \<Rightarrow> share list \<Rightarrow> share list \<Rightarrow>
    pcap \<Rightarrow> string \<Rightarrow> files \<Rightarrow> (compiler \<times> files) cpp" where
  "policy_main root_strategy user_strategy sh1 sh2 shs1 shs2 pcap inputFileName fs =
     bind_cpp (two_users root_strategy user_strategy sh1 sh2) (\<lambda>(rt, vvip_user, vip_user, c).
     bind_cpp (attach_all (flow_calls vvip_user vip_user shs1 shs2) c) (\<lambda>c1.
     run_policy pcap inputFileName rt (number_flows c1) fs))"

definition test2_1 :: "pcap \<Rightarrow> string \<Rightarrow> files \<Rightarrow> (compiler \<times> files) cpp" where
  "test2_1 = policy_main new_SP new_SP (Priority 1) (Priority 2) (map Priority [1, 2, 3, 1, 2, 3]) (map Priority [1, 2, 3, 1, 2, 3])"

definition test2_2 :: "pcap \<Rightarrow> string \<Rightarrow> files \<Rightarrow> (compiler \<times> files) cpp" where
  "test2_2 = policy_main new_WFQ new_WFQ (Weight (fin (1 / 2))) (Weight (fin (1 / 2)))
     (map (\<lambda>q. Weight (fin q)) [1 / 5, 1 / 5, 1 / 10, 1 / 5, 1 / 5, 1 / 10])
     (map (\<lambda>q. Weight (fin q)) [1 / 4, 3 / 20, 1 / 10, 1 / 4, 3 / 20, 1 / 10])"

definition test2_3 :: "pcap \<Rightarrow> string \<Rightarrow> files \<Rightarrow> (compiler \<times> files) cpp" where
  "test2_3 = policy_main new_WFQ new_PFabric (Weight (fin (1 / 2))) (Weight (fin (1 / 2))) (replicate 6 No_share) (replicate 6 No_share)"

end
