(* ===== verification/Policy_Runs.thy ===== *)
theory Policy_Runs
  imports Policies
begin

text \<open>
  What the programs of \<open>Policies\<close> do before they compile: the trees they build, the check and the path
  table, and that the state they compile in is one of \<open>Compile\<close>: flows at users 10 and 20, numbers 0 to 5.
\<close>

section \<open>The trees of the programs\<close>

text \<open>The nodes that \<open>two_users\<close> makes, whatever the strategies.\<close>

definition user_nodes :: "nat \<Rightarrow> TreeNode option" where
  "user_nodes =
     [3 \<mapsto> \<lparr>nodeId = 0, strategy = Some 1, minPerf = None, actualPerf = Some 2, father = None, children = [7, 11]\<rparr>,
      7 \<mapsto> \<lparr>nodeId = 10, strategy = Some 5, minPerf = None, actualPerf = Some 6, father = Some 3, children = []\<rparr>,
      11 \<mapsto> \<lparr>nodeId = 20, strategy = Some 9, minPerf = None, actualPerf = Some 10, father = Some 3, children = []\<rparr>]"

definition user_tree :: "SchedStrategy \<Rightarrow> SchedStrategy \<Rightarrow> SchedStrategy \<Rightarrow> compiler \<Rightarrow> bool" where
  "user_tree s0 s1 s2 c \<longleftrightarrow> node_heap c = user_nodes \<and> strategy_heap c = [1 \<mapsto> s0, 5 \<mapsto> s1, 9 \<mapsto> s2] \<and>
     next_addr c = 12"

lemma user_tree_strategies:
  assumes "user_tree s0 s1 s2 c"
  shows "strategy_of 3 c = Inr s0" "strategy_of 7 c = Inr s1" "strategy_of 11 c = Inr s2" "is_user c 7" "is_user c 11"
  using assms by (simp_all add: user_tree_def user_nodes_def strategy_of_def deref_ptr_def deref_def is_user_def)

lemmas two_users_defs = two_users_def new_SP_def new_WFQ_def new_PFabric_def StrategySP_def SchedStrategySP_def
  StrategyWFQ_def SchedStrategyWFQ_def StrategyPFabric_def SchedStrategyPFabric_def new_strategy_def
  createPerfInfo_def createTreeRoot_def createTreeNode_def compiler_start_def attachNode_def link_node_def
  attach_share_def attach_priority_def attach_weight_def attach_plain_def strategy_of_def deref_ptr_def deref_def

lemma fin_weight_ok:
  assumes "1 / 16 \<le> q" and "q \<le> 1"
  shows "weight_ok (fin q)"
proof -
  have "dround (1 / 16) = 1 / 16" using dround_exact [of 1 "- 4"] by (simp add: power_int_def power_divide)
  then have lo: "1 / 16 \<le> dround q" using dround_mono [OF assms(1)] by simp
  have "dround 1 = 1" using dround_exact [of 1 0] by simp
  then have "dround q \<le> 1" using dround_mono [OF assms(2)] by simp
  moreover have "1 < double_limit" using double_limit(1) by simp
  ultimately have "fin q = Fin (dround q)" using lo by (simp add: fin_def Let_def)
  then show ?thesis using lo is_double_fin [of q] by (simp add: weight_ok_def)
qed

text \<open>The state with new, empty schedulers.\<close>

definition new_wfq :: "(string \<Rightarrow> double option) \<Rightarrow> wfq" where
  "new_wfq t = \<lparr>weightTable = t, curWeightSum = Fin 0, virTime = Fin 0, realTime = 0, lastVirFinishTime = Map.empty, outQueue = []\<rparr>"

lemma new_wfq_ok: "\<forall>k x. t k = Some x \<longrightarrow> weight_ok x \<Longrightarrow> wfq_ok (new_wfq t)"
  by (simp add: wfq_ok_def new_wfq_def double_limit)

lemma node_names: "py_str 10 = ''10''" "py_str 20 = ''20''"
  by (simp_all add: py_str_eval)

lemma two_users_SP:
  "\<exists>c. two_users new_SP new_SP (Priority 1) (Priority 2) = Inr (3, 7, 11, c) \<and> user_tree (SPTYPE 0) (SPTYPE 4) (SPTYPE 8) c \<and>
     flowNodeMap c = Map.empty \<and> FidMap c = Map.empty \<and> sp_heap c = [4 \<mapsto> Map.empty, 8 \<mapsto> Map.empty, 0 \<mapsto> [''10'' \<mapsto> 1, ''20'' \<mapsto> 2]] \<and> wfq_heap c = Map.empty"
  by (simp add: two_users_defs user_tree_def user_nodes_def node_names fun_upd_twist eval_nat_numeral)

lemma two_users_WFQ:
  "\<exists>c. two_users new_WFQ new_WFQ (Weight w) (Weight w) = Inr (3, 7, 11, c) \<and> user_tree (WFQTYPE 0) (WFQTYPE 4) (WFQTYPE 8) c \<and>
     flowNodeMap c = Map.empty \<and> FidMap c = Map.empty \<and> sp_heap c = Map.empty \<and>
     wfq_heap c = [4 \<mapsto> new_wfq Map.empty, 8 \<mapsto> new_wfq Map.empty, 0 \<mapsto> new_wfq [''10'' \<mapsto> w, ''20'' \<mapsto> w]]"
  by (simp add: two_users_defs user_tree_def user_nodes_def new_wfq_def node_names fun_upd_twist eval_nat_numeral)

lemma two_users_PFabric:
  "\<exists>c. two_users new_WFQ new_PFabric (Weight w) (Weight w) = Inr (3, 7, 11, c) \<and> user_tree (WFQTYPE 0) (PFABRICTYPE 4) (PFABRICTYPE 8) c \<and>
     flowNodeMap c = Map.empty \<and> FidMap c = Map.empty \<and> sp_heap c = Map.empty \<and> wfq_heap c = [0 \<mapsto> new_wfq [''10'' \<mapsto> w, ''20'' \<mapsto> w]]"
  by (simp add: two_users_defs user_tree_def user_nodes_def new_wfq_def node_names fun_upd_twist eval_nat_numeral)

text \<open>Checking and printing the tree.\<close>

lemma user_tree_checks:
  assumes "user_tree s0 s1 s2 c"
  shows "checkMakeTree 3 c = Inr (True, (case (s1, s2) of (PFABRICTYPE _, _) \<Rightarrow> True | (_, PFABRICTYPE _) \<Rightarrow> True | _ \<Rightarrow> False), c)"
proof -
  obtain k where k: "next_addr c = Suc k" using assms by (cases "next_addr c") (simp_all add: user_tree_def)
  note st = user_tree_strategies [OF assms]
  have "node_heap c 3 = Some \<lparr>nodeId = 0, strategy = Some 1, minPerf = None, actualPerf = Some 2, father = None, children = [7, 11]\<rparr>"
    "node_heap c 7 = Some \<lparr>nodeId = 10, strategy = Some 5, minPerf = None, actualPerf = Some 6, father = Some 3, children = []\<rparr>"
    "node_heap c 11 = Some \<lparr>nodeId = 20, strategy = Some 9, minPerf = None, actualPerf = Some 10, father = Some 3, children = []\<rparr>"
    using assms by (simp_all add: user_tree_def user_nodes_def)
  then show ?thesis
    using st by (simp add: checkMakeTree_def k deref_def upDeliverMinPerfToRoot_def checkPerfInfoMeet_def split: SchedStrategy.split)
qed

lemma user_tree_prints:
  assumes "user_tree s0 s1 s2 c"
  shows "printPushConvertTable 3 c = Inr (unlines [''10: 10->0'', ''20: 20->0''])"
proof -
  obtain k where k: "next_addr c = Suc (Suc (Suc k))" using assms that [of 9] by (simp add: user_tree_def)
  have n: "node_heap c 3 = Some \<lparr>nodeId = 0, strategy = Some 1, minPerf = None, actualPerf = Some 2, father = None, children = [7, 11]\<rparr>"
    "node_heap c 7 = Some \<lparr>nodeId = 10, strategy = Some 5, minPerf = None, actualPerf = Some 6, father = Some 3, children = []\<rparr>"
    "node_heap c 11 = Some \<lparr>nodeId = 20, strategy = Some 9, minPerf = None, actualPerf = Some 10, father = Some 3, children = []\<rparr>"
    using assms by (simp_all add: user_tree_def user_nodes_def)
  have "path_line (10, [10, 0]) = ''10: 10->0''" "path_line (20, [20, 0]) = ''20: 20->0''" by code_simp+
  with n show ?thesis by (simp add: printPushConvertTable_def k deref_def getUpPath_def)
qed

section \<open>The flows of the programs\<close>

definition is_test_flow :: "string \<Rightarrow> bool" where
  "is_test_flow f \<longleftrightarrow> f \<in> set vvip_flows \<or> f \<in> set vip_flows"

lemma fold_upd: "fold (\<lambda>(f, i) m. m(f \<mapsto> i)) xs m = m ++ map_of (rev xs)"
  by (induction xs arbitrary: m) (auto simp: map_add_def fun_eq_iff split: option.splits)

lemma flow_lengths: "length vvip_flows = 6" "length vip_flows = 6"
  by (simp_all add: vvip_flows_def vip_flows_def)

lemma number_flows_FidMap:
  assumes "FidMap c = Map.empty"
  shows "dom (FidMap (number_flows c)) = {f. is_test_flow f}" and "FidMap (number_flows c) f = Some i \<Longrightarrow> 0 \<le> i \<and> i < 6"
proof -
  let ?xs = "zip (take 3 vvip_flows @ take 3 vip_flows @ drop 3 vvip_flows @ drop 3 vip_flows) [0 :: int, 1, 2, 3, 4, 5, 0, 1, 2, 3, 4, 5]"
  have F: "FidMap (number_flows c) = map_of (rev ?xs)" by (simp add: number_flows_def fold_upd assms)
  have all: "set (take 3 fs) \<union> set (drop 3 fs) = set fs" for fs :: "string list" by (simp flip: set_append)
  have "map fst ?xs = take 3 vvip_flows @ take 3 vip_flows @ drop 3 vvip_flows @ drop 3 vip_flows"
    by (rule map_fst_zip) (simp add: flow_lengths)
  then have "fst ` set ?xs = set (take 3 vvip_flows) \<union> set (take 3 vip_flows) \<union> set (drop 3 vvip_flows) \<union> set (drop 3 vip_flows)"
    unfolding set_map [symmetric] by auto
  then have "fst ` set ?xs = set vvip_flows \<union> set vip_flows" using all [of vvip_flows] all [of vip_flows] by blast
  then show "dom (FidMap (number_flows c)) = {f. is_test_flow f}"
    unfolding F dom_map_of_conv_image_fst set_rev by (auto simp: is_test_flow_def)
  assume "FidMap (number_flows c) f = Some i"
  then have "(f, i) \<in> set ?xs" unfolding F by (auto dest: map_of_SomeD)
  then have "i \<in> {0, 1, 2, 3, 4, 5}" by (auto dest: set_zip_rightD)
  then show "0 \<le> i \<and> i < 6" by auto
qed

lemma flow_calls_set:
  assumes "length shs1 = 6" and "length shs2 = 6"
  shows "fst ` set (flow_calls n m shs1 shs2) = set vvip_flows \<union> set vip_flows"
    and "(f, k, sh) \<in> set (flow_calls n m shs1 shs2) \<Longrightarrow>
      f \<in> set vvip_flows \<and> k = n \<and> sh \<in> set shs1 \<or> f \<in> set vip_flows \<and> k = m \<and> sh \<in> set shs2"
proof -
  have shape: "set (flow_calls n m shs1 shs2) =
      (\<lambda>(f, s). (f, n, s)) ` set (zip vvip_flows shs1) \<union> (\<lambda>(f, s). (f, m, s)) ` set (zip vip_flows shs2)"
    using assms flow_lengths by (force simp: flow_calls_def set_zip)
  have "fst ` set (zip vvip_flows shs1) = set vvip_flows" "fst ` set (zip vip_flows shs2) = set vip_flows"
    using assms flow_lengths by (simp_all flip: list.set_map)
  then show "fst ` set (flow_calls n m shs1 shs2) = set vvip_flows \<union> set vip_flows"
    unfolding shape by (simp add: image_Un image_image case_prod_unfold)
  show "(f, k, sh) \<in> set (flow_calls n m shs1 shs2) \<Longrightarrow>
      f \<in> set vvip_flows \<and> k = n \<and> sh \<in> set shs1 \<or> f \<in> set vip_flows \<and> k = m \<and> sh \<in> set shs2"
    unfolding shape by (auto dest: set_zip_leftD set_zip_rightD)
qed

lemma users_differ: "f \<in> set vvip_flows \<Longrightarrow> f \<notin> set vip_flows"
proof -
  have "list_all (\<lambda>f. \<not> List.member vip_flows f) vvip_flows" by code_simp
  then show "f \<in> set vvip_flows \<Longrightarrow> f \<notin> set vip_flows" by (auto simp: list_all_iff)
qed

text \<open>The state in which a program starts to compile.\<close>

definition prepared :: "compiler \<Rightarrow> bool" where
  "prepared c \<longleftrightarrow> policy_ok c \<and> attached c = is_test_flow \<and> dom (FidMap c) = {f. is_test_flow f} \<and>
     (\<forall>f i. FidMap c f = Some i \<longrightarrow> 0 \<le> i \<and> i < 6) \<and>
     (\<forall>f. is_test_flow f \<longrightarrow> tree_of c f = (if f \<in> set vvip_flows then 10 else 20))"

lemma policy_main_runs:
  assumes "two_users r u sh1 sh2 = Inr (3, 7, 11, c)" and tree: "user_tree s0 s1 s2 c"
    and new: "flowNodeMap c = Map.empty" "FidMap c = Map.empty" and tabs: "tables_ok c"
    and shs: "length shs1 = 6" "length shs2 = 6" "\<forall>sh \<in> set shs1. fits c 7 sh" "\<forall>sh \<in> set shs2. fits c 11 sh"
    and p: "cut_output p = Some (stem, b)"
  shows "\<exists>c1. grown c c1 \<and> prepared (number_flows c1) \<and>
    (\<forall>f n. flowNodeMap c1 f = Some n \<longrightarrow> (\<exists>sh. (f, n, sh) \<in> set (flow_calls 7 11 shs1 shs2))) \<and>
    (\<forall>f n q nd. (f, n, Priority q) \<in> set (flow_calls 7 11 shs1 shs2) \<longrightarrow> node_heap c n = Some nd \<longrightarrow> ranks c1 nd f) \<and>
    policy_main r u sh1 sh2 shs1 shs2 pcap p fs =
      compile pcap pcap_name (stem @ ''.trace'' @ b) (stem @ ''.pfmap'' @ b)
        (case (s1, s2) of (PFABRICTYPE _, _) \<Rightarrow> True | (_, PFABRICTYPE _) \<Rightarrow> True | _ \<Rightarrow> False) (number_flows c1)
        (fs(p \<mapsto> unlines [''10: 10->0'', ''20: 20->0'']))"
proof -
  let ?xs = "flow_calls 7 11 shs1 shs2"
  have ok: "policy_ok c" using tree new tabs by (simp add: policy_ok_def shape_ok_def user_tree_def)
  have "\<forall>(fl, n, sh) \<in> set ?xs. is_user c n \<and> fits c n sh"
    using flow_calls_set(2) [OF shs(1,2)] shs(3,4) user_tree_strategies(4,5) [OF tree] by fastforce
  from attach_all_returns [OF ok this] obtain c1 where c1: "attach_all ?xs c = Inr c1" "policy_ok c1" "grown c c1"
    "\<forall>fl n. flowNodeMap c1 fl = Some n \<longrightarrow> flowNodeMap c fl = Some n \<or> (\<exists>sh. (fl, n, sh) \<in> set ?xs)"
    "dom (flowNodeMap c1) = dom (flowNodeMap c) \<union> fst ` set ?xs"
    "\<forall>f n q nd. (f, n, Priority q) \<in> set ?xs \<longrightarrow> node_heap c n = Some nd \<longrightarrow> ranks c1 nd f"
    by (elim exE conjE) (rule that)
  let ?d = "number_flows c1"
  have d: "policy_ok ?d" "node_heap ?d = node_heap c1" "flowNodeMap ?d = flowNodeMap c1"
    using c1(2) by (simp_all add: number_flows_def policy_ok_def shape_ok_def tables_ok_def)
  have F: "FidMap c1 = Map.empty" "node_heap c1 = user_nodes" using c1(3) new(2) tree by (simp_all add: grown_def user_tree_def)
  have dom: "dom (flowNodeMap c1) = {f. is_test_flow f}"
    using c1(5) new(1) flow_calls_set(1) [OF shs(1,2), of 7 11] by (auto simp: is_test_flow_def)
  then have "attached ?d = is_test_flow" by (auto simp: attached_def fun_eq_iff d(3))
  moreover have "tree_of ?d f = (if f \<in> set vvip_flows then 10 else 20)" if "is_test_flow f" for f
  proof -
    obtain n where n: "flowNodeMap c1 f = Some n" using dom \<open>is_test_flow f\<close> by blast
    then obtain sh where sh: "(f, n, sh) \<in> set ?xs" using c1(4) new(1) by fastforce
    have "n = (if f \<in> set vvip_flows then 7 else 11)"
      using flow_calls_set(2) [OF shs(1,2) sh] users_differ by auto
    with n show ?thesis by (simp add: tree_of_def d F(2) user_nodes_def)
  qed
  ultimately have "prepared ?d" using d(1) number_flows_FidMap [OF F(1)] by (simp add: prepared_def)
  moreover have "user_tree s0 s1 s2 ?d" using tree c1(3) by (simp add: user_tree_def grown_def number_flows_def)
  from user_tree_checks [OF this] user_tree_prints [OF this] sim_file_names [OF p]
  have "policy_main r u sh1 sh2 shs1 shs2 pcap p fs =
      compile pcap pcap_name (stem @ ''.trace'' @ b) (stem @ ''.pfmap'' @ b)
        (case (s1, s2) of (PFABRICTYPE _, _) \<Rightarrow> True | (_, PFABRICTYPE _) \<Rightarrow> True | _ \<Rightarrow> False) ?d
        (fs(p \<mapsto> unlines [''10: 10->0'', ''20: 20->0'']))"
    using assms(1) c1(1) by (simp add: policy_main_def run_policy_def)
  moreover have "\<forall>f n. flowNodeMap c1 f = Some n \<longrightarrow> (\<exists>sh. (f, n, sh) \<in> set ?xs)" using c1(4) new(1) by simp
  ultimately show ?thesis using c1(3,6) by (intro exI [of _ c1] conjI)
qed

section \<open>Each program\<close>

definition path_table_text :: string where
  "path_table_text = unlines [''10: 10->0'', ''20: 20->0'']"

lemma test2_1_run:
  assumes "cut_output p = Some (stem, b)"
  shows "\<exists>c. prepared c \<and> sp_ready c \<and> test2_1 pcap p fs =
    compile pcap pcap_name (stem @ ''.trace'' @ b) (stem @ ''.pfmap'' @ b) False c (fs(p \<mapsto> path_table_text))"
proof -
  let ?shs = "map Priority [1, 2, 3, 1, 2, 3]"
  obtain c where c: "two_users new_SP new_SP (Priority 1) (Priority 2) = Inr (3, 7, 11, c)" "user_tree (SPTYPE 0) (SPTYPE 4) (SPTYPE 8) c"
    "flowNodeMap c = Map.empty" "FidMap c = Map.empty"
    "sp_heap c = [4 \<mapsto> Map.empty, 8 \<mapsto> Map.empty, 0 \<mapsto> [''10'' \<mapsto> 1, ''20'' \<mapsto> 2]]" "wfq_heap c = Map.empty"
    using two_users_SP by blast
  have tabs: "tables_ok c" by (auto simp: tables_ok_def c(5,6) in_range_def split: if_splits)
  have fits: "\<forall>sh \<in> set ?shs. fits c 7 sh" "\<forall>sh \<in> set ?shs. fits c 11 sh"
    using user_tree_strategies [OF c(2)] c(5) by (simp_all add: fits_def in_range_def)
  have "length ?shs = 6" by simp
  from policy_main_runs [OF c(1-4) tabs this this fits assms, of pcap fs]
  obtain c1 where c1: "grown c c1" "prepared (number_flows c1)"
    "\<forall>f n. flowNodeMap c1 f = Some n \<longrightarrow> (\<exists>sh. (f, n, sh) \<in> set (flow_calls 7 11 ?shs ?shs))"
    "\<forall>f n q nd. (f, n, Priority q) \<in> set (flow_calls 7 11 ?shs ?shs) \<longrightarrow> node_heap c n = Some nd \<longrightarrow> ranks c1 nd f"
    "test2_1 pcap p fs = compile pcap pcap_name (stem @ ''.trace'' @ b) (stem @ ''.pfmap'' @ b) False (number_flows c1)
      (fs(p \<mapsto> path_table_text))"
    by (elim exE conjE) (rule that, simp_all add: test2_1_def path_table_text_def)
  have nodes: "node_heap c1 = user_nodes" "node_heap c = user_nodes" using c1(1) c(2) by (simp_all add: grown_def user_tree_def)
  have top: "ranks c1 \<lparr>nodeId = 0, strategy = Some 1, minPerf = None, actualPerf = Some 2, father = None, children = [7, 11]\<rparr> i"
    if "i = ''10'' \<or> i = ''20''" for i
    by (rule grown_same(4) [OF c1(1)]) (use that c(2,5) in \<open>auto simp: ranks_def user_tree_def\<close>)
  have "FidMap (number_flows c1) f \<noteq> None \<and> (n = 7 \<or> n = 11) \<and> (\<forall>nd. user_nodes n = Some nd \<longrightarrow> ranks c1 nd f)"
    if f: "flowNodeMap c1 f = Some n" for f n
  proof -
    obtain sh where sh: "(f, n, sh) \<in> set (flow_calls 7 11 ?shs ?shs)" using c1(3) f by blast
    note call = flow_calls_set(2) [OF _ _ sh]
    have "is_test_flow f" "n = 7 \<or> n = 11" "\<exists>q. sh = Priority q" using call by (auto simp: is_test_flow_def)
    moreover from this(3) have "\<forall>nd. user_nodes n = Some nd \<longrightarrow> ranks c1 nd f" using c1(4) sh nodes(2) by auto
    ultimately show ?thesis using c1(2) by (auto simp: prepared_def dom_def)
  qed
  then have "sp_ready (number_flows c1)"
    using top by (fastforce simp: sp_ready_def ranks_def number_flows_def nodes user_nodes_def node_names)
  with c1 show ?thesis by blast
qed

lemma test_weights: "weight_ok (fin (1 / 2))" "weight_ok (fin (1 / 4))" "weight_ok (fin (1 / 5))" "weight_ok (fin (3 / 20))" "weight_ok (fin (1 / 10))"
  by (simp_all add: fin_weight_ok)

lemma test2_2_run:
  assumes "cut_output p = Some (stem, b)"
  shows "\<exists>c. prepared c \<and> test2_2 pcap p fs =
    compile pcap pcap_name (stem @ ''.trace'' @ b) (stem @ ''.pfmap'' @ b) False c (fs(p \<mapsto> path_table_text))"
proof -
  let ?w = "fin (1 / 2)"
  obtain c where c: "two_users new_WFQ new_WFQ (Weight ?w) (Weight ?w) = Inr (3, 7, 11, c)" "user_tree (WFQTYPE 0) (WFQTYPE 4) (WFQTYPE 8) c"
    "flowNodeMap c = Map.empty" "FidMap c = Map.empty" "sp_heap c = Map.empty"
    "wfq_heap c = [4 \<mapsto> new_wfq Map.empty, 8 \<mapsto> new_wfq Map.empty, 0 \<mapsto> new_wfq [''10'' \<mapsto> ?w, ''20'' \<mapsto> ?w]]"
    using two_users_WFQ [of ?w] by blast
  have tabs: "tables_ok c" using test_weights(1) by (auto simp: tables_ok_def c(5,6) new_wfq_ok split: if_splits)
  have "fits c 7 (Weight w)" "fits c 11 (Weight w)" if "weight_ok w" for w
    using user_tree_strategies [OF c(2)] c(6) that by (simp_all add: fits_def)
  then have fits: "\<forall>sh \<in> set (map (\<lambda>q. Weight (fin q)) [1 / 5, 1 / 5, 1 / 10, 1 / 5, 1 / 5, 1 / 10]). fits c 7 sh"
    "\<forall>sh \<in> set (map (\<lambda>q. Weight (fin q)) [1 / 4, 3 / 20, 1 / 10, 1 / 4, 3 / 20, 1 / 10]). fits c 11 sh"
    using test_weights by simp_all
  from policy_main_runs [OF c(1-4) tabs _ _ fits assms, of pcap fs] show ?thesis
    by (auto simp: test2_2_def path_table_text_def)
qed

lemma test2_3_run:
  assumes "cut_output p = Some (stem, b)"
  shows "\<exists>c. prepared c \<and> test2_3 pcap p fs =
    compile pcap pcap_name (stem @ ''.trace'' @ b) (stem @ ''.pfmap'' @ b) True c (fs(p \<mapsto> path_table_text))"
proof -
  let ?w = "fin (1 / 2)"
  obtain c where c: "two_users new_WFQ new_PFabric (Weight ?w) (Weight ?w) = Inr (3, 7, 11, c)"
    "user_tree (WFQTYPE 0) (PFABRICTYPE 4) (PFABRICTYPE 8) c"
    "flowNodeMap c = Map.empty" "FidMap c = Map.empty" "sp_heap c = Map.empty" "wfq_heap c = [0 \<mapsto> new_wfq [''10'' \<mapsto> ?w, ''20'' \<mapsto> ?w]]"
    using two_users_PFabric [of ?w] by blast
  have tabs: "tables_ok c" using test_weights(1) by (auto simp: tables_ok_def c(5,6) new_wfq_ok split: if_splits)
  have fits: "\<forall>sh \<in> set (replicate 6 No_share). fits c 7 sh" "\<forall>sh \<in> set (replicate 6 No_share). fits c 11 sh"
    using user_tree_strategies [OF c(2)] by (simp_all add: fits_def)
  from policy_main_runs [OF c(1-4) tabs _ _ fits assms, of pcap fs] show ?thesis
    by (auto simp: test2_3_def path_table_text_def)
qed

section \<open>Compiling\<close>

text \<open>A capture of two packets of different flows.\<close>

definition two_packets :: pcap where
  "two_packets = [pcap_name \<mapsto> ([(\<lparr>tv_sec = 1, tv_usec = 0, len = 30\<rparr>, udp_packet 1), (\<lparr>tv_sec = 1, tv_usec = 9, len = 30\<rparr>, udp_packet 2)], True)]"

lemma two_packets_ok:
  "two_packets pcap_name = Some ([(\<lparr>tv_sec = 1, tv_usec = 0, len = 30\<rparr>, udp_packet 1), (\<lparr>tv_sec = 1, tv_usec = 9, len = 30\<rparr>, udp_packet 2)], True)"
  "in_order [(\<lparr>tv_sec = 1, tv_usec = 0, len = 30\<rparr>, udp_packet 1), (\<lparr>tv_sec = 1, tv_usec = 9, len = 30\<rparr>, udp_packet 2)]"
  by (simp_all add: two_packets_def readable_def udp_flow_ids stamp_ok_def stamp_cycles_def)

lemma handled_first:
  assumes "getFlowId p = Inr f" and "A f" and "stamp_ok (fst p)"
  shows "handled A (p # ps) \<noteq> []"
proof -
  have more: "length (snd (snd (snd s))) \<le> length (snd (snd (snd (fold (tick A) ps s))))" for s :: clock
  proof (induction ps arbitrary: s)
    case (Cons p ps)
    have "length (snd (snd (snd s))) \<le> length (snd (snd (snd (tick A p s))))"
      by (auto simp: tick_def split: prod.split sum.split)
    with Cons [of "tick A p s"] show ?case by simp
  qed simp
  obtain t where "tsToCycle (fst p) = Inr t" using tsToCycle_returns [OF assms(3)] by blast
  then have "snd (snd (snd (tick A p (0, 0, 0, [])))) \<noteq> []" using tick_cases [OF assms(1)] assms(2) by simp
  with more [of "tick A p (0, 0, 0, [])"] show ?thesis by (auto simp: handled_def)
qed

lemma two_packets_handled:
  "handled is_test_flow [(\<lparr>tv_sec = 1, tv_usec = 0, len = 30\<rparr>, udp_packet 1), (\<lparr>tv_sec = 1, tv_usec = 9, len = 30\<rparr>, udp_packet 2)] \<noteq> []"
  by (rule handled_first [OF udp_flow_ids(1)]) (simp_all add: is_test_flow_def vvip_flows_def stamp_ok_def)

text \<open>C3. The two files of the compiler agree. The trace has one line per packet of the capture that was handled,
  numbered from 0 in the order of the capture, with the tree of its flow and two priorities that
  fit an \<open>int\<close>, and as many departures; the map lists the same packets in the same order, each with
  the number of its flow. Both passes stop at the same packet, so no packet is in one file only.\<close>

theorem trace_and_map_agree:
  assumes "policy_ok c" and "pcap file = Some (ps, ok)" and "tf \<noteq> mf" and "compile pcap file tf mf pf c fs = Inr (c', fs')"
  defines "hs \<equiv> handled (attached c) ps"
  shows "\<exists>es kvs. fs' = fs(tf \<mapsto> unlines (map trace_line es), mf \<mapsto> unlines (map pfmap_line kvs)) \<and>
    list_all tag_entry es \<and> count_list es Pop = length hs \<and> map fst hs = [0..int (length hs) - 1] \<and>
    packets_in es = map (\<lambda>(i, f). (i, tree_of c f)) hs \<and> map Some (map snd kvs) = map (\<lambda>(i, f). FidMap c f) hs \<and>
    map fst kvs = map fst (packets_in es)"
proof -
  obtain es kvs where "fs' = fs(tf \<mapsto> unlines (map trace_line es), mf \<mapsto> unlines (map pfmap_line kvs))" and ag: "agree c hs es kvs"
    using compile_agree [where pcap = pcap, OF assms(1-4)] unfolding hs_def by blast
  moreover have "map Some (map snd kvs) = map (\<lambda>(i, f). FidMap c f) hs" using ag by (auto simp: agree_def)
  moreover have "map fst kvs = map fst (packets_in es)" using ag by (auto simp: agree_def)
  ultimately show ?thesis using ag unfolding agree_def by (intro exI [of _ es] exI [of _ kvs]) simp
qed

theorem trace_and_map_agree_witness:
  "\<exists>c fs es kvs. test2_1 two_packets ''t.output'' Map.empty = Inr (c, fs) \<and>
     fs ''t.trace'' = Some (unlines (map trace_line es)) \<and> fs ''t.pfmap'' = Some (unlines (map pfmap_line kvs)) \<and>
     packets_in es \<noteq> [] \<and> map fst kvs = map fst (packets_in es)"
proof -
  have n: "cut_output ''t.output'' = Some (''t'', [])" by code_simp
  obtain c where c: "prepared c" "sp_ready c" "test2_1 two_packets ''t.output'' Map.empty =
      compile two_packets pcap_name ''t.trace'' ''t.pfmap'' False c (Map.empty(''t.output'' \<mapsto> path_table_text))"
    using test2_1_run [OF n, of two_packets Map.empty] by auto
  have ok: "policy_ok c" "attached c = is_test_flow" using c(1) by (simp_all add: prepared_def)
  obtain c' fs' where r: "compile two_packets pcap_name ''t.trace'' ''t.pfmap'' False c (Map.empty(''t.output'' \<mapsto> path_table_text)) = Inr (c', fs')"
    using sp_compile_returns [where pcap = two_packets, OF ok(1) c(2) two_packets_ok] by blast
  have "''t.trace'' \<noteq> ''t.pfmap''" by simp
  from trace_and_map_agree [where pcap = two_packets, OF ok(1) two_packets_ok(1) this r]
  obtain es kvs where e: "fs' = (Map.empty(''t.output'' \<mapsto> path_table_text))(''t.trace'' \<mapsto> unlines (map trace_line es), ''t.pfmap'' \<mapsto> unlines (map pfmap_line kvs))"
    "packets_in es \<noteq> []" "map fst kvs = map fst (packets_in es)"
    using two_packets_handled by (auto simp: ok(2))
  then have "fs' ''t.trace'' = Some (unlines (map trace_line es))" "fs' ''t.pfmap'' = Some (unlines (map pfmap_line kvs))" by simp_all
  with e(2,3) c(3) r show ?thesis by auto
qed

text \<open>C17. A policy of strict priorities always compiles: when every attached flow has a priority at its leaf, the
  leaf one at the root, and the flow a number, then neither an assertion nor the order of packets
  stops the compiler on a capture whose time stamps do not decrease, and it writes both files.\<close>

theorem sp_policy_compiles:
  assumes "policy_ok c" and "sp_ready c" and "pcap file = Some (ps, ok)" and "in_order ps" and "tf \<noteq> mf"
  shows "\<exists>c' es kvs. compile pcap file tf mf False c fs =
      Inr (c', fs(tf \<mapsto> unlines (map trace_line es), mf \<mapsto> unlines (map pfmap_line kvs))) \<and>
    packets_in es = map (\<lambda>(i, f). (i, tree_of c f)) (handled (attached c) ps) \<and>
    kvs = map (\<lambda>(i, f). (i, the (FidMap c f))) (handled (attached c) ps)"
proof -
  obtain c' fs' where r: "compile pcap file tf mf False c fs = Inr (c', fs')"
    using sp_compile_returns [where pcap = pcap, OF assms(1-4)] by blast
  from compile_agree [where pcap = pcap, OF assms(1,3,5) r] r show ?thesis by (fastforce simp: agree_def)
qed

theorem sp_policy_compiles_witness:
  "\<exists>c fs. test2_1 two_packets ''t.output'' Map.empty = Inr (c, fs)"
proof -
  have n: "cut_output ''t.output'' = Some (''t'', [])" by code_simp
  obtain c where c: "prepared c" "sp_ready c" "test2_1 two_packets ''t.output'' Map.empty =
      compile two_packets pcap_name ''t.trace'' ''t.pfmap'' False c (Map.empty(''t.output'' \<mapsto> path_table_text))"
    using test2_1_run [OF n, of two_packets Map.empty] by auto
  have "policy_ok c" "''t.trace'' \<noteq> ''t.pfmap''" using c(1) by (simp_all add: prepared_def)
  from sp_policy_compiles [where pcap = two_packets, OF this(1) c(2) two_packets_ok this(2), of "Map.empty(''t.output'' \<mapsto> path_table_text)"] c(3) show ?thesis by auto
qed

end
