(* ===== verification/Tool_Chain.thy ===== *)
theory Tool_Chain
  imports Policy_Runs
begin

text \<open>
  The programs of a make rule one after the other: what the compiler writes is what the simulator
  reads, and what the simulator logs can be drawn.
\<close>

section \<open>From the compiler to the simulator\<close>

lemma handled_length: "length (handled A ps) \<le> length ps"
proof -
  have "length (snd (snd (snd (fold (tick A) ps s)))) \<le> length (snd (snd (snd s))) + length ps" for s :: clock
  proof (induction ps arbitrary: s)
    case (Cons p ps)
    have "length (snd (snd (snd (tick A p s)))) \<le> length (snd (snd (snd s))) + 1"
      by (auto simp: tick_def split: prod.split sum.split)
    with Cons [of "tick A p s"] show ?case by simp
  qed simp
  from this [of "(0, 0, 0, [])"] show ?thesis by (simp add: handled_def)
qed

lemma packet_ids_in: "packet_ids es = map fst (packets_in es)"
  by (induction es rule: packet_ids.induct) simp_all

lemma tag_entries_sim:
  assumes "list_all tag_entry es" and "\<forall>(m, t) \<in> set (packets_in es). 0 \<le> m \<and> m < 2 ^ 31 \<and> pfmap m \<noteq> None"
  shows "list_all (sim_entry pfmap) es"
  using assms
  by (induction es rule: packets_in.induct) (auto simp: in_range_def M_TREES_def MAX_IDLECYCLE_def)

lemma agree_sim:
  assumes "agree c hs es kvs" and "hs \<noteq> []" and "length hs < 2 ^ 31" and "\<forall>f i. FidMap c f = Some i \<longrightarrow> has_colour i"
  shows "\<forall>(m, f) \<in> set kvs. fits_int m \<and> has_colour f" and "list_all (sim_entry (map_of (rev kvs))) es"
    and "\<exists>ms. packet_ids es = 0 # ms"
proof -
  note a = assms(1) [unfolded agree_def]
  have nums: "0 \<le> i \<and> i < 2 ^ 31" if "(i, f) \<in> set hs" for i f
  proof -
    have "i \<in> set (map fst hs)" using that by force
    then show ?thesis using a assms(3) by auto
  qed
  show "\<forall>(m, f) \<in> set kvs. fits_int m \<and> has_colour f"
    using a nums assms(4) by (fastforce simp: fits_int_def)
  have keys: "fst ` set kvs = fst ` set hs" using a by (force simp: image_image)
  have "map_of (rev kvs) m \<noteq> None" if "(m, f) \<in> set hs" for m f
  proof -
    have "m \<in> fst ` set (rev kvs)" using keys that by force
    then show ?thesis unfolding map_of_eq_None_iff by simp
  qed
  then show "list_all (sim_entry (map_of (rev kvs))) es"
    using a nums by (intro tag_entries_sim) fastforce+
  have "packet_ids es = map fst hs" using a by (simp add: packet_ids_in case_prod_unfold comp_def)
  moreover have "[0..int (length hs) - 1] = 0 # [1..int (length hs) - 1]"
    using assms(2) upto_rec1 [of 0 "int (length hs) - 1"] by (cases hs) simp_all
  ultimately show "\<exists>ms. packet_ids es = 0 # ms" using a by simp
qed

section \<open>From the trace to the figures\<close>

lemma sim_flows:
  assumes "\<forall>(m, f) \<in> set kvs. fits_int m \<and> has_colour f"
  shows "ran (map_of (rev kvs)) \<subseteq> {0..<FLOW_NUM}" and "\<forall>(m, f) \<in> set kvs. fits_int m \<and> fits_int f"
    and "map_of (rev kvs) m = Some f \<Longrightarrow> has_colour f"
proof -
  show col: "map_of (rev kvs) m = Some f \<Longrightarrow> has_colour f" for m f
    using assms map_of_SomeD [of "rev kvs" m f] by auto
  show "ran (map_of (rev kvs)) \<subseteq> {0..<FLOW_NUM}"
    using col by (fastforce simp: ran_def has_colour_def FLOW_NUM_def)
  show "\<forall>(m, f) \<in> set kvs. fits_int m \<and> fits_int f"
    using assms by (fastforce simp: has_colour_def fits_int_def)
qed

lemma sim_packets_known:
  "list_all (sim_entry flow_of) tr \<Longrightarrow> m \<in> set (packet_ids tr) \<Longrightarrow> flow_of m \<noteq> None"
  by (induction tr rule: packet_ids.induct) auto

lemma simulate_and_draw:
  fixes fs :: files
  assumes "accepts_aligned plt" and "cut_output p = Some (stem, b)"
    and "fs (stem @ ''.trace'' @ b) = Some (unlines (map trace_line tr))"
    and "fs (stem @ ''.pfmap'' @ b) = Some (unlines (map pfmap_line kvs))"
    and "\<forall>(m, f) \<in> set kvs. fits_int m \<and> has_colour f"
    and "list_all (sim_entry (map_of (rev kvs))) tr" and "packet_ids tr = 0 # ms"
  defines "flow_of \<equiv> map_of (rev kvs)"
  shows "\<exists>s fs'. vPIFO_trace p fs k = Some (s, fs') \<and>
    fs' = fs(stem @ ''.ref'' @ b \<mapsto> unlines (map event_line (log_out s))) \<and>
    snd (draw plt p fs') = None \<and>
    fst (draw plt p fs') (stem @ ''.rawdata.txt'' @ b) =
      Some (tenant_blocks (pushed flow_of (log_out s)) (departed flow_of (log_out s))
        (sort (remdups (map (\<lambda>m. the (flow_of m)) (arrivals (log_out s)))))) \<and>
    set (arrivals (log_out s)) \<subseteq> set (packet_ids tr)"
proof -
  note flows = sim_flows [OF assms(5)]
  obtain s where s: "simulate flow_of (unlines (map trace_line tr)) k = Some s" "log_proper {} (log_out s)"
    "fst ` set (push_pairs (log_out s)) \<subseteq> set (packet_ids tr)"
    using simulate_log [OF assms(6) flows(1) assms(7)] unfolding flow_of_def by blast
  define fs' where "fs' = fs(stem @ ''.ref'' @ b \<mapsto> unlines (map event_line (log_out s)))"
  have run: "vPIFO_trace p fs k = Some (s, fs')"
    using sim_file_names [OF assms(2)] readPFMap_printed [of kvs fs, OF flows(2) assms(4)] assms(3) s(1)
    by (simp add: vPIFO_trace_def flow_of_def fs'_def)
  note names = reffig_name.name_ok [OF assms(2)] rawdata_name.name_ok [OF assms(2)] pfmap_name.name_ok [OF assms(2)]
    refoutput_name.name_ok [OF assms(2)]
  have inp: "draw_input p fs' kvs (log_out s) (stem @ ''.ref.png'' @ b) (stem @ ''.rawdata.txt'' @ b)"
    using s(2) names assms(4) by (simp add: draw_input_def read_file_def fs'_def)
  have arr: "set (arrivals (log_out s)) \<subseteq> set (packet_ids tr)" using s(3) by (auto simp: arrivals_def set_firsts)
  then have known: "flow_of m \<noteq> None" if "m \<in> set (arrivals (log_out s))" for m
    using that sim_packets_known [OF assms(6)] by (auto simp: flow_of_def)
  then have "\<forall>m \<in> set (arrivals (log_out s)). map_of (rev kvs) m \<noteq> None" by (simp add: flow_of_def)
  note d = draw_mapped [OF assms(1) inp this, folded flow_of_def]
  have col: "\<forall>n \<in> set (sort (remdups (map (\<lambda>m. the (flow_of m)) (arrivals (log_out s))))). has_colour n"
    using known flows(3) by (force simp: flow_of_def)
  then have tw: "takeWhile has_colour (sort (remdups (map (\<lambda>m. the (flow_of m)) (arrivals (log_out s))))) =
      sort (remdups (map (\<lambda>m. the (flow_of m)) (arrivals (log_out s))))"
    by (simp only: takeWhile_eq_all_conv)
  show ?thesis
    using run d col arr by (intro exI [of _ s] exI [of _ fs']) (simp add: tw list_all_iff after_loop_def fs'_def)
qed

section \<open>From the policy to the figures\<close>

text \<open>After a policy has been compiled, the log of the simulator can be drawn, and only packets of the
  capture are in it.\<close>

definition drawable :: "matplotlib \<Rightarrow> string \<Rightarrow> files \<Rightarrow> nat \<Rightarrow> int \<Rightarrow> bool" where
  "drawable plt p fs k n \<longleftrightarrow> (\<exists>s fs'. vPIFO_trace p fs k = Some (s, fs') \<and> snd (draw plt p fs') = None \<and>
     set (arrivals (log_out s)) \<subseteq> {0..<n})"

lemma compiled_drawable:
  assumes "accepts_aligned plt" and "cut_output p = Some (stem, b)" and "prepared c"
    and "pcap file = Some (ps, ok)" and "handled is_test_flow ps \<noteq> []" and "length ps < 2 ^ 31"
    and "compile pcap file (stem @ ''.trace'' @ b) (stem @ ''.pfmap'' @ b) pf c fs = Inr (c', fs')"
  shows "drawable plt p fs' k (int (length (handled is_test_flow ps)))"
proof -
  have c: "policy_ok c" "attached c = is_test_flow" "\<forall>f i. FidMap c f = Some i \<longrightarrow> has_colour i"
    using assms(3) by (fastforce simp: prepared_def has_colour_def)+
  obtain es kvs where fs': "fs' = fs(stem @ ''.trace'' @ b \<mapsto> unlines (map trace_line es), stem @ ''.pfmap'' @ b \<mapsto> unlines (map pfmap_line kvs))"
    and ag: "agree c (handled is_test_flow ps) es kvs"
    using compile_agree [OF c(1) assms(4) _ assms(7)] c(2) by auto
  have len: "length (handled is_test_flow ps) < 2 ^ 31" using handled_length [of is_test_flow ps] assms(6) by linarith
  note sim = agree_sim [OF ag assms(5) len c(3)]
  obtain ms where ms: "packet_ids es = 0 # ms" using sim(3) by blast
  have "packet_ids es = [0..int (length (handled is_test_flow ps)) - 1]"
    using ag by (simp add: agree_def packet_ids_in case_prod_unfold comp_def)
  then have "set (packet_ids es) = {0..<int (length (handled is_test_flow ps))}" by auto
  with simulate_and_draw [OF assms(1,2) _ _ sim(1,2) ms, of fs' k] show ?thesis
    by (auto simp: drawable_def fs')
qed

lemma tests_compile:
  assumes "test \<in> {test2_1, test2_2, test2_3}" and "cut_output p = Some (stem, b)" and "test pcap p fs = Inr (c, fs1)"
  shows "\<exists>c0 pf. prepared c0 \<and>
    compile pcap pcap_name (stem @ ''.trace'' @ b) (stem @ ''.pfmap'' @ b) pf c0 (fs(p \<mapsto> path_table_text)) = Inr (c, fs1)"
proof -
  have "\<exists>c0 pf. prepared c0 \<and> test pcap p fs =
      compile pcap pcap_name (stem @ ''.trace'' @ b) (stem @ ''.pfmap'' @ b) pf c0 (fs(p \<mapsto> path_table_text))"
    using assms(1) test2_1_run [OF assms(2), of pcap fs] test2_2_run [OF assms(2), of pcap fs] test2_3_run [OF assms(2), of pcap fs]
    by blast
  with assms(3) show ?thesis by metis
qed

text \<open>The packets in a trace of one of the programs.\<close>

lemma push_packet: "Push t m q0 q1 \<in> set es \<Longrightarrow> (m, t) \<in> set (packets_in es)"
  by (induction es rule: packets_in.induct) auto

lemma handled_attached: "(i, f) \<in> set (handled A ps) \<Longrightarrow> A f"
proof -
  have "\<forall>(i, f) \<in> set (snd (snd (snd (fold (tick A) ps s)))). A f" if "\<forall>(i, f) \<in> set (snd (snd (snd s))). A f" for s :: clock
    using that
  proof (induction ps arbitrary: s)
    case (Cons p ps)
    have "\<forall>(i, f) \<in> set (snd (snd (snd (tick A p s)))). A f" using Cons.prems by (auto simp: tick_def split: prod.split sum.split)
    from Cons.IH [OF this] show ?case by simp
  qed simp
  from this [of "(0, 0, 0, [])"] show "(i, f) \<in> set (handled A ps) \<Longrightarrow> A f" by (auto simp: handled_def)
qed

lemma agree_push:
  assumes "agree c (handled is_test_flow ps) es kvs" and "prepared c" and "Push t m q0 q1 \<in> set es"
  shows "(t = 10 \<or> t = 20) \<and> 0 \<le> m"
proof -
  note a = assms(1) [unfolded agree_def]
  have "(m, t) \<in> set (packets_in es)" using push_packet [OF assms(3)] .
  then obtain f where f: "(m, f) \<in> set (handled is_test_flow ps)" "t = tree_of c f" using a by auto
  have "m \<in> set (map fst (handled is_test_flow ps))" using f(1) by force
  then have "0 \<le> m" using a by auto
  then show ?thesis using f handled_attached [OF f(1)] assms(2) by (simp add: prepared_def)
qed

end
