(* ===== verification/Spec2Isabelle.thy ===== *)
theory Spec2Isabelle
  imports Ns3_Packets SRAM_Image Trace_Reader Ref2mem Bindings Network Module_Imports Perf_Check PFabric_Size Tool_Chain
begin

text \<open>
  A verification library for the Python code of \<^bold>\<open>vPIFO\<close>, a programmable packet scheduler that
  stores many PIFO trees in a few SRAMs, and for the compiler, the simulator and the part of the
  hardware that the scripts talk to, and for the queue discs of its network simulations. All paths below are relative to \<open>src/\<close>.

  \<^bold>\<open>The program.\<close> A compiler in C++ (\<open>software/SDL_compiler/compiler\<close>) turns a scheduling policy
  and a packet capture into a trace of pushes and a map from packets to flows; a simulator
  (\<open>vPIFO_trace.cpp\<close>) runs the trace on BMW trees and logs the cycles at which packets enter and
  leave. Python scripts connect these files with the hardware and with the figures:
  \<open>gen_SRAM_layout.py\<close> places the levels of the trees in the SRAMs and writes the address table
  of the hardware, \<open>trace2mem.py\<close> and \<open>ref2mem.py\<close> write the memory images of the test bench,
  whose trace reader plays them back, \<open>draw.py\<close> and \<open>draw_path_table.py\<close> present results. A second
  group of scripts registers the C++ classes of two ns-3 modules with a binding generator
  (\<open>software/experiment/ns3_simulation/traffic-control/bindings\<close> and \<open>.../network/bindings\<close>).
  Scripts meet only through files. In the network simulations themselves two queue discs in C++
  (\<open>traffic-control/model/vPIFO.cc\<close>, \<open>SimplePIFO.cc\<close>) schedule packets with the same kind of pipeline.

  \<^bold>\<open>The theories.\<close>
  \<^item> \<open>Py_Prelude\<close>: what the scripts use of Python. An exception is a value of \<open>py_error\<close>, a
    computation that may raise has type \<open>'a py\<close>; strings with \<open>find\<close>, \<open>strip\<close>, \<open>split\<close>, \<open>int\<close>, \<open>str\<close>
    and binary \<open>format\<close>; dictionaries that keep the order of insertion (the interface
    \<open>ordered_dict\<close>); the file system as a map from names to texts. A script is a function from
    its arguments and the files to the new files and the exception it ended with.
  \<^item> \<open>File_Names\<close>: the functions \<open>get_..._file_name\<close> of three scripts, with one interface
    (\<open>tagged_name\<close>) for their common contract.
  \<^item> \<open>SRAM_Layout\<close> and \<open>SRAM_Image\<close>: \<open>gen_SRAM_layout.py\<close>. The state is the record \<open>layout\<close>
    (\<open>start_addr\<close> and \<open>start_addr_dict\<close>), the nested loops are \<open>place_trees\<close> and \<open>place_levels\<close>.
    The placement refines an allocator of blocks in banks (interface \<open>bank_allocator\<close>); from it
    follow that no two levels overlap, that all requested levels are placed and where, that no
    cell is wasted, and that the levels of a tree lie in different SRAMs. \<open>SRAM_Image\<close> shows
    that the address table reads back as the layout, when the script succeeds and how it fails.
  \<^item> \<open>Trace2mem\<close>: \<open>trace2mem.py\<close> together with the line format of the compiler and the bit slices
    of \<open>hardware/BMW_PIFO_SRAM_vPIFO/TraceReader.sv\<close>: what the script writes the hardware reads
    back; rows, errors and files on every branch.
  \<^item> \<open>Trace_Reader\<close>: the clocked machine of \<open>TraceReader.sv\<close> with the memory of \<open>TraceRom.sv\<close>. The
    record \<open>reader\<close> holds its registers, \<open>reader_step\<close> is a clock cycle. On the image of a trace
    the output ports show the entries of the trace in order and again after each pass over the
    memory; when the end is signalled.
  \<^item> \<open>Ref2mem\<close>: \<open>ref2mem.py\<close>; \<open>Sim_Log\<close>: the log lines of \<open>compiler/vPIFO_trace.cpp\<close> and logs as
    lists of events.
  \<^item> \<open>BMW_Tree\<close>, \<open>BMW_Store\<close>, \<open>BMW_Queue\<close>: \<open>get_son\<close>, \<open>push\<close>, \<open>pop\<close> and \<open>top\<close> of \<open>vPIFO_trace.cpp\<close> on the
    shared array of nodes, and the set-up of the roots in \<open>main\<close>. The first theory has the
    operations on the array and their counterparts on trees as values, the second relates the
    two by a representation predicate with frame lemmas, the third shows that a root in the
    array is a priority queue (interface \<open>priority_queue\<close>) whose operations do not disturb the
    other roots, that the recursions end, and that pushing and popping sorts.
  \<^item> \<open>Sim_Loop\<close>: the rest of \<open>vPIFO_trace.cpp\<close>, its tasks, task lists, ring of units and locks. The
    global variables are the record \<open>sim\<close>, \<open>run_cycle\<close> is a turn of the loop in \<open>main\<close>, composed of
    \<open>enter_tasks\<close>, \<open>stat_unit\<close>, \<open>pass_down\<close>, \<open>send_unit\<close>, \<open>anti_starvation\<close> and \<open>skip_idle\<close>. \<open>Sim_Input\<close>
    reads the trace (\<open>read_line\<close>) and shows that what the compiler prints is read as it was meant;
    \<open>Sim_Files\<close> adds the file names, the map of flows (\<open>readPFMap\<close>) and the program as a whole.
  \<^item> \<open>BMW_Forest\<close>, \<open>Sim_Invariant\<close>, \<open>Sim_Budget\<close>, \<open>Sim_Main\<close>: all trees in one array; the invariant of
    the loop (trees side by side, tasks that name trees, packets logged before they are stored)
    and its preservation by each part of a cycle; the conservation of departures; whole runs,
    with the properties of the log, and the states from which the loop never ends.
  \<^item> \<open>Draw\<close>: \<open>draw.py\<close>. Reading a log is related to its events, grouping by flow to the packets
    of the flow in the order of arrival; the raw data and the figures follow, and the two
    ways in which a run fails half-way.
  \<^item> \<open>Path_Table\<close>: \<open>draw_path_table.py\<close>.
  \<^item> \<open>Cpp_Double\<close>: what the compiler uses of C++. A computation that may stop has type \<open>'a cpp\<close>: an
    assertion fails, the behaviour is undefined, or the fuel of a loop is used up. Doubles are
    rationals rounded to nearest even, infinities and NaN, with the monotonicity of rounding.
  \<^item> \<open>Packet_Id\<close>: \<open>util.cpp\<close> and \<open>util.h\<close>, the identifier of a flow and the cycle of a time stamp. The
    identifier says exactly which flow a packet is of; the cycles follow the order of the stamps.
  \<^item> \<open>PIFO_Tree\<close>, \<open>PIFO_Forest\<close>, \<open>PIFO_Paths\<close>, \<open>Perf_Check\<close>: \<open>PIFOTree.cpp\<close> and \<open>PerfInfo.cpp\<close>. Objects are in
    heaps of addresses, the record \<open>compiler\<close> holds the heaps and all global variables. The second
    theory has the invariant of the trees and the states a policy can build (\<open>built\<close>), the third the
    recursions on them and the path table, the fourth the check of bandwidths.
  \<^item> \<open>WFQ\<close>, \<open>Tag_Priority\<close>: the priorities of \<open>WFQ.cpp\<close>, \<open>SP.cpp\<close> and \<open>PFabric.cpp\<close>, and \<open>SchedStrategy.cpp\<close>,
    whose handlers \<open>tagPriorityHandler\<close> and \<open>printPFMapHandler\<close> run over the capture. \<open>Tag_Laws\<close> and
    \<open>Tag_Trace\<close> show that both follow one clock (interface \<open>packet_handler\<close>), \<open>Compile\<close> that their files
    agree and that strict priorities never stop the compiler (interface \<open>total_handler\<close>);
    \<open>PFabric_Size\<close> has the sizes of flows.
  \<^item> \<open>Policies\<close>, \<open>Policy_Runs\<close>: the policy files \<open>compiler_test/test2_1.cpp\<close> to \<open>test2_3.cpp\<close> as programs, and
    the states they compile in.
  \<^item> \<open>Tool_Chain\<close>: the compiler, the simulator and \<open>draw.py\<close> one after the other.
  \<^item> \<open>Pybindgen\<close>: the statements of the binding scripts and the functions that run lists of them;
    \<open>Pybindgen_Laws\<close>: what the scripts rely on of the library (interface \<open>pybindgen_laws\<close>), the
    least library with these laws, a registry of names, and that every library with the laws
    simulates it.
  \<^item> \<open>Bindings_Types\<close>, \<open>Bindings_Methods_1\<close> to \<open>Bindings_Methods_6\<close>, \<open>Bindings_Script\<close>:
    \<open>modulegen__gcc_LP64.py\<close> of the traffic-control module, every function as the list of its
    calls. \<open>Bindings_Names\<close> and \<open>Bindings_Members\<close> evaluate the script on the registry and check the
    members; \<open>Bindings\<close> draws the conclusions.
  \<^item> \<open>Network_Types\<close>, \<open>Network_Methods_1\<close> to \<open>Network_Methods_6\<close>, \<open>Network_Script\<close>, \<open>Network_Names\<close>,
    \<open>Network_Members\<close>, \<open>Network\<close>: the same for the network module. The 125 functions that are the
    same in both scripts are defined once, in the theories of the traffic-control module; the
    names of those that differ start with \<open>net_\<close>.
  \<^item> \<open>Module_Imports\<close>: the two binding scripts together; what the one imports from the other is
    declared there in the same way.
  \<^item> \<open>Ns3_Pipeline\<close>: \<open>model/MyPipeline.cc\<close>, the record \<open>Pipeline\<close> with \<open>AddPush\<close>, \<open>AddPop\<close>, \<open>SendOperation\<close>, \<open>GetToken\<close> and a
    turn, \<open>WakeUp\<close>, loop by loop. \<open>Ns3_Inv\<close> has its invariant (tokens, waiting pushes and pops on the way
    balance, in every list no pop comes before its push), \<open>Ns3_Turn\<close>, \<open>Ns3_Send\<close> and \<open>Ns3_Wake\<close> that each
    loop of a turn keeps it, \<open>Ns3_Order\<close> that the heaps stay ordered, \<open>Ns3_Starve\<close> where a turn is undefined,
    \<open>Ns3_Eval\<close> the evaluation of turns on states that are written out.
  \<^item> \<open>Ns3_Disc\<close>: \<open>model/vPIFO.cc\<close>, \<open>SimplePIFO.cc\<close> and \<open>MyScheduling.cc\<close>, the queue discs as records with \<open>DoEnqueue\<close>,
    \<open>DoDequeue\<close> and \<open>InitializeParams\<close>. \<open>Ns3_Runs\<close> has the interface \<open>pifo_disc\<close> of the two and runs of enqueues,
    dequeues and turns in any order; \<open>Ns3_Queue_Discs\<close> interprets it for both discs, and \<open>Ns3_Packets\<close>
    concludes that packets are conserved and in order, that nothing is undefined but the
    anti-starvation step, and that this step is undefined in an idle pipeline.
  \<^item> This theory: how the programs of one make rule interact through their files; a policy goes
    through the compiler, the simulator and \<open>draw.py\<close> to the figures, and does not fit \<open>trace2mem.py\<close>.

  \<^bold>\<open>Parameters.\<close> Code outside the repository is an argument of the definitions that use it:
  the rendering of PrettyTable, \<open>pandas\<close>, \<open>matplotlib\<close>, \<open>pybindgen\<close>, and the packets that \<open>libpcap\<close>
  reads from a capture (\<open>pcap\<close>). Where a property needs
  their documented behaviour it is a named hypothesis (\<open>accepts_aligned\<close>, \<open>rows_of_columns\<close>,
  \<open>pybindgen_laws\<close>), and its example gives a concrete instance.

  \<^bold>\<open>Bounds and fuel.\<close> Python integers are \<open>int\<close>; the widths of the memory images and registers are
  those of the source. All loops of the scripts are structural recursions on lists or counters.
  The recursions of \<open>push\<close> and \<open>pop\<close> follow addresses in the array and take fuel; \<open>push_call\<close> and
  \<open>pop_call\<close> give them as much as there are nodes in use, which is enough, and more fuel changes
  nothing (\<open>bmw_recursion_ends\<close>). The array of nodes is a function on all addresses, the C++ array
  has \<open>M << L\<close> elements and is not checked; counts and priorities are unbounded. The loop of the
  simulator need not end (\<open>sim_starved\<close>), so \<open>sim_run\<close> takes the number of turns, and the
  properties of runs hold for every number. The search of \<open>anti_starvation\<close> for a place takes \<open>N\<close>
  as fuel and ends after two turns at most. Arrays of the simulator are functions on all
  indices, also on the index -1 that this search can reach; its counters are unbounded, in the
  source \<open>wait_time\<close> and the statistics are 32-bit integers, which a run of \<open>2^31\<close> cycles exceeds.
  The walks over the policy tree take the number of addresses in use plus one as fuel, which is
  enough for every policy that was built (\<open>policy_trees_ok\<close>, \<open>path_table_of_policy\<close>). Doubles have no
  signed zero; a conversion to an integer that does not fit is undefined. Packets that leave a
  fair queue at the same virtual time do so in the order of arrival, which the C++ library leaves
  open; packet numbers are unbounded in the compiler. In the queue discs arrays are functions on all
  indices; in reachable states the trees and units that are used are within the arrays. A rank is
  narrowed to 32 bits where the source stores it, all other numbers are unbounded. The search for a
  place takes twice the number of units as fuel and never uses it up.

  \<^bold>\<open>Not modelled.\<close> Command-line parsing and console output; characters beyond one byte; the
  rounding of \<open>math.log2\<close>, which is taken to be exact (it is for the sizes an SRAM can have);
  failures to open a file for writing; the handler of \<open>pybindgen\<close> errors in the binding scripts;
  the tables \<open>callbacks_list.py\<close> and \<open>examples-to-run.py\<close>, constants of a few lines. Of the compiler,
  the functions that print a tree for a reader (\<open>printTree\<close>, \<open>printSchedStrategy\<close>, \<open>printPerfInfo\<close>) and
  the branch of \<open>CUM_POP\<close>, which is switched off; \<open>freopen\<close> after \<open>fclose\<close> on \<open>stdout\<close> is taken to open the
  file. Of the queue discs, the event queue of
  ns-3, whose order of events is left open, and the reading of \<open>flowlabel.txt\<close> as text. The DPDK scheduler, the
  topologies of the ns-3 experiments and the rest of the hardware are not modelled. The
  scripts under \<open>software/experiment/tag_priority\<close> and the files \<open>modulegen__gcc_ILP32.py\<close> are copies of
  those modelled here.

  \<^bold>\<open>Plan.\<close> Next are the hardware behind the trace reader (\<open>TaskGenerator.sv\<close>, \<open>TaskFIFO.sv\<close>), policies of
  more than two levels in \<open>Tag_Trace\<close>, and fair queues that are never blocked by a sum of weights
  that has cancelled out, so that \<open>test2_2.cpp\<close> is known to end like \<open>test2_1.cpp\<close>.
\<close>

section \<open>The scripts of the make rule\<close>

text \<open>Two runs on different files end in the same way and write the same.\<close>

definition same_writes :: "files \<Rightarrow> run \<Rightarrow> files \<Rightarrow> run \<Rightarrow> bool" where
  "same_writes fs r fs' r' \<longleftrightarrow> snd r = snd r' \<and> (\<exists>w. fst r = fs ++ w \<and> fst r' = fs' ++ w)"

lemma same_writes_refl: "same_writes fs (fs, e) fs' (fs', e)"
  unfolding same_writes_def by (auto intro: exI [of _ Map.empty])

lemma same_writes_upd:
  "same_writes fs (g, e) fs' (g', e) \<Longrightarrow> same_writes fs (g(q \<mapsto> v), e') fs' (g'(q \<mapsto> v), e')"
  unfolding same_writes_def by (auto intro: map_add_upd [symmetric])

lemmas same_writes_intros = same_writes_refl same_writes_upd [OF same_writes_refl]
  same_writes_upd [OF same_writes_upd [OF same_writes_refl]]
  same_writes_upd [OF same_writes_upd [OF same_writes_upd [OF same_writes_refl]]]

lemma draw_fig_same_writes:
  assumes "fs' ref = fs ref"
  shows "same_writes fs (draw_fig plt pfmap ref fig raw fs) fs' (draw_fig plt pfmap ref fig raw fs')"
proof -
  have "read_file fs' ref = read_file fs ref" using assms by (simp add: read_file_def)
  then show ?thesis
    unfolding draw_fig_def Let_def
    by (auto split: sum.split prod.split option.split intro: same_writes_intros)
qed

lemma draw_same_writes:
  assumes "get_pfmap_file_name p = Inr pf" and "get_refoutput_file_name p = Inr ref"
    and "fs' pf = fs pf" and "fs' ref = fs ref"
  shows "same_writes fs (draw plt p fs) fs' (draw plt p fs')"
proof -
  have "read_file fs' pf = read_file fs pf" using assms(3) by (simp add: read_file_def)
  moreover have "ref' = ref" if "get_refoutput_file_name p = Inr ref'" for ref'
    using that assms(2) by simp
  ultimately show ?thesis
    unfolding draw_def assms(1,2) bind_py_simps
    by (auto split: sum.split intro: same_writes_refl draw_fig_same_writes [of fs' ref fs, OF assms(4)])
qed
lemma ref2mem_keeps: "get_ref_file_name p = Inr ref \<Longrightarrow> q \<noteq> ref @ ''.mem'' \<Longrightarrow> fst (ref2mem p fs) q = fs q"
  by (auto simp: ref2mem_def convert_to_binary_def Let_def split: sum.split)

lemma trace2mem_keeps: "get_trace_file_name p = Inr t \<Longrightarrow> q \<noteq> t @ ''.mem'' \<Longrightarrow> fst (trace2mem p fs) q = fs q"
  by (auto simp: trace2mem_def split: sum.split prod.split)

text \<open>C35. The make rule calls \<open>ref2mem.py\<close>, \<open>trace2mem.py\<close> and \<open>draw.py\<close> on one file
  \<open>stem.output\<close>. The first two change nothing but \<open>stem.ref.mem\<close> and \<open>stem.trace.mem\<close>,
  whether they succeed or fail, and whether they are called or, as in the current make file, left
  out makes no difference to \<open>draw.py\<close>: it ends in the same way and writes the same files.\<close>

theorem make_rule_independent:
  fixes fs :: files
  assumes "cut_output p = Some (stem, [])"
  defines "fs' \<equiv> fst (trace2mem p (fst (ref2mem p fs)))"
  shows "same_writes fs (draw plt p fs) fs' (draw plt p fs') \<and>
    (q \<noteq> stem @ ''.ref.mem'' \<and> q \<noteq> stem @ ''.trace.mem'' \<longrightarrow> fs' q = fs q)"
proof -
  note names = trace_name.name_ok [OF assms(1)] pfmap_name.name_ok [OF assms(1)] refoutput_name.name_ok [OF assms(1)]
  have "get_ref_file_name p = Inr (stem @ ''.ref'')" by (simp add: ref_name_eq assms(1))
  then have keeps: "fs' q = fs q" if "q \<noteq> stem @ ''.ref.mem''" "q \<noteq> stem @ ''.trace.mem''" for q
    using that names(1) ref2mem_keeps [of p "stem @ ''.ref''" q fs]
      trace2mem_keeps [of p "stem @ ''.trace''" q "fst (ref2mem p fs)"]
    by (simp add: fs'_def)
  then have "same_writes fs (draw plt p fs) fs' (draw plt p fs')"
    by (intro draw_same_writes [OF names(2,3)]) simp_all
  with keeps show ?thesis by blast
qed

theorem make_rule_independent_witness:
  "cut_output ''t.output'' = Some (''t'', []) \<and>
   fst (trace2mem ''t.output'' (fst (ref2mem ''t.output'' [''t.ref'' \<mapsto> ''5'']))) ''t.ref'' = Some ''5''"
proof
  show c: "cut_output ''t.output'' = Some (''t'', [])" by code_simp
  show "fst (trace2mem ''t.output'' (fst (ref2mem ''t.output'' [''t.ref'' \<mapsto> ''5'']))) ''t.ref'' = Some ''5''"
    using make_rule_independent [OF c, of "[''t.ref'' \<mapsto> ''5'']" sample_plt "''t.ref''"] by simp
qed

section \<open>From the trace to the figures\<close>



section \<open>From the policy to the figures\<close>

lemma two_packets_compile: "\<exists>c fs. test2_1 two_packets ''t.output'' Map.empty = Inr (c, fs)"
proof -
  have n: "cut_output ''t.output'' = Some (''t'', [])" by code_simp
  obtain c where c: "prepared c" "sp_ready c" "test2_1 two_packets ''t.output'' Map.empty =
      compile two_packets pcap_name ''t.trace'' ''t.pfmap'' False c (Map.empty(''t.output'' \<mapsto> path_table_text))"
    using test2_1_run [OF n, of two_packets Map.empty] by auto
  then have "policy_ok c" by (simp add: prepared_def)
  from sp_compile_returns [where pcap = two_packets, OF this c(2) two_packets_ok] c(3) show ?thesis by auto
qed





text \<open>C36. The compiler and \<open>trace2mem.py\<close> do not fit together: identifiers of nodes are multiples of 10, so the
  users of the three programs are 10 and 20, which do not fit the \<open>TREE_NUM_BITS\<close> of the script. Every
  packet line of a trace they write is accepted, and its row is too long for the memory.\<close>

theorem compiled_rows_overflow:
  fixes fs :: files
  assumes "cut_output p = Some (stem, b)" and "pcap pcap_name = Some (ps, ok)"
    and "test \<in> {test2_1, test2_2, test2_3}" and "test pcap p fs = Inr (c, fs1)"
  shows "\<exists>es. fs1 (stem @ ''.trace'' @ b) = Some (unlines (map trace_line es)) \<and>
    length (packets_in es) = length (handled is_test_flow ps) \<and>
    (\<forall>t m q0 q1. Push t m q0 q1 \<in> set es \<longrightarrow>
      (\<exists>row. encode_line (trace_line (Push t m q0 q1)) = Inr row \<and> TOTAL_WIDTH < length row))"
proof -
  obtain c0 pf where c0: "prepared c0" "compile pcap pcap_name (stem @ ''.trace'' @ b) (stem @ ''.pfmap'' @ b) pf c0 (fs(p \<mapsto> path_table_text)) = Inr (c, fs1)"
    using tests_compile [where pcap = pcap, OF assms(3,1,4)] by blast
  have ok: "policy_ok c0" "attached c0 = is_test_flow" using c0(1) by (simp_all add: prepared_def)
  obtain es kvs where es: "fs1 (stem @ ''.trace'' @ b) = Some (unlines (map trace_line es))" "agree c0 (handled is_test_flow ps) es kvs"
    using compile_agree [where pcap = pcap, OF ok(1) assms(2) _ c0(2)] ok(2) by fastforce
  have "\<exists>row. encode_line (trace_line (Push t m q0 q1)) = Inr row \<and> TOTAL_WIDTH < length row" if e: "Push t m q0 q1 \<in> set es" for t m q0 q1
  proof (rule trace2mem_overflow)
    show "2 ^ TREE_NUM_BITS \<le> t" "0 \<le> m" using agree_push [OF es(2) c0(1) e] by (auto simp: width_defs)
    show "0 \<le> q0" "0 \<le> q1" using es(2) e by (auto simp: agree_def list_all_iff in_range_def)
  qed
  moreover have "length (packets_in es) = length (handled is_test_flow ps)" using es(2) by (simp add: agree_def)
  ultimately show ?thesis using es(1) by blast
qed

theorem compiled_rows_overflow_witness:
  "\<exists>c fs1 es. test2_1 two_packets ''t.output'' Map.empty = Inr (c, fs1) \<and> fs1 ''t.trace'' = Some (unlines (map trace_line es)) \<and>
     packets_in es \<noteq> []"
proof -
  have n: "cut_output ''t.output'' = Some (''t'', [])" by code_simp
  obtain c fs1 where r: "test2_1 two_packets ''t.output'' Map.empty = Inr (c, fs1)" using two_packets_compile by blast
  have "test2_1 \<in> {test2_1, test2_2, test2_3}" by simp
  from compiled_rows_overflow [where pcap = two_packets and test = test2_1, OF n two_packets_ok(1) this r]
  obtain es where "fs1 ''t.trace'' = Some (unlines (map trace_line es))"
    "length (packets_in es) = length (handled is_test_flow [(\<lparr>tv_sec = 1, tv_usec = 0, len = 30\<rparr>, udp_packet 1), (\<lparr>tv_sec = 1, tv_usec = 9, len = 30\<rparr>, udp_packet 2)])"
    by auto
  with r two_packets_handled show ?thesis by fastforce
qed

end
